(* ===== verification/Prelude.thy ===== *)
theory Prelude
  imports Complex_Main "HOL-Library.AList"
begin

text \<open>
  What the components share: thrown errors as values, truthiness of optional strings,
  insertion-ordered maps (JavaScript's \<open>Map\<close>), stable sorting with a comparator, and the
  string operations of the source (\<open>trim\<close>, \<open>toLowerCase\<close>, decimal conversion of bigints,
  character classes of the regular expressions).

  A JavaScript string is modelled as a list of characters, one per UTF-16 code unit, for the
  strings whose code units are all below 256. Lengths count code units, as the source's
  \<open>length\<close> does; \<open>utf8_length\<close> counts the bytes \<open>Buffer.byteLength\<close> counts on them.
\<close>

named_theorems store_simps \<open>reading and writing the insertion-ordered maps\<close>
named_theorems js_simps \<open>evaluation of the small JavaScript helpers\<close>
named_theorems inv_intros \<open>introduction rules for well-formedness of states\<close>

section \<open>Errors\<close>

text \<open>
  A throw is the value \<open>Inl\<close> of an error: its class and its message. The classes are the ones
  the source declares; \<open>PlainError\<close> is the built-in \<open>Error\<close>.
\<close>

datatype application_error_kind = ACCESS_DENIED | NOT_FOUND | CONFLICT | INVALID | USERNAME_UNAVAILABLE | VERSION_CONFLICT

datatype error_class =
    PlainError
  | InvalidPaymentTransitionError
  | PaymentVersionConflictError
  | PaymentIntentInputError
  | PaymentIntentApplicationError application_error_kind
  | AccountAccessDeniedError
  | AccountVersionConflictError
  | ExternalIdentityConflictError
  | PaymentRequestInputError
  | PaymentRequestVersionConflictError
  | PaymentRequestApplicationError application_error_kind
  | ExecutionApplicationError application_error_kind
  | EconomicIdentityInputError
  | EconomicIdentityVersionConflictError
  | UsernameConflictError
  | PaymentDestinationConflictError
  | EconomicIdentityApplicationError application_error_kind
  | RecipientDirectoryError application_error_kind

datatype js_error = Err error_class string

fun error_class_of :: "js_error \<Rightarrow> error_class" where
  "error_class_of (Err c m) = c"

fun error_message :: "js_error \<Rightarrow> string" where
  "error_message (Err c m) = m"

abbreviation throw :: "string \<Rightarrow> js_error + 'a" where
  "throw m \<equiv> Inl (Err PlainError m)"

type_synonym 'a result = "js_error + 'a"

text \<open>An operation on a state returns what it returned or threw, and the state it left.\<close>

type_synonym ('s, 'a) outcome = "'a result \<times> 's"

definition succeeds :: "'a result \<Rightarrow> bool" where
  "succeeds r = (case r of Inl e \<Rightarrow> False | Inr x \<Rightarrow> True)"

lemma succeeds_simps [simp, js_simps]:
  "succeeds (Inr x)" "\<not> succeeds (Inl e)"
  by (simp_all add: succeeds_def)

lemma succeeds_iff: "succeeds r \<longleftrightarrow> (\<exists>x. r = Inr x)"
  by (cases r) simp_all

text \<open>Sequencing of fallible computations, stopping at the first throw.\<close>

definition and_then :: "'a result \<Rightarrow> ('a \<Rightarrow> 'b result) \<Rightarrow> 'b result" where
  "and_then r f = (case r of Inl e \<Rightarrow> Inl e | Inr x \<Rightarrow> f x)"

lemma and_then_simps [simp, js_simps, code]:
  "and_then (Inl e) f = Inl e" "and_then (Inr x) f = f x"
  by (simp_all add: and_then_def)

lemma and_then_Inr: "and_then r f = Inr y \<longleftrightarrow> (\<exists>x. r = Inr x \<and> f x = Inr y)"
  by (cases r) simp_all

lemma and_then_return [simp]: "and_then r Inr = r"
  by (cases r) simp_all

fun map_result :: "('a \<Rightarrow> 'b result) \<Rightarrow> 'a list \<Rightarrow> 'b list result" where
  "map_result f [] = Inr []"
| "map_result f (x # xs) = and_then (f x) (\<lambda>y. and_then (map_result f xs) (\<lambda>ys. Inr (y # ys)))"

lemma map_result_Inr:
  "map_result f xs = Inr ys \<longleftrightarrow> list_all2 (\<lambda>x y. f x = Inr y) xs ys"
  by (induction xs arbitrary: ys) (auto simp: and_then_Inr list_all2_Cons1)

lemma map_result_id:
  "(\<And>x. x \<in> set xs \<Longrightarrow> f x = Inr x) \<Longrightarrow> map_result f xs = Inr xs"
  by (induction xs) auto

text \<open>
  Steps of an operation: a check that throws leaves the state where it is; a step that throws
  leaves the state it reached.
\<close>

definition when_ok :: "'a result \<Rightarrow> 's \<Rightarrow> ('a \<Rightarrow> ('s, 'b) outcome) \<Rightarrow> ('s, 'b) outcome" where
  "when_ok r s f = (case r of Inl e \<Rightarrow> (Inl e, s) | Inr x \<Rightarrow> f x)"

definition then_do :: "('s, 'a) outcome \<Rightarrow> ('a \<Rightarrow> 's \<Rightarrow> ('s, 'b) outcome) \<Rightarrow> ('s, 'b) outcome" where
  "then_do o' f = (case fst o' of Inl e \<Rightarrow> (Inl e, snd o') | Inr x \<Rightarrow> f x (snd o'))"

lemma when_ok_simps [simp, js_simps, code]:
  "when_ok (Inl e) s f = (Inl e, s)" "when_ok (Inr x) s f = f x"
  by (simp_all add: when_ok_def)

lemma then_do_simps [simp, js_simps, code]:
  "then_do (Inl e, s) f = (Inl e, s)" "then_do (Inr x, s) f = f x s"
  by (simp_all add: then_do_def)

lemma when_ok_Inr: "when_ok r s f = (Inr y, s') \<longleftrightarrow> (\<exists>x. r = Inr x \<and> f x = (Inr y, s'))"
  by (cases r) simp_all

lemma when_ok_Inl: "when_ok r s f = (Inl e, s') \<longleftrightarrow> (r = Inl e \<and> s' = s) \<or> (\<exists>x. r = Inr x \<and> f x = (Inl e, s'))"
  by (cases r) auto

lemma then_do_Inr: "then_do o' f = (Inr y, s') \<longleftrightarrow> (\<exists>x t. o' = (Inr x, t) \<and> f x t = (Inr y, s'))"
  by (cases o'; cases "fst o'") auto

lemma then_do_Inl:
  "then_do o' f = (Inl e, s') \<longleftrightarrow> o' = (Inl e, s') \<or> (\<exists>x t. o' = (Inr x, t) \<and> f x t = (Inl e, s'))"
  by (cases o'; cases "fst o'") auto

text \<open>What an operation throws, if it throws, and the state it leaves.\<close>

definition thrown :: "('s, 'a) outcome \<Rightarrow> js_error option \<times> 's" where
  "thrown o' = ((case fst o' of Inl e \<Rightarrow> Some e | Inr x \<Rightarrow> None), snd o')"

lemma thrown_simps [simp]:
  "thrown (Inl e, s) = (Some e, s)" "thrown (Inr x, s) = (None, s)"
  by (simp_all add: thrown_def)

lemma thrown_cases:
  assumes "thrown o' = (err, t)"
  obtains r where "o' = (r, t)" "err = (case r of Inl e \<Rightarrow> Some e | Inr x \<Rightarrow> None)"
  using assms by (cases o') (auto simp: thrown_def)

lemma thrown_none: "thrown o' = (None, t) \<Longrightarrow> \<exists>r. o' = (Inr r, t)"
  by (cases o'; cases "fst o'") (auto simp: thrown_def)

section \<open>Optional strings\<close>

text \<open>\<open>if (value)\<close> on an optional string holds when it is neither undefined nor empty.\<close>

definition truthy :: "string option \<Rightarrow> bool" where
  "truthy v = (case v of None \<Rightarrow> False | Some s \<Rightarrow> s \<noteq> '''')"

lemma truthy_simps [simp, js_simps]:
  "\<not> truthy None" "truthy (Some s) \<longleftrightarrow> s \<noteq> ''''"
  by (simp_all add: truthy_def)

lemma truthy_iff: "truthy v \<longleftrightarrow> (\<exists>s. v = Some s \<and> s \<noteq> '''')"
  by (cases v) auto

text \<open>\<open>next === undefined ? previous : next\<close>, and \<open>next ?? previous\<close> for undefined.\<close>

definition defined :: "'a option \<Rightarrow> 'a option \<Rightarrow> 'a option" where
  "defined new previous = (case new of None \<Rightarrow> previous | Some x \<Rightarrow> Some x)"

lemma defined_simps [simp, js_simps]:
  "defined None p = p" "defined (Some x) p = Some x"
  by (simp_all add: defined_def)

definition coalesce :: "'a option \<Rightarrow> 'a \<Rightarrow> 'a" where
  "coalesce v d = (case v of None \<Rightarrow> d | Some x \<Rightarrow> x)"

lemma coalesce_simps [simp, js_simps]:
  "coalesce None d = d" "coalesce (Some x) d = x"
  by (simp_all add: coalesce_def)

section \<open>Insertion-ordered maps\<close>

text \<open>
  JavaScript's \<open>Map\<close> keeps its entries in insertion order and overwrites an entry in place:
  an association list with \<open>AList.update\<close>.
\<close>

type_synonym ('k, 'v) js_map = "('k \<times> 'v) list"

definition js_get :: "('k, 'v) js_map \<Rightarrow> 'k \<Rightarrow> 'v option" where
  "js_get m k = map_of m k"

definition js_has :: "('k, 'v) js_map \<Rightarrow> 'k \<Rightarrow> bool" where
  "js_has m k = (js_get m k \<noteq> None)"

definition js_set :: "('k, 'v) js_map \<Rightarrow> 'k \<Rightarrow> 'v \<Rightarrow> ('k, 'v) js_map" where
  "js_set m k v = AList.update k v m"

definition js_values :: "('k, 'v) js_map \<Rightarrow> 'v list" where
  "js_values m = map snd m"

definition js_keys_distinct :: "('k, 'v) js_map \<Rightarrow> bool" where
  "js_keys_distinct m = distinct (map fst m)"

lemma js_get_empty [simp, store_simps]: "js_get [] k = None"
  by (simp add: js_get_def)

lemma js_get_set [simp, store_simps]:
  "js_get (js_set m k v) k' = (if k' = k then Some v else js_get m k')"
  by (simp add: js_get_def js_set_def update_conv')

lemma js_has_iff [store_simps]: "js_has m k \<longleftrightarrow> (\<exists>v. js_get m k = Some v)"
  by (auto simp: js_has_def)

lemma js_keys_distinct_empty [simp]: "js_keys_distinct []"
  by (simp add: js_keys_distinct_def)

lemma js_keys_distinct_set [simp, inv_intros]:
  "js_keys_distinct m \<Longrightarrow> js_keys_distinct (js_set m k v)"
  by (simp add: js_keys_distinct_def js_set_def distinct_update)

lemma js_values_get:
  "js_get m k = Some v \<Longrightarrow> v \<in> set (js_values m)"
  by (force simp: js_get_def js_values_def dest: map_of_SomeD)

lemma js_values_in:
  assumes "js_keys_distinct m" and "v \<in> set (js_values m)"
  shows "\<exists>k. js_get m k = Some v"
  using assms by (auto simp: js_get_def js_values_def js_keys_distinct_def)

text \<open>A fresh key goes last; an existing key keeps its place.\<close>

lemma js_set_fresh: "js_get m k = None \<Longrightarrow> js_set m k v = m @ [(k, v)]"
  by (induction m) (auto simp: js_get_def js_set_def split: if_splits)

lemma js_set_keys: "js_get m k \<noteq> None \<Longrightarrow> map fst (js_set m k v) = map fst m"
  by (simp add: js_get_def js_set_def map_of_eq_None_iff update_keys)

text \<open>The contract of a keyed store that its clients rely on.\<close>

locale keyed_store =
  fixes empty_store :: "'m"
    and lookup :: "'m \<Rightarrow> 'k \<Rightarrow> 'v option"
    and store :: "'m \<Rightarrow> 'k \<Rightarrow> 'v \<Rightarrow> 'm"
  assumes lookup_empty: "lookup empty_store k = None"
    and lookup_store: "lookup (store m k v) k' = (if k' = k then Some v else lookup m k')"
begin

lemma lookup_store_same: "lookup (store m k v) k = Some v"
  by (simp add: lookup_store)

lemma lookup_store_other: "k' \<noteq> k \<Longrightarrow> lookup (store m k v) k' = lookup m k'"
  by (simp add: lookup_store)

lemma store_all_keeps:
  assumes "\<And>k v. lookup m k = Some v \<Longrightarrow> P k v" and "P k0 v0"
  shows "lookup (store m k0 v0) k = Some v \<Longrightarrow> P k v"
  using assms by (auto simp: lookup_store split: if_splits)

end

interpretation jsm: keyed_store "[]" js_get js_set
  by unfold_locales simp_all

section \<open>Stable sorting with a comparator\<close>

text \<open>
  \<open>Array.prototype.sort\<close> is stable: with a consistent comparator its result is the one
  insertion gives when an element goes before the first strictly greater one.
\<close>

fun js_insert :: "('a \<Rightarrow> 'a \<Rightarrow> int) \<Rightarrow> 'a \<Rightarrow> 'a list \<Rightarrow> 'a list" where
  "js_insert c x [] = [x]"
| "js_insert c x (y # ys) = (if c x y \<le> 0 then x # y # ys else y # js_insert c x ys)"

definition js_sort :: "('a \<Rightarrow> 'a \<Rightarrow> int) \<Rightarrow> 'a list \<Rightarrow> 'a list" where
  "js_sort c xs = foldr (js_insert c) xs []"

lemma set_js_insert [simp]: "set (js_insert c x ys) = insert x (set ys)"
  by (induction ys) auto

lemma length_js_insert [simp]: "length (js_insert c x ys) = Suc (length ys)"
  by (induction ys) auto

lemma set_js_sort [simp]: "set (js_sort c xs) = set xs"
  by (induction xs) (simp_all add: js_sort_def)

lemma length_js_sort [simp]: "length (js_sort c xs) = length xs"
  by (induction xs) (simp_all add: js_sort_def)

lemma distinct_js_insert: "distinct ys \<Longrightarrow> x \<notin> set ys \<Longrightarrow> distinct (js_insert c x ys)"
  by (induction ys) auto

lemma distinct_js_sort: "distinct xs \<Longrightarrow> distinct (js_sort c xs)"
proof (induction xs)
  case (Cons x xs)
  then have "distinct (js_sort c xs)" and "x \<notin> set (js_sort c xs)" by simp_all
  then show ?case by (simp add: js_sort_def distinct_js_insert)
qed (simp add: js_sort_def)

text \<open>Comparator laws, and sortedness of the result under them.\<close>

definition comparator_laws :: "('a \<Rightarrow> 'a \<Rightarrow> int) \<Rightarrow> bool" where
  "comparator_laws c \<longleftrightarrow> (\<forall>x y. c x y \<le> 0 \<or> c y x \<le> 0) \<and>
     (\<forall>x y z. c x y \<le> 0 \<longrightarrow> c y z \<le> 0 \<longrightarrow> c x z \<le> 0)"

lemma sorted_js_insert:
  assumes "comparator_laws c" and "sorted_wrt (\<lambda>x y. c x y \<le> 0) ys"
  shows "sorted_wrt (\<lambda>x y. c x y \<le> 0) (js_insert c x ys)"
  using assms(2)
proof (induction ys)
  case (Cons y ys)
  show ?case
  proof (cases "c x y \<le> 0")
    case True
    with Cons.prems assms(1) show ?thesis
      by (auto simp: comparator_laws_def)
  next
    case False
    with assms(1) have "c y x \<le> 0" by (auto simp: comparator_laws_def)
    with False Cons show ?thesis by auto
  qed
qed simp

lemma sorted_js_sort:
  "comparator_laws c \<Longrightarrow> sorted_wrt (\<lambda>x y. c x y \<le> 0) (js_sort c xs)"
  by (induction xs) (auto simp: js_sort_def intro: sorted_js_insert)

text \<open>\<open>a.localeCompare(b) || c.localeCompare(d)\<close>\<close>

definition or_compare :: "int \<Rightarrow> int \<Rightarrow> int" where
  "or_compare a b = (if a \<noteq> 0 then a else b)"

section \<open>Strings\<close>

text \<open>White space and line terminators of \<open>trim\<close>, below code unit 256.\<close>

definition is_js_space :: "char \<Rightarrow> bool" where
  "is_js_space c = (c \<in> set [CHR 0x09, CHR 0x0A, CHR 0x0B, CHR 0x0C, CHR 0x0D, CHR 0x20, CHR 0xA0])"

definition js_trim :: "string \<Rightarrow> string" where
  "js_trim s = rev (dropWhile is_js_space (rev (dropWhile is_js_space s)))"

definition js_lower_char :: "char \<Rightarrow> char" where
  "js_lower_char c = (let n = (of_char c :: nat) in
     if 65 \<le> n \<and> n \<le> 90 \<or> 192 \<le> n \<and> n \<le> 222 \<and> n \<noteq> 215 then char_of (n + 32) else c)"

definition js_lower :: "string \<Rightarrow> string" where
  "js_lower s = map js_lower_char s"

definition utf8_length :: "string \<Rightarrow> nat" where
  "utf8_length s = sum_list (map (\<lambda>c. if (of_char c :: nat) < 128 then 1 else 2) s)"

definition nul :: string where
  "nul = [CHR 0x00]"

lemma js_trim_length: "length (js_trim s) \<le> length s"
proof -
  have "length (js_trim s) \<le> length (dropWhile is_js_space s)"
    unfolding js_trim_def by (metis length_dropWhile_le length_rev)
  then show ?thesis by (meson le_trans length_dropWhile_le)
qed

lemma dropWhile_rev_stable:
  assumes "dropWhile P s = s"
  shows "dropWhile P (rev (dropWhile P (rev s))) = rev (dropWhile P (rev s))"
proof (cases s)
  case (Cons a t)
  with assms have na: "\<not> P a" by (metis dropWhile_eq_Cons_conv list.inject)
  have "rev (dropWhile P (rev s)) = a # rev (dropWhile P (rev t))"
    using na Cons by (cases "\<forall>x\<in>set t. P x")
      (auto simp: dropWhile_append dropWhile_append3 dropWhile_eq_Nil_conv)
  with na show ?thesis by simp
qed simp

lemma js_trim_idem [simp]: "js_trim (js_trim s) = js_trim s"
proof -
  let ?t = "dropWhile is_js_space s"
  have t: "dropWhile is_js_space ?t = ?t" by (simp add: dropWhile_idem)
  then have "dropWhile is_js_space (js_trim s) = js_trim s"
    unfolding js_trim_def by (rule dropWhile_rev_stable)
  then show ?thesis by (simp add: js_trim_def dropWhile_idem)
qed

subsection \<open>Character classes\<close>

definition is_digit :: "char \<Rightarrow> bool" where
  "is_digit c = (48 \<le> (of_char c :: nat) \<and> (of_char c :: nat) \<le> 57)"

definition is_lower_hex :: "char \<Rightarrow> bool" where
  "is_lower_hex c = (c \<in> set ''0123456789abcdef'')"

definition is_hex_i :: "char \<Rightarrow> bool" where
  "is_hex_i c = (c \<in> set ''0123456789abcdefABCDEF'')"

definition is_alnum :: "char \<Rightarrow> bool" where
  "is_alnum c = (c \<in> set ''0123456789abcdefghijklmnopqrstuvwxyzABCDEFGHIJKLMNOPQRSTUVWXYZ'')"

text \<open>\<open>/^[a-f0-9]{64}$/\<close>\<close>

definition is_sha256_hex :: "string \<Rightarrow> bool" where
  "is_sha256_hex s = (length s = 64 \<and> list_all is_lower_hex s)"

text \<open>\<open>/^[0-9a-f]{8}-[0-9a-f]{4}-[1-5][0-9a-f]{3}-[89ab][0-9a-f]{3}-[0-9a-f]{12}$/i\<close>\<close>

fun match_classes :: "(char \<Rightarrow> bool) list \<Rightarrow> string \<Rightarrow> bool" where
  "match_classes [] [] = True"
| "match_classes (p # ps) (c # cs) = (p c \<and> match_classes ps cs)"
| "match_classes ps cs = False"

definition uuid_classes :: "(char \<Rightarrow> bool) list" where
  "uuid_classes =
     replicate 8 is_hex_i @ [\<lambda>c. c = CHR ''-''] @
     replicate 4 is_hex_i @ [\<lambda>c. c = CHR ''-''] @
     [\<lambda>c. c \<in> set ''12345''] @ replicate 3 is_hex_i @ [\<lambda>c. c = CHR ''-''] @
     [\<lambda>c. c \<in> set ''89abAB''] @ replicate 3 is_hex_i @ [\<lambda>c. c = CHR ''-''] @
     replicate 12 is_hex_i"

definition is_uuid :: "string \<Rightarrow> bool" where
  "is_uuid s = match_classes uuid_classes s"

lemma match_classes_length: "match_classes ps s \<Longrightarrow> length s = length ps"
  by (induction ps s rule: match_classes.induct) auto

lemma is_uuid_length: "is_uuid s \<Longrightarrow> length s = 36"
  unfolding is_uuid_def by (drule match_classes_length) (simp add: uuid_classes_def)

lemma is_uuid_nonempty: "is_uuid s \<Longrightarrow> s \<noteq> ''''"
  by (auto dest: is_uuid_length)

subsection \<open>Decimal numerals\<close>

definition digit_chr :: "nat \<Rightarrow> char" where
  "digit_chr d = char_of (48 + d)"

definition digit_val :: "char \<Rightarrow> nat" where
  "digit_val c = of_char c - 48"

fun nat_to_dec :: "nat \<Rightarrow> string" where
  "nat_to_dec n = (if n < 10 then [digit_chr n] else nat_to_dec (n div 10) @ [digit_chr (n mod 10)])"

declare nat_to_dec.simps [simp del]

definition dec_to_nat :: "string \<Rightarrow> nat" where
  "dec_to_nat s = foldl (\<lambda>a c. a * 10 + digit_val c) 0 s"

text \<open>\<open>BigInt.prototype.toString\<close>\<close>

definition int_to_dec :: "int \<Rightarrow> string" where
  "int_to_dec i = (if i < 0 then ''-'' @ nat_to_dec (nat (- i)) else nat_to_dec (nat i))"

lemma digit_chr_zero: "digit_chr 0 = CHR ''0''"
proof -
  have "(of_char (digit_chr 0) :: nat) = of_char CHR ''0''" by (simp add: digit_chr_def)
  then show ?thesis by (simp only: of_char_eq_iff)
qed

lemma of_char_digit_chr: "d < 10 \<Longrightarrow> (of_char (digit_chr d) :: nat) = 48 + d"
  by (simp add: digit_chr_def)

lemma digit_val_chr [simp]: "d < 10 \<Longrightarrow> digit_val (digit_chr d) = d"
  by (simp add: digit_val_def of_char_digit_chr)

lemma digit_chr_digit [simp]: "d < 10 \<Longrightarrow> is_digit (digit_chr d)"
  by (simp add: is_digit_def of_char_digit_chr)

lemma digit_chr_val: "is_digit c \<Longrightarrow> digit_chr (digit_val c) = c"
  by (simp add: is_digit_def digit_chr_def digit_val_def)

lemma digit_val_lt: "is_digit c \<Longrightarrow> digit_val c < 10"
  unfolding is_digit_def digit_val_def by arith

lemma dec_to_nat_snoc [simp]: "dec_to_nat (s @ [c]) = dec_to_nat s * 10 + digit_val c"
  by (simp add: dec_to_nat_def)

lemma dec_to_nat_Nil [simp]: "dec_to_nat [] = 0"
  by (simp add: dec_to_nat_def)

lemma dec_to_nat_append:
  "dec_to_nat (s @ t) = dec_to_nat s * 10 ^ length t + dec_to_nat t"
proof (induction t rule: rev_induct)
  case (snoc c t)
  then show ?case
    by (simp add: append_assoc [symmetric] algebra_simps del: append_assoc)
qed simp

lemma dec_to_nat_bound: "list_all is_digit s \<Longrightarrow> dec_to_nat s < 10 ^ length s"
proof (induction s rule: rev_induct)
  case (snoc c s)
  then have "dec_to_nat s < 10 ^ length s" and "digit_val c < 10"
    by (simp_all add: digit_val_lt)
  then show ?case by simp
qed simp

lemma nat_to_dec_digits: "list_all is_digit (nat_to_dec n)"
proof (induction n rule: nat_to_dec.induct)
  case (1 n)
  then show ?case by (subst nat_to_dec.simps) simp
qed

lemma nat_to_dec_nonempty [simp]: "nat_to_dec n \<noteq> []"
  by (subst nat_to_dec.simps) simp

lemma dec_to_nat_to_dec [simp]: "dec_to_nat (nat_to_dec n) = n"
proof (induction n rule: nat_to_dec.induct)
  case (1 n)
  then show ?case
    by (subst nat_to_dec.simps) (auto simp: dec_to_nat_def digit_val_chr)
qed

lemma nat_to_dec_inj: "nat_to_dec m = nat_to_dec n \<Longrightarrow> m = n"
  by (metis dec_to_nat_to_dec)

lemma nat_to_dec_no_leading_zero: "0 < n \<Longrightarrow> hd (nat_to_dec n) \<noteq> CHR ''0''"
proof (induction n rule: nat_to_dec.induct)
  case (1 n)
  show ?case
  proof (cases "n < 10")
    case True
    have "digit_val (digit_chr n) \<noteq> digit_val (digit_chr 0)" using True 1(2) by simp
    then have ne: "digit_chr n \<noteq> CHR ''0''" using digit_chr_zero by metis
    from True have "nat_to_dec n = [digit_chr n]" by (subst nat_to_dec.simps) simp
    with ne show ?thesis by (simp only: list.sel simp_thms)
  next
    case False
    then have "hd (nat_to_dec (n div 10)) \<noteq> CHR ''0''" using 1 by simp
    with False show ?thesis by (subst nat_to_dec.simps) simp
  qed
qed

lemma nat_to_dec_of_dec:
  assumes "list_all is_digit s" and "s \<noteq> []" and "s = ''0'' \<or> hd s \<noteq> CHR ''0''"
  shows "nat_to_dec (dec_to_nat s) = s"
  using assms
proof (induction s rule: rev_induct)
  case (snoc c s)
  then have c: "is_digit c" and s: "list_all is_digit s" by simp_all
  show ?case
  proof (cases s)
    case Nil
    with c show ?thesis
      by (subst nat_to_dec.simps) (simp add: dec_to_nat_def digit_val_lt digit_chr_val)
  next
    case (Cons a t)
    with snoc.prems have a: "a \<noteq> CHR ''0''" by auto
    then have ih: "nat_to_dec (dec_to_nat s) = s" using snoc.IH s Cons by simp
    have "dec_to_nat s \<noteq> 0"
    proof
      assume "dec_to_nat s = 0"
      with ih have "s = nat_to_dec 0" by simp
      then have "s = [digit_chr 0]" by (simp add: nat_to_dec.simps [of 0])
      moreover have "digit_chr 0 = CHR ''0''" by (simp add: digit_chr_zero)
      ultimately show False using a Cons by simp
    qed
    with c ih show ?thesis
      by (subst nat_to_dec.simps) (simp add: digit_val_lt digit_chr_val)
  qed
qed simp

lemma int_to_dec_inj: "int_to_dec a = int_to_dec b \<Longrightarrow> a = b"
proof -
  have d: "\<not> list_all is_digit (CHR ''-'' # s)" for s by (simp add: is_digit_def)
  assume eq: "int_to_dec a = int_to_dec b"
  then have "(a < 0) = (b < 0)"
    unfolding int_to_dec_def by (metis append_Cons d nat_to_dec_digits)
  with eq show ?thesis
    by (auto simp: int_to_dec_def split: if_splits dest!: nat_to_dec_inj)
qed

section \<open>The runtime\<close>

text \<open>
  What the code calls and does not define: the SHA-256 hex digest of a UTF-8 text
  (\<open>node:crypto\<close>), the milliseconds \<open>Date.parse\<close> finds in a text (nothing for NaN; the
  language leaves most formats to the implementation), the collation of \<open>localeCompare\<close>, the
  base58 text of a public key (\<open>@solana/web3.js\<close>; nothing when its constructor throws), the
  injected clock, as the function from the number of earlier readings to the next reading, the
  text \<open>Date.prototype.toISOString\<close> gives for a number of milliseconds, and the text of a finite number.
\<close>

record runtime_env =
  sha256_hex :: "string \<Rightarrow> string"
  date_parse :: "string \<Rightarrow> int option"
  locale_compare :: "string \<Rightarrow> string \<Rightarrow> int"
  public_key_base58 :: "string \<Rightarrow> string option"
  clock :: "nat \<Rightarrow> string"
  date_iso :: "int \<Rightarrow> string"
  number_text :: "rat \<Rightarrow> string"

text \<open>A concrete runtime for evaluating the model on examples.\<close>

definition sample_env :: runtime_env where
  "sample_env = \<lparr>sha256_hex = (\<lambda>s. replicate 64 CHR ''a''), date_parse = (\<lambda>s. Some (int (length s))),
     locale_compare = (\<lambda>a b. int (length a) - int (length b)), public_key_base58 = Some,
     clock = (\<lambda>n. ''t'' @ nat_to_dec n), date_iso = (\<lambda>n. ''i'' @ int_to_dec n),
     number_text = (\<lambda>q. int_to_dec (fst (quotient_of q)))\<rparr>"

text \<open>\<open>Date.parse(a) < Date.parse(b)\<close>, false when either is not a date; likewise \<open>\<le>\<close>.\<close>

definition time_before :: "runtime_env \<Rightarrow> string \<Rightarrow> string \<Rightarrow> bool" where
  "time_before env a b = (case (date_parse env a, date_parse env b) of
     (Some x, Some y) \<Rightarrow> x < y | _ \<Rightarrow> False)"

definition time_not_after :: "runtime_env \<Rightarrow> string \<Rightarrow> string \<Rightarrow> bool" where
  "time_not_after env a b = (case (date_parse env a, date_parse env b) of
     (Some x, Some y) \<Rightarrow> x \<le> y | _ \<Rightarrow> False)"

definition valid_time :: "runtime_env \<Rightarrow> string \<Rightarrow> bool" where
  "valid_time env a = (date_parse env a \<noteq> None)"

end
