(* ===== verification/JsonValues.thy ===== *)
theory JsonValues
  imports Complex_Main Prelude
begin

text \<open>
  \<open>src/storage/jsonValues.ts\<close>: JSON values as the persistence layer stores them, and the deep
  copy it takes of every value that crosses its boundary. \<open>cloneJsonValue\<close> refuses numbers that
  do not survive JSON (not finite, or integers beyond the safe range) and undefined members.
  The second half is the text \<open>JSON.stringify\<close> produces for the canonical objects that are
  hashed, with a reader that shows the text determines the value.
\<close>

section \<open>Values and cloning\<close>

text \<open>A JavaScript number, as far as \<open>isFinite\<close>, \<open>isInteger\<close> and \<open>isSafeInteger\<close> tell.\<close>

datatype js_number = NaN | Infinity bool | Finite rat

definition is_finite :: "js_number \<Rightarrow> bool" where
  "is_finite n = (case n of Finite q \<Rightarrow> True | _ \<Rightarrow> False)"

definition is_integer :: "js_number \<Rightarrow> bool" where
  "is_integer n = (case n of Finite q \<Rightarrow> snd (quotient_of q) = 1 | _ \<Rightarrow> False)"

definition is_safe_integer :: "js_number \<Rightarrow> bool" where
  "is_safe_integer n = (is_integer n \<and>
     (case n of Finite q \<Rightarrow> \<bar>q\<bar> \<le> 9007199254740991 | _ \<Rightarrow> False))"

text \<open>\<open>JUndefined\<close> is the value of a member that is present and undefined.\<close>

datatype json =
    JUndefined
  | JNull
  | JBool bool
  | JNumber js_number
  | JString string
  | JArray "json list"
  | JObject "(string \<times> json) list"

lemma map_result_cong [fundef_cong]:
  "xs = ys \<Longrightarrow> (\<And>x. x \<in> set ys \<Longrightarrow> f x = g x) \<Longrightarrow> map_result f xs = map_result g ys"
  by (induction xs arbitrary: ys) auto

text \<open>
  \<open>result[key] = item\<close> on a plain object: an assignment to \<open>__proto__\<close> sets the prototype of
  the object and leaves its own members as they were.
\<close>

definition assign_member :: "(string \<times> json) list \<Rightarrow> string \<times> json \<Rightarrow> (string \<times> json) list" where
  "assign_member r e = (if fst e = ''__proto__'' then r else js_set r (fst e) (snd e))"

definition number_ok :: "js_number \<Rightarrow> bool" where
  "number_ok n = (\<not> (\<not> is_finite n \<or> (is_integer n \<and> \<not> is_safe_integer n)))"

fun cloneJsonValue :: "json \<Rightarrow> json result" where
  "cloneJsonValue JNull = Inr JNull"
| "cloneJsonValue (JString s) = Inr (JString s)"
| "cloneJsonValue (JBool b) = Inr (JBool b)"
| "cloneJsonValue (JNumber n) =
     (if \<not> is_finite n \<or> (is_integer n \<and> \<not> is_safe_integer n)
      then throw ''JSON numbers must be finite and integer values must be safe.''
      else Inr (JNumber n))"
| "cloneJsonValue (JArray xs) =
     and_then (map_result cloneJsonValue xs) (\<lambda>ys. Inr (JArray ys))"
| "cloneJsonValue (JObject es) =
     and_then (map_result (\<lambda>e. if snd e = JUndefined
                               then throw ''JSON values cannot contain undefined.''
                               else and_then (cloneJsonValue (snd e)) (\<lambda>v. Inr (fst e, v))) es)
       (\<lambda>fs. Inr (JObject (foldl assign_member [] fs)))"
| "cloneJsonValue JUndefined = throw ''Value is not JSON-compatible.''"

text \<open>A \<open>JsonObject\<close> is the list of its members.\<close>

type_synonym json_object = "(string \<times> json) list"

definition cloneJsonObject :: "json_object \<Rightarrow> json_object result" where
  "cloneJsonObject o' = and_then (cloneJsonValue (JObject o'))
     (\<lambda>v. case v of JObject es \<Rightarrow> Inr es | _ \<Rightarrow> throw ''Value is not JSON-compatible.'')"

text \<open>The values that a clone can hold.\<close>

fun json_ok :: "json \<Rightarrow> bool" where
  "json_ok JUndefined = False"
| "json_ok JNull = True"
| "json_ok (JBool b) = True"
| "json_ok (JString s) = True"
| "json_ok (JNumber n) = number_ok n"
| "json_ok (JArray xs) = list_all json_ok xs"
| "json_ok (JObject es) = (list_all (\<lambda>e. json_ok (snd e)) es \<and> distinct (map fst es) \<and>
     ''__proto__'' \<notin> set (map fst es))"

abbreviation json_object_ok :: "json_object \<Rightarrow> bool" where
  "json_object_ok es \<equiv> json_ok (JObject es)"

lemma assign_members_keys:
  "set (map fst (foldl assign_member r fs)) \<subseteq> set (map fst r) \<union> (set (map fst fs) - {''__proto__''})"
proof (induction fs arbitrary: r)
  case (Cons f fs)
  have "set (map fst (assign_member r f)) \<subseteq> set (map fst r) \<union> ({fst f} - {''__proto__''})"
    by (auto simp: assign_member_def js_set_def dom_update)
  with Cons [of "assign_member r f"] show ?case by auto
qed simp

lemma assign_members_distinct:
  "distinct (map fst r) \<Longrightarrow> distinct (map fst (foldl assign_member r fs))"
  by (induction fs arbitrary: r)
    (auto simp: assign_member_def js_set_def distinct_update)

lemma update_values: "snd ` set (AList.update k v m) \<subseteq> insert v (snd ` set m)"
  by (induction m) auto

lemma assign_members_values:
  "snd ` set (foldl assign_member r fs) \<subseteq> snd ` set r \<union> snd ` set fs"
proof (induction fs arbitrary: r)
  case (Cons f fs)
  have "snd ` set (assign_member r f) \<subseteq> insert (snd f) (snd ` set r)"
    using update_values [of "fst f" "snd f" r] by (auto simp: assign_member_def js_set_def)
  with Cons [of "assign_member r f"] show ?case by auto
qed simp

lemma assign_members_fresh:
  assumes "distinct (map fst r @ map fst fs)" and "''__proto__'' \<notin> set (map fst fs)"
  shows "foldl assign_member r fs = r @ fs"
  using assms
proof (induction fs arbitrary: r)
  case (Cons f fs)
  then have "js_get r (fst f) = None"
    by (auto simp: js_get_def map_of_eq_None_iff)
  with Cons.prems have "assign_member r f = r @ [f]"
    by (auto simp: assign_member_def js_set_fresh)
  with Cons show ?case by simp
qed simp

text \<open>Cloning a storable value gives the value back.\<close>

lemma clone_id: "json_ok v \<Longrightarrow> cloneJsonValue v = Inr v"
proof (induction v rule: json_ok.induct)
  case (6 xs)
  then have "map_result cloneJsonValue xs = Inr xs"
    by (intro map_result_id) (auto simp: list_all_iff)
  then show ?case by simp
next
  case (7 es)
  let ?f = "\<lambda>e. if snd e = JUndefined then throw ''JSON values cannot contain undefined.''
                else and_then (cloneJsonValue (snd e)) (\<lambda>v. Inr (fst e, v))"
  have "map_result ?f es = Inr es"
  proof (rule map_result_id)
    fix e assume e: "e \<in> set es"
    with 7 have "json_ok (snd e)" by (auto simp: list_all_iff)
    with e 7(1) show "?f e = Inr e" by auto
  qed
  moreover have "foldl assign_member [] es = es"
    using 7(2) assign_members_fresh [of "[]" es] by simp
  ultimately show ?case by simp
qed (auto simp: number_ok_def)

text \<open>What a clone returns is storable.\<close>

lemma clone_ok: "cloneJsonValue v = Inr w \<Longrightarrow> json_ok w"
proof (induction v arbitrary: w rule: cloneJsonValue.induct)
  case (5 xs)
  then obtain ys where ys: "map_result cloneJsonValue xs = Inr ys" and w: "w = JArray ys"
    by (auto simp: and_then_Inr)
  from ys have "list_all2 (\<lambda>x y. cloneJsonValue x = Inr y) xs ys" by (simp add: map_result_Inr)
  then have "list_all json_ok ys"
    using 5(1) by (auto simp: list_all_iff in_set_conv_nth list_all2_conv_all_nth) (metis nth_mem)
  with w show ?case by simp
next
  case (6 es)
  then obtain fs where
    fs: "list_all2 (\<lambda>e f. (if snd e = JUndefined then throw ''JSON values cannot contain undefined.''
             else and_then (cloneJsonValue (snd e)) (\<lambda>v. Inr (fst e, v))) = Inr f) es fs"
    and w: "w = JObject (foldl assign_member [] fs)"
    by (auto simp: and_then_Inr map_result_Inr)
  have ok: "json_ok v" if "v \<in> snd ` set fs" for v
  proof -
    from that obtain i where i: "i < length fs" and v: "v = snd (fs ! i)"
      by (auto simp: in_set_conv_nth)
    with fs have len: "i < length es"
      and step: "(if snd (es ! i) = JUndefined then throw ''JSON values cannot contain undefined.''
             else and_then (cloneJsonValue (snd (es ! i))) (\<lambda>v. Inr (fst (es ! i), v))) = Inr (fs ! i)"
      by (simp_all add: list_all2_conv_all_nth)
    from step v have "snd (es ! i) \<noteq> JUndefined" "cloneJsonValue (snd (es ! i)) = Inr v"
      by (auto simp: and_then_Inr split: if_splits) (metis snd_conv)
    with len 6(1) [of "es ! i"] show ?thesis by simp
  qed
  let ?r = "foldl assign_member [] fs"
  have "\<And>e. e \<in> set ?r \<Longrightarrow> json_ok (snd e)"
    using assign_members_values [of "[]" fs] ok by auto
  moreover have "distinct (map fst ?r)" by (rule assign_members_distinct) simp
  moreover have "''__proto__'' \<notin> set (map fst ?r)"
    using assign_members_keys [of "[]" fs] by auto
  ultimately show ?case using w by (simp add: list_all_iff)
qed (auto simp: number_ok_def split: if_splits)

lemma clone_idem: "cloneJsonValue v = Inr w \<Longrightarrow> cloneJsonValue w = Inr w"
  by (rule clone_id) (rule clone_ok)

lemma clone_object_id: "json_object_ok es \<Longrightarrow> cloneJsonObject es = Inr es"
  using clone_id [of "JObject es"] by (simp add: cloneJsonObject_def del: cloneJsonValue.simps)

lemma clone_object_shape: "cloneJsonValue (JObject es) = Inr v \<Longrightarrow> \<exists>fs. v = JObject fs"
  by (auto simp: and_then_Inr)

lemma clone_object_ok:
  assumes "cloneJsonObject es = Inr fs"
  shows "json_object_ok fs"
proof -
  from assms obtain v where v: "cloneJsonValue (JObject es) = Inr v"
    and fs: "(case v of JObject gs \<Rightarrow> Inr gs | _ \<Rightarrow> throw ''Value is not JSON-compatible.'') = Inr fs"
    unfolding cloneJsonObject_def and_then_Inr by blast
  from clone_object_shape [OF v] fs have "v = JObject fs" by auto
  with v show ?thesis by (blast intro: clone_ok)
qed

section \<open>The text of canonical objects\<close>

text \<open>\<open>JSON.stringify\<close> of a string: quotes, with the escapes of the language.\<close>

definition hex_chr :: "nat \<Rightarrow> char" where
  "hex_chr d = char_of (if d < 10 then 48 + d else 87 + d)"

definition hex_val :: "char \<Rightarrow> nat" where
  "hex_val c = (let n = of_char c in if n < 58 then n - 48 else n - 87)"

definition json_escape :: "char \<Rightarrow> string" where
  "json_escape c =
     (if c = CHR 0x22 then [CHR 0x5C, CHR 0x22]
      else if c = CHR 0x5C then [CHR 0x5C, CHR 0x5C]
      else if c = CHR 0x08 then [CHR 0x5C, CHR ''b'']
      else if c = CHR 0x09 then [CHR 0x5C, CHR ''t'']
      else if c = CHR 0x0A then [CHR 0x5C, CHR ''n'']
      else if c = CHR 0x0C then [CHR 0x5C, CHR ''f'']
      else if c = CHR 0x0D then [CHR 0x5C, CHR ''r'']
      else if (of_char c :: nat) < 32
        then [CHR 0x5C, CHR ''u'', CHR ''0'', CHR ''0'', hex_chr (of_char c div 16), hex_chr (of_char c mod 16)]
      else [c])"

definition json_quote :: "string \<Rightarrow> string" where
  "json_quote s = [CHR 0x22] @ concat (map json_escape s) @ [CHR 0x22]"

text \<open>A reader of the characters up to the closing quote.\<close>

definition simple_escape :: "char \<Rightarrow> char option" where
  "simple_escape e =
     (if e = CHR 0x22 then Some (CHR 0x22)
      else if e = CHR 0x5C then Some (CHR 0x5C)
      else if e = CHR ''b'' then Some (CHR 0x08)
      else if e = CHR ''t'' then Some (CHR 0x09)
      else if e = CHR ''n'' then Some (CHR 0x0A)
      else if e = CHR ''f'' then Some (CHR 0x0C)
      else if e = CHR ''r'' then Some (CHR 0x0D)
      else None)"

fun read_chars :: "string \<Rightarrow> (string \<times> string) option" where
  "read_chars [] = None"
| "read_chars (c # cs) =
     (if c = CHR 0x22 then Some ([], cs)
      else if c \<noteq> CHR 0x5C then map_option (\<lambda>(s, r). (c # s, r)) (read_chars cs)
      else case cs of
             [] \<Rightarrow> None
           | e # es \<Rightarrow>
               if e = CHR ''u'' then
                 (case es of
                    a # b # h # l # rest \<Rightarrow>
                      map_option (\<lambda>(s, r). (char_of (16 * hex_val h + hex_val l) # s, r)) (read_chars rest)
                  | _ \<Rightarrow> None)
               else (case simple_escape e of
                       None \<Rightarrow> None
                     | Some d \<Rightarrow> map_option (\<lambda>(s, r). (d # s, r)) (read_chars es)))"

lemma hex_val_chr: "d < 16 \<Longrightarrow> hex_val (hex_chr d) = d"
  by (simp add: hex_val_def hex_chr_def)

lemma control_hex: "(of_char c :: nat) < 32 \<Longrightarrow>
    char_of (16 * hex_val (hex_chr (of_char c div 16)) + hex_val (hex_chr (of_char c mod 16))) = c"
proof -
  assume "(of_char c :: nat) < 32"
  then have "hex_val (hex_chr (of_char c div 16)) = of_char c div 16"
    and "hex_val (hex_chr (of_char c mod 16)) = of_char c mod 16"
    by (simp_all add: hex_val_chr)
  then show ?thesis by (simp only: mult_div_mod_eq char_of_char)
qed

lemma read_escape: "read_chars (json_escape c @ r) = map_option (\<lambda>(s, r). (c # s, r)) (read_chars r)"
proof -
  consider "c \<in> {CHR 0x22, CHR 0x5C, CHR 0x08, CHR 0x09, CHR 0x0A, CHR 0x0C, CHR 0x0D}"
    | "c \<notin> {CHR 0x22, CHR 0x5C, CHR 0x08, CHR 0x09, CHR 0x0A, CHR 0x0C, CHR 0x0D}"
      and "(of_char c :: nat) < 32"
    | "c \<notin> {CHR 0x22, CHR 0x5C, CHR 0x08, CHR 0x09, CHR 0x0A, CHR 0x0C, CHR 0x0D}"
      and "\<not> (of_char c :: nat) < 32"
    by blast
  then show ?thesis
  proof cases
    case 1
    then show ?thesis by (auto simp: json_escape_def simple_escape_def)
  next
    case 2
    then have "json_escape c = [CHR 0x5C, CHR ''u'', CHR ''0'', CHR ''0'',
        hex_chr (of_char c div 16), hex_chr (of_char c mod 16)]"
      by (simp add: json_escape_def)
    with 2 control_hex [of c] show ?thesis by simp
  next
    case 3
    then show ?thesis by (simp add: json_escape_def)
  qed
qed

lemma read_closing: "read_chars (CHR 0x22 # r) = Some ([], r)"
  by simp

lemma read_quoted: "read_chars (concat (map json_escape s) @ [CHR 0x22] @ r) = Some (s, r)"
  by (induction s) (simp_all only: read_escape read_closing concat.simps list.map append_assoc
      append_Nil append_Cons option.map prod.case)

lemma json_quote_prefix_free:
  assumes "json_quote s @ r = json_quote t @ r'"
  shows "s = t \<and> r = r'"
proof -
  from assms have "concat (map json_escape s) @ [CHR 0x22] @ r = concat (map json_escape t) @ [CHR 0x22] @ r'"
    unfolding json_quote_def append_Cons append_Nil append_assoc by (rule list.inject [THEN iffD1, THEN conjunct2])
  then have "read_chars (concat (map json_escape s) @ [CHR 0x22] @ r)
      = read_chars (concat (map json_escape t) @ [CHR 0x22] @ r')"
    by (rule arg_cong)
  then have "Some (s, r) = Some (t, r')" unfolding read_quoted .
  then show ?thesis by simp
qed

lemma json_quote_eq_iff [simp]: "json_quote s @ r = json_quote t @ r' \<longleftrightarrow> s = t \<and> r = r'"
  by (metis json_quote_prefix_free)

lemma json_quote_inj [simp]: "json_quote s = json_quote t \<longleftrightarrow> s = t"
  by (metis json_quote_prefix_free)

text \<open>A string member, and a member that is a string or null.\<close>

definition json_string_or_null :: "string option \<Rightarrow> string" where
  "json_string_or_null v = (case v of None \<Rightarrow> ''null'' | Some s \<Rightarrow> json_quote s)"

lemma json_quote_not_null: "json_quote s @ r \<noteq> ''null'' @ r'"
  by (simp add: json_quote_def)

lemma json_string_or_null_prefix_free [simp]:
  "json_string_or_null a @ r = json_string_or_null b @ r' \<longleftrightarrow> a = b \<and> r = r'"
proof (cases a; cases b)
  fix s assume "a = None" "b = Some s"
  then show ?thesis using json_quote_not_null [of s r' r] by (auto simp: json_string_or_null_def)
next
  fix s assume "a = Some s" "b = None"
  then show ?thesis using json_quote_not_null [of s r r'] by (auto simp: json_string_or_null_def)
qed (auto simp: json_string_or_null_def)

lemma json_string_or_null_inj [simp]: "json_string_or_null a = json_string_or_null b \<longleftrightarrow> a = b"
  using json_string_or_null_prefix_free [of a "[]" b "[]"] by simp

text \<open>An object whose members are already text, in order.\<close>

fun json_members :: "(string \<times> string) list \<Rightarrow> string" where
  "json_members [] = ''''"
| "json_members [(k, v)] = json_quote k @ '':'' @ v"
| "json_members ((k, v) # ms) = json_quote k @ '':'' @ v @ '','' @ json_members ms"

definition json_object_text :: "(string \<times> string) list \<Rightarrow> string" where
  "json_object_text ms = ''{'' @ json_members ms @ ''}''"

end
