(* ===== verification/PaymentTypes.thy ===== *)
theory PaymentTypes
  imports JsonValues
begin

text \<open>
  \<open>src/payments/paymentTypes.ts\<close>, \<open>src/receipts/paymentReceipt.ts\<close> and the input types of
  \<open>src/storage/storageContracts.ts\<close>. Field names carry a short prefix where several records of
  the source share a name (\<open>p_\<close> payments, \<open>ev_\<close> events, \<open>rc_\<close> receipts, \<open>sn_\<close> identity
  snapshots). Optional fields are options; bigints are \<open>int\<close>. The union types of a snapshot are
  strings, since the code compares and checks them as strings.
\<close>

section \<open>Statuses and event types\<close>

datatype payment_status = AWAITING_CONFIRMATION | PROCESSING | UNKNOWN | COMPLETED | FAILED

fun status_text :: "payment_status \<Rightarrow> string" where
  "status_text AWAITING_CONFIRMATION = ''AWAITING_CONFIRMATION''"
| "status_text PROCESSING = ''PROCESSING''"
| "status_text UNKNOWN = ''UNKNOWN''"
| "status_text COMPLETED = ''COMPLETED''"
| "status_text FAILED = ''FAILED''"

text \<open>The statuses in the order of \<open>PAYMENT_STATUSES\<close>, which is the order a payment takes them.\<close>

definition PAYMENT_STATUSES :: "payment_status list" where
  "PAYMENT_STATUSES = [AWAITING_CONFIRMATION, PROCESSING, UNKNOWN, COMPLETED, FAILED]"

fun status_rank :: "payment_status \<Rightarrow> nat" where
  "status_rank AWAITING_CONFIRMATION = 0"
| "status_rank PROCESSING = 1"
| "status_rank UNKNOWN = 2"
| "status_rank COMPLETED = 3"
| "status_rank FAILED = 4"

lemma status_rank_nth: "PAYMENT_STATUSES ! status_rank s = s \<and> status_rank s < 5"
  by (cases s) (simp_all add: PAYMENT_STATUSES_def)

lemma status_rank_inj [simp]: "status_rank s = status_rank t \<longleftrightarrow> s = t"
  by (metis status_rank_nth)

instantiation payment_status :: linorder
begin

definition less_eq_payment_status :: "payment_status \<Rightarrow> payment_status \<Rightarrow> bool" where
  "less_eq_payment_status s t = (status_rank s \<le> status_rank t)"

definition less_payment_status :: "payment_status \<Rightarrow> payment_status \<Rightarrow> bool" where
  "less_payment_status s t = (status_rank s < status_rank t)"

instance
  by standard (auto simp: less_eq_payment_status_def less_payment_status_def)

end

datatype payment_event_type =
    CREATED
  | USER_CONFIRMED
  | RUNTIME_APPROVED
  | SUBMISSION_STARTED
  | SIGNATURE_OBSERVED
  | SETTLEMENT_UNKNOWN
  | SETTLEMENT_CONFIRMED
  | SETTLEMENT_FAILED
  | RECEIPT_VERIFIED

fun event_type_text :: "payment_event_type \<Rightarrow> string" where
  "event_type_text CREATED = ''CREATED''"
| "event_type_text USER_CONFIRMED = ''USER_CONFIRMED''"
| "event_type_text RUNTIME_APPROVED = ''RUNTIME_APPROVED''"
| "event_type_text SUBMISSION_STARTED = ''SUBMISSION_STARTED''"
| "event_type_text SIGNATURE_OBSERVED = ''SIGNATURE_OBSERVED''"
| "event_type_text SETTLEMENT_UNKNOWN = ''SETTLEMENT_UNKNOWN''"
| "event_type_text SETTLEMENT_CONFIRMED = ''SETTLEMENT_CONFIRMED''"
| "event_type_text SETTLEMENT_FAILED = ''SETTLEMENT_FAILED''"
| "event_type_text RECEIPT_VERIFIED = ''RECEIPT_VERIFIED''"

definition INFORMATIONAL_PAYMENT_EVENT_TYPES :: "payment_event_type list" where
  "INFORMATIONAL_PAYMENT_EVENT_TYPES =
     [CREATED, USER_CONFIRMED, RUNTIME_APPROVED, SUBMISSION_STARTED, SIGNATURE_OBSERVED, SETTLEMENT_UNKNOWN]"

datatype payment_recipient_type = DIRECT_WALLET | PAYMENT_IDENTITY

datatype trust_confirmation_outcome = NOT_REQUIRED | ACKNOWLEDGED | BLOCKED

fun trust_text :: "trust_confirmation_outcome \<Rightarrow> string" where
  "trust_text NOT_REQUIRED = ''NOT_REQUIRED''"
| "trust_text ACKNOWLEDGED = ''ACKNOWLEDGED''"
| "trust_text BLOCKED = ''BLOCKED''"

lemma trust_text_inj [simp]: "trust_text a = trust_text b \<longleftrightarrow> a = b"
  by (cases a; cases b) simp_all

section \<open>Snapshots and terminal proofs\<close>

record payment_identity_snapshot =
  sn_accountId :: string
  sn_username :: string
  sn_displayName :: string
  sn_accountType :: string
  sn_verificationState :: string
  sn_payabilityState :: string
  sn_capturedAt :: string
  sn_schemaVersion :: nat
  sn_identitySource :: "string option"
  sn_resolutionSource :: string
  sn_trustOutcome :: trust_confirmation_outcome

datatype payment_terminal_proof =
    PRE_SUBMISSION_REJECTION string string
      \<comment> \<open>code, reason\<close>
  | SOLANA_TRANSACTION_ERROR string "string option" json
      \<comment> \<open>signature, slot, chainError\<close>
  | EXPIRED_UNSIGNED_TRANSACTION string string bool bool
      \<comment> \<open>recentBlockhash, lastValidBlockHeight, transactionWasSigned, submissionWasAttempted\<close>

fun cloneTerminalProof :: "payment_terminal_proof \<Rightarrow> payment_terminal_proof result" where
  "cloneTerminalProof (PRE_SUBMISSION_REJECTION c r) = Inr (PRE_SUBMISSION_REJECTION c r)"
| "cloneTerminalProof (SOLANA_TRANSACTION_ERROR sig slot e) =
     and_then (cloneJsonValue e) (\<lambda>e'. Inr (SOLANA_TRANSACTION_ERROR sig slot e'))"
| "cloneTerminalProof (EXPIRED_UNSIGNED_TRANSACTION b h s a) = Inr (EXPIRED_UNSIGNED_TRANSACTION b h s a)"

text \<open>The proof object itself, read as JSON.\<close>

fun proof_members :: "payment_terminal_proof \<Rightarrow> json_object" where
  "proof_members (PRE_SUBMISSION_REJECTION c r) =
     [(''kind'', JString ''PRE_SUBMISSION_REJECTION''), (''code'', JString c), (''reason'', JString r)]"
| "proof_members (SOLANA_TRANSACTION_ERROR sig slot e) =
     [(''kind'', JString ''SOLANA_TRANSACTION_ERROR''), (''signature'', JString sig)] @
     (case slot of None \<Rightarrow> [] | Some n \<Rightarrow> [(''slot'', JString n)]) @ [(''chainError'', e)]"
| "proof_members (EXPIRED_UNSIGNED_TRANSACTION b h s a) =
     [(''kind'', JString ''EXPIRED_UNSIGNED_TRANSACTION''), (''recentBlockhash'', JString b),
      (''lastValidBlockHeight'', JString h), (''transactionWasSigned'', JBool s),
      (''submissionWasAttempted'', JBool a)]"

definition terminalProofToJson :: "payment_terminal_proof \<Rightarrow> json_object result" where
  "terminalProofToJson p = cloneJsonObject (proof_members p)"

fun proof_ok :: "payment_terminal_proof \<Rightarrow> bool" where
  "proof_ok (SOLANA_TRANSACTION_ERROR sig slot e) = json_ok e"
| "proof_ok _ = True"

lemma cloneTerminalProof_id: "proof_ok p \<Longrightarrow> cloneTerminalProof p = Inr p"
  by (cases p) (simp_all add: clone_id)

lemma cloneTerminalProof_ok: "cloneTerminalProof p = Inr q \<Longrightarrow> proof_ok q"
  by (cases p) (auto simp: and_then_Inr intro: clone_ok)

section \<open>Payments and their events\<close>

text \<open>
  \<open>PaymentLifecycleEvidence\<close> is the part of a payment that the lifecycle writes; a
  \<open>PaymentRecord\<close> has the same fields, so it extends it.
\<close>

record lifecycle_evidence =
  runtimeId :: "string option"
  runtimePaymentId :: "string option"
  runtimeTransactionId :: "string option"
  userConfirmedAt :: "string option"
  executionStartedAt :: "string option"
  submittedAt :: "string option"
  lastCheckedAt :: "string option"
  completedAt :: "string option"
  failedAt :: "string option"
  solanaSignature :: "string option"
  recentBlockhash :: "string option"
  submittedSlot :: "int option"
  confirmedSlot :: "int option"
  confirmationStatus :: "string option"
  chainError :: "json option"
  receiptPda :: "string option"
  failureCode :: "string option"
  failureReason :: "string option"
  terminalProof :: "payment_terminal_proof option"

definition no_evidence :: lifecycle_evidence where
  "no_evidence = \<lparr>runtimeId = None, runtimePaymentId = None, runtimeTransactionId = None,
     userConfirmedAt = None, executionStartedAt = None, submittedAt = None, lastCheckedAt = None,
     completedAt = None, failedAt = None, solanaSignature = None, recentBlockhash = None,
     submittedSlot = None, confirmedSlot = None, confirmationStatus = None, chainError = None,
     receiptPda = None, failureCode = None, failureReason = None, terminalProof = None\<rparr>"

record payment_record = lifecycle_evidence +
  p_id :: string
  p_actorSubject :: string
  p_idempotencyKey :: string
  p_requestHash :: string
  p_status :: payment_status
  p_version :: int
  p_network :: string
  p_rail :: string
  p_asset :: string
  p_mintAddress :: string
  p_recipientAddress :: string
  p_amountRaw :: int
  p_purpose :: "string option"
  p_recipientType :: payment_recipient_type
  p_recipientAccountId :: "string option"
  p_recipientSyntheticId :: "string option"
  p_recipientSnapshot :: "payment_identity_snapshot option"
  p_recipientSnapshotVersion :: "nat option"
  p_trustConfirmationOutcome :: "trust_confirmation_outcome option"
  p_createdAt :: string
  p_updatedAt :: string

record payment_event =
  ev_id :: int
  ev_paymentId :: string
  ev_sequenceNumber :: nat
  ev_eventType :: payment_event_type
  ev_fromStatus :: "payment_status option"
  ev_toStatus :: "payment_status option"
  ev_runtimeEventId :: "string option"
  ev_requestId :: "string option"
  ev_details :: json_object
  ev_occurredAt :: string

record create_payment_input =
  cp_id :: string
  cp_actorSubject :: string
  cp_idempotencyKey :: string
  cp_requestHash :: string
  cp_network :: string
  cp_rail :: string
  cp_asset :: string
  cp_mintAddress :: string
  cp_recipientAddress :: string
  cp_amountRaw :: int
  cp_purpose :: "string option"
  cp_recipientType :: "payment_recipient_type option"
  cp_recipientAccountId :: "string option"
  cp_recipientSyntheticId :: "string option"
  cp_recipientSnapshot :: "payment_identity_snapshot option"
  cp_recipientSnapshotVersion :: "nat option"
  cp_trustConfirmationOutcome :: "trust_confirmation_outcome option"

record payment_receipt =
  rc_id :: string
  rc_paymentId :: string
  rc_network :: string
  rc_programId :: string
  rc_receiptPda :: string
  rc_solanaSignature :: string
  rc_slot :: int
  rc_mintAddress :: string
  rc_recipientAddress :: string
  rc_amountRaw :: int
  rc_onchainReference :: string
  rc_rawReceipt :: json_object
  rc_verifiedAt :: string
  rc_createdAt :: "string option"
    \<comment> \<open>optional in \<open>CreatePaymentReceiptInput\<close>, present in a stored receipt\<close>

end
