(* ===== verification/PaymentLifecycle.thy ===== *)
theory PaymentLifecycle
  imports PaymentTypes
begin

text \<open>
  \<open>src/payments/paymentLifecycle.ts\<close>: which status changes a payment may make, what evidence
  each needs, and the event each is recorded as. The lifecycle a payment can go through is the
  relation \<open>lifecycle_step\<close>, whose two rules are the two validators of the code.
\<close>

section \<open>Bigints from strings\<close>

text \<open>\<open>BigInt(value)\<close> of a string: surrounding white space is ignored, the empty string is 0.\<close>

definition hex_digit_value :: "char \<Rightarrow> nat" where
  "hex_digit_value c = (let n = of_char c in
     if n \<le> 57 then n - 48 else if n \<le> 70 then n - 55 else n - 87)"

definition radix_value :: "nat \<Rightarrow> string \<Rightarrow> nat" where
  "radix_value b s = foldl (\<lambda>a c. a * b + hex_digit_value c) 0 s"

definition prefixed_value :: "string \<Rightarrow> nat option" where
  "prefixed_value t =
     (case t of
        z # x # ds \<Rightarrow>
          if z = CHR ''0'' \<and> ds \<noteq> [] then
            if x \<in> set ''xX'' \<and> list_all is_hex_i ds then Some (radix_value 16 ds)
            else if x \<in> set ''oO'' \<and> list_all (\<lambda>c. c \<in> set ''01234567'') ds then Some (radix_value 8 ds)
            else if x \<in> set ''bB'' \<and> list_all (\<lambda>c. c \<in> set ''01'') ds then Some (radix_value 2 ds)
            else None
          else None
      | _ \<Rightarrow> None)"

definition all_digits :: "string \<Rightarrow> bool" where
  "all_digits s = (s \<noteq> '''' \<and> list_all is_digit s)"

definition BigInt_of_string :: "string \<Rightarrow> int result" where
  "BigInt_of_string s =
     (let t = js_trim s in
      if t = '''' then Inr 0
      else if all_digits t then Inr (int (dec_to_nat t))
      else if hd t = CHR ''-'' \<and> all_digits (tl t) then Inr (- int (dec_to_nat (tl t)))
      else if hd t = CHR ''+'' \<and> all_digits (tl t) then Inr (int (dec_to_nat (tl t)))
      else case prefixed_value t of
             Some n \<Rightarrow> Inr (int n)
           | None \<Rightarrow> throw (''Cannot convert '' @ s @ '' to a BigInt''))"

lemma digit_not_space: "is_digit c \<Longrightarrow> \<not> is_js_space c"
  by (auto simp: is_digit_def is_js_space_def)

lemma trim_no_space: "list_all (\<lambda>c. \<not> is_js_space c) s \<Longrightarrow> js_trim s = s"
proof -
  assume "list_all (\<lambda>c. \<not> is_js_space c) s"
  then have "dropWhile is_js_space s = s" and "dropWhile is_js_space (rev s) = rev s"
    by (auto simp: list_all_iff dropWhile_eq_self_iff hd_rev)
  then show ?thesis by (simp add: js_trim_def)
qed

lemma trim_digits: "list_all is_digit s \<Longrightarrow> js_trim s = s"
  by (rule trim_no_space) (auto simp: list_all_iff digit_not_space)

lemma BigInt_of_digits: "all_digits s \<Longrightarrow> BigInt_of_string s = Inr (int (dec_to_nat s))"
  by (simp add: BigInt_of_string_def all_digits_def trim_digits)

section \<open>Transitions\<close>

fun LEGAL_TRANSITIONS :: "payment_status \<Rightarrow> payment_status list" where
  "LEGAL_TRANSITIONS AWAITING_CONFIRMATION = [PROCESSING, FAILED]"
| "LEGAL_TRANSITIONS PROCESSING = [UNKNOWN, COMPLETED, FAILED]"
| "LEGAL_TRANSITIONS UNKNOWN = [COMPLETED, FAILED]"
| "LEGAL_TRANSITIONS COMPLETED = []"
| "LEGAL_TRANSITIONS FAILED = []"

definition invalid_transition ::
  "payment_status \<Rightarrow> payment_status \<Rightarrow> string option \<Rightarrow> 'a result" where
  "invalid_transition s t reason = Inl (Err InvalidPaymentTransitionError
     (coalesce reason (''Payment lifecycle transition '' @ status_text s @ '' -> '' @
        status_text t @ '' is not allowed.'')))"

definition POSTGRES_BIGINT_MAX :: int where
  "POSTGRES_BIGINT_MAX = 9223372036854775807"

definition isPostgresBigint :: "string \<Rightarrow> bool" where
  "isPostgresBigint v = (all_digits v \<and> int (dec_to_nat v) \<le> POSTGRES_BIGINT_MAX)"

fun is_pre_submission :: "payment_terminal_proof \<Rightarrow> bool" where
  "is_pre_submission (PRE_SUBMISSION_REJECTION c r) = True"
| "is_pre_submission _ = False"

definition proof_shape_error :: "payment_terminal_proof \<Rightarrow> unit result" where
  "proof_shape_error p =
     (case p of
        PRE_SUBMISSION_REJECTION code reason \<Rightarrow>
          if js_trim code = '''' \<or> js_trim reason = ''''
          then throw ''PRE_SUBMISSION_REJECTION proof is invalid.'' else Inr ()
      | SOLANA_TRANSACTION_ERROR signature slot e \<Rightarrow>
          if signature = '''' \<or> (case slot of None \<Rightarrow> False | Some n \<Rightarrow> \<not> isPostgresBigint n)
          then throw ''SOLANA_TRANSACTION_ERROR proof is invalid.'' else Inr ()
      | EXPIRED_UNSIGNED_TRANSACTION blockhash height signed attempted \<Rightarrow>
          if blockhash = '''' \<or> \<not> isPostgresBigint height \<or> signed \<or> attempted
          then throw ''EXPIRED_UNSIGNED_TRANSACTION proof is invalid.'' else Inr ())"

definition validateTerminalProof :: "payment_status \<Rightarrow> payment_terminal_proof \<Rightarrow> unit result" where
  "validateTerminalProof s p =
     (if s = AWAITING_CONFIRMATION \<and> \<not> is_pre_submission p
      then throw ''AWAITING_CONFIRMATION may fail only with PRE_SUBMISSION_REJECTION proof.''
      else if (s = PROCESSING \<or> s = UNKNOWN) \<and> is_pre_submission p
      then throw (status_text s @ '' cannot use PRE_SUBMISSION_REJECTION proof.'')
      else proof_shape_error p)"

definition validatePaymentTransition ::
  "payment_status \<Rightarrow> payment_status \<Rightarrow> lifecycle_evidence \<Rightarrow> unit result" where
  "validatePaymentTransition s t e =
     (if t \<notin> set (LEGAL_TRANSITIONS s) then invalid_transition s t None
      else and_then
        (if t = FAILED then
           (case terminalProof e of
              None \<Rightarrow> invalid_transition s t
                (Some ''FAILED requires structured terminal proof, a failure code, and a failure time.'')
            | Some p \<Rightarrow>
                if \<not> truthy (failedAt e) \<or> \<not> truthy (failureCode e)
                then invalid_transition s t
                  (Some ''FAILED requires structured terminal proof, a failure code, and a failure time.'')
                else validateTerminalProof s p)
         else Inr ())
        (\<lambda>_. if t = COMPLETED then invalid_transition s t
               (Some ''COMPLETED is only available through atomic verified receipt persistence.'')
             else if s = AWAITING_CONFIRMATION \<and> t = PROCESSING \<and>
                     (\<not> truthy (userConfirmedAt e) \<or> \<not> truthy (executionStartedAt e))
             then invalid_transition s t
               (Some ''PROCESSING requires explicit user confirmation and an execution start time.'')
             else Inr ()))"

definition validateReceiptCompletionTransition ::
  "payment_status \<Rightarrow> lifecycle_evidence \<Rightarrow> unit result" where
  "validateReceiptCompletionTransition s e =
     (if s \<noteq> PROCESSING \<and> s \<noteq> UNKNOWN then invalid_transition s COMPLETED None
      else if \<not> truthy (solanaSignature e) \<or> confirmedSlot e = None \<or>
              \<not> truthy (receiptPda e) \<or> \<not> truthy (completedAt e)
      then invalid_transition s COMPLETED
        (Some ''COMPLETED requires a signature, confirmed slot, receipt PDA, and completion time.'')
      else Inr ())"

definition eventTypeForTransition ::
  "payment_status \<Rightarrow> payment_status \<Rightarrow> payment_event_type result" where
  "eventTypeForTransition s t =
     (if s = AWAITING_CONFIRMATION \<and> t = PROCESSING then Inr USER_CONFIRMED
      else if s = PROCESSING \<and> t = UNKNOWN then Inr SETTLEMENT_UNKNOWN
      else if t = FAILED \<and> (s = AWAITING_CONFIRMATION \<or> s = PROCESSING \<or> s = UNKNOWN)
      then Inr SETTLEMENT_FAILED
      else invalid_transition s t None)"

definition normalizeTransitionEvidence ::
  "payment_status \<Rightarrow> lifecycle_evidence \<Rightarrow> lifecycle_evidence result" where
  "normalizeTransitionEvidence t e =
     (case terminalProof e of
        None \<Rightarrow> Inr e
      | Some p \<Rightarrow>
          if t \<noteq> FAILED then Inr e
          else case p of
            SOLANA_TRANSACTION_ERROR signature slot err \<Rightarrow>
              (case slot of
                 None \<Rightarrow> Inr (e\<lparr>solanaSignature := Some signature, chainError := Some err\<rparr>)
               | Some n \<Rightarrow> and_then (BigInt_of_string n) (\<lambda>i.
                   Inr (e\<lparr>solanaSignature := Some signature, submittedSlot := Some i,
                          chainError := Some err\<rparr>)))
          | EXPIRED_UNSIGNED_TRANSACTION blockhash height signed attempted \<Rightarrow>
              Inr (e\<lparr>recentBlockhash := Some blockhash\<rparr>)
          | PRE_SUBMISSION_REJECTION c r \<Rightarrow> Inr e)"

definition isTerminalPaymentStatus :: "payment_status \<Rightarrow> bool" where
  "isTerminalPaymentStatus s = (s = COMPLETED \<or> s = FAILED)"

section \<open>What the validators accept\<close>

lemmas lifecycle_defs = validatePaymentTransition_def validateReceiptCompletionTransition_def
  validateTerminalProof_def proof_shape_error_def invalid_transition_def

lemma transition_legal: "validatePaymentTransition s t e = Inr u \<Longrightarrow> t \<in> set (LEGAL_TRANSITIONS s)"
  by (auto simp: lifecycle_defs split: if_splits)

lemma transition_not_completed: "validatePaymentTransition s t e = Inr u \<Longrightarrow> t \<noteq> COMPLETED"
  by (auto simp: lifecycle_defs and_then_Inr split: if_splits)

lemma transition_cases:
  assumes "validatePaymentTransition s t e = Inr u"
  shows "(s, t) \<in> {(AWAITING_CONFIRMATION, PROCESSING), (AWAITING_CONFIRMATION, FAILED),
    (PROCESSING, UNKNOWN), (PROCESSING, FAILED), (UNKNOWN, FAILED)}"
  using transition_legal [OF assms] transition_not_completed [OF assms] by (cases s) auto

lemma transition_has_event:
  "validatePaymentTransition s t e = Inr u \<Longrightarrow> \<exists>ty. eventTypeForTransition s t = Inr ty"
  by (drule transition_cases) (auto simp: eventTypeForTransition_def)

lemma transition_failed_proof:
  assumes "validatePaymentTransition s FAILED e = Inr u"
  obtains p where "terminalProof e = Some p" "truthy (failedAt e)" "truthy (failureCode e)"
    "validateTerminalProof s p = Inr ()"
proof -
  from assms have "\<exists>p. terminalProof e = Some p \<and> truthy (failedAt e) \<and> truthy (failureCode e) \<and>
      validateTerminalProof s p = Inr ()"
    by (auto simp: validatePaymentTransition_def invalid_transition_def and_then_Inr
        split: if_splits option.splits)
  then show thesis using that by blast
qed

lemma completion_from: "validateReceiptCompletionTransition s e = Inr u \<Longrightarrow> s = PROCESSING \<or> s = UNKNOWN"
  by (auto simp: lifecycle_defs split: if_splits)

text \<open>A validated proof has a slot that \<open>BigInt\<close> reads, so normalizing never throws.\<close>

lemma normalize_total:
  assumes "validatePaymentTransition s t e = Inr u"
  shows "\<exists>e'. normalizeTransitionEvidence t e = Inr e'"
proof (cases "t = FAILED")
  case True
  with assms obtain p where p: "terminalProof e = Some p" "validateTerminalProof s p = Inr ()"
    by (metis transition_failed_proof)
  then have "proof_shape_error p = Inr ()"
    by (auto simp: validateTerminalProof_def split: if_splits)
  with p True show ?thesis
    by (auto simp: normalizeTransitionEvidence_def proof_shape_error_def isPostgresBigint_def
        BigInt_of_digits split: payment_terminal_proof.splits option.splits if_splits)
next
  case False
  then show ?thesis by (simp add: normalizeTransitionEvidence_def split: option.splits)
qed

section \<open>The lifecycle as a relation\<close>

inductive lifecycle_step :: "payment_status \<Rightarrow> payment_status \<Rightarrow> bool" where
  transition: "validatePaymentTransition s t e = Inr () \<Longrightarrow> lifecycle_step s t"
| completion: "validateReceiptCompletionTransition s e = Inr () \<Longrightarrow> lifecycle_step s COMPLETED"

inductive_cases step_from_completed: "lifecycle_step COMPLETED t"
inductive_cases step_from_failed: "lifecycle_step FAILED t"

lemma lifecycle_step_legal: "lifecycle_step s t \<Longrightarrow> t \<in> set (LEGAL_TRANSITIONS s)"
proof (induction rule: lifecycle_step.induct)
  case (completion s e)
  then show ?case by (auto dest: completion_from)
qed (rule transition_legal)

lemma lifecycle_step_increases: "lifecycle_step s t \<Longrightarrow> s < t"
  by (drule lifecycle_step_legal) (cases s; auto simp: less_payment_status_def)

inductive lifecycle_run :: "payment_status \<Rightarrow> nat \<Rightarrow> payment_status \<Rightarrow> bool" where
  run_none: "lifecycle_run s 0 s"
| run_step: "lifecycle_run s n t \<Longrightarrow> lifecycle_step t u \<Longrightarrow> lifecycle_run s (Suc n) u"

lemma run_from_rank: "lifecycle_run s n t \<Longrightarrow> status_rank s + n \<le> status_rank t"
proof (induction rule: lifecycle_run.induct)
  case (run_step s n t u)
  then show ?case using lifecycle_step_increases [of t u] by (simp add: less_payment_status_def)
qed simp

lemma run_to_nonterminal:
  "lifecycle_run s n t \<Longrightarrow> n = 0 \<or> \<not> isTerminalPaymentStatus s"
proof (induction rule: lifecycle_run.induct)
  case (run_step s n t u)
  show ?case
  proof (cases n)
    case 0
    with run_step.hyps(1) have "s = t" by (cases rule: lifecycle_run.cases) auto
    with run_step.hyps(2) show ?thesis
      by (auto simp: isTerminalPaymentStatus_def dest: lifecycle_step_legal)
  next
    case (Suc m)
    with run_step.IH show ?thesis by simp
  qed
qed simp

text \<open>C30: status changes never go back: every change the two validators accept makes the status
  strictly greater in the order of \<open>PAYMENT_STATUSES\<close>, so no lifecycle is longer than three changes,
  and a completed or failed payment makes none.\<close>
theorem lifecycle_terminates:
  assumes "lifecycle_run s n t"
  shows "n \<le> 3 \<and> (isTerminalPaymentStatus s \<longrightarrow> n = 0 \<and> t = s)"
proof -
  have last: "status_rank t \<le> 3 \<or> n \<le> 3"
  proof (cases n)
    case (Suc m)
    with assms obtain u where u: "lifecycle_run s m u" "lifecycle_step u t"
      by (cases rule: lifecycle_run.cases) auto
    have "\<not> isTerminalPaymentStatus u" using u(2)
      by (auto simp: isTerminalPaymentStatus_def dest: lifecycle_step_legal)
    then have "status_rank u \<le> 2" by (cases u) (auto simp: isTerminalPaymentStatus_def)
    with run_from_rank [OF u(1)] Suc show ?thesis by simp
  qed simp
  moreover have "n = 0 \<Longrightarrow> t = s" using assms by (cases rule: lifecycle_run.cases) auto
  ultimately show ?thesis
    using run_from_rank [OF assms] run_to_nonterminal [OF assms] by auto
qed

theorem lifecycle_terminates_witness:
  "lifecycle_run AWAITING_CONFIRMATION 1 PROCESSING \<and> (1::nat) \<le> 3"
proof -
  let ?e = "no_evidence\<lparr>userConfirmedAt := Some ''t'', executionStartedAt := Some ''t''\<rparr>"
  have "validatePaymentTransition AWAITING_CONFIRMATION PROCESSING ?e = Inr ()"
    by (simp add: validatePaymentTransition_def no_evidence_def)
  then have "lifecycle_step AWAITING_CONFIRMATION PROCESSING" by (rule lifecycle_step.transition)
  then have run: "lifecycle_run AWAITING_CONFIRMATION 1 PROCESSING"
    using lifecycle_run.run_step [OF lifecycle_run.run_none] by simp
  with lifecycle_terminates [OF run] show ?thesis by simp
qed

end
