(* ===== verification/PaymentIntentValidation.thy ===== *)
theory PaymentIntentValidation
  imports PaymentLifecycle
begin

text \<open>
  \<open>src/payments/paymentIntentValidation.ts\<close>: the parsers of request bodies, headers and path
  parameters, and the conversion between decimal USDC amounts and raw units of a millionth. A
  body is a JSON value, \<open>JUndefined\<close> when the request had none.
\<close>

abbreviation input_error :: "string \<Rightarrow> 'a result" where
  "input_error m \<equiv> Inl (Err PaymentIntentInputError m)"

definition member :: "json_object \<Rightarrow> string \<Rightarrow> json" where
  "member r k = coalesce (map_of r k) JUndefined"

section \<open>Patterns\<close>

text \<open>\<open>/^(?:0|[1-9]\d*)$/\<close>\<close>

definition VERSION_PATTERN :: "string \<Rightarrow> bool" where
  "VERSION_PATTERN s = (s = ''0'' \<or> (all_digits s \<and> hd s \<noteq> CHR ''0''))"

definition not_dot :: "char \<Rightarrow> bool" where
  "not_dot c = (c \<noteq> CHR ''.'')"

text \<open>\<open>/^(?:0|[1-9]\d*)(?:\.\d{1,6})?$/\<close>: the whole part before the first dot, then the fraction.\<close>

definition AMOUNT_PATTERN :: "string \<Rightarrow> bool" where
  "AMOUNT_PATTERN s =
     (VERSION_PATTERN (takeWhile not_dot s) \<and>
      (case dropWhile not_dot s of
         [] \<Rightarrow> True
       | d # f \<Rightarrow> all_digits f \<and> length f \<le> 6))"

text \<open>\<open>/^[\x21-\x7e]{16,128}$/\<close>\<close>

definition IDEMPOTENCY_KEY_PATTERN :: "string \<Rightarrow> bool" where
  "IDEMPOTENCY_KEY_PATTERN s = (16 \<le> length s \<and> length s \<le> 128 \<and>
     list_all (\<lambda>c. 33 \<le> (of_char c :: nat) \<and> (of_char c :: nat) \<le> 126) s)"

section \<open>Amounts\<close>

text \<open>\<open>padEnd(n, "0")\<close>, \<open>padStart(n, "0")\<close> and \<open>replace(/0+$/, "")\<close>.\<close>

definition pad_end :: "nat \<Rightarrow> string \<Rightarrow> string" where
  "pad_end n s = s @ replicate (n - length s) CHR ''0''"

definition pad_start :: "nat \<Rightarrow> string \<Rightarrow> string" where
  "pad_start n s = replicate (n - length s) CHR ''0'' @ s"

definition strip_zeros :: "string \<Rightarrow> string" where
  "strip_zeros s = rev (dropWhile (\<lambda>c. c = CHR ''0'') (rev s))"

text \<open>The division of bigints truncates; the remainder has the sign of the dividend.\<close>

definition js_div :: "int \<Rightarrow> int \<Rightarrow> int" where
  "js_div a b = sgn a * sgn b * (\<bar>a\<bar> div \<bar>b\<bar>)"

definition js_mod :: "int \<Rightarrow> int \<Rightarrow> int" where
  "js_mod a b = a - b * js_div a b"

definition usdcAmountToRaw :: "string \<Rightarrow> int result" where
  "usdcAmountToRaw value =
     (if \<not> AMOUNT_PATTERN value then input_error ''Amount must be an exact decimal USDC string.''
      else let whole = takeWhile not_dot value;
               fraction = (case dropWhile not_dot value of [] \<Rightarrow> '''' | d # f \<Rightarrow> f)
        in Inr (int (dec_to_nat whole) * 1000000 + int (dec_to_nat (pad_end 6 fraction))))"

definition rawUsdcToDisplay :: "int \<Rightarrow> string" where
  "rawUsdcToDisplay value =
     (let whole = js_div value 1000000;
          fraction = strip_zeros (pad_start 6 (int_to_dec (js_mod value 1000000)))
      in if fraction \<noteq> '''' then int_to_dec whole @ ''.'' @ fraction else int_to_dec whole)"

definition parseAmount :: "json \<Rightarrow> string result" where
  "parseAmount value =
     (case value of
        JString s \<Rightarrow>
          if \<not> AMOUNT_PATTERN s
          then input_error ''Amount must be a decimal USDC string with no more than 6 decimal places.''
          else and_then (usdcAmountToRaw s) (\<lambda>amountRaw.
            if amountRaw \<le> 0 then input_error ''Amount must be greater than zero.''
            else if amountRaw > POSTGRES_BIGINT_MAX
            then input_error ''Amount exceeds the supported USDC range.''
            else Inr s)
      | _ \<Rightarrow> input_error ''Amount must be a decimal USDC string with no more than 6 decimal places.'')"

definition parseUsdcAmount :: "json \<Rightarrow> string result" where
  "parseUsdcAmount value = parseAmount value"

definition parsePurpose :: "json \<Rightarrow> string option result" where
  "parsePurpose value =
     (case value of
        JUndefined \<Rightarrow> Inr None
      | JNull \<Rightarrow> Inr None
      | JString s \<Rightarrow>
          let purpose = js_trim s in
          if length purpose = 0 then Inr None
          else if utf8_length purpose > 120
          then input_error ''Purpose must not exceed 120 UTF-8 bytes.''
          else Inr (Some purpose)
      | _ \<Rightarrow> input_error ''Purpose must be a string or null.'')"

section \<open>Request bodies\<close>

definition requireObject :: "json \<Rightarrow> json_object result" where
  "requireObject body = (case body of
     JObject es \<Rightarrow> Inr es | _ \<Rightarrow> input_error ''Request body must be a JSON object.'')"

text \<open>\<open>find\<close> gives the first key that is not allowed; \<open>if (unknown)\<close> then tests it for truth.\<close>

definition rejectUnknownFields :: "json_object \<Rightarrow> string list \<Rightarrow> unit result" where
  "rejectUnknownFields r allowed =
     (let unknown = find (\<lambda>k. k \<notin> set allowed) (map fst r) in
      if truthy unknown
      then input_error (''Unsupported request field: '' @ coalesce unknown '''' @ ''.'')
      else Inr ())"

datatype payment_intent_request =
    DirectWalletPaymentIntentRequest string string "string option"
      \<comment> \<open>recipient, amount, purpose\<close>
  | PaymentIdentityPaymentIntentRequest string string "string option" bool
      \<comment> \<open>recipientAccountId, amount, purpose, whether trust was acknowledged\<close>

definition parseTrustAcknowledgment :: "json \<Rightarrow> bool result" where
  "parseTrustAcknowledgment value =
     (if value = JUndefined then Inr False
      else and_then (requireObject value) (\<lambda>trust.
        and_then (rejectUnknownFields trust [''acknowledged'']) (\<lambda>_.
          if member trust ''acknowledged'' \<noteq> JBool True
          then input_error ''Trust acknowledgment must be explicit.''
          else Inr True)))"

definition parsePaymentIdentityRequest :: "json_object \<Rightarrow> payment_intent_request result" where
  "parsePaymentIdentityRequest r =
     and_then (rejectUnknownFields r
       [''recipientType'', ''recipientAccountId'', ''amount'', ''purpose'', ''trustAcknowledgment'']) (\<lambda>_.
       case member r ''recipientAccountId'' of
         JString accountId \<Rightarrow>
           if \<not> is_uuid accountId then input_error ''Recipient account ID must be a canonical UUID.''
           else and_then (parseTrustAcknowledgment (member r ''trustAcknowledgment'')) (\<lambda>trust.
             and_then (parseAmount (member r ''amount'')) (\<lambda>amount.
               and_then (parsePurpose (member r ''purpose'')) (\<lambda>purpose.
                 Inr (PaymentIdentityPaymentIntentRequest (js_lower accountId) amount purpose trust))))
       | _ \<Rightarrow> input_error ''Recipient account ID must be a canonical UUID.'')"

definition parsePaymentIntentRequest :: "runtime_env \<Rightarrow> json \<Rightarrow> payment_intent_request result" where
  "parsePaymentIntentRequest env body =
     and_then (requireObject body) (\<lambda>r.
       if member r ''recipientType'' = JString ''payment_identity'' then parsePaymentIdentityRequest r
       else and_then (rejectUnknownFields r [''recipient'', ''amount'', ''purpose'']) (\<lambda>_.
         case member r ''recipient'' of
           JString raw \<Rightarrow>
             let recipient = js_trim raw in
             if public_key_base58 env recipient \<noteq> Some recipient
             then input_error ''Recipient must be a canonical Solana wallet address.''
             else and_then (parseAmount (member r ''amount'')) (\<lambda>amount.
               and_then (parsePurpose (member r ''purpose'')) (\<lambda>purpose.
                 Inr (DirectWalletPaymentIntentRequest recipient amount purpose)))
         | _ \<Rightarrow> input_error ''Recipient must be a Solana wallet address.''))"

record confirm_payment_intent_request =
  cf_requestHash :: string
  cf_expectedVersion :: int

definition parseConfirmPaymentIntentRequest :: "json \<Rightarrow> confirm_payment_intent_request result" where
  "parseConfirmPaymentIntentRequest body =
     and_then (requireObject body) (\<lambda>r.
       and_then (rejectUnknownFields r [''requestHash'', ''expectedVersion'']) (\<lambda>_.
         case member r ''requestHash'' of
           JString h \<Rightarrow>
             if \<not> is_sha256_hex h
             then input_error ''Request hash must be a lowercase 32-byte SHA-256 hex value.''
             else (case member r ''expectedVersion'' of
               JString v \<Rightarrow>
                 if \<not> VERSION_PATTERN v
                 then input_error ''Expected version must be a nonnegative decimal integer string.''
                 else Inr \<lparr>cf_requestHash = h, cf_expectedVersion = int (dec_to_nat v)\<rparr>
             | _ \<Rightarrow> input_error ''Expected version must be a nonnegative decimal integer string.'')
         | _ \<Rightarrow> input_error ''Request hash must be a lowercase 32-byte SHA-256 hex value.''))"

definition parseIdempotencyKey :: "string option \<Rightarrow> string result" where
  "parseIdempotencyKey value =
     (case value of
        Some k \<Rightarrow>
          if k = '''' \<or> \<not> IDEMPOTENCY_KEY_PATTERN k
          then input_error ''Idempotency-Key must contain 16 to 128 visible ASCII characters.''
          else Inr k
      | None \<Rightarrow> input_error ''Idempotency-Key must contain 16 to 128 visible ASCII characters.'')"

definition parsePaymentIntentId :: "string \<Rightarrow> string result" where
  "parsePaymentIntentId value =
     (if \<not> is_uuid value then input_error ''Payment intent ID must be a canonical UUID.''
      else Inr (js_lower value))"

section \<open>The two conversions are inverse\<close>

lemma js_div_nonneg: "0 \<le> a \<Longrightarrow> 0 < b \<Longrightarrow> js_div a b = a div b"
  by (cases "a = 0") (simp_all add: js_div_def)

lemma js_mod_nonneg: "0 \<le> a \<Longrightarrow> 0 < b \<Longrightarrow> js_mod a b = a mod b"
  by (simp add: js_mod_def js_div_nonneg minus_mult_div_eq_mod)

lemma version_of_nat: "VERSION_PATTERN (nat_to_dec n)"
proof (cases "n = 0")
  case True
  then have "nat_to_dec n = ''0''" by (simp add: nat_to_dec.simps [of 0] digit_chr_zero)
  then show ?thesis by (simp only: VERSION_PATTERN_def) simp
next
  case False
  then show ?thesis
    using nat_to_dec_digits [of n] nat_to_dec_no_leading_zero [of n]
    by (auto simp: VERSION_PATTERN_def all_digits_def)
qed

lemma version_all_digits: "VERSION_PATTERN s \<Longrightarrow> all_digits s"
  by (auto simp: VERSION_PATTERN_def all_digits_def is_digit_def)

lemma version_roundtrip: "VERSION_PATTERN s \<Longrightarrow> nat_to_dec (dec_to_nat s) = s"
  using version_all_digits [of s]
  by (intro nat_to_dec_of_dec) (auto simp: VERSION_PATTERN_def all_digits_def)

lemma digits_not_dot: "list_all is_digit s \<Longrightarrow> list_all not_dot s"
  by (induction s) (auto simp: is_digit_def not_dot_def)

lemma strip_zeros_pad: "\<exists>n. s = strip_zeros s @ replicate n CHR ''0''"
proof (induction s rule: rev_induct)
  case Nil
  show ?case by (simp add: strip_zeros_def)
next
  case (snoc c s)
  show ?case
  proof (cases "c = CHR ''0''")
    case True
    from snoc obtain n where "s = strip_zeros s @ replicate n CHR ''0''" by blast
    moreover have "strip_zeros (s @ [c]) = strip_zeros s" using True by (simp add: strip_zeros_def)
    ultimately have "s @ [c] = strip_zeros (s @ [c]) @ replicate (Suc n) CHR ''0''"
      using True by (metis append_assoc replicate_Suc replicate_append_same)
    then show ?thesis by blast
  next
    case False
    then have "strip_zeros (s @ [c]) = s @ [c]" by (simp add: strip_zeros_def)
    then show ?thesis by (metis append_Nil2 replicate_0)
  qed
qed

lemma pad_end_strip_zeros: "length s = n \<Longrightarrow> pad_end n (strip_zeros s) = s"
proof -
  assume len: "length s = n"
  obtain k where k: "s = strip_zeros s @ replicate k CHR ''0''" using strip_zeros_pad by blast
  then have "length s = length (strip_zeros s) + k" by (metis length_append length_replicate)
  with len k show ?thesis unfolding pad_end_def by (metis add_diff_cancel_left')
qed

lemma digit_zero_val [simp]: "digit_val CHR ''0'' = 0"
  by (simp add: digit_val_def)

lemma dec_to_nat_zeros: "dec_to_nat (replicate n CHR ''0'' @ s) = dec_to_nat s"
proof -
  have "dec_to_nat (replicate n CHR ''0'') = 0"
    by (induction n) (simp_all add: dec_to_nat_def)
  then show ?thesis by (simp add: dec_to_nat_append)
qed

lemma dec_digits_bound_len:
  assumes "n < 10 ^ k" and "0 < k"
  shows "length (nat_to_dec n) \<le> k"
  using assms
proof (induction n arbitrary: k rule: nat_to_dec.induct)
  case (1 n)
  show ?case
  proof (cases "n < 10")
    case True
    with 1(3) show ?thesis by (subst nat_to_dec.simps) simp
  next
    case False
    with 1(2) obtain j where j: "k = Suc j" "0 < j"
      by (cases k; cases "k - 1") auto
    with 1(2) have "n div 10 < 10 ^ j" by (auto simp: less_mult_imp_div_less mult.commute)
    with False 1(1) j have "length (nat_to_dec (n div 10)) \<le> j" by simp
    with False j show ?thesis by (subst nat_to_dec.simps) simp
  qed
qed

lemma list_all_replicate_zero: "list_all is_digit (replicate n CHR ''0'')"
  by (induction n) (simp_all add: is_digit_def)

lemma strip_zeros_digits: "list_all is_digit s \<Longrightarrow> list_all is_digit (strip_zeros s)"
  by (auto simp: strip_zeros_def list_all_iff dest: set_dropWhileD)

lemma amount_split:
  assumes "list_all is_digit w"
  shows "takeWhile not_dot (w @ CHR ''.'' # f) = w" and "dropWhile not_dot (w @ CHR ''.'' # f) = CHR ''.'' # f"
    and "takeWhile not_dot w = w" and "dropWhile not_dot w = []"
  using digits_not_dot [OF assms]
  by (simp_all add: list_all_iff not_dot_def takeWhile_eq_all_conv dropWhile_eq_Nil_conv
      takeWhile_append2 dropWhile_append2)

text \<open>The fraction a nonnegative amount is displayed with, before and after stripping zeros.\<close>

definition fraction_digits :: "nat \<Rightarrow> string" where
  "fraction_digits n = pad_start 6 (nat_to_dec (n mod 1000000))"

lemma fraction_digits_facts:
  "length (fraction_digits n) = 6" "list_all is_digit (fraction_digits n)"
  "dec_to_nat (fraction_digits n) = n mod 1000000"
  using dec_digits_bound_len [of "n mod 1000000" 6] nat_to_dec_digits [of "n mod 1000000"]
  by (simp_all add: fraction_digits_def pad_start_def dec_to_nat_zeros list_all_replicate_zero)

lemma int_to_dec_nat: "int_to_dec (int n) = nat_to_dec n"
  by (simp add: int_to_dec_def)

lemma display_nat:
  "rawUsdcToDisplay (int n) =
     (let f = strip_zeros (fraction_digits n); w = nat_to_dec (n div 1000000)
      in if f \<noteq> '''' then w @ ''.'' @ f else w)"
proof -
  have "js_div (int n) 1000000 = int (n div 1000000)" and "js_mod (int n) 1000000 = int (n mod 1000000)"
    by (simp_all add: zdiv_int zmod_int js_div_nonneg js_mod_nonneg)
  then show ?thesis
    by (simp add: rawUsdcToDisplay_def fraction_digits_def int_to_dec_nat Let_def)
qed

lemma display_to_raw: "usdcAmountToRaw (rawUsdcToDisplay (int n)) = Inr (int n)"
proof -
  let ?f = "strip_zeros (fraction_digits n)" and ?w = "nat_to_dec (n div 1000000)"
  have f: "pad_end 6 ?f = fraction_digits n"
    by (rule pad_end_strip_zeros) (rule fraction_digits_facts)
  have "length ?f \<le> 6"
    using fraction_digits_facts(1) [of n] length_dropWhile_le
    unfolding strip_zeros_def by (metis length_rev)
  moreover have "list_all is_digit ?f" by (rule strip_zeros_digits) (rule fraction_digits_facts)
  ultimately have pat: "?f \<noteq> '''' \<Longrightarrow> AMOUNT_PATTERN (?w @ CHR ''.'' # ?f)" "AMOUNT_PATTERN ?w"
    unfolding AMOUNT_PATTERN_def amount_split [OF nat_to_dec_digits]
    by (simp_all add: all_digits_def version_of_nat)
  have val: "int (n div 1000000) * 1000000 + int (dec_to_nat (fraction_digits n)) = int n"
    unfolding fraction_digits_facts(3) of_nat_add [symmetric] of_nat_mult [symmetric]
    by (metis div_mult_mod_eq of_nat_add of_nat_mult of_nat_numeral)
  show ?thesis
  proof (cases "?f = ''''")
    case True
    then have "usdcAmountToRaw ?w =
        Inr (int (n div 1000000) * 1000000 + int (dec_to_nat (pad_end 6 ?f)))"
      using pat(2) unfolding usdcAmountToRaw_def amount_split [OF nat_to_dec_digits] by simp
    with True f val show ?thesis by (simp only: display_nat Let_def) simp
  next
    case False
    then have "usdcAmountToRaw (?w @ CHR ''.'' # ?f) =
        Inr (int (n div 1000000) * 1000000 + int (dec_to_nat (pad_end 6 ?f)))"
      using pat(1) unfolding usdcAmountToRaw_def amount_split [OF nat_to_dec_digits] by simp
    with False f val show ?thesis by (simp only: display_nat Let_def) simp
  qed
qed

text \<open>Displaying a raw amount and reading the display gives the amount back, for every amount the
  system can hold; two amounts therefore never have the same display.\<close>
theorem amount_display_roundtrip:
  assumes "0 \<le> raw"
  shows "usdcAmountToRaw (rawUsdcToDisplay raw) = Inr raw"
  using display_to_raw [of "nat raw"] assms by simp

theorem amount_display_roundtrip_witness:
  "usdcAmountToRaw (rawUsdcToDisplay 1500000) = Inr 1500000"
  by (rule amount_display_roundtrip) simp

lemma usdc_raw_nonneg: "usdcAmountToRaw s = Inr n \<Longrightarrow> 0 \<le> n"
  by (auto simp: usdcAmountToRaw_def Let_def split: if_splits)

text \<open>C31: an accepted amount is the text that was sent, and its raw value is positive and fits a
  signed 64-bit column; every other body value is refused with an input error.\<close>
theorem accepted_amount_in_range:
  "parseAmount value = Inr s \<longleftrightarrow>
     value = JString s \<and> (\<exists>n. usdcAmountToRaw s = Inr n \<and> 0 < n \<and> n < 2 ^ 63)"
  by (auto simp: parseAmount_def usdcAmountToRaw_def POSTGRES_BIGINT_MAX_def Let_def
      split: json.splits if_splits)

lemma find_after_allowed:
  "set (map fst before) \<subseteq> set allowed \<Longrightarrow>
   find (\<lambda>k. k \<notin> set allowed) (map fst (before @ rest)) = find (\<lambda>k. k \<notin> set allowed) (map fst rest)"
  by (induction before) auto

lemma known_fields_accepted:
  "set (map fst r) \<subseteq> set allowed \<Longrightarrow> rejectUnknownFields r allowed = Inr ()"
  using find_after_allowed [of r allowed "[]"] by (simp add: rejectUnknownFields_def)

text \<open>The first unknown key decides: any key but the empty one is refused by name.\<close>

lemma first_unknown_refused:
  assumes "set (map fst before) \<subseteq> set allowed" and "k \<notin> set allowed" and "k \<noteq> ''''"
  shows "rejectUnknownFields (before @ (k, v) # after) allowed
    = input_error (''Unsupported request field: '' @ k @ ''.'')"
  using assms(2,3) unfolding rejectUnknownFields_def find_after_allowed [OF assms(1)] by simp

text \<open>
  The empty key is falsy, so an object whose first unknown key is empty is accepted, with every
  unknown field that follows it.
\<close>

lemma unknown_after_empty_key_accepted:
  assumes "set (map fst before) \<subseteq> set allowed" and "'''' \<notin> set allowed"
  shows "rejectUnknownFields (before @ ('''', v) # after) allowed = Inr ()"
  using assms(2) unfolding rejectUnknownFields_def find_after_allowed [OF assms(1)] by simp

end
