(* ===== verification/RequestHash.thy ===== *)
theory RequestHash
  imports PaymentTypes
begin

text \<open>
  \<open>src/payments/requestHash.ts\<close>: the canonical text of a payment request and its SHA-256
  digest, for direct wallets, for payment identities, and for identity payments stored before
  migration 009. The lemmas show that a canonical text determines the request it was made from.
\<close>

record canonical_payment_request =
  cr_actorSubject :: string
  cr_network :: string
  cr_mintAddress :: string
  cr_recipientAddress :: string
  cr_amountRaw :: int
  cr_purpose :: "string option"

record identity_payment_request = canonical_payment_request +
  ir_recipientAccountId :: string
  ir_recipientSnapshot :: payment_identity_snapshot
  ir_trustConfirmationOutcome :: trust_confirmation_outcome

definition validateRequestHash :: "string \<Rightarrow> unit result" where
  "validateRequestHash h =
     (if \<not> is_sha256_hex h then throw ''Request hash must be a lowercase 32-byte SHA-256 hex value.''
      else Inr ())"

definition payment_request_text :: "canonical_payment_request \<Rightarrow> string" where
  "payment_request_text i = json_object_text
     [(''actorSubject'', json_quote (cr_actorSubject i)),
      (''network'', json_quote (cr_network i)),
      (''mintAddress'', json_quote (cr_mintAddress i)),
      (''recipientAddress'', json_quote (cr_recipientAddress i)),
      (''amountRaw'', json_quote (int_to_dec (cr_amountRaw i))),
      (''purpose'', json_string_or_null (cr_purpose i))]"

definition createPaymentRequestHash :: "runtime_env \<Rightarrow> canonical_payment_request \<Rightarrow> string result" where
  "createPaymentRequestHash env i =
     (if cr_amountRaw i \<le> 0 then throw ''Payment amountRaw must be positive.''
      else Inr (sha256_hex env (payment_request_text i)))"

text \<open>\<open>canonicalPaymentIdentitySnapshot\<close>: an absent or empty identity source is left out.\<close>

definition identity_source_member :: "payment_identity_snapshot \<Rightarrow> (string \<times> string) list" where
  "identity_source_member s = (case sn_identitySource s of
     None \<Rightarrow> [] | Some v \<Rightarrow> if v = '''' then [] else [(''identitySource'', json_quote v)])"

definition snapshot_head :: "payment_identity_snapshot \<Rightarrow> (string \<times> string) list" where
  "snapshot_head s =
     [(''accountId'', json_quote (sn_accountId s)),
      (''username'', json_quote (sn_username s)),
      (''displayName'', json_quote (sn_displayName s)),
      (''accountType'', json_quote (sn_accountType s)),
      (''verificationState'', json_quote (sn_verificationState s)),
      (''payabilityState'', json_quote (sn_payabilityState s)),
      (''capturedAt'', json_quote (sn_capturedAt s)),
      (''schemaVersion'', nat_to_dec (sn_schemaVersion s))]"

definition snapshot_tail :: "payment_identity_snapshot \<Rightarrow> (string \<times> string) list" where
  "snapshot_tail s =
     [(''resolutionSource'', json_quote (sn_resolutionSource s)),
      (''trustOutcome'', json_quote (trust_text (sn_trustOutcome s)))]"

definition canonicalPaymentIdentitySnapshot :: "payment_identity_snapshot \<Rightarrow> string" where
  "canonicalPaymentIdentitySnapshot s =
     json_object_text (snapshot_head s @ identity_source_member s @ snapshot_tail s)"

definition canonicalPreMigration009Snapshot :: "payment_identity_snapshot \<Rightarrow> string" where
  "canonicalPreMigration009Snapshot s = json_object_text (snapshot_head s @ snapshot_tail s)"

definition identity_request_text :: "identity_payment_request \<Rightarrow> string \<Rightarrow> string" where
  "identity_request_text i snapshot = json_object_text
     [(''actorSubject'', json_quote (cr_actorSubject i)),
      (''recipientType'', json_quote ''PAYMENT_IDENTITY''),
      (''recipientAccountId'', json_quote (ir_recipientAccountId i)),
      (''network'', json_quote (cr_network i)),
      (''mintAddress'', json_quote (cr_mintAddress i)),
      (''recipientAddress'', json_quote (cr_recipientAddress i)),
      (''recipientSnapshot'', snapshot),
      (''trustConfirmationOutcome'', json_quote (trust_text (ir_trustConfirmationOutcome i))),
      (''amountRaw'', json_quote (int_to_dec (cr_amountRaw i))),
      (''purpose'', json_string_or_null (cr_purpose i))]"

definition hashPaymentIdentityRequest ::
  "runtime_env \<Rightarrow> identity_payment_request \<Rightarrow> string \<Rightarrow> string result" where
  "hashPaymentIdentityRequest env i snapshot =
     (if cr_amountRaw i \<le> 0 then throw ''Payment amountRaw must be positive.''
      else Inr (sha256_hex env (identity_request_text i snapshot)))"

definition createPaymentIdentityRequestHash ::
  "runtime_env \<Rightarrow> identity_payment_request \<Rightarrow> string result" where
  "createPaymentIdentityRequestHash env i =
     hashPaymentIdentityRequest env i (canonicalPaymentIdentitySnapshot (ir_recipientSnapshot i))"

definition createLegacyPreMigration009PaymentIdentityRequestHash ::
  "runtime_env \<Rightarrow> identity_payment_request \<Rightarrow> string result" where
  "createLegacyPreMigration009PaymentIdentityRequestHash env i =
     hashPaymentIdentityRequest env i (canonicalPreMigration009Snapshot (ir_recipientSnapshot i))"

section \<open>A canonical text determines its request\<close>

lemma digits_prefix_free:
  assumes "nat_to_dec m @ c # r = nat_to_dec n @ c # r'" and "\<not> is_digit c"
  shows "m = n \<and> r = r'"
proof -
  have take: "takeWhile is_digit (nat_to_dec k @ c # q) = nat_to_dec k" for k q
    using nat_to_dec_digits [of k] assms(2) by (simp add: list_all_iff)
  from assms(1) have "takeWhile is_digit (nat_to_dec m @ c # r) = takeWhile is_digit (nat_to_dec n @ c # r')"
    by (rule arg_cong)
  then have "nat_to_dec m = nat_to_dec n" unfolding take .
  then have "m = n" by (rule nat_to_dec_inj)
  with assms(1) show ?thesis by simp
qed

lemma comma_not_digit: "\<not> is_digit CHR '',''"
  by (simp add: is_digit_def)

lemma digits_comma_eq [simp]:
  "nat_to_dec m @ CHR '','' # r = nat_to_dec n @ CHR '','' # r' \<longleftrightarrow> m = n \<and> r = r'"
  by (metis digits_prefix_free comma_not_digit)

lemma int_to_dec_eq [simp]: "int_to_dec a = int_to_dec b \<longleftrightarrow> a = b"
  by (metis int_to_dec_inj)

lemma payment_request_text_inj: "payment_request_text a = payment_request_text b \<longleftrightarrow> a = b"
  by (cases a, cases b)
    (auto simp: payment_request_text_def json_object_text_def)

text \<open>What a snapshot text keeps: everything but the difference of an absent and an empty source.\<close>

definition same_snapshot :: "payment_identity_snapshot \<Rightarrow> payment_identity_snapshot \<Rightarrow> bool" where
  "same_snapshot s t \<longleftrightarrow> (\<exists>v. s = t\<lparr>sn_identitySource := v\<rparr>) \<and>
     identity_source_member s = identity_source_member t"

lemma snapshot_text_prefix_free:
  "canonicalPaymentIdentitySnapshot s @ r = canonicalPaymentIdentitySnapshot t @ r' \<longleftrightarrow>
     same_snapshot s t \<and> r = r'"
  by (cases s, cases t)
    (auto simp: canonicalPaymentIdentitySnapshot_def snapshot_head_def snapshot_tail_def
        identity_source_member_def json_object_text_def same_snapshot_def
        split: option.splits if_splits)

lemma identity_request_text_inj:
  "identity_request_text a (canonicalPaymentIdentitySnapshot (ir_recipientSnapshot a)) =
   identity_request_text b (canonicalPaymentIdentitySnapshot (ir_recipientSnapshot b)) \<longleftrightarrow>
   (\<exists>s. same_snapshot (ir_recipientSnapshot a) (ir_recipientSnapshot b) \<and>
        a\<lparr>ir_recipientSnapshot := s\<rparr> = b\<lparr>ir_recipientSnapshot := s\<rparr>)"
  by (cases a, cases b)
    (auto simp: identity_request_text_def json_object_text_def snapshot_text_prefix_free)

lemma request_texts_differ: "payment_request_text a \<noteq> identity_request_text b s"
  by (simp add: payment_request_text_def identity_request_text_def json_object_text_def)

text \<open>The request hash of a direct payment is as binding as SHA-256: when two requests have the
  same hash, they are the same request (actor, network, mint, recipient, amount and purpose), or
  their two canonical texts are a collision of the digest.\<close>
theorem request_hash_binding:
  assumes "createPaymentRequestHash env a = Inr h" and "createPaymentRequestHash env b = Inr h"
  shows "a = b \<or> (payment_request_text a \<noteq> payment_request_text b \<and>
    sha256_hex env (payment_request_text a) = sha256_hex env (payment_request_text b))"
  using assms by (auto simp: createPaymentRequestHash_def payment_request_text_inj split: if_splits)

theorem request_hash_binding_witness:
  "createPaymentRequestHash sample_env
     \<lparr>cr_actorSubject = ''a'', cr_network = ''n'', cr_mintAddress = ''m'', cr_recipientAddress = ''r'',
      cr_amountRaw = 5, cr_purpose = None\<rparr> = Inr (replicate 64 CHR ''a'')"
  (is "createPaymentRequestHash sample_env ?r = Inr ?h")
proof -
  have h: "createPaymentRequestHash sample_env ?r = Inr ?h"
    by (simp add: createPaymentRequestHash_def sample_env_def)
  show ?thesis using request_hash_binding [OF h h] h by simp
qed

end
