(* ===== verification/PaymentIdentityReplay.thy ===== *)
theory PaymentIdentityReplay
  imports RequestHash
begin

text \<open>
  \<open>src/payments/paymentIdentityReplay.ts\<close>: whether a repeated identity request is the one an
  existing payment was created for. The recipient's meaning comes from the payment's own frozen
  snapshot; the caller controls only the fields compared with it and the hash.
\<close>

record payment_identity_replay_request =
  rp_actorSubject :: string
  rp_idempotencyKey :: string
  rp_recipientId :: string
  rp_trustAcknowledged :: bool
  rp_network :: string
  rp_rail :: string
  rp_asset :: string
  rp_mintAddress :: string
  rp_amountRaw :: int
  rp_purpose :: "string option"

definition MIGRATION_009_CANONICAL_SNAPSHOT_KEYS :: "string list" where
  "MIGRATION_009_CANONICAL_SNAPSHOT_KEYS =
     [''accountId'', ''accountType'', ''capturedAt'', ''displayName'', ''identitySource'', ''payabilityState'',
      ''resolutionSource'', ''schemaVersion'', ''trustOutcome'', ''username'', ''verificationState'']"

definition CANONICAL_ACCOUNT_TYPES :: "string list" where
  "CANONICAL_ACCOUNT_TYPES = [''PERSONAL'', ''CREATOR'', ''BUSINESS'', ''AI_AGENT'']"

definition CANONICAL_VERIFICATION_STATES :: "string list" where
  "CANONICAL_VERIFICATION_STATES = [''UNVERIFIED'', ''PENDING'', ''VERIFIED'']"

text \<open>\<open>Object.keys(snapshot).sort()\<close>: every field but the identity source is always there.\<close>

definition snapshot_sorted_keys :: "payment_identity_snapshot \<Rightarrow> string list" where
  "snapshot_sorted_keys s = filter (\<lambda>k. k \<noteq> ''identitySource'' \<or> sn_identitySource s \<noteq> None)
     [''accountId'', ''accountType'', ''capturedAt'', ''displayName'', ''identitySource'', ''payabilityState'',
      ''resolutionSource'', ''schemaVersion'', ''trustOutcome'', ''username'', ''verificationState'']"

definition isKnownMigration009CanonicalBackfill ::
  "runtime_env \<Rightarrow> payment_record \<Rightarrow> payment_identity_snapshot \<Rightarrow> bool" where
  "isKnownMigration009CanonicalBackfill env payment snapshot =
     (if \<not> truthy (p_recipientAccountId payment) \<or>
         p_recipientSyntheticId payment \<noteq> None \<or>
         sn_identitySource snapshot \<noteq> Some ''RECIPIENT_DIRECTORY'' \<or>
         sn_resolutionSource snapshot \<noteq> ''RECIPIENT_DIRECTORY'' \<or>
         sn_schemaVersion snapshot \<noteq> 1 \<or>
         sn_payabilityState snapshot \<noteq> ''AVAILABLE'' \<or>
         sn_username snapshot = '''' \<or>
         sn_displayName snapshot = '''' \<or>
         \<not> valid_time env (sn_capturedAt snapshot) \<or>
         sn_accountType snapshot \<notin> set CANONICAL_ACCOUNT_TYPES \<or>
         sn_verificationState snapshot \<notin> set CANONICAL_VERIFICATION_STATES
      then False
      else snapshot_sorted_keys snapshot = MIGRATION_009_CANONICAL_SNAPSHOT_KEYS)"

definition frozen_recipient_id :: "payment_record \<Rightarrow> string option" where
  "frozen_recipient_id p = defined (p_recipientAccountId p) (p_recipientSyntheticId p)"

definition replay_hash_input ::
  "payment_record \<Rightarrow> payment_identity_replay_request \<Rightarrow> payment_identity_snapshot \<Rightarrow>
   trust_confirmation_outcome \<Rightarrow> identity_payment_request" where
  "replay_hash_input payment i snapshot trust =
     \<lparr>cr_actorSubject = rp_actorSubject i, cr_network = rp_network i,
      cr_mintAddress = rp_mintAddress i, cr_recipientAddress = p_recipientAddress payment,
      cr_amountRaw = rp_amountRaw i, cr_purpose = rp_purpose i,
      ir_recipientAccountId = rp_recipientId i, ir_recipientSnapshot = snapshot,
      ir_trustConfirmationOutcome = trust\<rparr>"

definition matchesFrozenPaymentIdentityRequest ::
  "runtime_env \<Rightarrow> payment_record \<Rightarrow> payment_identity_replay_request \<Rightarrow> bool result" where
  "matchesFrozenPaymentIdentityRequest env payment i =
     (case (p_recipientSnapshot payment, p_trustConfirmationOutcome payment) of
        (Some snapshot, Some trustOutcome) \<Rightarrow>
          if p_recipientType payment \<noteq> PAYMENT_IDENTITY \<or>
             frozen_recipient_id payment \<noteq> Some (rp_recipientId i) \<or>
             p_recipientSnapshotVersion payment \<noteq> Some 1 \<or>
             frozen_recipient_id payment \<noteq> Some (sn_accountId snapshot) \<or>
             sn_trustOutcome snapshot \<noteq> trustOutcome \<or>
             p_actorSubject payment \<noteq> rp_actorSubject i \<or>
             p_idempotencyKey payment \<noteq> rp_idempotencyKey i \<or>
             p_network payment \<noteq> rp_network i \<or>
             p_rail payment \<noteq> rp_rail i \<or>
             p_asset payment \<noteq> rp_asset i \<or>
             p_mintAddress payment \<noteq> rp_mintAddress i \<or>
             p_amountRaw payment \<noteq> rp_amountRaw i \<or>
             p_purpose payment \<noteq> rp_purpose i
          then Inr False
          else if trustOutcome = ACKNOWLEDGED \<and> \<not> rp_trustAcknowledged i then Inr False
          else and_then (createPaymentIdentityRequestHash env (replay_hash_input payment i snapshot trustOutcome))
            (\<lambda>h. if p_requestHash payment = h then Inr True
                 else if \<not> isKnownMigration009CanonicalBackfill env payment snapshot then Inr False
                 else and_then (createLegacyPreMigration009PaymentIdentityRequestHash env
                                  (replay_hash_input payment i snapshot trustOutcome))
                   (\<lambda>legacy. Inr (p_requestHash payment = legacy)))
      | _ \<Rightarrow> Inr False)"

text \<open>A match binds every caller-controlled field to the payment.\<close>

lemma match_fields:
  assumes "matchesFrozenPaymentIdentityRequest env p i = Inr True"
  shows "p_actorSubject p = rp_actorSubject i \<and> p_idempotencyKey p = rp_idempotencyKey i \<and>
    p_mintAddress p = rp_mintAddress i \<and> p_amountRaw p = rp_amountRaw i \<and> p_purpose p = rp_purpose i \<and>
    frozen_recipient_id p = Some (rp_recipientId i) \<and>
    (p_trustConfirmationOutcome p = Some ACKNOWLEDGED \<longrightarrow> rp_trustAcknowledged i)"
  using assms by (auto simp: matchesFrozenPaymentIdentityRequest_def split: option.splits if_splits)

lemma match_positive:
  assumes "matchesFrozenPaymentIdentityRequest env p i = Inr True"
  shows "0 < p_amountRaw p"
  using assms
  by (auto simp: matchesFrozenPaymentIdentityRequest_def createPaymentIdentityRequestHash_def
      hashPaymentIdentityRequest_def replay_hash_input_def split: option.splits if_splits)

text \<open>The comparison throws only for a frozen amount that is not positive.\<close>

lemma match_total:
  "0 < p_amountRaw p \<Longrightarrow> \<exists>b. matchesFrozenPaymentIdentityRequest env p i = Inr b"
  by (auto simp: matchesFrozenPaymentIdentityRequest_def createPaymentIdentityRequestHash_def
      createLegacyPreMigration009PaymentIdentityRequestHash_def
      hashPaymentIdentityRequest_def replay_hash_input_def split: option.splits)

end
