(* ===== verification/Allowlist.thy ===== *)
theory Allowlist
  imports Prelude
begin

text \<open>
  \<open>src/allowlist/allowlistEntry.ts\<close>: who may use payments. The environment variable
  \<open>BETA_ALLOWLIST_REQUIRED\<close> is an argument (nothing when it is not set).
\<close>

record allowlist_entry =
  al_actorSubject :: string
  al_enabled :: bool
  al_addedAt :: string
  al_expiresAt :: "string option"
  al_revokedAt :: "string option"
  al_note :: "string option"

record create_allowlist_entry_input =
  ca_actorSubject :: string
  ca_enabled :: "bool option"
  ca_expiresAt :: "string option"
  ca_note :: "string option"

definition betaAllowlistRequired :: "string option \<Rightarrow> bool" where
  "betaAllowlistRequired raw =
     (case raw of
        None \<Rightarrow> True
      | Some v \<Rightarrow>
          if js_trim v = '''' then True
          else let normalized = js_lower (js_trim v) in
            if normalized = ''false'' then False
            else if normalized = ''true'' then True
            else True)"

definition hasActivePaymentAccess ::
  "runtime_env \<Rightarrow> string option \<Rightarrow> allowlist_entry option \<Rightarrow> string \<Rightarrow> bool" where
  "hasActivePaymentAccess env raw entry now =
     (if \<not> betaAllowlistRequired raw then True
      else case entry of
             None \<Rightarrow> False
           | Some a \<Rightarrow> al_enabled a \<and> \<not> truthy (al_revokedAt a) \<and>
               (case al_expiresAt a of None \<Rightarrow> True | Some x \<Rightarrow> time_before env now x))"

lemma betaAllowlistRequired_iff:
  "betaAllowlistRequired raw \<longleftrightarrow> \<not> (\<exists>v. raw = Some v \<and> js_lower (js_trim v) = ''false'')"
  by (auto simp: betaAllowlistRequired_def Let_def js_lower_def split: option.splits)

text \<open>Payment access fails closed: it is granted only when the allowlist is switched off by the
  text false (up to case and white space), or to an actor with an entry that is enabled, not revoked
  and, when it has an expiry, one that is a readable time after now.\<close>
theorem payment_access_fails_closed:
  "hasActivePaymentAccess env raw entry now \<longleftrightarrow>
     (\<exists>v. raw = Some v \<and> js_lower (js_trim v) = ''false'') \<or>
     (\<exists>a. entry = Some a \<and> al_enabled a \<and> \<not> truthy (al_revokedAt a) \<and>
        (case al_expiresAt a of None \<Rightarrow> True
         | Some x \<Rightarrow> \<exists>t n. date_parse env x = Some t \<and> date_parse env now = Some n \<and> n < t))"
  by (cases "betaAllowlistRequired raw")
    (auto simp: hasActivePaymentAccess_def betaAllowlistRequired_iff time_before_def split: option.splits)

end
