(* ===== verification/PaymentStore.thy ===== *)
theory PaymentStore
  imports PaymentIntentValidation PaymentIdentityReplay Allowlist
begin

text \<open>
  \<open>src/storage/memory/inMemoryPaymentPersistence.ts\<close>: the payment persistence. Its state is a
  record of the maps the class keeps; \<open>exclusive\<close> runs one operation at a time, so an operation is
  a function from the state it finds to what it returns or throws and the state it leaves. The
  number of clock readings so far is part of the state.
\<close>

section \<open>State and inputs\<close>

record payment_store =
  ps_allowlist :: "(string, allowlist_entry) js_map"
  ps_payments :: "(string, payment_record) js_map"
  ps_idempotency :: "(string, string) js_map"
  ps_receipts :: "(string, payment_receipt) js_map"
  ps_events :: "(string, payment_event list) js_map"
  ps_signatures :: "(string, string) js_map"
  ps_receiptPdas :: "(string, string) js_map"
  ps_runtimeEventIds :: "string list"
  ps_nextEventId :: int
  ps_clockReads :: nat

definition empty_store :: payment_store where
  "empty_store = \<lparr>ps_allowlist = [], ps_payments = [], ps_idempotency = [], ps_receipts = [],
     ps_events = [], ps_signatures = [], ps_receiptPdas = [], ps_runtimeEventIds = [],
     ps_nextEventId = 1, ps_clockReads = 0\<rparr>"

datatype idempotency_claim =
    CLAIMED payment_record
  | EXISTING payment_record
  | HASH_CONFLICT payment_record

record claim_payment_identity_input =
  ci_id :: string
  ci_actorSubject :: string
  ci_senderAccountId :: string
  ci_idempotencyKey :: string
  ci_recipientAccountId :: string
  ci_trustAcknowledged :: bool
  ci_network :: string
  ci_rail :: string
  ci_asset :: string
  ci_mintAddress :: string
  ci_amountRaw :: int
  ci_purpose :: "string option"
  ci_capturedAt :: string

record claim_synthetic_input =
  cs_id :: string
  cs_actorSubject :: string
  cs_senderAccountId :: string
  cs_idempotencyKey :: string
  cs_syntheticId :: string
  cs_username :: string
  cs_displayName :: string
  cs_network :: string
  cs_rail :: string
  cs_asset :: string
  cs_mintAddress :: string
  cs_amountRaw :: int
  cs_purpose :: "string option"
  cs_capturedAt :: string

text \<open>What the configured resolver of payment identities answers, an argument of the model.\<close>

record resolved_identity =
  ri_username :: string
  ri_displayName :: string
  ri_accountType :: string
  ri_verificationState :: string
  ri_payabilityState :: string
  ri_destinationAddress :: string

type_synonym identity_resolver = "(claim_payment_identity_input \<Rightarrow> resolved_identity option result) option"

record payment_event_input =
  ei_paymentId :: string
  ei_eventType :: payment_event_type
  ei_fromStatus :: "payment_status option"
  ei_toStatus :: "payment_status option"
  ei_runtimeEventId :: "string option"
  ei_requestId :: "string option"
  ei_details :: "json_object option"
  ei_occurredAt :: "string option"

record payment_transition_input =
  ti_paymentId :: string
  ti_expectedVersion :: int
  ti_toStatus :: payment_status
  ti_evidence :: "lifecycle_evidence option"
  ti_requestId :: "string option"
  ti_details :: "json_object option"
  ti_occurredAt :: "string option"

record signature_observation_input =
  so_paymentId :: string
  so_expectedVersion :: int
  so_solanaSignature :: string
  so_submittedAt :: string
  so_submittedSlot :: "int option"
  so_recentBlockhash :: "string option"
  so_requestId :: "string option"
  so_details :: "json_object option"
  so_occurredAt :: "string option"

record settlement_check_input =
  sc_paymentId :: string
  sc_expectedVersion :: int
  sc_lastCheckedAt :: string

record settlement_confirmation_input =
  sf_paymentId :: string
  sf_expectedVersion :: int
  sf_solanaSignature :: string
  sf_confirmedSlot :: int
  sf_confirmedAt :: string
  sf_requestId :: "string option"
  sf_details :: "json_object option"
  sf_occurredAt :: "string option"

record informational_event_input =
  ie_paymentId :: string
  ie_eventType :: payment_event_type
  ie_runtimeEventId :: "string option"
  ie_requestId :: "string option"
  ie_details :: "json_object option"
  ie_occurredAt :: "string option"

record store_receipt_input =
  sr_paymentId :: string
  sr_expectedVersion :: int
  sr_receipt :: payment_receipt
  sr_runtimeEventId :: "string option"
  sr_requestId :: "string option"
  sr_details :: "json_object option"
  sr_occurredAt :: "string option"

section \<open>Validation and cloning\<close>

definition validateInformationalEventType :: "payment_event_type \<Rightarrow> unit result" where
  "validateInformationalEventType ty =
     (if ty \<notin> set INFORMATIONAL_PAYMENT_EVENT_TYPES
      then throw (event_type_text ty @ '' is reserved for authoritative lifecycle persistence.'')
      else Inr ())"

definition validateActorSubject :: "string \<Rightarrow> unit result" where
  "validateActorSubject a =
     (if length (js_trim a) < 1 \<or> length a > 255
      then throw ''Actor subject must contain between 1 and 255 characters.'' else Inr ())"

definition validateCreatePayment :: "create_payment_input \<Rightarrow> unit result" where
  "validateCreatePayment i =
     and_then (validateActorSubject (cp_actorSubject i)) (\<lambda>_.
       if cp_amountRaw i \<le> 0 then throw ''Payment amountRaw must be positive.''
       else if cp_network i \<noteq> ''solana-devnet'' \<or> cp_rail i \<noteq> ''solana'' \<or> cp_asset i \<noteq> ''USDC''
       then throw ''Only Solana Devnet USDC payments are supported.''
       else case cp_purpose i of
              None \<Rightarrow> Inr ()
            | Some purpose \<Rightarrow>
                if utf8_length purpose < 1 \<or> utf8_length purpose > 120
                then throw ''Purpose must be null or contain between 1 and 120 UTF-8 bytes.''
                else Inr ())"

definition clone_option :: "('a \<Rightarrow> 'a result) \<Rightarrow> 'a option \<Rightarrow> 'a option result" where
  "clone_option f v = (case v of None \<Rightarrow> Inr None | Some x \<Rightarrow> and_then (f x) (\<lambda>y. Inr (Some y)))"

definition clonePayment :: "payment_record \<Rightarrow> payment_record result" where
  "clonePayment p =
     and_then (clone_option cloneJsonValue (chainError p)) (\<lambda>e.
       and_then (clone_option cloneTerminalProof (terminalProof p)) (\<lambda>t.
         Inr (p\<lparr>chainError := e, terminalProof := t\<rparr>)))"

definition cloneEvent :: "payment_event \<Rightarrow> payment_event result" where
  "cloneEvent e = and_then (cloneJsonObject (ev_details e)) (\<lambda>d. Inr (e\<lparr>ev_details := d\<rparr>))"

definition cloneReceipt :: "payment_receipt \<Rightarrow> payment_receipt result" where
  "cloneReceipt r = and_then (cloneJsonObject (rc_rawReceipt r)) (\<lambda>d. Inr (r\<lparr>rc_rawReceipt := d\<rparr>))"

definition validateReceipt :: "payment_record \<Rightarrow> payment_receipt \<Rightarrow> unit result" where
  "validateReceipt p r =
     (if rc_paymentId r \<noteq> p_id p then throw ''Receipt payment ID does not match.''
      else if rc_network r \<noteq> p_network p \<or> rc_mintAddress r \<noteq> p_mintAddress p \<or>
              rc_recipientAddress r \<noteq> p_recipientAddress p \<or> rc_amountRaw r \<noteq> p_amountRaw p
      then throw ''Receipt settlement evidence does not match the payment.''
      else if truthy (solanaSignature p) \<and> solanaSignature p \<noteq> Some (rc_solanaSignature r)
      then throw ''Receipt signature does not match the observed payment signature.''
      else if truthy (receiptPda p) \<and> receiptPda p \<noteq> Some (rc_receiptPda r)
      then throw ''Receipt PDA does not match the observed payment receipt PDA.''
      else if \<not> is_sha256_hex (rc_onchainReference r)
      then throw ''Receipt on-chain reference must be a lowercase 32-byte hex value.''
      else if rc_slot r < 0 then throw ''Receipt slot cannot be negative.''
      else and_then (cloneJsonObject (rc_rawReceipt r)) (\<lambda>_. Inr ()))"

section \<open>Private steps\<close>

definition read_clock :: "runtime_env \<Rightarrow> payment_store \<Rightarrow> string \<times> payment_store" where
  "read_clock env s = (clock env (ps_clockReads s), s\<lparr>ps_clockReads := Suc (ps_clockReads s)\<rparr>)"

definition time_or_clock :: "runtime_env \<Rightarrow> string option \<Rightarrow> payment_store \<Rightarrow> string \<times> payment_store" where
  "time_or_clock env v s = (case v of Some t \<Rightarrow> (t, s) | None \<Rightarrow> read_clock env s)"

definition requirePayment :: "payment_store \<Rightarrow> string \<Rightarrow> payment_record result" where
  "requirePayment s pid = (case js_get (ps_payments s) pid of
     None \<Rightarrow> throw (''Payment '' @ pid @ '' was not found.'') | Some p \<Rightarrow> Inr p)"

text \<open>The owner a map records blocks another payment when it is truthy and different.\<close>

definition owned_by_other :: "(string, string) js_map \<Rightarrow> string \<Rightarrow> string \<Rightarrow> bool" where
  "owned_by_other m k pid = (case js_get m k of None \<Rightarrow> False | Some o' \<Rightarrow> o' \<noteq> '''' \<and> o' \<noteq> pid)"

definition runtime_event_taken :: "payment_store \<Rightarrow> string option \<Rightarrow> bool" where
  "runtime_event_taken s v = (case v of
     None \<Rightarrow> False | Some r \<Rightarrow> r \<noteq> '''' \<and> r \<in> set (ps_runtimeEventIds s))"

definition add_runtime_event :: "string option \<Rightarrow> string list \<Rightarrow> string list" where
  "add_runtime_event v ids = (case v of
     None \<Rightarrow> ids | Some r \<Rightarrow> if r = '''' \<or> r \<in> set ids then ids else ids @ [r])"

definition payment_events :: "payment_store \<Rightarrow> string \<Rightarrow> payment_event list" where
  "payment_events s pid = coalesce (js_get (ps_events s) pid) []"

definition appendEventUnsafe ::
  "runtime_env \<Rightarrow> payment_event_input \<Rightarrow> payment_store \<Rightarrow> (payment_store, payment_event) outcome" where
  "appendEventUnsafe env i s =
     (if runtime_event_taken s (ei_runtimeEventId i)
      then (throw ''Runtime event ID already exists.'', s)
      else let s1 = s\<lparr>ps_nextEventId := ps_nextEventId s + 1\<rparr> in
        when_ok (cloneJsonObject (coalesce (ei_details i) [])) s1 (\<lambda>details.
          let (occurredAt, s2) = time_or_clock env (ei_occurredAt i) s1;
              existing = payment_events s (ei_paymentId i);
              event = \<lparr>ev_id = ps_nextEventId s, ev_paymentId = ei_paymentId i,
                ev_sequenceNumber = length existing + 1, ev_eventType = ei_eventType i,
                ev_fromStatus = ei_fromStatus i, ev_toStatus = ei_toStatus i,
                ev_runtimeEventId = ei_runtimeEventId i, ev_requestId = ei_requestId i,
                ev_details = details, ev_occurredAt = occurredAt\<rparr>
          in (cloneEvent event,
              s2\<lparr>ps_events := js_set (ps_events s2) (ei_paymentId i) (existing @ [event]),
                 ps_runtimeEventIds := add_runtime_event (ei_runtimeEventId i) (ps_runtimeEventIds s2)\<rparr>)))"

definition applyEvidence ::
  "runtime_env \<Rightarrow> payment_record \<Rightarrow> payment_status \<Rightarrow> lifecycle_evidence \<Rightarrow> payment_store \<Rightarrow>
   (payment_store, payment_record) outcome" where
  "applyEvidence env current status e s =
     (let (updatedAt, s1) = read_clock env s in
      when_ok (clone_option cloneJsonValue (chainError e)) s1 (\<lambda>err.
        when_ok (clone_option cloneTerminalProof (terminalProof e)) s1 (\<lambda>pr.
          (Inr (current\<lparr>p_status := status, p_version := p_version current + 1, p_updatedAt := updatedAt,
             runtimeId := defined (runtimeId e) (runtimeId current),
             runtimePaymentId := defined (runtimePaymentId e) (runtimePaymentId current),
             runtimeTransactionId := defined (runtimeTransactionId e) (runtimeTransactionId current),
             userConfirmedAt := defined (userConfirmedAt e) (userConfirmedAt current),
             executionStartedAt := defined (executionStartedAt e) (executionStartedAt current),
             submittedAt := defined (submittedAt e) (submittedAt current),
             lastCheckedAt := defined (lastCheckedAt e) (lastCheckedAt current),
             completedAt := defined (completedAt e) (completedAt current),
             failedAt := defined (failedAt e) (failedAt current),
             solanaSignature := defined (solanaSignature e) (solanaSignature current),
             recentBlockhash := defined (recentBlockhash e) (recentBlockhash current),
             submittedSlot := defined (submittedSlot e) (submittedSlot current),
             confirmedSlot := defined (confirmedSlot e) (confirmedSlot current),
             confirmationStatus := defined (confirmationStatus e) (confirmationStatus current),
             chainError := defined err (chainError current),
             receiptPda := defined (receiptPda e) (receiptPda current),
             failureCode := defined (failureCode e) (failureCode current),
             failureReason := defined (failureReason e) (failureReason current),
             terminalProof := defined pr (terminalProof current)\<rparr>), s1))))"

section \<open>Allowlist and claims\<close>

definition createAllowlistEntry ::
  "runtime_env \<Rightarrow> create_allowlist_entry_input \<Rightarrow> payment_store \<Rightarrow> (payment_store, allowlist_entry) outcome" where
  "createAllowlistEntry env i s =
     (if js_has (ps_allowlist s) (ca_actorSubject i)
      then (throw (''Allowlist entry '' @ ca_actorSubject i @ '' already exists.''), s)
      else when_ok (validateActorSubject (ca_actorSubject i)) s (\<lambda>_.
        let (addedAt, s1) = read_clock env s in
        if (case ca_expiresAt i of None \<Rightarrow> False
            | Some x \<Rightarrow> x \<noteq> '''' \<and> (\<not> valid_time env x \<or> time_not_after env x addedAt))
        then (throw ''Allowlist expiry must be after its added time.'', s1)
        else let entry = \<lparr>al_actorSubject = ca_actorSubject i, al_enabled = coalesce (ca_enabled i) True,
                al_addedAt = addedAt, al_expiresAt = ca_expiresAt i, al_revokedAt = None, al_note = ca_note i\<rparr>
          in (Inr entry, s1\<lparr>ps_allowlist := js_set (ps_allowlist s1) (ca_actorSubject i) entry\<rparr>)))"

definition findAllowlistEntry :: "payment_store \<Rightarrow> string \<Rightarrow> allowlist_entry option" where
  "findAllowlistEntry s actor = js_get (ps_allowlist s) actor"

definition index_key :: "string \<Rightarrow> string \<Rightarrow> string" where
  "index_key actor key = actor @ nul @ key"

text \<open>The payment an idempotency index names, when the index entry is truthy.\<close>

definition existing_id :: "payment_store \<Rightarrow> string \<Rightarrow> string \<Rightarrow> string option" where
  "existing_id s actor key = (case js_get (ps_idempotency s) (index_key actor key) of
     None \<Rightarrow> None | Some pid \<Rightarrow> if pid = '''' then None else Some pid)"

definition claim_result ::
  "(payment_record \<Rightarrow> idempotency_claim) \<Rightarrow> payment_record \<Rightarrow> idempotency_claim result" where
  "claim_result f p = and_then (clonePayment p) (\<lambda>q. Inr (f q))"

text \<open>The end of every claim: store the payment and its index entry, record CREATED, return it.\<close>

definition insert_payment ::
  "runtime_env \<Rightarrow> payment_record \<Rightarrow> string \<Rightarrow> json_object option \<Rightarrow> string \<Rightarrow> payment_store \<Rightarrow>
   (payment_store, idempotency_claim) outcome" where
  "insert_payment env payment indexKey details now s =
     then_do (appendEventUnsafe env
        \<lparr>ei_paymentId = p_id payment, ei_eventType = CREATED, ei_fromStatus = None,
         ei_toStatus = Some AWAITING_CONFIRMATION, ei_runtimeEventId = None, ei_requestId = None,
         ei_details = details, ei_occurredAt = Some now\<rparr>
        (s\<lparr>ps_payments := js_set (ps_payments s) (p_id payment) payment,
           ps_idempotency := js_set (ps_idempotency s) indexKey (p_id payment)\<rparr>))
       (\<lambda>_ s'. (claim_result CLAIMED payment, s'))"

definition new_payment :: "create_payment_input \<Rightarrow> string \<Rightarrow> payment_record" where
  "new_payment i now = lifecycle_evidence.extend no_evidence (payment_record.fields
     (cp_id i) (cp_actorSubject i) (cp_idempotencyKey i) (cp_requestHash i) AWAITING_CONFIRMATION 0
     (cp_network i) (cp_rail i) (cp_asset i) (cp_mintAddress i) (cp_recipientAddress i) (cp_amountRaw i)
     (cp_purpose i) (coalesce (cp_recipientType i) DIRECT_WALLET) (cp_recipientAccountId i)
     (cp_recipientSyntheticId i) (cp_recipientSnapshot i) (cp_recipientSnapshotVersion i)
     (cp_trustConfirmationOutcome i) now now)"

definition claimIdempotencyKey ::
  "runtime_env \<Rightarrow> create_payment_input \<Rightarrow> payment_store \<Rightarrow> (payment_store, idempotency_claim) outcome" where
  "claimIdempotencyKey env i s =
     when_ok (validateRequestHash (cp_requestHash i)) s (\<lambda>_.
     when_ok (validateCreatePayment i) s (\<lambda>_.
       if length (cp_idempotencyKey i) < 16 \<or> length (cp_idempotencyKey i) > 128
       then (throw ''Idempotency key must be between 16 and 128 characters.'', s)
       else if \<not> js_has (ps_allowlist s) (cp_actorSubject i)
       then (throw (''Allowlist entry '' @ cp_actorSubject i @ '' was not found.''), s)
       else case existing_id s (cp_actorSubject i) (cp_idempotencyKey i) of
         Some pid \<Rightarrow> when_ok (requirePayment s pid) s (\<lambda>existing.
           (claim_result (if p_requestHash existing = cp_requestHash i then EXISTING else HASH_CONFLICT)
              existing, s))
       | None \<Rightarrow>
           if js_has (ps_payments s) (cp_id i)
           then (throw (''Payment '' @ cp_id i @ '' already exists.''), s)
           else let (now, s1) = read_clock env s in
             insert_payment env (new_payment i now) (index_key (cp_actorSubject i) (cp_idempotencyKey i))
               None now s1))"

definition replayPaymentIdentityKey ::
  "runtime_env \<Rightarrow> payment_identity_replay_request \<Rightarrow> payment_store \<Rightarrow>
   (payment_store, idempotency_claim option) outcome" where
  "replayPaymentIdentityKey env i s =
     (case existing_id s (rp_actorSubject i) (rp_idempotencyKey i) of
        None \<Rightarrow> (Inr None, s)
      | Some pid \<Rightarrow> when_ok (requirePayment s pid) s (\<lambda>existing.
          when_ok (matchesFrozenPaymentIdentityRequest env existing i) s (\<lambda>same.
            (and_then (claim_result (if same then EXISTING else HASH_CONFLICT) existing) (\<lambda>c. Inr (Some c)), s))))"

definition identity_replay :: "claim_payment_identity_input \<Rightarrow> payment_identity_replay_request" where
  "identity_replay i = \<lparr>rp_actorSubject = ci_actorSubject i, rp_idempotencyKey = ci_idempotencyKey i,
     rp_recipientId = ci_recipientAccountId i, rp_trustAcknowledged = ci_trustAcknowledged i,
     rp_network = ci_network i, rp_rail = ci_rail i, rp_asset = ci_asset i,
     rp_mintAddress = ci_mintAddress i, rp_amountRaw = ci_amountRaw i, rp_purpose = ci_purpose i\<rparr>"

definition directory_snapshot ::
  "claim_payment_identity_input \<Rightarrow> resolved_identity \<Rightarrow> trust_confirmation_outcome \<Rightarrow> payment_identity_snapshot" where
  "directory_snapshot i r trust = \<lparr>sn_accountId = ci_recipientAccountId i, sn_username = ri_username r,
     sn_displayName = ri_displayName r, sn_accountType = ri_accountType r,
     sn_verificationState = ri_verificationState r, sn_payabilityState = ''AVAILABLE'',
     sn_capturedAt = ci_capturedAt i, sn_schemaVersion = 1,
     sn_identitySource = Some ''RECIPIENT_DIRECTORY'', sn_resolutionSource = ''RECIPIENT_DIRECTORY'',
     sn_trustOutcome = trust\<rparr>"

definition directory_payment ::
  "claim_payment_identity_input \<Rightarrow> resolved_identity \<Rightarrow> trust_confirmation_outcome \<Rightarrow> string \<Rightarrow> string \<Rightarrow> payment_record" where
  "directory_payment i r trust hash now = lifecycle_evidence.extend no_evidence (payment_record.fields
     (ci_id i) (ci_actorSubject i) (ci_idempotencyKey i) hash AWAITING_CONFIRMATION 0
     (ci_network i) (ci_rail i) (ci_asset i) (ci_mintAddress i) (ri_destinationAddress r) (ci_amountRaw i)
     (ci_purpose i) PAYMENT_IDENTITY (Some (ci_recipientAccountId i)) None
     (Some (directory_snapshot i r trust)) (Some 1) (Some trust) now now)"

definition claimPaymentIdentityKey ::
  "runtime_env \<Rightarrow> identity_resolver \<Rightarrow> claim_payment_identity_input \<Rightarrow> payment_store \<Rightarrow>
   (payment_store, idempotency_claim) outcome" where
  "claimPaymentIdentityKey env resolver i s =
     (case existing_id s (ci_actorSubject i) (ci_idempotencyKey i) of
        Some pid \<Rightarrow> when_ok (requirePayment s pid) s (\<lambda>existing.
          when_ok (matchesFrozenPaymentIdentityRequest env existing (identity_replay i)) s (\<lambda>same.
            (claim_result (if same then EXISTING else HASH_CONFLICT) existing, s)))
      | None \<Rightarrow>
          (case resolver of
             None \<Rightarrow> (throw ''RECIPIENT_UNAVAILABLE'', s)
           | Some resolve \<Rightarrow>
               if ci_senderAccountId i = ci_recipientAccountId i
               then (throw ''RECIPIENT_UNAVAILABLE'', s)
               else when_ok (resolve i) s (\<lambda>resolved.
                 case resolved of
                   None \<Rightarrow> (throw ''RECIPIENT_UNAVAILABLE'', s)
                 | Some r \<Rightarrow>
                     if ri_payabilityState r \<noteq> ''AVAILABLE'' \<or> ri_verificationState r = ''RESTRICTED''
                     then (throw ''RECIPIENT_UNAVAILABLE'', s)
                     else let trust = (if ri_verificationState r = ''VERIFIED'' then NOT_REQUIRED else ACKNOWLEDGED) in
                       if ri_verificationState r \<noteq> ''VERIFIED'' \<and> \<not> ci_trustAcknowledged i
                       then (throw ''TRUST_ACKNOWLEDGMENT_REQUIRED'', s)
                       else when_ok (createPaymentIdentityRequestHash env
                           \<lparr>cr_actorSubject = ci_actorSubject i, cr_network = ci_network i,
                            cr_mintAddress = ci_mintAddress i, cr_recipientAddress = ri_destinationAddress r,
                            cr_amountRaw = ci_amountRaw i, cr_purpose = ci_purpose i,
                            ir_recipientAccountId = ci_recipientAccountId i,
                            ir_recipientSnapshot = directory_snapshot i r trust,
                            ir_trustConfirmationOutcome = trust\<rparr>) s (\<lambda>hash.
                         let (now, s1) = read_clock env s in
                         insert_payment env (directory_payment i r trust hash now)
                           (index_key (ci_actorSubject i) (ci_idempotencyKey i))
                           (Some [(''recipientType'', JString ''PAYMENT_IDENTITY''),
                                  (''recipientAccountId'', JString (ci_recipientAccountId i)),
                                  (''recipientSnapshotVersion'', JNumber (Finite 1)),
                                  (''trustConfirmationOutcome'', JString (trust_text trust))])
                           now s1))))"

definition synthetic_replay :: "claim_synthetic_input \<Rightarrow> payment_identity_replay_request" where
  "synthetic_replay i = \<lparr>rp_actorSubject = cs_actorSubject i, rp_idempotencyKey = cs_idempotencyKey i,
     rp_recipientId = cs_syntheticId i, rp_trustAcknowledged = False,
     rp_network = cs_network i, rp_rail = cs_rail i, rp_asset = cs_asset i,
     rp_mintAddress = cs_mintAddress i, rp_amountRaw = cs_amountRaw i, rp_purpose = cs_purpose i\<rparr>"

definition synthetic_snapshot :: "claim_synthetic_input \<Rightarrow> payment_identity_snapshot" where
  "synthetic_snapshot i = \<lparr>sn_accountId = cs_syntheticId i, sn_username = cs_username i,
     sn_displayName = cs_displayName i, sn_accountType = ''PERSONAL'',
     sn_verificationState = ''UNVERIFIED'', sn_payabilityState = ''AVAILABLE'',
     sn_capturedAt = cs_capturedAt i, sn_schemaVersion = 1,
     sn_identitySource = Some ''SYNTHETIC_BETA'', sn_resolutionSource = ''SYNTHETIC_BETA'',
     sn_trustOutcome = NOT_REQUIRED\<rparr>"

definition synthetic_payment :: "claim_synthetic_input \<Rightarrow> string \<Rightarrow> string \<Rightarrow> payment_record" where
  "synthetic_payment i hash now = lifecycle_evidence.extend no_evidence (payment_record.fields
     (cs_id i) (cs_actorSubject i) (cs_idempotencyKey i) hash AWAITING_CONFIRMATION 0
     (cs_network i) (cs_rail i) (cs_asset i) (cs_mintAddress i) (''synthetic:'' @ cs_syntheticId i)
     (cs_amountRaw i) (cs_purpose i) PAYMENT_IDENTITY None (Some (cs_syntheticId i))
     (Some (synthetic_snapshot i)) (Some 1) (Some NOT_REQUIRED) now now)"

definition claimSyntheticPaymentIdentityKey ::
  "runtime_env \<Rightarrow> claim_synthetic_input \<Rightarrow> payment_store \<Rightarrow> (payment_store, idempotency_claim) outcome" where
  "claimSyntheticPaymentIdentityKey env i s =
     (case existing_id s (cs_actorSubject i) (cs_idempotencyKey i) of
        Some pid \<Rightarrow> when_ok (requirePayment s pid) s (\<lambda>existing.
          when_ok (matchesFrozenPaymentIdentityRequest env existing (synthetic_replay i)) s (\<lambda>same.
            (claim_result (if same then EXISTING else HASH_CONFLICT) existing, s)))
      | None \<Rightarrow>
          when_ok (createPaymentIdentityRequestHash env
             \<lparr>cr_actorSubject = cs_actorSubject i, cr_network = cs_network i,
              cr_mintAddress = cs_mintAddress i, cr_recipientAddress = ''synthetic:'' @ cs_syntheticId i,
              cr_amountRaw = cs_amountRaw i, cr_purpose = cs_purpose i,
              ir_recipientAccountId = cs_syntheticId i,
              ir_recipientSnapshot = synthetic_snapshot i,
              ir_trustConfirmationOutcome = NOT_REQUIRED\<rparr>) s (\<lambda>hash.
            let (now, s1) = read_clock env s in
            insert_payment env (synthetic_payment i hash now)
              (index_key (cs_actorSubject i) (cs_idempotencyKey i))
              (Some [(''identitySource'', JString ''SYNTHETIC_BETA''),
                     (''trustConfirmationOutcome'', JString ''NOT_REQUIRED'')])
              now s1))"

section \<open>Queries\<close>

definition findPayment :: "payment_store \<Rightarrow> string \<Rightarrow> payment_record option result" where
  "findPayment s pid = clone_option clonePayment (js_get (ps_payments s) pid)"

definition limit_within :: "js_number \<Rightarrow> rat \<Rightarrow> bool" where
  "limit_within n hi = (is_safe_integer n \<and> (case n of Finite q \<Rightarrow> 1 \<le> q \<and> q \<le> hi | _ \<Rightarrow> False))"

definition limit_nat :: "js_number \<Rightarrow> nat" where
  "limit_nat n = (case n of Finite q \<Rightarrow> nat (fst (quotient_of q)) | _ \<Rightarrow> 0)"

definition newest_first :: "runtime_env \<Rightarrow> payment_record \<Rightarrow> payment_record \<Rightarrow> int" where
  "newest_first env a b = or_compare (locale_compare env (p_createdAt b) (p_createdAt a))
     (locale_compare env (p_id b) (p_id a))"

definition listPaymentsByActor ::
  "runtime_env \<Rightarrow> payment_store \<Rightarrow> string \<Rightarrow> js_number \<Rightarrow> payment_record list result" where
  "listPaymentsByActor env s actor limit =
     (if \<not> limit_within limit 100 then throw ''Activity limit is invalid.''
      else map_result clonePayment (take (limit_nat limit) (js_sort (newest_first env)
        (filter (\<lambda>p. p_actorSubject p = actor) (js_values (ps_payments s))))))"

definition recent_candidates :: "payment_store \<Rightarrow> string \<Rightarrow> (payment_record \<times> string) list" where
  "recent_candidates s actor = List.maps (\<lambda>p.
     if p_actorSubject p \<noteq> actor \<or> p_recipientType p \<noteq> PAYMENT_IDENTITY then []
     else case p_recipientSnapshot p of
       None \<Rightarrow> []
     | Some snapshot \<Rightarrow>
         if sn_identitySource snapshot = Some ''SYNTHETIC_BETA'' then []
         else case find (\<lambda>e. ev_eventType e = USER_CONFIRMED) (payment_events s (p_id p)) of
                None \<Rightarrow> [] | Some confirmed \<Rightarrow> [(p, ev_occurredAt confirmed)])
     (js_values (ps_payments s))"

definition latest_confirmed_first :: "runtime_env \<Rightarrow> payment_record \<times> string \<Rightarrow> payment_record \<times> string \<Rightarrow> int" where
  "latest_confirmed_first env a b = or_compare (locale_compare env (snd b) (snd a))
     (locale_compare env (p_id (fst b)) (p_id (fst a)))"

fun recent_loop ::
  "nat \<Rightarrow> (payment_record \<times> string) list \<Rightarrow> string option list \<Rightarrow> payment_identity_snapshot list \<Rightarrow>
   payment_identity_snapshot list" where
  "recent_loop limit [] seen result = result"
| "recent_loop limit (c # cs) seen result =
     (let accountId = p_recipientAccountId (fst c) in
      if accountId \<in> set seen then recent_loop limit cs seen result
      else let result' = (case p_recipientSnapshot (fst c) of None \<Rightarrow> result | Some sn \<Rightarrow> result @ [sn]) in
        if length result' = limit then result'
        else recent_loop limit cs (accountId # seen) result')"

definition listRecentPaymentIdentities ::
  "runtime_env \<Rightarrow> payment_store \<Rightarrow> string \<Rightarrow> js_number \<Rightarrow> payment_identity_snapshot list result" where
  "listRecentPaymentIdentities env s actor limit =
     (if \<not> limit_within limit 10 then throw ''Recent limit is invalid.''
      else Inr (recent_loop (limit_nat limit)
        (js_sort (latest_confirmed_first env) (recent_candidates s actor)) [] []))"

definition oldest_update_first :: "runtime_env \<Rightarrow> payment_record \<Rightarrow> payment_record \<Rightarrow> int" where
  "oldest_update_first env a b = or_compare (locale_compare env (p_updatedAt a) (p_updatedAt b))
     (locale_compare env (p_id a) (p_id b))"

definition listPaymentsRequiringReconciliation ::
  "runtime_env \<Rightarrow> payment_store \<Rightarrow> js_number \<Rightarrow> payment_record list result" where
  "listPaymentsRequiringReconciliation env s limit =
     (if \<not> is_safe_integer limit \<or> (case limit of Finite q \<Rightarrow> q \<le> 0 | _ \<Rightarrow> True)
      then throw ''Limit must be positive.''
      else map_result clonePayment (take (limit_nat limit) (js_sort (oldest_update_first env)
        (filter (\<lambda>p. p_status p = PROCESSING \<or> p_status p = UNKNOWN) (js_values (ps_payments s))))))"

definition listPaymentEvents :: "payment_store \<Rightarrow> string \<Rightarrow> payment_event list result" where
  "listPaymentEvents s pid = map_result cloneEvent (payment_events s pid)"

definition findReceiptByPaymentId :: "payment_store \<Rightarrow> string \<Rightarrow> payment_receipt option result" where
  "findReceiptByPaymentId s pid = clone_option cloneReceipt (js_get (ps_receipts s) pid)"

section \<open>Lifecycle operations\<close>

definition version_conflict :: "string \<Rightarrow> 'a result" where
  "version_conflict pid = Inl (Err PaymentVersionConflictError
     (''Payment '' @ pid @ '' was modified by another operation.''))"

definition requireVersion :: "payment_store \<Rightarrow> string \<Rightarrow> int \<Rightarrow> payment_record result" where
  "requireVersion s pid expected = and_then (requirePayment s pid) (\<lambda>current.
     if p_version current \<noteq> expected then version_conflict pid else Inr current)"

definition transition_details :: "payment_transition_input \<Rightarrow> json_object result" where
  "transition_details i =
     (if ti_toStatus i = FAILED then
        (case Option.bind (ti_evidence i) terminalProof of
           None \<Rightarrow> throw ''Cannot read properties of undefined (reading 'kind')''
         | Some p \<Rightarrow> and_then (terminalProofToJson p) (\<lambda>j.
             cloneJsonObject (js_set (coalesce (ti_details i) []) ''terminalProof'' (JObject j))))
      else cloneJsonObject (coalesce (ti_details i) []))"

definition set_signature :: "string option \<Rightarrow> string \<Rightarrow> (string, string) js_map \<Rightarrow> (string, string) js_map" where
  "set_signature v pid m = (case v of None \<Rightarrow> m | Some sig \<Rightarrow> if sig = '''' then m else js_set m sig pid)"

definition transitionPayment ::
  "runtime_env \<Rightarrow> payment_transition_input \<Rightarrow> payment_store \<Rightarrow> (payment_store, payment_record) outcome" where
  "transitionPayment env i s =
     when_ok (requireVersion s (ti_paymentId i) (ti_expectedVersion i)) s (\<lambda>current.
     when_ok (validatePaymentTransition (p_status current) (ti_toStatus i)
                (coalesce (ti_evidence i) no_evidence)) s (\<lambda>_.
     when_ok (normalizeTransitionEvidence (ti_toStatus i) (coalesce (ti_evidence i) no_evidence)) s (\<lambda>e.
       if (case solanaSignature e of None \<Rightarrow> False
           | Some sig \<Rightarrow> sig \<noteq> '''' \<and> owned_by_other (ps_signatures s) sig (ti_paymentId i))
       then (throw ''Solana signature already exists.'', s)
       else when_ok (transition_details i) s (\<lambda>details.
         then_do (applyEvidence env current (ti_toStatus i) e s) (\<lambda>updated s1.
           let s2 = s1\<lparr>ps_signatures := set_signature (solanaSignature e) (ti_paymentId i) (ps_signatures s1),
                      ps_payments := js_set (ps_payments s1) (p_id updated) updated\<rparr> in
           when_ok (eventTypeForTransition (p_status current) (ti_toStatus i)) s2 (\<lambda>ty.
             then_do (appendEventUnsafe env
                 \<lparr>ei_paymentId = p_id updated, ei_eventType = ty, ei_fromStatus = Some (p_status current),
                  ei_toStatus = Some (p_status updated), ei_runtimeEventId = None,
                  ei_requestId = ti_requestId i, ei_details = Some details, ei_occurredAt = ti_occurredAt i\<rparr> s2)
               (\<lambda>_ s3. (clonePayment updated, s3))))))))"

definition recordSignatureObservation ::
  "runtime_env \<Rightarrow> signature_observation_input \<Rightarrow> payment_store \<Rightarrow> (payment_store, payment_record) outcome" where
  "recordSignatureObservation env i s =
     when_ok (requireVersion s (so_paymentId i) (so_expectedVersion i)) s (\<lambda>current.
       if p_status current \<noteq> PROCESSING \<and> p_status current \<noteq> UNKNOWN
       then (throw ''A signature may be observed only for PROCESSING or UNKNOWN payments.'', s)
       else if owned_by_other (ps_signatures s) (so_solanaSignature i) (so_paymentId i)
       then (throw ''Solana signature already exists.'', s)
       else if (case so_submittedSlot i of None \<Rightarrow> False | Some n \<Rightarrow> n < 0)
       then (throw ''Submitted slot cannot be negative.'', s)
       else if truthy (solanaSignature current) \<and> solanaSignature current \<noteq> Some (so_solanaSignature i)
       then (throw ''An observed Solana signature cannot be replaced.'', s)
       else when_ok (cloneJsonObject (coalesce (so_details i) [])) s (\<lambda>details.
         then_do (applyEvidence env current (p_status current)
             (no_evidence\<lparr>solanaSignature := Some (so_solanaSignature i), submittedAt := Some (so_submittedAt i),
                submittedSlot := so_submittedSlot i, recentBlockhash := so_recentBlockhash i\<rparr>) s) (\<lambda>updated s1.
           then_do (appendEventUnsafe env
               \<lparr>ei_paymentId = so_paymentId i, ei_eventType = SIGNATURE_OBSERVED, ei_fromStatus = None,
                ei_toStatus = None, ei_runtimeEventId = None, ei_requestId = so_requestId i,
                ei_details = Some details, ei_occurredAt = so_occurredAt i\<rparr>
               (s1\<lparr>ps_signatures := js_set (ps_signatures s1) (so_solanaSignature i) (so_paymentId i),
                   ps_payments := js_set (ps_payments s1) (so_paymentId i) updated\<rparr>))
             (\<lambda>_ s2. (clonePayment updated, s2)))))"

definition recordSettlementCheck ::
  "runtime_env \<Rightarrow> settlement_check_input \<Rightarrow> payment_store \<Rightarrow> (payment_store, payment_record) outcome" where
  "recordSettlementCheck env i s =
     when_ok (requireVersion s (sc_paymentId i) (sc_expectedVersion i)) s (\<lambda>current.
       if p_status current \<noteq> PROCESSING \<and> p_status current \<noteq> UNKNOWN
       then (throw ''Settlement checks apply only to PROCESSING or UNKNOWN payments.'', s)
       else then_do (applyEvidence env current (p_status current)
           (no_evidence\<lparr>lastCheckedAt := Some (sc_lastCheckedAt i)\<rparr>) s) (\<lambda>updated s1.
         (clonePayment updated, s1\<lparr>ps_payments := js_set (ps_payments s1) (sc_paymentId i) updated\<rparr>)))"

definition recordSettlementConfirmation ::
  "runtime_env \<Rightarrow> settlement_confirmation_input \<Rightarrow> payment_store \<Rightarrow> (payment_store, payment_record) outcome" where
  "recordSettlementConfirmation env i s =
     when_ok (requireVersion s (sf_paymentId i) (sf_expectedVersion i)) s (\<lambda>current.
       if p_status current \<noteq> PROCESSING \<and> p_status current \<noteq> UNKNOWN
       then (throw ''Settlement confirmation applies only to PROCESSING or UNKNOWN payments.'', s)
       else if sf_confirmedSlot i < 0 then (throw ''Confirmed slot cannot be negative.'', s)
       else if truthy (solanaSignature current) \<and> solanaSignature current \<noteq> Some (sf_solanaSignature i)
       then (throw ''Settlement signature does not match the observed signature.'', s)
       else if owned_by_other (ps_signatures s) (sf_solanaSignature i) (sf_paymentId i)
       then (throw ''Solana signature already exists.'', s)
       else when_ok (cloneJsonObject (js_set (js_set (coalesce (sf_details i) [])
              ''signature'' (JString (sf_solanaSignature i)))
              ''confirmedSlot'' (JString (int_to_dec (sf_confirmedSlot i))))) s (\<lambda>details.
         then_do (applyEvidence env current (p_status current)
             (no_evidence\<lparr>solanaSignature := Some (sf_solanaSignature i),
                confirmedSlot := Some (sf_confirmedSlot i), confirmationStatus := Some ''confirmed'',
                lastCheckedAt := Some (sf_confirmedAt i)\<rparr>) s) (\<lambda>updated s1.
           then_do (appendEventUnsafe env
               \<lparr>ei_paymentId = sf_paymentId i, ei_eventType = SETTLEMENT_CONFIRMED,
                ei_fromStatus = Some (p_status current), ei_toStatus = Some (p_status current),
                ei_runtimeEventId = None, ei_requestId = sf_requestId i,
                ei_details = Some details, ei_occurredAt = sf_occurredAt i\<rparr>
               (s1\<lparr>ps_signatures := js_set (ps_signatures s1) (sf_solanaSignature i) (sf_paymentId i),
                   ps_payments := js_set (ps_payments s1) (sf_paymentId i) updated\<rparr>))
             (\<lambda>_ s2. (clonePayment updated, s2)))))"

definition appendInformationalEvent ::
  "runtime_env \<Rightarrow> informational_event_input \<Rightarrow> payment_store \<Rightarrow> (payment_store, payment_event) outcome" where
  "appendInformationalEvent env i s =
     when_ok (requirePayment s (ie_paymentId i)) s (\<lambda>_.
     when_ok (validateInformationalEventType (ie_eventType i)) s (\<lambda>_.
       appendEventUnsafe env
         \<lparr>ei_paymentId = ie_paymentId i, ei_eventType = ie_eventType i, ei_fromStatus = None,
          ei_toStatus = None, ei_runtimeEventId = ie_runtimeEventId i, ei_requestId = ie_requestId i,
          ei_details = ie_details i, ei_occurredAt = ie_occurredAt i\<rparr> s))"

definition receipt_evidence :: "payment_receipt \<Rightarrow> lifecycle_evidence" where
  "receipt_evidence r = no_evidence\<lparr>solanaSignature := Some (rc_solanaSignature r),
     confirmedSlot := Some (rc_slot r), receiptPda := Some (rc_receiptPda r),
     completedAt := Some (rc_verifiedAt r), confirmationStatus := Some ''confirmed''\<rparr>"

definition storeVerifiedReceipt ::
  "runtime_env \<Rightarrow> store_receipt_input \<Rightarrow> payment_store \<Rightarrow>
   (payment_store, payment_record \<times> payment_receipt) outcome" where
  "storeVerifiedReceipt env i s =
     when_ok (requireVersion s (sr_paymentId i) (sr_expectedVersion i)) s (\<lambda>current.
       if js_has (ps_receipts s) (sr_paymentId i)
       then (throw (''Payment '' @ sr_paymentId i @ '' already has a receipt.''), s)
       else when_ok (validateReceipt current (sr_receipt i)) s (\<lambda>_.
         if owned_by_other (ps_signatures s) (rc_solanaSignature (sr_receipt i)) (sr_paymentId i)
         then (throw ''Solana signature already exists.'', s)
         else if owned_by_other (ps_receiptPdas s) (rc_receiptPda (sr_receipt i)) (sr_paymentId i)
         then (throw ''Receipt PDA already exists.'', s)
         else if runtime_event_taken s (sr_runtimeEventId i)
         then (throw ''Runtime event ID already exists.'', s)
         else when_ok (cloneJsonObject (coalesce (sr_details i) [])) s (\<lambda>receiptDetails.
           let e = receipt_evidence (sr_receipt i) in
           when_ok (validateReceiptCompletionTransition (p_status current) e) s (\<lambda>_.
             let (createdAt, s1) = time_or_clock env (rc_createdAt (sr_receipt i)) s in
             when_ok (cloneJsonObject (rc_rawReceipt (sr_receipt i))) s1 (\<lambda>raw.
               let receipt = (sr_receipt i)\<lparr>rc_createdAt := Some createdAt, rc_rawReceipt := raw\<rparr> in
               then_do (applyEvidence env current COMPLETED e s1) (\<lambda>payment s2.
                 then_do (appendEventUnsafe env
                     \<lparr>ei_paymentId = sr_paymentId i, ei_eventType = RECEIPT_VERIFIED,
                      ei_fromStatus = Some (p_status current), ei_toStatus = Some COMPLETED,
                      ei_runtimeEventId = sr_runtimeEventId i, ei_requestId = sr_requestId i,
                      ei_details = Some receiptDetails, ei_occurredAt = sr_occurredAt i\<rparr>
                     (s2\<lparr>ps_receipts := js_set (ps_receipts s2) (sr_paymentId i) receipt,
                         ps_signatures := js_set (ps_signatures s2) (rc_solanaSignature receipt) (sr_paymentId i),
                         ps_receiptPdas := js_set (ps_receiptPdas s2) (rc_receiptPda receipt) (sr_paymentId i),
                         ps_payments := js_set (ps_payments s2) (sr_paymentId i) payment\<rparr>))
                   (\<lambda>_ s3. (and_then (clonePayment payment) (\<lambda>p.
                              and_then (cloneReceipt receipt) (\<lambda>r. Inr (p, r))), s3))))))))"

end
