(* ===== verification/PaymentStoreSpec.thy ===== *)
theory PaymentStoreSpec
  imports PaymentStore
begin

text \<open>
  What the payment persistence promises, stated on its state: \<open>store_step\<close> lists the few kinds of
  change a state may undergo, \<open>store_ok\<close> is the invariant they keep, and the last section shows that
  every operation of the class makes one of these changes (the detailed operations refine the
  step relation).
\<close>

section \<open>Kinds of change\<close>

text \<open>Nothing changes but the counters of event ids and clock readings.\<close>

definition same_data :: "payment_store \<Rightarrow> payment_store \<Rightarrow> bool" where
  "same_data s t \<longleftrightarrow> ps_allowlist t = ps_allowlist s \<and> ps_payments t = ps_payments s \<and>
     ps_idempotency t = ps_idempotency s \<and> ps_receipts t = ps_receipts s \<and> ps_events t = ps_events s \<and>
     ps_signatures t = ps_signatures s \<and> ps_receiptPdas t = ps_receiptPdas s \<and>
     ps_runtimeEventIds t = ps_runtimeEventIds s \<and> ps_nextEventId s \<le> ps_nextEventId t"

lemma same_data_refl [simp, intro]: "same_data s s"
  by (simp add: same_data_def)

lemma same_data_trans: "same_data s t \<Longrightarrow> same_data t u \<Longrightarrow> same_data s u"
  by (auto simp: same_data_def)

text \<open>The fields of a payment that the request fixed.\<close>

definition same_request :: "payment_record \<Rightarrow> payment_record \<Rightarrow> bool" where
  "same_request p q \<longleftrightarrow> p_id p = p_id q \<and> p_actorSubject p = p_actorSubject q \<and>
     p_idempotencyKey p = p_idempotencyKey q \<and> p_requestHash p = p_requestHash q \<and>
     p_network p = p_network q \<and> p_rail p = p_rail q \<and> p_asset p = p_asset q \<and>
     p_mintAddress p = p_mintAddress q \<and> p_recipientAddress p = p_recipientAddress q \<and>
     p_amountRaw p = p_amountRaw q \<and> p_purpose p = p_purpose q \<and>
     p_recipientType p = p_recipientType q \<and> p_recipientAccountId p = p_recipientAccountId q \<and>
     p_recipientSyntheticId p = p_recipientSyntheticId q \<and> p_recipientSnapshot p = p_recipientSnapshot q \<and>
     p_recipientSnapshotVersion p = p_recipientSnapshotVersion q \<and>
     p_trustConfirmationOutcome p = p_trustConfirmationOutcome q \<and> p_createdAt p = p_createdAt q"

text \<open>
  A stored payment holds JSON that clones to itself, a positive amount, and an idempotency key
  without NUL, the separator of the index keys.
\<close>

definition no_nul :: "string \<Rightarrow> bool" where
  "no_nul k \<longleftrightarrow> CHR 0x00 \<notin> set k"

lemma index_key_split:
  assumes "no_nul j"
  shows "takeWhile (\<lambda>c. c \<noteq> CHR 0x00) (rev (index_key b j)) = rev j"
    and "dropWhile (\<lambda>c. c \<noteq> CHR 0x00) (rev (index_key b j)) = CHR 0x00 # rev b"
proof -
  have "\<forall>c\<in>set (rev j). c \<noteq> CHR 0x00" using assms by (auto simp: no_nul_def)
  moreover have "rev (index_key b j) = rev j @ CHR 0x00 # rev b" by (simp add: index_key_def nul_def)
  ultimately show "takeWhile (\<lambda>c. c \<noteq> CHR 0x00) (rev (index_key b j)) = rev j"
    "dropWhile (\<lambda>c. c \<noteq> CHR 0x00) (rev (index_key b j)) = CHR 0x00 # rev b"
    by (simp_all add: takeWhile_append dropWhile_append)
qed

lemma index_key_inj: "no_nul k \<Longrightarrow> no_nul k' \<Longrightarrow> index_key a k = index_key a' k' \<longleftrightarrow> a = a' \<and> k = k'"
  by (metis index_key_split list.inject rev_is_rev_conv)

lemma visible_no_nul: "IDEMPOTENCY_KEY_PATTERN k \<Longrightarrow> no_nul k"
  unfolding IDEMPOTENCY_KEY_PATTERN_def no_nul_def list_all_iff by (fastforce dest: bspec [where x = "CHR 0x00"])
definition payment_ok :: "payment_record \<Rightarrow> bool" where
  "payment_ok p \<longleftrightarrow> (\<forall>e. chainError p = Some e \<longrightarrow> json_ok e) \<and>
     (\<forall>t. terminalProof p = Some t \<longrightarrow> proof_ok t) \<and> 0 < p_amountRaw p \<and> no_nul (p_idempotencyKey p)"

definition receipt_matches :: "payment_record \<Rightarrow> payment_receipt \<Rightarrow> bool" where
  "receipt_matches p r \<longleftrightarrow> rc_paymentId r = p_id p \<and> rc_network r = p_network p \<and>
     rc_mintAddress r = p_mintAddress p \<and> rc_recipientAddress r = p_recipientAddress p \<and>
     rc_amountRaw r = p_amountRaw p \<and> solanaSignature p = Some (rc_solanaSignature r) \<and>
     confirmedSlot p = Some (rc_slot r) \<and> receiptPda p = Some (rc_receiptPda r) \<and>
     0 \<le> rc_slot r \<and> is_sha256_hex (rc_onchainReference r) \<and> json_object_ok (rc_rawReceipt r)"

text \<open>The event that moves a payment out of \<open>AWAITING_CONFIRMATION\<close> into \<open>PROCESSING\<close> is \<open>USER_CONFIRMED\<close>.\<close>

definition confirms_user :: "payment_event \<Rightarrow> bool" where
  "confirms_user e \<longleftrightarrow> (ev_fromStatus e = Some AWAITING_CONFIRMATION \<longrightarrow> ev_toStatus e = Some PROCESSING \<longrightarrow>
     ev_eventType e = USER_CONFIRMED)"

text \<open>An event of the trail of payment \<open>pid\<close> appended by the state \<open>s\<close>.\<close>

definition next_event :: "payment_store \<Rightarrow> string \<Rightarrow> payment_event \<Rightarrow> bool" where
  "next_event s pid ev \<longleftrightarrow> ev_id ev = ps_nextEventId s \<and> ev_paymentId ev = pid \<and>
     ev_sequenceNumber ev = length (payment_events s pid) + 1 \<and> json_object_ok (ev_details ev)"

definition with_event :: "payment_store \<Rightarrow> string \<Rightarrow> payment_event option \<Rightarrow> (string, payment_event list) js_map" where
  "with_event s pid ev = (case ev of None \<Rightarrow> ps_events s
     | Some e \<Rightarrow> js_set (ps_events s) pid (payment_events s pid @ [e]))"

text \<open>
  One payment is rewritten: \<open>cur\<close> becomes \<open>new\<close>, with the signature it claims, the receipt that
  completes it and the event that records it, each if there is one.
\<close>

definition payment_write ::
  "payment_store \<Rightarrow> payment_record \<Rightarrow> payment_record \<Rightarrow> string option \<Rightarrow> payment_receipt option \<Rightarrow>
   payment_event option \<Rightarrow> payment_store \<Rightarrow> bool" where
  "payment_write s cur new sig rcpt ev t \<longleftrightarrow>
     ps_allowlist t = ps_allowlist s \<and> ps_idempotency t = ps_idempotency s \<and>
     ps_payments t = js_set (ps_payments s) (p_id cur) new \<and>
     ps_signatures t = (case sig of None \<Rightarrow> ps_signatures s | Some x \<Rightarrow> js_set (ps_signatures s) x (p_id cur)) \<and>
     ps_receipts t = (case rcpt of None \<Rightarrow> ps_receipts s | Some r \<Rightarrow> js_set (ps_receipts s) (p_id cur) r) \<and>
     ps_receiptPdas t = (case rcpt of None \<Rightarrow> ps_receiptPdas s
        | Some r \<Rightarrow> js_set (ps_receiptPdas s) (rc_receiptPda r) (p_id cur)) \<and>
     ps_events t = with_event s (p_id cur) ev \<and> ps_nextEventId s + (if ev = None then 0 else 1) \<le> ps_nextEventId t"

definition write_allowed ::
  "payment_store \<Rightarrow> payment_record \<Rightarrow> payment_record \<Rightarrow> string option \<Rightarrow> payment_receipt option \<Rightarrow>
   payment_event option \<Rightarrow> bool" where
  "write_allowed s cur new sig rcpt ev \<longleftrightarrow>
     js_get (ps_payments s) (p_id cur) = Some cur \<and> same_request new cur \<and> payment_ok new \<and>
     p_version new = p_version cur + 1 \<and> \<not> isTerminalPaymentStatus (p_status cur) \<and>
     (p_status new = p_status cur \<or> lifecycle_step (p_status cur) (p_status new)) \<and>
     (\<forall>x. solanaSignature new = Some x \<longrightarrow> x \<noteq> '''' \<longrightarrow> sig = Some x \<or> solanaSignature cur = Some x) \<and>
     (\<forall>x. sig = Some x \<longrightarrow> \<not> owned_by_other (ps_signatures s) x (p_id cur)) \<and>
     (p_status new = COMPLETED \<longleftrightarrow> rcpt \<noteq> None) \<and>
     (\<forall>r. rcpt = Some r \<longrightarrow> sig = Some (rc_solanaSignature r) \<and> receipt_matches new r \<and>
        js_get (ps_receipts s) (p_id cur) = None \<and>
        \<not> owned_by_other (ps_receiptPdas s) (rc_receiptPda r) (p_id cur)) \<and>
     (case ev of
        None \<Rightarrow> p_status new = p_status cur
      | Some e \<Rightarrow> next_event s (p_id cur) e \<and> confirms_user e \<and>
          ((ev_fromStatus e = Some (p_status cur) \<and> ev_toStatus e = Some (p_status new)) \<or>
           (ev_fromStatus e = None \<and> ev_toStatus e = None \<and> p_status new = p_status cur)))"

text \<open>A payment appears, awaiting confirmation, under an id and an index key that were free.\<close>

definition payment_insert :: "payment_store \<Rightarrow> payment_record \<Rightarrow> payment_event \<Rightarrow> payment_store \<Rightarrow> bool" where
  "payment_insert s p e t \<longleftrightarrow>
     p_id p \<noteq> '''' \<and> js_get (ps_payments s) (p_id p) = None \<and>
     js_get (ps_idempotency s) (index_key (p_actorSubject p) (p_idempotencyKey p)) = None \<and>
     payment_ok p \<and> p_status p = AWAITING_CONFIRMATION \<and> p_version p = 0 \<and>
     solanaSignature p = None \<and> next_event s (p_id p) e \<and>
     ev_eventType e = CREATED \<and> ev_fromStatus e = None \<and> ev_toStatus e = Some AWAITING_CONFIRMATION \<and>
     ps_allowlist t = ps_allowlist s \<and> ps_payments t = js_set (ps_payments s) (p_id p) p \<and>
     ps_idempotency t = js_set (ps_idempotency s) (index_key (p_actorSubject p) (p_idempotencyKey p)) (p_id p) \<and>
     ps_receipts t = ps_receipts s \<and> ps_signatures t = ps_signatures s \<and>
     ps_receiptPdas t = ps_receiptPdas s \<and> ps_events t = with_event s (p_id p) (Some e) \<and>
     ps_nextEventId s + 1 \<le> ps_nextEventId t"

inductive store_step :: "payment_store \<Rightarrow> payment_store \<Rightarrow> bool" where
  step_idle: "same_data s t \<Longrightarrow> store_step s t"
| step_allow: "js_get (ps_allowlist s) k = None \<Longrightarrow> same_data (s\<lparr>ps_allowlist := js_set (ps_allowlist s) k a\<rparr>) t \<Longrightarrow>
    store_step s t"
| step_insert: "payment_insert s p e t \<Longrightarrow> store_step s t"
| step_write: "payment_write s cur new sig rcpt ev t \<Longrightarrow> write_allowed s cur new sig rcpt ev \<Longrightarrow> store_step s t"
| step_annotate: "js_get (ps_payments s) pid = Some p \<Longrightarrow> next_event s pid e \<Longrightarrow>
    ev_fromStatus e = None \<Longrightarrow> ev_toStatus e = None \<Longrightarrow>
    same_data (s\<lparr>ps_events := with_event s pid (Some e), ps_nextEventId := ps_nextEventId s + 1,
                ps_runtimeEventIds := ids\<rparr>) t \<Longrightarrow> store_step s t"

section \<open>The invariant\<close>

text \<open>The status a trail of events ends in: the target of the last event that has one.\<close>

definition replay_status :: "payment_event list \<Rightarrow> payment_status option" where
  "replay_status evs = fold (\<lambda>e acc. defined (ev_toStatus e) acc) evs None"

lemma replay_status_snoc [simp]: "replay_status (evs @ [e]) = defined (ev_toStatus e) (replay_status evs)"
  by (simp add: replay_status_def)

lemma replay_status_Nil [simp]: "replay_status [] = None"
  by (simp add: replay_status_def)

text \<open>Every change a trail records starts where the trail stood and is a lifecycle step or no change.\<close>

fun trail_legal :: "payment_status option \<Rightarrow> payment_event list \<Rightarrow> bool" where
  "trail_legal st [] = True"
| "trail_legal st (e # es) =
     ((ev_toStatus e = None \<and> ev_fromStatus e = None \<and> st \<noteq> None \<or>
       ev_fromStatus e = st \<and> (case (st, ev_toStatus e) of
          (None, Some b) \<Rightarrow> b = AWAITING_CONFIRMATION
        | (Some a, Some b) \<Rightarrow> a = b \<or> lifecycle_step a b
        | _ \<Rightarrow> False)) \<and>
      trail_legal (defined (ev_toStatus e) st) es)"

lemma trail_legal_snoc:
  "trail_legal st (es @ [e]) \<longleftrightarrow> trail_legal st es \<and>
     trail_legal (fold (\<lambda>e acc. defined (ev_toStatus e) acc) es st) [e]"
  by (induction es arbitrary: st) auto

definition trail_ok :: "string \<Rightarrow> payment_event list \<Rightarrow> payment_status \<Rightarrow> bool" where
  "trail_ok pid evs st \<longleftrightarrow> map ev_sequenceNumber evs = [1..<Suc (length evs)] \<and>
     (\<forall>e\<in>set evs. ev_paymentId e = pid \<and> json_object_ok (ev_details e) \<and> confirms_user e) \<and>
     sorted_wrt (<) (map ev_id evs) \<and> trail_legal None evs \<and> replay_status evs = Some st"

definition payments_keyed :: "payment_store \<Rightarrow> bool" where
  "payments_keyed s \<longleftrightarrow> js_keys_distinct (ps_payments s) \<and>
     (\<forall>pid p. js_get (ps_payments s) pid = Some p \<longrightarrow> p_id p = pid \<and> pid \<noteq> '''' \<and> payment_ok p)"

definition index_ok :: "payment_store \<Rightarrow> bool" where
  "index_ok s \<longleftrightarrow>
     (\<forall>k pid. js_get (ps_idempotency s) k = Some pid \<longrightarrow> (\<exists>p. js_get (ps_payments s) pid = Some p \<and>
        k = index_key (p_actorSubject p) (p_idempotencyKey p))) \<and>
     (\<forall>pid p. js_get (ps_payments s) pid = Some p \<longrightarrow>
        js_get (ps_idempotency s) (index_key (p_actorSubject p) (p_idempotencyKey p)) = Some pid)"

definition signatures_ok :: "payment_store \<Rightarrow> bool" where
  "signatures_ok s \<longleftrightarrow> (\<forall>pid p x. js_get (ps_payments s) pid = Some p \<longrightarrow> solanaSignature p = Some x \<longrightarrow>
     x \<noteq> '''' \<longrightarrow> js_get (ps_signatures s) x = Some pid)"

definition receipts_ok :: "payment_store \<Rightarrow> bool" where
  "receipts_ok s \<longleftrightarrow>
     (\<forall>pid r. js_get (ps_receipts s) pid = Some r \<longrightarrow> (\<exists>p. js_get (ps_payments s) pid = Some p \<and>
        p_status p = COMPLETED \<and> receipt_matches p r) \<and>
        js_get (ps_receiptPdas s) (rc_receiptPda r) = Some pid) \<and>
     (\<forall>pid p. js_get (ps_payments s) pid = Some p \<longrightarrow> p_status p = COMPLETED \<longrightarrow> js_has (ps_receipts s) pid)"

definition trails_ok :: "payment_store \<Rightarrow> bool" where
  "trails_ok s \<longleftrightarrow>
     (\<forall>pid p. js_get (ps_payments s) pid = Some p \<longrightarrow> trail_ok pid (payment_events s pid) (p_status p)) \<and>
     (\<forall>pid. js_get (ps_payments s) pid = None \<longrightarrow> payment_events s pid = []) \<and>
     (\<forall>pid. \<forall>e\<in>set (payment_events s pid). ev_id e < ps_nextEventId s)"

definition store_ok :: "payment_store \<Rightarrow> bool" where
  "store_ok s \<longleftrightarrow> payments_keyed s \<and> index_ok s \<and> signatures_ok s \<and> receipts_ok s \<and> trails_ok s"

lemmas store_ok_defs = store_ok_def payments_keyed_def index_ok_def signatures_ok_def receipts_ok_def
  trails_ok_def

lemma receipts_okI [inv_intros]:
  assumes "\<And>pid r. js_get (ps_receipts s) pid = Some r \<Longrightarrow> \<exists>p. js_get (ps_payments s) pid = Some p \<and>
        p_status p = COMPLETED \<and> receipt_matches p r"
    and "\<And>pid r. js_get (ps_receipts s) pid = Some r \<Longrightarrow> js_get (ps_receiptPdas s) (rc_receiptPda r) = Some pid"
    and "\<And>pid p. js_get (ps_payments s) pid = Some p \<Longrightarrow> p_status p = COMPLETED \<Longrightarrow> js_has (ps_receipts s) pid"
  shows "receipts_ok s"
  using assms by (simp add: receipts_ok_def)

lemma receipts_okD:
  assumes "receipts_ok s"
  shows "js_get (ps_receipts s) pid = Some r \<Longrightarrow> \<exists>p. js_get (ps_payments s) pid = Some p \<and>
        p_status p = COMPLETED \<and> receipt_matches p r"
    and "js_get (ps_receipts s) pid = Some r \<Longrightarrow> js_get (ps_receiptPdas s) (rc_receiptPda r) = Some pid"
    and "js_get (ps_payments s) pid = Some p \<Longrightarrow> p_status p = COMPLETED \<Longrightarrow> js_has (ps_receipts s) pid"
  using assms by (simp_all add: receipts_ok_def)

lemma signatures_okD:
  "signatures_ok s \<Longrightarrow> js_get (ps_payments s) pid = Some p \<Longrightarrow> solanaSignature p = Some x \<Longrightarrow> x \<noteq> '''' \<Longrightarrow>
   js_get (ps_signatures s) x = Some pid"
  by (simp add: signatures_ok_def)

lemma trails_okI [inv_intros]:
  assumes "\<And>pid p. js_get (ps_payments s) pid = Some p \<Longrightarrow> trail_ok pid (payment_events s pid) (p_status p)"
    and "\<And>pid. js_get (ps_payments s) pid = None \<Longrightarrow> payment_events s pid = []"
    and "\<And>pid e. e \<in> set (payment_events s pid) \<Longrightarrow> ev_id e < ps_nextEventId s"
  shows "trails_ok s"
  using assms by (simp add: trails_ok_def)

lemma trails_okD:
  assumes "trails_ok s"
  shows "js_get (ps_payments s) pid = Some p \<Longrightarrow> trail_ok pid (payment_events s pid) (p_status p)"
    and "js_get (ps_payments s) pid = None \<Longrightarrow> payment_events s pid = []"
    and "e \<in> set (payment_events s pid) \<Longrightarrow> ev_id e < ps_nextEventId s"
  using assms by (simp_all add: trails_ok_def)

lemma store_okD:
  assumes "store_ok s"
  shows "payments_keyed s" "index_ok s" "signatures_ok s" "receipts_ok s" "trails_ok s"
  using assms by (simp_all add: store_ok_def)

lemma payments_keyedD:
  assumes "payments_keyed s" and "js_get (ps_payments s) pid = Some p"
  shows "p_id p = pid" "pid \<noteq> ''''" "payment_ok p"
  using assms by (simp_all add: payments_keyed_def)

lemma store_ok_empty: "store_ok empty_store"
  by (simp add: store_ok_defs empty_store_def payment_events_def)

lemma payment_events_with:
  "ps_events t = with_event s pid (Some e) \<Longrightarrow>
   payment_events t q = (if q = pid then payment_events s pid @ [e] else payment_events s q)"
  by (simp add: payment_events_def with_event_def)

lemma payment_events_without:
  "ps_events t = with_event s pid None \<Longrightarrow> payment_events t q = payment_events s q"
  by (simp add: payment_events_def with_event_def)

lemma payment_events_cong: "ps_events t = ps_events s \<Longrightarrow> payment_events t q = payment_events s q"
  by (simp add: payment_events_def)

section \<open>Every kind of change keeps the invariant\<close>

lemma same_data_ok:
  assumes same: "same_data s t" and ok: "store_ok s"
  shows "store_ok t"
proof -
  note eqs = same [unfolded same_data_def]
  have ev: "payment_events t q = payment_events s q" for q
    using eqs by (intro payment_events_cong) blast
  note tok = trails_okD [OF store_okD(5) [OF ok]]
  have pays: "ps_payments t = ps_payments s" using eqs by blast
  have "trails_ok t"
  proof (rule trails_okI)
    fix pid e assume "e \<in> set (payment_events t pid)"
    then have "ev_id e < ps_nextEventId s" unfolding ev by (rule tok(3))
    with eqs show "ev_id e < ps_nextEventId t" by linarith
  next
    fix pid p assume "js_get (ps_payments t) pid = Some p"
    then show "trail_ok pid (payment_events t pid) (p_status p)" unfolding ev pays by (rule tok(1))
  next
    fix pid assume "js_get (ps_payments t) pid = None"
    then show "payment_events t pid = []" unfolding ev pays by (rule tok(2))
  qed
  then show ?thesis
    using eqs ok by (simp add: store_ok_def payments_keyed_def index_ok_def signatures_ok_def receipts_ok_def)
qed

lemma trail_snoc:
  assumes "trail_ok pid evs st" and "ev_paymentId e = pid" and "ev_sequenceNumber e = length evs + 1"
    and "json_object_ok (ev_details e)" and "confirms_user e" and "\<forall>x\<in>set evs. ev_id x < ev_id e"
    and "(ev_fromStatus e = Some st \<and> ev_toStatus e = Some st' \<and> (st' = st \<or> lifecycle_step st st')) \<or>
         (ev_fromStatus e = None \<and> ev_toStatus e = None \<and> st' = st)"
  shows "trail_ok pid (evs @ [e]) st'"
proof -
  have "fold (\<lambda>e acc. defined (ev_toStatus e) acc) evs None = Some st"
    using assms(1) by (simp add: trail_ok_def replay_status_def)
  with assms show ?thesis
    by (auto simp: trail_ok_def trail_legal_snoc sorted_wrt_append)
qed

lemma trail_first:
  assumes "ev_paymentId e = pid" and "ev_sequenceNumber e = 1" and "json_object_ok (ev_details e)"
    and "ev_fromStatus e = None" and "ev_toStatus e = Some AWAITING_CONFIRMATION"
  shows "trail_ok pid [e] AWAITING_CONFIRMATION"
  using assms replay_status_snoc [of "[]" e] by (simp add: trail_ok_def confirms_user_def)

lemma insert_ok:
  assumes "payment_insert s p e t" and "store_ok s"
  shows "store_ok t"
proof -
  note ins = assms(1) [unfolded payment_insert_def]
  have ev: "payment_events t q = (if q = p_id p then payment_events s q @ [e] else payment_events s q)" for q
    using ins by (subst payment_events_with [of t s "p_id p" e]) auto
  have pk: "payments_keyed t"
    using assms by (auto simp: store_ok_def payments_keyed_def payment_insert_def)
  have old: "\<And>k pid. js_get (ps_idempotency s) k = Some pid \<Longrightarrow> \<exists>q. js_get (ps_payments s) pid = Some q \<and>
        k = index_key (p_actorSubject q) (p_idempotencyKey q)"
      "\<And>pid q. js_get (ps_payments s) pid = Some q \<Longrightarrow>
        js_get (ps_idempotency s) (index_key (p_actorSubject q) (p_idempotencyKey q)) = Some pid"
    using assms(2) by (simp_all add: store_ok_def index_ok_def)
  have ix: "index_ok t"
    unfolding index_ok_def
  proof (intro conjI allI impI)
    fix k pid assume g: "js_get (ps_idempotency t) k = Some pid"
    show "\<exists>q. js_get (ps_payments t) pid = Some q \<and> k = index_key (p_actorSubject q) (p_idempotencyKey q)"
    proof (cases "k = index_key (p_actorSubject p) (p_idempotencyKey p)")
      case True
      with g ins show ?thesis by simp
    next
      case False
      with g ins have "js_get (ps_idempotency s) k = Some pid" by simp
      then obtain q where "js_get (ps_payments s) pid = Some q"
        "k = index_key (p_actorSubject q) (p_idempotencyKey q)"
        using old(1) by blast
      moreover from this(1) ins have "pid \<noteq> p_id p" by auto
      ultimately show ?thesis using ins by simp
    qed
  next
    fix pid q assume g: "js_get (ps_payments t) pid = Some q"
    show "js_get (ps_idempotency t) (index_key (p_actorSubject q) (p_idempotencyKey q)) = Some pid"
    proof (cases "pid = p_id p")
      case True
      with g ins show ?thesis by simp
    next
      case False
      with g ins have "js_get (ps_payments s) pid = Some q" by simp
      then have "js_get (ps_idempotency s) (index_key (p_actorSubject q) (p_idempotencyKey q)) = Some pid"
        using old(2) by blast
      with ins show ?thesis by auto
    qed
  qed
  have sg: "signatures_ok t"
    using store_okD(3) [OF assms(2)] ins unfolding signatures_ok_def by auto
  note rok = receipts_okD [OF store_okD(4) [OF assms(2)]] and tok = trails_okD [OF store_okD(5) [OF assms(2)]]
  have rc: "receipts_ok t"
  proof (rule receipts_okI)
    fix pid r assume "js_get (ps_receipts t) pid = Some r"
    with ins have g: "js_get (ps_receipts s) pid = Some r" by simp
    from rok(1) [OF this] ins show "\<exists>q. js_get (ps_payments t) pid = Some q \<and> p_status q = COMPLETED \<and> receipt_matches q r"
      by auto
    from rok(2) [OF g] ins show "js_get (ps_receiptPdas t) (rc_receiptPda r) = Some pid" by simp
  next
    fix pid q assume "js_get (ps_payments t) pid = Some q" "p_status q = COMPLETED"
    with ins rok(3) show "js_has (ps_receipts t) pid" by (auto split: if_splits)
  qed
  have none: "payment_events s (p_id p) = []" using tok(2) ins by blast
  have first: "trail_ok (p_id p) [e] AWAITING_CONFIRMATION"
    using ins none by (intro trail_first) (auto simp: next_event_def)
  have "trails_ok t"
  proof (rule trails_okI)
    fix pid q assume "js_get (ps_payments t) pid = Some q"
    then show "trail_ok pid (payment_events t pid) (p_status q)"
      unfolding ev using ins first none tok(1) by (auto split: if_splits)
  next
    fix pid assume "js_get (ps_payments t) pid = None"
    then show "payment_events t pid = []" unfolding ev using ins tok(2) by (auto split: if_splits)
  next
    fix pid x assume "x \<in> set (payment_events t pid)"
    then have "x \<in> set (payment_events s pid) \<or> x = e" unfolding ev by (auto split: if_splits)
    then have "ev_id x \<le> ps_nextEventId s" using tok(3) [of x pid] ins by (auto simp: next_event_def)
    with ins show "ev_id x < ps_nextEventId t" by simp
  qed
  with pk ix sg rc show ?thesis by (simp add: store_ok_def)
qed

lemma write_payments:
  assumes "payment_write s cur new sig rcpt ev t" and "write_allowed s cur new sig rcpt ev" and "store_ok s"
  shows "payments_keyed t \<and> index_ok t"
proof -
  have new: "p_id new = p_id cur" "p_actorSubject new = p_actorSubject cur"
    "p_idempotencyKey new = p_idempotencyKey cur" "payment_ok new"
    and cur: "js_get (ps_payments s) (p_id cur) = Some cur"
    using assms(2) by (simp_all add: write_allowed_def same_request_def)
  have pays: "ps_payments t = js_set (ps_payments s) (p_id cur) new"
    and ix: "ps_idempotency t = ps_idempotency s"
    using assms(1) by (simp_all add: payment_write_def)
  note pk = store_okD(1) [OF assms(3), unfolded payments_keyed_def]
  note ik = store_okD(2) [OF assms(3), unfolded index_ok_def]
  have "p_id cur \<noteq> ''''" using pk cur by blast
  have "payments_keyed t"
    unfolding payments_keyed_def
  proof (intro conjI allI impI)
    show "js_keys_distinct (ps_payments t)" using pk by (simp add: pays)
  next
    fix pid p assume "js_get (ps_payments t) pid = Some p"
    with pk new \<open>p_id cur \<noteq> ''''\<close> have "p_id p = pid \<and> pid \<noteq> '''' \<and> payment_ok p"
      by (cases "pid = p_id cur") (simp_all add: pays)
    then show "p_id p = pid" "pid \<noteq> ''''" "payment_ok p" by simp_all
  qed
  moreover have "index_ok t"
    unfolding index_ok_def pays ix
  proof (intro conjI allI impI)
    fix k pid assume "js_get (ps_idempotency s) k = Some pid"
    with ik obtain p where p: "js_get (ps_payments s) pid = Some p"
      "k = index_key (p_actorSubject p) (p_idempotencyKey p)" by blast
    show "\<exists>p. js_get (js_set (ps_payments s) (p_id cur) new) pid = Some p \<and>
        k = index_key (p_actorSubject p) (p_idempotencyKey p)"
      using p new cur by (cases "pid = p_id cur") simp_all
  next
    fix pid p assume "js_get (js_set (ps_payments s) (p_id cur) new) pid = Some p"
    with ik cur new show "js_get (ps_idempotency s) (index_key (p_actorSubject p) (p_idempotencyKey p)) = Some pid"
      by (cases "pid = p_id cur") auto
  qed
  ultimately show ?thesis ..
qed

lemma write_signatures:
  assumes w: "payment_write s cur new sig rcpt ev t" and a: "write_allowed s cur new sig rcpt ev"
    and ok: "store_ok s"
  shows "signatures_ok t"
  unfolding signatures_ok_def
proof (intro allI impI)
  fix pid p x
  assume p: "js_get (ps_payments t) pid = Some p" and x: "solanaSignature p = Some x" "x \<noteq> ''''"
  have id: "pid \<noteq> p_id cur \<Longrightarrow> js_get (ps_signatures s) x = Some pid \<and> pid \<noteq> ''''"
    using p x w ok by (auto simp: payment_write_def store_ok_def signatures_ok_def payments_keyed_def)
  show "js_get (ps_signatures t) x = Some pid"
  proof (cases "pid = p_id cur")
    case True
    with p x w have n: "solanaSignature new = Some x" by (simp add: payment_write_def)
    with a x have "sig = Some x \<or> solanaSignature cur = Some x"
      unfolding write_allowed_def by blast
    then show ?thesis
    proof
      assume "sig = Some x"
      with w True show ?thesis by (simp add: payment_write_def)
    next
      assume "solanaSignature cur = Some x"
      with a ok x have "js_get (ps_signatures s) x = Some (p_id cur)"
        by (auto simp: write_allowed_def store_ok_def signatures_ok_def)
      with w True show ?thesis by (auto simp: payment_write_def split: option.splits)
    qed
  next
    case False
    with id have s: "js_get (ps_signatures s) x = Some pid" "pid \<noteq> ''''" by simp_all
    with False have "owned_by_other (ps_signatures s) x (p_id cur)" by (simp add: owned_by_other_def)
    with a have "sig \<noteq> Some x" by (auto simp: write_allowed_def)
    with w s show ?thesis by (auto simp: payment_write_def split: option.splits)
  qed
qed

lemma write_receipts:
  assumes w: "payment_write s cur new sig rcpt ev t" and a: "write_allowed s cur new sig rcpt ev"
    and ok: "store_ok s"
  shows "receipts_ok t"
proof -
  note rok = receipts_okD [OF store_okD(4) [OF ok]]
  have nc: "p_status cur \<noteq> COMPLETED" using a by (auto simp: write_allowed_def isTerminalPaymentStatus_def)
  have cur: "js_get (ps_payments s) (p_id cur) = Some cur" using a by (simp add: write_allowed_def)
  have fresh: "js_get (ps_receipts s) (p_id cur) = None"
  proof (cases "js_get (ps_receipts s) (p_id cur)")
    case (Some r)
    from rok(1) [OF Some] cur nc show ?thesis by simp
  qed
  have pays: "js_get (ps_payments t) q = (if q = p_id cur then Some new else js_get (ps_payments s) q)" for q
    using w by (simp add: payment_write_def)
  show ?thesis
  proof (cases rcpt)
    case None
    have "p_status new \<noteq> COMPLETED" using a None by (simp add: write_allowed_def)
    moreover have "ps_receipts t = ps_receipts s" "ps_receiptPdas t = ps_receiptPdas s"
      using w None by (simp_all add: payment_write_def)
    ultimately show ?thesis
      using fresh rok by (intro receipts_okI) (auto simp: pays split: if_splits)
  next
    case (Some r)
    have r: "receipt_matches new r" "\<not> owned_by_other (ps_receiptPdas s) (rc_receiptPda r) (p_id cur)"
      "p_status new = COMPLETED"
      using a Some by (auto simp: write_allowed_def)
    have rs: "ps_receipts t = js_set (ps_receipts s) (p_id cur) r"
      and ds: "ps_receiptPdas t = js_set (ps_receiptPdas s) (rc_receiptPda r) (p_id cur)"
      using w Some by (simp_all add: payment_write_def)
    have other: "js_get (ps_receiptPdas t) (rc_receiptPda r') = Some pid"
      if g: "js_get (ps_receipts s) pid = Some r'" and ne: "pid \<noteq> p_id cur" for pid r'
    proof -
      obtain q where "js_get (ps_payments s) pid = Some q" using rok(1) [OF g] by blast
      then have "pid \<noteq> ''''" using payments_keyedD(2) [OF store_okD(1) [OF ok]] by blast
      with rok(2) [OF g] ne r(2) show ?thesis unfolding ds by (auto simp: owned_by_other_def)
    qed
    show ?thesis
    proof (rule receipts_okI)
      fix pid r' assume g: "js_get (ps_receipts t) pid = Some r'"
      show "\<exists>p. js_get (ps_payments t) pid = Some p \<and> p_status p = COMPLETED \<and> receipt_matches p r'"
        using g r rok(1) [of pid r'] by (cases "pid = p_id cur") (simp_all add: rs pays)
      show "js_get (ps_receiptPdas t) (rc_receiptPda r') = Some pid"
        using g other [of pid r'] by (cases "pid = p_id cur") (simp_all add: rs ds)
    next
      fix pid p assume "js_get (ps_payments t) pid = Some p" "p_status p = COMPLETED"
      then show "js_has (ps_receipts t) pid"
        using rok(3) [of pid p] by (cases "pid = p_id cur") (simp_all add: rs pays js_has_iff)
    qed
  qed
qed

lemma write_trails:
  assumes w: "payment_write s cur new sig rcpt ev t" and a: "write_allowed s cur new sig rcpt ev"
    and ok: "store_ok s"
  shows "trails_ok t"
proof -
  note tok = trails_okD [OF store_okD(5) [OF ok]]
  have cur: "js_get (ps_payments s) (p_id cur) = Some cur" using a by (simp add: write_allowed_def)
  have pays: "js_get (ps_payments t) q = (if q = p_id cur then Some new else js_get (ps_payments s) q)" for q
    using w by (simp add: payment_write_def)
  show ?thesis
  proof (cases ev)
    case None
    with w have e: "payment_events t q = payment_events s q" for q by (intro payment_events_without) (auto simp: payment_write_def)
    have st: "p_status new = p_status cur" using a None by (simp add: write_allowed_def)
    have le: "ps_nextEventId s \<le> ps_nextEventId t" using w None by (simp add: payment_write_def)
    show ?thesis
    proof (rule trails_okI)
      fix pid x assume "x \<in> set (payment_events t pid)"
      with tok(3) [of x pid] le show "ev_id x < ps_nextEventId t" unfolding e by simp
    qed (use tok cur st in \<open>auto simp: e pays split: if_splits\<close>)
  next
    case (Some e')
    with w have e: "payment_events t q = (if q = p_id cur then payment_events s q @ [e'] else payment_events s q)"
      for q by (subst payment_events_with [of t s "p_id cur" e']) (auto simp: payment_write_def)
    have n: "next_event s (p_id cur) e'" using a Some by (simp add: write_allowed_def)
    have new: "trail_ok (p_id cur) (payment_events s (p_id cur) @ [e']) (p_status new)"
      using tok(1) [OF cur] a n tok(3) Some by (intro trail_snoc) (auto simp: next_event_def write_allowed_def)
    have le: "ps_nextEventId s < ps_nextEventId t" using w Some by (simp add: payment_write_def)
    show ?thesis
    proof (rule trails_okI)
      fix pid x assume "x \<in> set (payment_events t pid)"
      then have "x \<in> set (payment_events s pid) \<or> x = e'" unfolding e by (auto split: if_splits)
      then have "ev_id x \<le> ps_nextEventId s" using tok(3) [of x pid] n by (auto simp: next_event_def)
      with le show "ev_id x < ps_nextEventId t" by simp
    qed (use tok cur new in \<open>auto simp: e pays split: if_splits\<close>)
  qed
qed

lemma write_ok:
  "payment_write s cur new sig rcpt ev t \<Longrightarrow> write_allowed s cur new sig rcpt ev \<Longrightarrow> store_ok s \<Longrightarrow> store_ok t"
  by (simp add: store_ok_def write_payments write_signatures write_receipts write_trails)

lemma annotate_ok:
  assumes cur: "js_get (ps_payments s) pid = Some p" and n: "next_event s pid e" and "ev_fromStatus e = None"
    and "ev_toStatus e = None" and ok: "store_ok s"
  shows "store_ok (s\<lparr>ps_events := with_event s pid (Some e), ps_nextEventId := ps_nextEventId s + 1,
    ps_runtimeEventIds := ids\<rparr>)" (is "store_ok ?t")
proof -
  note tok = trails_okD [OF store_okD(5) [OF ok]]
  have ev: "payment_events ?t q = (if q = pid then payment_events s q @ [e] else payment_events s q)" for q
    by (subst payment_events_with [of ?t s pid e]) auto
  have new: "trail_ok pid (payment_events s pid @ [e]) (p_status p)"
    using tok(1) [OF cur] n assms(3,4) tok(3) by (intro trail_snoc) (auto simp: next_event_def confirms_user_def)
  have "trails_ok ?t"
  proof (rule trails_okI)
    fix q x assume "x \<in> set (payment_events ?t q)"
    then have "x \<in> set (payment_events s q) \<or> x = e" unfolding ev by (auto split: if_splits)
    then have "ev_id x \<le> ps_nextEventId s" using tok(3) [of x q] n by (auto simp: next_event_def)
    then show "ev_id x < ps_nextEventId ?t" by simp
  qed (use tok cur new in \<open>auto simp: ev split: if_splits\<close>)
  then show ?thesis
    using ok by (simp add: store_ok_def payments_keyed_def index_ok_def signatures_ok_def receipts_ok_def)
qed

lemma allowlist_ok: "store_ok s \<Longrightarrow> store_ok (s\<lparr>ps_allowlist := a\<rparr>)"
  by (simp add: store_ok_defs payment_events_def)

lemma store_step_ok: "store_step s t \<Longrightarrow> store_ok s \<Longrightarrow> store_ok t"
proof (induction rule: store_step.induct)
  case (step_allow s k a t)
  then show ?case by (blast intro: same_data_ok allowlist_ok)
next
  case (step_annotate s pid p e ids t)
  then show ?case using annotate_ok [of s pid p e ids] by (blast intro: same_data_ok)
qed (auto intro: same_data_ok insert_ok write_ok)

end
