(* ===== verification/PaymentStoreRefinement.thy ===== *)
theory PaymentStoreRefinement
  imports PaymentStoreSpec
begin

text \<open>
  Every operation of \<open>InMemoryPaymentPersistence\<close> makes one of the changes of \<open>store_step\<close>: one
  outcome lemma per operation says what it returns and what it writes on every branch, errors
  included. A thrown error leaves the data as it was.
\<close>

section \<open>Private steps\<close>

lemma clock_reads_same [simp, intro]: "same_data s (s\<lparr>ps_clockReads := n\<rparr>)"
  by (simp add: same_data_def)

lemma clock_reads_idle: "s\<lparr>ps_clockReads := ps_clockReads s\<rparr> = s"
  by simp

lemma read_clock_reads: "read_clock env s = (v, s') \<Longrightarrow> \<exists>n. s' = s\<lparr>ps_clockReads := n\<rparr>"
  by (auto simp: read_clock_def)

lemma time_or_clock_reads: "time_or_clock env v s = (x, s') \<Longrightarrow> \<exists>n. s' = s\<lparr>ps_clockReads := n\<rparr>"
  by (cases v) (auto simp: time_or_clock_def dest: read_clock_reads intro: clock_reads_idle [symmetric])

lemma clone_option_ok: "clone_option cloneJsonValue v = Inr w \<Longrightarrow> w = Some e \<Longrightarrow> json_ok e"
  by (auto simp: clone_option_def and_then_Inr clone_ok split: option.splits)

lemma clone_proof_ok: "clone_option cloneTerminalProof v = Inr w \<Longrightarrow> w = Some e \<Longrightarrow> proof_ok e"
  by (auto simp: clone_option_def and_then_Inr cloneTerminalProof_ok split: option.splits)

lemma clonePayment_id: "payment_ok p \<Longrightarrow> clonePayment p = Inr p"
  by (cases "chainError p"; cases "terminalProof p")
    (auto simp: clonePayment_def clone_option_def payment_ok_def clone_id cloneTerminalProof_id)

lemma clonePayment_total: "payment_ok p \<Longrightarrow> succeeds (clonePayment p)"
  by (simp add: clonePayment_id)

lemma cloneReceipt_id: "json_object_ok (rc_rawReceipt r) \<Longrightarrow> cloneReceipt r = Inr r"
  by (simp add: cloneReceipt_def clone_object_id)

text \<open>What appending an event does.\<close>

definition appended ::
  "payment_store \<Rightarrow> payment_event_input \<Rightarrow> payment_event \<Rightarrow> payment_store \<Rightarrow> bool" where
  "appended s i ev s' \<longleftrightarrow> next_event s (ei_paymentId i) ev \<and> ev_eventType ev = ei_eventType i \<and>
     ev_fromStatus ev = ei_fromStatus i \<and> ev_toStatus ev = ei_toStatus i \<and>
     (\<exists>ids. same_data (s\<lparr>ps_events := with_event s (ei_paymentId i) (Some ev),
                     ps_nextEventId := ps_nextEventId s + 1, ps_runtimeEventIds := ids\<rparr>) s')"

lemma append_same:
  assumes same: "same_data (s\<lparr>ps_nextEventId := n\<rparr>) t"
    and s': "s' = t\<lparr>ps_events := js_set (ps_events t) pid (payment_events s pid @ [ev]),
      ps_runtimeEventIds := add_runtime_event v (ps_runtimeEventIds t)\<rparr>"
  shows "same_data (s\<lparr>ps_events := with_event s pid (Some ev), ps_nextEventId := n,
    ps_runtimeEventIds := add_runtime_event v (ps_runtimeEventIds s)\<rparr>) s'"
proof -
  have "ps_events t = ps_events s" "ps_runtimeEventIds t = ps_runtimeEventIds s"
    using same by (simp_all add: same_data_def)
  with same show ?thesis unfolding s' same_data_def by (simp add: with_event_def)
qed

lemma append_outcome:
  assumes "appendEventUnsafe env i s = (r, s')"
  shows "case r of Inl e \<Rightarrow> same_data s s' | Inr ev \<Rightarrow> appended s i ev s'"
proof -
  let ?s1 = "s\<lparr>ps_nextEventId := ps_nextEventId s + 1\<rparr>"
  have one: "same_data s ?s1" by (simp add: same_data_def)
  show ?thesis
  proof (cases "runtime_event_taken s (ei_runtimeEventId i)")
    case True
    with assms show ?thesis by (auto simp: appendEventUnsafe_def)
  next
    case free: False
    show ?thesis
    proof (cases "cloneJsonObject (coalesce (ei_details i) [])")
      case (Inl e)
      with assms free one show ?thesis by (auto simp: appendEventUnsafe_def)
    next
      case (Inr details)
      obtain tm s2 where t: "time_or_clock env (ei_occurredAt i) ?s1 = (tm, s2)" by fastforce
      then have same: "same_data ?s1 s2" using time_or_clock_reads by blast
      have ok: "json_object_ok details" using Inr by (rule clone_object_ok)
      let ?ev = "\<lparr>ev_id = ps_nextEventId s, ev_paymentId = ei_paymentId i,
        ev_sequenceNumber = length (payment_events s (ei_paymentId i)) + 1, ev_eventType = ei_eventType i,
        ev_fromStatus = ei_fromStatus i, ev_toStatus = ei_toStatus i, ev_runtimeEventId = ei_runtimeEventId i,
        ev_requestId = ei_requestId i, ev_details = details, ev_occurredAt = tm\<rparr>"
      have "cloneEvent ?ev = Inr ?ev" using ok by (simp add: cloneEvent_def clone_object_id)
      then have "r = Inr ?ev \<and> s' = s2\<lparr>ps_events := js_set (ps_events s2) (ei_paymentId i)
          (payment_events s (ei_paymentId i) @ [?ev]),
          ps_runtimeEventIds := add_runtime_event (ei_runtimeEventId i) (ps_runtimeEventIds s2)\<rparr>"
        using assms [symmetric] free Inr t by (simp add: appendEventUnsafe_def Let_def)
      then have r: "r = Inr ?ev" and s': "s' = s2\<lparr>ps_events := js_set (ps_events s2) (ei_paymentId i)
          (payment_events s (ei_paymentId i) @ [?ev]),
          ps_runtimeEventIds := add_runtime_event (ei_runtimeEventId i) (ps_runtimeEventIds s2)\<rparr>"
        by blast+
      have "same_data (s\<lparr>ps_events := with_event s (ei_paymentId i) (Some ?ev),
          ps_nextEventId := ps_nextEventId s + 1,
          ps_runtimeEventIds := add_runtime_event (ei_runtimeEventId i) (ps_runtimeEventIds s)\<rparr>) s'"
        by (rule append_same [OF same [simplified] s'])
      moreover have "next_event s (ei_paymentId i) ?ev" using ok by (simp add: next_event_def)
      ultimately show ?thesis unfolding r appended_def by auto
    qed
  qed
qed

lemma append_total:
  assumes "\<not> runtime_event_taken s (ei_runtimeEventId i)" and "json_object_ok (coalesce (ei_details i) [])"
  shows "\<exists>ev s'. appendEventUnsafe env i s = (Inr ev, s')"
proof -
  obtain tm s2 where "time_or_clock env (ei_occurredAt i) (s\<lparr>ps_nextEventId := ps_nextEventId s + 1\<rparr>) = (tm, s2)"
    by fastforce
  with assms show ?thesis
    by (simp add: appendEventUnsafe_def clone_object_id cloneEvent_def Let_def)
qed

lemma append_obtains:
  assumes "\<not> runtime_event_taken s (ei_runtimeEventId i)" and "json_object_ok (coalesce (ei_details i) [])"
  obtains ev s' where "appendEventUnsafe env i s = (Inr ev, s')" "appended s i ev s'"
  using append_total [OF assms, of env] append_outcome [of env i s] by fastforce

text \<open>What evidence does to the payment it is applied to.\<close>

definition evidenced ::
  "payment_record \<Rightarrow> payment_status \<Rightarrow> lifecycle_evidence \<Rightarrow> payment_record \<Rightarrow> bool" where
  "evidenced cur st e new \<longleftrightarrow> p_status new = st \<and> p_version new = p_version cur + 1 \<and> same_request new cur \<and>
     solanaSignature new = defined (solanaSignature e) (solanaSignature cur) \<and>
     confirmedSlot new = defined (confirmedSlot e) (confirmedSlot cur) \<and>
     receiptPda new = defined (receiptPda e) (receiptPda cur) \<and>
     (payment_ok cur \<longrightarrow> payment_ok new)"

lemma defined_ok: "(\<And>x. a = Some x \<Longrightarrow> P x) \<Longrightarrow> (\<And>x. b = Some x \<Longrightarrow> P x) \<Longrightarrow> defined a b = Some x \<Longrightarrow> P x"
  by (cases a) auto

lemma evidence_outcome:
  assumes "applyEvidence env cur st e s = (r, s')"
  shows "(\<exists>n. s' = s\<lparr>ps_clockReads := n\<rparr>) \<and> (case r of Inl err \<Rightarrow> True | Inr new \<Rightarrow> evidenced cur st e new)"
proof -
  obtain now s1 where c: "read_clock env s = (now, s1)" by fastforce
  then have same: "\<exists>n. s1 = s\<lparr>ps_clockReads := n\<rparr>" by (rule read_clock_reads)
  show ?thesis
  proof (cases "clone_option cloneJsonValue (chainError e)")
    case (Inl x)
    with assms c same show ?thesis by (auto simp: applyEvidence_def)
  next
    case err: (Inr err)
    show ?thesis
    proof (cases "clone_option cloneTerminalProof (terminalProof e)")
      case (Inl x)
      with assms c err same show ?thesis by (auto simp: applyEvidence_def)
    next
      case pr: (Inr pr)
      have j: "json_ok x" if "payment_ok cur" "defined err (chainError cur) = Some x" for x
        using that(2) that(1) [unfolded payment_ok_def] clone_option_ok [OF err]
        by (cases err) simp_all
      have q: "proof_ok x" if "payment_ok cur" "defined pr (terminalProof cur) = Some x" for x
        using that(2) that(1) [unfolded payment_ok_def] clone_proof_ok [OF pr]
        by (cases pr) simp_all
      have "\<exists>new. r = Inr new \<and> s' = s1 \<and> p_status new = st \<and> p_version new = p_version cur + 1 \<and>
          same_request new cur \<and> solanaSignature new = defined (solanaSignature e) (solanaSignature cur) \<and>
          confirmedSlot new = defined (confirmedSlot e) (confirmedSlot cur) \<and>
          receiptPda new = defined (receiptPda e) (receiptPda cur) \<and>
          chainError new = defined err (chainError cur) \<and> terminalProof new = defined pr (terminalProof cur) \<and>
          p_amountRaw new = p_amountRaw cur"
        using assms [symmetric] c err pr by (simp add: applyEvidence_def same_request_def)
      then obtain new where new: "r = Inr new" "s' = s1" "p_status new = st" "p_version new = p_version cur + 1"
          "same_request new cur" "solanaSignature new = defined (solanaSignature e) (solanaSignature cur)"
          "confirmedSlot new = defined (confirmedSlot e) (confirmedSlot cur)"
          "receiptPda new = defined (receiptPda e) (receiptPda cur)"
          "chainError new = defined err (chainError cur)" "terminalProof new = defined pr (terminalProof cur)"
          "p_amountRaw new = p_amountRaw cur"
        by blast
      have "payment_ok new" if ok: "payment_ok cur"
        unfolding payment_ok_def new(9-11) using j [OF ok] q [OF ok] ok new(5)
        by (simp add: payment_ok_def same_request_def)
      with same new(1-8) show ?thesis by (simp add: evidenced_def)
    qed
  qed
qed

text \<open>Without chain data to clone, evidence never fails.\<close>

lemma evidence_total:
  "chainError e = None \<Longrightarrow> terminalProof e = None \<Longrightarrow> \<exists>new s'. applyEvidence env cur st e s = (Inr new, s')"
  by (cases "read_clock env s") (simp add: applyEvidence_def clone_option_def)

section \<open>Writes\<close>

definition write_outcome ::
  "payment_store \<Rightarrow> string \<Rightarrow> int \<Rightarrow> payment_record result \<Rightarrow> payment_store \<Rightarrow> bool" where
  "write_outcome s pid expected r s' \<longleftrightarrow> (case r of
     Inl e \<Rightarrow> same_data s s'
   | Inr new \<Rightarrow> (\<exists>cur sig rcpt ev. p_id cur = pid \<and> p_version cur = expected \<and>
       payment_write s cur new sig rcpt ev s' \<and> write_allowed s cur new sig rcpt ev))"

lemma write_outcome_error [simp, intro]: "same_data s s' \<Longrightarrow> write_outcome s pid v (Inl e) s'"
  by (simp add: write_outcome_def)

lemma write_outcomeI:
  "p_id cur = pid \<Longrightarrow> p_version cur = v \<Longrightarrow> payment_write s cur new sig rcpt ev s' \<Longrightarrow>
   write_allowed s cur new sig rcpt ev \<Longrightarrow> write_outcome s pid v (Inr new) s'"
  by (auto simp: write_outcome_def)

lemma write_outcome_step: "write_outcome s pid v r s' \<Longrightarrow> store_step s s'"
  by (auto simp: write_outcome_def intro: step_idle step_write split: sum.splits)

lemma requireVersion_cases:
  assumes "store_ok s"
  obtains (refused) e where "requireVersion s pid v = Inl e"
  | (found) cur where "requireVersion s pid v = Inr cur" "js_get (ps_payments s) pid = Some cur"
      "p_id cur = pid" "pid \<noteq> ''''" "payment_ok cur" "p_version cur = v"
proof (cases "requireVersion s pid v")
  case (Inr cur)
  then have "js_get (ps_payments s) pid = Some cur" "p_version cur = v"
    by (auto simp: requireVersion_def requirePayment_def version_conflict_def and_then_Inr
        split: option.splits if_splits)
  with Inr payments_keyedD [OF store_okD(1) [OF assms]] found show thesis by blast
qed (rule refused)

lemma refused_outcome:
  "requireVersion s pid v = Inl e \<Longrightarrow> when_ok (requireVersion s pid v) s f = (r, s') \<Longrightarrow>
   write_outcome s pid v r s'"
  by (cases r) simp_all

lemma commit_write:
  assumes "appended t i ev s2" and "ei_paymentId i = p_id cur"
    and "ps_allowlist t = ps_allowlist s" and "ps_idempotency t = ps_idempotency s"
    and "ps_payments t = js_set (ps_payments s) (p_id cur) new"
    and "ps_signatures t = (case sig of None \<Rightarrow> ps_signatures s | Some x \<Rightarrow> js_set (ps_signatures s) x (p_id cur))"
    and "ps_receipts t = (case rcpt of None \<Rightarrow> ps_receipts s | Some r \<Rightarrow> js_set (ps_receipts s) (p_id cur) r)"
    and "ps_receiptPdas t = (case rcpt of None \<Rightarrow> ps_receiptPdas s
        | Some r \<Rightarrow> js_set (ps_receiptPdas s) (rc_receiptPda r) (p_id cur))"
    and "ps_events t = ps_events s" and "ps_nextEventId t = ps_nextEventId s"
  shows "payment_write s cur new sig rcpt (Some ev) s2 \<and> next_event s (p_id cur) ev"
proof -
  obtain ids where same: "same_data (t\<lparr>ps_events := with_event t (p_id cur) (Some ev),
      ps_nextEventId := ps_nextEventId t + 1, ps_runtimeEventIds := ids\<rparr>) s2"
    and n: "next_event t (p_id cur) ev"
    using assms(1,2) by (auto simp: appended_def)
  have e: "payment_events t q = payment_events s q" for q
    using assms(9) by (rule payment_events_cong)
  have "with_event t (p_id cur) (Some ev) = with_event s (p_id cur) (Some ev)"
    using assms(9) e by (simp add: with_event_def)
  moreover have "next_event s (p_id cur) ev" using n e assms(10) by (simp add: next_event_def)
  ultimately show ?thesis
    using same assms(3-10) by (simp add: payment_write_def same_data_def)
qed

lemma not_terminal: "st = PROCESSING \<or> st = UNKNOWN \<Longrightarrow> \<not> isTerminalPaymentStatus st"
  by (auto simp: isTerminalPaymentStatus_def)

lemma runtime_event_none [simp]: "\<not> runtime_event_taken s None"
  by (simp add: runtime_event_taken_def)

text \<open>A write that keeps the status and records a signature with an event.\<close>

lemma observe_allowed:
  assumes "js_get (ps_payments s) (p_id cur) = Some cur" and "payment_ok cur"
    and "evidenced cur (p_status cur) e new" and "p_status cur = PROCESSING \<or> p_status cur = UNKNOWN"
    and "solanaSignature e = Some x" and "\<not> owned_by_other (ps_signatures s) x (p_id cur)"
    and "next_event s (p_id cur) ev"
    and "ev_fromStatus ev = Some (p_status cur) \<and> ev_toStatus ev = Some (p_status cur) \<or>
      ev_fromStatus ev = None \<and> ev_toStatus ev = None"
  shows "write_allowed s cur new (Some x) None (Some ev)"
  using assms not_terminal [of "p_status cur"]
  by (auto simp: write_allowed_def evidenced_def confirms_user_def)

text \<open>The tail both observations share: apply evidence, claim the signature, append the event.\<close>

lemma observe_outcome:
  assumes "js_get (ps_payments s) (p_id cur) = Some cur" and "payment_ok cur"
    and "p_status cur = PROCESSING \<or> p_status cur = UNKNOWN"
    and "solanaSignature e = Some x" and "\<not> owned_by_other (ps_signatures s) x (p_id cur)"
    and "chainError e = None" and "terminalProof e = None"
    and "ei_paymentId i = p_id cur" and "ei_runtimeEventId i = None" and "ei_details i = Some d"
    and "json_object_ok d"
    and "ei_fromStatus i = Some (p_status cur) \<and> ei_toStatus i = Some (p_status cur) \<or>
      ei_fromStatus i = None \<and> ei_toStatus i = None"
    and "p_version cur = v"
    and run: "then_do (applyEvidence env cur (p_status cur) e s) (\<lambda>updated s1.
           then_do (appendEventUnsafe env i
               (s1\<lparr>ps_signatures := js_set (ps_signatures s1) x (p_id cur),
                   ps_payments := js_set (ps_payments s1) (p_id cur) updated\<rparr>))
             (\<lambda>_ s2. (clonePayment updated, s2))) = (r, s')"
  shows "write_outcome s (p_id cur) v r s'"
proof -
  obtain new n where new: "applyEvidence env cur (p_status cur) e s = (Inr new, s\<lparr>ps_clockReads := n\<rparr>)"
    and ev: "evidenced cur (p_status cur) e new"
    using evidence_total [OF assms(6,7), of env cur "p_status cur" s]
      evidence_outcome [of env cur "p_status cur" e s] by fastforce
  let ?t = "s\<lparr>ps_clockReads := n, ps_signatures := js_set (ps_signatures s) x (p_id cur),
    ps_payments := js_set (ps_payments s) (p_id cur) new\<rparr>"
  obtain a s2 where a: "appendEventUnsafe env i ?t = (Inr a, s2)" "appended ?t i a s2"
    using assms(9-11) by (rule_tac append_obtains [of ?t i env]) simp_all
  have w: "payment_write s cur new (Some x) None (Some a) s2 \<and> next_event s (p_id cur) a"
    using assms(8) by (intro commit_write [OF a(2)]) simp_all
  have "write_allowed s cur new (Some x) None (Some a)"
    using assms(1,2,3,4,5,12) ev w a(2) by (intro observe_allowed) (auto simp: appended_def)
  moreover have "payment_ok new" using ev assms(2) by (simp add: evidenced_def)
  then have "r = Inr new \<and> s' = s2" using run new a(1) by (simp add: clonePayment_id)
  ultimately show ?thesis using w assms(13) by (blast intro: write_outcomeI)
qed

section \<open>Outcome of each operation\<close>

lemma transition_outcome:
  assumes ok: "store_ok s" and run: "transitionPayment env i s = (r, s')"
  shows "write_outcome s (ti_paymentId i) (ti_expectedVersion i) r s'"
proof (cases rule: requireVersion_cases [OF ok, of "ti_paymentId i" "ti_expectedVersion i", case_names refused found])
  case (refused e)
  then show ?thesis using run [unfolded transitionPayment_def] by (rule refused_outcome)
next
  case (found cur)
  let ?e = "coalesce (ti_evidence i) no_evidence" and ?pid = "ti_paymentId i"
  show ?thesis
  proof (cases "validatePaymentTransition (p_status cur) (ti_toStatus i) ?e")
    case (Inl e)
    with run found show ?thesis by (auto simp: transitionPayment_def)
  next
    case valid: (Inr u)
    then obtain e' where e': "normalizeTransitionEvidence (ti_toStatus i) ?e = Inr e'"
      using normalize_total by blast
    obtain ty where ty: "eventTypeForTransition (p_status cur) (ti_toStatus i) = Inr ty"
      using transition_has_event [OF valid] by blast
    have step: "lifecycle_step (p_status cur) (ti_toStatus i)"
      using lifecycle_step.transition [of _ _ ?e] valid by simp
    have live: "\<not> isTerminalPaymentStatus (p_status cur)" "ti_toStatus i \<noteq> COMPLETED"
      using transition_cases [OF valid] by (auto simp: isTerminalPaymentStatus_def)
    let ?blocked = "case solanaSignature e' of None \<Rightarrow> False
           | Some sig \<Rightarrow> sig \<noteq> '''' \<and> owned_by_other (ps_signatures s) sig ?pid"
    show ?thesis
    proof (cases "?blocked \<or> (\<exists>e. transition_details i = Inl e)")
      case True
      with run found valid e' show ?thesis
        by (auto simp: transitionPayment_def split: if_splits)
    next
      case False
      then obtain d where free: "\<not> ?blocked" and d: "transition_details i = Inr d"
        by (cases "transition_details i") auto
      have "\<exists>es. cloneJsonObject es = Inr d"
        using d by (auto simp: transition_details_def and_then_Inr split: if_splits option.splits)
      then have dok: "json_object_ok d" using clone_object_ok by blast
      obtain res s1 where ap: "applyEvidence env cur (ti_toStatus i) e' s = (res, s1)" by fastforce
      then obtain n where s1: "s1 = s\<lparr>ps_clockReads := n\<rparr>"
        and res: "case res of Inl err \<Rightarrow> True | Inr new \<Rightarrow> evidenced cur (ti_toStatus i) e' new"
        using evidence_outcome by blast
      show ?thesis
      proof (cases res)
        case (Inl err)
        with run found valid e' free d ap s1 show ?thesis by (auto simp: transitionPayment_def)
      next
        case (Inr new)
        with res have ev: "evidenced cur (ti_toStatus i) e' new" by simp
        let ?sig = "case solanaSignature e' of None \<Rightarrow> None | Some x \<Rightarrow> if x = '''' then None else Some x"
        let ?t = "s\<lparr>ps_clockReads := n, ps_signatures := set_signature (solanaSignature e') ?pid (ps_signatures s),
            ps_payments := js_set (ps_payments s) (p_id new) new\<rparr>"
        let ?in = "\<lparr>ei_paymentId = p_id new, ei_eventType = ty, ei_fromStatus = Some (p_status cur),
            ei_toStatus = Some (p_status new), ei_runtimeEventId = None,
            ei_requestId = ti_requestId i, ei_details = Some d, ei_occurredAt = ti_occurredAt i\<rparr>"
        have idn: "p_id new = p_id cur" "p_status new = ti_toStatus i" "payment_ok new"
          using ev found by (simp_all add: evidenced_def same_request_def)
        obtain a s2 where a: "appendEventUnsafe env ?in ?t = (Inr a, s2)" "appended ?t ?in a s2"
          using dok by (rule_tac append_obtains [of ?t ?in env]) simp_all
        have w: "payment_write s cur new ?sig None (Some a) s2 \<and> next_event s (p_id cur) a"
          using found idn by (intro commit_write [OF a(2)]) (auto simp: set_signature_def split: option.splits)
        have "write_allowed s cur new ?sig None (Some a)"
          using ev found w a(2) step live free ty
          by (auto simp: write_allowed_def evidenced_def appended_def confirms_user_def
              eventTypeForTransition_def split: option.splits)
        moreover have "r = Inr new \<and> s' = s2"
          using run found valid e' free d ap s1 Inr ty a(1) idn
          by (simp add: transitionPayment_def clonePayment_id)
        ultimately show ?thesis using w found by (blast intro: write_outcomeI)
      qed
    qed
  qed
qed

lemma signature_outcome:
  assumes ok: "store_ok s" and run: "recordSignatureObservation env i s = (r, s')"
  shows "write_outcome s (so_paymentId i) (so_expectedVersion i) r s'"
proof (cases rule: requireVersion_cases [OF ok, of "so_paymentId i" "so_expectedVersion i", case_names refused found])
  case (refused e)
  then show ?thesis using run [unfolded recordSignatureObservation_def] by (rule refused_outcome)
next
  case (found cur)
  let ?refused = "p_status cur \<noteq> PROCESSING \<and> p_status cur \<noteq> UNKNOWN \<or>
    owned_by_other (ps_signatures s) (so_solanaSignature i) (so_paymentId i) \<or>
    (case so_submittedSlot i of None \<Rightarrow> False | Some n \<Rightarrow> n < 0) \<or>
    truthy (solanaSignature cur) \<and> solanaSignature cur \<noteq> Some (so_solanaSignature i) \<or>
    (\<exists>e. cloneJsonObject (coalesce (so_details i) []) = Inl e)"
  show ?thesis
  proof (cases ?refused)
    case True
    with run found show ?thesis by (auto simp: recordSignatureObservation_def split: if_splits)
  next
    case False
    then obtain d where d: "cloneJsonObject (coalesce (so_details i) []) = Inr d"
      by (cases "cloneJsonObject (coalesce (so_details i) [])") auto
    let ?e = "no_evidence\<lparr>solanaSignature := Some (so_solanaSignature i), submittedAt := Some (so_submittedAt i),
        submittedSlot := so_submittedSlot i, recentBlockhash := so_recentBlockhash i\<rparr>"
    let ?in = "\<lparr>ei_paymentId = so_paymentId i, ei_eventType = SIGNATURE_OBSERVED, ei_fromStatus = None,
        ei_toStatus = None, ei_runtimeEventId = None, ei_requestId = so_requestId i,
        ei_details = Some d, ei_occurredAt = so_occurredAt i\<rparr>"
    have "write_outcome s (p_id cur) (so_expectedVersion i) r s'"
    proof (rule observe_outcome [where e = ?e and i = ?in and x = "so_solanaSignature i" and d = d])
      show "then_do (applyEvidence env cur (p_status cur) ?e s) (\<lambda>updated s1.
           then_do (appendEventUnsafe env ?in
               (s1\<lparr>ps_signatures := js_set (ps_signatures s1) (so_solanaSignature i) (p_id cur),
                   ps_payments := js_set (ps_payments s1) (p_id cur) updated\<rparr>))
             (\<lambda>_ s2. (clonePayment updated, s2))) = (r, s')"
        using run False found d by (auto simp: recordSignatureObservation_def split: if_splits)
    qed (use False found clone_object_ok [OF d] in \<open>simp_all add: no_evidence_def\<close>)
    with found show ?thesis by simp
  qed
qed

lemma confirmation_outcome:
  assumes ok: "store_ok s" and run: "recordSettlementConfirmation env i s = (r, s')"
  shows "write_outcome s (sf_paymentId i) (sf_expectedVersion i) r s'"
proof (cases rule: requireVersion_cases [OF ok, of "sf_paymentId i" "sf_expectedVersion i", case_names refused found])
  case (refused e)
  then show ?thesis using run [unfolded recordSettlementConfirmation_def] by (rule refused_outcome)
next
  case (found cur)
  let ?details = "js_set (js_set (coalesce (sf_details i) []) ''signature'' (JString (sf_solanaSignature i)))
      ''confirmedSlot'' (JString (int_to_dec (sf_confirmedSlot i)))"
  let ?refused = "p_status cur \<noteq> PROCESSING \<and> p_status cur \<noteq> UNKNOWN \<or> sf_confirmedSlot i < 0 \<or>
    truthy (solanaSignature cur) \<and> solanaSignature cur \<noteq> Some (sf_solanaSignature i) \<or>
    owned_by_other (ps_signatures s) (sf_solanaSignature i) (sf_paymentId i) \<or>
    (\<exists>e. cloneJsonObject ?details = Inl e)"
  show ?thesis
  proof (cases ?refused)
    case True
    with run found show ?thesis by (auto simp: recordSettlementConfirmation_def split: if_splits)
  next
    case False
    then obtain d where d: "cloneJsonObject ?details = Inr d"
      by (cases "cloneJsonObject ?details") auto
    let ?e = "no_evidence\<lparr>solanaSignature := Some (sf_solanaSignature i),
        confirmedSlot := Some (sf_confirmedSlot i), confirmationStatus := Some ''confirmed'',
        lastCheckedAt := Some (sf_confirmedAt i)\<rparr>"
    let ?in = "\<lparr>ei_paymentId = sf_paymentId i, ei_eventType = SETTLEMENT_CONFIRMED,
        ei_fromStatus = Some (p_status cur), ei_toStatus = Some (p_status cur),
        ei_runtimeEventId = None, ei_requestId = sf_requestId i,
        ei_details = Some d, ei_occurredAt = sf_occurredAt i\<rparr>"
    have "write_outcome s (p_id cur) (sf_expectedVersion i) r s'"
    proof (rule observe_outcome [where e = ?e and i = ?in and x = "sf_solanaSignature i" and d = d])
      show "then_do (applyEvidence env cur (p_status cur) ?e s) (\<lambda>updated s1.
           then_do (appendEventUnsafe env ?in
               (s1\<lparr>ps_signatures := js_set (ps_signatures s1) (sf_solanaSignature i) (p_id cur),
                   ps_payments := js_set (ps_payments s1) (p_id cur) updated\<rparr>))
             (\<lambda>_ s2. (clonePayment updated, s2))) = (r, s')"
        using run False found d by (auto simp: recordSettlementConfirmation_def split: if_splits)
    qed (use False found clone_object_ok [OF d] in \<open>simp_all add: no_evidence_def\<close>)
    with found show ?thesis by simp
  qed
qed

lemma check_outcome:
  assumes ok: "store_ok s" and run: "recordSettlementCheck env i s = (r, s')"
  shows "write_outcome s (sc_paymentId i) (sc_expectedVersion i) r s'"
proof (cases rule: requireVersion_cases [OF ok, of "sc_paymentId i" "sc_expectedVersion i", case_names refused found])
  case (refused e)
  then show ?thesis using run [unfolded recordSettlementCheck_def] by (rule refused_outcome)
next
  case (found cur)
  show ?thesis
  proof (cases "p_status cur \<noteq> PROCESSING \<and> p_status cur \<noteq> UNKNOWN")
    case True
    with run found show ?thesis by (auto simp: recordSettlementCheck_def)
  next
    case False
    let ?e = "no_evidence\<lparr>lastCheckedAt := Some (sc_lastCheckedAt i)\<rparr>"
    obtain new n where new: "applyEvidence env cur (p_status cur) ?e s = (Inr new, s\<lparr>ps_clockReads := n\<rparr>)"
      and ev: "evidenced cur (p_status cur) ?e new"
      using evidence_total [of ?e env cur "p_status cur" s]
        evidence_outcome [of env cur "p_status cur" ?e s] by (fastforce simp: no_evidence_def)
    then have nok: "payment_ok new" and sig: "solanaSignature new = solanaSignature cur"
      using found by (simp_all add: evidenced_def no_evidence_def)
    have rs: "r = Inr new" "s' = s\<lparr>ps_clockReads := n, ps_payments := js_set (ps_payments s) (sc_paymentId i) new\<rparr>"
      using run found False new nok by (auto simp: recordSettlementCheck_def clonePayment_id split: if_splits)
    have "payment_write s cur new None None None s'"
      unfolding rs using found by (simp add: payment_write_def with_event_def)
    moreover have "write_allowed s cur new None None None"
      using ev found sig False not_terminal [of "p_status cur"]
      by (auto simp: write_allowed_def evidenced_def)
    ultimately show ?thesis unfolding rs(1) using found by (blast intro: write_outcomeI)
  qed
qed

lemma receipt_valid:
  assumes "validateReceipt cur r = Inr u" and "evidenced cur COMPLETED (receipt_evidence r) new"
    and "json_object_ok raw"
  shows "receipt_matches new (r\<lparr>rc_createdAt := c, rc_rawReceipt := raw\<rparr>)"
  using assms
  by (auto simp: validateReceipt_def receipt_matches_def evidenced_def same_request_def
      receipt_evidence_def and_then_Inr split: if_splits)

lemma receipt_evidence_plain [simp]:
  "chainError (receipt_evidence r) = None" "terminalProof (receipt_evidence r) = None"
  "solanaSignature (receipt_evidence r) = Some (rc_solanaSignature r)"
  by (simp_all add: receipt_evidence_def no_evidence_def)

definition receipt_refused :: "payment_store \<Rightarrow> payment_record \<Rightarrow> store_receipt_input \<Rightarrow> bool" where
  "receipt_refused s cur i \<longleftrightarrow> js_has (ps_receipts s) (sr_paymentId i) \<or>
     \<not> succeeds (validateReceipt cur (sr_receipt i)) \<or>
     owned_by_other (ps_signatures s) (rc_solanaSignature (sr_receipt i)) (sr_paymentId i) \<or>
     owned_by_other (ps_receiptPdas s) (rc_receiptPda (sr_receipt i)) (sr_paymentId i) \<or>
     runtime_event_taken s (sr_runtimeEventId i) \<or>
     \<not> succeeds (cloneJsonObject (coalesce (sr_details i) [])) \<or>
     \<not> succeeds (validateReceiptCompletionTransition (p_status cur) (receipt_evidence (sr_receipt i)))"

lemma receipt_refusal:
  assumes "requireVersion s (sr_paymentId i) (sr_expectedVersion i) = Inr cur" and "receipt_refused s cur i"
  shows "\<exists>e. storeVerifiedReceipt env i s = (Inl e, s)"
  using assms
  by (cases "validateReceipt cur (sr_receipt i)"; cases "cloneJsonObject (coalesce (sr_details i) [])";
      cases "validateReceiptCompletionTransition (p_status cur) (receipt_evidence (sr_receipt i))")
    (auto simp: storeVerifiedReceipt_def receipt_refused_def Let_def)

lemma receipt_outcome:
  assumes ok: "store_ok s" and run: "storeVerifiedReceipt env i s = (r, s')"
  shows "write_outcome s (sr_paymentId i) (sr_expectedVersion i) (map_sum id fst r) s' \<and>
    (\<forall>p rc. r = Inr (p, rc) \<longrightarrow> js_get (ps_payments s') (sr_paymentId i) = Some p \<and>
       js_get (ps_receipts s') (sr_paymentId i) = Some rc)"
proof (cases rule: requireVersion_cases [OF ok, of "sr_paymentId i" "sr_expectedVersion i", case_names refused found])
  case (refused e)
  then have "r = Inl e" "s' = s" using run by (simp_all add: storeVerifiedReceipt_def)
  then show ?thesis by simp
next
  case (found cur)
  let ?rc = "sr_receipt i"
  show ?thesis
  proof (cases "receipt_refused s cur i")
    case True
    then obtain e where "r = Inl e" "s' = s" using run receipt_refusal [OF found(1), of env] by auto
    then show ?thesis by simp
  next
    case False
    then obtain u d u' where go: "\<not> js_has (ps_receipts s) (sr_paymentId i)"
      "validateReceipt cur ?rc = Inr u"
      "\<not> owned_by_other (ps_signatures s) (rc_solanaSignature ?rc) (sr_paymentId i)"
      "\<not> owned_by_other (ps_receiptPdas s) (rc_receiptPda ?rc) (sr_paymentId i)"
      "\<not> runtime_event_taken s (sr_runtimeEventId i)"
      "cloneJsonObject (coalesce (sr_details i) []) = Inr d"
      "validateReceiptCompletionTransition (p_status cur) (receipt_evidence ?rc) = Inr u'"
      by (auto simp: receipt_refused_def succeeds_iff)
    obtain tm n where tm: "time_or_clock env (rc_createdAt ?rc) s = (tm, s\<lparr>ps_clockReads := n\<rparr>)"
      using time_or_clock_reads by (metis surj_pair)
    let ?s1 = "s\<lparr>ps_clockReads := n\<rparr>"
    obtain raw where raw: "cloneJsonObject (rc_rawReceipt ?rc) = Inr raw"
      using go(2) by (auto simp: validateReceipt_def and_then_Inr split: if_splits)
    then have rok: "json_object_ok raw" by (rule clone_object_ok)
    let ?rec = "?rc\<lparr>rc_createdAt := Some tm, rc_rawReceipt := raw\<rparr>"
    obtain new m where new: "applyEvidence env cur COMPLETED (receipt_evidence ?rc) ?s1 = (Inr new, s\<lparr>ps_clockReads := m\<rparr>)"
      and ev: "evidenced cur COMPLETED (receipt_evidence ?rc) new"
      using evidence_total [of "receipt_evidence ?rc" env cur COMPLETED ?s1]
        evidence_outcome [of env cur COMPLETED "receipt_evidence ?rc" ?s1] by fastforce
    let ?in = "\<lparr>ei_paymentId = sr_paymentId i, ei_eventType = RECEIPT_VERIFIED,
        ei_fromStatus = Some (p_status cur), ei_toStatus = Some COMPLETED,
        ei_runtimeEventId = sr_runtimeEventId i, ei_requestId = sr_requestId i,
        ei_details = Some d, ei_occurredAt = sr_occurredAt i\<rparr>"
    let ?t = "s\<lparr>ps_clockReads := m, ps_receipts := js_set (ps_receipts s) (sr_paymentId i) ?rec,
        ps_signatures := js_set (ps_signatures s) (rc_solanaSignature ?rc) (sr_paymentId i),
        ps_receiptPdas := js_set (ps_receiptPdas s) (rc_receiptPda ?rc) (sr_paymentId i),
        ps_payments := js_set (ps_payments s) (sr_paymentId i) new\<rparr>"
    have "\<not> runtime_event_taken ?t (sr_runtimeEventId i)"
      using go(5) by (simp add: runtime_event_taken_def split: option.splits)
    then obtain a s2 where a: "appendEventUnsafe env ?in ?t = (Inr a, s2)" "appended ?t ?in a s2"
      using clone_object_ok [OF go(6)] by (rule_tac append_obtains [of ?t ?in env]) simp_all
    have w: "payment_write s cur new (Some (rc_solanaSignature ?rc)) (Some ?rec) (Some a) s2 \<and>
        next_event s (p_id cur) a"
      using found by (intro commit_write [OF a(2)]) simp_all
    have step: "lifecycle_step (p_status cur) COMPLETED" "\<not> isTerminalPaymentStatus (p_status cur)"
      using go(7) completion_from [OF go(7)] not_terminal by (auto intro: lifecycle_step.completion)
    have al: "write_allowed s cur new (Some (rc_solanaSignature ?rc)) (Some ?rec) (Some a)"
      using ev found w a(2) step go receipt_valid [OF go(2) ev rok]
      by (auto simp: write_allowed_def evidenced_def appended_def js_has_iff confirms_user_def)
    have "payment_ok new" using ev found by (simp add: evidenced_def)
    then have rs: "r = Inr (new, ?rec)" "s' = s2"
      using run [unfolded storeVerifiedReceipt_def, symmetric] found go raw new a(1) rok tm
      by (simp_all add: clonePayment_id cloneReceipt_id Let_def)
    moreover have "write_outcome s (sr_paymentId i) (sr_expectedVersion i) (Inr new) s2"
      using al w found by (blast intro: write_outcomeI)
    ultimately show ?thesis using w found by (simp add: payment_write_def)
  qed
qed

section \<open>Claims\<close>

text \<open>The payment a claim inserts: fresh, without evidence, awaiting confirmation.\<close>

definition fresh_payment :: "payment_record \<Rightarrow> string \<Rightarrow> string \<Rightarrow> string \<Rightarrow> int \<Rightarrow> bool" where
  "fresh_payment p pid actor key amount \<longleftrightarrow> p_id p = pid \<and> p_actorSubject p = actor \<and>
     p_idempotencyKey p = key \<and> p_amountRaw p = amount \<and> p_status p = AWAITING_CONFIRMATION \<and>
     p_version p = 0 \<and> solanaSignature p = None \<and> chainError p = None \<and> terminalProof p = None"

lemma fresh_payments:
  "fresh_payment (new_payment i now) (cp_id i) (cp_actorSubject i) (cp_idempotencyKey i) (cp_amountRaw i)"
  "fresh_payment (directory_payment ci r trust h now) (ci_id ci) (ci_actorSubject ci) (ci_idempotencyKey ci)
     (ci_amountRaw ci)"
  "fresh_payment (synthetic_payment cs h now) (cs_id cs) (cs_actorSubject cs) (cs_idempotencyKey cs) (cs_amountRaw cs)"
  by (simp_all add: fresh_payment_def new_payment_def directory_payment_def synthetic_payment_def
      lifecycle_evidence.extend_def payment_record.fields_def no_evidence_def)

lemma fresh_payment_ok: "fresh_payment p pid actor key amount \<Longrightarrow> 0 < amount \<Longrightarrow> no_nul key \<Longrightarrow> payment_ok p"
  by (simp add: fresh_payment_def payment_ok_def)

text \<open>A claim throws without a change, inserts a payment, or finds the payment of its key.\<close>

fun claim_outcome ::
  "payment_store \<Rightarrow> string \<Rightarrow> string \<Rightarrow> idempotency_claim result \<Rightarrow> payment_store \<Rightarrow> bool" where
  "claim_outcome s actor key (Inl e) s' = same_data s s'"
| "claim_outcome s actor key (Inr (CLAIMED p)) s' =
     ((\<exists>e. payment_insert s p e s') \<and> p_actorSubject p = actor \<and> p_idempotencyKey p = key)"
| "claim_outcome s actor key (Inr (EXISTING p)) s' = (s' = s \<and> js_get (ps_payments s) (p_id p) = Some p \<and>
     p_actorSubject p = actor \<and> p_idempotencyKey p = key)"
| "claim_outcome s actor key (Inr (HASH_CONFLICT p)) s' = (s' = s \<and> js_get (ps_payments s) (p_id p) = Some p \<and>
     p_actorSubject p = actor \<and> p_idempotencyKey p = key)"

lemma claim_outcome_error [simp]: "claim_outcome s actor key (Inl e) s"
  by simp

lemma claim_outcome_step: "claim_outcome s actor key r s' \<Longrightarrow> store_step s s'"
  by (cases "(s, actor, key, r, s')" rule: claim_outcome.cases)
    (auto intro: step_idle step_insert)

lemma insert_outcome:
  assumes "fresh_payment p pid actor key amount" and "pid \<noteq> ''''" and "0 < amount \<and> no_nul key"
    and "js_get (ps_payments s) pid = None" and "js_get (ps_idempotency s) (index_key actor key) = None"
    and "json_object_ok (coalesce d [])"
    and run: "insert_payment env p (index_key actor key) d now (s\<lparr>ps_clockReads := n\<rparr>) = (r, s')"
  shows "r = Inr (CLAIMED p) \<and> claim_outcome s actor key r s'"
proof -
  note p = assms(1) [unfolded fresh_payment_def]
  have pok: "payment_ok p" using assms(1,3) by (blast intro: fresh_payment_ok)
  let ?in = "\<lparr>ei_paymentId = p_id p, ei_eventType = CREATED, ei_fromStatus = None,
         ei_toStatus = Some AWAITING_CONFIRMATION, ei_runtimeEventId = None, ei_requestId = None,
         ei_details = d, ei_occurredAt = Some now\<rparr>"
  let ?t = "s\<lparr>ps_clockReads := n, ps_payments := js_set (ps_payments s) (p_id p) p,
           ps_idempotency := js_set (ps_idempotency s) (index_key actor key) (p_id p)\<rparr>"
  obtain a s2 where a: "appendEventUnsafe env ?in ?t = (Inr a, s2)" "appended ?t ?in a s2"
    using assms(6) by (rule_tac append_obtains [of ?t ?in env]) simp_all
  have rs: "r = Inr (CLAIMED p)" "s' = s2"
    using run [unfolded insert_payment_def, symmetric] a(1) pok
    by (simp_all add: claim_result_def clonePayment_id)
  have ev: "payment_events ?t q = payment_events s q" for q by (simp add: payment_events_def)
  then have we: "with_event ?t (p_id p) (Some a) = with_event s (p_id p) (Some a)" by (simp add: with_event_def)
  obtain ids where same: "same_data (?t\<lparr>ps_events := with_event s (p_id p) (Some a),
      ps_nextEventId := ps_nextEventId s + 1, ps_runtimeEventIds := ids\<rparr>) s2"
    and n: "next_event s (p_id p) a" "ev_eventType a = CREATED" "ev_fromStatus a = None"
      "ev_toStatus a = Some AWAITING_CONFIRMATION"
    using a(2) we ev by (auto simp: appended_def next_event_def)
  have "payment_insert s p a s2"
    using same n p assms(2,4,5) pok by (simp add: payment_insert_def same_data_def)
  with p show ?thesis unfolding rs by auto
qed

lemma existing_id_Some:
  assumes ok: "store_ok s" and "existing_id s actor key = Some pid" and "no_nul key"
  obtains p where "js_get (ps_payments s) pid = Some p" "p_id p = pid" "payment_ok p"
    "p_actorSubject p = actor" "p_idempotencyKey p = key" "requirePayment s pid = Inr p"
proof -
  have g: "js_get (ps_idempotency s) (index_key actor key) = Some pid"
    using assms(2) by (auto simp: existing_id_def split: option.splits if_splits)
  with store_okD(2) [OF ok] obtain p where p: "js_get (ps_payments s) pid = Some p"
    "index_key actor key = index_key (p_actorSubject p) (p_idempotencyKey p)"
    unfolding index_ok_def by blast
  note pk = payments_keyedD [OF store_okD(1) [OF ok] p(1)]
  then have "actor = p_actorSubject p \<and> key = p_idempotencyKey p"
    using p(2) assms(3) index_key_inj by (simp add: payment_ok_def)
  with p pk show thesis by (intro that) (simp_all add: requirePayment_def)
qed

lemma existing_id_None:
  assumes "store_ok s" and "existing_id s actor key = None"
  shows "js_get (ps_idempotency s) (index_key actor key) = None"
proof (rule ccontr)
  assume "js_get (ps_idempotency s) (index_key actor key) \<noteq> None"
  then obtain pid where g: "js_get (ps_idempotency s) (index_key actor key) = Some pid" by blast
  with store_okD(2) [OF assms(1)] obtain p where "js_get (ps_payments s) pid = Some p"
    unfolding index_ok_def by blast
  then have "pid \<noteq> ''''" using payments_keyedD(2) [OF store_okD(1) [OF assms(1)]] by blast
  with g assms(2) show False by (simp add: existing_id_def)
qed

lemma frozen_claim_outcome:
  assumes "js_get (ps_payments s) (p_id p) = Some p" and "payment_ok p"
    and "p_actorSubject p = actor" and "p_idempotencyKey p = key"
    and "when_ok m s (\<lambda>same. (claim_result (if same then EXISTING else HASH_CONFLICT) p, s)) = (r, s')"
  shows "claim_outcome s actor key r s'"
  using assms by (cases m) (auto simp: claim_result_def clonePayment_id split: if_splits)

text \<open>What the callers owe: a fresh nonempty id, a key without NUL, a positive amount.\<close>

definition fresh_claim :: "payment_store \<Rightarrow> string \<Rightarrow> string \<Rightarrow> int \<Rightarrow> bool" where
  "fresh_claim s pid key amount \<longleftrightarrow>
     pid \<noteq> '''' \<and> js_get (ps_payments s) pid = None \<and> no_nul key \<and> 0 < amount"

lemma claim_key_outcome:
  assumes ok: "store_ok s" and "cp_id i \<noteq> ''''" and nn: "no_nul (cp_idempotencyKey i)"
    and run: "claimIdempotencyKey env i s = (r, s')"
  shows "claim_outcome s (cp_actorSubject i) (cp_idempotencyKey i) r s'"
proof -
  let ?bad = "\<not> succeeds (validateRequestHash (cp_requestHash i)) \<or> \<not> succeeds (validateCreatePayment i) \<or>
    length (cp_idempotencyKey i) < 16 \<or> length (cp_idempotencyKey i) > 128 \<or>
    \<not> js_has (ps_allowlist s) (cp_actorSubject i)"
  show ?thesis
  proof (cases ?bad)
    case True
    with run show ?thesis
      by (cases "validateRequestHash (cp_requestHash i)"; cases "validateCreatePayment i")
        (auto simp: claimIdempotencyKey_def split: if_splits)
  next
    case False
    then obtain u u' where v: "validateRequestHash (cp_requestHash i) = Inr u" "validateCreatePayment i = Inr u'"
      by (auto simp: succeeds_iff)
    show ?thesis
    proof (cases "existing_id s (cp_actorSubject i) (cp_idempotencyKey i)")
      case (Some pid)
      then obtain p where "js_get (ps_payments s) pid = Some p" "p_id p = pid" "payment_ok p"
        "p_actorSubject p = cp_actorSubject i" "p_idempotencyKey p = cp_idempotencyKey i" "requirePayment s pid = Inr p"
        using existing_id_Some [OF ok _ nn] by blast
      with False v Some run show ?thesis
        by (auto simp: claimIdempotencyKey_def claim_result_def clonePayment_id split: if_splits)
    next
      case None
      show ?thesis
      proof (cases "js_has (ps_payments s) (cp_id i)")
        case True
        with False v None run show ?thesis by (auto simp: claimIdempotencyKey_def)
      next
        case fresh: False
        obtain now n where c: "read_clock env s = (now, s\<lparr>ps_clockReads := n\<rparr>)"
          using read_clock_reads by (metis surj_pair)
        have pos: "0 < cp_amountRaw i"
          using v(2) by (auto simp: validateCreatePayment_def and_then_Inr split: if_splits)
        have "insert_payment env (new_payment i now) (index_key (cp_actorSubject i) (cp_idempotencyKey i))
            None now (s\<lparr>ps_clockReads := n\<rparr>) = (r, s')"
          using run False v None fresh c by (auto simp: claimIdempotencyKey_def)
        from insert_outcome [OF fresh_payments(1) assms(2) _ _ existing_id_None [OF ok None] _ this]
        show ?thesis using pos nn fresh by (auto simp: js_has_def)
      qed
    qed
  qed
qed

lemma hashed_claim:
  assumes ok: "store_ok s" and none: "existing_id s actor key = None" and fc: "fresh_claim s pid key amount"
    and mk: "\<And>hash now. fresh_payment (mk hash now) pid actor key amount" and d: "json_object_ok d"
    and run: "when_ok m s (\<lambda>hash. let (now, s1) = read_clock env s in
        insert_payment env (mk hash now) (index_key actor key) (Some d) now s1) = (r, s')"
  shows "claim_outcome s actor key r s'"
proof (cases m)
  case (Inl e)
  with run show ?thesis by (cases r) auto
next
  case (Inr hash)
  obtain now n where c: "read_clock env s = (now, s\<lparr>ps_clockReads := n\<rparr>)"
    using read_clock_reads by (metis surj_pair)
  have "insert_payment env (mk hash now) (index_key actor key) (Some d) now (s\<lparr>ps_clockReads := n\<rparr>) = (r, s')"
    using run Inr c by simp
  from insert_outcome [OF mk _ _ _ existing_id_None [OF ok none] _ this] fc d
  show ?thesis by (auto simp: fresh_claim_def)
qed

lemma synthetic_outcome:
  assumes ok: "store_ok s" and fr: "existing_id s (cs_actorSubject i) (cs_idempotencyKey i) = None \<Longrightarrow>
      fresh_claim s (cs_id i) (cs_idempotencyKey i) (cs_amountRaw i)" and nn: "no_nul (cs_idempotencyKey i)"
    and run: "claimSyntheticPaymentIdentityKey env i s = (r, s')"
  shows "claim_outcome s (cs_actorSubject i) (cs_idempotencyKey i) r s'"
proof (cases "existing_id s (cs_actorSubject i) (cs_idempotencyKey i)")
  case (Some pid)
  then obtain p where p: "js_get (ps_payments s) pid = Some p" "p_id p = pid" "payment_ok p"
    "p_actorSubject p = cs_actorSubject i" "p_idempotencyKey p = cs_idempotencyKey i" "requirePayment s pid = Inr p"
    using existing_id_Some [OF ok _ nn] by blast
  have "js_get (ps_payments s) (p_id p) = Some p" using p by simp
  then show ?thesis
    by (rule frozen_claim_outcome [OF _ p(3-5)])
      (use run Some p in \<open>simp add: claimSyntheticPaymentIdentityKey_def\<close>)
next
  case None
  show ?thesis
    by (rule hashed_claim [OF ok None fr [OF None] _ _ run [unfolded claimSyntheticPaymentIdentityKey_def None option.case]])
      (simp_all add: fresh_payments)
qed

lemma one_ok: "number_ok (Finite 1)"
  by code_simp

lemma identity_outcome:
  assumes ok: "store_ok s" and fr: "existing_id s (ci_actorSubject i) (ci_idempotencyKey i) = None \<Longrightarrow>
      fresh_claim s (ci_id i) (ci_idempotencyKey i) (ci_amountRaw i)" and nn: "no_nul (ci_idempotencyKey i)"
    and run: "claimPaymentIdentityKey env resolver i s = (r, s')"
  shows "claim_outcome s (ci_actorSubject i) (ci_idempotencyKey i) r s'"
proof (cases "existing_id s (ci_actorSubject i) (ci_idempotencyKey i)")
  case (Some pid)
  then obtain p where p: "js_get (ps_payments s) pid = Some p" "p_id p = pid" "payment_ok p"
    "p_actorSubject p = ci_actorSubject i" "p_idempotencyKey p = ci_idempotencyKey i" "requirePayment s pid = Inr p"
    using existing_id_Some [OF ok _ nn] by blast
  have "js_get (ps_payments s) (p_id p) = Some p" using p by simp
  then show ?thesis
    by (rule frozen_claim_outcome [OF _ p(3-5)])
      (use run Some p in \<open>simp add: claimPaymentIdentityKey_def\<close>)
next
  case None
  note run' = run [unfolded claimPaymentIdentityKey_def None option.case]
  note claim = hashed_claim [OF ok None fr [OF None]]
  show ?thesis
  proof (cases "resolver = None \<or> ci_senderAccountId i = ci_recipientAccountId i")
    case True
    with run' show ?thesis by (cases resolver) auto
  next
    case False
    then obtain resolve where rs: "resolver = Some resolve" by (cases resolver) auto
    show ?thesis
    proof (cases "resolve i")
      case (Inl e)
      with run' rs False show ?thesis by auto
    next
      case (Inr res)
      show ?thesis
      proof (cases res)
        case None
        with run' rs Inr False show ?thesis by auto
      next
        case (Some q)
        show ?thesis
        proof (cases "ri_payabilityState q \<noteq> ''AVAILABLE'' \<or> ri_verificationState q = ''RESTRICTED'' \<or>
            ri_verificationState q \<noteq> ''VERIFIED'' \<and> \<not> ci_trustAcknowledged i")
          case True
          with run' rs Inr Some False show ?thesis by (auto simp: Let_def split: if_splits)
        next
          case go: False
          define trust where "trust = (if ri_verificationState q = ''VERIFIED'' then NOT_REQUIRED else ACKNOWLEDGED)"
          have "when_ok (createPaymentIdentityRequestHash env
               \<lparr>cr_actorSubject = ci_actorSubject i, cr_network = ci_network i,
                cr_mintAddress = ci_mintAddress i, cr_recipientAddress = ri_destinationAddress q,
                cr_amountRaw = ci_amountRaw i, cr_purpose = ci_purpose i,
                ir_recipientAccountId = ci_recipientAccountId i,
                ir_recipientSnapshot = directory_snapshot i q trust,
                ir_trustConfirmationOutcome = trust\<rparr>) s (\<lambda>hash.
             let (now, s1) = read_clock env s in
             insert_payment env (directory_payment i q trust hash now)
               (index_key (ci_actorSubject i) (ci_idempotencyKey i))
               (Some [(''recipientType'', JString ''PAYMENT_IDENTITY''),
                      (''recipientAccountId'', JString (ci_recipientAccountId i)),
                      (''recipientSnapshotVersion'', JNumber (Finite 1)),
                      (''trustConfirmationOutcome'', JString (trust_text trust))])
               now s1) = (r, s')"
            using run' rs Inr Some False go by (simp only: trust_def Let_def) (auto split: if_splits)
          from claim [OF _ _ this] show ?thesis by (simp add: fresh_payments one_ok)
        qed
      qed
    qed
  qed
qed

section \<open>Annotations and the allowlist\<close>

lemma informational_outcome:
  assumes ok: "store_ok s" and run: "appendInformationalEvent env i s = (r, s')"
  shows "case r of Inl e \<Rightarrow> same_data s s'
    | Inr ev \<Rightarrow> ev_eventType ev \<in> set INFORMATIONAL_PAYMENT_EVENT_TYPES \<and> store_step s s' \<and>
        payment_events s' (ie_paymentId i) = payment_events s (ie_paymentId i) @ [ev] \<and>
        ps_payments s' = ps_payments s"
proof (cases "requirePayment s (ie_paymentId i)")
  case (Inl e)
  with run show ?thesis by (auto simp: appendInformationalEvent_def)
next
  case p: (Inr p)
  then have pay: "js_get (ps_payments s) (ie_paymentId i) = Some p"
    by (auto simp: requirePayment_def split: option.splits)
  show ?thesis
  proof (cases "validateInformationalEventType (ie_eventType i)")
    case (Inl e)
    with run p show ?thesis by (auto simp: appendInformationalEvent_def)
  next
    case (Inr u)
    then have ty: "ie_eventType i \<in> set INFORMATIONAL_PAYMENT_EVENT_TYPES"
      by (simp add: validateInformationalEventType_def split: if_splits)
    let ?in = "\<lparr>ei_paymentId = ie_paymentId i, ei_eventType = ie_eventType i, ei_fromStatus = None,
          ei_toStatus = None, ei_runtimeEventId = ie_runtimeEventId i, ei_requestId = ie_requestId i,
          ei_details = ie_details i, ei_occurredAt = ie_occurredAt i\<rparr>"
    have run': "appendEventUnsafe env ?in s = (r, s')"
      using run p Inr by (simp add: appendInformationalEvent_def)
    show ?thesis
    proof (cases r)
      case (Inl e)
      with append_outcome [OF run'] show ?thesis by simp
    next
      case ev: (Inr ev)
      with append_outcome [OF run'] obtain ids where n: "next_event s (ie_paymentId i) ev"
        "ev_eventType ev = ie_eventType i" "ev_fromStatus ev = None" "ev_toStatus ev = None"
        and same: "same_data (s\<lparr>ps_events := with_event s (ie_paymentId i) (Some ev),
                     ps_nextEventId := ps_nextEventId s + 1, ps_runtimeEventIds := ids\<rparr>) s'"
        by (auto simp: appended_def)
      have "store_step s s'" using pay n same by (auto intro: step_annotate)
      moreover have "payment_events s' (ie_paymentId i) = payment_events s (ie_paymentId i) @ [ev]"
        "ps_payments s' = ps_payments s"
        using same by (simp_all add: same_data_def payment_events_def with_event_def)
      ultimately show ?thesis using ev n ty by simp
    qed
  qed
qed

lemma allowlist_outcome:
  assumes run: "createAllowlistEntry env i s = (r, s')"
  shows "case r of Inl e \<Rightarrow> same_data s s'
    | Inr a \<Rightarrow> same_data (s\<lparr>ps_allowlist := js_set (ps_allowlist s) (ca_actorSubject i) a\<rparr>) s' \<and>
        js_get (ps_allowlist s) (ca_actorSubject i) = None"
proof -
  obtain now n where c: "read_clock env s = (now, s\<lparr>ps_clockReads := n\<rparr>)"
    using read_clock_reads by (metis surj_pair)
  show ?thesis
  proof (cases "js_has (ps_allowlist s) (ca_actorSubject i) \<or> \<not> succeeds (validateActorSubject (ca_actorSubject i))")
    case True
    with run show ?thesis
      by (cases "validateActorSubject (ca_actorSubject i)") (auto simp: createAllowlistEntry_def split: if_splits)
  next
    case False
    then show ?thesis
      using run c
      by (auto simp: createAllowlistEntry_def succeeds_iff same_data_def js_has_def Let_def split: if_splits)
  qed
qed

section \<open>Operations as one datatype\<close>

datatype payment_operation =
    OpAllow create_allowlist_entry_input
  | OpClaim create_payment_input
  | OpReplay payment_identity_replay_request
  | OpClaimIdentity identity_resolver claim_payment_identity_input
  | OpClaimSynthetic claim_synthetic_input
  | OpTransition payment_transition_input
  | OpObserveSignature signature_observation_input
  | OpCheckSettlement settlement_check_input
  | OpConfirmSettlement settlement_confirmation_input
  | OpAppendEvent informational_event_input
  | OpStoreReceipt store_receipt_input

fun run_operation :: "runtime_env \<Rightarrow> payment_operation \<Rightarrow> payment_store \<Rightarrow> js_error option \<times> payment_store" where
  "run_operation env (OpAllow i) s = thrown (createAllowlistEntry env i s)"
| "run_operation env (OpClaim i) s = thrown (claimIdempotencyKey env i s)"
| "run_operation env (OpReplay i) s = thrown (replayPaymentIdentityKey env i s)"
| "run_operation env (OpClaimIdentity f i) s = thrown (claimPaymentIdentityKey env f i s)"
| "run_operation env (OpClaimSynthetic i) s = thrown (claimSyntheticPaymentIdentityKey env i s)"
| "run_operation env (OpTransition i) s = thrown (transitionPayment env i s)"
| "run_operation env (OpObserveSignature i) s = thrown (recordSignatureObservation env i s)"
| "run_operation env (OpCheckSettlement i) s = thrown (recordSettlementCheck env i s)"
| "run_operation env (OpConfirmSettlement i) s = thrown (recordSettlementConfirmation env i s)"
| "run_operation env (OpAppendEvent i) s = thrown (appendInformationalEvent env i s)"
| "run_operation env (OpStoreReceipt i) s = thrown (storeVerifiedReceipt env i s)"

text \<open>What the callers of a claim guarantee: \<open>randomUUID\<close> gives a fresh nonempty id, the request
  validation gives a key of visible characters and a positive amount.\<close>

fun operation_ok :: "payment_store \<Rightarrow> payment_operation \<Rightarrow> bool" where
  "operation_ok s (OpClaim i) = (cp_id i \<noteq> '''' \<and> no_nul (cp_idempotencyKey i))"
| "operation_ok s (OpClaimIdentity f i) = fresh_claim s (ci_id i) (ci_idempotencyKey i) (ci_amountRaw i)"
| "operation_ok s (OpClaimSynthetic i) = fresh_claim s (cs_id i) (cs_idempotencyKey i) (cs_amountRaw i)"
| "operation_ok s _ = True"

lemma replay_state: "snd (replayPaymentIdentityKey env i s) = s"
  by (simp add: replayPaymentIdentityKey_def when_ok_def split: option.splits sum.splits)

lemma write_operation:
  assumes "\<And>r s'. o' = (r, s') \<Longrightarrow> write_outcome s pid v r s'" and "thrown o' = (err, t)"
  shows "store_step s t \<and> (err \<noteq> None \<longrightarrow> same_data s t)"
proof -
  obtain r where r: "o' = (r, t)" "err = (case r of Inl e \<Rightarrow> Some e | Inr x \<Rightarrow> None)"
    using thrown_cases [OF assms(2)] by blast
  from assms(1) [OF r(1)] r(2) show ?thesis
    by (cases r) (auto simp: write_outcome_def intro: step_idle step_write)
qed

lemma claim_operation:
  assumes "\<And>r s'. o' = (r, s') \<Longrightarrow> claim_outcome s a k r s'" and "thrown o' = (err, t)"
  shows "store_step s t \<and> (err \<noteq> None \<longrightarrow> same_data s t)"
proof -
  obtain r where r: "o' = (r, t)" "err = (case r of Inl e \<Rightarrow> Some e | Inr x \<Rightarrow> None)"
    using thrown_cases [OF assms(2)] by blast
  from assms(1) [OF r(1)] r(2) show ?thesis
    using claim_outcome_step [OF assms(1) [OF r(1)]] by (cases r) auto
qed

lemma operation_effect:
  assumes ok: "store_ok s" and op: "operation_ok s opn" and run: "run_operation env opn s = (err, t)"
  shows "store_step s t \<and> (err \<noteq> None \<longrightarrow> same_data s t)"
proof (cases opn)
  case (OpAllow i)
  with run obtain r where r: "createAllowlistEntry env i s = (r, t)"
    "err = (case r of Inl e \<Rightarrow> Some e | Inr x \<Rightarrow> None)" by (auto elim: thrown_cases)
  with allowlist_outcome [OF r(1)] show ?thesis
    by (cases r) (auto intro: step_idle step_allow)
next
  case (OpReplay i)
  with run show ?thesis using replay_state [of env i s] by (auto simp: thrown_def intro: step_idle)
next
  case (OpAppendEvent i)
  with run obtain r where r: "appendInformationalEvent env i s = (r, t)"
    "err = (case r of Inl e \<Rightarrow> Some e | Inr x \<Rightarrow> None)" by (auto elim: thrown_cases)
  with informational_outcome [OF ok r(1)] show ?thesis
    by (cases r) (auto intro: step_idle)
next
  case (OpClaim i)
  with op run show ?thesis by (intro claim_operation [OF claim_key_outcome [OF ok]]) simp_all
next
  case (OpClaimIdentity f i)
  with op run show ?thesis by (intro claim_operation [OF identity_outcome [OF ok]]) (simp_all add: fresh_claim_def)
next
  case (OpClaimSynthetic i)
  with op run show ?thesis by (intro claim_operation [OF synthetic_outcome [OF ok]]) (simp_all add: fresh_claim_def)
next
  case (OpTransition i)
  with run show ?thesis by (intro write_operation [OF transition_outcome [OF ok]]) simp_all
next
  case (OpObserveSignature i)
  with run show ?thesis by (intro write_operation [OF signature_outcome [OF ok]]) simp_all
next
  case (OpCheckSettlement i)
  with run show ?thesis by (intro write_operation [OF check_outcome [OF ok]]) simp_all
next
  case (OpConfirmSettlement i)
  with run show ?thesis by (intro write_operation [OF confirmation_outcome [OF ok]]) simp_all
next
  case (OpStoreReceipt i)
  with run obtain r where r: "storeVerifiedReceipt env i s = (r, t)"
    "err = (case r of Inl e \<Rightarrow> Some e | Inr x \<Rightarrow> None)" by (auto elim: thrown_cases)
  with receipt_outcome [OF ok r(1)] show ?thesis
    by (cases r) (auto simp: write_outcome_def intro: step_idle step_write)
qed

end
