(* ===== verification/PaymentStoreProperties.thy ===== *)
theory PaymentStoreProperties
  imports PaymentStoreRefinement
begin

text \<open>
  What holds of every state the payment persistence can reach from an empty one, through any
  sequence of its operations with any inputs whose claims are fresh.
\<close>

section \<open>Histories\<close>

inductive payment_history :: "runtime_env \<Rightarrow> payment_store \<Rightarrow> payment_store \<Rightarrow> bool" for env where
  history_start: "payment_history env s s"
| history_next: "payment_history env s t \<Longrightarrow> operation_ok t opn \<Longrightarrow>
    run_operation env opn t = (err, u) \<Longrightarrow> payment_history env s u"

definition reachable_store :: "runtime_env \<Rightarrow> payment_store \<Rightarrow> bool" where
  "reachable_store env s \<longleftrightarrow> payment_history env empty_store s"

text \<open>A history given as the list of its operations.\<close>

fun run_operations :: "runtime_env \<Rightarrow> payment_operation list \<Rightarrow> payment_store \<Rightarrow> payment_store" where
  "run_operations env [] s = s"
| "run_operations env (o' # os) s = run_operations env os (snd (run_operation env o' s))"

fun operations_ok :: "runtime_env \<Rightarrow> payment_operation list \<Rightarrow> payment_store \<Rightarrow> bool" where
  "operations_ok env [] s = True"
| "operations_ok env (o' # os) s = (operation_ok s o' \<and> operations_ok env os (snd (run_operation env o' s)))"

lemma history_trans: "payment_history env t u \<Longrightarrow> payment_history env s t \<Longrightarrow> payment_history env s u"
  by (induction rule: payment_history.induct) (auto intro: history_next)

lemma history_one: "operation_ok s o' \<Longrightarrow> payment_history env s (snd (run_operation env o' s))"
  by (rule history_next [OF history_start]) (auto simp: prod_eq_iff)

lemma run_operations_history: "operations_ok env os s \<Longrightarrow> payment_history env s (run_operations env os s)"
  by (induction os arbitrary: s) (auto intro: history_start history_trans history_one)

lemma history_ok: "payment_history env s t \<Longrightarrow> store_ok s \<Longrightarrow> store_ok t"
proof (induction rule: payment_history.induct)
  case (history_next s t opn err u)
  then show ?case using operation_effect store_step_ok by blast
qed

lemma reachable_ok: "reachable_store env s \<Longrightarrow> store_ok s"
  unfolding reachable_store_def using history_ok store_ok_empty by blast

text \<open>A property of single changes that composes holds of histories.\<close>

lemma history_induct:
  assumes "payment_history env s t" and "store_ok s" and "R s"
    and "\<And>a b. store_ok a \<Longrightarrow> R a \<Longrightarrow> store_step a b \<Longrightarrow> R b"
  shows "R t"
  using assms(1-3)
proof (induction rule: payment_history.induct)
  case (history_next s t opn err u)
  then have "store_ok t" "R t" using history_ok by blast+
  with history_next.hyps operation_effect assms(4) show ?case by blast
qed

section \<open>What single changes preserve\<close>

lemma step_payment:
  assumes "store_step s t" and "js_get (ps_payments s) pid = Some p"
  shows "js_get (ps_payments t) pid = Some p \<or>
    (\<exists>q. js_get (ps_payments t) pid = Some q \<and> same_request q p \<and> p_version q = p_version p + 1 \<and>
       \<not> isTerminalPaymentStatus (p_status p) \<and> p_status p \<le> p_status q)"
  using assms
proof (induction rule: store_step.induct)
  case (step_write s cur new sig rcpt ev t)
  then show ?case
    using lifecycle_step_increases [of "p_status cur" "p_status new"]
    by (cases "pid = p_id cur") (auto simp: payment_write_def write_allowed_def)
qed (auto simp: same_data_def payment_insert_def)

lemma step_trail:
  assumes "store_step s t"
  shows "\<exists>more. payment_events t pid = payment_events s pid @ more"
  using assms
proof (induction rule: store_step.induct)
  case (step_insert s p e t)
  then show ?case by (auto simp: payment_insert_def payment_events_def with_event_def)
next
  case (step_write s cur new sig rcpt ev t)
  then show ?case by (cases ev) (auto simp: payment_write_def payment_events_def with_event_def)
next
  case (step_annotate s pid' p e ids t)
  then show ?case by (auto simp: same_data_def payment_events_def with_event_def)
qed (auto simp: same_data_def payment_events_def)

lemma step_allowlist:
  "store_step s t \<Longrightarrow> js_get (ps_allowlist s) k = Some a \<Longrightarrow> js_get (ps_allowlist t) k = Some a"
  by (induction rule: store_step.induct) (auto simp: same_data_def payment_insert_def payment_write_def)

lemma step_index:
  "store_step s t \<Longrightarrow> js_get (ps_idempotency s) k = Some a \<Longrightarrow> js_get (ps_idempotency t) k = Some a"
  by (induction rule: store_step.induct) (auto simp: same_data_def payment_insert_def payment_write_def)

lemma step_receipt:
  "store_step s t \<Longrightarrow> js_get (ps_receipts s) k = Some a \<Longrightarrow> js_get (ps_receipts t) k = Some a"
  by (induction rule: store_step.induct)
    (auto simp: same_data_def payment_insert_def payment_write_def write_allowed_def split: option.splits)

lemmas step_monotone = step_allowlist step_index step_receipt

lemma history_payment:
  assumes "payment_history env s t" and "store_ok s" and "js_get (ps_payments s) pid = Some p"
  shows "\<exists>q. js_get (ps_payments t) pid = Some q \<and> same_request q p \<and> p_version p \<le> p_version q \<and>
    p_status p \<le> p_status q \<and> (isTerminalPaymentStatus (p_status p) \<or> p_version q = p_version p \<longrightarrow> q = p)"
  using assms(1,2)
proof (rule history_induct)
  show "\<exists>q. js_get (ps_payments s) pid = Some q \<and> same_request q p \<and> p_version p \<le> p_version q \<and>
    p_status p \<le> p_status q \<and> (isTerminalPaymentStatus (p_status p) \<or> p_version q = p_version p \<longrightarrow> q = p)"
    using assms(3) by (auto simp: same_request_def)
next
  fix a b assume st: "store_step a b" and "\<exists>q. js_get (ps_payments a) pid = Some q \<and> same_request q p \<and>
    p_version p \<le> p_version q \<and> p_status p \<le> p_status q \<and>
    (isTerminalPaymentStatus (p_status p) \<or> p_version q = p_version p \<longrightarrow> q = p)"
  then obtain q where q: "js_get (ps_payments a) pid = Some q" "same_request q p" "p_version p \<le> p_version q"
    "p_status p \<le> p_status q" "isTerminalPaymentStatus (p_status p) \<or> p_version q = p_version p \<longrightarrow> q = p"
    by blast
  from step_payment [OF st q(1)] q show "\<exists>q. js_get (ps_payments b) pid = Some q \<and> same_request q p \<and>
    p_version p \<le> p_version q \<and> p_status p \<le> p_status q \<and>
    (isTerminalPaymentStatus (p_status p) \<or> p_version q = p_version p \<longrightarrow> q = p)"
    by (auto simp: same_request_def)
qed

lemma history_keeps:
  assumes "payment_history env s t" and "store_ok s" and "f s"
    and "\<And>a b. store_step a b \<Longrightarrow> f a \<Longrightarrow> f b"
  shows "f t"
  using history_induct [OF assms(1,2), of f] assms(3,4) by blast

lemma history_receipt:
  "payment_history env s t \<Longrightarrow> store_ok s \<Longrightarrow> js_get (ps_receipts s) k = Some r \<Longrightarrow> js_get (ps_receipts t) k = Some r"
  by (rule history_keeps [where f = "\<lambda>s. js_get (ps_receipts s) k = Some r"]) (auto intro: step_receipt)

lemma history_allowlist:
  "payment_history env s t \<Longrightarrow> store_ok s \<Longrightarrow> js_get (ps_allowlist s) k = Some r \<Longrightarrow> js_get (ps_allowlist t) k = Some r"
  by (rule history_keeps [where f = "\<lambda>s. js_get (ps_allowlist s) k = Some r"]) (auto intro: step_allowlist)

lemma history_index:
  "payment_history env s t \<Longrightarrow> store_ok s \<Longrightarrow> js_get (ps_idempotency s) k = Some r \<Longrightarrow>
   js_get (ps_idempotency t) k = Some r"
  by (rule history_keeps [where f = "\<lambda>s. js_get (ps_idempotency s) k = Some r"]) (auto intro: step_index)

section \<open>A sample history\<close>

text \<open>
  One payment of the actor \<open>alice\<close>, from the allowlist entry to the verified receipt; the
  properties below are applied to it.
\<close>

definition sample_hash :: string where
  "sample_hash = replicate 64 CHR ''a''"

definition sample_create :: create_payment_input where
  "sample_create = \<lparr>cp_id = ''pay-1'', cp_actorSubject = ''alice'', cp_idempotencyKey = ''0123456789abcdef'',
     cp_requestHash = sample_hash, cp_network = ''solana-devnet'', cp_rail = ''solana'', cp_asset = ''USDC'',
     cp_mintAddress = ''mint'', cp_recipientAddress = ''bob'', cp_amountRaw = 1500000, cp_purpose = Some ''rent'',
     cp_recipientType = None, cp_recipientAccountId = None, cp_recipientSyntheticId = None,
     cp_recipientSnapshot = None, cp_recipientSnapshotVersion = None, cp_trustConfirmationOutcome = None\<rparr>"

definition sample_confirm :: payment_transition_input where
  "sample_confirm = \<lparr>ti_paymentId = ''pay-1'', ti_expectedVersion = 0, ti_toStatus = PROCESSING,
     ti_evidence = Some (no_evidence\<lparr>userConfirmedAt := Some ''t'', executionStartedAt := Some ''t''\<rparr>),
     ti_requestId = None, ti_details = None, ti_occurredAt = None\<rparr>"

definition sample_receipt :: payment_receipt where
  "sample_receipt = \<lparr>rc_id = ''r-1'', rc_paymentId = ''pay-1'', rc_network = ''solana-devnet'',
     rc_programId = ''prog'', rc_receiptPda = ''pda'', rc_solanaSignature = ''sig'', rc_slot = 7,
     rc_mintAddress = ''mint'', rc_recipientAddress = ''bob'', rc_amountRaw = 1500000,
     rc_onchainReference = sample_hash, rc_rawReceipt = [], rc_verifiedAt = ''t'', rc_createdAt = None\<rparr>"

definition sample_store_receipt :: store_receipt_input where
  "sample_store_receipt = \<lparr>sr_paymentId = ''pay-1'', sr_expectedVersion = 1, sr_receipt = sample_receipt,
     sr_runtimeEventId = Some ''rt-1'', sr_requestId = None, sr_details = None, sr_occurredAt = None\<rparr>"

definition sample_allow :: create_allowlist_entry_input where
  "sample_allow = \<lparr>ca_actorSubject = ''alice'', ca_enabled = None, ca_expiresAt = None, ca_note = None\<rparr>"

definition sample_ops :: "payment_operation list" where
  "sample_ops = [OpAllow sample_allow, OpClaim sample_create, OpTransition sample_confirm]"

definition sample_processing :: payment_store where
  "sample_processing = run_operations sample_env sample_ops empty_store"

definition sample_completed :: payment_store where
  "sample_completed = run_operations sample_env [OpStoreReceipt sample_store_receipt] sample_processing"

lemma sample_processing_reachable: "reachable_store sample_env sample_processing"
  unfolding reachable_store_def sample_processing_def
  by (rule run_operations_history) code_simp

lemma sample_completed_reachable: "reachable_store sample_env sample_completed"
  using sample_processing_reachable unfolding reachable_store_def sample_completed_def
  by (rule history_trans [rotated]) (rule run_operations_history, code_simp)

lemma sample_completed_from: "payment_history sample_env sample_processing sample_completed"
  unfolding sample_completed_def by (rule run_operations_history) code_simp

definition stored_status :: "payment_store \<Rightarrow> string \<Rightarrow> payment_status option" where
  "stored_status s pid = map_option p_status (js_get (ps_payments s) pid)"

lemma sample_statuses:
  "stored_status sample_processing ''pay-1'' = Some PROCESSING"
  "stored_status sample_completed ''pay-1'' = Some COMPLETED"
  by code_simp+

lemma sample_payment:
  obtains p q r where "js_get (ps_payments sample_processing) ''pay-1'' = Some p" "p_status p = PROCESSING"
    "js_get (ps_payments sample_completed) ''pay-1'' = Some q" "p_status q = COMPLETED"
  using sample_statuses by (auto simp: stored_status_def)

section \<open>Properties\<close>

text \<open>C1: in every state the persistence can reach, a payment is COMPLETED exactly when a receipt is stored
  for it, and that receipt agrees with the payment on id, network, mint, recipient, amount, signature,
  slot and receipt account; its on-chain reference is a 32-byte hex value and its slot is not negative.\<close>
theorem completed_iff_verified_receipt:
  assumes "reachable_store env s" and "js_get (ps_payments s) pid = Some p"
  shows "p_status p = COMPLETED \<longleftrightarrow> (\<exists>r. js_get (ps_receipts s) pid = Some r \<and> receipt_matches p r)"
proof -
  note ok = receipts_okD [OF store_okD(4) [OF reachable_ok [OF assms(1)]]]
  show ?thesis
  proof
    assume "p_status p = COMPLETED"
    then obtain r where r: "js_get (ps_receipts s) pid = Some r" using ok(3) [OF assms(2)] by (auto simp: js_has_iff)
    with ok(1) [OF r] assms(2) show "\<exists>r. js_get (ps_receipts s) pid = Some r \<and> receipt_matches p r" by auto
  next
    assume "\<exists>r. js_get (ps_receipts s) pid = Some r \<and> receipt_matches p r"
    then obtain r where "js_get (ps_receipts s) pid = Some r" by blast
    from ok(1) [OF this] assms(2) show "p_status p = COMPLETED" by auto
  qed
qed

theorem completed_iff_verified_receipt_witness:
  "\<exists>q r. js_get (ps_payments sample_completed) ''pay-1'' = Some q \<and>
     js_get (ps_receipts sample_completed) ''pay-1'' = Some r \<and> receipt_matches q r"
  using completed_iff_verified_receipt [OF sample_completed_reachable] sample_payment by metis

text \<open>C4: no operation changes a completed or failed payment, or its receipt: whatever runs after the
  state where it is terminal, the stored record stays the same.\<close>
theorem terminal_payment_frozen:
  assumes "reachable_store env s" and "js_get (ps_payments s) pid = Some p"
    and "isTerminalPaymentStatus (p_status p)" and "payment_history env s t"
  shows "js_get (ps_payments t) pid = Some p \<and>
    (p_status p = COMPLETED \<longrightarrow> js_get (ps_receipts t) pid = js_get (ps_receipts s) pid)"
proof -
  note ok = reachable_ok [OF assms(1)]
  have "js_get (ps_payments t) pid = Some p"
    using history_payment [OF assms(4) ok assms(2)] assms(3) by auto
  moreover have "js_get (ps_receipts t) pid = js_get (ps_receipts s) pid" if c: "p_status p = COMPLETED"
  proof -
    obtain r where r: "js_get (ps_receipts s) pid = Some r"
      using receipts_okD(3) [OF store_okD(4) [OF ok] assms(2) c] by (auto simp: js_has_iff)
    with history_receipt [OF assms(4) ok] show ?thesis by simp
  qed
  ultimately show ?thesis by blast
qed

theorem terminal_payment_frozen_witness:
  "\<exists>q t. js_get (ps_payments t) ''pay-1'' = Some q \<and> p_status q = COMPLETED \<and>
     t = run_operations sample_env [OpStoreReceipt sample_store_receipt] sample_completed"
proof -
  obtain q where q: "js_get (ps_payments sample_completed) ''pay-1'' = Some q" "p_status q = COMPLETED"
    using sample_payment by metis
  have "payment_history sample_env sample_completed
      (run_operations sample_env [OpStoreReceipt sample_store_receipt] sample_completed)"
    by (rule run_operations_history) simp
  from terminal_payment_frozen [OF sample_completed_reachable q(1) _ this] q show ?thesis
    by (auto simp: isTerminalPaymentStatus_def)
qed

text \<open>C2: a settled transaction pays for one payment: in every reachable state two payments with the same
  non-empty signature are the same payment.\<close>
theorem signature_settles_one_payment:
  assumes "reachable_store env s"
    and "js_get (ps_payments s) pid = Some p" and "js_get (ps_payments s) qid = Some q"
    and "solanaSignature p = Some x" and "solanaSignature q = Some x" and "x \<noteq> ''''"
  shows "pid = qid"
proof -
  note own = signatures_okD [OF store_okD(3) [OF reachable_ok [OF assms(1)]]]
  show ?thesis using own [OF assms(2,4,6)] own [OF assms(3,5,6)] by simp
qed

theorem signature_settles_one_payment_witness:
  "\<exists>q. js_get (ps_payments sample_completed) ''pay-1'' = Some q \<and> solanaSignature q = Some ''sig'' \<and>
     (\<forall>pid p. js_get (ps_payments sample_completed) pid = Some p \<longrightarrow> solanaSignature p = Some ''sig'' \<longrightarrow>
        pid = ''pay-1'')"
proof -
  have "map_option solanaSignature (js_get (ps_payments sample_completed) ''pay-1'') = Some (Some ''sig'')"
    by code_simp
  then obtain q where "js_get (ps_payments sample_completed) ''pay-1'' = Some q" "solanaSignature q = Some ''sig''"
    by auto
  with signature_settles_one_payment [OF sample_completed_reachable] show ?thesis by blast
qed

text \<open>C26: the event trail is a faithful log: in every reachable state the events of a payment are numbered
  1, 2, 3 and so on with increasing ids, each recorded change is one the lifecycle allows from where the
  trail stood, and replaying the trail gives the stored status.\<close>
theorem trail_replays_status:
  assumes "reachable_store env s" and "js_get (ps_payments s) pid = Some p"
  shows "replay_status (payment_events s pid) = Some (p_status p) \<and>
    trail_legal None (payment_events s pid) \<and>
    map ev_sequenceNumber (payment_events s pid) = [1..<Suc (length (payment_events s pid))] \<and>
    sorted_wrt (<) (map ev_id (payment_events s pid))"
  using trails_okD(1) [OF store_okD(5) [OF reachable_ok [OF assms(1)]] assms(2)]
  by (simp add: trail_ok_def)

theorem trail_replays_status_witness:
  "replay_status (payment_events sample_completed ''pay-1'') = Some COMPLETED \<and>
   trail_legal None (payment_events sample_completed ''pay-1'')"
  using trail_replays_status [OF sample_completed_reachable] sample_payment by metis

text \<open>A legal trail stays in \<open>FAILED\<close>.\<close>

lemma trail_failed:
  "trail_legal (Some FAILED) evs \<Longrightarrow> fold (\<lambda>e acc. defined (ev_toStatus e) acc) evs (Some FAILED) = Some FAILED"
proof (induction evs)
  case (Cons e evs)
  then have "defined (ev_toStatus e) (Some FAILED) = Some FAILED"
    by (auto elim: step_from_failed dest: lifecycle_step_legal split: option.splits)
  with Cons show ?case by simp
qed simp

text \<open>A legal trail that ends past \<open>AWAITING_CONFIRMATION\<close> and not in \<open>FAILED\<close> went through confirmation.\<close>

lemma trail_confirmed:
  assumes "trail_legal st evs" and "st = None \<or> st = Some AWAITING_CONFIRMATION"
    and "fold (\<lambda>e acc. defined (ev_toStatus e) acc) evs st = Some u"
    and "u \<in> {PROCESSING, UNKNOWN, COMPLETED}"
  shows "\<exists>e\<in>set evs. ev_fromStatus e = Some AWAITING_CONFIRMATION \<and> ev_toStatus e = Some PROCESSING"
  using assms
proof (induction evs arbitrary: st)
  case (Cons e evs)
  show ?case
  proof (cases "ev_toStatus e")
    case None
    with Cons show ?thesis by fastforce
  next
    case (Some v)
    show ?thesis
    proof (cases "v = AWAITING_CONFIRMATION")
      case True
      with Some Cons show ?thesis by auto
    next
      case False
      with Some Cons.prems(1,2) have e: "ev_fromStatus e = Some AWAITING_CONFIRMATION"
        "lifecycle_step AWAITING_CONFIRMATION v" "trail_legal (Some v) evs"
        by (auto split: option.splits)
      have "v \<noteq> FAILED"
        using trail_failed [of evs] e(3) Some Cons.prems(3,4) by auto
      with lifecycle_step_legal [OF e(2)] have "v = PROCESSING" by simp
      with e(1) Some show ?thesis by simp
    qed
  qed
qed auto

text \<open>Nothing settles without the user: in every reachable state the trail of a payment that is
  PROCESSING, UNKNOWN or COMPLETED contains the USER_CONFIRMED event that took it out of
  AWAITING_CONFIRMATION.\<close>
theorem settlement_was_confirmed:
  assumes "reachable_store env s" and "js_get (ps_payments s) pid = Some p"
    and "p_status p \<in> {PROCESSING, UNKNOWN, COMPLETED}"
  shows "\<exists>e\<in>set (payment_events s pid). ev_eventType e = USER_CONFIRMED \<and>
    ev_fromStatus e = Some AWAITING_CONFIRMATION \<and> ev_toStatus e = Some PROCESSING"
proof -
  have t: "trail_ok pid (payment_events s pid) (p_status p)"
    by (rule trails_okD(1) [OF store_okD(5) [OF reachable_ok [OF assms(1)]] assms(2)])
  then obtain e where "e \<in> set (payment_events s pid)" "ev_fromStatus e = Some AWAITING_CONFIRMATION"
    "ev_toStatus e = Some PROCESSING"
    using trail_confirmed [of None "payment_events s pid" "p_status p"] assms(3)
    by (auto simp: trail_ok_def replay_status_def)
  with t show ?thesis by (auto simp: trail_ok_def confirms_user_def)
qed

theorem settlement_was_confirmed_witness:
  "\<exists>e\<in>set (payment_events sample_completed ''pay-1''). ev_eventType e = USER_CONFIRMED"
  using settlement_was_confirmed [OF sample_completed_reachable] sample_payment by (metis insertCI)

text \<open>What was requested never changes: along any history a payment keeps its id, actor, idempotency key,
  request hash, network, rail, asset, mint, recipient, amount, purpose, recipient snapshot and creation
  time; its version never decreases, its status never goes back, and while the version stays the same so
  does the whole record.\<close>
theorem request_fields_immutable:
  assumes "reachable_store env s" and "js_get (ps_payments s) pid = Some p" and "payment_history env s t"
  shows "\<exists>q. js_get (ps_payments t) pid = Some q \<and> same_request q p \<and> p_version p \<le> p_version q \<and>
    p_status p \<le> p_status q \<and> (p_version q = p_version p \<longrightarrow> q = p)"
  using history_payment [OF assms(3) reachable_ok [OF assms(1)] assms(2)] by blast

theorem request_fields_immutable_witness:
  "\<exists>p q. js_get (ps_payments sample_processing) ''pay-1'' = Some p \<and>
     js_get (ps_payments sample_completed) ''pay-1'' = Some q \<and> same_request q p"
  using request_fields_immutable [OF sample_processing_reachable _ sample_completed_from] sample_payment by metis

text \<open>C14: every state-changing operation of the persistence makes one of the changes of its abstract
  specification: nothing but counters, a new allowlist entry, a fresh payment, an allowed rewrite of one
  payment with its signature, receipt and event, or an annotation of a trail.\<close>
theorem operations_refine_specification:
  assumes "store_ok s" and "operation_ok s opn"
  shows "store_step s (snd (run_operation env opn s)) \<and> store_ok (snd (run_operation env opn s))"
  using operation_effect [OF assms, of env] store_step_ok [OF _ assms(1)]
  by (cases "run_operation env opn s") auto

theorem operations_refine_specification_witness:
  "store_step sample_processing sample_completed"
  using operations_refine_specification [OF reachable_ok [OF sample_processing_reachable],
      of "OpStoreReceipt sample_store_receipt" sample_env]
  by (simp add: sample_completed_def)

text \<open>C27: an operation that throws leaves the payments, the idempotency index, the receipts, the events, the
  signature and receipt-account owners, the runtime event ids and the allowlist exactly as they were, even
  when it throws after its first writes would have started: there is nothing to roll back.\<close>
theorem errors_change_nothing:
  assumes "reachable_store env s" and "operation_ok s opn" and "run_operation env opn s = (Some e, t)"
  shows "ps_payments t = ps_payments s \<and> ps_idempotency t = ps_idempotency s \<and> ps_receipts t = ps_receipts s \<and>
    ps_events t = ps_events s \<and> ps_signatures t = ps_signatures s \<and> ps_receiptPdas t = ps_receiptPdas s \<and>
    ps_runtimeEventIds t = ps_runtimeEventIds s \<and> ps_allowlist t = ps_allowlist s"
  using operation_effect [OF reachable_ok [OF assms(1)] assms(2,3)] by (simp add: same_data_def)

theorem errors_change_nothing_witness:
  "\<exists>e t. run_operation sample_env (OpStoreReceipt sample_store_receipt) sample_completed = (Some e, t) \<and>
     ps_payments t = ps_payments sample_completed"
proof -
  have "fst (run_operation sample_env (OpStoreReceipt sample_store_receipt) sample_completed) \<noteq> None"
    by code_simp
  then obtain e t where r: "run_operation sample_env (OpStoreReceipt sample_store_receipt) sample_completed = (Some e, t)"
    by (metis option.exhaust prod.collapse)
  from errors_change_nothing [OF sample_completed_reachable _ r] r show ?thesis by simp
qed

end
