(* ===== verification/Versioned.thy ===== *)
theory Versioned
  imports Main
begin

text \<open>
  Two contracts the persistences share. A \<open>guarded_machine\<close> is a state changed by steps that keep an
  invariant. A \<open>versioned_store\<close> is one whose entries carry a version that no step lowers and whose
  conditional writes name the version they expect: of the writes prepared against one version of an
  entry, at most one ever succeeds.
\<close>

locale guarded_machine =
  fixes ok :: "'s \<Rightarrow> bool"
    and step :: "'s \<Rightarrow> 's \<Rightarrow> bool"
  assumes step_ok: "ok s \<Longrightarrow> step s t \<Longrightarrow> ok t"
begin

lemma run_ok:
  assumes "step\<^sup>*\<^sup>* s t" and "ok s"
  shows "ok t"
  using assms by (induction rule: rtranclp_induct) (auto intro: step_ok)

text \<open>What every single step carries over, a run carries over.\<close>

lemma run_carries:
  assumes "step\<^sup>*\<^sup>* s t" and "ok s" and "R s"
    and "\<And>a b. ok a \<Longrightarrow> step a b \<Longrightarrow> R a \<Longrightarrow> R b"
  shows "R t"
  using assms(1)
proof (induction rule: rtranclp_induct)
  case (step a b)
  then show ?case using run_ok assms(2,4) by blast
qed (rule assms(3))

end

locale versioned_store = guarded_machine ok step
  for ok :: "'s \<Rightarrow> bool" and step :: "'s \<Rightarrow> 's \<Rightarrow> bool" +
  fixes version :: "'s \<Rightarrow> 'k \<Rightarrow> int option"
    and put :: "'w \<Rightarrow> 's \<Rightarrow> 's option"
    and target :: "'w \<Rightarrow> 'k"
    and expected :: "'w \<Rightarrow> int"
  assumes step_version: "ok s \<Longrightarrow> step s t \<Longrightarrow> version s k = Some v \<Longrightarrow> \<exists>v'. version t k = Some v' \<and> v \<le> v'"
    and put_expects: "ok s \<Longrightarrow> put w s = Some t \<Longrightarrow> version s (target w) = Some (expected w)"
    and put_advances: "ok s \<Longrightarrow> put w s = Some t \<Longrightarrow> version t (target w) = Some (expected w + 1)"
    and put_keeps_ok: "ok s \<Longrightarrow> put w s = Some t \<Longrightarrow> ok t"
begin

lemma run_version:
  assumes "step\<^sup>*\<^sup>* s t" and "ok s" and "version s k = Some v"
  shows "\<exists>v'. version t k = Some v' \<and> v \<le> v'"
  using assms(1,2)
proof (rule run_carries)
  show "\<exists>v'. version s k = Some v' \<and> v \<le> v'" using assms(3) by blast
next
  fix a b assume "ok a" "step a b" "\<exists>v'. version a k = Some v' \<and> v \<le> v'"
  then show "\<exists>v'. version b k = Some v' \<and> v \<le> v'" using step_version order_trans by blast
qed

lemma version_moved_on:
  assumes "ok s" and "put w s = Some t" and "step\<^sup>*\<^sup>* t u"
  shows "\<exists>v. version u (target w) = Some v \<and> expected w < v"
  using run_version [OF assms(3) put_keeps_ok [OF assms(1,2)] put_advances [OF assms(1,2)]] by force

lemma single_winner:
  assumes "ok s" and "put w s = Some t" and "step\<^sup>*\<^sup>* t u"
    and "target w' = target w" and "expected w' \<le> expected w"
  shows "put w' u = None"
proof (cases "put w' u")
  case (Some x)
  have "ok u" using run_ok [OF assms(3)] put_keeps_ok [OF assms(1,2)] by blast
  with Some have "version u (target w) = Some (expected w')" using put_expects assms(4) by metis
  with version_moved_on [OF assms(1-3)] assms(5) show ?thesis by auto
qed

end

end
