(* ===== verification/PaymentStoreQueries.thy ===== *)
theory PaymentStoreQueries
  imports PaymentStoreProperties Versioned
begin

text \<open>
  Optimistic concurrency, idempotent claims and the listing queries of the payment persistence.
\<close>

section \<open>Optimistic concurrency\<close>

text \<open>The payment and version an operation writes under, for the operations that expect a version.\<close>

fun expected_version :: "payment_operation \<Rightarrow> (string \<times> int) option" where
  "expected_version (OpTransition i) = Some (ti_paymentId i, ti_expectedVersion i)"
| "expected_version (OpObserveSignature i) = Some (so_paymentId i, so_expectedVersion i)"
| "expected_version (OpCheckSettlement i) = Some (sc_paymentId i, sc_expectedVersion i)"
| "expected_version (OpConfirmSettlement i) = Some (sf_paymentId i, sf_expectedVersion i)"
| "expected_version (OpStoreReceipt i) = Some (sr_paymentId i, sr_expectedVersion i)"
| "expected_version _ = None"

lemma stale_write_refused:
  assumes "expected_version opn = Some (pid, v)" and "js_get (ps_payments s) pid = Some p" and "p_version p \<noteq> v"
  shows "run_operation env opn s = (Some (Err PaymentVersionConflictError
    (''Payment '' @ pid @ '' was modified by another operation.'')), s)"
proof -
  have "requireVersion s pid v = version_conflict pid"
    using assms(2,3) by (simp add: requireVersion_def requirePayment_def)
  with assms(1) show ?thesis
    by (cases opn) (auto simp: transitionPayment_def recordSignatureObservation_def recordSettlementCheck_def
        recordSettlementConfirmation_def storeVerifiedReceipt_def version_conflict_def)
qed

lemma versioned_write_found:
  assumes "expected_version opn = Some (pid, v)" and "run_operation env opn s = (None, t)"
  shows "\<exists>p. js_get (ps_payments s) pid = Some p"
proof (cases "js_get (ps_payments s) pid")
  case None
  then have "requireVersion s pid v = requirePayment s pid" "\<exists>e. requirePayment s pid = Inl e"
    by (simp_all add: requireVersion_def requirePayment_def)
  with assms show ?thesis
    by (cases opn) (auto simp: transitionPayment_def recordSignatureObservation_def recordSettlementCheck_def
        recordSettlementConfirmation_def storeVerifiedReceipt_def requireVersion_def)
qed simp

lemma write_outcome_version:
  "write_outcome s pid v (Inr new) t \<Longrightarrow> \<exists>q. js_get (ps_payments t) pid = Some q \<and> p_version q = v + 1"
  by (auto simp: write_outcome_def payment_write_def write_allowed_def)

lemma versioned_write_advances:
  assumes ok: "store_ok s" and ev: "expected_version opn = Some (pid, v)" and run: "run_operation env opn s = (None, t)"
  shows "\<exists>q. js_get (ps_payments t) pid = Some q \<and> p_version q = v + 1"
proof (cases opn)
  case (OpTransition i)
  with run obtain r where "transitionPayment env i s = (Inr r, t)" using thrown_none by fastforce
  from transition_outcome [OF ok this] ev OpTransition show ?thesis using write_outcome_version by simp
next
  case (OpObserveSignature i)
  with run obtain r where "recordSignatureObservation env i s = (Inr r, t)" using thrown_none by fastforce
  from signature_outcome [OF ok this] ev OpObserveSignature show ?thesis using write_outcome_version by simp
next
  case (OpCheckSettlement i)
  with run obtain r where "recordSettlementCheck env i s = (Inr r, t)" using thrown_none by fastforce
  from check_outcome [OF ok this] ev OpCheckSettlement show ?thesis using write_outcome_version by simp
next
  case (OpConfirmSettlement i)
  with run obtain r where "recordSettlementConfirmation env i s = (Inr r, t)" using thrown_none by fastforce
  from confirmation_outcome [OF ok this] ev OpConfirmSettlement show ?thesis using write_outcome_version by simp
next
  case (OpStoreReceipt i)
  with run obtain r where "storeVerifiedReceipt env i s = (Inr r, t)" using thrown_none by fastforce
  from receipt_outcome [OF ok this] ev OpStoreReceipt show ?thesis using write_outcome_version [of s pid v "fst r" t] by simp
qed (use ev in simp_all)

text \<open>The persistence as a versioned store: its operations are the steps, and the operations that expect a version
  are its conditional writes.\<close>

definition payment_step :: "runtime_env \<Rightarrow> payment_store \<Rightarrow> payment_store \<Rightarrow> bool" where
  "payment_step env s t \<longleftrightarrow> (\<exists>opn err. operation_ok s opn \<and> run_operation env opn s = (err, t))"

definition payment_version :: "payment_store \<Rightarrow> string \<Rightarrow> int option" where
  "payment_version s pid = map_option p_version (js_get (ps_payments s) pid)"

definition put_payment :: "runtime_env \<Rightarrow> payment_operation \<Rightarrow> payment_store \<Rightarrow> payment_store option" where
  "put_payment env opn s = (case (expected_version opn, run_operation env opn s) of
     (Some pv, None, t) \<Rightarrow> Some t | _ \<Rightarrow> None)"

lemma put_payment_Some:
  "put_payment env opn s = Some t \<longleftrightarrow> expected_version opn \<noteq> None \<and> run_operation env opn s = (None, t)"
  by (auto simp: put_payment_def split: option.splits prod.splits)

lemma versioned_operation_ok: "expected_version opn \<noteq> None \<Longrightarrow> operation_ok s opn"
  by (cases opn) simp_all

lemma history_runs: "payment_history env s t \<Longrightarrow> (payment_step env)\<^sup>*\<^sup>* s t"
proof (induction rule: payment_history.induct)
  case (history_next s t opn err u)
  then have "payment_step env t u" by (auto simp: payment_step_def)
  with history_next.IH show ?case by simp
qed simp

interpretation pm: versioned_store store_ok "payment_step env" payment_version "put_payment env"
  "\<lambda>opn. fst (the (expected_version opn))" "\<lambda>opn. snd (the (expected_version opn))" for env
proof unfold_locales
  fix s t assume "store_ok s" "payment_step env s t"
  then show "store_ok t" unfolding payment_step_def using operation_effect store_step_ok by blast
next
  fix s t k v assume ok: "store_ok s" and "payment_step env s t" "payment_version s k = Some v"
  then obtain p opn err where p: "js_get (ps_payments s) k = Some p" "v = p_version p"
    and step: "operation_ok s opn" "run_operation env opn s = (err, t)"
    by (auto simp: payment_version_def payment_step_def)
  from step_payment [OF conjunct1 [OF operation_effect [OF ok step]] p(1)] p(2)
  show "\<exists>v'. payment_version t k = Some v' \<and> v \<le> v'" by (auto simp: payment_version_def)
next
  fix opn s t assume ok: "store_ok s" and "put_payment env opn s = Some t"
  then obtain pid v where ev: "expected_version opn = Some (pid, v)" and run: "run_operation env opn s = (None, t)"
    by (auto simp: put_payment_Some)
  from versioned_write_advances [OF ok ev run]
  show "payment_version t (fst (the (expected_version opn))) = Some (snd (the (expected_version opn)) + 1)"
    by (auto simp: payment_version_def ev)
  show "store_ok t"
    using operation_effect [OF ok versioned_operation_ok run] store_step_ok ok ev by blast
  show "payment_version s (fst (the (expected_version opn))) = Some (snd (the (expected_version opn)))"
    using versioned_write_found [OF ev run] stale_write_refused [OF ev _ _, of s _ env] run
    by (fastforce simp: payment_version_def ev)
qed

text \<open>C19: no update is lost: when two operations were both prepared against the same version of a payment,
  the first to run advances the version by one, and the second, whatever it is and however much ran in
  between, throws \<open>PaymentVersionConflictError\<close> and changes nothing.\<close>
theorem no_lost_update:
  assumes "reachable_store env s" and "operation_ok s first" and "run_operation env first s = (None, t)"
    and "payment_history env t u"
    and "expected_version first = Some (pid, v)" and "expected_version second = Some (pid, v)"
  shows "run_operation env second u = (Some (Err PaymentVersionConflictError
    (''Payment '' @ pid @ '' was modified by another operation.'')), u)"
proof -
  have "put_payment env first s = Some t" using assms(3,5) by (simp add: put_payment_Some)
  from pm.version_moved_on [OF reachable_ok [OF assms(1)] this history_runs [OF assms(4)]] assms(5)
  obtain p where "js_get (ps_payments u) pid = Some p" "p_version p \<noteq> v"
    by (auto simp: payment_version_def)
  then show ?thesis using stale_write_refused [OF assms(6)] by blast
qed

theorem no_lost_update_witness:
  "\<exists>t. run_operation sample_env (OpStoreReceipt sample_store_receipt) sample_processing = (None, t) \<and>
     run_operation sample_env (OpCheckSettlement \<lparr>sc_paymentId = ''pay-1'', sc_expectedVersion = 1,
       sc_lastCheckedAt = ''t''\<rparr>) t = (Some (Err PaymentVersionConflictError
         ''Payment pay-1 was modified by another operation.''), t)"
proof -
  have "fst (run_operation sample_env (OpStoreReceipt sample_store_receipt) sample_processing) = None"
    by code_simp
  then obtain t where t: "run_operation sample_env (OpStoreReceipt sample_store_receipt) sample_processing = (None, t)"
    by (metis prod.collapse)
  from no_lost_update [OF sample_processing_reachable _ t history_start, of "''pay-1''" 1
      "OpCheckSettlement \<lparr>sc_paymentId = ''pay-1'', sc_expectedVersion = 1, sc_lastCheckedAt = ''t''\<rparr>"]
  have "run_operation sample_env (OpCheckSettlement \<lparr>sc_paymentId = ''pay-1'', sc_expectedVersion = 1,
       sc_lastCheckedAt = ''t''\<rparr>) t = (Some (Err PaymentVersionConflictError
         ''Payment pay-1 was modified by another operation.''), t)"
    by (simp add: sample_store_receipt_def)
  with t show ?thesis by blast
qed

section \<open>Idempotent claims\<close>

lemma claim_success:
  assumes "claimIdempotencyKey env i s = (Inr (CLAIMED p), t)"
  shows "p_requestHash p = cp_requestHash i \<and> 16 \<le> length (cp_idempotencyKey i) \<and>
    length (cp_idempotencyKey i) \<le> 128 \<and> js_has (ps_allowlist s) (cp_actorSubject i)"
proof -
  have h: "p_requestHash (new_payment i now) = cp_requestHash i" "clonePayment (new_payment i now) = Inr (new_payment i now)"
    for now
    by (simp_all add: new_payment_def lifecycle_evidence.extend_def payment_record.fields_def no_evidence_def
        clonePayment_def clone_option_def)
  have "\<not> (if b then EXISTING q else HASH_CONFLICT q) = CLAIMED p" for b q by simp
  with assms h show ?thesis
    by (auto simp: claimIdempotencyKey_def insert_payment_def when_ok_Inr then_do_Inr claim_result_def and_then_Inr
        Let_def split: if_splits option.splits prod.splits)
qed

lemma claim_replayed:
  assumes "reachable_store env s" and "operation_ok s (OpClaim i)"
    and "claimIdempotencyKey env i s = (Inr (CLAIMED p), t)" and "payment_history env t u"
    and "cp_actorSubject j = cp_actorSubject i" and "cp_idempotencyKey j = cp_idempotencyKey i"
    and "validateRequestHash (cp_requestHash j) = Inr ()" and "validateCreatePayment j = Inr ()"
  shows "\<exists>q. claimIdempotencyKey env j u =
      (Inr (if cp_requestHash j = cp_requestHash i then EXISTING q else HASH_CONFLICT q), u) \<and>
    js_get (ps_payments u) (p_id p) = Some q \<and> same_request q p"
proof -
  note ok = reachable_ok [OF assms(1)]
  have nn: "cp_id i \<noteq> ''''" "no_nul (cp_idempotencyKey i)" using assms(2) by simp_all
  note cl = claim_success [OF assms(3)]
  obtain e where ins: "payment_insert s p e t" "p_actorSubject p = cp_actorSubject i"
    "p_idempotencyKey p = cp_idempotencyKey i"
    using claim_key_outcome [OF ok nn assms(3)] by auto
  have tok: "store_ok t" using insert_ok [OF ins(1) ok] .
  have uok: "store_ok u" using history_ok [OF assms(4) tok] .
  obtain a where "js_get (ps_allowlist s) (cp_actorSubject i) = Some a" using cl by (auto simp: js_has_iff)
  with ins(1) have "js_get (ps_allowlist t) (cp_actorSubject i) = Some a" by (simp add: payment_insert_def)
  from history_allowlist [OF assms(4) tok this] have al: "js_has (ps_allowlist u) (cp_actorSubject i)"
    by (simp add: js_has_iff)
  have "js_get (ps_idempotency t) (index_key (cp_actorSubject i) (cp_idempotencyKey i)) = Some (p_id p)"
    and stored: "js_get (ps_payments t) (p_id p) = Some p" "p_id p \<noteq> ''''"
    using ins by (simp_all add: payment_insert_def)
  from history_index [OF assms(4) tok this(1)] stored(2)
  have ex: "existing_id u (cp_actorSubject i) (cp_idempotencyKey i) = Some (p_id p)"
    by (simp add: existing_id_def)
  obtain q where q: "js_get (ps_payments u) (p_id p) = Some q" "same_request q p"
    using history_payment [OF assms(4) tok stored(1)] by blast
  have rq: "requirePayment u (p_id p) = Inr q" using q(1) by (simp add: requirePayment_def)
  have "payment_ok q" using payments_keyedD(3) [OF store_okD(1) [OF uok] q(1)] .
  then have "clonePayment q = Inr q" by (rule clonePayment_id)
  moreover have "p_requestHash q = cp_requestHash i" using q(2) cl by (simp add: same_request_def)
  ultimately have "claimIdempotencyKey env j u =
      (Inr (if cp_requestHash j = cp_requestHash i then EXISTING q else HASH_CONFLICT q), u)"
    using assms(5-8) cl al ex rq by (simp add: claimIdempotencyKey_def claim_result_def)
  with q show ?thesis by blast
qed

text \<open>A claim is idempotent: after a claim created a payment, and whatever ran since, claiming the same key
  for the same actor never creates another: the same request hash returns the current record of that
  payment as EXISTING, another hash returns it as HASH_CONFLICT, and the state does not change. The
  record returned has the fields of the first request.\<close>
theorem claim_is_idempotent:
  assumes "reachable_store env s" and "operation_ok s (OpClaim i)"
    and "claimIdempotencyKey env i s = (Inr (CLAIMED p), t)" and "payment_history env t u"
    and "cp_actorSubject j = cp_actorSubject i" and "cp_idempotencyKey j = cp_idempotencyKey i"
    and "validateRequestHash (cp_requestHash j) = Inr ()" and "validateCreatePayment j = Inr ()"
  shows "\<exists>q. claimIdempotencyKey env j u =
      (Inr (if cp_requestHash j = cp_requestHash i then EXISTING q else HASH_CONFLICT q), u) \<and>
    js_get (ps_payments u) (p_id p) = Some q \<and> same_request q p"
  using claim_replayed [OF assms] .

definition sample_allowed :: payment_store where
  "sample_allowed = run_operations sample_env [OpAllow sample_allow] empty_store"

lemma sample_allowed_reachable: "reachable_store sample_env sample_allowed"
  unfolding reachable_store_def sample_allowed_def by (rule run_operations_history) simp

theorem claim_is_idempotent_witness:
  "\<exists>p t. claimIdempotencyKey sample_env sample_create sample_allowed = (Inr (CLAIMED p), t) \<and>
     (\<exists>q. claimIdempotencyKey sample_env (sample_create\<lparr>cp_id := ''pay-2''\<rparr>) t = (Inr (EXISTING q), t))"
proof -
  have "case fst (claimIdempotencyKey sample_env sample_create sample_allowed) of
      Inr (CLAIMED p) \<Rightarrow> True | _ \<Rightarrow> False"
    by code_simp
  then obtain p t where c: "claimIdempotencyKey sample_env sample_create sample_allowed = (Inr (CLAIMED p), t)"
    by (cases "claimIdempotencyKey sample_env sample_create sample_allowed")
      (auto split: sum.splits idempotency_claim.splits)
  have "operation_ok sample_allowed (OpClaim sample_create)"
    "validateRequestHash (cp_requestHash (sample_create\<lparr>cp_id := ''pay-2''\<rparr>)) = Inr ()"
    "validateCreatePayment (sample_create\<lparr>cp_id := ''pay-2''\<rparr>) = Inr ()"
    by code_simp+
  from claim_is_idempotent [OF sample_allowed_reachable this(1) c history_start _ _ this(2,3)] c
  show ?thesis by auto
qed

section \<open>Listing\<close>

lemma stored_payments_clone:
  assumes "store_ok s" and "set ps \<subseteq> set (js_values (ps_payments s))"
  shows "map_result clonePayment ps = Inr ps"
proof (rule map_result_id)
  fix p assume "p \<in> set ps"
  with assms(2) have "p \<in> set (js_values (ps_payments s))" by blast
  then obtain pid where "js_get (ps_payments s) pid = Some p"
    using js_values_in [of "ps_payments s" p] assms(1) by (auto simp: store_ok_def payments_keyed_def)
  from payments_keyedD(3) [OF store_okD(1) [OF assms(1)] this] show "clonePayment p = Inr p"
    by (rule clonePayment_id)
qed

lemma stored_payments_set:
  assumes "store_ok s"
  shows "set (js_values (ps_payments s)) = {p. js_get (ps_payments s) (p_id p) = Some p}"
    and "distinct (js_values (ps_payments s))"
proof -
  have k: "js_keys_distinct (ps_payments s)" and i: "\<And>pid p. js_get (ps_payments s) pid = Some p \<Longrightarrow> p_id p = pid"
    using assms by (auto simp: store_ok_def payments_keyed_def)
  show "set (js_values (ps_payments s)) = {p. js_get (ps_payments s) (p_id p) = Some p}"
    using js_values_in [OF k] i js_values_get by fast
  have "map (p_id \<circ> snd) (ps_payments s) = map fst (ps_payments s)"
  proof (rule map_cong [OF refl])
    fix x assume "x \<in> set (ps_payments s)"
    then have "js_get (ps_payments s) (fst x) = Some (snd x)"
      using k by (simp add: js_get_def js_keys_distinct_def)
    with i show "(p_id \<circ> snd) x = fst x" by simp
  qed
  then have "map p_id (js_values (ps_payments s)) = map fst (ps_payments s)"
    by (simp add: js_values_def comp_def)
  with k have "distinct (map p_id (js_values (ps_payments s)))" by (simp add: js_keys_distinct_def)
  then show "distinct (js_values (ps_payments s))" by (simp add: distinct_map)
qed

text \<open>The shape both listings share: filter the stored payments, sort, cut at the limit.\<close>

lemma listing:
  assumes ok: "store_ok s"
    and ps: "ps = take n (js_sort c (filter P (js_values (ps_payments s))))"
  shows "map_result clonePayment ps = Inr ps" and "distinct ps"
    and "set ps \<subseteq> {p. P p \<and> js_get (ps_payments s) (p_id p) = Some p}"
    and "length ps = min n (card {p. P p \<and> js_get (ps_payments s) (p_id p) = Some p})"
    and "comparator_laws c \<Longrightarrow> sorted_wrt (\<lambda>p q. c p q \<le> 0) ps"
proof -
  let ?src = "filter P (js_values (ps_payments s))"
  have src: "set ?src = {p. P p \<and> js_get (ps_payments s) (p_id p) = Some p}" "distinct ?src"
    using stored_payments_set [OF ok] by auto
  show sub: "set ps \<subseteq> {p. P p \<and> js_get (ps_payments s) (p_id p) = Some p}"
    unfolding ps using set_take_subset [of n "js_sort c ?src"] src(1) by auto
  then show "map_result clonePayment ps = Inr ps"
    using stored_payments_set(1) [OF ok] by (intro stored_payments_clone [OF ok]) auto
  show "distinct ps" unfolding ps using distinct_js_sort [OF src(2)] by (rule distinct_take)
  have "length ?src = card {p. P p \<and> js_get (ps_payments s) (p_id p) = Some p}"
    using distinct_card [OF src(2)] src(1) by simp
  then show "length ps = min n (card {p. P p \<and> js_get (ps_payments s) (p_id p) = Some p})"
    by (simp add: ps)
  show "comparator_laws c \<Longrightarrow> sorted_wrt (\<lambda>p q. c p q \<le> 0) ps"
    unfolding ps by (intro sorted_wrt_take sorted_js_sort)
qed

text \<open>An actor's activity: the query answers only with that actor's stored payments, each at most once,
  newest first when the collation is a total preorder, at most \<open>limit\<close> of them, and it leaves one out only
  when the limit is reached; a limit that is not a whole number between 1 and 100 throws.\<close>
theorem activity_listing:
  assumes "reachable_store env s"
  shows "if limit_within limit 100
    then \<exists>ps. listPaymentsByActor env s actor limit = Inr ps \<and> distinct ps \<and>
      set ps \<subseteq> {p. p_actorSubject p = actor \<and> js_get (ps_payments s) (p_id p) = Some p} \<and>
      length ps = min (limit_nat limit) (card {p. p_actorSubject p = actor \<and> js_get (ps_payments s) (p_id p) = Some p}) \<and>
      (comparator_laws (newest_first env) \<longrightarrow> sorted_wrt (\<lambda>p q. newest_first env p q \<le> 0) ps)
    else listPaymentsByActor env s actor limit = throw ''Activity limit is invalid.''"
  using listing [OF reachable_ok [OF assms] refl, where n = "limit_nat limit" and
      c = "newest_first env" and P = "\<lambda>p. p_actorSubject p = actor"]
  by (simp add: listPaymentsByActor_def)

theorem activity_listing_witness:
  "\<exists>ps. listPaymentsByActor sample_env sample_completed ''alice'' (Finite 5) = Inr ps \<and> distinct ps"
proof -
  have "limit_within (Finite 5) 100" by code_simp
  with activity_listing [OF sample_completed_reachable, of "Finite 5" "''alice''"] show ?thesis by auto
qed

text \<open>The reconciliation worker misses nothing: the query for payments requiring reconciliation answers with
  stored payments whose outcome is still open (PROCESSING or UNKNOWN), each at most once, least recently
  updated first when the collation is a total preorder; it leaves one out only when the limit is reached.\<close>
theorem reconciliation_listing:
  assumes "reachable_store env s" and "is_safe_integer limit" and "limit = Finite q" and "0 < q"
  shows "\<exists>ps. listPaymentsRequiringReconciliation env s limit = Inr ps \<and> distinct ps \<and>
    set ps \<subseteq> {p. p_status p \<in> {PROCESSING, UNKNOWN} \<and> js_get (ps_payments s) (p_id p) = Some p} \<and>
    length ps = min (limit_nat limit) (card {p. p_status p \<in> {PROCESSING, UNKNOWN} \<and> js_get (ps_payments s) (p_id p) = Some p}) \<and>
    (comparator_laws (oldest_update_first env) \<longrightarrow> sorted_wrt (\<lambda>p q. oldest_update_first env p q \<le> 0) ps)"
proof -
  have "\<not> (case limit of Finite q \<Rightarrow> q \<le> 0 | _ \<Rightarrow> True)"
    using assms(3,4) by simp
  with listing [OF reachable_ok [OF assms(1)] refl, where n = "limit_nat limit" and c = "oldest_update_first env" and
      P = "\<lambda>p. p_status p = PROCESSING \<or> p_status p = UNKNOWN"] assms(2)
  show ?thesis by (simp add: listPaymentsRequiringReconciliation_def)
qed

theorem reconciliation_listing_witness:
  "\<exists>ps. listPaymentsRequiringReconciliation sample_env sample_processing (Finite 10) = Inr ps \<and> distinct ps"
proof -
  have "is_safe_integer (Finite 10)" by code_simp
  with reconciliation_listing [OF sample_processing_reachable, of "Finite 10" 10] show ?thesis by auto
qed

end
