(* ===== verification/IdentityTypes.thy ===== *)
theory IdentityTypes
  imports JsonValues
begin

text \<open>
  \<open>src/identity/identityTypes.ts\<close> and the errors of \<open>identityStorageContracts.ts\<close>: accounts, the
  external identities linked to them, their sessions and the security events that record every
  change of an account.
\<close>

section \<open>Accounts, identities, sessions, events\<close>

datatype account_status = ACTIVE | SUSPENDED | DELETION_PENDING | DELETED

definition ACCOUNT_STATUSES :: "account_status list" where
  "ACCOUNT_STATUSES = [ACTIVE, SUSPENDED, DELETION_PENDING, DELETED]"

fun account_status_text :: "account_status \<Rightarrow> string" where
  "account_status_text ACTIVE = ''ACTIVE''"
| "account_status_text SUSPENDED = ''SUSPENDED''"
| "account_status_text DELETION_PENDING = ''DELETION_PENDING''"
| "account_status_text DELETED = ''DELETED''"

text \<open>\<open>ACCOUNT_STATUSES.includes(text)\<close>, and which one it is.\<close>

definition account_status_of :: "string \<Rightarrow> account_status option" where
  "account_status_of t = find (\<lambda>st. account_status_text st = t) ACCOUNT_STATUSES"

datatype account_security_event_type =
    ACCOUNT_CREATED
  | ACCOUNT_STATUS_CHANGED
  | EXTERNAL_IDENTITY_LINKED
  | SESSION_CREATED
  | SESSION_REVOKED

record account =
  ac_accountId :: string
  ac_actorSubject :: string
  ac_status :: account_status
  ac_version :: int
  ac_createdAt :: string
  ac_updatedAt :: string

record external_identity =
  xi_identityId :: string
  xi_issuer :: string
  xi_subject :: string
  xi_accountId :: string
  xi_linkedAt :: string

record account_session =
  as_sessionId :: string
  as_accountId :: string
  as_createdAt :: string
  as_expiresAt :: string
  as_revokedAt :: "string option"

record account_security_event =
  se_eventId :: int
  se_accountId :: string
  se_sequenceNumber :: nat
  se_eventType :: account_security_event_type
  se_accountVersion :: int
  se_sessionId :: "string option"
  se_identityId :: "string option"
  se_details :: json_object
  se_occurredAt :: string

record create_account_input =
  na_accountId :: string
  na_createdAt :: "string option"

record link_external_identity_input =
  li_identityId :: string
  li_accountId :: string
  li_expectedAccountVersion :: int
  li_issuer :: string
  li_subject :: string
  li_linkedAt :: "string option"

record provision_external_identity_input =
  pi_accountId :: string
  pi_identityId :: string
  pi_issuer :: string
  pi_subject :: string
  pi_occurredAt :: "string option"

record create_account_session_input =
  ns_sessionId :: string
  ns_accountId :: string
  ns_expectedAccountVersion :: int
  ns_expiresAt :: string
  ns_createdAt :: "string option"

record update_account_status_input =
  us_accountId :: string
  us_expectedVersion :: int
  us_status :: string
  us_occurredAt :: "string option"

record revoke_account_session_input =
  rv_sessionId :: string
  rv_accountId :: string
  rv_expectedAccountVersion :: int
  rv_revokedAt :: "string option"

section \<open>Validation\<close>

definition validateUuid :: "string \<Rightarrow> string \<Rightarrow> unit result" where
  "validateUuid value name =
     (if \<not> is_uuid value then throw (name @ '' must be a canonical UUID.'') else Inr ())"

definition actorSubjectForAccount :: "string \<Rightarrow> string result" where
  "actorSubjectForAccount accountId =
     and_then (validateUuid accountId ''Account ID'') (\<lambda>_. Inr (''zp:account:'' @ js_lower accountId))"

definition validateExternalIdentity :: "string \<Rightarrow> string \<Rightarrow> unit result" where
  "validateExternalIdentity issuer subject =
     (if js_trim issuer \<noteq> issuer \<or> length issuer < 1 \<or> length issuer > 512
      then throw ''External identity issuer must be between 1 and 512 characters without surrounding whitespace.''
      else if js_trim subject \<noteq> subject \<or> length subject < 1 \<or> length subject > 512
      then throw ''External identity subject must be between 1 and 512 characters without surrounding whitespace.''
      else Inr ())"

definition validateTimestamp :: "runtime_env \<Rightarrow> string \<Rightarrow> string \<Rightarrow> unit result" where
  "validateTimestamp env value name =
     (if \<not> valid_time env value then throw (name @ '' must be a valid timestamp.'') else Inr ())"

definition account_version_conflict :: "string \<Rightarrow> 'a result" where
  "account_version_conflict accountId = Inl (Err AccountVersionConflictError
     (''Account '' @ accountId @ '' was modified by another operation.''))"

definition external_identity_conflict :: "string \<Rightarrow> string \<Rightarrow> 'a result" where
  "external_identity_conflict issuer subject = Inl (Err ExternalIdentityConflictError
     (''External identity ('' @ issuer @ '', '' @ subject @ '') is already linked.''))"

lemma account_status_of_text [simp]: "account_status_of (account_status_text st) = Some st"
  by (cases st) (simp_all add: account_status_of_def ACCOUNT_STATUSES_def)

lemma account_status_of_Some: "account_status_of t = Some st \<Longrightarrow> t = account_status_text st"
  by (auto simp: account_status_of_def find_Some_iff)

lemma validateUuid_Inr [simp]: "validateUuid v n = Inr u \<longleftrightarrow> is_uuid v"
  by (simp add: validateUuid_def)

lemma validateTimestamp_Inr [simp]: "validateTimestamp env v n = Inr u \<longleftrightarrow> valid_time env v"
  by (simp add: validateTimestamp_def)

lemma actorSubject_uuid: "is_uuid a \<Longrightarrow> actorSubjectForAccount a = Inr (''zp:account:'' @ js_lower a)"
  by (simp add: actorSubjectForAccount_def validateUuid_def)

end
