(* ===== verification/IdentityStore.thy ===== *)
theory IdentityStore
  imports IdentityTypes
begin

text \<open>
  \<open>src/storage/memory/inMemoryIdentityPersistence.ts\<close>, the identity persistence, and
  \<open>src/identity/accountProvisioningService.ts\<close>, which resolves a verified principal to an account.
  As in the payment persistence, \<open>exclusive\<close> runs one operation at a time and an operation is a
  function of the state.
\<close>

section \<open>State\<close>

record identity_store =
  is_accounts :: "(string, account) js_map"
  is_actorSubjects :: "(string, string) js_map"
  is_identities :: "(string, external_identity) js_map"
  is_identityOwners :: "(string, string) js_map"
  is_sessions :: "(string, account_session) js_map"
  is_events :: "(string, account_security_event list) js_map"
  is_nextEventId :: int
  is_clockReads :: nat

definition empty_identity_store :: identity_store where
  "empty_identity_store = \<lparr>is_accounts = [], is_actorSubjects = [], is_identities = [],
     is_identityOwners = [], is_sessions = [], is_events = [], is_nextEventId = 1, is_clockReads = 0\<rparr>"

definition externalIdentityKey :: "string \<Rightarrow> string \<Rightarrow> string" where
  "externalIdentityKey issuer subject = issuer @ nul @ subject"

section \<open>Private steps\<close>

definition identity_now :: "runtime_env \<Rightarrow> string option \<Rightarrow> identity_store \<Rightarrow> string \<times> identity_store" where
  "identity_now env v s = (case v of
     Some t \<Rightarrow> (t, s)
   | None \<Rightarrow> (clock env (is_clockReads s), s\<lparr>is_clockReads := Suc (is_clockReads s)\<rparr>))"

definition requireAccount :: "identity_store \<Rightarrow> string \<Rightarrow> account result" where
  "requireAccount s accountId = (case js_get (is_accounts s) accountId of
     None \<Rightarrow> throw (''Account '' @ accountId @ '' was not found.'') | Some a \<Rightarrow> Inr a)"

definition requireAccountVersion :: "identity_store \<Rightarrow> string \<Rightarrow> int \<Rightarrow> account result" where
  "requireAccountVersion s accountId expected = and_then (requireAccount s accountId) (\<lambda>a.
     if ac_version a \<noteq> expected then account_version_conflict accountId else Inr a)"

definition account_events :: "identity_store \<Rightarrow> string \<Rightarrow> account_security_event list" where
  "account_events s accountId = coalesce (js_get (is_events s) accountId) []"

definition appendSecurityEvent ::
  "account \<Rightarrow> account_security_event_type \<Rightarrow> json_object \<Rightarrow> string \<Rightarrow> string option \<Rightarrow> string option \<Rightarrow>
   identity_store \<Rightarrow> (identity_store, unit) outcome" where
  "appendSecurityEvent a ty details occurredAt sessionId identityId s =
     (let s1 = s\<lparr>is_nextEventId := is_nextEventId s + 1\<rparr> in
      when_ok (cloneJsonObject details) s1 (\<lambda>d.
        let existing = account_events s (ac_accountId a);
            event = \<lparr>se_eventId = is_nextEventId s, se_accountId = ac_accountId a,
              se_sequenceNumber = length existing + 1, se_eventType = ty,
              se_accountVersion = ac_version a, se_sessionId = sessionId, se_identityId = identityId,
              se_details = d, se_occurredAt = occurredAt\<rparr>
        in (Inr (), s1\<lparr>is_events := js_set (is_events s1) (ac_accountId a) (existing @ [event])\<rparr>)))"

definition incrementAccount :: "account \<Rightarrow> string \<Rightarrow> identity_store \<Rightarrow> account \<times> identity_store" where
  "incrementAccount a updatedAt s =
     (let updated = a\<lparr>ac_version := ac_version a + 1, ac_updatedAt := updatedAt\<rparr>
      in (updated, s\<lparr>is_accounts := js_set (is_accounts s) (ac_accountId a) updated\<rparr>))"

definition new_account :: "string \<Rightarrow> string \<Rightarrow> string \<Rightarrow> account" where
  "new_account accountId subject now = \<lparr>ac_accountId = accountId, ac_actorSubject = subject,
     ac_status = ACTIVE, ac_version = 0, ac_createdAt = now, ac_updatedAt = now\<rparr>"

definition store_new_account :: "account \<Rightarrow> identity_store \<Rightarrow> identity_store" where
  "store_new_account a s = s\<lparr>is_accounts := js_set (is_accounts s) (ac_accountId a) a,
     is_actorSubjects := js_set (is_actorSubjects s) (ac_actorSubject a) (ac_accountId a)\<rparr>"

definition store_identity :: "external_identity \<Rightarrow> string \<Rightarrow> identity_store \<Rightarrow> identity_store" where
  "store_identity x key s = s\<lparr>is_identities := js_set (is_identities s) (xi_identityId x) x,
     is_identityOwners := js_set (is_identityOwners s) key (xi_identityId x)\<rparr>"

section \<open>Accounts\<close>

definition createAccount ::
  "runtime_env \<Rightarrow> create_account_input \<Rightarrow> identity_store \<Rightarrow> (identity_store, account) outcome" where
  "createAccount env i s =
     when_ok (validateUuid (na_accountId i) ''Account ID'') s (\<lambda>_.
       if js_has (is_accounts s) (na_accountId i)
       then (throw (''Account '' @ na_accountId i @ '' already exists.''), s)
       else let (now, s1) = identity_now env (na_createdAt i) s in
         when_ok (validateTimestamp env now ''Account creation time'') s1 (\<lambda>_.
         when_ok (actorSubjectForAccount (na_accountId i)) s1 (\<lambda>subject.
           let a = new_account (na_accountId i) subject now in
           then_do (appendSecurityEvent a ACCOUNT_CREATED [] now None None (store_new_account a s1))
             (\<lambda>_ s2. (Inr a, s2)))))"

definition findAccount :: "identity_store \<Rightarrow> string \<Rightarrow> account option" where
  "findAccount s accountId = js_get (is_accounts s) accountId"

definition findAccountByActorSubject :: "identity_store \<Rightarrow> string \<Rightarrow> account option result" where
  "findAccountByActorSubject s subject =
     (case js_get (is_actorSubjects s) subject of
        None \<Rightarrow> Inr None
      | Some accountId \<Rightarrow>
          if accountId = '''' then Inr None
          else and_then (requireAccount s accountId) (\<lambda>a. Inr (Some a)))"

definition updateAccountStatus ::
  "runtime_env \<Rightarrow> update_account_status_input \<Rightarrow> identity_store \<Rightarrow> (identity_store, account) outcome" where
  "updateAccountStatus env i s =
     when_ok (requireAccountVersion s (us_accountId i) (us_expectedVersion i)) s (\<lambda>a.
       case account_status_of (us_status i) of
         None \<Rightarrow> (throw ''Account status is invalid.'', s)
       | Some status \<Rightarrow>
           if ac_status a = status then (throw ''Account status must change.'', s)
           else let (occurredAt, s1) = identity_now env (us_occurredAt i) s in
             when_ok (validateTimestamp env occurredAt ''Account status event time'') s1 (\<lambda>_.
               let updated = a\<lparr>ac_status := status, ac_version := ac_version a + 1, ac_updatedAt := occurredAt\<rparr> in
               then_do (appendSecurityEvent updated ACCOUNT_STATUS_CHANGED
                   [(''previousStatus'', JString (account_status_text (ac_status a))),
                    (''status'', JString (account_status_text status))] occurredAt None None
                   (s1\<lparr>is_accounts := js_set (is_accounts s1) (ac_accountId a) updated\<rparr>))
                 (\<lambda>_ s2. (Inr updated, s2))))"

section \<open>External identities\<close>

definition linkExternalIdentity ::
  "runtime_env \<Rightarrow> link_external_identity_input \<Rightarrow> identity_store \<Rightarrow>
   (identity_store, account \<times> external_identity) outcome" where
  "linkExternalIdentity env i s =
     when_ok (validateUuid (li_identityId i) ''Identity ID'') s (\<lambda>_.
     when_ok (validateExternalIdentity (li_issuer i) (li_subject i)) s (\<lambda>_.
     when_ok (requireAccountVersion s (li_accountId i) (li_expectedAccountVersion i)) s (\<lambda>a.
       let key = externalIdentityKey (li_issuer i) (li_subject i) in
       if js_has (is_identities s) (li_identityId i) \<or> js_has (is_identityOwners s) key
       then (external_identity_conflict (li_issuer i) (li_subject i), s)
       else let (linkedAt, s1) = identity_now env (li_linkedAt i) s in
         when_ok (validateTimestamp env linkedAt ''Identity link time'') s1 (\<lambda>_.
           let x = \<lparr>xi_identityId = li_identityId i, xi_issuer = li_issuer i, xi_subject = li_subject i,
                 xi_accountId = li_accountId i, xi_linkedAt = linkedAt\<rparr>;
               (updated, s2) = incrementAccount a linkedAt s1 in
           then_do (appendSecurityEvent updated EXTERNAL_IDENTITY_LINKED [] linkedAt None (Some (xi_identityId x))
               (store_identity x key s2))
             (\<lambda>_ s3. (Inr (updated, x), s3))))))"

definition provisionExternalIdentity ::
  "runtime_env \<Rightarrow> provision_external_identity_input \<Rightarrow> identity_store \<Rightarrow>
   (identity_store, account \<times> external_identity \<times> bool) outcome" where
  "provisionExternalIdentity env i s =
     when_ok (validateUuid (pi_accountId i) ''Account ID'') s (\<lambda>_.
     when_ok (validateUuid (pi_identityId i) ''Identity ID'') s (\<lambda>_.
     when_ok (validateExternalIdentity (pi_issuer i) (pi_subject i)) s (\<lambda>_.
       let key = externalIdentityKey (pi_issuer i) (pi_subject i) in
       if truthy (js_get (is_identityOwners s) key)
       then (case js_get (is_identities s) (coalesce (js_get (is_identityOwners s) key) '''') of
               None \<Rightarrow> (throw ''Cannot read properties of undefined (reading 'accountId')'', s)
             | Some x \<Rightarrow> (and_then (requireAccount s (xi_accountId x)) (\<lambda>a. Inr (a, x, False)), s))
       else if js_has (is_accounts s) (pi_accountId i) \<or> js_has (is_identities s) (pi_identityId i)
       then (throw ''Provisioning identifiers already exist.'', s)
       else let (now, s1) = identity_now env (pi_occurredAt i) s in
         when_ok (validateTimestamp env now ''Provisioning time'') s1 (\<lambda>_.
         when_ok (actorSubjectForAccount (pi_accountId i)) s1 (\<lambda>subject.
           let base = new_account (pi_accountId i) subject now in
           then_do (appendSecurityEvent base ACCOUNT_CREATED [] now None None (store_new_account base s1)) (\<lambda>_ s2.
             let x = \<lparr>xi_identityId = pi_identityId i, xi_issuer = pi_issuer i, xi_subject = pi_subject i,
                   xi_accountId = pi_accountId i, xi_linkedAt = now\<rparr>;
                 (a, s3) = incrementAccount base now s2 in
             then_do (appendSecurityEvent a EXTERNAL_IDENTITY_LINKED [] now None (Some (xi_identityId x))
                 (store_identity x key s3))
               (\<lambda>_ s4. (Inr (a, x, True), s4))))))))"

definition earliest_linked :: "runtime_env \<Rightarrow> external_identity \<Rightarrow> external_identity \<Rightarrow> int" where
  "earliest_linked env a b = or_compare (locale_compare env (xi_linkedAt a) (xi_linkedAt b))
     (locale_compare env (xi_identityId a) (xi_identityId b))"

definition listExternalIdentities :: "runtime_env \<Rightarrow> identity_store \<Rightarrow> string \<Rightarrow> external_identity list" where
  "listExternalIdentities env s accountId = js_sort (earliest_linked env)
     (filter (\<lambda>x. xi_accountId x = accountId) (js_values (is_identities s)))"

definition findAccountByExternalIdentity ::
  "runtime_env \<Rightarrow> identity_store \<Rightarrow> string \<Rightarrow> string \<Rightarrow> (account \<times> external_identity list) option result" where
  "findAccountByExternalIdentity env s issuer subject =
     and_then (validateExternalIdentity issuer subject) (\<lambda>_.
       let identityId = js_get (is_identityOwners s) (externalIdentityKey issuer subject) in
       if \<not> truthy identityId then Inr None
       else case js_get (is_identities s) (coalesce identityId '''') of
         None \<Rightarrow> throw ''Cannot read properties of undefined (reading 'accountId')''
       | Some x \<Rightarrow> and_then (requireAccount s (xi_accountId x)) (\<lambda>a.
           Inr (Some (a, listExternalIdentities env s (xi_accountId x)))))"

definition findExternalIdentity :: "identity_store \<Rightarrow> string \<Rightarrow> string \<Rightarrow> external_identity option" where
  "findExternalIdentity s issuer subject =
     (case js_get (is_identityOwners s) (externalIdentityKey issuer subject) of
        None \<Rightarrow> None
      | Some identityId \<Rightarrow> if identityId = '''' then None else js_get (is_identities s) identityId)"

section \<open>Sessions\<close>

definition createAccountSession ::
  "runtime_env \<Rightarrow> create_account_session_input \<Rightarrow> identity_store \<Rightarrow>
   (identity_store, account \<times> account_session) outcome" where
  "createAccountSession env i s =
     when_ok (validateUuid (ns_sessionId i) ''Session ID'') s (\<lambda>_.
     when_ok (requireAccountVersion s (ns_accountId i) (ns_expectedAccountVersion i)) s (\<lambda>a.
       if js_has (is_sessions s) (ns_sessionId i)
       then (throw (''Session '' @ ns_sessionId i @ '' already exists.''), s)
       else let (createdAt, s1) = identity_now env (ns_createdAt i) s in
         when_ok (validateTimestamp env createdAt ''Session creation time'') s1 (\<lambda>_.
         when_ok (validateTimestamp env (ns_expiresAt i) ''Session expiry time'') s1 (\<lambda>_.
           if time_not_after env (ns_expiresAt i) createdAt
           then (throw ''Session expiry must be after creation.'', s1)
           else let z = \<lparr>as_sessionId = ns_sessionId i, as_accountId = ns_accountId i, as_createdAt = createdAt,
                      as_expiresAt = ns_expiresAt i, as_revokedAt = None\<rparr>;
                    (updated, s2) = incrementAccount a createdAt s1 in
             then_do (appendSecurityEvent updated SESSION_CREATED [] createdAt (Some (as_sessionId z)) None
                 (s2\<lparr>is_sessions := js_set (is_sessions s2) (as_sessionId z) z\<rparr>))
               (\<lambda>_ s3. (Inr (updated, z), s3))))))"

definition findAccountSession :: "identity_store \<Rightarrow> string \<Rightarrow> account_session option" where
  "findAccountSession s sessionId = js_get (is_sessions s) sessionId"

definition latest_session :: "runtime_env \<Rightarrow> account_session \<Rightarrow> account_session \<Rightarrow> int" where
  "latest_session env a b = or_compare (locale_compare env (as_createdAt b) (as_createdAt a))
     (locale_compare env (as_sessionId a) (as_sessionId b))"

definition listAccountSessions :: "runtime_env \<Rightarrow> identity_store \<Rightarrow> string \<Rightarrow> account_session list" where
  "listAccountSessions env s accountId = js_sort (latest_session env)
     (filter (\<lambda>z. as_accountId z = accountId) (js_values (is_sessions s)))"

definition revokeAccountSession ::
  "runtime_env \<Rightarrow> revoke_account_session_input \<Rightarrow> identity_store \<Rightarrow>
   (identity_store, account \<times> account_session) outcome" where
  "revokeAccountSession env i s =
     when_ok (requireAccountVersion s (rv_accountId i) (rv_expectedAccountVersion i)) s (\<lambda>a.
       case js_get (is_sessions s) (rv_sessionId i) of
         None \<Rightarrow> (throw (''Session '' @ rv_sessionId i @ '' was not found.''), s)
       | Some current \<Rightarrow>
           if as_accountId current \<noteq> rv_accountId i
           then (throw (''Session '' @ rv_sessionId i @ '' was not found.''), s)
           else if truthy (as_revokedAt current)
           then (throw (''Session '' @ rv_sessionId i @ '' is already revoked.''), s)
           else let (revokedAt, s1) = identity_now env (rv_revokedAt i) s in
             when_ok (validateTimestamp env revokedAt ''Session revocation time'') s1 (\<lambda>_.
               if time_before env revokedAt (as_createdAt current)
               then (throw ''Session revocation cannot precede creation.'', s1)
               else let z = current\<lparr>as_revokedAt := Some revokedAt\<rparr>;
                        (updated, s2) = incrementAccount a revokedAt s1 in
                 then_do (appendSecurityEvent updated SESSION_REVOKED [] revokedAt (Some (as_sessionId z)) None
                     (s2\<lparr>is_sessions := js_set (is_sessions s2) (as_sessionId z) z\<rparr>))
                   (\<lambda>_ s3. (Inr (updated, z), s3))))"

definition cloneSecurityEvent :: "account_security_event \<Rightarrow> account_security_event result" where
  "cloneSecurityEvent e = and_then (cloneJsonObject (se_details e)) (\<lambda>d. Inr (e\<lparr>se_details := d\<rparr>))"

definition listAccountSecurityEvents :: "identity_store \<Rightarrow> string \<Rightarrow> account_security_event list result" where
  "listAccountSecurityEvents s accountId = map_result cloneSecurityEvent (account_events s accountId)"

section \<open>Resolving a principal\<close>

record external_principal =
  ep_issuer :: string
  ep_providerSubject :: string
  ep_providerSessionId :: "string option"
  ep_authenticatedAt :: "string option"
  ep_email :: "string option"
  ep_emailVerified :: "bool option"
  ep_authorizedClientId :: "string option"
  ep_scopes :: "string list"

text \<open>A principal with nothing but what identifies it.\<close>

definition plain_principal :: "string \<Rightarrow> string \<Rightarrow> external_principal" where
  "plain_principal issuer subject = \<lparr>ep_issuer = issuer, ep_providerSubject = subject, ep_providerSessionId = None,
     ep_authenticatedAt = None, ep_email = None, ep_emailVerified = None, ep_authorizedClientId = None, ep_scopes = []\<rparr>"

lemma plain_principal_simps [simp]:
  "ep_issuer (plain_principal i s) = i" "ep_providerSubject (plain_principal i s) = s"
  by (simp_all add: plain_principal_def)

definition requireActive :: "account \<times> external_identity list \<Rightarrow> (account \<times> external_identity list) result" where
  "requireActive r = (if ac_status (fst r) \<noteq> ACTIVE
     then Inl (Err AccountAccessDeniedError ''Canonical account is not active.'') else Inr r)"

text \<open>\<open>resolve\<close>; the two ids are what \<open>randomUUID\<close> gives, if the principal is new.\<close>

definition resolvePrincipal ::
  "runtime_env \<Rightarrow> string \<Rightarrow> string \<Rightarrow> external_principal \<Rightarrow> identity_store \<Rightarrow>
   (identity_store, account \<times> external_identity list) outcome" where
  "resolvePrincipal env accountId identityId p s =
     when_ok (findAccountByExternalIdentity env s (ep_issuer p) (ep_providerSubject p)) s (\<lambda>existing.
       case existing of
         Some r \<Rightarrow> (requireActive r, s)
       | None \<Rightarrow> then_do (provisionExternalIdentity env
             \<lparr>pi_accountId = accountId, pi_identityId = identityId, pi_issuer = ep_issuer p,
              pi_subject = ep_providerSubject p, pi_occurredAt = None\<rparr> s) (\<lambda>provisioned s1.
           (requireActive (fst provisioned,
              listExternalIdentities env s1 (ac_accountId (fst provisioned))), s1)))"

end
