(* ===== verification/IdentityStoreProperties.thy ===== *)
theory IdentityStoreProperties
  imports IdentityStore
begin

text \<open>
  What the identity persistence promises. \<open>account_write\<close> is the one kind of change its operations
  make, with what may come with it; provisioning is two of them. The invariant ties every account
  to its security events, every identity to its owner key and account, every session to its account.
\<close>

section \<open>Kinds of change\<close>

datatype account_change =
    NewAccount
  | NewStatus
  | NewIdentity external_identity
  | NewSession account_session

definition identity_data :: "identity_store \<Rightarrow> identity_store \<Rightarrow> bool" where
  "identity_data s t \<longleftrightarrow> (\<exists>n. t = s\<lparr>is_clockReads := n\<rparr>)"

definition next_security_event :: "identity_store \<Rightarrow> account \<Rightarrow> account_security_event \<Rightarrow> bool" where
  "next_security_event s a e \<longleftrightarrow> se_accountId e = ac_accountId a \<and> se_eventId e = is_nextEventId s \<and>
     se_sequenceNumber e = length (account_events s (ac_accountId a)) + 1 \<and> se_accountVersion e = ac_version a"

text \<open>The account \<open>a\<close> is stored with its change and the event that records it.\<close>

definition account_write ::
  "identity_store \<Rightarrow> account \<Rightarrow> account_change \<Rightarrow> account_security_event \<Rightarrow> identity_store" where
  "account_write s a c e = s\<lparr>is_accounts := js_set (is_accounts s) (ac_accountId a) a,
     is_actorSubjects := (case c of NewAccount \<Rightarrow> js_set (is_actorSubjects s) (ac_actorSubject a) (ac_accountId a)
        | _ \<Rightarrow> is_actorSubjects s),
     is_identities := (case c of NewIdentity x \<Rightarrow> js_set (is_identities s) (xi_identityId x) x | _ \<Rightarrow> is_identities s),
     is_identityOwners := (case c of NewIdentity x \<Rightarrow> js_set (is_identityOwners s)
        (externalIdentityKey (xi_issuer x) (xi_subject x)) (xi_identityId x) | _ \<Rightarrow> is_identityOwners s),
     is_sessions := (case c of NewSession z \<Rightarrow> js_set (is_sessions s) (as_sessionId z) z | _ \<Rightarrow> is_sessions s),
     is_events := js_set (is_events s) (ac_accountId a) (account_events s (ac_accountId a) @ [e]),
     is_nextEventId := is_nextEventId s + 1\<rparr>"

definition bumped :: "account \<Rightarrow> account \<Rightarrow> bool" where
  "bumped a b \<longleftrightarrow> ac_accountId b = ac_accountId a \<and> ac_actorSubject b = ac_actorSubject a \<and>
     ac_createdAt b = ac_createdAt a \<and> ac_version b = ac_version a + 1"

definition session_ok :: "runtime_env \<Rightarrow> account_session \<Rightarrow> bool" where
  "session_ok env z \<longleftrightarrow> valid_time env (as_createdAt z) \<and> valid_time env (as_expiresAt z) \<and>
     time_before env (as_createdAt z) (as_expiresAt z) \<and>
     (\<forall>r. as_revokedAt z = Some r \<longrightarrow> valid_time env r \<and> time_not_after env (as_createdAt z) r)"

fun change_allowed :: "runtime_env \<Rightarrow> identity_store \<Rightarrow> account \<Rightarrow> account_change \<Rightarrow> bool" where
  "change_allowed env s a NewAccount = (js_get (is_accounts s) (ac_accountId a) = None \<and> is_uuid (ac_accountId a) \<and>
     ac_actorSubject a = ''zp:account:'' @ js_lower (ac_accountId a) \<and> ac_status a = ACTIVE \<and> ac_version a = 0)"
| "change_allowed env s a NewStatus =
     (\<exists>c. js_get (is_accounts s) (ac_accountId a) = Some c \<and> bumped c a \<and> ac_status c \<noteq> ac_status a)"
| "change_allowed env s a (NewIdentity x) =
     ((\<exists>c. js_get (is_accounts s) (ac_accountId a) = Some c \<and> bumped c a \<and> ac_status a = ac_status c) \<and>
      xi_accountId x = ac_accountId a \<and> is_uuid (xi_identityId x) \<and> js_get (is_identities s) (xi_identityId x) = None \<and>
      validateExternalIdentity (xi_issuer x) (xi_subject x) = Inr () \<and>
      \<not> truthy (js_get (is_identityOwners s) (externalIdentityKey (xi_issuer x) (xi_subject x))))"
| "change_allowed env s a (NewSession z) =
     ((\<exists>c. js_get (is_accounts s) (ac_accountId a) = Some c \<and> bumped c a \<and> ac_status a = ac_status c) \<and>
      as_accountId z = ac_accountId a \<and> session_ok env z \<and>
      (case js_get (is_sessions s) (as_sessionId z) of
         None \<Rightarrow> is_uuid (as_sessionId z) \<and> as_revokedAt z = None
       | Some y \<Rightarrow> \<not> truthy (as_revokedAt y) \<and> as_revokedAt z \<noteq> None \<and> z = y\<lparr>as_revokedAt := as_revokedAt z\<rparr>))"

inductive identity_step :: "runtime_env \<Rightarrow> identity_store \<Rightarrow> identity_store \<Rightarrow> bool" for env where
  id_idle: "identity_data s t \<Longrightarrow> identity_step env s t"
| id_write: "change_allowed env s a c \<Longrightarrow> next_security_event s a e \<Longrightarrow>
    identity_data (account_write s a c e) t \<Longrightarrow> identity_step env s t"

section \<open>The invariant\<close>

definition accounts_ok :: "identity_store \<Rightarrow> bool" where
  "accounts_ok s \<longleftrightarrow> (\<forall>k a. js_get (is_accounts s) k = Some a \<longrightarrow> ac_accountId a = k \<and> is_uuid k \<and>
     ac_actorSubject a = ''zp:account:'' @ js_lower k)"

text \<open>The log of an account counts its versions: event \<open>n\<close> is the one that made version \<open>n\<close>.\<close>

definition account_log_ok :: "identity_store \<Rightarrow> bool" where
  "account_log_ok s \<longleftrightarrow>
     (\<forall>k. js_get (is_accounts s) k = None \<longrightarrow> account_events s k = []) \<and>
     (\<forall>k a. js_get (is_accounts s) k = Some a \<longrightarrow>
        map se_accountVersion (account_events s k) = map int [0..<length (account_events s k)] \<and>
        ac_version a = int (length (account_events s k)) - 1 \<and>
        map se_sequenceNumber (account_events s k) = [1..<Suc (length (account_events s k))])"

definition owners_ok :: "identity_store \<Rightarrow> bool" where
  "owners_ok s \<longleftrightarrow>
     (\<forall>k iid. js_get (is_identityOwners s) k = Some iid \<longrightarrow> iid \<noteq> '''' \<and>
        (\<exists>x. js_get (is_identities s) iid = Some x \<and> k = externalIdentityKey (xi_issuer x) (xi_subject x))) \<and>
     (\<forall>iid x. js_get (is_identities s) iid = Some x \<longrightarrow> xi_identityId x = iid \<and> iid \<noteq> '''' \<and>
        js_get (is_identityOwners s) (externalIdentityKey (xi_issuer x) (xi_subject x)) = Some iid \<and>
        js_get (is_accounts s) (xi_accountId x) \<noteq> None)"

definition sessions_ok :: "runtime_env \<Rightarrow> identity_store \<Rightarrow> bool" where
  "sessions_ok env s \<longleftrightarrow> (\<forall>k z. js_get (is_sessions s) k = Some z \<longrightarrow> as_sessionId z = k \<and> session_ok env z \<and>
     js_get (is_accounts s) (as_accountId z) \<noteq> None)"

definition identity_ok :: "runtime_env \<Rightarrow> identity_store \<Rightarrow> bool" where
  "identity_ok env s \<longleftrightarrow> accounts_ok s \<and> account_log_ok s \<and> owners_ok s \<and> sessions_ok env s"

lemma identity_okD:
  assumes "identity_ok env s"
  shows "accounts_ok s" "account_log_ok s" "owners_ok s" "sessions_ok env s"
  using assms by (simp_all add: identity_ok_def)

lemma ownersD:
  assumes "identity_ok env s" and "js_get (is_identityOwners s) k = Some iid"
  shows "\<exists>x. iid \<noteq> '''' \<and> js_get (is_identities s) iid = Some x \<and> k = externalIdentityKey (xi_issuer x) (xi_subject x)"
  using assms by (auto simp: identity_ok_def owners_ok_def)

lemma identitiesD:
  assumes "identity_ok env s" and "js_get (is_identities s) iid = Some x"
  shows "xi_identityId x = iid" "iid \<noteq> ''''"
    "js_get (is_identityOwners s) (externalIdentityKey (xi_issuer x) (xi_subject x)) = Some iid"
    "js_get (is_accounts s) (xi_accountId x) \<noteq> None"
  using assms by (auto simp: identity_ok_def owners_ok_def)

lemma identity_ok_empty: "identity_ok env empty_identity_store"
  by (simp add: identity_ok_def accounts_ok_def account_log_ok_def owners_ok_def sessions_ok_def
      empty_identity_store_def account_events_def)

lemma clock_reads_events [simp]: "account_events (s\<lparr>is_clockReads := n\<rparr>) k = account_events s k"
  by (simp add: account_events_def)

lemma clock_reads_parts [simp]:
  "accounts_ok (s\<lparr>is_clockReads := n\<rparr>) = accounts_ok s"
  "account_log_ok (s\<lparr>is_clockReads := n\<rparr>) = account_log_ok s"
  "owners_ok (s\<lparr>is_clockReads := n\<rparr>) = owners_ok s"
  "sessions_ok env (s\<lparr>is_clockReads := n\<rparr>) = sessions_ok env s"
  by (simp_all add: accounts_ok_def account_log_ok_def owners_ok_def sessions_ok_def)

lemma identity_data_ok: "identity_data s t \<Longrightarrow> identity_ok env s \<Longrightarrow> identity_ok env t"
  unfolding identity_data_def identity_ok_def by (elim exE) (simp only: clock_reads_parts)

lemma write_events:
  "account_events (account_write s a c e) k =
     (if k = ac_accountId a then account_events s k @ [e] else account_events s k)"
  by (simp add: account_write_def account_events_def)

lemma write_accounts: "js_get (is_accounts (account_write s a c e)) k =
    (if k = ac_accountId a then Some a else js_get (is_accounts s) k)"
  by (simp add: account_write_def)

lemma change_account:
  assumes "change_allowed env s a c"
  shows "(js_get (is_accounts s) (ac_accountId a) = None \<and> c = NewAccount \<and> ac_version a = 0) \<or>
    (\<exists>b. js_get (is_accounts s) (ac_accountId a) = Some b \<and> bumped b a)"
  using assms by (cases c) auto

lemma write_accounts_ok:
  assumes "change_allowed env s a c" and "accounts_ok s"
  shows "accounts_ok (account_write s a c e)"
proof -
  have new: "is_uuid (ac_accountId a) \<and> ac_actorSubject a = ''zp:account:'' @ js_lower (ac_accountId a)"
  proof (cases "c = NewAccount")
    case True
    with assms(1) show ?thesis by simp
  next
    case False
    with change_account [OF assms(1)] obtain b where b: "js_get (is_accounts s) (ac_accountId a) = Some b" "bumped b a"
      by blast
    with assms(2) have "is_uuid (ac_accountId a)" "ac_actorSubject b = ''zp:account:'' @ js_lower (ac_accountId a)"
      unfolding accounts_ok_def by blast+
    with b(2) show ?thesis by (simp add: bumped_def)
  qed
  show ?thesis
    unfolding accounts_ok_def
  proof (intro allI impI)
    fix k b assume "js_get (is_accounts (account_write s a c e)) k = Some b"
    with new assms(2) show "ac_accountId b = k \<and> is_uuid k \<and> ac_actorSubject b = ''zp:account:'' @ js_lower k"
      unfolding accounts_ok_def by (cases "k = ac_accountId a") (simp_all add: write_accounts)
  qed
qed

lemma write_log_ok:
  assumes "change_allowed env s a c" and e: "next_security_event s a e" and ok: "account_log_ok s"
  shows "account_log_ok (account_write s a c e)"
proof -
  let ?n = "length (account_events s (ac_accountId a))"
  have "map se_accountVersion (account_events s (ac_accountId a)) = map int [0..<?n] \<and>
      map se_sequenceNumber (account_events s (ac_accountId a)) = [1..<Suc ?n] \<and> ac_version a = int ?n"
    using change_account [OF assms(1)]
  proof
    assume "js_get (is_accounts s) (ac_accountId a) = None \<and> c = NewAccount \<and> ac_version a = 0"
    with ok show ?thesis by (simp add: account_log_ok_def)
  next
    assume "\<exists>b. js_get (is_accounts s) (ac_accountId a) = Some b \<and> bumped b a"
    then obtain b where "js_get (is_accounts s) (ac_accountId a) = Some b" "bumped b a" by blast
    with ok show ?thesis unfolding account_log_ok_def bumped_def by simp
  qed
  with e ok show ?thesis
    by (simp add: account_log_ok_def write_accounts write_events next_security_event_def)
qed

lemma write_owners_ok:
  assumes ch: "change_allowed env s a c" and ok: "identity_ok env s"
  shows "owners_ok (account_write s a c e)"
proof (cases "\<exists>x. c = NewIdentity x")
  case False
  then have same: "is_identities (account_write s a c e) = is_identities s"
    "is_identityOwners (account_write s a c e) = is_identityOwners s"
    by (cases c; simp add: account_write_def)+
  show ?thesis
    using identity_okD(3) [OF ok] unfolding owners_ok_def same write_accounts by auto
next
  case True
  then obtain x where c: "c = NewIdentity x" by blast
  with ch have x: "xi_accountId x = ac_accountId a" "xi_identityId x \<noteq> ''''" "js_get (is_identities s) (xi_identityId x) = None"
    "\<not> truthy (js_get (is_identityOwners s) (externalIdentityKey (xi_issuer x) (xi_subject x)))"
    using is_uuid_nonempty by auto
  let ?t = "account_write s a c e" and ?key = "\<lambda>x. externalIdentityKey (xi_issuer x) (xi_subject x)"
  have ids: "is_identities ?t = js_set (is_identities s) (xi_identityId x) x"
    and own: "is_identityOwners ?t = js_set (is_identityOwners s) (?key x) (xi_identityId x)"
    by (simp_all add: account_write_def c)
  show ?thesis
    unfolding owners_ok_def
  proof (intro conjI allI impI)
    fix k iid assume g: "js_get (is_identityOwners ?t) k = Some iid"
    have "iid \<noteq> '''' \<and> (\<exists>x. js_get (is_identities ?t) iid = Some x \<and> k = ?key x)"
    proof (cases "k = ?key x")
      case True
      with g x show ?thesis by (simp add: own ids)
    next
      case False
      with g have "js_get (is_identityOwners s) k = Some iid" by (simp add: own)
      then obtain y where y: "iid \<noteq> ''''" "js_get (is_identities s) iid = Some y" "k = ?key y"
        using ownersD [OF ok] by blast
      with x(3) have "iid \<noteq> xi_identityId x" by auto
      with y show ?thesis by (simp add: ids)
    qed
    then show "iid \<noteq> ''''" "\<exists>x. js_get (is_identities ?t) iid = Some x \<and> k = ?key x" by blast+
  next
    fix iid y assume g: "js_get (is_identities ?t) iid = Some y"
    have "xi_identityId y = iid \<and> iid \<noteq> '''' \<and> js_get (is_identityOwners ?t) (?key y) = Some iid \<and>
        js_get (is_accounts ?t) (xi_accountId y) \<noteq> None"
    proof (cases "iid = xi_identityId x")
      case True
      with g x show ?thesis by (simp add: ids own write_accounts)
    next
      case False
      with g have "js_get (is_identities s) iid = Some y" by (simp add: ids)
      note y = identitiesD [OF ok this]
      with x(4) have "?key y \<noteq> ?key x" by auto
      with y show ?thesis by (simp add: own write_accounts)
    qed
    then show "xi_identityId y = iid" "iid \<noteq> ''''" "js_get (is_identityOwners ?t) (?key y) = Some iid"
      "js_get (is_accounts ?t) (xi_accountId y) \<noteq> None" by blast+
  qed
qed

lemma write_sessions_ok:
  assumes "change_allowed env s a c" and "sessions_ok env s"
  shows "sessions_ok env (account_write s a c e)"
  using assms by (cases c) (auto simp: sessions_ok_def write_accounts account_write_def split: if_splits)

lemma identity_step_ok: "identity_step env s t \<Longrightarrow> identity_ok env s \<Longrightarrow> identity_ok env t"
proof (induction rule: identity_step.induct)
  case (id_write s a c e t)
  then have "identity_ok env (account_write s a c e)"
    using write_accounts_ok write_log_ok write_owners_ok write_sessions_ok by (simp add: identity_ok_def)
  with id_write.hyps(3) show ?case by (rule identity_data_ok)
qed (rule identity_data_ok)

section \<open>Every operation makes these changes\<close>

lemma identity_data_refl [simp, intro]: "identity_data s s"
  unfolding identity_data_def by (rule exI [of _ "is_clockReads s"]) simp

lemma identity_now_reads:
  obtains now n where "identity_now env v s = (now, s\<lparr>is_clockReads := n\<rparr>)"
proof (cases v)
  case None
  then show thesis using that by (simp add: identity_now_def)
next
  case (Some t)
  then show thesis using that [of t "is_clockReads s"] by (simp add: identity_now_def)
qed

lemma clock_reads_data [simp, intro]: "identity_data s (s\<lparr>is_clockReads := n\<rparr>)"
  by (auto simp: identity_data_def)

text \<open>Recording the event completes a write: what the code stored before it is the rest of the write.\<close>

lemma append_security:
  assumes "json_object_ok d"
    and "is_accounts t = js_set (is_accounts s) (ac_accountId a) a"
    and "is_actorSubjects t = (case c of NewAccount \<Rightarrow> js_set (is_actorSubjects s) (ac_actorSubject a) (ac_accountId a)
        | _ \<Rightarrow> is_actorSubjects s)"
    and "is_identities t = (case c of NewIdentity x \<Rightarrow> js_set (is_identities s) (xi_identityId x) x | _ \<Rightarrow> is_identities s)"
    and "is_identityOwners t = (case c of NewIdentity x \<Rightarrow> js_set (is_identityOwners s)
        (externalIdentityKey (xi_issuer x) (xi_subject x)) (xi_identityId x) | _ \<Rightarrow> is_identityOwners s)"
    and "is_sessions t = (case c of NewSession z \<Rightarrow> js_set (is_sessions s) (as_sessionId z) z | _ \<Rightarrow> is_sessions s)"
    and "is_events t = is_events s" and "is_nextEventId t = is_nextEventId s"
  obtains e n where "appendSecurityEvent a ty d at' x y t = (Inr (), (account_write s a c e)\<lparr>is_clockReads := n\<rparr>)"
    "next_security_event s a e"
proof -
  let ?e = "\<lparr>se_eventId = is_nextEventId s, se_accountId = ac_accountId a,
              se_sequenceNumber = length (account_events s (ac_accountId a)) + 1, se_eventType = ty,
              se_accountVersion = ac_version a, se_sessionId = x, se_identityId = y,
              se_details = d, se_occurredAt = at'\<rparr>"
  have "account_events t (ac_accountId a) = account_events s (ac_accountId a)"
    using assms(7) by (simp add: account_events_def)
  then have "appendSecurityEvent a ty d at' x y t =
      (Inr (), t\<lparr>is_nextEventId := is_nextEventId s + 1,
        is_events := js_set (is_events s) (ac_accountId a) (account_events s (ac_accountId a) @ [?e])\<rparr>)"
    using assms(1,7,8) by (simp add: appendSecurityEvent_def clone_object_id Let_def)
  also have "t\<lparr>is_nextEventId := is_nextEventId s + 1,
        is_events := js_set (is_events s) (ac_accountId a) (account_events s (ac_accountId a) @ [?e])\<rparr> =
      (account_write s a c ?e)\<lparr>is_clockReads := is_clockReads t\<rparr>"
    using assms(2-6) by (intro identity_store.equality) (simp_all add: account_write_def)
  finally show thesis
    by (rule that) (simp add: next_security_event_def)
qed

lemma requireAccountVersion_Inr:
  "requireAccountVersion s k v = Inr a \<longleftrightarrow> js_get (is_accounts s) k = Some a \<and> ac_version a = v"
  by (auto simp: requireAccountVersion_def requireAccount_def account_version_conflict_def split: option.splits)

definition identity_outcome :: "runtime_env \<Rightarrow> identity_store \<Rightarrow> 'a result \<Rightarrow> identity_store \<Rightarrow> bool" where
  "identity_outcome env s r t \<longleftrightarrow> (case r of Inl e \<Rightarrow> identity_data s t | Inr x \<Rightarrow> identity_step env s t)"

lemma identity_outcome_simps [simp]:
  "identity_outcome env s (Inl e) t = identity_data s t" "identity_outcome env s (Inr x) t = identity_step env s t"
  by (simp_all add: identity_outcome_def)

lemma write_step:
  "change_allowed env s a c \<Longrightarrow> next_security_event s a e \<Longrightarrow>
   identity_step env s ((account_write s a c e)\<lparr>is_clockReads := n\<rparr>)"
  by (rule id_write) (auto simp: identity_data_def)

lemma create_account_outcome:
  assumes "createAccount env i s = (r, t)"
  shows "identity_outcome env s r t"
proof -
  obtain now n where now: "identity_now env (na_createdAt i) s = (now, s\<lparr>is_clockReads := n\<rparr>)"
    using identity_now_reads by blast
  show ?thesis
  proof (cases "is_uuid (na_accountId i) \<and> \<not> js_has (is_accounts s) (na_accountId i) \<and> valid_time env now")
    case False
    with assms now show ?thesis
      by (cases "is_uuid (na_accountId i)"; cases "valid_time env now")
        (auto simp: createAccount_def validateUuid_def validateTimestamp_def split: if_splits)
  next
    case True
    let ?a = "new_account (na_accountId i) (''zp:account:'' @ js_lower (na_accountId i)) now"
    obtain e m where ap: "appendSecurityEvent ?a ACCOUNT_CREATED [] now None None
        (store_new_account ?a (s\<lparr>is_clockReads := n\<rparr>)) = (Inr (), (account_write s ?a NewAccount e)\<lparr>is_clockReads := m\<rparr>)"
      "next_security_event s ?a e"
      by (rule append_security [where s = s and a = ?a and c = NewAccount and d = "[]" and ty = ACCOUNT_CREATED and at' = now
          and x = None and y = None and t = "store_new_account ?a (s\<lparr>is_clockReads := n\<rparr>)"])
        (simp_all add: store_new_account_def)
    have "change_allowed env s ?a NewAccount" using True by (simp add: new_account_def js_has_def)
    then have "identity_step env s ((account_write s ?a NewAccount e)\<lparr>is_clockReads := m\<rparr>)"
      using ap(2) by (rule write_step)
    with assms now True ap(1) show ?thesis
      by (auto simp: createAccount_def validateUuid_def validateTimestamp_def actorSubject_uuid Let_def)
  qed
qed

lemma update_status_outcome:
  assumes run: "updateAccountStatus env i s = (r, t)" and ok: "accounts_ok s"
  shows "identity_outcome env s r t"
proof -
  obtain now n where now: "identity_now env (us_occurredAt i) s = (now, s\<lparr>is_clockReads := n\<rparr>)"
    using identity_now_reads by blast
  show ?thesis
  proof (cases "requireAccountVersion s (us_accountId i) (us_expectedVersion i)")
    case (Inl e)
    with run have "r = Inl e" "t = s" by (simp_all add: updateAccountStatus_def)
    then show ?thesis by simp
  next
    case (Inr a)
    then have a: "js_get (is_accounts s) (us_accountId i) = Some a" "ac_accountId a = us_accountId i"
      using ok by (auto simp: requireAccountVersion_Inr accounts_ok_def)
    show ?thesis
    proof (cases "account_status_of (us_status i) \<in> {None, Some (ac_status a)} \<or> \<not> valid_time env now")
      case True
      with run Inr now show ?thesis
        by (auto simp: updateAccountStatus_def validateTimestamp_def Let_def split: option.splits if_splits)
    next
      case False
      then obtain st where st: "account_status_of (us_status i) = Some st" "st \<noteq> ac_status a" "valid_time env now"
        by auto
      let ?a = "a\<lparr>ac_status := st, ac_version := ac_version a + 1, ac_updatedAt := now\<rparr>"
      let ?d = "[(''previousStatus'', JString (account_status_text (ac_status a))), (''status'', JString (account_status_text st))]"
      obtain e m where ap: "appendSecurityEvent ?a ACCOUNT_STATUS_CHANGED ?d now None None
          (s\<lparr>is_clockReads := n, is_accounts := js_set (is_accounts s) (ac_accountId a) ?a\<rparr>) =
          (Inr (), (account_write s ?a NewStatus e)\<lparr>is_clockReads := m\<rparr>)"
        "next_security_event s ?a e"
        by (rule append_security [where s = s and a = ?a and c = NewStatus and d = ?d and ty = ACCOUNT_STATUS_CHANGED
            and at' = now and x = None and y = None
            and t = "s\<lparr>is_clockReads := n, is_accounts := js_set (is_accounts s) (ac_accountId a) ?a\<rparr>"])
          simp_all
      have "change_allowed env s ?a NewStatus" using a st by (auto simp: bumped_def)
      then have "identity_step env s ((account_write s ?a NewStatus e)\<lparr>is_clockReads := m\<rparr>)"
        using ap(2) by (rule write_step)
      with run Inr now st ap(1) show ?thesis
        by (auto simp: updateAccountStatus_def validateTimestamp_def Let_def)
    qed
  qed
qed

text \<open>A bumped account with something attached to it, as links and sessions are.\<close>

definition bump :: "account \<Rightarrow> string \<Rightarrow> account" where
  "bump a now = a\<lparr>ac_version := ac_version a + 1, ac_updatedAt := now\<rparr>"

lemma bump_bumped [simp]: "bumped a (bump a now)" "ac_status (bump a now) = ac_status a"
  "ac_accountId (bump a now) = ac_accountId a"
  by (simp_all add: bump_def bumped_def)

lemma incrementAccount_bump: "incrementAccount a now s =
    (bump a now, s\<lparr>is_accounts := js_set (is_accounts s) (ac_accountId a) (bump a now)\<rparr>)"
  by (simp add: incrementAccount_def bump_def Let_def)

lemma attach_identity:
  assumes "js_get (is_accounts s) (xi_accountId x) = Some a" and "ac_accountId a = xi_accountId x"
    and "is_uuid (xi_identityId x)" and "js_get (is_identities s) (xi_identityId x) = None"
    and "validateExternalIdentity (xi_issuer x) (xi_subject x) = Inr ()"
    and "\<not> truthy (js_get (is_identityOwners s) (externalIdentityKey (xi_issuer x) (xi_subject x)))"
  obtains u where "appendSecurityEvent (bump a now) EXTERNAL_IDENTITY_LINKED [] now None (Some (xi_identityId x))
      (store_identity x (externalIdentityKey (xi_issuer x) (xi_subject x))
        (s\<lparr>is_clockReads := n, is_accounts := js_set (is_accounts s) (ac_accountId a) (bump a now)\<rparr>)) = (Inr (), u)"
    "identity_step env s u" "js_get (is_accounts u) (xi_accountId x) = Some (bump a now)"
    "js_get (is_identities u) (xi_identityId x) = Some x"
    "js_get (is_identityOwners u) (externalIdentityKey (xi_issuer x) (xi_subject x)) = Some (xi_identityId x)"
proof -
  obtain e m where ap: "appendSecurityEvent (bump a now) EXTERNAL_IDENTITY_LINKED [] now None (Some (xi_identityId x))
      (store_identity x (externalIdentityKey (xi_issuer x) (xi_subject x))
        (s\<lparr>is_clockReads := n, is_accounts := js_set (is_accounts s) (ac_accountId a) (bump a now)\<rparr>)) =
      (Inr (), (account_write s (bump a now) (NewIdentity x) e)\<lparr>is_clockReads := m\<rparr>)"
    "next_security_event s (bump a now) e"
    by (rule append_security [where s = s and a = "bump a now" and c = "NewIdentity x" and d = "[]"
        and ty = EXTERNAL_IDENTITY_LINKED and at' = now and x = None and y = "Some (xi_identityId x)"
        and t = "store_identity x (externalIdentityKey (xi_issuer x) (xi_subject x))
        (s\<lparr>is_clockReads := n, is_accounts := js_set (is_accounts s) (ac_accountId a) (bump a now)\<rparr>)"])
      (simp_all add: store_identity_def)
  have "change_allowed env s (bump a now) (NewIdentity x)" using assms by simp
  then show thesis
    using assms(2) by (intro that [OF ap(1) write_step [OF _ ap(2)]]) (simp_all add: account_write_def)
qed

lemma attach_session:
  assumes "js_get (is_accounts s) (as_accountId z) = Some a" and "ac_accountId a = as_accountId z"
    and "change_allowed env s (bump a now) (NewSession z)"
  obtains u where "appendSecurityEvent (bump a now) ty [] now (Some (as_sessionId z)) None
      (s\<lparr>is_clockReads := n, is_accounts := js_set (is_accounts s) (ac_accountId a) (bump a now),
        is_sessions := js_set (is_sessions s) (as_sessionId z) z\<rparr>) = (Inr (), u)"
    "identity_step env s u"
proof -
  obtain e m where ap: "appendSecurityEvent (bump a now) ty [] now (Some (as_sessionId z)) None
      (s\<lparr>is_clockReads := n, is_accounts := js_set (is_accounts s) (ac_accountId a) (bump a now),
        is_sessions := js_set (is_sessions s) (as_sessionId z) z\<rparr>) =
      (Inr (), (account_write s (bump a now) (NewSession z) e)\<lparr>is_clockReads := m\<rparr>)"
    "next_security_event s (bump a now) e"
    by (rule append_security [where s = s and a = "bump a now" and c = "NewSession z" and d = "[]"
        and ty = ty and at' = now and x = "Some (as_sessionId z)" and y = None
        and t = "s\<lparr>is_clockReads := n, is_accounts := js_set (is_accounts s) (ac_accountId a) (bump a now),
        is_sessions := js_set (is_sessions s) (as_sessionId z) z\<rparr>"])
      simp_all
  with assms show thesis by (blast intro: that write_step)
qed

lemma link_outcome:
  assumes run: "linkExternalIdentity env i s = (r, t)" and ok: "accounts_ok s"
  shows "identity_outcome env s r t"
proof -
  obtain now n where now: "identity_now env (li_linkedAt i) s = (now, s\<lparr>is_clockReads := n\<rparr>)"
    using identity_now_reads by blast
  let ?key = "externalIdentityKey (li_issuer i) (li_subject i)"
  show ?thesis
  proof (cases "is_uuid (li_identityId i) \<and> validateExternalIdentity (li_issuer i) (li_subject i) = Inr () \<and>
      succeeds (requireAccountVersion s (li_accountId i) (li_expectedAccountVersion i)) \<and>
      \<not> js_has (is_identities s) (li_identityId i) \<and> \<not> js_has (is_identityOwners s) ?key \<and> valid_time env now")
    case False
    with run now show ?thesis
      by (cases "requireAccountVersion s (li_accountId i) (li_expectedAccountVersion i)";
          cases "validateExternalIdentity (li_issuer i) (li_subject i)")
        (auto simp: linkExternalIdentity_def validateUuid_def validateTimestamp_def external_identity_conflict_def
          Let_def split: if_splits)
  next
    case True
    then obtain a where req: "requireAccountVersion s (li_accountId i) (li_expectedAccountVersion i) = Inr a"
      by (auto simp: succeeds_iff)
    then have a: "js_get (is_accounts s) (li_accountId i) = Some a" "ac_accountId a = li_accountId i"
      using ok by (auto simp: requireAccountVersion_Inr accounts_ok_def)
    let ?x = "\<lparr>xi_identityId = li_identityId i, xi_issuer = li_issuer i, xi_subject = li_subject i,
                 xi_accountId = li_accountId i, xi_linkedAt = now\<rparr>"
    obtain u where u: "appendSecurityEvent (bump a now) EXTERNAL_IDENTITY_LINKED [] now None (Some (xi_identityId ?x))
      (store_identity ?x (externalIdentityKey (xi_issuer ?x) (xi_subject ?x))
        (s\<lparr>is_clockReads := n, is_accounts := js_set (is_accounts s) (ac_accountId a) (bump a now)\<rparr>)) = (Inr (), u)"
      "identity_step env s u"
      by (rule attach_identity [where s = s and x = ?x and a = a and now = now and n = n])
        (use True a in \<open>simp_all add: js_has_def\<close>)
    with run now True req show ?thesis
      by (auto simp: linkExternalIdentity_def validateUuid_def validateTimestamp_def incrementAccount_bump Let_def)
  qed
qed

lemma session_write_step:
  assumes "js_get (is_accounts s) (as_accountId z) = Some a" and "ac_accountId a = as_accountId z"
    and "session_ok env z"
    and "case js_get (is_sessions s) (as_sessionId z) of
         None \<Rightarrow> is_uuid (as_sessionId z) \<and> as_revokedAt z = None
       | Some y \<Rightarrow> \<not> truthy (as_revokedAt y) \<and> as_revokedAt z \<noteq> None \<and> z = y\<lparr>as_revokedAt := as_revokedAt z\<rparr>"
  obtains u where "appendSecurityEvent (bump a now) ty [] now (Some (as_sessionId z)) None
      (s\<lparr>is_clockReads := n, is_accounts := js_set (is_accounts s) (ac_accountId a) (bump a now),
        is_sessions := js_set (is_sessions s) (as_sessionId z) z\<rparr>) = (Inr (), u)"
    "identity_step env s u"
  by (rule attach_session [OF assms(1,2)]) (use assms in simp_all)

lemma create_session_outcome:
  assumes run: "createAccountSession env i s = (r, t)" and ok: "accounts_ok s"
  shows "identity_outcome env s r t"
proof -
  obtain now n where now: "identity_now env (ns_createdAt i) s = (now, s\<lparr>is_clockReads := n\<rparr>)"
    using identity_now_reads by blast
  show ?thesis
  proof (cases "is_uuid (ns_sessionId i) \<and> succeeds (requireAccountVersion s (ns_accountId i) (ns_expectedAccountVersion i)) \<and>
      \<not> js_has (is_sessions s) (ns_sessionId i) \<and> valid_time env now \<and> valid_time env (ns_expiresAt i) \<and>
      \<not> time_not_after env (ns_expiresAt i) now")
    case False
    with run now show ?thesis
      by (cases "requireAccountVersion s (ns_accountId i) (ns_expectedAccountVersion i)")
        (auto simp: createAccountSession_def validateUuid_def validateTimestamp_def Let_def split: if_splits)
  next
    case True
    then obtain a where req: "requireAccountVersion s (ns_accountId i) (ns_expectedAccountVersion i) = Inr a"
      by (auto simp: succeeds_iff)
    then have a: "js_get (is_accounts s) (ns_accountId i) = Some a" "ac_accountId a = ns_accountId i"
      using ok by (auto simp: requireAccountVersion_Inr accounts_ok_def)
    let ?z = "\<lparr>as_sessionId = ns_sessionId i, as_accountId = ns_accountId i, as_createdAt = now,
                      as_expiresAt = ns_expiresAt i, as_revokedAt = None\<rparr>"
    have "session_ok env ?z"
      using True by (auto simp: session_ok_def valid_time_def time_before_def time_not_after_def)
    then obtain u where u: "appendSecurityEvent (bump a now) SESSION_CREATED [] now (Some (as_sessionId ?z)) None
      (s\<lparr>is_clockReads := n, is_accounts := js_set (is_accounts s) (ac_accountId a) (bump a now),
        is_sessions := js_set (is_sessions s) (as_sessionId ?z) ?z\<rparr>) = (Inr (), u)"
      "identity_step env s u"
      using session_write_step [of s ?z a env now SESSION_CREATED n] a True by (auto simp: js_has_def)
    with run now True req show ?thesis
      by (auto simp: createAccountSession_def validateUuid_def validateTimestamp_def incrementAccount_bump Let_def)
  qed
qed

lemma revoke_session_outcome:
  assumes run: "revokeAccountSession env i s = (r, t)" and ok: "identity_ok env s"
  shows "identity_outcome env s r t"
proof (cases "requireAccountVersion s (rv_accountId i) (rv_expectedAccountVersion i)")
  case (Inl e)
  with run have "r = Inl e" "t = s" by (simp_all add: revokeAccountSession_def)
  then show ?thesis by simp
next
  case req: (Inr a)
  then have a: "js_get (is_accounts s) (rv_accountId i) = Some a" "ac_accountId a = rv_accountId i"
    using identity_okD(1) [OF ok] by (auto simp: requireAccountVersion_Inr accounts_ok_def)
  obtain now n where now: "identity_now env (rv_revokedAt i) s = (now, s\<lparr>is_clockReads := n\<rparr>)"
    using identity_now_reads by blast
  show ?thesis
  proof (cases "js_get (is_sessions s) (rv_sessionId i)")
    case None
    with run req show ?thesis by (auto simp: revokeAccountSession_def)
  next
    case (Some y)
    then have y: "as_sessionId y = rv_sessionId i" "session_ok env y"
      using identity_okD(4) [OF ok] by (auto simp: sessions_ok_def)
    show ?thesis
    proof (cases "as_accountId y = rv_accountId i \<and> \<not> truthy (as_revokedAt y) \<and> valid_time env now \<and>
        \<not> time_before env now (as_createdAt y)")
      case False
      with run req now Some show ?thesis
        by (auto simp: revokeAccountSession_def validateTimestamp_def Let_def split: if_splits)
    next
      case True
      let ?z = "y\<lparr>as_revokedAt := Some now\<rparr>"
      have "session_ok env ?z"
        using True y(2) by (auto simp: session_ok_def valid_time_def time_before_def time_not_after_def)
      then obtain u where u: "appendSecurityEvent (bump a now) SESSION_REVOKED [] now (Some (as_sessionId ?z)) None
        (s\<lparr>is_clockReads := n, is_accounts := js_set (is_accounts s) (ac_accountId a) (bump a now),
          is_sessions := js_set (is_sessions s) (as_sessionId ?z) ?z\<rparr>) = (Inr (), u)"
        "identity_step env s u"
        using session_write_step [of s ?z a env now SESSION_REVOKED n] a True y Some by auto
      with run now True req Some show ?thesis
        by (auto simp: revokeAccountSession_def validateTimestamp_def incrementAccount_bump Let_def)
    qed
  qed
qed

text \<open>Provisioning finds the owner of the identity, or makes an account and links it.\<close>

lemma provision_outcome:
  assumes run: "provisionExternalIdentity env i s = (r, t)" and ok: "identity_ok env s"
  shows "case r of
      Inl e \<Rightarrow> identity_data s t
    | Inr (a, x, created) \<Rightarrow> (if created then \<exists>u. identity_step env s u \<and> identity_step env u t else t = s) \<and>
        js_get (is_accounts t) (xi_accountId x) = Some a \<and> js_get (is_identities t) (xi_identityId x) = Some x \<and>
        js_get (is_identityOwners t) (externalIdentityKey (pi_issuer i) (pi_subject i)) = Some (xi_identityId x) \<and>
        ac_accountId a = xi_accountId x"
proof -
  let ?key = "externalIdentityKey (pi_issuer i) (pi_subject i)"
  obtain now n where now: "identity_now env (pi_occurredAt i) s = (now, s\<lparr>is_clockReads := n\<rparr>)"
    using identity_now_reads by blast
  show ?thesis
  proof (cases "is_uuid (pi_accountId i) \<and> is_uuid (pi_identityId i) \<and>
      validateExternalIdentity (pi_issuer i) (pi_subject i) = Inr ()")
    case False
    with run show ?thesis
      by (cases "validateExternalIdentity (pi_issuer i) (pi_subject i)")
        (auto simp: provisionExternalIdentity_def validateUuid_def split: if_splits)
  next
    case v: True
    show ?thesis
    proof (cases "truthy (js_get (is_identityOwners s) ?key)")
      case True
      then obtain iid where iid: "js_get (is_identityOwners s) ?key = Some iid" "iid \<noteq> ''''"
        by (auto simp: truthy_iff)
      then obtain x where x: "js_get (is_identities s) iid = Some x" "?key = externalIdentityKey (xi_issuer x) (xi_subject x)"
        using ownersD [OF ok] by blast
      obtain a where a: "js_get (is_accounts s) (xi_accountId x) = Some a" using identitiesD(4) [OF ok x(1)] by blast
      then have "ac_accountId a = xi_accountId x" using identity_okD(1) [OF ok] by (simp add: accounts_ok_def)
      moreover have "r = Inr (a, x, False) \<and> t = s"
        using run v True iid x(1) a by (auto simp: provisionExternalIdentity_def validateUuid_def requireAccount_def)
      ultimately show ?thesis using iid x a identitiesD(1) [OF ok x(1)] by simp
    next
      case owner: False
      show ?thesis
      proof (cases "\<not> js_has (is_accounts s) (pi_accountId i) \<and> \<not> js_has (is_identities s) (pi_identityId i) \<and> valid_time env now")
        case False
        with run v owner now show ?thesis
          by (auto simp: provisionExternalIdentity_def validateUuid_def validateTimestamp_def Let_def split: if_splits)
      next
        case True
        let ?a = "new_account (pi_accountId i) (''zp:account:'' @ js_lower (pi_accountId i)) now"
        obtain e m where ap: "appendSecurityEvent ?a ACCOUNT_CREATED [] now None None
            (store_new_account ?a (s\<lparr>is_clockReads := n\<rparr>)) = (Inr (), (account_write s ?a NewAccount e)\<lparr>is_clockReads := m\<rparr>)"
          "next_security_event s ?a e"
          by (rule append_security [where s = s and a = ?a and c = NewAccount and d = "[]" and ty = ACCOUNT_CREATED and at' = now
              and x = None and y = None and t = "store_new_account ?a (s\<lparr>is_clockReads := n\<rparr>)"])
            (simp_all add: store_new_account_def)
        have "change_allowed env s ?a NewAccount" using True v by (simp add: new_account_def js_has_def)
        then have one: "identity_step env s ((account_write s ?a NewAccount e)\<lparr>is_clockReads := m\<rparr>)"
          using ap(2) by (rule write_step)
        let ?u = "(account_write s ?a NewAccount e)\<lparr>is_clockReads := m\<rparr>"
        let ?x = "\<lparr>xi_identityId = pi_identityId i, xi_issuer = pi_issuer i, xi_subject = pi_subject i,
                   xi_accountId = pi_accountId i, xi_linkedAt = now\<rparr>"
        obtain w where w: "appendSecurityEvent (bump ?a now) EXTERNAL_IDENTITY_LINKED [] now None (Some (xi_identityId ?x))
          (store_identity ?x (externalIdentityKey (xi_issuer ?x) (xi_subject ?x))
            (?u\<lparr>is_clockReads := m, is_accounts := js_set (is_accounts ?u) (ac_accountId ?a) (bump ?a now)\<rparr>)) = (Inr (), w)"
          "identity_step env ?u w" "js_get (is_accounts w) (xi_accountId ?x) = Some (bump ?a now)"
          "js_get (is_identities w) (xi_identityId ?x) = Some ?x"
          "js_get (is_identityOwners w) (externalIdentityKey (xi_issuer ?x) (xi_subject ?x)) = Some (xi_identityId ?x)"
          by (rule attach_identity [where s = ?u and x = ?x and a = ?a and now = now and n = m])
            (use True v owner in \<open>simp_all add: account_write_def new_account_def js_has_def\<close>)
        have "r = Inr (bump ?a now, ?x, True) \<and> t = w"
          using run v owner True now ap(1) w(1)
          by (auto simp: provisionExternalIdentity_def validateUuid_def validateTimestamp_def actorSubject_uuid
              incrementAccount_bump Let_def)
        with one w(2-5) show ?thesis by (auto simp: new_account_def bump_def)
      qed
    qed
  qed
qed

section \<open>Histories\<close>

datatype identity_operation =
    IdCreate create_account_input
  | IdStatus update_account_status_input
  | IdLink link_external_identity_input
  | IdProvision provision_external_identity_input
  | IdCreateSession create_account_session_input
  | IdRevokeSession revoke_account_session_input

fun run_identity :: "runtime_env \<Rightarrow> identity_operation \<Rightarrow> identity_store \<Rightarrow> js_error option \<times> identity_store" where
  "run_identity env (IdCreate i) s = thrown (createAccount env i s)"
| "run_identity env (IdStatus i) s = thrown (updateAccountStatus env i s)"
| "run_identity env (IdLink i) s = thrown (linkExternalIdentity env i s)"
| "run_identity env (IdProvision i) s = thrown (provisionExternalIdentity env i s)"
| "run_identity env (IdCreateSession i) s = thrown (createAccountSession env i s)"
| "run_identity env (IdRevokeSession i) s = thrown (revokeAccountSession env i s)"

inductive identity_history :: "runtime_env \<Rightarrow> identity_store \<Rightarrow> identity_store \<Rightarrow> bool" for env where
  id_start: "identity_history env s s"
| id_next: "identity_history env s t \<Longrightarrow> run_identity env opn t = (err, u) \<Longrightarrow> identity_history env s u"

definition reachable_identity :: "runtime_env \<Rightarrow> identity_store \<Rightarrow> bool" where
  "reachable_identity env s \<longleftrightarrow> identity_history env empty_identity_store s"

fun run_identities :: "runtime_env \<Rightarrow> identity_operation list \<Rightarrow> identity_store \<Rightarrow> identity_store" where
  "run_identities env [] s = s"
| "run_identities env (o' # os) s = run_identities env os (snd (run_identity env o' s))"

lemma identity_history_trans: "identity_history env t u \<Longrightarrow> identity_history env s t \<Longrightarrow> identity_history env s u"
  by (induction rule: identity_history.induct) (auto intro: id_next)

lemma identity_history_one: "identity_history env s (snd (run_identity env o' s))"
  by (rule id_next [OF id_start]) (auto simp: prod_eq_iff)

lemma run_identities_history: "identity_history env s (run_identities env os s)"
  by (induction os arbitrary: s) (auto intro: id_start identity_history_trans identity_history_one)

lemma outcome_effect:
  assumes "\<And>r t. o' = (r, t) \<Longrightarrow> identity_outcome env s r t" and "thrown o' = (err, t)"
  shows "(identity_step env)\<^sup>*\<^sup>* s t \<and> (err \<noteq> None \<longrightarrow> identity_data s t)"
proof -
  obtain r where r: "o' = (r, t)" "err = (case r of Inl e \<Rightarrow> Some e | Inr x \<Rightarrow> None)"
    using thrown_cases [OF assms(2)] by blast
  from assms(1) [OF r(1)] r(2) show ?thesis
    by (cases r) (auto intro: id_idle r_into_rtranclp)
qed

lemma identity_effect:
  assumes ok: "identity_ok env s" and run: "run_identity env opn s = (err, t)"
  shows "(identity_step env)\<^sup>*\<^sup>* s t \<and> (err \<noteq> None \<longrightarrow> identity_data s t)"
proof (cases opn)
  case (IdCreate i)
  with run show ?thesis by (intro outcome_effect [OF create_account_outcome]) simp_all
next
  case (IdStatus i)
  with run show ?thesis by (intro outcome_effect [OF update_status_outcome [OF _ identity_okD(1) [OF ok]]]) simp_all
next
  case (IdLink i)
  with run show ?thesis by (intro outcome_effect [OF link_outcome [OF _ identity_okD(1) [OF ok]]]) simp_all
next
  case (IdCreateSession i)
  with run show ?thesis by (intro outcome_effect [OF create_session_outcome [OF _ identity_okD(1) [OF ok]]]) simp_all
next
  case (IdRevokeSession i)
  with run show ?thesis by (intro outcome_effect [OF revoke_session_outcome [OF _ ok]]) simp_all
next
  case (IdProvision i)
  with run obtain r where r: "provisionExternalIdentity env i s = (r, t)"
    "err = (case r of Inl e \<Rightarrow> Some e | Inr x \<Rightarrow> None)" by (auto elim: thrown_cases)
  show ?thesis
  proof (cases r)
    case (Inl e)
    with provision_outcome [OF r(1) ok] show ?thesis by (auto intro: id_idle)
  next
    case (Inr q)
    obtain a x c where q: "q = (a, x, c)" by (cases q)
    from provision_outcome [OF r(1) ok] Inr q have "if c then \<exists>u. identity_step env s u \<and> identity_step env u t else t = s"
      by simp
    then have "(identity_step env)\<^sup>*\<^sup>* s t"
      by (auto split: if_splits intro: converse_rtranclp_into_rtranclp)
    with r(2) Inr show ?thesis by simp
  qed
qed

lemma identity_steps_ok: "(identity_step env)\<^sup>*\<^sup>* s t \<Longrightarrow> identity_ok env s \<Longrightarrow> identity_ok env t"
  by (induction rule: rtranclp_induct) (auto intro: identity_step_ok)

lemma identity_history_steps:
  "identity_history env s t \<Longrightarrow> identity_ok env s \<Longrightarrow> (identity_step env)\<^sup>*\<^sup>* s t \<and> identity_ok env t"
proof (induction rule: identity_history.induct)
  case (id_next s t opn err u)
  then have st: "(identity_step env)\<^sup>*\<^sup>* s t" "identity_ok env t" by blast+
  then have "(identity_step env)\<^sup>*\<^sup>* t u" using identity_effect id_next.hyps(2) by blast
  with st identity_steps_ok show ?case by (blast intro: rtranclp_trans)
qed auto

lemma reachable_identity_ok: "reachable_identity env s \<Longrightarrow> identity_ok env s"
  unfolding reachable_identity_def using identity_history_steps identity_ok_empty by blast

text \<open>A property of states that single changes keep is kept along histories.\<close>

lemma identity_history_keeps:
  assumes "identity_history env s t" and "identity_ok env s" and "P s"
    and step: "\<And>a b. identity_ok env a \<Longrightarrow> P a \<Longrightarrow> identity_step env a b \<Longrightarrow> P b"
  shows "P t"
proof -
  have "(identity_step env)\<^sup>*\<^sup>* s t" using identity_history_steps assms(1,2) by blast
  then have "P t \<and> identity_ok env t"
    using assms(2,3) by (induction rule: rtranclp_induct) (auto intro: identity_step_ok step)
  then show ?thesis ..
qed

section \<open>What single changes preserve\<close>

lemma step_account:
  assumes "identity_step env s t" and "js_get (is_accounts s) k = Some a"
  shows "\<exists>b. js_get (is_accounts t) k = Some b \<and> ac_accountId b = ac_accountId a \<and>
    ac_actorSubject b = ac_actorSubject a \<and> ac_version a \<le> ac_version b \<and> (ac_version b = ac_version a \<longrightarrow> b = a)"
  using assms
proof (induction rule: identity_step.induct)
  case (id_write s a' c e t)
  then have "js_get (is_accounts t) k = (if k = ac_accountId a' then Some a' else js_get (is_accounts s) k)"
    by (auto simp: identity_data_def write_accounts)
  with id_write.prems change_account [OF id_write.hyps(1)] show ?case
    by (cases "k = ac_accountId a'") (auto simp: bumped_def)
qed (auto simp: identity_data_def)

lemma step_identity:
  assumes "identity_step env s t" and "identity_ok env s" and "js_get (is_identities s) iid = Some x"
  shows "js_get (is_identities t) iid = Some x"
  using assms
proof (induction rule: identity_step.induct)
  case (id_write s a c e t)
  then show ?case by (cases c) (auto simp: identity_data_def account_write_def)
qed (auto simp: identity_data_def)

lemma step_revoked:
  assumes "identity_step env s t" and "js_get (is_sessions s) k = Some z" and "truthy (as_revokedAt z)"
    and "identity_ok env s"
  shows "js_get (is_sessions t) k = Some z"
  using assms
proof (induction rule: identity_step.induct)
  case (id_write s a c e t)
  then show ?case by (cases c) (auto simp: identity_data_def account_write_def)
qed (auto simp: identity_data_def)

section \<open>A sample history\<close>

definition sample_uuid :: "string \<Rightarrow> string" where
  "sample_uuid c = concat (replicate 8 c) @ ''-'' @ concat (replicate 4 c) @ ''-4'' @ concat (replicate 3 c) @
     ''-8'' @ concat (replicate 3 c) @ ''-'' @ concat (replicate 12 c)"

definition sample_provision :: provision_external_identity_input where
  "sample_provision = \<lparr>pi_accountId = sample_uuid ''a'', pi_identityId = sample_uuid ''b'',
     pi_issuer = ''https://issuer/'', pi_subject = ''user-1'', pi_occurredAt = None\<rparr>"

definition sample_session_ops :: "identity_operation list" where
  "sample_session_ops = [IdCreateSession \<lparr>ns_sessionId = sample_uuid ''c'', ns_accountId = sample_uuid ''a'',
       ns_expectedAccountVersion = 1, ns_expiresAt = ''later-than'', ns_createdAt = Some ''now''\<rparr>,
     IdRevokeSession \<lparr>rv_sessionId = sample_uuid ''c'', rv_accountId = sample_uuid ''a'',
       rv_expectedAccountVersion = 2, rv_revokedAt = Some ''now''\<rparr>]"

definition sample_provisioned :: identity_store where
  "sample_provisioned = run_identities sample_env [IdProvision sample_provision] empty_identity_store"

definition sample_revoked :: identity_store where
  "sample_revoked = run_identities sample_env sample_session_ops sample_provisioned"

lemma sample_provisioned_reachable: "reachable_identity sample_env sample_provisioned"
  unfolding reachable_identity_def sample_provisioned_def by (rule run_identities_history)

lemma sample_revoked_reachable: "reachable_identity sample_env sample_revoked"
  unfolding reachable_identity_def sample_revoked_def
  by (rule identity_history_trans [OF run_identities_history])
    (rule sample_provisioned_reachable [unfolded reachable_identity_def])

section \<open>Properties\<close>

lemma found_account:
  assumes ok: "identity_ok env s"
  shows "findAccountByExternalIdentity env s iss sub = Inr (Some (a, xs)) \<longleftrightarrow>
    validateExternalIdentity iss sub = Inr () \<and> xs = listExternalIdentities env s (ac_accountId a) \<and>
    (\<exists>iid x. js_get (is_identityOwners s) (externalIdentityKey iss sub) = Some iid \<and>
       js_get (is_identities s) iid = Some x \<and> js_get (is_accounts s) (xi_accountId x) = Some a)"
proof (cases "js_get (is_identityOwners s) (externalIdentityKey iss sub)")
  case None
  then show ?thesis by (auto simp: findAccountByExternalIdentity_def and_then_Inr Let_def)
next
  case (Some iid)
  then obtain x where x: "iid \<noteq> ''''" "js_get (is_identities s) iid = Some x" using ownersD [OF ok] by blast
  obtain b where b: "js_get (is_accounts s) (xi_accountId x) = Some b" using identitiesD(4) [OF ok x(2)] by blast
  then have "ac_accountId b = xi_accountId x" using identity_okD(1) [OF ok] by (simp add: accounts_ok_def)
  with Some x b show ?thesis
    by (cases "validateExternalIdentity iss sub")
      (auto simp: findAccountByExternalIdentity_def requireAccount_def Let_def)
qed

text \<open>The owner of a key stays, so the account a principal resolves to stays.\<close>

definition resolves_to :: "identity_store \<Rightarrow> string \<Rightarrow> string \<Rightarrow> account \<Rightarrow> bool" where
  "resolves_to s iss sub a \<longleftrightarrow> (\<exists>iid x b. js_get (is_identities s) iid = Some x \<and>
     externalIdentityKey (xi_issuer x) (xi_subject x) = externalIdentityKey iss sub \<and>
     js_get (is_accounts s) (xi_accountId x) = Some b \<and> ac_accountId b = ac_accountId a \<and>
     ac_actorSubject b = ac_actorSubject a \<and> ac_version a \<le> ac_version b)"

lemma resolves_kept:
  assumes "identity_history env s t" and "identity_ok env s" and "resolves_to s iss sub a"
  shows "resolves_to t iss sub a"
  using assms
proof (rule identity_history_keeps)
  fix u v assume ok: "identity_ok env u" and r: "resolves_to u iss sub a" and st: "identity_step env u v"
  from r obtain iid x b where x: "js_get (is_identities u) iid = Some x"
    "externalIdentityKey (xi_issuer x) (xi_subject x) = externalIdentityKey iss sub"
    "js_get (is_accounts u) (xi_accountId x) = Some b" "ac_accountId b = ac_accountId a"
    "ac_actorSubject b = ac_actorSubject a" "ac_version a \<le> ac_version b"
    unfolding resolves_to_def by blast
  obtain b' where "js_get (is_accounts v) (xi_accountId x) = Some b'" "ac_accountId b' = ac_accountId b"
    "ac_actorSubject b' = ac_actorSubject b" "ac_version b \<le> ac_version b'"
    using step_account [OF st x(3)] by blast
  with x step_identity [OF st ok x(1)] show "resolves_to v iss sub a"
    unfolding resolves_to_def by (metis order_trans)
qed

lemma resolves_found:
  assumes ok: "identity_ok env t" and "resolves_to t iss sub a" and "validateExternalIdentity iss sub = Inr ()"
  shows "\<exists>b. findAccountByExternalIdentity env t iss sub = Inr (Some (b, listExternalIdentities env t (ac_accountId a))) \<and>
    ac_accountId b = ac_accountId a \<and> ac_actorSubject b = ac_actorSubject a \<and> ac_version a \<le> ac_version b"
proof -
  obtain iid x b where x: "js_get (is_identities t) iid = Some x"
    "externalIdentityKey (xi_issuer x) (xi_subject x) = externalIdentityKey iss sub"
    "js_get (is_accounts t) (xi_accountId x) = Some b" "ac_accountId b = ac_accountId a"
    "ac_actorSubject b = ac_actorSubject a" "ac_version a \<le> ac_version b"
    using assms(2) unfolding resolves_to_def by blast
  have "js_get (is_identityOwners t) (externalIdentityKey iss sub) = Some iid"
    using identitiesD(3) [OF ok x(1)] x(2) by simp
  with x assms(3) have "findAccountByExternalIdentity env t iss sub =
      Inr (Some (b, listExternalIdentities env t (ac_accountId b)))"
    unfolding found_account [OF ok] by blast
  with x show ?thesis by auto
qed

text \<open>C32: a principal keeps its account: once an external identity resolves to an account, it resolves to the
  account with the same id and actor subject after any sequence of operations, whatever status, link or
  session changes happened, and its version has not decreased.\<close>
theorem principal_keeps_account:
  assumes "reachable_identity env s" and "findAccountByExternalIdentity env s iss sub = Inr (Some (a, xs))"
    and "identity_history env s t"
  shows "\<exists>b ys. findAccountByExternalIdentity env t iss sub = Inr (Some (b, ys)) \<and>
    ac_accountId b = ac_accountId a \<and> ac_actorSubject b = ac_actorSubject a \<and> ac_version a \<le> ac_version b"
proof -
  note ok = reachable_identity_ok [OF assms(1)]
  obtain iid x where x: "js_get (is_identityOwners s) (externalIdentityKey iss sub) = Some iid"
    "js_get (is_identities s) iid = Some x" "js_get (is_accounts s) (xi_accountId x) = Some a"
    and v: "validateExternalIdentity iss sub = Inr ()"
    using assms(2) unfolding found_account [OF ok] by blast
  have "externalIdentityKey (xi_issuer x) (xi_subject x) = externalIdentityKey iss sub"
    using ownersD [OF ok x(1)] x(2) by auto
  with x have "resolves_to s iss sub a" unfolding resolves_to_def by blast
  from resolves_kept [OF assms(3) ok this] identity_history_steps [OF assms(3) ok]
  show ?thesis using resolves_found v by blast
qed

theorem principal_keeps_account_witness:
  "\<exists>b ys. findAccountByExternalIdentity sample_env sample_revoked ''https://issuer/'' ''user-1'' = Inr (Some (b, ys)) \<and>
     ac_accountId b = sample_uuid ''a''"
proof -
  have "(case findAccountByExternalIdentity sample_env sample_provisioned ''https://issuer/'' ''user-1'' of
      Inr (Some (a, xs)) \<Rightarrow> ac_accountId a = sample_uuid ''a'' | _ \<Rightarrow> False)"
    by code_simp
  then obtain a xs where "findAccountByExternalIdentity sample_env sample_provisioned ''https://issuer/'' ''user-1'' =
      Inr (Some (a, xs))" and a: "ac_accountId a = sample_uuid ''a''"
    by (auto split: sum.splits option.splits)
  from principal_keeps_account [OF sample_provisioned_reachable this(1) run_identities_history [of _ _ sample_session_ops]] a
  show ?thesis unfolding sample_revoked_def by auto
qed

text \<open>Provisioning is idempotent: after a principal was provisioned, and whatever ran since, provisioning it
  again with any fresh ids returns its account and its identity with \<open>created\<close> false and changes nothing.\<close>
theorem provisioning_is_idempotent:
  assumes "reachable_identity env s" and "provisionExternalIdentity env i s = (Inr (a, x, created), t)"
    and "identity_history env t u" and "pi_issuer j = pi_issuer i" and "pi_subject j = pi_subject i"
    and "is_uuid (pi_accountId j)" and "is_uuid (pi_identityId j)"
  shows "\<exists>b. provisionExternalIdentity env j u = (Inr (b, x, False), u) \<and> ac_accountId b = ac_accountId a"
proof -
  note ok = reachable_identity_ok [OF assms(1)]
  let ?key = "externalIdentityKey (pi_issuer i) (pi_subject i)"
  have v: "validateExternalIdentity (pi_issuer i) (pi_subject i) = Inr ()"
    using assms(2) by (auto simp: provisionExternalIdentity_def when_ok_Inr)
  note out = provision_outcome [OF assms(2) ok, simplified]
  have "thrown (provisionExternalIdentity env i s) = (None, t)" using assms(2) by simp
  then have st: "identity_history env s t"
    by (intro id_next [OF id_start, where opn = "IdProvision i" and err = None]) simp
  then have tok: "identity_ok env t" using identity_history_steps ok by blast
  have uok: "identity_ok env u" using identity_history_steps [OF assms(3) tok] by blast
  have own: "js_get (is_identities t) (xi_identityId x) = Some x" "js_get (is_accounts t) (xi_accountId x) = Some a"
    "js_get (is_identityOwners t) ?key = Some (xi_identityId x)"
    using out by simp_all
  have key: "externalIdentityKey (xi_issuer x) (xi_subject x) = ?key" using ownersD [OF tok own(3)] own(1) by auto
  have ux: "js_get (is_identities u) (xi_identityId x) = Some x"
    using assms(3) tok own(1) by (rule identity_history_keeps) (rule step_identity)
  have uo: "js_get (is_identityOwners u) ?key = Some (xi_identityId x)" "xi_identityId x \<noteq> ''''"
    using identitiesD [OF uok ux] key by simp_all
  obtain b where b: "js_get (is_accounts u) (xi_accountId x) = Some b" using identitiesD(4) [OF uok ux] by blast
  have "ac_accountId b = ac_accountId a"
    using b own(2) identity_okD(1) [OF uok] identity_okD(1) [OF tok] by (simp add: accounts_ok_def)
  moreover have "provisionExternalIdentity env j u = (Inr (b, x, False), u)"
    using assms(4-7) v uo ux b by (simp add: provisionExternalIdentity_def validateUuid_def requireAccount_def)
  ultimately show ?thesis by blast
qed

theorem provisioning_is_idempotent_witness:
  "\<exists>b x. provisionExternalIdentity sample_env (sample_provision\<lparr>pi_accountId := sample_uuid ''d''\<rparr>) sample_provisioned =
     (Inr (b, x, False), sample_provisioned)"
proof -
  have "(case fst (provisionExternalIdentity sample_env sample_provision empty_identity_store) of
      Inr (a, x, c) \<Rightarrow> c | _ \<Rightarrow> False)" by code_simp
  then obtain a x c t where p: "provisionExternalIdentity sample_env sample_provision empty_identity_store = (Inr (a, x, c), t)"
    by (cases "provisionExternalIdentity sample_env sample_provision empty_identity_store") (auto split: sum.splits)
  then have t: "t = sample_provisioned" by (simp add: sample_provisioned_def)
  have "reachable_identity sample_env empty_identity_store" by (simp add: reachable_identity_def id_start)
  moreover have "is_uuid (sample_uuid ''d'')" "is_uuid (sample_uuid ''b'')" by code_simp+
  ultimately show ?thesis
    using provisioning_is_idempotent [OF _ p id_start, of "sample_provision\<lparr>pi_accountId := sample_uuid ''d''\<rparr>"]
    unfolding t by (auto simp: sample_provision_def)
qed

text \<open>The security log of an account counts its versions: in every reachable state event number \<open>n+1\<close> is
  the one that made version \<open>n\<close>, so the version of the account is the number of its events less one.\<close>
theorem security_log_counts_versions:
  assumes "reachable_identity env s" and "js_get (is_accounts s) k = Some a"
  shows "ac_version a = int (length (account_events s k)) - 1 \<and>
    map se_accountVersion (account_events s k) = map int [0..<length (account_events s k)] \<and>
    map se_sequenceNumber (account_events s k) = [1..<Suc (length (account_events s k))]"
  using identity_okD(2) [OF reachable_identity_ok [OF assms(1)]] assms(2) unfolding account_log_ok_def by blast

theorem security_log_counts_versions_witness:
  "\<exists>a. js_get (is_accounts sample_revoked) (sample_uuid ''a'') = Some a \<and>
     ac_version a = int (length (account_events sample_revoked (sample_uuid ''a''))) - 1"
proof -
  have "js_has (is_accounts sample_revoked) (sample_uuid ''a'')" by code_simp
  with security_log_counts_versions [OF sample_revoked_reachable] show ?thesis by (auto simp: js_has_iff)
qed

text \<open>Only active accounts act: when resolving a principal succeeds the account is ACTIVE, and a principal
  whose account is suspended, pending deletion or deleted is refused without a change.\<close>
theorem only_active_accounts_resolve:
  assumes "findAccountByExternalIdentity env s (ep_issuer p) (ep_providerSubject p) = Inr (Some (a, xs))"
  shows "resolvePrincipal env accountId identityId p s =
    (if ac_status a = ACTIVE then Inr (a, xs)
     else Inl (Err AccountAccessDeniedError ''Canonical account is not active.''), s)"
  using assms by (simp add: resolvePrincipal_def requireActive_def)

theorem only_active_accounts_resolve_witness:
  "\<exists>a xs. resolvePrincipal sample_env [] [] (plain_principal ''https://issuer/'' ''user-1'') sample_provisioned =
     (if ac_status a = ACTIVE then Inr (a, xs)
      else Inl (Err AccountAccessDeniedError ''Canonical account is not active.''), sample_provisioned)"
proof -
  have "(case findAccountByExternalIdentity sample_env sample_provisioned ''https://issuer/'' ''user-1'' of
      Inr (Some (a, xs)) \<Rightarrow> True | _ \<Rightarrow> False)"
    by code_simp
  then obtain a xs where "findAccountByExternalIdentity sample_env sample_provisioned ''https://issuer/'' ''user-1'' =
      Inr (Some (a, xs))"
    by (auto split: sum.splits option.splits)
  with only_active_accounts_resolve [of sample_env sample_provisioned
      "plain_principal ''https://issuer/'' ''user-1''"]
  show ?thesis by auto
qed

text \<open>Revocation is final: a revoked session stays revoked, with the same expiry and revocation time, after
  any sequence of operations.\<close>
theorem revoked_session_final:
  assumes "reachable_identity env s" and "findAccountSession s k = Some z" and "as_revokedAt z = Some at'"
    and "at' \<noteq> ''''" and "identity_history env s t"
  shows "findAccountSession t k = Some z"
proof -
  have "js_get (is_sessions t) k = Some z"
    using assms(5) reachable_identity_ok [OF assms(1)]
  proof (rule identity_history_keeps)
    show "js_get (is_sessions s) k = Some z" using assms(2) by (simp add: findAccountSession_def)
  next
    fix a b assume "identity_ok env a" "js_get (is_sessions a) k = Some z" "identity_step env a b"
    then show "js_get (is_sessions b) k = Some z" using step_revoked [of env a b k z] assms(3,4) by simp
  qed
  then show ?thesis by (simp add: findAccountSession_def)
qed

theorem revoked_session_final_witness:
  "\<exists>z. findAccountSession sample_revoked (sample_uuid ''c'') = Some z \<and> as_revokedAt z = Some ''now'' \<and>
     findAccountSession (run_identities sample_env sample_session_ops sample_revoked) (sample_uuid ''c'') = Some z"
proof -
  have "map_option as_revokedAt (findAccountSession sample_revoked (sample_uuid ''c'')) = Some (Some ''now'')"
    by code_simp
  then obtain z where "findAccountSession sample_revoked (sample_uuid ''c'') = Some z" "as_revokedAt z = Some ''now''"
    by auto
  with revoked_session_final [OF sample_revoked_reachable this _ run_identities_history] show ?thesis by auto
qed

section \<open>Two collisions the keys allow\<close>

text \<open>The owner key of an external identity joins issuer and subject with NUL and the validation lets NUL
  through, so two different principals can have the same key: the second one to be provisioned is given the
  account of the first.\<close>
theorem identity_keys_collide:
  assumes "provisionExternalIdentity env i empty_identity_store = (Inr (a, x, True), t)"
    and "pi_issuer i = ''a'' @ nul @ ''b''" and "pi_subject i = ''c''"
    and "pi_issuer j = ''a''" and "pi_subject j = ''b'' @ nul @ ''c''"
    and "is_uuid (pi_accountId j)" and "is_uuid (pi_identityId j)"
  shows "provisionExternalIdentity env j t = (Inr (a, x, False), t)"
proof -
  have "reachable_identity env empty_identity_store" by (simp add: reachable_identity_def id_start)
  note ok = reachable_identity_ok [OF this]
  note out = provision_outcome [OF assms(1) ok, simplified]
  have key: "externalIdentityKey (pi_issuer j) (pi_subject j) = externalIdentityKey (pi_issuer i) (pi_subject i)"
    using assms(2-5) by (simp add: externalIdentityKey_def)
  have v: "validateExternalIdentity (pi_issuer j) (pi_subject j) = Inr ()"
    unfolding assms(4,5) by code_simp
  have "thrown (provisionExternalIdentity env i empty_identity_store) = (None, t)" using assms(1) by simp
  then have "identity_history env empty_identity_store t"
    by (intro id_next [OF id_start, where opn = "IdProvision i" and err = None]) simp
  then have tok: "identity_ok env t" using identity_history_steps ok by blast
  have "xi_identityId x \<noteq> ''''" using identitiesD(2) [OF tok] out by blast
  with out key v assms(6,7) show ?thesis
    by (simp add: provisionExternalIdentity_def validateUuid_def requireAccount_def)
qed

theorem identity_keys_collide_witness:
  "\<exists>a x t. provisionExternalIdentity sample_env (sample_provision\<lparr>pi_issuer := ''a'', pi_subject := ''b'' @ nul @ ''c''\<rparr>) t =
     (Inr (a, x, False), t) \<and> xi_issuer x = ''a'' @ nul @ ''b''"
proof -
  let ?i = "sample_provision\<lparr>pi_issuer := ''a'' @ nul @ ''b'', pi_subject := ''c''\<rparr>"
  have "(case fst (provisionExternalIdentity sample_env ?i empty_identity_store) of
      Inr (a, x, c) \<Rightarrow> c \<and> xi_issuer x = ''a'' @ nul @ ''b'' | _ \<Rightarrow> False)" by code_simp
  then obtain a x t where p: "provisionExternalIdentity sample_env ?i empty_identity_store = (Inr (a, x, True), t)"
    "xi_issuer x = ''a'' @ nul @ ''b''"
    by (cases "provisionExternalIdentity sample_env ?i empty_identity_store") (auto split: sum.splits)
  have "is_uuid (sample_uuid ''a'')" "is_uuid (sample_uuid ''b'')" by code_simp+
  with identity_keys_collide [OF p(1), of "sample_provision\<lparr>pi_issuer := ''a'', pi_subject := ''b'' @ nul @ ''c''\<rparr>"] p(2)
  show ?thesis by (auto simp: sample_provision_def)
qed

text \<open>
  Accounts are keyed by their id as given and actor subjects by its lower case, so ids that differ in case
  only make two accounts with one actor subject; the subject then names the later one.
\<close>

lemma case_variants_share_subject:
  assumes "accounts_ok s" and "js_get (is_accounts s) k = Some a" and "js_get (is_accounts s) k' = Some b"
  shows "ac_actorSubject a = ac_actorSubject b \<longleftrightarrow> js_lower k = js_lower k'"
proof -
  have "ac_actorSubject a = ''zp:account:'' @ js_lower k" "ac_actorSubject b = ''zp:account:'' @ js_lower k'"
    using assms unfolding accounts_ok_def by blast+
  then show ?thesis by simp
qed

text \<open>With ids in lower case, as \<open>randomUUID\<close> gives them, an actor subject belongs to one account.\<close>
theorem actor_subject_identifies_account:
  assumes "reachable_identity env s" and "js_get (is_accounts s) k = Some a" and "js_get (is_accounts s) k' = Some b"
    and "js_lower k = k" and "js_lower k' = k'" and "ac_actorSubject a = ac_actorSubject b"
  shows "k = k' \<and> a = b"
  using case_variants_share_subject [OF identity_okD(1) [OF reachable_identity_ok [OF assms(1)]] assms(2,3)] assms(2-6)
  by simp

theorem actor_subject_identifies_account_witness:
  "\<exists>a. js_get (is_accounts sample_provisioned) (sample_uuid ''a'') = Some a \<and>
     (\<forall>b. js_get (is_accounts sample_provisioned) (sample_uuid ''d'') = Some b \<longrightarrow> ac_actorSubject a \<noteq> ac_actorSubject b)"
proof -
  have l: "js_lower (sample_uuid ''a'') = sample_uuid ''a''" "js_lower (sample_uuid ''d'') = sample_uuid ''d''"
    "sample_uuid ''a'' \<noteq> sample_uuid ''d''" "js_has (is_accounts sample_provisioned) (sample_uuid ''a'')"
    by code_simp+
  then obtain a where a: "js_get (is_accounts sample_provisioned) (sample_uuid ''a'') = Some a" by (auto simp: js_has_iff)
  with actor_subject_identifies_account [OF sample_provisioned_reachable a _ l(1,2)] l(3) show ?thesis by blast
qed

end
