(* ===== verification/PaymentIntentService.thy ===== *)
theory PaymentIntentService
  imports PaymentStoreQueries IdentityStoreProperties
begin

text \<open>
  \<open>src/services/paymentIntentService.ts\<close>: creating, finding and confirming payment intents for a
  verified principal. The service keeps no state of its own; its world is the two persistences it
  calls and the number of readings of its clock. What it is configured with is a record of
  arguments: the mint, the synthetic identity store, the resolver of the payment persistence, its
  clock and the environment variable of the allowlist.

  Requests interleave at the calls of the persistences. Confirming reads the payment in one call and
  writes it in a later one; \<open>others\<close> is what the payment operations of other requests do between
  the two, an argument of the model.
\<close>

section \<open>World and configuration\<close>

record synthetic_identity =
  sy_syntheticId :: string
  sy_normalizedName :: string
  sy_displayName :: string
  sy_username :: string

record intent_config =
  ic_mintAddress :: string
  ic_findSynthetic :: "(string \<Rightarrow> synthetic_identity option result) option"
  ic_resolver :: identity_resolver
  ic_clock :: "nat \<Rightarrow> string"
  ic_allowlistRequired :: "string option"

record intent_world =
  iw_accounts :: identity_store
  iw_payments :: payment_store
  iw_clockReads :: nat

text \<open>Calling a persistence from the service.\<close>

definition on_accounts :: "(identity_store \<Rightarrow> (identity_store, 'a) outcome) \<Rightarrow> intent_world \<Rightarrow> (intent_world, 'a) outcome" where
  "on_accounts f w = (let (r, s) = f (iw_accounts w) in (r, w\<lparr>iw_accounts := s\<rparr>))"

definition on_payments :: "(payment_store \<Rightarrow> (payment_store, 'a) outcome) \<Rightarrow> intent_world \<Rightarrow> (intent_world, 'a) outcome" where
  "on_payments f w = (let (r, s) = f (iw_payments w) in (r, w\<lparr>iw_payments := s\<rparr>))"

definition service_now :: "intent_config \<Rightarrow> intent_world \<Rightarrow> string \<times> intent_world" where
  "service_now cfg w = (ic_clock cfg (iw_clockReads w), w\<lparr>iw_clockReads := Suc (iw_clockReads w)\<rparr>)"

definition app_error :: "application_error_kind \<Rightarrow> string \<Rightarrow> 'a result" where
  "app_error kind m = Inl (Err (PaymentIntentApplicationError kind) m)"

section \<open>What is shown of a payment\<close>

record public_snapshot =
  sp_accountId :: string
  sp_username :: string
  sp_displayName :: string
  sp_accountType :: string
  sp_verificationState :: string
  sp_payabilityState :: string
  sp_capturedAt :: string
  sp_schemaVersion :: nat
  sp_identitySource :: string
  sp_resolutionSource :: string
  sp_trustOutcome :: string

definition serializeSnapshot :: "payment_identity_snapshot \<Rightarrow> public_snapshot" where
  "serializeSnapshot s = \<lparr>sp_accountId = sn_accountId s, sp_username = sn_username s,
     sp_displayName = sn_displayName s, sp_accountType = js_lower (sn_accountType s),
     sp_verificationState = js_lower (sn_verificationState s), sp_payabilityState = ''available'',
     sp_capturedAt = sn_capturedAt s, sp_schemaVersion = 1,
     sp_identitySource = js_lower (coalesce (sn_identitySource s) ''RECIPIENT_DIRECTORY''),
     sp_resolutionSource = js_lower (sn_resolutionSource s),
     sp_trustOutcome = js_lower (trust_text (sn_trustOutcome s))\<rparr>"

datatype public_recipient =
    DirectWallet string
  | PaymentIdentity public_snapshot

record public_payment_intent =
  pp_id :: string
  pp_status :: string
  pp_version :: string
  pp_requestHash :: string
  pp_recipient :: public_recipient
  pp_amountRaw :: string
  pp_amount :: string
  pp_asset :: string
  pp_network :: string
  pp_purpose :: "string option"
  pp_createdAt :: string
  pp_userConfirmedAt :: "string option"
  pp_executionStartedAt :: "string option"
  pp_submittedAt :: "string option"
  pp_lastCheckedAt :: "string option"
  pp_completedAt :: "string option"
  pp_failedAt :: "string option"
  pp_solanaSignature :: "string option"
  pp_confirmedSlot :: "string option"
  pp_confirmationStatus :: "string option"
  pp_receiptPda :: "string option"
  pp_failureCode :: "string option"

text \<open>\<open>...(value ? { key: value } : {})\<close> keeps a member only when it is truthy.\<close>

definition if_truthy :: "string option \<Rightarrow> string option" where
  "if_truthy v = (if truthy v then v else None)"

definition toPublicPaymentIntent :: "payment_record \<Rightarrow> public_payment_intent" where
  "toPublicPaymentIntent p = \<lparr>pp_id = p_id p, pp_status = js_lower (status_text (p_status p)),
     pp_version = int_to_dec (p_version p), pp_requestHash = p_requestHash p,
     pp_recipient = (case (p_recipientType p, p_recipientSnapshot p) of
        (PAYMENT_IDENTITY, Some sn) \<Rightarrow> PaymentIdentity (serializeSnapshot sn)
      | _ \<Rightarrow> DirectWallet (p_recipientAddress p)),
     pp_amountRaw = int_to_dec (p_amountRaw p), pp_amount = rawUsdcToDisplay (p_amountRaw p),
     pp_asset = p_asset p, pp_network = p_network p, pp_purpose = p_purpose p, pp_createdAt = p_createdAt p,
     pp_userConfirmedAt = if_truthy (userConfirmedAt p), pp_executionStartedAt = if_truthy (executionStartedAt p),
     pp_submittedAt = if_truthy (submittedAt p), pp_lastCheckedAt = if_truthy (lastCheckedAt p),
     pp_completedAt = if_truthy (completedAt p), pp_failedAt = if_truthy (failedAt p),
     pp_solanaSignature = if_truthy (solanaSignature p),
     pp_confirmedSlot = map_option int_to_dec (confirmedSlot p),
     pp_confirmationStatus = if_truthy (confirmationStatus p), pp_receiptPda = if_truthy (receiptPda p),
     pp_failureCode = if_truthy (failureCode p)\<rparr>"

section \<open>Private steps\<close>

record actor =
  actor_subject :: string
  actor_accountId :: string

text \<open>The principal a request carries, with the ids \<open>randomUUID\<close> would give if it is new.\<close>

record caller =
  cl_principal :: external_principal
  cl_newAccountId :: string
  cl_newIdentityId :: string

definition resolveActor :: "runtime_env \<Rightarrow> caller \<Rightarrow> intent_world \<Rightarrow> (intent_world, actor) outcome" where
  "resolveActor env c w =
     (let (r, w') = on_accounts (resolvePrincipal env (cl_newAccountId c) (cl_newIdentityId c) (cl_principal c)) w in
      (case r of
         Inl e \<Rightarrow> if error_class_of e = AccountAccessDeniedError
                 then app_error ACCESS_DENIED ''Payment access is unavailable.'' else Inl e
       | Inr (a, xs) \<Rightarrow> Inr \<lparr>actor_subject = ac_actorSubject a, actor_accountId = ac_accountId a\<rparr>, w'))"

definition requireActiveAllowlist ::
  "runtime_env \<Rightarrow> intent_config \<Rightarrow> string \<Rightarrow> intent_world \<Rightarrow> (intent_world, unit) outcome" where
  "requireActiveAllowlist env cfg actor w =
     (let entry = findAllowlistEntry (iw_payments w) actor; (now, w') = service_now cfg w in
      if \<not> hasActivePaymentAccess env (ic_allowlistRequired cfg) entry now
      then (app_error ACCESS_DENIED ''Beta payment access is unavailable.'', w') else (Inr (), w'))"

definition requireOwnedPayment :: "intent_world \<Rightarrow> string \<Rightarrow> string \<Rightarrow> payment_record result" where
  "requireOwnedPayment w paymentId actor = and_then (findPayment (iw_payments w) paymentId) (\<lambda>found.
     case found of
       None \<Rightarrow> app_error NOT_FOUND ''Payment intent was not found.''
     | Some p \<Rightarrow> if p_actorSubject p \<noteq> actor then app_error NOT_FOUND ''Payment intent was not found.''
                else Inr p)"

text \<open>\<open>Buffer.from(text, "hex")\<close> reads pairs of hex digits and stops at the first pair that is not one.\<close>

fun hex_bytes :: "string \<Rightarrow> nat list" where
  "hex_bytes (a # b # s) =
     (if is_hex_i a \<and> is_hex_i b then (16 * hex_digit_value a + hex_digit_value b) # hex_bytes s else [])"
| "hex_bytes _ = []"

definition requireMatchingHash :: "string \<Rightarrow> string \<Rightarrow> unit result" where
  "requireMatchingHash stored submitted =
     (if hex_bytes stored \<noteq> hex_bytes submitted
      then app_error CONFLICT ''Payment intent confirmation does not match the created request.'' else Inr ())"

definition replayResult :: "payment_record \<Rightarrow> (public_payment_intent \<times> bool) option result" where
  "replayResult p =
     (if p_status p \<in> {PROCESSING, UNKNOWN, COMPLETED} then Inr (Some (toPublicPaymentIntent p, False))
      else if p_status p = FAILED then app_error CONFLICT ''Failed payment intents cannot be confirmed.''
      else if p_status p \<noteq> AWAITING_CONFIRMATION then app_error CONFLICT ''Payment intent is not confirmable.''
      else Inr None)"

fun claimResult :: "idempotency_claim \<Rightarrow> (public_payment_intent \<times> bool) result" where
  "claimResult (HASH_CONFLICT p) =
     app_error CONFLICT ''Idempotency key was already used for a different payment intent.''"
| "claimResult (CLAIMED p) = Inr (toPublicPaymentIntent p, True)"
| "claimResult (EXISTING p) = Inr (toPublicPaymentIntent p, False)"

section \<open>Operations\<close>

text \<open>The claim of an identity intent; its two known refusals become application errors.\<close>

definition identity_claim_error :: "js_error \<Rightarrow> js_error" where
  "identity_claim_error e =
     (if error_message e = ''TRUST_ACKNOWLEDGMENT_REQUIRED''
      then Err (PaymentIntentApplicationError CONFLICT) ''Trust acknowledgment is required for this recipient.''
      else if error_message e = ''RECIPIENT_UNAVAILABLE''
      then Err (PaymentIntentApplicationError NOT_FOUND) ''Recipient was not found.'' else e)"

definition catch_claim :: "(intent_world, idempotency_claim) outcome \<Rightarrow> (intent_world, idempotency_claim) outcome" where
  "catch_claim o' = (case fst o' of Inl e \<Rightarrow> Inl (identity_claim_error e) | Inr c \<Rightarrow> Inr c, snd o')"

definition claim_identity ::
  "runtime_env \<Rightarrow> intent_config \<Rightarrow> string \<Rightarrow> actor \<Rightarrow> string \<Rightarrow> string \<Rightarrow> bool \<Rightarrow> int \<Rightarrow> string option \<Rightarrow>
   intent_world \<Rightarrow> (intent_world, idempotency_claim) outcome" where
  "claim_identity env cfg newId a key recipientId trust amountRaw purpose w =
     when_ok (case ic_findSynthetic cfg of None \<Rightarrow> Inr None | Some findById \<Rightarrow> findById recipientId) w (\<lambda>synthetic.
       let (now, w') = service_now cfg w in
       case synthetic of
         Some sy \<Rightarrow> on_payments (claimSyntheticPaymentIdentityKey env
           \<lparr>cs_id = newId, cs_actorSubject = actor_subject a, cs_senderAccountId = actor_accountId a,
            cs_idempotencyKey = key, cs_syntheticId = sy_syntheticId sy, cs_username = sy_username sy,
            cs_displayName = sy_displayName sy, cs_network = ''solana-devnet'', cs_rail = ''solana'',
            cs_asset = ''USDC'', cs_mintAddress = ic_mintAddress cfg, cs_amountRaw = amountRaw,
            cs_purpose = purpose, cs_capturedAt = now\<rparr>) w'
       | None \<Rightarrow> on_payments (claimPaymentIdentityKey env (ic_resolver cfg)
           \<lparr>ci_id = newId, ci_actorSubject = actor_subject a, ci_senderAccountId = actor_accountId a,
            ci_idempotencyKey = key, ci_recipientAccountId = recipientId, ci_trustAcknowledged = trust,
            ci_network = ''solana-devnet'', ci_rail = ''solana'', ci_asset = ''USDC'',
            ci_mintAddress = ic_mintAddress cfg, ci_amountRaw = amountRaw, ci_purpose = purpose,
            ci_capturedAt = now\<rparr>) w')"

definition create_identity_intent ::
  "runtime_env \<Rightarrow> intent_config \<Rightarrow> string \<Rightarrow> actor \<Rightarrow> string \<Rightarrow> string \<Rightarrow> bool \<Rightarrow> int \<Rightarrow> string option \<Rightarrow>
   intent_world \<Rightarrow> (intent_world, public_payment_intent \<times> bool) outcome" where
  "create_identity_intent env cfg newId a key recipientId trust amountRaw purpose w =
     then_do (on_payments (replayPaymentIdentityKey env
         \<lparr>rp_actorSubject = actor_subject a, rp_idempotencyKey = key, rp_recipientId = recipientId,
          rp_trustAcknowledged = trust, rp_network = ''solana-devnet'', rp_rail = ''solana'', rp_asset = ''USDC'',
          rp_mintAddress = ic_mintAddress cfg, rp_amountRaw = amountRaw, rp_purpose = purpose\<rparr>) w) (\<lambda>replay w1.
       case replay of
         Some c \<Rightarrow> (claimResult c, w1)
       | None \<Rightarrow> then_do (catch_claim (claim_identity env cfg newId a key recipientId trust amountRaw purpose w1))
           (\<lambda>c w2. (claimResult c, w2)))"

definition create_direct_intent ::
  "runtime_env \<Rightarrow> intent_config \<Rightarrow> string \<Rightarrow> actor \<Rightarrow> string \<Rightarrow> string \<Rightarrow> int \<Rightarrow> string option \<Rightarrow>
   intent_world \<Rightarrow> (intent_world, public_payment_intent \<times> bool) outcome" where
  "create_direct_intent env cfg newId a key recipient amountRaw purpose w =
     when_ok (createPaymentRequestHash env
         \<lparr>cr_actorSubject = actor_subject a, cr_network = ''solana-devnet'', cr_mintAddress = ic_mintAddress cfg,
          cr_recipientAddress = recipient, cr_amountRaw = amountRaw, cr_purpose = purpose\<rparr>) w (\<lambda>hash.
       then_do (on_payments (claimIdempotencyKey env
           \<lparr>cp_id = newId, cp_actorSubject = actor_subject a, cp_idempotencyKey = key, cp_requestHash = hash,
            cp_network = ''solana-devnet'', cp_rail = ''solana'', cp_asset = ''USDC'',
            cp_mintAddress = ic_mintAddress cfg, cp_recipientAddress = recipient, cp_amountRaw = amountRaw,
            cp_purpose = purpose, cp_recipientType = Some DIRECT_WALLET, cp_recipientAccountId = None,
            cp_recipientSyntheticId = None, cp_recipientSnapshot = None, cp_recipientSnapshotVersion = None,
            cp_trustConfirmationOutcome = None\<rparr>) w) (\<lambda>c w1. (claimResult c, w1)))"

definition intent_amount :: "payment_intent_request \<Rightarrow> string" where
  "intent_amount i = (case i of
     DirectWalletPaymentIntentRequest r amount pu \<Rightarrow> amount
   | PaymentIdentityPaymentIntentRequest r amount pu t \<Rightarrow> amount)"

definition create_intent ::
  "runtime_env \<Rightarrow> intent_config \<Rightarrow> string \<Rightarrow> caller \<Rightarrow> string \<Rightarrow> payment_intent_request \<Rightarrow>
   intent_world \<Rightarrow> (intent_world, public_payment_intent \<times> bool) outcome" where
  "create_intent env cfg newId c key i w =
     then_do (resolveActor env c w) (\<lambda>a w1.
     then_do (requireActiveAllowlist env cfg (actor_subject a) w1) (\<lambda>_ w2.
     when_ok (usdcAmountToRaw (intent_amount i)) w2 (\<lambda>amountRaw.
       case i of
         PaymentIdentityPaymentIntentRequest recipientId amount purpose trust \<Rightarrow>
           create_identity_intent env cfg newId a key recipientId trust amountRaw purpose w2
       | DirectWalletPaymentIntentRequest recipient amount purpose \<Rightarrow>
           create_direct_intent env cfg newId a key recipient amountRaw purpose w2)))"

definition find_intent ::
  "runtime_env \<Rightarrow> caller \<Rightarrow> string \<Rightarrow> intent_world \<Rightarrow> (intent_world, public_payment_intent) outcome" where
  "find_intent env c paymentId w =
     then_do (resolveActor env c w) (\<lambda>a w1.
       (and_then (requireOwnedPayment w1 paymentId (actor_subject a)) (\<lambda>p. Inr (toPublicPaymentIntent p)), w1))"

record confirm_intent_input =
  co_paymentId :: string
  co_requestHash :: string
  co_expectedVersion :: int
  co_requestId :: "string option"

definition version_stale :: "'a result" where
  "version_stale = app_error CONFLICT ''Payment intent version is stale.''"

definition confirm_write ::
  "runtime_env \<Rightarrow> confirm_intent_input \<Rightarrow> string \<Rightarrow> string \<Rightarrow> string \<Rightarrow> intent_world \<Rightarrow>
   (intent_world, public_payment_intent \<times> bool) outcome" where
  "confirm_write env i actor currentId occurredAt w =
     (let (r, w') = on_payments (transitionPayment env
          \<lparr>ti_paymentId = currentId, ti_expectedVersion = co_expectedVersion i, ti_toStatus = PROCESSING,
           ti_evidence = Some (no_evidence\<lparr>userConfirmedAt := Some occurredAt, executionStartedAt := Some occurredAt\<rparr>),
           ti_requestId = co_requestId i, ti_details = None, ti_occurredAt = Some occurredAt\<rparr>) w in
      case r of
        Inr updated \<Rightarrow> (Inr (toPublicPaymentIntent updated, True), w')
      | Inl e \<Rightarrow>
          if error_class_of e \<noteq> PaymentVersionConflictError then (Inl e, w')
          else (and_then (requireOwnedPayment w' (co_paymentId i) actor) (\<lambda>updated.
                  and_then (requireMatchingHash (p_requestHash updated) (co_requestHash i)) (\<lambda>_.
                    and_then (replayResult updated) (\<lambda>replay.
                      case replay of Some x \<Rightarrow> Inr x | None \<Rightarrow> version_stale))), w'))"

definition confirm_intent ::
  "runtime_env \<Rightarrow> intent_config \<Rightarrow> (payment_store \<Rightarrow> payment_store) \<Rightarrow> caller \<Rightarrow> confirm_intent_input \<Rightarrow>
   intent_world \<Rightarrow> (intent_world, public_payment_intent \<times> bool) outcome" where
  "confirm_intent env cfg others c i w =
     then_do (resolveActor env c w) (\<lambda>a w1.
     then_do (requireActiveAllowlist env cfg (actor_subject a) w1) (\<lambda>_ w2.
     when_ok (requireOwnedPayment w2 (co_paymentId i) (actor_subject a)) w2 (\<lambda>current.
     when_ok (requireMatchingHash (p_requestHash current) (co_requestHash i)) w2 (\<lambda>_.
     when_ok (replayResult current) w2 (\<lambda>replay.
       case replay of
         Some x \<Rightarrow> (Inr x, w2)
       | None \<Rightarrow>
           if p_version current \<noteq> co_expectedVersion i then (version_stale, w2)
           else let (occurredAt, w3) = service_now cfg w2 in
             confirm_write env i (actor_subject a) (p_id current) occurredAt
               (w3\<lparr>iw_payments := others (iw_payments w3)\<rparr>))))))"

record recent_recipient =
  rr_accountId :: string
  rr_username :: string
  rr_displayName :: string
  rr_accountType :: string
  rr_verificationState :: string

definition recent_intents ::
  "runtime_env \<Rightarrow> caller \<Rightarrow> intent_world \<Rightarrow> (intent_world, recent_recipient list) outcome" where
  "recent_intents env c w =
     then_do (resolveActor env c w) (\<lambda>a w1.
       (and_then (listRecentPaymentIdentities env (iw_payments w1) (actor_subject a) (Finite 5)) (\<lambda>sns.
          Inr (map (\<lambda>sn. \<lparr>rr_accountId = sn_accountId sn, rr_username = sn_username sn,
             rr_displayName = sn_displayName sn, rr_accountType = js_lower (sn_accountType sn),
             rr_verificationState = js_lower (sn_verificationState sn)\<rparr>) sns)), w1))"

end
