(* ===== verification/JsonText.thy ===== *)
theory JsonText
  imports JsonValues
begin

text \<open>
  JSON values on their way to a database column and back, and the text with sorted keys by which
  \<open>src/storage/postgres/postgresGrowthEventRepository.ts\<close> compares contexts (\<open>stableJson\<close>,
  \<open>sortObject\<close>). \<open>json_wire\<close> is \<open>JSON.parse(JSON.stringify(value))\<close>; \<open>jsonb_value\<close> is the order in which a
  \<open>jsonb\<close> column keeps the members of an object (shorter keys first, then by bytes).
\<close>

section \<open>Sorting with a strict order\<close>

text \<open>The comparator is a linear order on the elements at hand.\<close>

definition linear_on :: "('a \<Rightarrow> 'a \<Rightarrow> int) \<Rightarrow> 'a set \<Rightarrow> bool" where
  "linear_on c A \<longleftrightarrow> (\<forall>x\<in>A. \<forall>y\<in>A. (c x y \<le> 0 \<or> c y x \<le> 0) \<and> (c x y \<le> 0 \<longrightarrow> c y x \<le> 0 \<longrightarrow> x = y) \<and>
     (\<forall>z\<in>A. c x y \<le> 0 \<longrightarrow> c y z \<le> 0 \<longrightarrow> c x z \<le> 0))"

lemma linear_on_subset: "linear_on c A \<Longrightarrow> B \<subseteq> A \<Longrightarrow> linear_on c B"
  unfolding linear_on_def by blast

lemma linear_total: "linear_on c A \<Longrightarrow> x \<in> A \<Longrightarrow> y \<in> A \<Longrightarrow> c x y \<le> 0 \<or> c y x \<le> 0"
  unfolding linear_on_def by blast

lemma linear_antisym: "linear_on c A \<Longrightarrow> x \<in> A \<Longrightarrow> y \<in> A \<Longrightarrow> c x y \<le> 0 \<Longrightarrow> c y x \<le> 0 \<Longrightarrow> x = y"
  unfolding linear_on_def by blast

lemma linear_trans: "linear_on c A \<Longrightarrow> x \<in> A \<Longrightarrow> y \<in> A \<Longrightarrow> z \<in> A \<Longrightarrow> c x y \<le> 0 \<Longrightarrow> c y z \<le> 0 \<Longrightarrow> c x z \<le> 0"
  unfolding linear_on_def by blast

lemma sorted_insert_linear:
  assumes "linear_on c (insert x (set ys))" and "sorted_wrt (\<lambda>x y. c x y \<le> 0) ys"
  shows "sorted_wrt (\<lambda>x y. c x y \<le> 0) (js_insert c x ys)"
  using assms
proof (induction ys)
  case (Cons y ys)
  have lin: "linear_on c (insert x (set ys))" using Cons.prems(1) by (rule linear_on_subset) auto
  show ?case
  proof (cases "c x y \<le> 0")
    case True
    have "c x z \<le> 0" if "z \<in> set ys" for z
      using linear_trans [OF Cons.prems(1), of x y z] True that Cons.prems(2) by simp
    with True Cons.prems(2) show ?thesis by simp
  next
    case False
    then have "c y x \<le> 0" using linear_total [OF Cons.prems(1), of x y] by simp
    with False Cons.IH [OF lin] Cons.prems(2) show ?thesis by auto
  qed
qed simp

lemma sorted_sort_linear: "linear_on c (set xs) \<Longrightarrow> sorted_wrt (\<lambda>x y. c x y \<le> 0) (js_sort c xs)"
proof (induction xs)
  case (Cons x xs)
  have "linear_on c (set xs)" using Cons.prems by (rule linear_on_subset) auto
  then have s: "sorted_wrt (\<lambda>x y. c x y \<le> 0) (js_sort c xs)" by (rule Cons.IH)
  have "linear_on c (insert x (set (js_sort c xs)))" using Cons.prems by simp
  from sorted_insert_linear [OF this s] show ?case by (simp add: js_sort_def)
qed (simp add: js_sort_def)

text \<open>A sorted list is determined by its elements.\<close>

lemma sorted_unique:
  assumes "sorted_wrt (\<lambda>x y. c x y \<le> 0) xs" and "sorted_wrt (\<lambda>x y. c x y \<le> 0) ys"
    and "distinct xs" and "distinct ys" and "set xs = set ys" and "linear_on c (set xs)"
  shows "xs = ys"
  using assms
proof (induction xs arbitrary: ys)
  case (Cons x xs)
  then obtain y zs where ys: "ys = y # zs" by (cases ys) auto
  have "x = y"
  proof (rule ccontr)
    assume "x \<noteq> y"
    with Cons.prems(5) ys have "x \<in> set zs" "y \<in> set xs" by auto
    with Cons.prems(1,2) ys have "c x y \<le> 0" "c y x \<le> 0" by simp_all
    with linear_antisym [OF Cons.prems(6), of x y] \<open>y \<in> set xs\<close> \<open>x \<noteq> y\<close> show False by simp
  qed
  moreover have "set xs = set zs"
    using Cons.prems(3-5) ys \<open>x = y\<close> by auto
  moreover have "linear_on c (set xs)" using Cons.prems(6) by (rule linear_on_subset) auto
  ultimately show ?case using Cons.IH [of zs] Cons.prems ys by simp
qed simp

lemma sort_permuted:
  assumes "distinct xs" and "distinct ys" and "set xs = set ys" and "linear_on c (set xs)"
  shows "js_sort c xs = js_sort c ys"
  using sorted_unique [of c "js_sort c xs" "js_sort c ys"] assms
  by (simp add: distinct_js_sort sorted_sort_linear)

text \<open>Sorting members by their keys commutes with changing the values and with dropping members.\<close>

lemma js_sort_map:
  assumes "\<And>x y. c (f x) (f y) = c' x y"
  shows "js_sort c (map f xs) = map f (js_sort c' xs)"
proof -
  have ins: "js_insert c (f x) (map f ys) = map f (js_insert c' x ys)" for x ys
    using assms by (induction ys) auto
  show ?thesis by (induction xs) (simp_all add: js_sort_def ins)
qed

section \<open>Objects with sorted keys\<close>

definition by_key :: "(string \<Rightarrow> string \<Rightarrow> int) \<Rightarrow> string \<times> 'a \<Rightarrow> string \<times> 'b \<Rightarrow> int" where
  "by_key c a b = c (fst a) (fst b)"

lemma js_insert_cong [fundef_cong]:
  "c = c' \<Longrightarrow> x = x' \<Longrightarrow> ys = ys' \<Longrightarrow> js_insert c x ys = js_insert c' x' ys'"
  by simp

lemma member_smaller: "(k, v) \<in> set es \<Longrightarrow> size v < Suc (size_list (size_prod (\<lambda>x. 0) size) es)"
  by (induction es) auto

function sortObject :: "runtime_env \<Rightarrow> json \<Rightarrow> json" where
  "sortObject env (JArray xs) = JArray (map (sortObject env) xs)"
| "sortObject env (JObject es) =
     JObject (map (\<lambda>e. (fst e, sortObject env (snd e))) (js_sort (by_key (locale_compare env)) es))"
| "sortObject env JUndefined = JUndefined"
| "sortObject env JNull = JNull"
| "sortObject env (JBool b) = JBool b"
| "sortObject env (JNumber n) = JNumber n"
| "sortObject env (JString s) = JString s"
  by pat_completeness auto

termination
proof (relation "measure (\<lambda>(env, v). size v)")
  show "wf (measure (\<lambda>(env :: runtime_env, v :: json). size v))" by simp
next
  fix env :: runtime_env and xs :: "json list" and z
  assume "z \<in> set xs"
  then show "((env, z), env, JArray xs) \<in> measure (\<lambda>(env, v). size v)"
    by (induction xs) auto
next
  fix env :: runtime_env and es :: "(string \<times> json) list" and z
  assume "z \<in> set (js_sort (by_key (locale_compare env)) es)"
  then have "(fst z, snd z) \<in> set es" by simp
  from member_smaller [OF this]
  show "((env, snd z), env, JObject es) \<in> measure (\<lambda>(env, v). size v)" by simp
qed

section \<open>Texts and columns\<close>

text \<open>\<open>JSON.stringify\<close>; undefined has no text, is skipped in objects and written null in arrays.\<close>

fun comma_separated :: "string list \<Rightarrow> string" where
  "comma_separated [] = ''''"
| "comma_separated [t] = t"
| "comma_separated (t # ts) = t @ '','' @ comma_separated ts"

fun json_text :: "runtime_env \<Rightarrow> json \<Rightarrow> string option" where
  "json_text env JUndefined = None"
| "json_text env JNull = Some ''null''"
| "json_text env (JBool b) = Some (if b then ''true'' else ''false'')"
| "json_text env (JNumber n) = Some (case n of Finite q \<Rightarrow> number_text env q | _ \<Rightarrow> ''null'')"
| "json_text env (JString s) = Some (json_quote s)"
| "json_text env (JArray xs) =
     Some (''['' @ comma_separated (map (\<lambda>x. coalesce (json_text env x) ''null'') xs) @ '']'')"
| "json_text env (JObject es) =
     Some (json_object_text (concat (map (\<lambda>e. case json_text env (snd e) of
        None \<Rightarrow> [] | Some t \<Rightarrow> [(fst e, t)]) es)))"

definition stableJson :: "runtime_env \<Rightarrow> json \<Rightarrow> string option" where
  "stableJson env v = json_text env (sortObject env v)"

fun json_wire :: "json \<Rightarrow> json" where
  "json_wire (JNumber n) = (if is_finite n then JNumber n else JNull)"
| "json_wire (JArray xs) = JArray (map (\<lambda>x. if x = JUndefined then JNull else json_wire x) xs)"
| "json_wire (JObject es) = JObject (map (\<lambda>e. (fst e, json_wire (snd e))) (filter (\<lambda>e. snd e \<noteq> JUndefined) es))"
| "json_wire v = v"

fun byte_order :: "string \<Rightarrow> string \<Rightarrow> int" where
  "byte_order [] [] = 0"
| "byte_order [] (b # bs) = -1"
| "byte_order (a # as) [] = 1"
| "byte_order (a # as) (b # bs) = (if a = b then byte_order as bs else of_char a - of_char b)"

definition jsonb_key_order :: "string \<Rightarrow> string \<Rightarrow> int" where
  "jsonb_key_order a b = or_compare (int (length a) - int (length b)) (byte_order a b)"

fun jsonb_value :: "json \<Rightarrow> json" where
  "jsonb_value (JArray xs) = JArray (map jsonb_value xs)"
| "jsonb_value (JObject es) = JObject (js_sort (by_key jsonb_key_order) (map (\<lambda>e. (fst e, jsonb_value (snd e))) es))"
| "jsonb_value v = v"

text \<open>Objects whose keys are distinct and linearly ordered by \<open>localeCompare\<close>.\<close>

fun keys_ordered :: "runtime_env \<Rightarrow> json \<Rightarrow> bool" where
  "keys_ordered env (JArray xs) = list_all (keys_ordered env) xs"
| "keys_ordered env (JObject es) = (distinct (map fst es) \<and> linear_on (locale_compare env) (set (map fst es)) \<and>
     list_all (\<lambda>e. keys_ordered env (snd e)) es)"
| "keys_ordered env v = True"

lemma linear_by_key:
  assumes "distinct (map fst es)" and "linear_on c (set (map fst es))"
  shows "linear_on (by_key c) (set es)"
  unfolding linear_on_def
proof (intro ballI conjI impI)
  fix x y z assume xyz: "x \<in> set es" "y \<in> set es"
  then have k: "fst x \<in> set (map fst es)" "fst y \<in> set (map fst es)" by simp_all
  show "by_key c x y \<le> 0 \<or> by_key c y x \<le> 0"
    using linear_total [OF assms(2) k] by (simp add: by_key_def)
  show "x = y" if "by_key c x y \<le> 0" "by_key c y x \<le> 0"
  proof -
    have "fst x = fst y" using linear_antisym [OF assms(2) k] that by (simp add: by_key_def)
    with xyz assms(1) show ?thesis by (simp add: distinct_map inj_on_def)
  qed
  show "by_key c x z \<le> 0" if "z \<in> set es" "by_key c x y \<le> 0" "by_key c y z \<le> 0"
    using linear_trans [OF assms(2) k, of "fst z"] that by (simp add: by_key_def)
qed

lemma member_values:
  fixes f :: "json \<Rightarrow> json"
  shows "map fst (map (\<lambda>e. (fst e, f (snd e))) es) = map fst es"
  by simp

lemma sort_jsonb: "keys_ordered env v \<Longrightarrow> sortObject env (jsonb_value v) = sortObject env v"
proof (induction v)
  case (JArray xs)
  then show ?case by (auto simp: list_all_iff)
next
  case (JObject es)
  let ?g = "\<lambda>e. (fst e, jsonb_value (snd e))" and ?h = "\<lambda>e. (fst e, sortObject env (snd e))"
  let ?c = "by_key (locale_compare env)"
  have d: "distinct (map fst (map ?g es))" "linear_on (locale_compare env) (set (map fst (map ?g es)))"
    using JObject.prems unfolding member_values by simp_all
  have "distinct (map ?g es)" using d(1) by (rule distinct_map [THEN iffD1, THEN conjunct1])
  then have "js_sort ?c (js_sort (by_key jsonb_key_order) (map ?g es)) = js_sort ?c (map ?g es)"
    using linear_by_key [OF d] by (intro sort_permuted) (simp_all add: distinct_js_sort)
  also have "\<dots> = map ?g (js_sort ?c es)"
    by (rule js_sort_map) (simp add: by_key_def)
  finally have s: "js_sort ?c (js_sort (by_key jsonb_key_order) (map ?g es)) = map ?g (js_sort ?c es)" .
  have "map ?h (map ?g (js_sort ?c es)) = map ?h (js_sort ?c es)"
    using JObject by (auto simp: list_all_iff snds.simps)
  with s show ?case by simp
qed simp_all

lemma filter_js_sort:
  assumes "distinct xs" and "linear_on c (set xs)"
  shows "js_sort c (filter P xs) = filter P (js_sort c xs)"
proof (rule sorted_unique)
  have l: "linear_on c (set (filter P xs))" using assms(2) by (rule linear_on_subset) auto
  then show "sorted_wrt (\<lambda>x y. c x y \<le> 0) (js_sort c (filter P xs))" by (rule sorted_sort_linear)
  show "sorted_wrt (\<lambda>x y. c x y \<le> 0) (filter P (js_sort c xs))"
    using sorted_sort_linear [OF assms(2)] by (rule sorted_wrt_filter)
  show "distinct (js_sort c (filter P xs))" using assms(1) by (simp add: distinct_js_sort)
  show "distinct (filter P (js_sort c xs))" using assms(1) by (simp add: distinct_js_sort)
  show "set (js_sort c (filter P xs)) = set (filter P (js_sort c xs))" by simp
  show "linear_on c (set (js_sort c (filter P xs)))" using l by simp
qed

lemma undefined_has_no_text: "json_text env (sortObject env JUndefined) = None"
  by simp

lemma stable_wire: "keys_ordered env v \<Longrightarrow> stableJson env (json_wire v) = stableJson env v"
  unfolding stableJson_def
proof (induction v)
  case (JArray xs)
  have "map (\<lambda>x. coalesce (json_text env (sortObject env (if x = JUndefined then JNull else json_wire x))) ''null'') xs
      = map (\<lambda>x. coalesce (json_text env (sortObject env x)) ''null'') xs"
    using JArray by (auto simp: list_all_iff)
  then show ?case by (simp add: comp_def del: map_eq_conv)
next
  case (JObject es)
  let ?c = "by_key (locale_compare env)" and ?P = "\<lambda>e :: string \<times> json. snd e \<noteq> JUndefined"
  let ?t = "\<lambda>f e. case json_text env (sortObject env (f (snd e))) of None \<Rightarrow> [] | Some t \<Rightarrow> [(fst e, t)]"
  let ?S = "js_sort ?c es"
  have d: "distinct es" "linear_on ?c (set es)"
    using JObject.prems linear_by_key [of es "locale_compare env"] by (auto simp: distinct_map)
  have "js_sort ?c (map (\<lambda>e. (fst e, json_wire (snd e))) (filter ?P es)) =
      map (\<lambda>e. (fst e, json_wire (snd e))) (js_sort ?c (filter ?P es))"
    by (rule js_sort_map) (simp add: by_key_def)
  then have s: "js_sort ?c (map (\<lambda>e. (fst e, json_wire (snd e))) (filter ?P es)) =
      map (\<lambda>e. (fst e, json_wire (snd e))) (filter ?P ?S)"
    using filter_js_sort [OF d, of ?P] by simp
  have "concat (map (?t json_wire) (filter ?P zs)) = concat (map (?t id) zs)" if "set zs \<subseteq> set es" for zs
    using that
  proof (induction zs)
    case (Cons z zs)
    then have "?t json_wire z = ?t id z"
      using JObject.IH [of z "snd z"] JObject.prems by (auto simp: list_all_iff snds.simps)
    with Cons show ?case by auto
  qed simp
  from this [of ?S] s show ?case by (simp add: comp_def cong: option.case_cong)
qed (simp_all add: is_finite_def split: js_number.splits)

lemma keys_wire: "keys_ordered env v \<Longrightarrow> keys_ordered env (json_wire v)"
proof (induction v)
  case (JArray xs)
  then show ?case by (auto simp: list_all_iff)
next
  case (JObject es)
  let ?fs = "filter (\<lambda>e. snd e \<noteq> JUndefined) es"
  have "distinct (map fst ?fs)" using JObject.prems by (simp add: distinct_map_filter)
  moreover have "linear_on (locale_compare env) (set (map fst ?fs))"
    using JObject.prems by (auto intro: linear_on_subset)
  moreover have "list_all (\<lambda>e. keys_ordered env (json_wire (snd e))) ?fs"
    using JObject by (auto simp: list_all_iff snds.simps)
  ultimately show ?case by (simp add: comp_def list_all_iff)
qed simp_all

lemma keys_jsonb: "keys_ordered env v \<Longrightarrow> keys_ordered env (jsonb_value v)"
proof (induction v)
  case (JArray xs)
  then show ?case by (auto simp: list_all_iff)
next
  case (JObject es)
  let ?g = "\<lambda>e. (fst e, jsonb_value (snd e))"
  let ?S = "js_sort (by_key jsonb_key_order) (map ?g es)"
  have "map fst ?S = map fst (js_sort (by_key jsonb_key_order) es)"
    by (subst js_sort_map [where c' = "by_key jsonb_key_order"]) (simp_all add: by_key_def)
  moreover have "distinct (map fst (js_sort (by_key jsonb_key_order) es))"
    using JObject.prems by (simp add: distinct_map distinct_js_sort)
  ultimately have "distinct (map fst ?S)" by simp
  moreover have "set (map fst ?S) = set (map fst es)" by (simp add: image_image)
  moreover have "list_all (\<lambda>e. keys_ordered env (snd e)) ?S"
    using JObject by (auto simp: list_all_iff snds.simps)
  ultimately show ?case using JObject.prems by simp
qed simp_all

text \<open>What a \<open>jsonb\<close> column gives back reads as the same stable text.\<close>

lemma stable_column: "keys_ordered env v \<Longrightarrow> stableJson env (json_wire (jsonb_value (json_wire v))) = stableJson env v"
  using stable_wire [OF keys_jsonb [OF keys_wire]] sort_jsonb [OF keys_wire] stable_wire
  by (simp add: stableJson_def)

end
