(* ===== verification/Executions.thy ===== *)
theory Executions
  imports PaymentIntentValidation PaymentTypes JsonText
begin

text \<open>
  \<open>src/executions\<close> and \<open>src/storage/memory/inMemoryExecutionRepository.ts\<close>: executions of confirmed
  payments, the lease under which a worker advances one, the attempts and events it leaves, and the
  receipts of settled executions. Times are compared as the strings they are.
\<close>

section \<open>Types\<close>

datatype execution_status = READY | SUBMITTING | X_PROCESSING | X_UNKNOWN | SETTLED | X_FAILED | CANCELLED

definition EXECUTION_STATUSES :: "execution_status list" where
  "EXECUTION_STATUSES = [READY, SUBMITTING, X_PROCESSING, X_UNKNOWN, SETTLED, X_FAILED, CANCELLED]"

fun execution_status_text :: "execution_status \<Rightarrow> string" where
  "execution_status_text READY = ''READY''"
| "execution_status_text SUBMITTING = ''SUBMITTING''"
| "execution_status_text X_PROCESSING = ''PROCESSING''"
| "execution_status_text X_UNKNOWN = ''UNKNOWN''"
| "execution_status_text SETTLED = ''SETTLED''"
| "execution_status_text X_FAILED = ''FAILED''"
| "execution_status_text CANCELLED = ''CANCELLED''"

datatype execution_operation = SUBMIT | RECONCILE

record payment_execution =
  ex_executionId :: string
  ex_paymentIntentId :: string
  ex_actorSubject :: string
  ex_status :: execution_status
  ex_version :: int
  ex_selectedRail :: string
  ex_runtimeContractVersion :: nat
  ex_adapterVersion :: nat
  ex_providerIdempotencyKey :: string
  ex_providerReference :: "string option"
  ex_reconciliationReference :: "string option"
  ex_attemptCount :: nat
  ex_observationSequence :: int
  ex_nextAttemptAt :: "string option"
  ex_lastReconciledAt :: "string option"
  ex_failureCode :: "string option"
  ex_failureCategory :: "string option"
  ex_failureRetryable :: "bool option"
  ex_reviewReason :: "string option"
  ex_settlementEvidence :: "json option"
  ex_createdAt :: string
  ex_startedAt :: "string option"
  ex_submittedAt :: "string option"
  ex_settledAt :: "string option"
  ex_failedAt :: "string option"
  ex_cancelledAt :: "string option"
  ex_updatedAt :: string
  ex_leaseOwner :: "string option"
  ex_leaseExpiresAt :: "string option"

record execution_attempt =
  at_attemptId :: string
  at_executionId :: string
  at_attemptNumber :: nat
  at_operation :: execution_operation
  at_startedAt :: string
  at_completedAt :: "string option"
  at_outcome :: "execution_status option"
  at_failureCode :: "string option"
  at_sideEffect :: "string option"
  at_recoveryAction :: "string option"
  at_evidence :: "json option"

record execution_event =
  ee_id :: int
  ee_executionId :: string
  ee_sequenceNumber :: nat
  ee_eventType :: string
  ee_fromStatus :: "execution_status option"
  ee_toStatus :: "execution_status option"
  ee_details :: json_object
  ee_occurredAt :: string

record create_execution_input =
  xc_executionId :: string
  xc_paymentIntentId :: string
  xc_actorSubject :: string
  xc_providerIdempotencyKey :: string
  xc_now :: string

record complete_operation_input =
  oc_executionId :: string
  oc_expectedVersion :: int
  oc_leaseOwner :: string
  oc_attemptId :: string
  oc_operation :: execution_operation
  oc_toStatus :: execution_status
  oc_completedAt :: string
  oc_providerReference :: "string option"
  oc_reconciliationReference :: "string option"
  oc_submittedAt :: "string option"
  oc_settledAt :: "string option"
  oc_failedAt :: "string option"
  oc_failureCode :: "string option"
  oc_failureCategory :: "string option"
  oc_failureRetryable :: "bool option"
  oc_reviewReason :: "string option"
  oc_evidence :: "json option"
  oc_recoveryAction :: "string option"
  oc_sideEffect :: "string option"
  oc_nextAttemptAt :: "string option"
  oc_observationSequence :: "int option"

record execution_receipt =
  er_receiptId :: string
  er_paymentIntentId :: string
  er_executionId :: string
  er_actorSubject :: string
  er_runtimeTransactionId :: string
  er_rail :: string
  er_asset :: string
  er_amountUnits :: string
  er_amountDecimals :: "nat option"
  er_senderId :: string
  er_recipientId :: string
  er_recipientSnapshot :: "payment_identity_snapshot option"
  er_memo :: "string option"
  er_providerReference :: "string option"
  er_settledAt :: string
  er_evidenceType :: string
  er_evidenceVersion :: nat
  er_evidence :: json
  er_schemaVersion :: nat
  er_requestHash :: string
  er_createdAt :: string

section \<open>Transitions\<close>

fun ALLOWED_EXECUTION_TRANSITIONS :: "execution_status \<Rightarrow> execution_status list" where
  "ALLOWED_EXECUTION_TRANSITIONS READY = [SUBMITTING, CANCELLED]"
| "ALLOWED_EXECUTION_TRANSITIONS SUBMITTING = [X_PROCESSING, X_UNKNOWN, X_FAILED]"
| "ALLOWED_EXECUTION_TRANSITIONS X_PROCESSING = [SETTLED, X_UNKNOWN, X_FAILED]"
| "ALLOWED_EXECUTION_TRANSITIONS X_UNKNOWN = [X_PROCESSING, SETTLED, X_FAILED]"
| "ALLOWED_EXECUTION_TRANSITIONS SETTLED = []"
| "ALLOWED_EXECUTION_TRANSITIONS X_FAILED = []"
| "ALLOWED_EXECUTION_TRANSITIONS CANCELLED = []"

definition assertExecutionTransition :: "execution_status \<Rightarrow> execution_status \<Rightarrow> unit result" where
  "assertExecutionTransition s t =
     (if s = t then Inr ()
      else if t \<notin> set (ALLOWED_EXECUTION_TRANSITIONS s)
      then throw (''Invalid execution transition '' @ execution_status_text s @ '' -> '' @ execution_status_text t @ ''.'')
      else Inr ())"

section \<open>The repository\<close>

record execution_store =
  xs_executions :: "(string, payment_execution) js_map"
  xs_byIntent :: "(string, string) js_map"
  xs_attempts :: "(string, execution_attempt list) js_map"
  xs_events :: "(string, execution_event list) js_map"
  xs_receipts :: "(string, execution_receipt) js_map"
  xs_nextEventId :: int

definition empty_execution_store :: execution_store where
  "empty_execution_store = \<lparr>xs_executions = [], xs_byIntent = [], xs_attempts = [], xs_events = [], xs_receipts = [],
     xs_nextEventId = 1\<rparr>"

text \<open>\<open>JSON.parse(JSON.stringify(value))\<close>, and the clones of what is handed out.\<close>

definition clone_execution :: "payment_execution \<Rightarrow> payment_execution" where
  "clone_execution e = e\<lparr>ex_settlementEvidence := map_option json_wire (ex_settlementEvidence e)\<rparr>"

definition clone_execution_receipt :: "execution_receipt \<Rightarrow> execution_receipt" where
  "clone_execution_receipt r = r\<lparr>er_evidence := json_wire (er_evidence r)\<rparr>"

definition once_only :: "string \<Rightarrow> bool" where
  "once_only ty = (ty \<in> set [''execution_created'', ''execution_settled'', ''receipt_created''])"

definition append_execution_event ::
  "string \<Rightarrow> string \<Rightarrow> execution_status option \<Rightarrow> execution_status \<Rightarrow> string \<Rightarrow> execution_store \<Rightarrow> execution_store" where
  "append_execution_event executionId ty fromStatus toStatus occurredAt s =
     (let list = coalesce (js_get (xs_events s) executionId) [] in
      if once_only ty \<and> list_ex (\<lambda>e. ee_eventType e = ty) list then s
      else s\<lparr>xs_nextEventId := xs_nextEventId s + 1,
        xs_events := js_set (xs_events s) executionId (list @ [\<lparr>ee_id = xs_nextEventId s, ee_executionId = executionId,
          ee_sequenceNumber = length list + 1, ee_eventType = ty, ee_fromStatus = fromStatus, ee_toStatus = Some toStatus,
          ee_details = [], ee_occurredAt = occurredAt\<rparr>])\<rparr>)"

definition new_execution :: "create_execution_input \<Rightarrow> payment_execution" where
  "new_execution i = \<lparr>ex_executionId = xc_executionId i, ex_paymentIntentId = xc_paymentIntentId i,
     ex_actorSubject = xc_actorSubject i, ex_status = READY, ex_version = 0, ex_selectedRail = ''mock'',
     ex_runtimeContractVersion = 1, ex_adapterVersion = 1, ex_providerIdempotencyKey = xc_providerIdempotencyKey i,
     ex_providerReference = None, ex_reconciliationReference = None, ex_attemptCount = 0, ex_observationSequence = 0,
     ex_nextAttemptAt = None, ex_lastReconciledAt = None, ex_failureCode = None, ex_failureCategory = None,
     ex_failureRetryable = None, ex_reviewReason = None, ex_settlementEvidence = None, ex_createdAt = xc_now i,
     ex_startedAt = None, ex_submittedAt = None, ex_settledAt = None, ex_failedAt = None, ex_cancelledAt = None,
     ex_updatedAt = xc_now i, ex_leaseOwner = None, ex_leaseExpiresAt = None\<rparr>"

text \<open>\<open>this.executions.get(id)!\<close> followed by a member access: a missing entry is a TypeError.\<close>

definition require_execution :: "execution_store \<Rightarrow> string \<Rightarrow> payment_execution result" where
  "require_execution s k = (case js_get (xs_executions s) k of
     None \<Rightarrow> throw ''Cannot read properties of undefined (reading 'settlementEvidence')'' | Some e \<Rightarrow> Inr e)"

definition createOrGet :: "create_execution_input \<Rightarrow> execution_store \<Rightarrow> (execution_store, payment_execution \<times> bool) outcome" where
  "createOrGet i s =
     (if truthy (js_get (xs_byIntent s) (xc_paymentIntentId i))
      then (and_then (require_execution s (the (js_get (xs_byIntent s) (xc_paymentIntentId i))))
              (\<lambda>e. Inr (clone_execution e, False)), s)
      else let value = new_execution i in
        (Inr (clone_execution value, True),
         append_execution_event (ex_executionId value) ''execution_created'' None READY (xc_now i)
           (s\<lparr>xs_executions := js_set (xs_executions s) (ex_executionId value) value,
              xs_byIntent := js_set (xs_byIntent s) (ex_paymentIntentId value) (ex_executionId value)\<rparr>)))"

definition findByPaymentIntent :: "execution_store \<Rightarrow> string \<Rightarrow> payment_execution option result" where
  "findByPaymentIntent s pid =
     (if truthy (js_get (xs_byIntent s) pid)
      then and_then (require_execution s (the (js_get (xs_byIntent s) pid))) (\<lambda>e. Inr (Some (clone_execution e)))
      else Inr None)"

definition findReceiptByPaymentIntent :: "execution_store \<Rightarrow> string \<Rightarrow> execution_receipt option" where
  "findReceiptByPaymentIntent s pid = map_option clone_execution_receipt (js_get (xs_receipts s) pid)"

text \<open>\<open>!time || time <= now\<close>\<close>

definition due :: "string option \<Rightarrow> string \<Rightarrow> bool" where
  "due t now = (\<not> truthy t \<or> (case t of None \<Rightarrow> True | Some x \<Rightarrow> byte_order x now \<le> 0))"

definition claimable :: "execution_status list \<Rightarrow> string \<Rightarrow> payment_execution \<Rightarrow> bool" where
  "claimable statuses now e = (ex_status e \<in> set statuses \<and> due (ex_nextAttemptAt e) now \<and> due (ex_leaseExpiresAt e) now)"

definition leased :: "string \<Rightarrow> string \<Rightarrow> string \<Rightarrow> payment_execution \<Rightarrow> payment_execution" where
  "leased workerId now expiresAt e = e\<lparr>ex_status := (if ex_status e = READY then SUBMITTING else ex_status e),
     ex_version := ex_version e + 1, ex_attemptCount := ex_attemptCount e + 1,
     ex_startedAt := Some (coalesce (ex_startedAt e) now), ex_leaseOwner := Some workerId,
     ex_leaseExpiresAt := Some expiresAt, ex_updatedAt := now\<rparr>"

definition claim_execution ::
  "string \<Rightarrow> execution_status list \<Rightarrow> string \<Rightarrow> string \<Rightarrow> string \<Rightarrow> execution_store \<Rightarrow>
   (payment_execution \<times> execution_attempt) option \<times> execution_store" where
  "claim_execution newId statuses workerId now expiresAt s =
     (case find (claimable statuses now) (js_values (xs_executions s)) of
        None \<Rightarrow> (None, s)
      | Some current \<Rightarrow>
          let operation = (if ex_status current = READY then SUBMIT else RECONCILE);
              updated = leased workerId now expiresAt current in
          (Some (clone_execution updated, \<lparr>at_attemptId = newId, at_executionId = ex_executionId current,
             at_attemptNumber = ex_attemptCount updated, at_operation = operation, at_startedAt = now,
             at_completedAt = None, at_outcome = None, at_failureCode = None, at_sideEffect = None,
             at_recoveryAction = None, at_evidence = None\<rparr>),
           append_execution_event (ex_executionId current)
             (if operation = SUBMIT then ''submission_started'' else ''reconciliation_pending'')
             (Some (ex_status current)) (ex_status updated) now
             (s\<lparr>xs_executions := js_set (xs_executions s) (ex_executionId current) updated\<rparr>)))"

definition completion_event :: "complete_operation_input \<Rightarrow> string" where
  "completion_event i =
     (if oc_toStatus i = SETTLED then ''execution_settled''
      else if oc_operation i = SUBMIT
      then (if oc_toStatus i = X_PROCESSING then ''submission_accepted''
            else if oc_toStatus i = X_UNKNOWN then ''submission_unknown'' else ''submission_failed'')
      else (if oc_toStatus i = X_PROCESSING then ''reconciliation_pending''
            else if oc_toStatus i = X_UNKNOWN then ''submission_unknown'' else ''reconciliation_failed''))"

definition completed :: "complete_operation_input \<Rightarrow> payment_execution \<Rightarrow> payment_execution" where
  "completed i e = e\<lparr>ex_status := oc_toStatus i, ex_version := ex_version e + 1,
     ex_providerReference := defined (oc_providerReference i) (ex_providerReference e),
     ex_reconciliationReference := defined (oc_reconciliationReference i) (ex_reconciliationReference e),
     ex_submittedAt := defined (oc_submittedAt i) (ex_submittedAt e), ex_settledAt := defined (oc_settledAt i) (ex_settledAt e),
     ex_failedAt := defined (oc_failedAt i) (ex_failedAt e), ex_failureCode := defined (oc_failureCode i) (ex_failureCode e),
     ex_failureCategory := defined (oc_failureCategory i) (ex_failureCategory e),
     ex_failureRetryable := defined (oc_failureRetryable i) (ex_failureRetryable e),
     ex_reviewReason := defined (oc_reviewReason i) (ex_reviewReason e),
     ex_settlementEvidence := defined (map_option json_wire (oc_evidence i)) (ex_settlementEvidence e),
     ex_nextAttemptAt := oc_nextAttemptAt i,
     ex_observationSequence := coalesce (oc_observationSequence i) (ex_observationSequence e),
     ex_lastReconciledAt := (if oc_operation i = RECONCILE then Some (oc_completedAt i) else ex_lastReconciledAt e),
     ex_leaseOwner := None, ex_leaseExpiresAt := None, ex_updatedAt := oc_completedAt i\<rparr>"

definition completed_attempt :: "complete_operation_input \<Rightarrow> payment_execution \<Rightarrow> execution_attempt" where
  "completed_attempt i e = \<lparr>at_attemptId = oc_attemptId i, at_executionId = ex_executionId e,
     at_attemptNumber = ex_attemptCount e, at_operation = oc_operation i, at_startedAt = ex_updatedAt e,
     at_completedAt = Some (oc_completedAt i), at_outcome = Some (oc_toStatus i), at_failureCode = oc_failureCode i,
     at_sideEffect = oc_sideEffect i, at_recoveryAction = oc_recoveryAction i,
     at_evidence = map_option json_wire (oc_evidence i)\<rparr>"

definition completeUnsafe ::
  "complete_operation_input \<Rightarrow> execution_store \<Rightarrow> (execution_store, payment_execution) outcome" where
  "completeUnsafe i s = (case js_get (xs_executions s) (oc_executionId i) of
     None \<Rightarrow> (throw ''Execution not found.'', s)
   | Some current \<Rightarrow>
       if ex_version current \<noteq> oc_expectedVersion i \<or> ex_leaseOwner current \<noteq> Some (oc_leaseOwner i)
       then (throw ''Execution version or lease conflict.'', s)
       else when_ok (assertExecutionTransition (ex_status current) (oc_toStatus i)) s (\<lambda>_.
         if truthy (ex_providerReference current) \<and> truthy (oc_providerReference i) \<and>
            ex_providerReference current \<noteq> oc_providerReference i
         then (throw ''Provider reference is immutable.'', s)
         else let updated = completed i current;
                  attempts = coalesce (js_get (xs_attempts s) (ex_executionId current)) [];
                  attempt = completed_attempt i current in
           (Inr (clone_execution updated),
            append_execution_event (ex_executionId current) (completion_event i) (Some (ex_status current)) (oc_toStatus i)
              (oc_completedAt i)
              (s\<lparr>xs_executions := js_set (xs_executions s) (ex_executionId current) updated,
                 xs_attempts := js_set (xs_attempts s) (ex_executionId current) (attempts @ [attempt])\<rparr>))))"

definition completeSettlement ::
  "complete_operation_input \<Rightarrow> execution_receipt \<Rightarrow> execution_store \<Rightarrow>
   (execution_store, payment_execution \<times> execution_receipt) outcome" where
  "completeSettlement i r s =
     (if oc_toStatus i \<noteq> SETTLED then (throw ''Settlement completion must be SETTLED.'', s)
      else case js_get (xs_receipts s) (er_paymentIntentId r) of
        Some existing \<Rightarrow>
          (case js_get (xs_executions s) (oc_executionId i) of
             None \<Rightarrow> (throw ''Receipt idempotency conflict.'', s)
           | Some e \<Rightarrow> if ex_status e \<noteq> SETTLED \<or> er_receiptId existing \<noteq> er_receiptId r
               then (throw ''Receipt idempotency conflict.'', s)
               else (Inr (clone_execution e, clone_execution_receipt existing), s))
      | None \<Rightarrow>
          (case js_get (xs_executions s) (oc_executionId i) of
             None \<Rightarrow> (throw ''Receipt ownership mismatch.'', s)
           | Some current \<Rightarrow>
               if ex_paymentIntentId current \<noteq> er_paymentIntentId r \<or> ex_actorSubject current \<noteq> er_actorSubject r
               then (throw ''Receipt ownership mismatch.'', s)
               else then_do (completeUnsafe i s) (\<lambda>e s1.
                 (Inr (e, clone_execution_receipt r),
                  append_execution_event (ex_executionId e) ''receipt_created'' (Some SETTLED) SETTLED (er_createdAt r)
                    (s1\<lparr>xs_receipts := js_set (xs_receipts s1) (er_paymentIntentId r) (clone_execution_receipt r)\<rparr>)))))"

definition listAttempts :: "execution_store \<Rightarrow> string \<Rightarrow> execution_attempt list" where
  "listAttempts s k = map (\<lambda>a. a\<lparr>at_evidence := map_option json_wire (at_evidence a)\<rparr>) (coalesce (js_get (xs_attempts s) k) [])"

definition listEvents :: "execution_store \<Rightarrow> string \<Rightarrow> execution_event list" where
  "listEvents s k = coalesce (js_get (xs_events s) k) []"

section \<open>What is shown\<close>

text \<open>\<open>slice(0, -n)\<close> and \<open>slice(-n)\<close>: with \<open>n = 0\<close> the bounds are both 0.\<close>

definition slice_before :: "nat \<Rightarrow> string \<Rightarrow> string" where
  "slice_before n s = (if n = 0 then '''' else take (length s - n) s)"

definition slice_last :: "nat \<Rightarrow> string \<Rightarrow> string" where
  "slice_last n s = (if n = 0 then s else drop (length s - n) s)"

definition formatAmount :: "string \<Rightarrow> nat \<Rightarrow> string" where
  "formatAmount units decimals =
     (let padded = pad_start (decimals + 1) units;
          whole = (if slice_before decimals padded = '''' then ''0'' else slice_before decimals padded);
          fraction = strip_zeros (slice_last decimals padded)
      in if fraction \<noteq> '''' then whole @ ''.'' @ fraction else whole)"

datatype execution_recipient =
    WalletRecipient
  | IdentityRecipient string string string string

record public_execution_receipt =
  ur_receiptId :: string
  ur_paymentIntentId :: string
  ur_executionId :: string
  ur_status :: string
  ur_amountRaw :: string
  ur_amount :: string
  ur_asset :: string
  ur_sender :: string
  ur_recipient :: execution_recipient
  ur_memo :: "string option"
  ur_rail :: "string \<times> string"
  ur_settledAt :: string
  ur_providerReference :: "string option"
  ur_receiptSchemaVersion :: nat
  ur_evidenceType :: string
  ur_evidenceVersion :: nat
  ur_requestHash :: string

definition rail_label :: "string \<Rightarrow> string \<times> string" where
  "rail_label rail = (if rail = ''solana'' then (''solana'', ''Solana Devnet'') else (''mock'', ''Mock Rail''))"

definition snapshot_recipient :: "payment_identity_snapshot option \<Rightarrow> execution_recipient" where
  "snapshot_recipient sn = (case sn of None \<Rightarrow> WalletRecipient
   | Some x \<Rightarrow> IdentityRecipient (sn_displayName x) (sn_username x) (js_lower (sn_verificationState x))
       (js_lower (trust_text (sn_trustOutcome x))))"

definition toPublicReceipt :: "execution_receipt \<Rightarrow> public_execution_receipt" where
  "toPublicReceipt r = \<lparr>ur_receiptId = er_receiptId r, ur_paymentIntentId = er_paymentIntentId r,
     ur_executionId = er_executionId r, ur_status = ''settled'', ur_amountRaw = er_amountUnits r,
     ur_amount = formatAmount (er_amountUnits r) (coalesce (er_amountDecimals r) 6), ur_asset = er_asset r,
     ur_sender = ''You'', ur_recipient = snapshot_recipient (er_recipientSnapshot r), ur_memo = er_memo r,
     ur_rail = rail_label (er_rail r), ur_settledAt = er_settledAt r,
     ur_providerReference = (if truthy (er_providerReference r) then er_providerReference r else None),
     ur_receiptSchemaVersion = 1, ur_evidenceType = er_evidenceType r, ur_evidenceVersion = er_evidenceVersion r,
     ur_requestHash = er_requestHash r\<rparr>"

record public_execution =
  ux_executionId :: string
  ux_paymentIntentId :: string
  ux_status :: string
  ux_rail :: "string \<times> string"
  ux_createdAt :: string
  ux_submittedAt :: "string option"
  ux_settledAt :: "string option"
  ux_failedAt :: "string option"
  ux_receiptAvailable :: bool
  ux_receiptId :: "string option"
  ux_failure :: "(string \<times> string) option"
  ux_retryAllowed :: bool
  ux_stillProcessing :: bool
  ux_reconciliationPending :: bool

definition safeFailure :: "string option \<Rightarrow> string \<times> string" where
  "safeFailure code = (if code = Some ''REJECTED'' then (''PAYMENT_DECLINED'', ''The payment could not be completed.'')
     else (''EXECUTION_FAILED'', ''The payment could not be completed.''))"

definition toPublicExecution :: "payment_execution \<Rightarrow> string option \<Rightarrow> public_execution" where
  "toPublicExecution v receiptId = \<lparr>ux_executionId = ex_executionId v, ux_paymentIntentId = ex_paymentIntentId v,
     ux_status = (if ex_status v = READY then ''ready''
       else if ex_status v \<in> set [SUBMITTING, X_PROCESSING] then ''processing''
       else if ex_status v = X_UNKNOWN then ''pending'' else js_lower (execution_status_text (ex_status v))),
     ux_rail = rail_label (ex_selectedRail v), ux_createdAt = ex_createdAt v,
     ux_submittedAt = (if truthy (ex_submittedAt v) then ex_submittedAt v else None),
     ux_settledAt = (if truthy (ex_settledAt v) then ex_settledAt v else None),
     ux_failedAt = (if truthy (ex_failedAt v) then ex_failedAt v else None),
     ux_receiptAvailable = (receiptId \<noteq> None), ux_receiptId = (if truthy receiptId then receiptId else None),
     ux_failure = (if ex_status v = X_FAILED then Some (safeFailure (ex_failureCode v)) else None),
     ux_retryAllowed = False, ux_stillProcessing = (ex_status v \<in> set [SUBMITTING, X_PROCESSING, X_UNKNOWN]),
     ux_reconciliationPending = (ex_status v = X_UNKNOWN)\<rparr>"

end
