(* ===== verification/ExecutionProperties.thy ===== *)
theory ExecutionProperties
  imports Executions Versioned
begin

text \<open>
  What holds of every state the execution repository can reach from an empty one: the trail of events
  of an execution, the count of its attempts, its place in the index of payment intents, and the
  settled execution behind every receipt.
\<close>

section \<open>Well-formed repositories\<close>

text \<open>A trail of events walks along the allowed transitions.\<close>

definition move_allowed :: "execution_status option \<Rightarrow> execution_status option \<Rightarrow> bool" where
  "move_allowed a b = (case (a, b) of
     (None, Some t) \<Rightarrow> t = READY
   | (Some s, Some t) \<Rightarrow> s = t \<or> t \<in> set (ALLOWED_EXECUTION_TRANSITIONS s)
   | _ \<Rightarrow> False)"

fun walk :: "execution_status option \<Rightarrow> execution_event list \<Rightarrow> execution_status option option" where
  "walk a [] = Some a"
| "walk a (e # es) =
     (if ee_fromStatus e = a \<and> move_allowed a (ee_toStatus e) then walk (ee_toStatus e) es else None)"

lemma walk_append: "walk a (es @ fs) = (case walk a es of None \<Rightarrow> None | Some b \<Rightarrow> walk b fs)"
  by (induction es arbitrary: a) auto

definition event_types :: "execution_event list \<Rightarrow> string list" where
  "event_types es = map ee_eventType es"

definition event_log_ok :: "string \<Rightarrow> execution_event list \<Rightarrow> execution_status \<Rightarrow> bool" where
  "event_log_ok k es st \<longleftrightarrow> walk None es = Some (Some st) \<and>
     map ee_sequenceNumber es = [1..<Suc (length es)] \<and> (\<forall>e\<in>set es. ee_executionId e = k) \<and>
     (\<forall>ty. once_only ty \<longrightarrow> count_list (event_types es) ty \<le> 1) \<and>
     (''execution_settled'' \<in> set (event_types es) \<longrightarrow> st = SETTLED)"

definition attempts_of :: "execution_store \<Rightarrow> string \<Rightarrow> execution_attempt list" where
  "attempts_of s k = coalesce (js_get (xs_attempts s) k) []"

definition attempt_numbers :: "execution_attempt list \<Rightarrow> nat list" where
  "attempt_numbers xs = map at_attemptNumber xs"

definition attempt_log_ok :: "execution_attempt list \<Rightarrow> payment_execution \<Rightarrow> bool" where
  "attempt_log_ok xs e \<longleftrightarrow> sorted_wrt (<) (attempt_numbers xs) \<and>
     (\<forall>n\<in>set (attempt_numbers xs). 1 \<le> n \<and> n \<le> ex_attemptCount e \<and> (ex_leaseOwner e \<noteq> None \<longrightarrow> n \<noteq> ex_attemptCount e)) \<and>
     ex_version e = int (ex_attemptCount e + length xs) \<and>
     (ex_leaseOwner e \<noteq> None \<longrightarrow> 1 \<le> ex_attemptCount e \<and> ex_status e \<noteq> READY)"

definition execution_ok :: "execution_store \<Rightarrow> string \<Rightarrow> payment_execution \<Rightarrow> bool" where
  "execution_ok s k e \<longleftrightarrow> ex_executionId e = k \<and> k \<noteq> '''' \<and> js_get (xs_byIntent s) (ex_paymentIntentId e) = Some k \<and>
     event_log_ok k (listEvents s k) (ex_status e) \<and> attempt_log_ok (attempts_of s k) e"

definition settled_receipt :: "execution_store \<Rightarrow> string \<Rightarrow> execution_receipt \<Rightarrow> bool" where
  "settled_receipt s p r \<longleftrightarrow> er_paymentIntentId r = p \<and>
     (\<exists>k e. js_get (xs_byIntent s) p = Some k \<and> js_get (xs_executions s) k = Some e \<and> ex_status e = SETTLED \<and>
        ex_actorSubject e = er_actorSubject r)"

definition executions_ok :: "execution_store \<Rightarrow> bool" where
  "executions_ok s \<longleftrightarrow> js_keys_distinct (xs_executions s) \<and>
     (\<forall>k e. js_get (xs_executions s) k = Some e \<longrightarrow> execution_ok s k e) \<and>
     (\<forall>k. js_get (xs_executions s) k = None \<longrightarrow> listEvents s k = [] \<and> attempts_of s k = []) \<and>
     (\<forall>p k. js_get (xs_byIntent s) p = Some k \<longrightarrow>
        (\<exists>e. js_get (xs_executions s) k = Some e \<and> ex_paymentIntentId e = p)) \<and>
     (\<forall>p r. js_get (xs_receipts s) p = Some r \<longrightarrow> settled_receipt s p r)"

lemma executions_ok_empty: "executions_ok empty_execution_store"
  by (simp add: executions_ok_def empty_execution_store_def listEvents_def attempts_of_def)

lemma executions_okD:
  assumes "executions_ok s"
  shows "js_get (xs_executions s) k = Some e \<Longrightarrow> execution_ok s k e"
    and "js_get (xs_executions s) k = None \<Longrightarrow> listEvents s k = []"
    and "js_get (xs_executions s) k = None \<Longrightarrow> attempts_of s k = []"
    and "js_get (xs_byIntent s) p = Some k \<Longrightarrow> \<exists>e. js_get (xs_executions s) k = Some e \<and> ex_paymentIntentId e = p"
    and "js_get (xs_receipts s) p = Some r \<Longrightarrow> settled_receipt s p r"
    and "js_keys_distinct (xs_executions s)"
  using assms by (auto simp: executions_ok_def)

section \<open>Appending events\<close>

definition next_execution_event ::
  "execution_store \<Rightarrow> string \<Rightarrow> string \<Rightarrow> execution_status option \<Rightarrow> execution_status \<Rightarrow> string \<Rightarrow> execution_event" where
  "next_execution_event s k ty st0 st1 now = \<lparr>ee_id = xs_nextEventId s, ee_executionId = k,
     ee_sequenceNumber = length (listEvents s k) + 1, ee_eventType = ty, ee_fromStatus = st0, ee_toStatus = Some st1,
     ee_details = [], ee_occurredAt = now\<rparr>"

lemma next_execution_event_simps [simp]:
  "ee_executionId (next_execution_event s k ty st0 st1 now) = k"
  "ee_sequenceNumber (next_execution_event s k ty st0 st1 now) = length (listEvents s k) + 1"
  "ee_eventType (next_execution_event s k ty st0 st1 now) = ty"
  "ee_fromStatus (next_execution_event s k ty st0 st1 now) = st0"
  "ee_toStatus (next_execution_event s k ty st0 st1 now) = Some st1"
  by (simp_all add: next_execution_event_def)

lemma append_parts [simp]:
  "xs_executions (append_execution_event k ty st0 st1 now s) = xs_executions s"
  "xs_byIntent (append_execution_event k ty st0 st1 now s) = xs_byIntent s"
  "xs_attempts (append_execution_event k ty st0 st1 now s) = xs_attempts s"
  "xs_receipts (append_execution_event k ty st0 st1 now s) = xs_receipts s"
  "attempts_of (append_execution_event k ty st0 st1 now s) k' = attempts_of s k'"
  by (simp_all add: append_execution_event_def attempts_of_def Let_def)

lemma append_events:
  "listEvents (append_execution_event k ty st0 st1 now s) k' =
     (if k' \<noteq> k \<or> once_only ty \<and> ty \<in> set (event_types (listEvents s k)) then listEvents s k'
      else listEvents s k @ [next_execution_event s k ty st0 st1 now])"
  by (auto simp: append_execution_event_def listEvents_def event_types_def next_execution_event_def Let_def list_ex_iff)

lemma events_of_parts [simp]:
  "listEvents (s\<lparr>xs_executions := x\<rparr>) k = listEvents s k"
  "listEvents (s\<lparr>xs_byIntent := b\<rparr>) k = listEvents s k"
  "listEvents (s\<lparr>xs_attempts := a\<rparr>) k = listEvents s k"
  "listEvents (s\<lparr>xs_receipts := r\<rparr>) k = listEvents s k"
  "attempts_of (s\<lparr>xs_executions := x\<rparr>) k = attempts_of s k"
  "attempts_of (s\<lparr>xs_byIntent := b\<rparr>) k = attempts_of s k"
  "attempts_of (s\<lparr>xs_receipts := r\<rparr>) k = attempts_of s k"
  by (simp_all add: listEvents_def attempts_of_def)

text \<open>One more event keeps a log in order when its move is allowed and a settlement mark means settled.\<close>

lemma event_log_snoc:
  assumes log: "event_log_ok k (listEvents s k) st0" and move: "move_allowed (Some st0) (Some st1)"
    and "ty \<noteq> ''execution_created''" and "ty = ''receipt_created'' \<Longrightarrow> st0 = st1"
    and "ty = ''execution_settled'' \<Longrightarrow> st1 = SETTLED"
  shows "event_log_ok k (listEvents (append_execution_event k ty (Some st0) st1 now s) k) st1"
proof (cases "once_only ty \<and> ty \<in> set (event_types (listEvents s k))")
  case True
  have "st0 = st1"
  proof (cases "ty = ''receipt_created''")
    case False
    with True assms(3) have "ty = ''execution_settled''" by (auto simp: once_only_def)
    with True log assms(5) show ?thesis by (auto simp: event_log_ok_def)
  qed (rule assms(4))
  with True log show ?thesis by (simp add: append_events)
next
  case False
  have "st1 = SETTLED" if "st0 = SETTLED" using move that by (simp add: move_allowed_def)
  with False log move assms(5) show ?thesis
    by (auto simp: append_events event_log_ok_def walk_append event_types_def count_list_0_iff)
qed

lemma event_log_first:
  "event_log_ok k [next_execution_event s k ''execution_created'' None READY now] READY" if "listEvents s k = []"
  using that by (simp add: event_log_ok_def move_allowed_def event_types_def)

section \<open>What the operations preserve\<close>

text \<open>A change of one execution that keeps its identity and its logs in order.\<close>

lemma write_execution_ok:
  assumes ok: "executions_ok s" and e: "js_get (xs_executions s) k = Some e"
    and "xs_executions t = js_set (xs_executions s) k e'" and "xs_byIntent t = xs_byIntent s"
    and "xs_receipts t = xs_receipts s"
    and others: "\<And>k'. k' \<noteq> k \<Longrightarrow> listEvents t k' = listEvents s k' \<and> attempts_of t k' = attempts_of s k'"
    and same: "ex_executionId e' = ex_executionId e" "ex_paymentIntentId e' = ex_paymentIntentId e"
      "ex_actorSubject e' = ex_actorSubject e" "ex_status e = SETTLED \<Longrightarrow> ex_status e' = SETTLED"
    and logs: "event_log_ok k (listEvents t k) (ex_status e')" "attempt_log_ok (attempts_of t k) e'"
  shows "executions_ok t"
proof -
  note old = executions_okD [OF ok]
  have "execution_ok t k e'"
    using old(1) [OF e] same logs assms(4) by (simp add: execution_ok_def)
  moreover have "execution_ok t j x" if "j \<noteq> k" "js_get (xs_executions s) j = Some x" for j x
    using old(1) [OF that(2)] others [OF that(1)] assms(4) by (simp add: execution_ok_def)
  moreover have "settled_receipt t p r" if "js_get (xs_receipts s) p = Some r" for p r
    using old(5) [OF that] e same(3,4) assms(3,4) by (force simp: settled_receipt_def)
  moreover have "listEvents t j = [] \<and> attempts_of t j = []" if "j \<noteq> k" "js_get (xs_executions s) j = None" for j
    using old(2,3) [OF that(2)] others [OF that(1)] by simp
  moreover have "\<exists>x. js_get (xs_executions t) j = Some x \<and> ex_paymentIntentId x = p"
    if "js_get (xs_byIntent s) p = Some j" for p j
    using old(4) [OF that] e same(2) assms(3) by (cases "j = k") auto
  ultimately show ?thesis using assms(3-5) old(6) by (auto simp: executions_ok_def)
qed

lemma require_execution_ok:
  "executions_ok s \<Longrightarrow> js_get (xs_byIntent s) p = Some k \<Longrightarrow>
   \<exists>e. require_execution s k = Inr e \<and> js_get (xs_executions s) k = Some e \<and> ex_paymentIntentId e = p \<and> k \<noteq> ''''"
  using executions_okD(4) [of s p k] executions_okD(1) [of s k] by (auto simp: require_execution_def execution_ok_def)

lemma new_execution_simps [simp]:
  "ex_executionId (new_execution i) = xc_executionId i" "ex_paymentIntentId (new_execution i) = xc_paymentIntentId i"
  "ex_actorSubject (new_execution i) = xc_actorSubject i" "ex_status (new_execution i) = READY"
  "ex_version (new_execution i) = 0" "ex_attemptCount (new_execution i) = 0" "ex_leaseOwner (new_execution i) = None"
  by (simp_all add: new_execution_def)

lemma created_parts:
  assumes "\<not> truthy (js_get (xs_byIntent s) (xc_paymentIntentId i))"
  shows "snd (createOrGet i s) = append_execution_event (xc_executionId i) ''execution_created'' None READY (xc_now i)
    (s\<lparr>xs_executions := js_set (xs_executions s) (xc_executionId i) (new_execution i),
       xs_byIntent := js_set (xs_byIntent s) (xc_paymentIntentId i) (xc_executionId i)\<rparr>)"
  using assms unfolding createOrGet_def Let_def by simp

lemma create_ok:
  assumes ok: "executions_ok s" and fresh: "js_get (xs_executions s) (xc_executionId i) = None" "xc_executionId i \<noteq> ''''"
  shows "executions_ok (snd (createOrGet i s))"
proof (cases "truthy (js_get (xs_byIntent s) (xc_paymentIntentId i))")
  case False
  let ?k = "xc_executionId i" and ?p = "xc_paymentIntentId i"
  have free: "js_get (xs_byIntent s) ?p = None"
  proof (cases "js_get (xs_byIntent s) ?p")
    case (Some k)
    with require_execution_ok [OF ok this] False show ?thesis by auto
  qed
  note old = executions_okD [OF ok]
  let ?t = "snd (createOrGet i s)"
  note made = created_parts [OF False]
  have t: "xs_executions ?t = js_set (xs_executions s) ?k (new_execution i)"
    "xs_byIntent ?t = js_set (xs_byIntent s) ?p ?k" "xs_receipts ?t = xs_receipts s"
    "listEvents ?t j = (if j = ?k then [next_execution_event s ?k ''execution_created'' None READY (xc_now i)] else listEvents s j)"
    "attempts_of ?t j = attempts_of s j" for j
    using made old(2) [OF fresh(1)] by (simp_all add: append_events event_types_def next_execution_event_def)
  have "execution_ok ?t ?k (new_execution i)"
    using old(2,3) [OF fresh(1)] fresh(2) event_log_first [of s ?k]
    by (simp add: execution_ok_def t attempt_log_ok_def attempt_numbers_def)
  moreover have "execution_ok ?t j x" if "j \<noteq> ?k" "js_get (xs_executions s) j = Some x" for j x
    using old(1) [OF that(2)] free that(1) by (auto simp: execution_ok_def t)
  moreover have "settled_receipt ?t p r" if "js_get (xs_receipts s) p = Some r" for p r
  proof -
    from old(5) [OF that] obtain k e where "er_paymentIntentId r = p" "js_get (xs_byIntent s) p = Some k"
      "js_get (xs_executions s) k = Some e" "ex_status e = SETTLED" "ex_actorSubject e = er_actorSubject r"
      unfolding settled_receipt_def by blast
    moreover from this have "k \<noteq> ?k" "p \<noteq> ?p" using free fresh(1) by auto
    ultimately show ?thesis by (auto simp: settled_receipt_def t)
  qed
  moreover have "\<exists>x. js_get (xs_executions ?t) j = Some x \<and> ex_paymentIntentId x = p"
    if "js_get (xs_byIntent ?t) p = Some j" for p j
    using that old(4) [of p j] fresh(1) by (auto simp: t split: if_splits)
  ultimately show ?thesis using old(2,3,6) by (auto simp: executions_ok_def t)
qed (use ok in \<open>simp add: createOrGet_def\<close>)

lemma leased_simps [simp]:
  "ex_executionId (leased w now x e) = ex_executionId e" "ex_paymentIntentId (leased w now x e) = ex_paymentIntentId e"
  "ex_actorSubject (leased w now x e) = ex_actorSubject e"
  "ex_status (leased w now x e) = (if ex_status e = READY then SUBMITTING else ex_status e)"
  "ex_version (leased w now x e) = ex_version e + 1" "ex_attemptCount (leased w now x e) = ex_attemptCount e + 1"
  "ex_leaseOwner (leased w now x e) = Some w"
  by (simp_all add: leased_def)

lemma completed_simps [simp]:
  "ex_executionId (completed i e) = ex_executionId e" "ex_paymentIntentId (completed i e) = ex_paymentIntentId e"
  "ex_actorSubject (completed i e) = ex_actorSubject e" "ex_status (completed i e) = oc_toStatus i"
  "ex_version (completed i e) = ex_version e + 1" "ex_attemptCount (completed i e) = ex_attemptCount e"
  "ex_leaseOwner (completed i e) = None" "ex_leaseExpiresAt (completed i e) = None"
  by (simp_all add: completed_def)

lemma clone_execution_simps [simp]:
  "ex_executionId (clone_execution e) = ex_executionId e" "ex_paymentIntentId (clone_execution e) = ex_paymentIntentId e"
  "ex_actorSubject (clone_execution e) = ex_actorSubject e" "ex_status (clone_execution e) = ex_status e"
  "ex_version (clone_execution e) = ex_version e" "ex_attemptCount (clone_execution e) = ex_attemptCount e"
  "ex_leaseOwner (clone_execution e) = ex_leaseOwner e"
  by (simp_all add: clone_execution_def)

lemma clone_receipt_simps [simp]:
  "er_paymentIntentId (clone_execution_receipt r) = er_paymentIntentId r"
  "er_actorSubject (clone_execution_receipt r) = er_actorSubject r"
  "er_receiptId (clone_execution_receipt r) = er_receiptId r"
  by (simp_all add: clone_execution_receipt_def)

lemma claim_cases:
  assumes ok: "executions_ok s" and claim: "claim_execution newId statuses w now x s = (r, t)"
  obtains "r = None" "t = s"
  | k e a where "js_get (xs_executions s) k = Some e" "claimable statuses now e" "r = Some (clone_execution (leased w now x e), a)"
      "ex_executionId e = k" "at_attemptId a = newId" "at_executionId a = k" "at_attemptNumber a = ex_attemptCount e + 1"
      "at_operation a = (if ex_status e = READY then SUBMIT else RECONCILE)"
      "t = append_execution_event k (if ex_status e = READY then ''submission_started'' else ''reconciliation_pending'')
        (Some (ex_status e)) (ex_status (leased w now x e)) now
        (s\<lparr>xs_executions := js_set (xs_executions s) k (leased w now x e)\<rparr>)"
proof (cases "find (claimable statuses now) (js_values (xs_executions s))")
  case None
  with claim that(1) show ?thesis by (simp add: claim_execution_def)
next
  case (Some e)
  then have e: "e \<in> set (js_values (xs_executions s))" "claimable statuses now e"
    by (auto simp: find_Some_iff)
  obtain k where k: "js_get (xs_executions s) k = Some e"
    using js_values_in [OF executions_okD(6) [OF ok] e(1)] by blast
  with ok have id: "ex_executionId e = k" using executions_okD(1) by (simp add: execution_ok_def)
  show ?thesis
    by (rule that(2) [OF k e(2) _ id]) (use claim Some id in \<open>auto simp: claim_execution_def Let_def\<close>)
qed

lemma claim_ok:
  assumes ok: "executions_ok s" and claim: "claim_execution newId statuses w now x s = (r, t)"
  shows "executions_ok t"
  using ok claim
proof (cases rule: claim_cases)
  case (2 k e a)
  let ?u = "s\<lparr>xs_executions := js_set (xs_executions s) k (leased w now x e)\<rparr>"
  have e: "execution_ok s k e" using executions_okD(1) [OF ok 2(1)] .
  show ?thesis
  proof (rule write_execution_ok [OF ok 2(1), of t "leased w now x e"])
    show "attempt_log_ok (attempts_of t k) (leased w now x e)"
      using e by (auto simp: 2 execution_ok_def attempt_log_ok_def)
    have "event_log_ok k (listEvents ?u k) (ex_status e)" using e by (simp add: execution_ok_def)
    then show "event_log_ok k (listEvents t k) (ex_status (leased w now x e))"
      unfolding 2(9) by (rule event_log_snoc) (auto simp: move_allowed_def)
  qed (simp_all add: 2 append_events)
qed (use ok in simp)

lemma complete_cases:
  assumes "completeUnsafe i s = (r, t)"
  obtains e where "r = Inl e" "t = s"
  | k e where "k = oc_executionId i" "js_get (xs_executions s) k = Some e" "r = Inr (clone_execution (completed i e))"
      "ex_version e = oc_expectedVersion i" "ex_leaseOwner e = Some (oc_leaseOwner i)"
      "oc_toStatus i = ex_status e \<or> oc_toStatus i \<in> set (ALLOWED_EXECUTION_TRANSITIONS (ex_status e))"
      "t = append_execution_event (ex_executionId e) (completion_event i) (Some (ex_status e)) (oc_toStatus i) (oc_completedAt i)
           (s\<lparr>xs_executions := js_set (xs_executions s) (ex_executionId e) (completed i e),
              xs_attempts := js_set (xs_attempts s) (ex_executionId e)
                (attempts_of s (ex_executionId e) @ [completed_attempt i e])\<rparr>)"
proof (cases r)
  case (Inl err)
  with assms have "t = s"
    by (auto simp: completeUnsafe_def when_ok_def Let_def split: option.splits if_splits sum.splits)
  with Inl that(1) show ?thesis by blast
next
  case (Inr y)
  with assms obtain e where e: "js_get (xs_executions s) (oc_executionId i) = Some e"
    and v: "ex_version e = oc_expectedVersion i" "ex_leaseOwner e = Some (oc_leaseOwner i)"
    and tr: "assertExecutionTransition (ex_status e) (oc_toStatus i) = Inr ()"
    and res: "y = clone_execution (completed i e)" "t = append_execution_event (ex_executionId e) (completion_event i)
           (Some (ex_status e)) (oc_toStatus i) (oc_completedAt i)
           (s\<lparr>xs_executions := js_set (xs_executions s) (ex_executionId e) (completed i e),
              xs_attempts := js_set (xs_attempts s) (ex_executionId e)
                (attempts_of s (ex_executionId e) @ [completed_attempt i e])\<rparr>)"
    by (auto simp: completeUnsafe_def when_ok_def Let_def attempts_of_def split: option.splits if_splits sum.splits)
  from tr have "oc_toStatus i = ex_status e \<or> oc_toStatus i \<in> set (ALLOWED_EXECUTION_TRANSITIONS (ex_status e))"
    by (auto simp: assertExecutionTransition_def split: if_splits)
  then show ?thesis using that(2) [OF refl e _ v _ res(2)] Inr res(1) by blast
qed

text \<open>A settled execution stays settled, and a settlement mark is set only on a settled one.\<close>

lemma completion_event_settled [simp]:
  "completion_event i = ''execution_settled'' \<longleftrightarrow> oc_toStatus i = SETTLED"
  "completion_event i \<noteq> ''execution_created''" "completion_event i \<noteq> ''receipt_created''"
  by (auto simp: completion_event_def)

lemma complete_ok:
  assumes ok: "executions_ok s" and run: "completeUnsafe i s = (r, t)"
  shows "executions_ok t"
  using run
proof (cases rule: complete_cases)
  case (2 k e)
  have e: "execution_ok s k e" using executions_okD(1) [OF ok 2(2)] .
  then have id: "ex_executionId e = k" by (simp add: execution_ok_def)
  note t = 2(7) [unfolded id]
  let ?u = "s\<lparr>xs_executions := js_set (xs_executions s) k (completed i e),
              xs_attempts := js_set (xs_attempts s) k (attempts_of s k @ [completed_attempt i e])\<rparr>"
  have a: "at_attemptNumber (completed_attempt i e) = ex_attemptCount e" by (simp add: completed_attempt_def)
  have atts: "attempts_of t j = (if j = k then attempts_of s k @ [completed_attempt i e] else attempts_of s j)" for j
    by (simp add: t) (simp add: attempts_of_def)
  show ?thesis
  proof (rule write_execution_ok [OF ok 2(2), of t "completed i e"])
    have "attempt_log_ok (attempts_of s k) e" using e by (simp add: execution_ok_def)
    then show "attempt_log_ok (attempts_of t k) (completed i e)"
      using 2(5) a by (auto simp: atts attempt_log_ok_def attempt_numbers_def sorted_wrt_append order_less_le)
    have "event_log_ok k (listEvents ?u k) (ex_status e)" using e by (simp add: execution_ok_def)
    then show "event_log_ok k (listEvents t k) (ex_status (completed i e))"
      unfolding t completed_simps
      by (rule event_log_snoc) (use 2(6) in \<open>auto simp: move_allowed_def\<close>)
    show "ex_status (completed i e) = SETTLED" if "ex_status e = SETTLED" using 2(6) that by simp
  qed (simp_all only: atts, simp_all add: t append_events)
qed (use ok in simp)

lemma js_set_same: "js_get m k = Some v \<Longrightarrow> js_set m k v = m"
  by (induction m) (auto simp: js_get_def js_set_def split: if_splits)

lemma receipt_added_ok:
  assumes ok: "executions_ok s" and e: "js_get (xs_executions s) k = Some e" "ex_status e = SETTLED"
    and r: "er_paymentIntentId r = ex_paymentIntentId e" "er_actorSubject r = ex_actorSubject e"
  shows "executions_ok (append_execution_event k ''receipt_created'' (Some SETTLED) SETTLED now
    (s\<lparr>xs_receipts := js_set (xs_receipts s) (er_paymentIntentId r) r\<rparr>))"
proof -
  let ?u = "s\<lparr>xs_receipts := js_set (xs_receipts s) (er_paymentIntentId r) r\<rparr>"
  note old = executions_okD [OF ok]
  have x: "execution_ok s k e" by (rule old(1) [OF e(1)])
  have ok': "executions_ok ?u"
    using ok e r x by (auto simp: executions_ok_def execution_ok_def settled_receipt_def)
  show ?thesis
  proof (rule write_execution_ok [OF ok', of k e _ e])
    have "event_log_ok k (listEvents ?u k) SETTLED" using x e(2) by (simp add: execution_ok_def)
    then show "event_log_ok k (listEvents
      (append_execution_event k ''receipt_created'' (Some SETTLED) SETTLED now ?u) k) (ex_status e)"
      unfolding e(2) by (rule event_log_snoc) (auto simp: move_allowed_def)
  qed (use x e js_set_same [OF e(1)] in \<open>simp_all add: append_events execution_ok_def\<close>)
qed

lemma settle_cases:
  assumes "completeSettlement i r s = (res, t)"
  obtains e where "res = Inl e" "t = s"
  | e x where "res = Inr (clone_execution e, clone_execution_receipt x)" "t = s"
      "js_get (xs_receipts s) (er_paymentIntentId r) = Some x" "er_receiptId x = er_receiptId r"
      "js_get (xs_executions s) (oc_executionId i) = Some e" "ex_status e = SETTLED"
  | e s1 where "res = Inr (clone_execution (completed i e), clone_execution_receipt r)" "oc_toStatus i = SETTLED"
      "js_get (xs_receipts s) (er_paymentIntentId r) = None"
      "js_get (xs_executions s) (oc_executionId i) = Some e"
      "ex_paymentIntentId e = er_paymentIntentId r" "ex_actorSubject e = er_actorSubject r"
      "completeUnsafe i s = (Inr (clone_execution (completed i e)), s1)"
      "t = append_execution_event (ex_executionId e) ''receipt_created'' (Some SETTLED) SETTLED (er_createdAt r)
        (s1\<lparr>xs_receipts := js_set (xs_receipts s1) (er_paymentIntentId r) (clone_execution_receipt r)\<rparr>)"
proof (cases "oc_toStatus i = SETTLED \<and> js_get (xs_receipts s) (er_paymentIntentId r) = None \<and>
    (\<exists>e. js_get (xs_executions s) (oc_executionId i) = Some e \<and>
       ex_paymentIntentId e = er_paymentIntentId r \<and> ex_actorSubject e = er_actorSubject r)")
  case True
  then obtain e where e: "oc_toStatus i = SETTLED" "js_get (xs_receipts s) (er_paymentIntentId r) = None"
    "js_get (xs_executions s) (oc_executionId i) = Some e"
    "ex_paymentIntentId e = er_paymentIntentId r" "ex_actorSubject e = er_actorSubject r" by blast
  obtain y s1 where run: "completeUnsafe i s = (y, s1)" by fastforce
  from run show ?thesis
  proof (cases rule: complete_cases)
    case (1 err)
    with assms e run have "res = Inl err" "t = s" by (simp_all add: completeSettlement_def)
    then show ?thesis by (rule that(1))
  next
    case (2 k x)
    then have "x = e" using e(3) by simp
    with 2 run have result: "completeUnsafe i s = (Inr (clone_execution (completed i e)), s1)" by simp
    from that(3) [OF _ e result] show ?thesis using assms e result by (simp add: completeSettlement_def)
  qed
next
  case False
  with assms that(1,2) show ?thesis
    by (auto simp: completeSettlement_def split: option.splits if_splits)
qed

lemma settle_ok:
  assumes ok: "executions_ok s" and run: "completeSettlement i r s = (res, t)"
  shows "executions_ok t"
  using run
proof (cases rule: settle_cases)
  case (3 e s1)
  have ok1: "executions_ok s1" by (rule complete_ok [OF ok 3(7)])
  have id: "ex_executionId e = oc_executionId i" using executions_okD(1) [OF ok 3(4)] by (simp add: execution_ok_def)
  have "js_get (xs_executions s1) (oc_executionId i) = Some (completed i e)"
    using 3(7)
  proof (cases rule: complete_cases)
    case (2 k x)
    then show ?thesis using 3(4) id by simp
  qed simp
  from receipt_added_ok [OF ok1 this, of "clone_execution_receipt r" "er_createdAt r"] show ?thesis
    using 3 id by simp
qed (use ok in simp_all)

section \<open>Requests and histories\<close>

datatype execution_request =
    CreateExecution create_execution_input
  | ClaimExecution string "execution_status list" string string string
  | CompleteExecution complete_operation_input
  | SettleExecution complete_operation_input execution_receipt

fun run_execution :: "execution_request \<Rightarrow> execution_store \<Rightarrow> js_error option \<times> execution_store" where
  "run_execution (CreateExecution i) s = thrown (createOrGet i s)"
| "run_execution (ClaimExecution newId statuses w now x) s = (None, snd (claim_execution newId statuses w now x s))"
| "run_execution (CompleteExecution i) s = thrown (completeUnsafe i s)"
| "run_execution (SettleExecution i r) s = thrown (completeSettlement i r s)"

text \<open>The id of a new execution comes from \<open>randomUUID\<close>: not empty, and not in use.\<close>

fun request_fresh :: "execution_store \<Rightarrow> execution_request \<Rightarrow> bool" where
  "request_fresh s (CreateExecution i) = (xc_executionId i \<noteq> '''' \<and> js_get (xs_executions s) (xc_executionId i) = None)"
| "request_fresh s _ = True"

inductive execution_step :: "execution_store \<Rightarrow> execution_store \<Rightarrow> bool" where
  request: "request_fresh s q \<Longrightarrow> run_execution q s = (err, t) \<Longrightarrow> execution_step s t"

inductive_cases execution_stepE: "execution_step s t"

definition reachable_executions :: "execution_store \<Rightarrow> bool" where
  "reachable_executions s \<longleftrightarrow> execution_step\<^sup>*\<^sup>* empty_execution_store s"

lemma execution_step_ok: "executions_ok s \<Longrightarrow> execution_step s t \<Longrightarrow> executions_ok t"
proof (elim execution_stepE)
  fix q err assume ok: "executions_ok s" and q: "request_fresh s q" "run_execution q s = (err, t)"
  show "executions_ok t"
  proof (cases q)
    case (CreateExecution i)
    with create_ok [OF ok, of i] q show ?thesis by (auto elim!: thrown_cases)
  next
    case (ClaimExecution newId statuses w now x)
    with claim_ok [OF ok, of newId statuses w now x] q show ?thesis by (metis prod.collapse run_execution.simps(2) snd_conv)
  next
    case (CompleteExecution i)
    with complete_ok [OF ok, of i] q show ?thesis by (auto elim!: thrown_cases)
  next
    case (SettleExecution i r)
    with settle_ok [OF ok, of i r] q show ?thesis by (auto elim!: thrown_cases)
  qed
qed

section \<open>The contract of a versioned store\<close>

definition execution_version :: "execution_store \<Rightarrow> string \<Rightarrow> int option" where
  "execution_version s k = map_option ex_version (js_get (xs_executions s) k)"

text \<open>A completion as a conditional write: the store it leaves, when it does not throw.\<close>

definition put_completion :: "complete_operation_input \<Rightarrow> execution_store \<Rightarrow> execution_store option" where
  "put_completion i s = (case completeUnsafe i s of (Inr e, t) \<Rightarrow> Some t | (Inl err, t) \<Rightarrow> None)"

lemma put_completion_Some:
  "put_completion i s = Some t \<longleftrightarrow> (\<exists>e. completeUnsafe i s = (Inr e, t))"
  by (auto simp: put_completion_def split: prod.splits sum.splits)

lemma create_executions:
  assumes "executions_ok s" and "request_fresh s (CreateExecution i)" and "js_get (xs_executions s) k = Some e"
  shows "js_get (xs_executions (snd (createOrGet i s))) k = Some e"
proof (cases "truthy (js_get (xs_byIntent s) (xc_paymentIntentId i))")
  case False
  then show ?thesis using assms(2,3) by (auto simp: created_parts)
qed (use assms(3) in \<open>simp add: createOrGet_def\<close>)

lemma complete_executions:
  assumes "executions_ok s" and "completeUnsafe i s = (r, t)" and "js_get (xs_executions s) k = Some e"
  shows "js_get (xs_executions t) k = Some e \<or>
    k = oc_executionId i \<and> js_get (xs_executions t) k = Some (completed i e) \<and>
      ex_version e = oc_expectedVersion i \<and> ex_leaseOwner e = Some (oc_leaseOwner i) \<and>
      (oc_toStatus i = ex_status e \<or> oc_toStatus i \<in> set (ALLOWED_EXECUTION_TRANSITIONS (ex_status e)))"
  using assms(2)
proof (cases rule: complete_cases)
  case (2 j x)
  then have "ex_executionId x = j" using executions_okD(1) [OF assms(1)] by (auto simp: execution_ok_def)
  with 2 assms(3) show ?thesis by auto
qed (use assms(3) in simp)

lemma settle_executions:
  assumes "executions_ok s" and "completeSettlement i r s = (res, t)" and "js_get (xs_executions s) k = Some e"
  shows "js_get (xs_executions t) k = Some e \<or>
    k = oc_executionId i \<and> js_get (xs_executions t) k = Some (completed i e) \<and>
      ex_version e = oc_expectedVersion i \<and> ex_leaseOwner e = Some (oc_leaseOwner i) \<and>
      (oc_toStatus i = ex_status e \<or> oc_toStatus i \<in> set (ALLOWED_EXECUTION_TRANSITIONS (ex_status e)))"
  using assms(2)
proof (cases rule: settle_cases)
  case (3 x s1)
  from complete_executions [OF assms(1) 3(7) assms(3)] 3(8) show ?thesis by simp
qed (use assms(3) in simp_all)

text \<open>What one step does to one execution: nothing, a lease, or a completion under the lease.\<close>

lemma step_execution:
  assumes ok: "executions_ok s" and "execution_step s t" and e: "js_get (xs_executions s) k = Some e"
  shows "js_get (xs_executions t) k = Some e \<or>
    (\<exists>w now x. js_get (xs_executions t) k = Some (leased w now x e)) \<or>
    (\<exists>i. js_get (xs_executions t) k = Some (completed i e) \<and> ex_leaseOwner e = Some (oc_leaseOwner i) \<and>
      (oc_toStatus i = ex_status e \<or> oc_toStatus i \<in> set (ALLOWED_EXECUTION_TRANSITIONS (ex_status e))))"
  using assms(2)
proof (elim execution_stepE)
  fix q err assume q: "request_fresh s q" "run_execution q s = (err, t)"
  show ?thesis
  proof (cases q)
    case (CreateExecution i)
    with create_executions [OF ok _ e, of i] q show ?thesis by (auto elim!: thrown_cases)
  next
    case (ClaimExecution newId statuses w now x)
    obtain r u where claim: "claim_execution newId statuses w now x s = (r, u)" by fastforce
    with ClaimExecution q have "t = u" by simp
    from ok claim show ?thesis
    proof (cases rule: claim_cases)
      case (2 j y a)
      show ?thesis
      proof (cases "j = k")
        case True
        then have "js_get (xs_executions t) k = Some (leased w now x e)" using 2 e \<open>t = u\<close> by simp
        then show ?thesis by blast
      qed (use 2 e \<open>t = u\<close> in simp)
    qed (use e \<open>t = u\<close> in simp)
  next
    case (CompleteExecution i)
    with complete_executions [OF ok _ e, of i] q show ?thesis by (fastforce elim!: thrown_cases)
  next
    case (SettleExecution i r)
    with settle_executions [OF ok _ e, of i r] q show ?thesis by (fastforce elim!: thrown_cases)
  qed
qed

interpretation xm: versioned_store executions_ok execution_step execution_version put_completion
  oc_executionId oc_expectedVersion
proof unfold_locales
  fix s t k v assume "executions_ok s" "execution_step s t" "execution_version s k = Some v"
  then show "\<exists>v'. execution_version t k = Some v' \<and> v \<le> v'"
    using step_execution [of s t k] by (fastforce simp: execution_version_def)
next
  fix i s t assume ok: "executions_ok s" and "put_completion i s = Some t"
  then obtain e where run: "completeUnsafe i s = (Inr e, t)" by (auto simp: put_completion_Some)
  then obtain x where x: "js_get (xs_executions s) (oc_executionId i) = Some x" "ex_version x = oc_expectedVersion i"
    by (cases rule: complete_cases) auto
  then show "execution_version s (oc_executionId i) = Some (oc_expectedVersion i)"
    by (simp add: execution_version_def)
  have "ex_executionId x = oc_executionId i" using executions_okD(1) [OF ok x(1)] by (simp add: execution_ok_def)
  with run x show "execution_version t (oc_executionId i) = Some (oc_expectedVersion i + 1)"
    by (cases rule: complete_cases) (auto simp: execution_version_def)
  show "executions_ok t" by (rule complete_ok [OF ok run])
qed (rule execution_step_ok)

lemma reachable_executions_ok: "reachable_executions s \<Longrightarrow> executions_ok s"
  unfolding reachable_executions_def by (rule xm.run_ok [OF _ executions_ok_empty])

section \<open>Examples\<close>

definition sample_execution_input :: create_execution_input where
  "sample_execution_input = \<lparr>xc_executionId = ''x1'', xc_paymentIntentId = ''p1'', xc_actorSubject = ''a1'',
     xc_providerIdempotencyKey = ''k1'', xc_now = ''t0''\<rparr>"

definition sample_completion :: "execution_operation \<Rightarrow> int \<Rightarrow> execution_status \<Rightarrow> complete_operation_input" where
  "sample_completion operation v st = \<lparr>oc_executionId = ''x1'', oc_expectedVersion = v, oc_leaseOwner = ''w'',
     oc_attemptId = ''t'', oc_operation = operation, oc_toStatus = st, oc_completedAt = ''t2'',
     oc_providerReference = Some ''ref'', oc_reconciliationReference = None, oc_submittedAt = None, oc_settledAt = None,
     oc_failedAt = None, oc_failureCode = None, oc_failureCategory = None, oc_failureRetryable = None,
     oc_reviewReason = None, oc_evidence = None, oc_recoveryAction = None, oc_sideEffect = None,
     oc_nextAttemptAt = None, oc_observationSequence = None\<rparr>"

definition sample_execution_receipt :: execution_receipt where
  "sample_execution_receipt = \<lparr>er_receiptId = ''r1'', er_paymentIntentId = ''p1'', er_executionId = ''x1'',
     er_actorSubject = ''a1'', er_runtimeTransactionId = ''x1'', er_rail = ''mock'', er_asset = ''USDC'',
     er_amountUnits = ''1500000'', er_amountDecimals = Some 6, er_senderId = ''s'', er_recipientId = ''r'',
     er_recipientSnapshot = None, er_memo = None, er_providerReference = Some ''ref'', er_settledAt = ''t2'',
     er_evidenceType = ''mock'', er_evidenceVersion = 1, er_evidence = JObject [], er_schemaVersion = 1,
     er_requestHash = ''h'', er_createdAt = ''t3''\<rparr>"

fun run_executions :: "execution_request list \<Rightarrow> execution_store \<Rightarrow> execution_store" where
  "run_executions [] s = s"
| "run_executions (q # qs) s = run_executions qs (snd (run_execution q s))"

fun requests_fresh :: "execution_request list \<Rightarrow> execution_store \<Rightarrow> bool" where
  "requests_fresh [] s = True"
| "requests_fresh (q # qs) s = (request_fresh s q \<and> requests_fresh qs (snd (run_execution q s)))"

lemma run_executions_steps: "requests_fresh qs s \<Longrightarrow> execution_step\<^sup>*\<^sup>* s (run_executions qs s)"
proof (induction qs arbitrary: s)
  case (Cons q qs)
  then have "execution_step s (snd (run_execution q s))" by (auto intro: request simp: prod_eq_iff)
  with Cons show ?case by (auto intro: converse_rtranclp_into_rtranclp)
qed simp

definition sample_submitted :: execution_store where
  "sample_submitted = run_executions [CreateExecution sample_execution_input,
     ClaimExecution ''t1'' [READY] ''w'' ''t1'' ''t9''] empty_execution_store"

definition sample_accepted :: execution_store where
  "sample_accepted = snd (completeUnsafe (sample_completion SUBMIT 1 X_PROCESSING) sample_submitted)"

definition sample_settling :: "execution_request list" where
  "sample_settling = [ClaimExecution ''t3'' [X_PROCESSING] ''w'' ''t3'' ''t9'',
     SettleExecution (sample_completion RECONCILE 3 SETTLED) sample_execution_receipt]"

definition sample_settled :: execution_store where
  "sample_settled = run_executions sample_settling sample_accepted"

lemma sample_submitted_reachable: "reachable_executions sample_submitted"
  unfolding reachable_executions_def sample_submitted_def by (rule run_executions_steps) code_simp

lemma sample_accepted_result:
  "completeUnsafe (sample_completion SUBMIT 1 X_PROCESSING) sample_submitted =
   (fst (completeUnsafe (sample_completion SUBMIT 1 X_PROCESSING) sample_submitted), sample_accepted)"
  by (simp add: sample_accepted_def)

lemma sample_accepted_reachable: "reachable_executions sample_accepted"
proof -
  have "execution_step sample_submitted sample_accepted"
    by (rule request [of _ "CompleteExecution (sample_completion SUBMIT 1 X_PROCESSING)"])
      (simp_all add: thrown_def sample_accepted_def)
  with sample_submitted_reachable show ?thesis unfolding reachable_executions_def by simp
qed

lemma sample_settled_from: "execution_step\<^sup>*\<^sup>* sample_accepted sample_settled"
  unfolding sample_settled_def by (rule run_executions_steps) code_simp

lemma sample_settled_reachable: "reachable_executions sample_settled"
  using sample_accepted_reachable sample_settled_from unfolding reachable_executions_def by simp

section \<open>Completions\<close>

text \<open>A lease is spent once: after a completion that succeeded, and whatever requests of any workers follow it,
  a completion of the same execution prepared against the same or an older version throws the version
  conflict and changes nothing.\<close>
theorem stale_completion_conflicts:
  assumes "reachable_executions s" and "completeUnsafe i s = (Inr e, t)" and "execution_step\<^sup>*\<^sup>* t u"
    and "oc_executionId j = oc_executionId i" and "oc_expectedVersion j \<le> oc_expectedVersion i"
  shows "completeUnsafe j u = (throw ''Execution version or lease conflict.'', u)"
proof -
  have "put_completion i s = Some t" using assms(2) by (auto simp: put_completion_Some)
  from xm.version_moved_on [OF reachable_executions_ok [OF assms(1)] this assms(3)]
  obtain x where "js_get (xs_executions u) (oc_executionId i) = Some x" "oc_expectedVersion i < ex_version x"
    by (auto simp: execution_version_def)
  with assms(4,5) show ?thesis by (simp add: completeUnsafe_def)
qed

theorem stale_completion_conflicts_witness:
  "completeUnsafe (sample_completion RECONCILE 1 X_FAILED) sample_settled =
   (throw ''Execution version or lease conflict.'', sample_settled)"
proof -
  have "succeeds (fst (completeUnsafe (sample_completion SUBMIT 1 X_PROCESSING) sample_submitted))"
    by code_simp
  then obtain e where "completeUnsafe (sample_completion SUBMIT 1 X_PROCESSING) sample_submitted = (Inr e, sample_accepted)"
    using sample_accepted_result by (metis succeeds_iff)
  from stale_completion_conflicts [OF sample_submitted_reachable this sample_settled_from] show ?thesis
    by (simp add: sample_completion_def)
qed

section \<open>Histories of executions\<close>

text \<open>The repository accounts for every execution: its events are numbered from 1 and walk from its creation to
  its status along allowed transitions, each milestone at most once, its attempts carry increasing numbers,
  and its version counts its leases and its completed attempts.\<close>
theorem execution_history_accounts:
  assumes "reachable_executions s" and "js_get (xs_executions s) k = Some e"
  shows "walk None (listEvents s k) = Some (Some (ex_status e)) \<and>
    map ee_sequenceNumber (listEvents s k) = [1..<Suc (length (listEvents s k))] \<and>
    count_list (map ee_eventType (listEvents s k)) ''execution_settled'' \<le> 1 \<and>
    sorted_wrt (<) (map at_attemptNumber (listAttempts s k)) \<and>
    (\<forall>a\<in>set (listAttempts s k). at_attemptNumber a \<le> ex_attemptCount e) \<and>
    ex_version e = int (ex_attemptCount e + length (listAttempts s k))"
proof -
  have ok: "execution_ok s k e"
    using executions_okD(1) [OF reachable_executions_ok [OF assms(1)] assms(2)] .
  have attempts: "map at_attemptNumber (listAttempts s k) = attempt_numbers (attempts_of s k)"
    "length (listAttempts s k) = length (attempts_of s k)"
    by (simp_all add: listAttempts_def attempts_of_def attempt_numbers_def)
  have "\<forall>a\<in>set (listAttempts s k). at_attemptNumber a \<in> set (attempt_numbers (attempts_of s k))"
    unfolding attempts(1) [symmetric] by simp
  with ok attempts show ?thesis
    by (auto simp: execution_ok_def event_log_ok_def attempt_log_ok_def event_types_def once_only_def)
qed

theorem execution_history_accounts_witness:
  "\<exists>e. js_get (xs_executions sample_settled) ''x1'' = Some e \<and> ex_status e = SETTLED \<and>
     walk None (listEvents sample_settled ''x1'') = Some (Some SETTLED) \<and>
     length (listEvents sample_settled ''x1'') = 6 \<and> length (listAttempts sample_settled ''x1'') = 2 \<and>
     ex_version e = int (ex_attemptCount e + 2)"
proof -
  have "map_option ex_status (js_get (xs_executions sample_settled) ''x1'') = Some SETTLED"
    "length (listEvents sample_settled ''x1'') = 6" "length (listAttempts sample_settled ''x1'') = 2"
    by code_simp+
  moreover from this obtain e where e: "js_get (xs_executions sample_settled) ''x1'' = Some e" "ex_status e = SETTLED"
    by auto
  ultimately show ?thesis using execution_history_accounts [OF sample_settled_reachable e(1)] e by auto
qed

section \<open>Receipts\<close>

lemma step_receipts:
  assumes ok: "executions_ok s" and "execution_step s t" and r: "js_get (xs_receipts s) p = Some r"
  shows "js_get (xs_receipts t) p = Some r"
  using assms(2)
proof (elim execution_stepE)
  fix q err assume q: "request_fresh s q" "run_execution q s = (err, t)"
  have completing: "xs_receipts u = xs_receipts s" if "completeUnsafe i s = (x, u)" for i x u
    using that by (cases rule: complete_cases) simp_all
  show ?thesis
  proof (cases q)
    case (CreateExecution i)
    then have t: "t = snd (createOrGet i s)" using q(2) by (auto simp: thrown_def)
    show ?thesis
    proof (cases "truthy (js_get (xs_byIntent s) (xc_paymentIntentId i))")
      case True
      then show ?thesis using t r by (simp add: createOrGet_def)
    qed (use t r in \<open>simp add: created_parts\<close>)
  next
    case (ClaimExecution newId statuses w now x)
    obtain c u where claim: "claim_execution newId statuses w now x s = (c, u)" by fastforce
    with ClaimExecution q have "t = u" by simp
    with ok claim r show ?thesis by (cases rule: claim_cases) auto
  next
    case (CompleteExecution i)
    with q r completing show ?thesis by (auto elim!: thrown_cases)
  next
    case (SettleExecution i x)
    obtain y u where settle: "completeSettlement i x s = (y, u)" by fastforce
    with SettleExecution q have "t = u" by (simp add: thrown_def)
    from settle show ?thesis
    proof (cases rule: settle_cases)
      case (3 e s1)
      with completing [OF 3(7)] r \<open>t = u\<close> show ?thesis by auto
    qed (use r \<open>t = u\<close> in simp_all)
  qed
qed

text \<open>A receipt is final and belongs to a settled execution: once the receipt of a payment intent can be read it
  is read unchanged after any further requests, and the one execution of that intent is then SETTLED for
  the same intent and actor.\<close>
theorem receipts_are_final:
  assumes "reachable_executions s" and "findReceiptByPaymentIntent s p = Some r" and "execution_step\<^sup>*\<^sup>* s t"
  shows "findReceiptByPaymentIntent t p = Some r \<and> er_paymentIntentId r = p \<and>
    (\<exists>e. findByPaymentIntent t p = Inr (Some e) \<and> ex_status e = SETTLED \<and> ex_paymentIntentId e = p \<and>
       ex_actorSubject e = er_actorSubject r)"
proof -
  note ok = reachable_executions_ok [OF assms(1)]
  obtain x where x: "js_get (xs_receipts s) p = Some x" "r = clone_execution_receipt x"
    using assms(2) by (auto simp: findReceiptByPaymentIntent_def)
  have x': "js_get (xs_receipts t) p = Some x"
    using assms(3) ok x(1) by (rule xm.run_carries) (rule step_receipts)
  have ok': "executions_ok t" by (rule xm.run_ok [OF assms(3) ok])
  from executions_okD(5) [OF ok' x'] obtain k e where "er_paymentIntentId x = p" "js_get (xs_byIntent t) p = Some k"
    "js_get (xs_executions t) k = Some e" "ex_status e = SETTLED" "ex_actorSubject e = er_actorSubject x"
    unfolding settled_receipt_def by blast
  then show ?thesis using require_execution_ok [OF ok', of p k] x x'
    by (auto simp: findReceiptByPaymentIntent_def findByPaymentIntent_def)
qed

theorem receipts_are_final_witness:
  "\<exists>r e. findReceiptByPaymentIntent sample_settled ''p1'' = Some r \<and> er_receiptId r = ''r1'' \<and>
     findByPaymentIntent sample_settled ''p1'' = Inr (Some e) \<and> ex_status e = SETTLED"
proof -
  have "map_option er_receiptId (findReceiptByPaymentIntent sample_settled ''p1'') = Some ''r1''" by code_simp
  then obtain r where r: "findReceiptByPaymentIntent sample_settled ''p1'' = Some r" "er_receiptId r = ''r1''" by auto
  from receipts_are_final [OF sample_settled_reachable r(1) rtranclp.rtrancl_refl] r show ?thesis by blast
qed

section \<open>Two edges of the code\<close>

text \<open>An execution left in SUBMITTING cannot be settled: the transition is not in the table, so a settlement
  throws and leaves the lease where it is.\<close>

lemma submitting_cannot_settle:
  assumes "js_get (xs_executions s) (oc_executionId i) = Some e" and "ex_status e = SUBMITTING"
    and "oc_toStatus i = SETTLED" and "js_get (xs_receipts s) (er_paymentIntentId r) = None"
  shows "\<exists>err. completeSettlement i r s = (Inl err, s)"
  using assms by (auto simp: completeSettlement_def completeUnsafe_def assertExecutionTransition_def)

text \<open>Amounts without decimals are shown as fractions: \<open>slice(0, -0)\<close> is empty.\<close>

lemma whole_units_shown_as_fraction: "formatAmount ''15'' 0 = ''0.15''"
  by code_simp

end
