(* ===== verification/ExecutionService.thy ===== *)
theory ExecutionService
  imports PaymentIntentService ExecutionProperties
begin

text \<open>
  \<open>src/executions/executionService.ts\<close> and \<open>src/executions/executionWorker.ts\<close>: executing a confirmed payment, reading
  its execution, receipt and activity, and the worker that submits and reconciles executions. The rail
  runtime the worker drives (\<open>zephyon-protocol\<close>) is an argument: what preparing and observing an
  execution gives. Between two calls of the repository other requests may run; where a service reads
  twice, \<open>others\<close> is what they do to the executions in between.
\<close>

section \<open>World\<close>

record execution_world =
  xw_base :: intent_world
  xw_executions :: execution_store

record execution_config =
  xf_clock :: "nat \<Rightarrow> string"
  xf_allowlistRequired :: "string option"

definition execution_error :: "application_error_kind \<Rightarrow> string \<Rightarrow> 'a result" where
  "execution_error kind m = Inl (Err (ExecutionApplicationError kind) m)"

definition execution_now :: "execution_config \<Rightarrow> execution_world \<Rightarrow> string \<times> execution_world" where
  "execution_now cfg w = (xf_clock cfg (iw_clockReads (xw_base w)),
     w\<lparr>xw_base := (xw_base w)\<lparr>iw_clockReads := Suc (iw_clockReads (xw_base w))\<rparr>\<rparr>)"

definition on_executions ::
  "(execution_store \<Rightarrow> (execution_store, 'a) outcome) \<Rightarrow> execution_world \<Rightarrow> (execution_world, 'a) outcome" where
  "on_executions f w = (let (r, s) = f (xw_executions w) in (r, w\<lparr>xw_executions := s\<rparr>))"

definition execution_actor :: "runtime_env \<Rightarrow> caller \<Rightarrow> execution_world \<Rightarrow> (execution_world, account) outcome" where
  "execution_actor env c w =
     (let (r, b) = on_accounts (resolvePrincipal env (cl_newAccountId c) (cl_newIdentityId c) (cl_principal c)) (xw_base w);
          w' = w\<lparr>xw_base := b\<rparr> in
      (case r of
         Inl e \<Rightarrow> if error_class_of e = AccountAccessDeniedError
                 then execution_error ACCESS_DENIED ''Payment access is unavailable.'' else Inl e
       | Inr (a, xs) \<Rightarrow> Inr a, w'))"

section \<open>The body of an execute request\<close>

text \<open>
  \<open>String(value)\<close> of a JSON value. An object whose own \<open>toString\<close> is data cannot be converted: its
  \<open>valueOf\<close> gives the object back, or is data too.
\<close>

fun js_string :: "runtime_env \<Rightarrow> json \<Rightarrow> string result" where
  "js_string env JUndefined = Inr ''undefined''"
| "js_string env JNull = Inr ''null''"
| "js_string env (JBool b) = Inr (if b then ''true'' else ''false'')"
| "js_string env (JNumber n) = Inr (case n of Finite q \<Rightarrow> number_text env q | NaN \<Rightarrow> ''NaN''
     | Infinity pos \<Rightarrow> if pos then ''Infinity'' else ''-Infinity'')"
| "js_string env (JString s) = Inr s"
| "js_string env (JArray xs) =
     and_then (map_result (\<lambda>x. if x = JUndefined \<or> x = JNull then Inr '''' else js_string env x) xs)
       (\<lambda>ts. Inr (comma_separated ts))"
| "js_string env (JObject es) =
     (if ''toString'' \<in> fst ` set es then throw ''Cannot convert object to primitive value'' else Inr ''[object Object]'')"

definition member_value :: "(string \<times> json) list \<Rightarrow> string \<Rightarrow> json" where
  "member_value es k = coalesce (map_of es k) JUndefined"

definition execute_fields :: "json option \<Rightarrow> json_object result" where
  "execute_fields body = (case body of
     Some (JObject es) \<Rightarrow>
       if list_ex (\<lambda>e. fst e \<notin> set [''requestHash'', ''expectedVersion'']) es
       then execution_error INVALID ''Execute request contains unsupported fields.'' else Inr es
   | _ \<Rightarrow> execution_error INVALID ''Execute request contains unsupported fields.'')"

definition confirmed_for_execution :: "payment_record \<Rightarrow> unit result" where
  "confirmed_for_execution p =
     (if p_status p \<noteq> PROCESSING \<or> \<not> truthy (userConfirmedAt p)
      then execution_error CONFLICT ''Payment intent is not confirmed for execution.'' else Inr ())"

definition confirmation_matches :: "runtime_env \<Rightarrow> payment_record \<Rightarrow> json_object \<Rightarrow> unit result" where
  "confirmation_matches env p b =
     (let stale = execution_error CONFLICT ''Payment intent confirmation is stale or mismatched.'' in
      if member_value b ''requestHash'' \<noteq> JString (p_requestHash p) then stale
      else and_then (js_string env (member_value b ''expectedVersion'')) (\<lambda>v.
        if v \<noteq> int_to_dec (p_version p) then stale else Inr ()))"

definition payment_owned_by :: "string \<Rightarrow> execution_world \<Rightarrow> string \<Rightarrow> string \<Rightarrow> payment_record result" where
  "payment_owned_by message w paymentId actor =
     and_then (findPayment (iw_payments (xw_base w)) paymentId) (\<lambda>found. case found of
       None \<Rightarrow> execution_error NOT_FOUND message
     | Some p \<Rightarrow> if p_actorSubject p \<noteq> actor then execution_error NOT_FOUND message else Inr p)"

section \<open>Operations\<close>

definition provider_key :: "runtime_env \<Rightarrow> string \<Rightarrow> string" where
  "provider_key env paymentId = sha256_hex env (''zephipay-execution-v1:'' @ paymentId)"

definition execute_payment ::
  "runtime_env \<Rightarrow> execution_config \<Rightarrow> string \<Rightarrow> caller \<Rightarrow> string \<Rightarrow> json option \<Rightarrow>
   execution_world \<Rightarrow> (execution_world, public_execution \<times> bool) outcome" where
  "execute_payment env cfg newId c paymentId body w =
     when_ok (execute_fields body) w (\<lambda>b.
     then_do (execution_actor env c w) (\<lambda>a w1.
     let allow = findAllowlistEntry (iw_payments (xw_base w1)) (ac_actorSubject a); (now, w2) = execution_now cfg w1 in
     if \<not> hasActivePaymentAccess env (xf_allowlistRequired cfg) allow now
     then (execution_error ACCESS_DENIED ''Beta payment access is unavailable.'', w2)
     else when_ok (payment_owned_by ''Payment intent was not found.'' w2 paymentId (ac_actorSubject a)) w2 (\<lambda>p.
       when_ok (confirmed_for_execution p) w2 (\<lambda>_.
       when_ok (confirmation_matches env p b) w2 (\<lambda>_.
         let (created, w3) = execution_now cfg w2 in
         then_do (on_executions (createOrGet \<lparr>xc_executionId = newId, xc_paymentIntentId = p_id p,
             xc_actorSubject = ac_actorSubject a, xc_providerIdempotencyKey = provider_key env (p_id p),
             xc_now = created\<rparr>) w3) (\<lambda>result w4.
           (Inr (toPublicExecution (fst result) None, snd result), w4)))))))"

definition find_execution ::
  "runtime_env \<Rightarrow> (execution_store \<Rightarrow> execution_store) \<Rightarrow> caller \<Rightarrow> string \<Rightarrow>
   execution_world \<Rightarrow> (execution_world, public_execution) outcome" where
  "find_execution env others c paymentId w =
     then_do (execution_actor env c w) (\<lambda>a w1.
     when_ok (payment_owned_by ''Payment intent was not found.'' w1 paymentId (ac_actorSubject a)) w1 (\<lambda>p.
     when_ok (findByPaymentIntent (xw_executions w1) paymentId) w1 (\<lambda>found.
       case found of
         None \<Rightarrow> (execution_error NOT_FOUND ''Payment execution was not found.'', w1)
       | Some e \<Rightarrow>
           let w2 = w1\<lparr>xw_executions := others (xw_executions w1)\<rparr>;
               receipt = findReceiptByPaymentIntent (xw_executions w2) paymentId in
           (Inr (toPublicExecution e (map_option er_receiptId receipt)), w2))))"

definition execution_receipt_of ::
  "runtime_env \<Rightarrow> caller \<Rightarrow> string \<Rightarrow> execution_world \<Rightarrow> (execution_world, public_execution_receipt) outcome" where
  "execution_receipt_of env c paymentId w =
     then_do (execution_actor env c w) (\<lambda>a w1.
     when_ok (payment_owned_by ''Payment receipt was not found.'' w1 paymentId (ac_actorSubject a)) w1 (\<lambda>p.
       case findReceiptByPaymentIntent (xw_executions w1) paymentId of
         None \<Rightarrow> (execution_error NOT_FOUND ''Payment receipt was not found.'', w1)
       | Some r \<Rightarrow> if er_actorSubject r \<noteq> ac_actorSubject a
           then (execution_error NOT_FOUND ''Payment receipt was not found.'', w1)
           else (Inr (toPublicReceipt r), w1)))"

subsection \<open>Activity\<close>

record activity_fact =
  af_paymentIntentId :: string
  af_userConfirmedAt :: "string option"
  af_recipientSnapshot :: "payment_identity_snapshot option"
  af_amountUnits :: string
  af_asset :: string
  af_memo :: "string option"
  af_createdAt :: string
  af_executionId :: "string option"
  af_executionStatus :: "execution_status option"
  af_settledAt :: "string option"
  af_receiptId :: "string option"

record activity_item =
  ai_paymentIntentId :: string
  ai_executionId :: "string option"
  ai_receiptId :: "string option"
  ai_status :: string
  ai_recipient :: execution_recipient
  ai_amountRaw :: string
  ai_amount :: string
  ai_asset :: string
  ai_memo :: "string option"
  ai_createdAt :: string
  ai_settledAt :: "string option"
  ai_receiptAvailable :: bool

definition activity_status :: "activity_fact \<Rightarrow> string" where
  "activity_status f = (case af_executionStatus f of
     None \<Rightarrow> if truthy (af_userConfirmedAt f) then ''ready'' else ''awaiting_confirmation''
   | Some SETTLED \<Rightarrow> ''completed'' | Some X_UNKNOWN \<Rightarrow> ''pending'' | Some X_FAILED \<Rightarrow> ''failed''
   | Some CANCELLED \<Rightarrow> ''cancelled'' | Some READY \<Rightarrow> ''ready'' | Some _ \<Rightarrow> ''processing'')"

definition projectActivity :: "activity_fact \<Rightarrow> activity_item" where
  "projectActivity f = \<lparr>ai_paymentIntentId = af_paymentIntentId f, ai_executionId = if_truthy (af_executionId f),
     ai_receiptId = if_truthy (af_receiptId f), ai_status = activity_status f,
     ai_recipient = snapshot_recipient (af_recipientSnapshot f), ai_amountRaw = af_amountUnits f,
     ai_amount = formatAmount (af_amountUnits f) 6, ai_asset = af_asset f, ai_memo = af_memo f,
     ai_createdAt = af_createdAt f, ai_settledAt = if_truthy (af_settledAt f),
     ai_receiptAvailable = (af_receiptId f \<noteq> None)\<rparr>"

definition payment_fact :: "execution_store \<Rightarrow> payment_record \<Rightarrow> activity_fact result" where
  "payment_fact s p = and_then (findByPaymentIntent s (p_id p)) (\<lambda>execution.
     let receipt = findReceiptByPaymentIntent s (p_id p) in
     Inr \<lparr>af_paymentIntentId = p_id p, af_userConfirmedAt = userConfirmedAt p, af_recipientSnapshot = p_recipientSnapshot p,
       af_amountUnits = int_to_dec (p_amountRaw p), af_asset = p_asset p, af_memo = p_purpose p,
       af_createdAt = p_createdAt p, af_executionId = map_option ex_executionId execution,
       af_executionStatus = map_option ex_status execution,
       af_settledAt = (case execution of None \<Rightarrow> None | Some e \<Rightarrow> ex_settledAt e),
       af_receiptId = map_option er_receiptId receipt\<rparr>)"

text \<open>The activity repository, when there is one, is a query of its own: an argument.\<close>

definition list_activity ::
  "runtime_env \<Rightarrow> (string \<Rightarrow> js_number \<Rightarrow> activity_fact list result) option \<Rightarrow> caller \<Rightarrow> js_number \<Rightarrow>
   execution_world \<Rightarrow> (execution_world, activity_item list) outcome" where
  "list_activity env activityRepository c limit w =
     then_do (execution_actor env c w) (\<lambda>a w1.
       ((case activityRepository of
           Some listByActor \<Rightarrow> and_then (listByActor (ac_actorSubject a) limit) (\<lambda>fs. Inr (map projectActivity fs))
         | None \<Rightarrow> and_then (listPaymentsByActor env (iw_payments (xw_base w1)) (ac_actorSubject a) limit) (\<lambda>ps.
             map_result (\<lambda>p. and_then (payment_fact (xw_executions w1) p) (\<lambda>f. Inr (projectActivity f))) ps)), w1))"

section \<open>The worker\<close>

text \<open>
  What the rail runtime answers, with the members the worker reads. Submitting covers preparing the
  execution; both may throw. Texts of references are checked by the runtime's parsers.
\<close>

datatype submit_outcome =
    SubmitSettled string "string option" string json
  | SubmitAccepted string "string option" string
  | SubmitUnknown "string option" string string "string option"
  | SubmitFailed string string bool "string option"

record runtime_receipt =
  rt_receiptId :: string
  rt_transactionId :: string
  rt_units :: string
  rt_decimals :: nat
  rt_senderId :: string
  rt_recipientId :: string
  rt_providerReference :: "string option"
  rt_settledAt :: string
  rt_evidenceType :: string
  rt_evidenceVersion :: nat
  rt_evidenceData :: json
  rt_createdAt :: string

datatype reconcile_outcome =
    ReconcileSettled string json "runtime_receipt result"
  | ReconcileFailed string string string json
  | ReconcileUnknown "string option" "string option"
  | ReconcilePending "json option"

record rail_runtime =
  rail_submit :: "payment_record \<Rightarrow> payment_execution \<Rightarrow> string \<Rightarrow> submit_outcome result"
  rail_prepare :: "payment_record \<Rightarrow> payment_execution \<Rightarrow> string \<Rightarrow> (string \<times> string) result"
  rail_provider :: "string \<Rightarrow> string result"
  rail_reconciliation :: "string \<Rightarrow> string result"
  rail_reconcile :: "payment_record \<Rightarrow> payment_execution \<Rightarrow> string \<Rightarrow> string \<Rightarrow> string \<Rightarrow> int \<Rightarrow> reconcile_outcome result"

text \<open>The readings of its clock a worker uses in one pass, in the order it takes them.\<close>

record worker_times =
  wt_now :: string
  wt_completedAt :: string
  wt_afterwards :: string

record worker_config =
  wc_workerId :: string
  wc_leaseMs :: int

definition lease_end :: "runtime_env \<Rightarrow> worker_config \<Rightarrow> string \<Rightarrow> string result" where
  "lease_end env cfg now = (case date_parse env now of
     None \<Rightarrow> throw ''Invalid time value'' | Some t \<Rightarrow> Inr (date_iso env (t + wc_leaseMs cfg)))"

definition execution_payment :: "execution_world \<Rightarrow> payment_execution \<Rightarrow> payment_record result" where
  "execution_payment w e = and_then (findPayment (iw_payments (xw_base w)) (ex_paymentIntentId e)) (\<lambda>found. case found of
     None \<Rightarrow> throw ''Persisted execution ownership mismatch.''
   | Some p \<Rightarrow> if p_actorSubject p \<noteq> ex_actorSubject e then throw ''Persisted execution ownership mismatch.'' else Inr p)"

definition worker_claim ::
  "runtime_env \<Rightarrow> worker_config \<Rightarrow> string \<Rightarrow> worker_times \<Rightarrow> execution_status list \<Rightarrow> execution_world \<Rightarrow>
   (execution_world, (payment_execution \<times> execution_attempt) option) outcome" where
  "worker_claim env cfg newId ts statuses w =
     when_ok (lease_end env cfg (wt_now ts)) w (\<lambda>expiresAt.
       on_executions (\<lambda>s. let (r, s') = claim_execution newId statuses (wc_workerId cfg) (wt_now ts) expiresAt s in (Inr r, s')) w)"

definition operation_result :: "worker_config \<Rightarrow> payment_execution \<Rightarrow> string \<Rightarrow> execution_operation \<Rightarrow> execution_status \<Rightarrow>
   worker_times \<Rightarrow> complete_operation_input" where
  "operation_result cfg e attemptId operation st ts = \<lparr>oc_executionId = ex_executionId e, oc_expectedVersion = ex_version e,
     oc_leaseOwner = wc_workerId cfg, oc_attemptId = attemptId, oc_operation = operation, oc_toStatus = st,
     oc_completedAt = wt_completedAt ts, oc_providerReference = None, oc_reconciliationReference = None,
     oc_submittedAt = None, oc_settledAt = None, oc_failedAt = None, oc_failureCode = None, oc_failureCategory = None,
     oc_failureRetryable = None, oc_reviewReason = None, oc_evidence = None, oc_recoveryAction = None,
     oc_sideEffect = None, oc_nextAttemptAt = None, oc_observationSequence = None\<rparr>"

fun submit_completion :: "worker_config \<Rightarrow> payment_execution \<Rightarrow> string \<Rightarrow> worker_times \<Rightarrow> submit_outcome \<Rightarrow> complete_operation_input" where
  "submit_completion cfg e attemptId ts (SubmitSettled provider recon settled evidence) =
     (operation_result cfg e attemptId SUBMIT X_PROCESSING ts)\<lparr>oc_providerReference := Some provider,
       oc_reconciliationReference := recon, oc_submittedAt := Some settled, oc_evidence := Some evidence,
       oc_nextAttemptAt := Some (wt_afterwards ts), oc_sideEffect := Some ''occurred''\<rparr>"
| "submit_completion cfg e attemptId ts (SubmitAccepted provider recon submitted) =
     (operation_result cfg e attemptId SUBMIT X_PROCESSING ts)\<lparr>oc_providerReference := Some provider,
       oc_reconciliationReference := recon, oc_submittedAt := Some submitted,
       oc_nextAttemptAt := Some (wt_afterwards ts), oc_sideEffect := Some ''occurred''\<rparr>"
| "submit_completion cfg e attemptId ts (SubmitUnknown recon code category recovery) =
     (operation_result cfg e attemptId SUBMIT X_UNKNOWN ts)\<lparr>oc_reconciliationReference := recon,
       oc_failureCode := Some code, oc_failureCategory := Some category, oc_failureRetryable := Some False,
       oc_recoveryAction := recovery, oc_nextAttemptAt := Some (wt_afterwards ts), oc_sideEffect := Some ''may_have_occurred''\<rparr>"
| "submit_completion cfg e attemptId ts (SubmitFailed code category retryable recovery) =
     (operation_result cfg e attemptId SUBMIT X_FAILED ts)\<lparr>oc_failedAt := Some (wt_afterwards ts),
       oc_failureCode := Some code, oc_failureCategory := Some category, oc_failureRetryable := Some retryable,
       oc_recoveryAction := recovery, oc_sideEffect := Some ''impossible''\<rparr>"

definition processNext ::
  "runtime_env \<Rightarrow> rail_runtime \<Rightarrow> worker_config \<Rightarrow> (execution_store \<Rightarrow> execution_store) \<Rightarrow> string \<Rightarrow> worker_times \<Rightarrow>
   execution_world \<Rightarrow> (execution_world, payment_execution option) outcome" where
  "processNext env rail cfg others newId ts w =
     then_do (worker_claim env cfg newId ts [READY] w) (\<lambda>claimed w1.
       case claimed of
         None \<Rightarrow> (Inr None, w1)
       | Some (e, attempt) \<Rightarrow>
           when_ok (execution_payment w1 e) w1 (\<lambda>p.
           when_ok (rail_submit rail p e (at_attemptId attempt)) w1 (\<lambda>result.
             then_do (on_executions (completeUnsafe (submit_completion cfg e (at_attemptId attempt) ts result))
                 (w1\<lparr>xw_executions := others (xw_executions w1)\<rparr>)) (\<lambda>x w2. (Inr (Some x), w2)))))"

definition settled_execution_receipt :: "payment_record \<Rightarrow> payment_execution \<Rightarrow> runtime_receipt \<Rightarrow> execution_receipt" where
  "settled_execution_receipt p e rt = \<lparr>er_receiptId = rt_receiptId rt, er_paymentIntentId = p_id p,
     er_executionId = ex_executionId e, er_actorSubject = p_actorSubject p, er_runtimeTransactionId = rt_transactionId rt,
     er_rail = ''mock'', er_asset = ''USDC'', er_amountUnits = rt_units rt, er_amountDecimals = Some (rt_decimals rt),
     er_senderId = rt_senderId rt, er_recipientId = rt_recipientId rt, er_recipientSnapshot = p_recipientSnapshot p,
     er_memo = p_purpose p, er_providerReference = rt_providerReference rt, er_settledAt = rt_settledAt rt,
     er_evidenceType = rt_evidenceType rt, er_evidenceVersion = rt_evidenceVersion rt, er_evidence = rt_evidenceData rt,
     er_schemaVersion = 1, er_requestHash = p_requestHash p, er_createdAt = rt_createdAt rt\<rparr>"

definition complete_reconciliation ::
  "worker_config \<Rightarrow> payment_record \<Rightarrow> payment_execution \<Rightarrow> string \<Rightarrow> worker_times \<Rightarrow> string \<Rightarrow> string \<Rightarrow> reconcile_outcome \<Rightarrow>
   execution_world \<Rightarrow> (execution_world, payment_execution) outcome" where
  "complete_reconciliation cfg p e attemptId ts provider recon result w =
     (let common = (\<lambda>st. (operation_result cfg e attemptId RECONCILE st ts)\<lparr>oc_providerReference := Some provider,
            oc_reconciliationReference := Some recon, oc_observationSequence := Some (ex_observationSequence e + 1)\<rparr>) in
      case result of
        ReconcileSettled settled evidence receipt \<Rightarrow>
          when_ok receipt w (\<lambda>rt. then_do (on_executions (completeSettlement
              ((common SETTLED)\<lparr>oc_settledAt := Some settled, oc_evidence := Some evidence, oc_sideEffect := Some ''occurred''\<rparr>)
              (settled_execution_receipt p e rt)) w) (\<lambda>x w'. (Inr (fst x), w')))
      | ReconcileFailed failed code category evidence \<Rightarrow> on_executions (completeUnsafe
          ((common X_FAILED)\<lparr>oc_failedAt := Some failed, oc_failureCode := Some code, oc_failureCategory := Some category,
            oc_failureRetryable := Some False, oc_evidence := Some evidence, oc_sideEffect := Some ''occurred''\<rparr>)) w
      | ReconcileUnknown code recovery \<Rightarrow> on_executions (completeUnsafe
          ((common X_UNKNOWN)\<lparr>oc_failureCode := code, oc_recoveryAction := recovery,
            oc_nextAttemptAt := Some (wt_afterwards ts), oc_sideEffect := Some ''may_have_occurred''\<rparr>)) w
      | ReconcilePending evidence \<Rightarrow> on_executions (completeUnsafe
          ((common X_PROCESSING)\<lparr>oc_evidence := evidence, oc_nextAttemptAt := Some (wt_afterwards ts),
            oc_sideEffect := Some ''occurred''\<rparr>)) w)"

definition reconcileNext ::
  "runtime_env \<Rightarrow> rail_runtime \<Rightarrow> worker_config \<Rightarrow> (execution_store \<Rightarrow> execution_store) \<Rightarrow> string \<Rightarrow> worker_times \<Rightarrow>
   execution_world \<Rightarrow> (execution_world, payment_execution option) outcome" where
  "reconcileNext env rail cfg others newId ts w =
     then_do (worker_claim env cfg newId ts [SUBMITTING, X_PROCESSING, X_UNKNOWN] w) (\<lambda>claimed w1.
       case claimed of
         None \<Rightarrow> (Inr None, w1)
       | Some (e, attempt) \<Rightarrow>
           when_ok (execution_payment w1 e) w1 (\<lambda>p.
           when_ok (rail_prepare rail p e (at_attemptId attempt)) w1 (\<lambda>prepared.
           when_ok (rail_provider rail (coalesce (ex_providerReference e) (fst prepared))) w1 (\<lambda>provider.
           when_ok (rail_reconciliation rail (coalesce (ex_reconciliationReference e) (snd prepared))) w1 (\<lambda>recon.
           when_ok (rail_reconcile rail p e (at_attemptId attempt) provider recon (ex_observationSequence e + 1)) w1 (\<lambda>result.
             then_do (complete_reconciliation cfg p e (at_attemptId attempt) ts provider recon result
                 (w1\<lparr>xw_executions := others (xw_executions w1)\<rparr>)) (\<lambda>x w2. (Inr (Some x), w2))))))))"

end
