(* ===== verification/PaymentIntentServiceProperties.thy ===== *)
theory PaymentIntentServiceProperties
  imports PaymentIntentService
begin

text \<open>
  What a caller of the payment intent service can rely on: only the owner of a payment sees or
  confirms it, a confirmation takes effect once, and creating is idempotent.
\<close>

section \<open>The parts of a request\<close>

lemma on_accounts_payments [simp]: "iw_payments (snd (on_accounts f w)) = iw_payments w"
  by (simp add: on_accounts_def split: prod.splits)

lemma resolveActor_payments: "resolveActor env c w = (r, w') \<Longrightarrow> iw_payments w' = iw_payments w"
  by (auto simp: resolveActor_def on_accounts_def split: prod.splits)

lemma resolveActor_reads: "resolveActor env c w = (r, w') \<Longrightarrow> iw_clockReads w' = iw_clockReads w"
  by (auto simp: resolveActor_def on_accounts_def split: prod.splits)

lemma allowlist_keeps:
  "requireActiveAllowlist env cfg a w = (r, w') \<Longrightarrow> iw_payments w' = iw_payments w \<and> iw_accounts w' = iw_accounts w"
  by (auto simp: requireActiveAllowlist_def service_now_def Let_def split: if_splits)

lemma allowlist_access:
  "requireActiveAllowlist env cfg a w = (Inr u, w') \<Longrightarrow>
   hasActivePaymentAccess env (ic_allowlistRequired cfg) (findAllowlistEntry (iw_payments w) a) (ic_clock cfg (iw_clockReads w))"
  by (auto simp: requireActiveAllowlist_def service_now_def app_error_def Let_def split: if_splits)

lemma owned_payment:
  assumes "store_ok (iw_payments w)"
  shows "requireOwnedPayment w pid a = Inr p \<longleftrightarrow>
    js_get (ps_payments (iw_payments w)) pid = Some p \<and> p_actorSubject p = a"
proof (cases "js_get (ps_payments (iw_payments w)) pid")
  case None
  then show ?thesis
    by (simp add: requireOwnedPayment_def findPayment_def clone_option_def app_error_def)
next
  case (Some q)
  then have "clonePayment q = Inr q"
    using payments_keyedD(3) [OF store_okD(1) [OF assms]] clonePayment_id by blast
  with Some show ?thesis
    by (auto simp: requireOwnedPayment_def findPayment_def clone_option_def app_error_def)
qed

lemma replayResult_Some: "replayResult p = Inr (Some y) \<Longrightarrow>
    y = (toPublicPaymentIntent p, False) \<and> p_status p \<in> {PROCESSING, UNKNOWN, COMPLETED}"
  by (auto simp: replayResult_def app_error_def split: if_splits)

lemma replayResult_None: "replayResult p = Inr None \<Longrightarrow> p_status p = AWAITING_CONFIRMATION"
  by (cases "p_status p") (auto simp: replayResult_def app_error_def)

lemma matching_hash: "requireMatchingHash a b = Inr u \<longleftrightarrow> hex_bytes a = hex_bytes b"
  by (simp add: requireMatchingHash_def app_error_def)

text \<open>What a successful transition did.\<close>

lemma transition_success:
  assumes ok: "store_ok s" and run: "transitionPayment env i s = (Inr new, s')"
  obtains cur where "js_get (ps_payments s) (ti_paymentId i) = Some cur" "p_version cur = ti_expectedVersion i"
    "validatePaymentTransition (p_status cur) (ti_toStatus i) (coalesce (ti_evidence i) no_evidence) = Inr ()"
    "p_status new = ti_toStatus i" "js_get (ps_payments s') (ti_paymentId i) = Some new"
    "same_request new cur" "p_version new = p_version cur + 1"
proof -
  from run obtain cur where req: "requireVersion s (ti_paymentId i) (ti_expectedVersion i) = Inr cur"
    and valid: "validatePaymentTransition (p_status cur) (ti_toStatus i) (coalesce (ti_evidence i) no_evidence) = Inr ()"
    by (auto simp: transitionPayment_def when_ok_Inr)
  obtain e' where e': "normalizeTransitionEvidence (ti_toStatus i) (coalesce (ti_evidence i) no_evidence) = Inr e'"
    using normalize_total [OF valid] by blast
  have cur: "js_get (ps_payments s) (ti_paymentId i) = Some cur" "p_version cur = ti_expectedVersion i"
    using req by (auto simp: requireVersion_def requirePayment_def version_conflict_def split: option.splits if_splits)
  from run req valid e' obtain upd s1 where ap: "applyEvidence env cur (ti_toStatus i) e' s = (Inr upd, s1)"
    and cl: "clonePayment upd = Inr new"
    by (auto simp: transitionPayment_def when_ok_Inr then_do_Inr Let_def split: if_splits)
  have "payment_ok cur" using payments_keyedD(3) [OF store_okD(1) [OF ok] cur(1)] .
  with evidence_outcome [OF ap] have up: "evidenced cur (ti_toStatus i) e' upd" "payment_ok upd"
    by (auto simp: evidenced_def)
  then have new: "new = upd" using cl clonePayment_id by simp
  have "js_get (ps_payments s') (ti_paymentId i) = Some new"
    using transition_outcome [OF ok run] by (auto simp: write_outcome_def payment_write_def)
  with cur valid up show thesis by (intro that) (auto simp: new evidenced_def)
qed

section \<open>Confirmation\<close>

lemma confirm_write_outcome:
  assumes ok: "store_ok (iw_payments w)" and run: "confirm_write env i a pid now w = (Inr (x, applied), w')"
    and pid: "pid = co_paymentId i" and own: "js_get (ps_payments (iw_payments w)) pid = Some p" "p_actorSubject p = a"
    and hash: "hex_bytes (p_requestHash p) = hex_bytes (co_requestHash i)"
  shows "\<exists>q. js_get (ps_payments (iw_payments w')) pid = Some q \<and> x = toPublicPaymentIntent q \<and>
    p_actorSubject q = a \<and> p_status q \<in> {PROCESSING, UNKNOWN, COMPLETED} \<and>
    hex_bytes (p_requestHash q) = hex_bytes (co_requestHash i) \<and>
    (applied \<longrightarrow> p_status q = PROCESSING \<and> p_version q = co_expectedVersion i + 1 \<and>
       p_status p = AWAITING_CONFIRMATION \<and> p_version p = co_expectedVersion i)"
proof -
  let ?in = "\<lparr>ti_paymentId = pid, ti_expectedVersion = co_expectedVersion i, ti_toStatus = PROCESSING,
           ti_evidence = Some (no_evidence\<lparr>userConfirmedAt := Some now, executionStartedAt := Some now\<rparr>),
           ti_requestId = co_requestId i, ti_details = None, ti_occurredAt = Some now\<rparr>"
  obtain r s' where t: "transitionPayment env ?in (iw_payments w) = (r, s')" by fastforce
  show ?thesis
  proof (cases r)
    case (Inr new)
    with run t have x: "x = toPublicPaymentIntent new" "applied" "iw_payments w' = s'"
      by (auto simp: confirm_write_def on_payments_def)
    from transition_success [OF ok t [unfolded Inr]] obtain cur where c: "js_get (ps_payments (iw_payments w)) pid = Some cur"
      "p_version cur = co_expectedVersion i" "validatePaymentTransition (p_status cur) PROCESSING
        (coalesce (ti_evidence ?in) no_evidence) = Inr ()"
      "p_status new = PROCESSING" "js_get (ps_payments s') pid = Some new" "same_request new cur"
      "p_version new = p_version cur + 1"
      by auto
    have "p_status cur = AWAITING_CONFIRMATION" using transition_cases [OF c(3)] by auto
    with c own hash x show ?thesis by (auto simp: same_request_def)
  next
    case (Inl e)
    have st: "store_ok s'"
      using transition_outcome [OF ok t] write_outcome_step store_step_ok ok by blast
    with run t Inl have err: "error_class_of e = PaymentVersionConflictError" "iw_payments w' = s'"
      and re: "and_then (requireOwnedPayment w' (co_paymentId i) a) (\<lambda>updated.
                  and_then (requireMatchingHash (p_requestHash updated) (co_requestHash i)) (\<lambda>_.
                    and_then (replayResult updated) (\<lambda>replay.
                      case replay of Some x \<Rightarrow> Inr x | None \<Rightarrow> version_stale))) = Inr (x, applied)"
      by (auto simp: confirm_write_def on_payments_def split: if_splits)
    then obtain q replay where q: "requireOwnedPayment w' pid a = Inr q" "hex_bytes (p_requestHash q) = hex_bytes (co_requestHash i)"
      "replayResult q = Inr replay" "(case replay of Some x \<Rightarrow> Inr x | None \<Rightarrow> version_stale) = Inr (x, applied)"
      unfolding pid by (auto simp: and_then_Inr matching_hash)
    then have "replay = Some (x, applied)" by (auto simp: version_stale_def app_error_def split: option.splits)
    with q(3) replayResult_Some have "x = toPublicPaymentIntent q" "\<not> applied" "p_status q \<in> {PROCESSING, UNKNOWN, COMPLETED}"
      by (auto dest: replayResult_Some)
    moreover have "js_get (ps_payments (iw_payments w')) pid = Some q" "p_actorSubject q = a"
      using owned_payment [of w' pid a q] q(1) err(2) st by auto
    ultimately show ?thesis using q(2) by blast
  qed
qed

text \<open>What the other requests do in between is some history of payment operations.\<close>

definition interference_ok :: "runtime_env \<Rightarrow> (payment_store \<Rightarrow> payment_store) \<Rightarrow> bool" where
  "interference_ok env others \<longleftrightarrow> (\<forall>s. payment_history env s (others s))"

text \<open>The payment a confirmation names awaits it, at the version it expects.\<close>

definition awaits_confirmation :: "payment_store \<Rightarrow> confirm_intent_input \<Rightarrow> bool" where
  "awaits_confirmation s i \<longleftrightarrow> (\<exists>p. js_get (ps_payments s) (co_paymentId i) = Some p \<and>
     p_status p = AWAITING_CONFIRMATION \<and> p_version p = co_expectedVersion i)"

lemma confirm_effect:
  assumes ok: "store_ok (iw_payments w)" and io: "interference_ok env others"
    and run: "confirm_intent env cfg others c i w = (Inr (x, applied), w')"
  shows "\<exists>a q. fst (resolveActor env c w) = Inr a \<and>
    hasActivePaymentAccess env (ic_allowlistRequired cfg) (findAllowlistEntry (iw_payments w) (actor_subject a))
      (ic_clock cfg (iw_clockReads w)) \<and>
    js_get (ps_payments (iw_payments w')) (co_paymentId i) = Some q \<and> x = toPublicPaymentIntent q \<and>
    p_actorSubject q = actor_subject a \<and> p_status q \<in> {PROCESSING, UNKNOWN, COMPLETED} \<and>
    hex_bytes (p_requestHash q) = hex_bytes (co_requestHash i) \<and>
    (applied \<longrightarrow> p_status q = PROCESSING \<and> p_version q = co_expectedVersion i + 1 \<and>
       awaits_confirmation (iw_payments w) i \<and> awaits_confirmation (others (iw_payments w)) i)"
proof -
  from run obtain a w1 u w2 where ra: "resolveActor env c w = (Inr a, w1)"
    and al: "requireActiveAllowlist env cfg (actor_subject a) w1 = (Inr u, w2)"
    and rest: "when_ok (requireOwnedPayment w2 (co_paymentId i) (actor_subject a)) w2 (\<lambda>current.
     when_ok (requireMatchingHash (p_requestHash current) (co_requestHash i)) w2 (\<lambda>_.
     when_ok (replayResult current) w2 (\<lambda>replay.
       case replay of
         Some x \<Rightarrow> (Inr x, w2)
       | None \<Rightarrow>
           if p_version current \<noteq> co_expectedVersion i then (version_stale, w2)
           else let (occurredAt, w3) = service_now cfg w2 in
             confirm_write env i (actor_subject a) (p_id current) occurredAt
               (w3\<lparr>iw_payments := others (iw_payments w3)\<rparr>)))) = (Inr (x, applied), w')"
    by (auto simp: confirm_intent_def then_do_Inr)
  have pays: "iw_payments w1 = iw_payments w" "iw_payments w2 = iw_payments w"
    using resolveActor_payments [OF ra] allowlist_keeps [OF al] by simp_all
  have now: "hasActivePaymentAccess env (ic_allowlistRequired cfg) (findAllowlistEntry (iw_payments w) (actor_subject a))
      (ic_clock cfg (iw_clockReads w))" using allowlist_access [OF al] pays resolveActor_reads [OF ra] by simp
  from rest obtain cur replay where cur: "requireOwnedPayment w2 (co_paymentId i) (actor_subject a) = Inr cur"
    and h: "hex_bytes (p_requestHash cur) = hex_bytes (co_requestHash i)" and rr: "replayResult cur = Inr replay"
    by (auto simp: when_ok_Inr matching_hash)
  have own: "js_get (ps_payments (iw_payments w)) (co_paymentId i) = Some cur" "p_actorSubject cur = actor_subject a"
    using cur owned_payment [of w2] ok pays by auto
  show ?thesis
  proof (cases replay)
    case (Some y)
    note y = replayResult_Some [OF rr [unfolded Some]]
    from rest cur h rr Some have "y = (x, applied)" "w' = w2" by (auto simp: when_ok_Inr matching_hash)
    with y own h ra now pays show ?thesis by auto
  next
    case None
    obtain oc w3 where sn: "service_now cfg w2 = (oc, w3)" by fastforce
    then have w3: "iw_payments w3 = iw_payments w" using pays by (auto simp: service_now_def)
    have pid: "p_id cur = co_paymentId i" using payments_keyedD(1) [OF store_okD(1) [OF ok] own(1)] .
    from rest cur h rr None sn have cw: "confirm_write env i (actor_subject a) (p_id cur) oc
        (w3\<lparr>iw_payments := others (iw_payments w)\<rparr>) = (Inr (x, applied), w')" and ver: "p_version cur = co_expectedVersion i"
      by (auto simp: when_ok_Inr matching_hash version_stale_def app_error_def w3 split: if_splits)
    have hist: "payment_history env (iw_payments w) (others (iw_payments w))"
      using io by (simp add: interference_ok_def)
    then have ok3: "store_ok (others (iw_payments w))" using history_ok ok by blast
    obtain p where p: "js_get (ps_payments (others (iw_payments w))) (co_paymentId i) = Some p" "same_request p cur"
      using history_payment [OF hist ok own(1)] by blast
    then have pf: "p_actorSubject p = actor_subject a" "hex_bytes (p_requestHash p) = hex_bytes (co_requestHash i)"
      using own(2) h by (simp_all add: same_request_def)
    have "p_status cur = AWAITING_CONFIRMATION" using replayResult_None rr None by simp
    with ver own(1) have "awaits_confirmation (iw_payments w) i" by (auto simp: awaits_confirmation_def)
    with confirm_write_outcome [OF _ cw pid, of p] ok3 p(1) pf ra now pid show ?thesis by (auto simp: awaits_confirmation_def)
  qed
qed

lemma confirm_write_payments: "\<exists>ti. iw_payments (snd (confirm_write env i a pid now w)) = snd (transitionPayment env ti (iw_payments w))"
  unfolding confirm_write_def on_payments_def
  by (auto simp: Let_def split: prod.splits sum.splits) (metis snd_conv)+

lemma confirm_write_history: "payment_history env (iw_payments w) (iw_payments (snd (confirm_write env i a pid now w)))"
proof -
  obtain ti where "iw_payments (snd (confirm_write env i a pid now w)) = snd (transitionPayment env ti (iw_payments w))"
    using confirm_write_payments by blast
  then show ?thesis
    using history_one [of "iw_payments w" "OpTransition ti" env] by (simp add: thrown_def)
qed

lemma confirm_history:
  assumes run: "confirm_intent env cfg others c i w = (r, w')" and io: "interference_ok env others"
  shows "payment_history env (iw_payments w) (iw_payments w')"
proof -
  obtain ra w1 where ra: "resolveActor env c w = (ra, w1)" by fastforce
  note p1 = resolveActor_payments [OF ra]
  show ?thesis
  proof (cases ra)
    case (Inl e)
    with run ra p1 show ?thesis by (auto simp: confirm_intent_def intro: history_start)
  next
    case (Inr a)
    obtain al w2 where al: "requireActiveAllowlist env cfg (actor_subject a) w1 = (al, w2)" by fastforce
    have p2: "iw_payments w2 = iw_payments w" using allowlist_keeps [OF al] p1 by simp
    obtain oc w3 where sn: "service_now cfg w2 = (oc, w3)" by fastforce
    then have p3: "iw_payments w3 = iw_payments w" using p2 by (auto simp: service_now_def)
    let ?w4 = "w3\<lparr>iw_payments := others (iw_payments w3)\<rparr>"
    have "payment_history env (iw_payments w) (iw_payments ?w4)"
      using io p3 by (simp add: interference_ok_def)
    then have cw: "payment_history env (iw_payments w) (iw_payments (snd (confirm_write env i x pid oc ?w4)))" for x pid
      by (rule history_trans [OF confirm_write_history])
    have "iw_payments w' = iw_payments w \<or> (\<exists>x pid. w' = snd (confirm_write env i x pid oc ?w4))"
      using run ra Inr al sn p2
      by (auto simp: confirm_intent_def when_ok_def then_do_def split: sum.splits option.splits if_splits)
        (metis snd_conv)+
    with cw show ?thesis by (auto intro: history_start)
  qed
qed

text \<open>C5: a confirmation needs the owner, active access and the right hash: when \<open>confirm\<close> returns, the caller's
  account resolved to the actor of the payment, that actor's allowlist entry gave access at the time the service's clock
  showed when the request arrived, the hash sent decodes to the bytes of the stored one, and the payment returned is the
  stored one, PROCESSING or beyond. Only a confirmation that was applied depends on the version: the payment then was
  AWAITING_CONFIRMATION at the expected version, both when the request read it and when it wrote, and is now PROCESSING
  at the next one; a repeated confirmation is answered with the payment as it stands whatever version it names. This
  holds whatever other requests do between the read and the write.\<close>
theorem confirmation_is_authorized:
  assumes "reachable_store env (iw_payments w)" and "interference_ok env others"
    and "confirm_intent env cfg others c i w = (Inr (x, applied), w')"
  shows "\<exists>a q. fst (resolveActor env c w) = Inr a \<and>
    hasActivePaymentAccess env (ic_allowlistRequired cfg) (findAllowlistEntry (iw_payments w) (actor_subject a))
      (ic_clock cfg (iw_clockReads w)) \<and>
    js_get (ps_payments (iw_payments w')) (co_paymentId i) = Some q \<and> x = toPublicPaymentIntent q \<and>
    p_actorSubject q = actor_subject a \<and> p_status q \<in> {PROCESSING, UNKNOWN, COMPLETED} \<and>
    hex_bytes (p_requestHash q) = hex_bytes (co_requestHash i) \<and>
    (applied \<longrightarrow> p_status q = PROCESSING \<and> p_version q = co_expectedVersion i + 1 \<and>
       awaits_confirmation (iw_payments w) i \<and> awaits_confirmation (others (iw_payments w)) i)"
  using confirm_effect [OF reachable_ok [OF assms(1)] assms(2,3)] .

text \<open>C6: a confirmation is applied once, however two of them overlap. The writes of a store are atomic, so of two
  confirmations that come to their write one comes first. When the one that did was applied, the other, which comes to its
  write on a later store (\<open>others' (iw_payments v)\<close>), is not applied: by any caller with any version, and wherever it
  started and read the payment (\<open>v\<close>), before, during or after the first.\<close>
theorem confirmation_applies_once:
  assumes "reachable_store env (iw_payments w)" and "interference_ok env others"
    and "confirm_intent env cfg others c i w = (Inr (x, True), w')"
    and "reachable_store env (iw_payments v)" and "interference_ok env others'"
    and "payment_history env (iw_payments w') (others' (iw_payments v))"
    and "confirm_intent env cfg' others' c' j v = (Inr (y, applied), v')" and "co_paymentId j = co_paymentId i"
  shows "\<not> applied"
proof
  assume "applied"
  have "payment_history env (iw_payments w) (iw_payments w')" by (rule confirm_history [OF assms(3,2)])
  then have ok: "store_ok (iw_payments w')" using history_ok reachable_ok [OF assms(1)] by blast
  obtain q where q: "js_get (ps_payments (iw_payments w')) (co_paymentId i) = Some q" "p_status q = PROCESSING"
    using confirm_effect [OF reachable_ok [OF assms(1)] assms(2,3)] by auto
  from history_payment [OF assms(6) ok q(1)] q(2) obtain r where
    "js_get (ps_payments (others' (iw_payments v))) (co_paymentId i) = Some r" "PROCESSING \<le> p_status r" by auto
  moreover from confirm_effect [OF reachable_ok [OF assms(4)] assms(5,7)] \<open>applied\<close> assms(8)
  obtain p where "js_get (ps_payments (others' (iw_payments v))) (co_paymentId i) = Some p" "p_status p = AWAITING_CONFIRMATION"
    by (auto simp: awaits_confirmation_def)
  ultimately show False by (auto simp: less_eq_payment_status_def)
qed

text \<open>C29: payments are private to their owner: asking for a payment of another actor answers exactly as asking for
  one that does not exist, and the owner gets its current public form.\<close>
theorem intents_are_private:
  assumes "reachable_store env (iw_payments w)" and "resolveActor env c w = (Inr a, w1)"
  shows "find_intent env c pid w =
    ((case js_get (ps_payments (iw_payments w)) pid of
        Some p \<Rightarrow> if p_actorSubject p = actor_subject a then Inr (toPublicPaymentIntent p)
                 else app_error NOT_FOUND ''Payment intent was not found.''
      | None \<Rightarrow> app_error NOT_FOUND ''Payment intent was not found.''), w1)"
proof -
  have pays: "iw_payments w1 = iw_payments w" using resolveActor_payments [OF assms(2)] .
  have "findPayment (iw_payments w) pid = Inr (js_get (ps_payments (iw_payments w)) pid)"
    using payments_keyedD(3) [OF store_okD(1) [OF reachable_ok [OF assms(1)]]] clonePayment_id
    by (cases "js_get (ps_payments (iw_payments w)) pid") (auto simp: findPayment_def clone_option_def)
  then show ?thesis
    using assms(2) pays
    by (auto simp: find_intent_def requireOwnedPayment_def app_error_def split: option.splits)
qed

section \<open>Creation\<close>

lemma claimResult_Inr: "claimResult c = Inr (x, made) \<Longrightarrow> \<exists>p. c = (if made then CLAIMED p else EXISTING p) \<and> x = toPublicPaymentIntent p"
  by (cases c) (auto simp: app_error_def)

lemma on_payments_result: "on_payments f w = (r, w') \<Longrightarrow> f (iw_payments w) = (r, iw_payments w')"
  by (auto simp: on_payments_def split: prod.splits)

lemma direct_created:
  assumes "create_direct_intent env cfg newId a key r amt pu w = (Inr (x, True), w')"
  obtains h p where "createPaymentRequestHash env \<lparr>cr_actorSubject = actor_subject a, cr_network = ''solana-devnet'',
      cr_mintAddress = ic_mintAddress cfg, cr_recipientAddress = r, cr_amountRaw = amt, cr_purpose = pu\<rparr> = Inr h"
    "claimIdempotencyKey env \<lparr>cp_id = newId, cp_actorSubject = actor_subject a, cp_idempotencyKey = key, cp_requestHash = h,
            cp_network = ''solana-devnet'', cp_rail = ''solana'', cp_asset = ''USDC'',
            cp_mintAddress = ic_mintAddress cfg, cp_recipientAddress = r, cp_amountRaw = amt,
            cp_purpose = pu, cp_recipientType = Some DIRECT_WALLET, cp_recipientAccountId = None,
            cp_recipientSyntheticId = None, cp_recipientSnapshot = None, cp_recipientSnapshotVersion = None,
            cp_trustConfirmationOutcome = None\<rparr> (iw_payments w) = (Inr (CLAIMED p), iw_payments w')"
    "x = toPublicPaymentIntent p"
proof -
  from assms obtain h c where h: "createPaymentRequestHash env \<lparr>cr_actorSubject = actor_subject a, cr_network = ''solana-devnet'',
      cr_mintAddress = ic_mintAddress cfg, cr_recipientAddress = r, cr_amountRaw = amt, cr_purpose = pu\<rparr> = Inr h"
    and c: "on_payments (claimIdempotencyKey env \<lparr>cp_id = newId, cp_actorSubject = actor_subject a, cp_idempotencyKey = key,
            cp_requestHash = h, cp_network = ''solana-devnet'', cp_rail = ''solana'', cp_asset = ''USDC'',
            cp_mintAddress = ic_mintAddress cfg, cp_recipientAddress = r, cp_amountRaw = amt,
            cp_purpose = pu, cp_recipientType = Some DIRECT_WALLET, cp_recipientAccountId = None,
            cp_recipientSyntheticId = None, cp_recipientSnapshot = None, cp_recipientSnapshotVersion = None,
            cp_trustConfirmationOutcome = None\<rparr>) w = (Inr c, w')" "claimResult c = Inr (x, True)"
    by (auto simp: create_direct_intent_def when_ok_Inr then_do_Inr)
  obtain p where p: "c = CLAIMED p" "x = toPublicPaymentIntent p" using claimResult_Inr [OF c(2)] by auto
  show thesis by (rule that [OF h _ p(2)]) (use on_payments_result [OF c(1)] p(1) in simp)
qed

text \<open>C28: creating is idempotent: after a direct-wallet intent was created under a key, and whatever ran since,
  the same actor creating under that key makes nothing new: a request with the same hash is answered with
  the same intent as it stands and \<open>created\<close> false, one with another hash with a CONFLICT, and the payments
  do not change. Assumed of the runtime: SHA-256 digests are 64 lowercase hex digits.\<close>
theorem create_is_idempotent:
  assumes "reachable_store env (iw_payments w)" and "newId \<noteq> ''''" and "IDEMPOTENCY_KEY_PATTERN key"
    and "create_direct_intent env cfg newId a key r amt pu w = (Inr (x, True), w')"
    and "payment_history env (iw_payments w') (iw_payments v)"
    and sha: "\<And>t. is_sha256_hex (sha256_hex env t)"
    and "0 < amt'" and "validateActorSubject (actor_subject a) = Inr ()"
    and "case pu' of None \<Rightarrow> True | Some t \<Rightarrow> 1 \<le> utf8_length t \<and> utf8_length t \<le> 120"
  shows "\<exists>q h h'. createPaymentRequestHash env \<lparr>cr_actorSubject = actor_subject a, cr_network = ''solana-devnet'',
      cr_mintAddress = ic_mintAddress cfg, cr_recipientAddress = r, cr_amountRaw = amt, cr_purpose = pu\<rparr> = Inr h \<and>
    createPaymentRequestHash env \<lparr>cr_actorSubject = actor_subject a, cr_network = ''solana-devnet'',
      cr_mintAddress = ic_mintAddress cfg, cr_recipientAddress = r', cr_amountRaw = amt', cr_purpose = pu'\<rparr> = Inr h' \<and>
    create_direct_intent env cfg newId' a key r' amt' pu' v =
      (if h' = h then Inr (toPublicPaymentIntent q, False)
       else app_error CONFLICT ''Idempotency key was already used for a different payment intent.'', v) \<and>
    js_get (ps_payments (iw_payments v)) (pp_id x) = Some q"
proof -
  let ?req = "\<lparr>cr_actorSubject = actor_subject a, cr_network = ''solana-devnet'',
      cr_mintAddress = ic_mintAddress cfg, cr_recipientAddress = r', cr_amountRaw = amt', cr_purpose = pu'\<rparr>"
  obtain h p where h: "createPaymentRequestHash env \<lparr>cr_actorSubject = actor_subject a, cr_network = ''solana-devnet'',
      cr_mintAddress = ic_mintAddress cfg, cr_recipientAddress = r, cr_amountRaw = amt, cr_purpose = pu\<rparr> = Inr h"
    and cl: "claimIdempotencyKey env \<lparr>cp_id = newId, cp_actorSubject = actor_subject a, cp_idempotencyKey = key, cp_requestHash = h,
            cp_network = ''solana-devnet'', cp_rail = ''solana'', cp_asset = ''USDC'',
            cp_mintAddress = ic_mintAddress cfg, cp_recipientAddress = r, cp_amountRaw = amt,
            cp_purpose = pu, cp_recipientType = Some DIRECT_WALLET, cp_recipientAccountId = None,
            cp_recipientSyntheticId = None, cp_recipientSnapshot = None, cp_recipientSnapshotVersion = None,
            cp_trustConfirmationOutcome = None\<rparr> (iw_payments w) = (Inr (CLAIMED p), iw_payments w')"
    and x: "x = toPublicPaymentIntent p"
    using direct_created [OF assms(4)] by blast
  obtain h' where h': "createPaymentRequestHash env ?req = Inr h'" "is_sha256_hex h'"
    using assms(7) sha by (simp add: createPaymentRequestHash_def)
  let ?j = "\<lparr>cp_id = newId', cp_actorSubject = actor_subject a, cp_idempotencyKey = key, cp_requestHash = h',
            cp_network = ''solana-devnet'', cp_rail = ''solana'', cp_asset = ''USDC'',
            cp_mintAddress = ic_mintAddress cfg, cp_recipientAddress = r', cp_amountRaw = amt',
            cp_purpose = pu', cp_recipientType = Some DIRECT_WALLET, cp_recipientAccountId = None,
            cp_recipientSyntheticId = None, cp_recipientSnapshot = None, cp_recipientSnapshotVersion = None,
            cp_trustConfirmationOutcome = None\<rparr>"
  have v: "validateRequestHash h' = Inr ()" "validateCreatePayment ?j = Inr ()"
    using h'(2) assms(7-9) by (auto simp: validateRequestHash_def validateCreatePayment_def split: option.splits)
  obtain q where q: "claimIdempotencyKey env ?j (iw_payments v) =
      (Inr (if h' = h then EXISTING q else HASH_CONFLICT q), iw_payments v)"
    "js_get (ps_payments (iw_payments v)) (p_id p) = Some q"
    using claim_replayed [OF assms(1) _ cl assms(5), of ?j] v assms(2) visible_no_nul [OF assms(3)] by auto
  have "create_direct_intent env cfg newId' a key r' amt' pu' v =
      (claimResult (if h' = h then EXISTING q else HASH_CONFLICT q), v)"
    using h'(1) q(1) by (simp add: create_direct_intent_def on_payments_def)
  moreover have "pp_id x = p_id p" using x by (simp add: toPublicPaymentIntent_def)
  ultimately show ?thesis using h h'(1) q(2) by auto
qed

lemma clone_empty: "cloneJsonObject [] = Inr []" by code_simp

text \<open>Confirming the expected version of an intent that awaits confirmation goes through.\<close>

lemma confirm_write_applies:
  assumes "js_get (ps_payments (iw_payments w)) pid = Some p" and "p_status p = AWAITING_CONFIRMATION"
    and "p_version p = co_expectedVersion i" and "chainError p = None" "terminalProof p = None" and "at' \<noteq> ''''"
  shows "\<exists>x w'. confirm_write env i actor pid at' w = (Inr (x, True), w')"
  using assms
  by (simp add: confirm_write_def on_payments_def transitionPayment_def requireVersion_def requirePayment_def
      validatePaymentTransition_def normalizeTransitionEvidence_def transition_details_def applyEvidence_def
      appendEventUnsafe_def runtime_event_taken_def clone_option_def clonePayment_def cloneEvent_def
      no_evidence_def truthy_def Let_def time_or_clock_def read_clock_def eventTypeForTransition_def
      coalesce_def defined_def clone_empty split: option.splits)

text \<open>One whose version has moved on in between is answered with the payment as it stands.\<close>

lemma confirm_write_replays:
  assumes "js_get (ps_payments (iw_payments w)) (co_paymentId i) = Some q" and "clonePayment q = Inr q"
    and "p_version q \<noteq> co_expectedVersion i" and "p_status q = PROCESSING" and "p_actorSubject q = actor"
    and "hex_bytes (p_requestHash q) = hex_bytes (co_requestHash i)"
  shows "\<exists>y w'. confirm_write env i actor (co_paymentId i) at' w = (Inr (y, False), w')"
  using assms
  by (simp add: confirm_write_def on_payments_def transitionPayment_def requireVersion_def requirePayment_def
      requireOwnedPayment_def findPayment_def clone_option_def requireMatchingHash_def replayResult_def version_conflict_def Let_def)

text \<open>The read of a confirmation, by an owner with access, of an intent that awaits it: the write follows.\<close>

lemma confirm_comes_to_write:
  assumes "resolveActor env c w = (Inr a, w1)"
    and "hasActivePaymentAccess env (ic_allowlistRequired cfg) (findAllowlistEntry (iw_payments w1) (actor_subject a))
      (ic_clock cfg (iw_clockReads w1))"
    and "js_get (ps_payments (iw_payments w1)) (co_paymentId i) = Some p" and "p_id p = co_paymentId i"
    and "p_actorSubject p = actor_subject a" and "p_requestHash p = co_requestHash i"
    and "p_status p = AWAITING_CONFIRMATION" and "p_version p = co_expectedVersion i"
    and "chainError p = None" and "terminalProof p = None"
  shows "confirm_intent env cfg others c i w = confirm_write env i (actor_subject a) (co_paymentId i)
    (ic_clock cfg (Suc (iw_clockReads w1)))
    (w1\<lparr>iw_clockReads := Suc (Suc (iw_clockReads w1)), iw_payments := others (iw_payments w1)\<rparr>)"
proof -
  have r: "replayResult p = Inr None" using assms(7) by (simp add: replayResult_def)
  have o: "requireOwnedPayment w2 (co_paymentId i) (actor_subject a) = Inr p"
    if "iw_payments w2 = iw_payments w1" for w2
    using that assms(3-10)
    by (simp add: requireOwnedPayment_def findPayment_def clonePayment_def clone_option_def)
  have "requireMatchingHash (p_requestHash p) (co_requestHash i) = Inr ()"
    using assms(6) by (simp add: requireMatchingHash_def)
  then show ?thesis
    using assms o r by (simp add: confirm_intent_def requireActiveAllowlist_def service_now_def Let_def)
qed

section \<open>A sample world\<close>

definition sample_subject :: string where
  "sample_subject = ''zp:account:'' @ sample_uuid ''a''"

definition sample_config :: intent_config where
  "sample_config = \<lparr>ic_mintAddress = ''mint'', ic_findSynthetic = None, ic_resolver = None,
     ic_clock = (\<lambda>n. ''c'' @ nat_to_dec n), ic_allowlistRequired = None\<rparr>"

definition sample_caller :: caller where
  "sample_caller = \<lparr>cl_principal = plain_principal ''https://issuer/'' ''user-1'',
     cl_newAccountId = sample_uuid ''d'', cl_newIdentityId = sample_uuid ''e''\<rparr>"

definition sample_granted :: payment_store where
  "sample_granted = run_operations sample_env [OpAllow (sample_allow\<lparr>ca_actorSubject := sample_subject\<rparr>)] empty_store"

definition sample_intents :: payment_store where
  "sample_intents = run_operations sample_env [OpClaim (sample_create\<lparr>cp_actorSubject := sample_subject\<rparr>)] sample_granted"

definition sample_world :: intent_world where
  "sample_world = \<lparr>iw_accounts = sample_provisioned, iw_payments = sample_intents, iw_clockReads = 0\<rparr>"

definition sample_confirm_input :: confirm_intent_input where
  "sample_confirm_input = \<lparr>co_paymentId = ''pay-1'', co_requestHash = sample_hash, co_expectedVersion = 0, co_requestId = None\<rparr>"

lemma sample_granted_reachable: "reachable_store sample_env sample_granted"
  unfolding reachable_store_def sample_granted_def by (rule run_operations_history) simp

lemma sample_world_reachable: "reachable_store sample_env (iw_payments sample_world)"
proof -
  have "payment_history sample_env sample_granted sample_intents"
    unfolding sample_intents_def by (rule run_operations_history) code_simp
  from history_trans [OF this sample_granted_reachable [unfolded reachable_store_def]] show ?thesis
    by (simp only: reachable_store_def sample_world_def intent_world.select_convs)
qed

lemma no_interference: "interference_ok env id"
  by (simp add: interference_ok_def history_start)

lemma sample_actor:
  obtains a w1 where "resolveActor sample_env sample_caller sample_world = (Inr a, w1)" "actor_subject a = sample_subject"
    "iw_payments w1 = sample_intents" "iw_clockReads w1 = 0"
proof -
  have "(case fst (resolveActor sample_env sample_caller sample_world) of
      Inr a \<Rightarrow> actor_subject a = sample_subject | _ \<Rightarrow> False)" by code_simp
  moreover obtain r w1 where r: "resolveActor sample_env sample_caller sample_world = (r, w1)" by fastforce
  moreover have "iw_payments w1 = sample_intents" "iw_clockReads w1 = 0"
    using r by (auto simp: resolveActor_def on_accounts_def sample_world_def split: prod.splits)
  ultimately show thesis using that by (cases r) auto
qed

lemma sample_intent:
  obtains p where "js_get (ps_payments sample_intents) ''pay-1'' = Some p" "p_actorSubject p = sample_subject"
    "p_status p = AWAITING_CONFIRMATION" "p_version p = 0" "p_requestHash p = sample_hash" "p_id p = ''pay-1''"
    "chainError p = None" "terminalProof p = None"
proof -
  have "(case js_get (ps_payments sample_intents) ''pay-1'' of Some p \<Rightarrow>
      p_actorSubject p = sample_subject \<and> p_status p = AWAITING_CONFIRMATION \<and> p_version p = 0 \<and>
      p_requestHash p = sample_hash \<and> p_id p = ''pay-1'' \<and> chainError p = None \<and> terminalProof p = None | None \<Rightarrow> False)"
    by code_simp
  then show thesis using that by (auto split: option.splits)
qed

lemma sample_access:
  "hasActivePaymentAccess sample_env (ic_allowlistRequired sample_config)
     (findAllowlistEntry sample_intents sample_subject) (ic_clock sample_config 0)"
  by code_simp

lemma sample_write:
  obtains w1 p where "\<forall>others. confirm_intent sample_env sample_config others sample_caller sample_confirm_input sample_world =
      confirm_write sample_env sample_confirm_input sample_subject ''pay-1'' (ic_clock sample_config 1)
        (w1\<lparr>iw_clockReads := 2, iw_payments := others sample_intents\<rparr>)"
    "js_get (ps_payments sample_intents) ''pay-1'' = Some p" "p_status p = AWAITING_CONFIRMATION" "p_version p = 0"
    "chainError p = None" "terminalProof p = None"
proof -
  obtain a w1 where a: "resolveActor sample_env sample_caller sample_world = (Inr a, w1)" "actor_subject a = sample_subject"
    "iw_payments w1 = sample_intents" "iw_clockReads w1 = 0" by (rule sample_actor)
  obtain p where p: "js_get (ps_payments sample_intents) ''pay-1'' = Some p" "p_actorSubject p = sample_subject"
    "p_status p = AWAITING_CONFIRMATION" "p_version p = 0" "p_requestHash p = sample_hash" "p_id p = ''pay-1''"
    "chainError p = None" "terminalProof p = None" by (rule sample_intent)
  have "confirm_intent sample_env sample_config others sample_caller sample_confirm_input sample_world =
      confirm_write sample_env sample_confirm_input sample_subject ''pay-1'' (ic_clock sample_config 1)
        (w1\<lparr>iw_clockReads := 2, iw_payments := others sample_intents\<rparr>)" for others
    using confirm_comes_to_write [OF a(1), of sample_config sample_confirm_input p others] a p sample_access
    by (simp add: sample_confirm_input_def numeral_2_eq_2)
  with p that show thesis by blast
qed

lemma sample_confirmation:
  obtains x w' where "confirm_intent sample_env sample_config id sample_caller sample_confirm_input sample_world =
    (Inr (x, True), w')"
proof -
  obtain w1 p where w: "\<forall>others. confirm_intent sample_env sample_config others sample_caller sample_confirm_input sample_world =
      confirm_write sample_env sample_confirm_input sample_subject ''pay-1'' (ic_clock sample_config 1)
        (w1\<lparr>iw_clockReads := 2, iw_payments := others sample_intents\<rparr>)"
    and p: "js_get (ps_payments sample_intents) ''pay-1'' = Some p" "p_status p = AWAITING_CONFIRMATION" "p_version p = 0"
    "chainError p = None" "terminalProof p = None" by (rule sample_write)
  have "ic_clock sample_config 1 \<noteq> []" by (simp add: sample_config_def)
  with confirm_write_applies [of "w1\<lparr>iw_clockReads := 2, iw_payments := sample_intents\<rparr>" "''pay-1''" p sample_confirm_input] p that w
  show thesis by (fastforce simp: sample_confirm_input_def)
qed

theorem confirmation_is_authorized_witness:
  "\<exists>x w' q. confirm_intent sample_env sample_config id sample_caller sample_confirm_input sample_world = (Inr (x, True), w') \<and>
     js_get (ps_payments (iw_payments w')) ''pay-1'' = Some q \<and> p_status q = PROCESSING \<and> p_version q = 1"
proof -
  obtain x w' where c: "confirm_intent sample_env sample_config id sample_caller sample_confirm_input sample_world =
    (Inr (x, True), w')" by (rule sample_confirmation)
  from confirmation_is_authorized [OF sample_world_reachable no_interference c] c show ?thesis
    by (auto simp: sample_confirm_input_def)
qed

text \<open>Two confirmations that overlap: the second reads the awaiting payment, then the first runs, then the second writes.\<close>

definition sample_overtaking :: "payment_store \<Rightarrow> payment_store" where
  "sample_overtaking s = iw_payments (snd (confirm_intent sample_env sample_config id sample_caller sample_confirm_input
     (sample_world\<lparr>iw_payments := s\<rparr>)))"

lemma sample_overtaking_interferes: "interference_ok sample_env sample_overtaking"
  unfolding interference_ok_def
proof
  fix s
  let ?w = "sample_world\<lparr>iw_payments := s\<rparr>"
  obtain r w' where "confirm_intent sample_env sample_config id sample_caller sample_confirm_input ?w = (r, w')" by fastforce
  from confirm_history [OF this no_interference] this show "payment_history sample_env s (sample_overtaking s)"
    by (simp add: sample_overtaking_def)
qed

lemma sample_overlap:
  obtains y v' where "confirm_intent sample_env sample_config sample_overtaking sample_caller sample_confirm_input sample_world = (Inr (y, False), v')"
proof -
  obtain w1 where w: "\<forall>others. confirm_intent sample_env sample_config others sample_caller sample_confirm_input sample_world =
      confirm_write sample_env sample_confirm_input sample_subject ''pay-1'' (ic_clock sample_config 1)
        (w1\<lparr>iw_clockReads := 2, iw_payments := others sample_intents\<rparr>)" by (rule sample_write) blast
  obtain x w' where c: "confirm_intent sample_env sample_config id sample_caller sample_confirm_input sample_world =
    (Inr (x, True), w')" by (rule sample_confirmation)
  have here: "iw_payments sample_world = sample_intents" by (simp add: sample_world_def)
  have "sample_overtaking (iw_payments sample_world) = iw_payments w'" using c by (simp add: sample_overtaking_def)
  then have first: "sample_overtaking sample_intents = iw_payments w'" by (simp add: here)
  from confirm_effect [OF reachable_ok [OF sample_world_reachable] no_interference c] obtain q where
    q: "js_get (ps_payments (iw_payments w')) ''pay-1'' = Some q" "p_status q = PROCESSING" "p_version q = 1"
      "hex_bytes (p_requestHash q) = hex_bytes sample_hash" by (auto simp: sample_confirm_input_def)
  obtain p where p: "js_get (ps_payments sample_intents) ''pay-1'' = Some p" "p_actorSubject p = sample_subject" by (rule sample_intent)
  have hist: "payment_history sample_env sample_intents (iw_payments w')"
    using confirm_history [OF c no_interference] here by simp
  have ok: "store_ok sample_intents" "store_ok (iw_payments w')"
    using reachable_ok [OF sample_world_reachable] history_ok [OF hist] here by simp_all
  have "p_actorSubject q = sample_subject"
    using history_payment [OF hist ok(1) p(1)] q(1) p(2) by (auto simp: same_request_def)
  moreover have "clonePayment q = Inr q"
    using payments_keyedD(3) [OF store_okD(1) [OF ok(2)] q(1)] clonePayment_id by blast
  ultimately show thesis
    using confirm_write_replays [of "w1\<lparr>iw_clockReads := 2, iw_payments := iw_payments w'\<rparr>" sample_confirm_input q sample_subject] q w first that
    by (fastforce simp: sample_confirm_input_def)
qed

theorem confirmation_applies_once_witness:
  "\<exists>x w' y v'. confirm_intent sample_env sample_config id sample_caller sample_confirm_input sample_world = (Inr (x, True), w') \<and>
     sample_overtaking (iw_payments sample_world) = iw_payments w' \<and>
     confirm_intent sample_env sample_config sample_overtaking sample_caller sample_confirm_input sample_world = (Inr (y, False), v')"
proof -
  obtain x w' where c: "confirm_intent sample_env sample_config id sample_caller sample_confirm_input sample_world =
    (Inr (x, True), w')" by (rule sample_confirmation)
  then have first: "sample_overtaking (iw_payments sample_world) = iw_payments w'" by (simp add: sample_overtaking_def)
  obtain y b v' where d: "confirm_intent sample_env sample_config sample_overtaking sample_caller sample_confirm_input sample_world = (Inr (y, b), v')"
    by (rule sample_overlap)
  have "payment_history sample_env (iw_payments w') (sample_overtaking (iw_payments sample_world))" unfolding first by (rule history_start)
  from confirmation_applies_once [OF sample_world_reachable no_interference c sample_world_reachable sample_overtaking_interferes this d refl]
  show ?thesis using c d first by auto
qed

theorem intents_are_private_witness:
  "\<exists>a w1. find_intent sample_env sample_caller ''other'' sample_world =
     (app_error NOT_FOUND ''Payment intent was not found.'', w1)"
proof -
  have "(case fst (resolveActor sample_env sample_caller sample_world) of Inr a \<Rightarrow> True | _ \<Rightarrow> False)"
    "js_get (ps_payments (iw_payments sample_world)) ''other'' = None"
    by code_simp+
  then obtain a w1 where "resolveActor sample_env sample_caller sample_world = (Inr a, w1)"
    by (cases "resolveActor sample_env sample_caller sample_world") (auto split: sum.splits)
  from intents_are_private [OF sample_world_reachable this, of "''other''"]
    \<open>js_get (ps_payments (iw_payments sample_world)) ''other'' = None\<close>
  show ?thesis by auto
qed

theorem create_is_idempotent_witness:
  "\<exists>x w' q. create_direct_intent sample_env sample_config ''pay-2'' \<lparr>actor_subject = sample_subject, actor_accountId = ''''\<rparr>
       ''key-of-16-chars-or-more'' ''bob'' 5 None sample_world = (Inr (x, True), w') \<and>
     create_direct_intent sample_env sample_config ''pay-3'' \<lparr>actor_subject = sample_subject, actor_accountId = ''''\<rparr>
       ''key-of-16-chars-or-more'' ''bob'' 5 None w' = (Inr (toPublicPaymentIntent q, False), w')"
proof -
  let ?a = "\<lparr>actor_subject = sample_subject, actor_accountId = ''''\<rparr>"
  have "(case fst (create_direct_intent sample_env sample_config ''pay-2'' ?a ''key-of-16-chars-or-more'' ''bob'' 5 None sample_world) of
      Inr (x, b) \<Rightarrow> b | _ \<Rightarrow> False)" by code_simp
  then obtain x w' where c: "create_direct_intent sample_env sample_config ''pay-2'' ?a ''key-of-16-chars-or-more'' ''bob'' 5 None sample_world =
      (Inr (x, True), w')"
    by (cases "create_direct_intent sample_env sample_config ''pay-2'' ?a ''key-of-16-chars-or-more'' ''bob'' 5 None sample_world")
      (auto split: sum.splits)
  have h: "is_sha256_hex (sha256_hex sample_env t)" for t
  proof -
    have "is_sha256_hex (replicate 64 CHR ''a'')" by code_simp
    then show ?thesis by (simp add: sample_env_def)
  qed
  have k: "IDEMPOTENCY_KEY_PATTERN ''key-of-16-chars-or-more''" "validateActorSubject (actor_subject ?a) = Inr ()"
    by code_simp+
  from create_is_idempotent [OF sample_world_reachable _ k(1) c history_start h _ k(2), where pu' = None and amt' = 5 and r' = "''bob''"
      and newId' = "''pay-3''"] c
  show ?thesis by auto
qed

end
