(* ===== verification/ExecutionServiceProperties.thy ===== *)
theory ExecutionServiceProperties
  imports ExecutionService PaymentIntentServiceProperties
begin

text \<open>
  Executing a payment: who may, on what confirmation, and that a payment is executed once.
\<close>

section \<open>The parts of a request\<close>

lemma execution_actor_state:
  "execution_actor env c w = (r, w') \<Longrightarrow> xw_executions w' = xw_executions w \<and>
     iw_payments (xw_base w') = iw_payments (xw_base w)"
  by (auto simp: execution_actor_def on_accounts_def split: prod.splits)

lemma execution_actor_reads:
  "execution_actor env c w = (r, w') \<Longrightarrow> iw_clockReads (xw_base w') = iw_clockReads (xw_base w)"
  by (auto simp: execution_actor_def on_accounts_def split: prod.splits)

lemma execution_now_state:
  "execution_now cfg w = (t, w') \<Longrightarrow> xw_executions w' = xw_executions w \<and> iw_payments (xw_base w') = iw_payments (xw_base w)"
  by (auto simp: execution_now_def)

lemma payment_owned:
  assumes "store_ok (iw_payments (xw_base w))" and "payment_owned_by m w pid a = Inr p"
  shows "js_get (ps_payments (iw_payments (xw_base w))) pid = Some p" "p_actorSubject p = a" "p_id p = pid"
proof -
  obtain q where q: "js_get (ps_payments (iw_payments (xw_base w))) pid = Some q" "clonePayment q = Inr p" "p_actorSubject p = a"
    using assms(2) by (auto simp: payment_owned_by_def findPayment_def clone_option_def execution_error_def and_then_Inr
        split: option.splits if_splits)
  have "payment_ok q" "p_id q = pid" using payments_keyedD [OF store_okD(1) [OF assms(1)] q(1)] by blast+
  with q show "js_get (ps_payments (iw_payments (xw_base w))) pid = Some p" "p_actorSubject p = a" "p_id p = pid"
    using clonePayment_id by auto
qed

text \<open>What a request that is answered did.\<close>

lemma execute_success:
  assumes "store_ok (iw_payments (xw_base w))"
    and "execute_payment env cfg newId c pid body w = (Inr (x, created), w')"
  obtains a p b e key now w1 where
    "execution_actor env c w = (Inr a, w1)" "execute_fields body = Inr b"
    "hasActivePaymentAccess env (xf_allowlistRequired cfg)
       (findAllowlistEntry (iw_payments (xw_base w)) (ac_actorSubject a)) (xf_clock cfg (iw_clockReads (xw_base w)))"
    "js_get (ps_payments (iw_payments (xw_base w))) pid = Some p" "p_actorSubject p = ac_actorSubject a"
    "confirmed_for_execution p = Inr ()" "confirmation_matches env p b = Inr ()"
    "createOrGet \<lparr>xc_executionId = newId, xc_paymentIntentId = pid, xc_actorSubject = ac_actorSubject a,
       xc_providerIdempotencyKey = key, xc_now = now\<rparr> (xw_executions w) = (Inr (e, created), xw_executions w')"
    "x = toPublicExecution e None" "iw_payments (xw_base w') = iw_payments (xw_base w)"
proof -
  from assms(2) obtain b a w1 where b: "execute_fields body = Inr b" and a: "execution_actor env c w = (Inr a, w1)"
    by (auto simp: execute_payment_def when_ok_Inr then_do_Inr)
  obtain access w2 where n: "execution_now cfg w1 = (access, w2)" by fastforce
  obtain now w3 where n': "execution_now cfg w2 = (now, w3)" by fastforce
  note st = execution_actor_state [OF a] execution_now_state [OF n] execution_now_state [OF n']
  have clock: "access = xf_clock cfg (iw_clockReads (xw_base w))" using n execution_actor_reads [OF a] by (simp add: execution_now_def)
  from assms(2) b a n n' obtain p e w4 where
    allow: "hasActivePaymentAccess env (xf_allowlistRequired cfg)
       (findAllowlistEntry (iw_payments (xw_base w1)) (ac_actorSubject a)) access"
    and own: "payment_owned_by ''Payment intent was not found.'' w2 pid (ac_actorSubject a) = Inr p"
    and conf: "confirmed_for_execution p = Inr ()" "confirmation_matches env p b = Inr ()"
    and go: "on_executions (createOrGet \<lparr>xc_executionId = newId, xc_paymentIntentId = p_id p,
             xc_actorSubject = ac_actorSubject a, xc_providerIdempotencyKey = provider_key env (p_id p),
             xc_now = now\<rparr>) w3 = (Inr (e, created), w')" and x: "x = toPublicExecution e None"
    by (auto simp: execute_payment_def when_ok_Inr then_do_Inr Let_def execution_error_def split: if_splits)
  have "store_ok (iw_payments (xw_base w2))" using st assms(1) by simp
  note p = payment_owned [OF this own]
  from go st have "createOrGet \<lparr>xc_executionId = newId, xc_paymentIntentId = p_id p,
             xc_actorSubject = ac_actorSubject a, xc_providerIdempotencyKey = provider_key env (p_id p),
             xc_now = now\<rparr> (xw_executions w) = (Inr (e, created), xw_executions w')"
    and "iw_payments (xw_base w') = iw_payments (xw_base w)"
    by (auto simp: on_executions_def split: prod.splits)
  then show thesis
    using that [OF a b _ _ p(2) conf _ x] allow [unfolded clock] p st by auto
qed

text \<open>Finding or creating: the execution found afterwards is the one of the answer.\<close>

lemma create_or_get:
  assumes ok: "executions_ok s" and fresh: "xc_executionId i \<noteq> ''''" and run: "createOrGet i s = (Inr (e, created), s')"
  shows "js_get (xs_byIntent s') (xc_paymentIntentId i) = Some (ex_executionId e)"
    and "created \<longleftrightarrow> js_get (xs_byIntent s) (xc_paymentIntentId i) = None"
    and "\<not> created \<Longrightarrow> s' = s"
proof -
  let ?p = "xc_paymentIntentId i"
  have "js_get (xs_byIntent s') ?p = Some (ex_executionId e) \<and> (created \<longleftrightarrow> js_get (xs_byIntent s) ?p = None) \<and>
    (\<not> created \<longrightarrow> s' = s)"
  proof (cases "js_get (xs_byIntent s) ?p")
    case None
    with run have "s' = snd (createOrGet i s)" "e = clone_execution (new_execution i)" "created"
      by (auto simp: createOrGet_def Let_def)
    with None show ?thesis by (simp add: created_parts)
  next
    case (Some k)
    from require_execution_ok [OF ok Some] obtain x where x: "require_execution s k = Inr x"
      "js_get (xs_executions s) k = Some x" "k \<noteq> ''''" by blast
    have "ex_executionId x = k" using executions_okD(1) [OF ok x(2)] by (simp add: execution_ok_def)
    with run Some x show ?thesis by (auto simp: createOrGet_def)
  qed
  then show "js_get (xs_byIntent s') ?p = Some (ex_executionId e)" "created \<longleftrightarrow> js_get (xs_byIntent s) ?p = None"
    "\<not> created \<Longrightarrow> s' = s" by blast+
qed

lemma step_execution_index:
  assumes ok: "executions_ok s" and "execution_step s t" and k: "js_get (xs_byIntent s) p = Some k"
  shows "js_get (xs_byIntent t) p = Some k"
proof -
  from executions_okD(4) [OF ok k] obtain e where e: "js_get (xs_executions s) k = Some e" "ex_paymentIntentId e = p" by blast
  from step_execution [OF ok assms(2) e(1)] e(2) obtain x where
    x: "js_get (xs_executions t) k = Some x" "ex_paymentIntentId x = p" by fastforce
  from executions_okD(1) [OF execution_step_ok [OF ok assms(2)] x(1)] x(2) show ?thesis
    by (simp add: execution_ok_def)
qed

lemma request_body:
  assumes "execute_fields body = Inr b" and "confirmation_matches env p b = Inr u"
  shows "body = Some (JObject b) \<and> map_of b ''requestHash'' = Some (JString (p_requestHash p)) \<and>
    js_string env (member_value b ''expectedVersion'') = Inr (int_to_dec (p_version p)) \<and>
    fst ` set b \<subseteq> {''requestHash'', ''expectedVersion''}"
proof -
  have "member_value b ''requestHash'' = JString h \<Longrightarrow> map_of b ''requestHash'' = Some (JString h)" for h
    by (cases "map_of b ''requestHash''") (simp_all add: member_value_def)
  with assms show ?thesis
    by (auto simp: execute_fields_def confirmation_matches_def execution_error_def and_then_Inr Let_def list_ex_iff
        split: option.splits json.splits if_splits)
qed

section \<open>Executing\<close>

text \<open>C16: an execute request that is answered came from the active account that owns the payment, with payment access
  at the time the service's clock shows when the request arrives (an entry that is revoked or expired by then gives none),
  for a payment the user confirmed and that is being processed, and its body names exactly the request hash
  and the version of that payment; the payments themselves are not touched.\<close>
theorem execution_is_authorized:
  assumes "reachable_store env (iw_payments (xw_base w))"
    and "execute_payment env cfg newId c pid body w = (Inr (x, created), w')"
  shows "\<exists>a w1 p b. execution_actor env c w = (Inr a, w1) \<and>
    js_get (ps_payments (iw_payments (xw_base w))) pid = Some p \<and> p_actorSubject p = ac_actorSubject a \<and>
    hasActivePaymentAccess env (xf_allowlistRequired cfg)
      (findAllowlistEntry (iw_payments (xw_base w)) (ac_actorSubject a)) (xf_clock cfg (iw_clockReads (xw_base w))) \<and>
    p_status p = PROCESSING \<and> truthy (userConfirmedAt p) \<and>
    body = Some (JObject b) \<and> map_of b ''requestHash'' = Some (JString (p_requestHash p)) \<and>
    js_string env (member_value b ''expectedVersion'') = Inr (int_to_dec (p_version p)) \<and>
    iw_payments (xw_base w') = iw_payments (xw_base w)"
proof -
  from execute_success [OF reachable_ok [OF assms(1)] assms(2)] obtain a p b w1 where
    p: "execution_actor env c w = (Inr a, w1)" "execute_fields body = Inr b"
      "hasActivePaymentAccess env (xf_allowlistRequired cfg)
         (findAllowlistEntry (iw_payments (xw_base w)) (ac_actorSubject a)) (xf_clock cfg (iw_clockReads (xw_base w)))"
      "js_get (ps_payments (iw_payments (xw_base w))) pid = Some p" "p_actorSubject p = ac_actorSubject a"
      "confirmed_for_execution p = Inr ()" "confirmation_matches env p b = Inr ()"
      "iw_payments (xw_base w') = iw_payments (xw_base w)" by metis
  from p(6) have "p_status p = PROCESSING" "truthy (userConfirmedAt p)"
    by (auto simp: confirmed_for_execution_def execution_error_def split: if_splits)
  with p request_body [OF p(2,7)] show ?thesis by blast
qed

text \<open>C15: a payment is executed once: after an execute request was answered, and whatever the workers and other
  requests did since, every further request for that payment that is answered, by whomever and with
  whatever body, gives the same execution, creates nothing and changes no execution.\<close>
theorem execute_creates_once:
  assumes "reachable_store env (iw_payments (xw_base w))" and "reachable_executions (xw_executions w)"
    and "request_fresh (xw_executions w) (CreateExecution \<lparr>xc_executionId = newId, xc_paymentIntentId = pid,
      xc_actorSubject = '''', xc_providerIdempotencyKey = '''', xc_now = ''''\<rparr>)"
    and "execute_payment env cfg newId c pid body w = (Inr (x, created), w')"
    and "execution_step\<^sup>*\<^sup>* (xw_executions w') (xw_executions u)" and "reachable_store env (iw_payments (xw_base u))"
    and "newId' \<noteq> ''''" and "execute_payment env cfg' newId' c' pid body' u = (Inr (y, created'), u')"
  shows "ux_executionId y = ux_executionId x \<and> \<not> created' \<and> xw_executions u' = xw_executions u"
proof -
  note ok = reachable_executions_ok [OF assms(2)]
  obtain i e where i: "createOrGet i (xw_executions w) = (Inr (e, created), xw_executions w')" "xc_paymentIntentId i = pid"
      "xc_executionId i = newId" "x = toPublicExecution e None"
    by (rule execute_success [OF reachable_ok [OF assms(1)] assms(4)]) force
  have new: "newId \<noteq> ''''" "js_get (xs_executions (xw_executions w)) newId = None" using assms(3) by simp_all
  have ok': "executions_ok (xw_executions w')" using create_ok [OF ok, of i] i new by simp
  have first: "js_get (xs_byIntent (xw_executions w')) pid = Some (ex_executionId e)"
    using create_or_get(1) [OF ok _ i(1)] i new by simp
  have later: "js_get (xs_byIntent (xw_executions u)) pid = Some (ex_executionId e)"
    using assms(5) ok' first by (rule xm.run_carries) (rule step_execution_index)
  obtain j d where j: "createOrGet j (xw_executions u) = (Inr (d, created'), xw_executions u')" "xc_paymentIntentId j = pid"
      "xc_executionId j = newId'" "y = toPublicExecution d None"
    by (rule execute_success [OF reachable_ok [OF assms(6)] assms(8)]) force
  note again = create_or_get [OF xm.run_ok [OF assms(5) ok'] _ j(1)]
  from again later j(2,3) assms(7) have "\<not> created'" "xw_executions u' = xw_executions u" by auto
  with again(1) later j i(4) assms(7) show ?thesis by (simp add: toPublicExecution_def)
qed

section \<open>A sample request\<close>

definition sample_execution_world :: execution_world where
  "sample_execution_world = \<lparr>xw_base = sample_world\<lparr>iw_payments :=
     run_operations sample_env [OpTransition sample_confirm] sample_intents\<rparr>, xw_executions = empty_execution_store\<rparr>"

definition sample_execution_config :: execution_config where
  "sample_execution_config = \<lparr>xf_clock = (\<lambda>n. ''c'' @ nat_to_dec n), xf_allowlistRequired = None\<rparr>"

definition sample_execute_body :: json where
  "sample_execute_body = JObject [(''requestHash'', JString sample_hash), (''expectedVersion'', JString ''1'')]"

abbreviation sample_execute :: "string \<Rightarrow> execution_world \<Rightarrow> (execution_world, public_execution \<times> bool) outcome" where
  "sample_execute newId \<equiv> execute_payment sample_env sample_execution_config newId sample_caller ''pay-1'' (Some sample_execute_body)"

lemma sample_execution_world_reachable: "reachable_store sample_env (iw_payments (xw_base sample_execution_world))"
proof -
  have "payment_history sample_env sample_intents (run_operations sample_env [OpTransition sample_confirm] sample_intents)"
    by (rule run_operations_history) simp
  from history_trans [OF this] sample_world_reachable show ?thesis
    by (simp add: reachable_store_def sample_world_def sample_execution_world_def)
qed

lemma sample_execution:
  obtains x w' where "sample_execute ''x1'' sample_execution_world = (Inr (x, True), w')"
proof -
  have "(case fst (sample_execute ''x1'' sample_execution_world) of Inr (x, b) \<Rightarrow> b | _ \<Rightarrow> False)" by code_simp
  then show thesis using that by (cases "sample_execute ''x1'' sample_execution_world") (auto split: sum.splits)
qed

theorem execution_is_authorized_witness:
  "\<exists>x w' a w1 p. sample_execute ''x1'' sample_execution_world = (Inr (x, True), w') \<and>
     execution_actor sample_env sample_caller sample_execution_world = (Inr a, w1) \<and>
     js_get (ps_payments (iw_payments (xw_base sample_execution_world))) ''pay-1'' = Some p \<and>
     p_actorSubject p = ac_actorSubject a \<and> p_status p = PROCESSING \<and> p_requestHash p = sample_hash \<and> int_to_dec (p_version p) = ''1'' \<and>
     hasActivePaymentAccess sample_env None (findAllowlistEntry (iw_payments (xw_base sample_execution_world)) (ac_actorSubject a)) ''c0''"
proof -
  obtain x w' where run: "sample_execute ''x1'' sample_execution_world = (Inr (x, True), w')" by (rule sample_execution)
  have "xf_clock sample_execution_config (iw_clockReads (xw_base sample_execution_world)) = ''c0''"
    "xf_allowlistRequired sample_execution_config = None" by code_simp+
  with execution_is_authorized [OF sample_execution_world_reachable run] run show ?thesis
    by (auto simp: sample_execute_body_def member_value_def)
qed

theorem execute_creates_once_witness:
  "\<exists>x y w' u'. sample_execute ''x1'' sample_execution_world = (Inr (x, True), w') \<and>
     sample_execute ''x2'' w' = (Inr (y, False), u') \<and> ux_executionId y = ux_executionId x"
proof -
  obtain x w' where first: "sample_execute ''x1'' sample_execution_world = (Inr (x, True), w')" by (rule sample_execution)
  have "(case fst (sample_execute ''x2'' (snd (sample_execute ''x1'' sample_execution_world))) of Inr r \<Rightarrow> True | _ \<Rightarrow> False)"
    by code_simp
  then have "(case fst (sample_execute ''x2'' w') of Inr r \<Rightarrow> True | _ \<Rightarrow> False)" by (simp only: first snd_conv)
  then obtain y b u' where second: "sample_execute ''x2'' w' = (Inr (y, b), u')"
    by (cases "sample_execute ''x2'' w'") (auto split: sum.splits)
  have "iw_payments (xw_base w') = iw_payments (xw_base sample_execution_world)"
    by (rule execute_success [OF reachable_ok [OF sample_execution_world_reachable] first]) force
  then have "reachable_store sample_env (iw_payments (xw_base w'))" using sample_execution_world_reachable by simp
  with execute_creates_once [OF sample_execution_world_reachable _ _ first rtranclp.rtrancl_refl _ _ second]
  have "ux_executionId y = ux_executionId x \<and> \<not> b"
    by (simp add: sample_execution_world_def reachable_executions_def empty_execution_store_def)
  with first second show ?thesis by auto
qed

section \<open>Settled executions and their receipts\<close>

text \<open>
  The requests the service and the worker make: they complete an execution as SETTLED only together
  with a receipt.
\<close>

fun paired_request :: "execution_request \<Rightarrow> bool" where
  "paired_request (CompleteExecution i) = (oc_toStatus i \<noteq> SETTLED)"
| "paired_request _ = True"

inductive paired_step :: "execution_store \<Rightarrow> execution_store \<Rightarrow> bool" where
  paired: "request_fresh s q \<Longrightarrow> paired_request q \<Longrightarrow> run_execution q s = (err, t) \<Longrightarrow> paired_step s t"

inductive_cases paired_stepE: "paired_step s t"

lemma paired_execution_step: "paired_step s t \<Longrightarrow> execution_step s t"
  by (auto elim!: paired_stepE intro: request)

definition settled_have_receipts :: "execution_store \<Rightarrow> bool" where
  "settled_have_receipts s \<longleftrightarrow> (\<forall>k e. js_get (xs_executions s) k = Some e \<longrightarrow> ex_status e = SETTLED \<longrightarrow>
     js_get (xs_receipts s) (ex_paymentIntentId e) \<noteq> None)"

lemma new_execution_ready:
  assumes ok: "executions_ok s" and "execution_step s t" and none: "js_get (xs_executions s) k = None"
    and e: "js_get (xs_executions t) k = Some e"
  shows "ex_status e = READY"
  using assms(2)
proof (elim execution_stepE)
  fix q err assume q: "request_fresh s q" "run_execution q s = (err, t)"
  have completing: "js_get (xs_executions u) k = None" if "completeUnsafe i s = (x, u)" for i x u
    using that
  proof (cases rule: complete_cases)
    case (2 j x)
    then show ?thesis using none executions_okD(1) [OF ok 2(2)] by (auto simp: execution_ok_def)
  qed (use none in simp)
  show ?thesis
  proof (cases q)
    case (CreateExecution i)
    then have t: "t = snd (createOrGet i s)" using q(2) by (auto simp: thrown_def)
    show ?thesis
    proof (cases "truthy (js_get (xs_byIntent s) (xc_paymentIntentId i))")
      case True
      then show ?thesis using t e none by (simp add: createOrGet_def)
    qed (use t e none in \<open>auto simp: created_parts split: if_splits\<close>)
  next
    case (ClaimExecution newId statuses w now x)
    obtain c u where claim: "claim_execution newId statuses w now x s = (c, u)" by fastforce
    with ClaimExecution q have "t = u" by simp
    with ok claim e none show ?thesis by (cases rule: claim_cases) (auto split: if_splits)
  next
    case (CompleteExecution i)
    with q e completing show ?thesis by (fastforce elim!: thrown_cases)
  next
    case (SettleExecution i r)
    obtain y u where settle: "completeSettlement i r s = (y, u)" by fastforce
    with SettleExecution q have "t = u" by (simp add: thrown_def)
    from settle show ?thesis
    proof (cases rule: settle_cases)
      case (3 x s1)
      with completing [OF 3(7)] e \<open>t = u\<close> show ?thesis by simp
    qed (use e none \<open>t = u\<close> in simp_all)
  qed
qed

lemma newly_settled:
  assumes ok: "executions_ok s" and q: "request_fresh s q" "paired_request q" "run_execution q s = (err, t)"
    and e: "js_get (xs_executions s) k = Some e" "ex_status e \<noteq> SETTLED"
    and e': "js_get (xs_executions t) k = Some e'" "ex_status e' = SETTLED"
  shows "js_get (xs_receipts t) (ex_paymentIntentId e) \<noteq> None"
proof (cases q)
  case (CreateExecution i)
  with create_executions [OF ok _ e(1), of i] q e e' show ?thesis by (auto elim!: thrown_cases)
next
  case (ClaimExecution newId statuses w now x)
  obtain c u where claim: "claim_execution newId statuses w now x s = (c, u)" by fastforce
  with ClaimExecution q have "t = u" by simp
  with ok claim e e' show ?thesis by (cases rule: claim_cases) (auto split: if_splits)
next
  case (CompleteExecution i)
  obtain y u where run: "completeUnsafe i s = (y, u)" by fastforce
  with CompleteExecution q have "t = u" by (simp add: thrown_def)
  with complete_executions [OF ok run e(1)] e e' CompleteExecution q(2) show ?thesis by auto
next
  case (SettleExecution i r)
  obtain y u where settle: "completeSettlement i r s = (y, u)" by fastforce
  with SettleExecution q have tu: "t = u" by (simp add: thrown_def)
  have k: "k = oc_executionId i" using settle_executions [OF ok settle e(1)] e e' tu by auto
  from settle show ?thesis
  proof (cases rule: settle_cases)
    case (3 x s1)
    with k e(1) tu show ?thesis by simp
  qed (use e e' tu in simp_all)
qed

lemma paired_keeps_receipts:
  assumes ok: "executions_ok s" and step: "paired_step s t" and inv: "settled_have_receipts s"
  shows "settled_have_receipts t"
  unfolding settled_have_receipts_def
proof (intro allI impI)
  fix k e' assume e': "js_get (xs_executions t) k = Some e'" "ex_status e' = SETTLED"
  note est = paired_execution_step [OF step]
  obtain e where e: "js_get (xs_executions s) k = Some e"
    using new_execution_ready [OF ok est _ e'(1)] e'(2) by (cases "js_get (xs_executions s) k") auto
  have same: "ex_paymentIntentId e' = ex_paymentIntentId e" using step_execution [OF ok est e] e' by auto
  show "js_get (xs_receipts t) (ex_paymentIntentId e') \<noteq> None"
  proof (cases "ex_status e = SETTLED")
    case True
    with inv e obtain r where "js_get (xs_receipts s) (ex_paymentIntentId e) = Some r"
      by (auto simp: settled_have_receipts_def)
    from step_receipts [OF ok est this] same show ?thesis by simp
  next
    case False
    with step newly_settled [OF ok _ _ _ e False e'] same show ?thesis by (auto elim!: paired_stepE)
  qed
qed

interpretation pr: guarded_machine "\<lambda>s. executions_ok s \<and> settled_have_receipts s" paired_step
  by unfold_locales (blast intro: paired_keeps_receipts execution_step_ok paired_execution_step)

subsection \<open>The service and the worker make paired requests\<close>

definition disciplined :: "(execution_store \<Rightarrow> execution_store) \<Rightarrow> bool" where
  "disciplined others \<longleftrightarrow> (\<forall>s. paired_step\<^sup>*\<^sup>* s (others s))"

text \<open>An operation that starts in \<open>w\<close> leaves the executions after a run of paired requests; rules for its parts.\<close>

definition leads :: "execution_world \<Rightarrow> (execution_world, 'a) outcome \<Rightarrow> bool" where
  "leads w o' \<longleftrightarrow> paired_step\<^sup>*\<^sup>* (xw_executions w) (xw_executions (snd o'))"

named_theorems leads_intros \<open>composition of operations on executions\<close>

lemma leads_return [leads_intros]: "leads w (r, w)"
  by (simp add: leads_def)

lemma leads_when [leads_intros]: "(\<And>x. leads w (f x)) \<Longrightarrow> leads w (when_ok r w f)"
  by (cases r) (simp_all add: leads_def)

lemma leads_then [leads_intros]:
  assumes "leads w o'" and "\<And>x w1. leads w1 (f x w1)"
  shows "leads w (then_do o' f)"
proof (cases "fst o'")
  case (Inr x)
  with assms(1) assms(2) [of "snd o'" x] show ?thesis by (auto simp: leads_def then_do_def intro: rtranclp_trans)
qed (use assms in \<open>simp add: leads_def then_do_def\<close>)

lemma leads_others:
  assumes "disciplined others" and "leads (w\<lparr>xw_executions := others (xw_executions w)\<rparr>) o'"
  shows "leads w o'"
proof -
  have "paired_step\<^sup>*\<^sup>* (xw_executions w) (others (xw_executions w))" using assms(1) by (simp add: disciplined_def)
  with assms(2) show ?thesis by (auto simp: leads_def intro: rtranclp_trans)
qed

lemma one_request:
  "request_fresh s q \<Longrightarrow> paired_request q \<Longrightarrow> paired_step\<^sup>*\<^sup>* s (snd (run_execution q s))"
  by (rule r_into_rtranclp) (auto intro: paired simp: prod_eq_iff)

lemma leads_request:
  assumes "request_fresh (xw_executions w) q" and "paired_request q"
    and "snd (f (xw_executions w)) = snd (run_execution q (xw_executions w))"
  shows "leads w (on_executions f w)"
  using one_request [OF assms(1,2)] assms(3) by (cases "f (xw_executions w)") (simp add: leads_def on_executions_def)

lemma leads_create:
  "newId \<noteq> '''' \<Longrightarrow> js_get (xs_executions (xw_executions w)) newId = None \<Longrightarrow> xc_executionId i = newId \<Longrightarrow>
     leads w (on_executions (createOrGet i) w)"
  by (rule leads_request [of _ "CreateExecution i"]) (simp_all add: thrown_def)

lemma leads_claim [leads_intros]: "leads w (worker_claim env cfg newId ts statuses w)"
  unfolding worker_claim_def
proof (rule leads_when)
  fix x
  show "leads w (on_executions (\<lambda>s. let (r, s') = claim_execution newId statuses (wc_workerId cfg) (wt_now ts) x s
      in (Inr r, s')) w)"
    by (rule leads_request [of _ "ClaimExecution newId statuses (wc_workerId cfg) (wt_now ts) x"])
      (simp_all split: prod.splits)
qed

lemma leads_complete [leads_intros]: "oc_toStatus i \<noteq> SETTLED \<Longrightarrow> leads w (on_executions (completeUnsafe i) w)"
  by (rule leads_request [of _ "CompleteExecution i"]) (simp_all add: thrown_def)

lemma leads_settle [leads_intros]: "leads w (on_executions (completeSettlement i x) w)"
  by (rule leads_request [of _ "SettleExecution i x"]) (simp_all add: thrown_def)

lemma submit_never_settles [leads_intros]: "oc_toStatus (submit_completion cfg e attemptId ts result) \<noteq> SETTLED"
  by (cases result) (simp_all add: operation_result_def)

lemma leads_reconciliation [leads_intros]:
  "leads w (complete_reconciliation cfg p e attemptId ts provider recon result w)"
proof (cases result)
  case (ReconcileSettled settled evidence receipt)
  then show ?thesis
    by (simp add: complete_reconciliation_def Let_def) (intro leads_when leads_then leads_settle leads_return)
qed (simp_all add: complete_reconciliation_def operation_result_def leads_complete)

lemma process_leads:
  assumes "disciplined others"
  shows "leads w (processNext env rail cfg others newId ts w)"
  unfolding processNext_def
proof (rule leads_then [OF leads_claim])
  fix claimed :: "(payment_execution \<times> execution_attempt) option" and w1
  show "leads w1 (case claimed of None \<Rightarrow> (Inr None, w1) | Some (e, attempt) \<Rightarrow>
           when_ok (execution_payment w1 e) w1 (\<lambda>p.
           when_ok (rail_submit rail p e (at_attemptId attempt)) w1 (\<lambda>result.
             then_do (on_executions (completeUnsafe (submit_completion cfg e (at_attemptId attempt) ts result))
                 (w1\<lparr>xw_executions := others (xw_executions w1)\<rparr>)) (\<lambda>x w2. (Inr (Some x), w2)))))"
  proof (cases claimed)
    case (Some c)
    have "leads w1 (then_do (on_executions (completeUnsafe i) (w1\<lparr>xw_executions := others (xw_executions w1)\<rparr>))
        (\<lambda>x w2. (Inr (Some x), w2)))" if "oc_toStatus i \<noteq> SETTLED" for i
      by (rule leads_others [OF assms]) (intro leads_then leads_complete that leads_return)
    with Some show ?thesis by (cases c) (simp, intro leads_when, simp add: submit_never_settles)
  qed (simp add: leads_return)
qed

lemma reconcile_leads:
  assumes "disciplined others"
  shows "leads w (reconcileNext env rail cfg others newId ts w)"
  unfolding reconcileNext_def
proof (rule leads_then [OF leads_claim])
  fix claimed :: "(payment_execution \<times> execution_attempt) option" and w1
  show "leads w1 (case claimed of None \<Rightarrow> (Inr None, w1) | Some (e, attempt) \<Rightarrow>
           when_ok (execution_payment w1 e) w1 (\<lambda>p.
           when_ok (rail_prepare rail p e (at_attemptId attempt)) w1 (\<lambda>prepared.
           when_ok (rail_provider rail (coalesce (ex_providerReference e) (fst prepared))) w1 (\<lambda>provider.
           when_ok (rail_reconciliation rail (coalesce (ex_reconciliationReference e) (snd prepared))) w1 (\<lambda>recon.
           when_ok (rail_reconcile rail p e (at_attemptId attempt) provider recon (ex_observationSequence e + 1)) w1 (\<lambda>result.
             then_do (complete_reconciliation cfg p e (at_attemptId attempt) ts provider recon result
                 (w1\<lparr>xw_executions := others (xw_executions w1)\<rparr>)) (\<lambda>x w2. (Inr (Some x), w2))))))))"
  proof (cases claimed)
    case (Some c)
    have "leads w1 (then_do (complete_reconciliation cfg p e a ts provider recon result
        (w1\<lparr>xw_executions := others (xw_executions w1)\<rparr>)) (\<lambda>x w2. (Inr (Some x), w2)))" for p e a provider recon result
      by (rule leads_others [OF assms]) (intro leads_then leads_reconciliation leads_return)
    with Some show ?thesis by (cases c) (simp, intro leads_when, simp)
  qed (simp add: leads_return)
qed

lemma leads_same: "xw_executions w = xw_executions v \<Longrightarrow> leads v o' \<Longrightarrow> leads w o'"
  by (simp add: leads_def)

lemma leads_then_same:
  assumes "xw_executions (snd o') = xw_executions w"
    and "\<And>x w1. xw_executions w1 = xw_executions w \<Longrightarrow> leads w1 (f x w1)"
  shows "leads w (then_do o' f)"
proof (cases "fst o'")
  case (Inr x)
  with assms show ?thesis by (simp add: leads_def then_do_def)
qed (use assms(1) in \<open>simp add: leads_def then_do_def\<close>)

lemma execute_leads:
  assumes fresh: "newId \<noteq> ''''" "js_get (xs_executions (xw_executions w)) newId = None"
  shows "leads w (execute_payment env cfg newId c pid body w)"
  unfolding execute_payment_def
proof (intro leads_when leads_then_same)
  show "xw_executions (snd (execution_actor env c w)) = xw_executions w"
    using execution_actor_state [of env c w] by (metis prod.collapse)
next
  fix b :: json_object and a :: account and w1 :: execution_world
  assume w1: "xw_executions w1 = xw_executions w"
  obtain access w2 where n: "execution_now cfg w1 = (access, w2)" by fastforce
  obtain now w3 where n': "execution_now cfg w2 = (now, w3)" by fastforce
  have st: "xw_executions w2 = xw_executions w" "xw_executions w3 = xw_executions w"
    using w1 execution_now_state [OF n] execution_now_state [OF n'] by simp_all
  have create: "leads w2 (then_do (on_executions (createOrGet i) w3) (\<lambda>result w4.
      (Inr (toPublicExecution (fst result) None, snd result), w4)))" if "xc_executionId i = newId" for i
    by (rule leads_same [of _ w3]) (use st fresh that in \<open>simp_all add: leads_then leads_create leads_return\<close>)
  show "leads w1 (let allow = findAllowlistEntry (iw_payments (xw_base w1)) (ac_actorSubject a); (now, w2) = execution_now cfg w1 in
     if \<not> hasActivePaymentAccess env (xf_allowlistRequired cfg) allow now
     then (execution_error ACCESS_DENIED ''Beta payment access is unavailable.'', w2)
     else when_ok (payment_owned_by ''Payment intent was not found.'' w2 pid (ac_actorSubject a)) w2 (\<lambda>p.
       when_ok (confirmed_for_execution p) w2 (\<lambda>_.
       when_ok (confirmation_matches env p b) w2 (\<lambda>_.
         let (created, w3) = execution_now cfg w2 in
         then_do (on_executions (createOrGet \<lparr>xc_executionId = newId, xc_paymentIntentId = p_id p,
             xc_actorSubject = ac_actorSubject a, xc_providerIdempotencyKey = provider_key env (p_id p),
             xc_now = created\<rparr>) w3) (\<lambda>result w4.
           (Inr (toPublicExecution (fst result) None, snd result), w4))))))"
    by (rule leads_same [of _ w2], simp add: w1 st, simp add: n n' leads_return Let_def)
      (intro impI leads_when, simp add: create)
qed

text \<open>What requests and workers do to the world: execute requests with fresh ids, and passes of workers on any
  rail, each at the mercy of the others between its claim and its completion.\<close>

inductive execution_activity :: "runtime_env \<Rightarrow> execution_world \<Rightarrow> execution_world \<Rightarrow> bool" for env where
  executing: "newId \<noteq> '''' \<Longrightarrow> js_get (xs_executions (xw_executions w)) newId = None \<Longrightarrow>
    execute_payment env cfg newId c pid body w = (r, w') \<Longrightarrow> execution_activity env w w'"
| submitting: "disciplined others \<Longrightarrow> processNext env rail wcfg others newId ts w = (r, w') \<Longrightarrow> execution_activity env w w'"
| reconciling: "disciplined others \<Longrightarrow> reconcileNext env rail wcfg others newId ts w = (r, w') \<Longrightarrow> execution_activity env w w'"

lemma activity_runs: "execution_activity env w w' \<Longrightarrow> paired_step\<^sup>*\<^sup>* (xw_executions w) (xw_executions w')"
proof (induction rule: execution_activity.induct)
  case (executing newId w cfg c pid body r w')
  then show ?case using execute_leads [of newId w env cfg c pid body] by (simp add: leads_def)
next
  case (submitting others rail wcfg newId ts w r w')
  then show ?case using process_leads [of others w env rail wcfg newId ts] by (simp add: leads_def)
next
  case (reconciling others rail wcfg newId ts w r w')
  then show ?case using reconcile_leads [of others w env rail wcfg newId ts] by (simp add: leads_def)
qed

lemma activities_run:
  "(execution_activity env)\<^sup>*\<^sup>* w w' \<Longrightarrow> paired_step\<^sup>*\<^sup>* (xw_executions w) (xw_executions w')"
  by (induction rule: rtranclp_induct) (auto dest: activity_runs)

text \<open>C7: starting without executions, whatever users execute and whatever any workers submit and reconcile on any rail,
  with requests interleaved between a claim and its completion, an execution is SETTLED exactly when the
  receipt of its payment intent can be read.\<close>
theorem settled_exactly_with_receipt:
  assumes "(execution_activity env)\<^sup>*\<^sup>* w w'" and "xw_executions w = empty_execution_store"
    and "js_get (xs_executions (xw_executions w')) k = Some e"
  shows "ex_status e = SETTLED \<longleftrightarrow> (\<exists>r. findReceiptByPaymentIntent (xw_executions w') (ex_paymentIntentId e) = Some r)"
proof -
  have "paired_step\<^sup>*\<^sup>* empty_execution_store (xw_executions w')" using activities_run [OF assms(1)] assms(2) by simp
  moreover have "settled_have_receipts empty_execution_store"
    by (simp add: settled_have_receipts_def empty_execution_store_def)
  ultimately have ok: "executions_ok (xw_executions w')" "settled_have_receipts (xw_executions w')"
    using pr.run_ok executions_ok_empty by blast+
  show ?thesis
  proof
    assume "ex_status e = SETTLED"
    with ok(2) assms(3) show "\<exists>r. findReceiptByPaymentIntent (xw_executions w') (ex_paymentIntentId e) = Some r"
      by (auto simp: settled_have_receipts_def findReceiptByPaymentIntent_def)
  next
    assume "\<exists>r. findReceiptByPaymentIntent (xw_executions w') (ex_paymentIntentId e) = Some r"
    then obtain r where "js_get (xs_receipts (xw_executions w')) (ex_paymentIntentId e) = Some r"
      by (auto simp: findReceiptByPaymentIntent_def)
    from executions_okD(5) [OF ok(1) this] executions_okD(1) [OF ok(1) assms(3)] assms(3)
    show "ex_status e = SETTLED" by (auto simp: settled_receipt_def execution_ok_def)
  qed
qed

theorem settled_exactly_with_receipt_witness:
  "\<exists>w' e. (execution_activity sample_env)\<^sup>*\<^sup>* sample_execution_world w' \<and>
     js_get (xs_executions (xw_executions w')) ''x1'' = Some e \<and> ex_status e = READY \<and>
     findReceiptByPaymentIntent (xw_executions w') (ex_paymentIntentId e) = None"
proof -
  obtain x w' where run: "sample_execute ''x1'' sample_execution_world = (Inr (x, True), w')" by (rule sample_execution)
  have start: "xw_executions sample_execution_world = empty_execution_store" by (simp add: sample_execution_world_def)
  obtain i e where "createOrGet i empty_execution_store = (Inr (e, True), xw_executions w')" "xc_executionId i = ''x1''"
    by (rule execute_success [OF reachable_ok [OF sample_execution_world_reachable] run, unfolded start]) force
  moreover have "\<not> truthy (js_get (xs_byIntent empty_execution_store) (xc_paymentIntentId i))"
    by (simp add: empty_execution_store_def)
  ultimately have e: "js_get (xs_executions (xw_executions w')) ''x1'' = Some (new_execution i)"
    using created_parts [of empty_execution_store i] by simp
  have act: "(execution_activity sample_env)\<^sup>*\<^sup>* sample_execution_world w'"
    by (rule r_into_rtranclp, rule executing [OF _ _ run]) (simp_all add: start empty_execution_store_def)
  from settled_exactly_with_receipt [OF act start e] have "findReceiptByPaymentIntent (xw_executions w') (xc_paymentIntentId i) = None"
    by simp
  with act e show ?thesis by fastforce
qed

end
