(* ===== verification/Growth.thy ===== *)
theory Growth
  imports IdentityTypes
begin

text \<open>
  \<open>src/growth/growthTypes.ts\<close>, \<open>zpPolicy.ts\<close>, \<open>zpProgress.ts\<close> and \<open>zpState.ts\<close>: the events that
  record settled payments, the points an event earns, the milestones they unlock and the progress
  shown to the user. Event types and source domains are kept as the strings they are at run time,
  so the branches for unsupported values are part of the model.
\<close>

section \<open>Growth events\<close>

definition GROWTH_EVENT_TYPES :: "string list" where
  "GROWTH_EVENT_TYPES = [''PAYMENT_SETTLED_SENT'', ''PAYMENT_SETTLED_RECEIVED'']"

definition GROWTH_SOURCE_DOMAINS :: "string list" where
  "GROWTH_SOURCE_DOMAINS = [''PAYMENT'']"

record growth_event =
  ge_eventId :: int
  ge_eventType :: string
  ge_actorAccountId :: string
  ge_sourceDomain :: string
  ge_sourceId :: string
  ge_sourceEventId :: string
  ge_occurredAt :: string
  ge_synthetic :: bool
  ge_schemaVersion :: int
  ge_context :: json_object
  ge_recordedAt :: string

record create_growth_event_input =
  cg_eventType :: string
  cg_actorAccountId :: string
  cg_sourceDomain :: string
  cg_sourceId :: string
  cg_sourceEventId :: string
  cg_occurredAt :: string
  cg_synthetic :: bool
  cg_schemaVersion :: int
  cg_context :: "json option"

definition validateBoundedIdentifier :: "string \<Rightarrow> string \<Rightarrow> unit result" where
  "validateBoundedIdentifier value name =
     (if length value < 1 \<or> length value > 128 \<or> js_trim value \<noteq> value
      then throw (name @ '' must contain 1 to 128 characters without surrounding whitespace.'') else Inr ())"

definition validateGrowthEventInput :: "runtime_env \<Rightarrow> create_growth_event_input \<Rightarrow> unit result" where
  "validateGrowthEventInput env i =
     (if cg_eventType i \<notin> set GROWTH_EVENT_TYPES then throw ''Unsupported growth event type.''
      else if cg_sourceDomain i \<notin> set GROWTH_SOURCE_DOMAINS then throw ''Unsupported growth source domain.''
      else and_then (validateUuid (cg_actorAccountId i) ''Growth actor account ID'') (\<lambda>_.
        and_then (validateBoundedIdentifier (cg_sourceId i) ''Growth source ID'') (\<lambda>_.
        and_then (validateBoundedIdentifier (cg_sourceEventId i) ''Growth source event ID'') (\<lambda>_.
          if \<not> valid_time env (cg_occurredAt i) then throw ''Growth event occurredAt must be a valid timestamp.''
          else if cg_schemaVersion i \<noteq> 1 then throw ''Unsupported growth event schema version.''
          else case cg_context i of
                 None \<Rightarrow> Inr ()
               | Some JUndefined \<Rightarrow> Inr ()
               | Some (JObject es) \<Rightarrow> Inr ()
               | Some v \<Rightarrow> throw ''Growth event context must be an object.''))))"

section \<open>Points and milestones\<close>

definition ZP_POLICY_VERSION :: int where
  "ZP_POLICY_VERSION = 1"

datatype zp_milestone =
    FIRST_PAYMENT_SENT
  | FIRST_PAYMENT_RECEIVED
  | TEN_PAYMENTS_SENT
  | TWENTY_FIVE_PAYMENTS_SENT

datatype zp_reason = ELIGIBLE_PAYMENT_ACTIVITY | SYNTHETIC_ACTIVITY | UNSUPPORTED_EVENT

record zp_policy_decision =
  zd_eligible :: bool
  zd_points :: int
  zd_reason :: zp_reason
  zd_policyVersion :: int

definition EVENT_POINTS :: "string \<Rightarrow> int" where
  "EVENT_POINTS t = (if t = ''PAYMENT_SETTLED_SENT'' then 10 else 5)"

definition isEligibleEventType :: "string \<Rightarrow> bool" where
  "isEligibleEventType t = (t = ''PAYMENT_SETTLED_SENT'' \<or> t = ''PAYMENT_SETTLED_RECEIVED'')"

definition evaluateZpEvent :: "growth_event \<Rightarrow> zp_policy_decision" where
  "evaluateZpEvent e =
     (if ge_synthetic e
      then \<lparr>zd_eligible = False, zd_points = 0, zd_reason = SYNTHETIC_ACTIVITY, zd_policyVersion = ZP_POLICY_VERSION\<rparr>
      else if \<not> isEligibleEventType (ge_eventType e)
      then \<lparr>zd_eligible = False, zd_points = 0, zd_reason = UNSUPPORTED_EVENT, zd_policyVersion = ZP_POLICY_VERSION\<rparr>
      else \<lparr>zd_eligible = True, zd_points = EVENT_POINTS (ge_eventType e), zd_reason = ELIGIBLE_PAYMENT_ACTIVITY,
            zd_policyVersion = ZP_POLICY_VERSION\<rparr>)"

text \<open>One round of the loop over the events, on the counters of sent and received payments.\<close>

definition count_event :: "int \<times> int \<Rightarrow> growth_event \<Rightarrow> int \<times> int" where
  "count_event c e = (if \<not> zd_eligible (evaluateZpEvent e) then c else
     (if ge_eventType e = ''PAYMENT_SETTLED_SENT'' then fst c + 1 else fst c,
      if ge_eventType e = ''PAYMENT_SETTLED_RECEIVED'' then snd c + 1 else snd c))"

definition deriveZpMilestones :: "growth_event list \<Rightarrow> zp_milestone list" where
  "deriveZpMilestones events = (let (sent, received) = foldl count_event (0, 0) events in
     (if sent \<ge> 1 then [FIRST_PAYMENT_SENT] else []) @
     (if received \<ge> 1 then [FIRST_PAYMENT_RECEIVED] else []) @
     (if sent \<ge> 10 then [TEN_PAYMENTS_SENT] else []) @
     (if sent \<ge> 25 then [TWENTY_FIVE_PAYMENTS_SENT] else []))"

definition totalZp :: "growth_event list \<Rightarrow> int" where
  "totalZp events = foldl (\<lambda>total e. total + zd_points (evaluateZpEvent e)) 0 events"

section \<open>Account state and progress\<close>

record account_zp_state =
  zs_accountId :: string
  zs_policyVersion :: int
  zs_totalPoints :: int
  zs_sentCount :: int
  zs_receivedCount :: int
  zs_lastGrowthEventId :: int
  zs_updatedAt :: string

record zp_projection_result =
  zr_accountId :: string
  zr_processedEvents :: nat
  zr_priorLastGrowthEventId :: int
  zr_lastGrowthEventId :: int
  zr_totalPoints :: int
  zr_sentCount :: int
  zr_receivedCount :: int

datatype zp_dimension = SENT | RECEIVED

record pending_zp_milestone =
  pm_milestone :: zp_milestone
  pm_dimension :: zp_dimension
  pm_current :: string
  pm_target :: string
  pm_progressPercent :: int

record public_zp_progress =
  zp_totalPoints :: string
  zp_sentCount :: string
  zp_receivedCount :: string
  zp_policyVersion :: int
  zp_unlockedMilestones :: "zp_milestone list"
  zp_pendingMilestones :: "pending_zp_milestone list"

record zp_milestone_policy =
  mp_milestone :: zp_milestone
  mp_dimension :: zp_dimension
  mp_threshold :: int

definition MILESTONE_POLICY :: "zp_milestone_policy list" where
  "MILESTONE_POLICY =
     [\<lparr>mp_milestone = FIRST_PAYMENT_SENT, mp_dimension = SENT, mp_threshold = 1\<rparr>,
      \<lparr>mp_milestone = FIRST_PAYMENT_RECEIVED, mp_dimension = RECEIVED, mp_threshold = 1\<rparr>,
      \<lparr>mp_milestone = TEN_PAYMENTS_SENT, mp_dimension = SENT, mp_threshold = 10\<rparr>,
      \<lparr>mp_milestone = TWENTY_FIVE_PAYMENTS_SENT, mp_dimension = SENT, mp_threshold = 25\<rparr>]"

definition assertNonnegative :: "int \<Rightarrow> string \<Rightarrow> unit result" where
  "assertNonnegative v name = (if v < 0 then throw (name @ '' must not be negative.'') else Inr ())"

text \<open>\<open>Number((current * 100n) / target)\<close>: both are positive where the division is reached.\<close>

definition progressPercent :: "int \<Rightarrow> int \<Rightarrow> int result" where
  "progressPercent current target =
     (if target \<le> 0 then throw ''ZP milestone target must be positive.''
      else if current \<le> 0 then Inr 0
      else if current \<ge> target then Inr 100
      else Inr ((current * 100) div target))"

text \<open>One round of the loop over the policies, on the two lists it fills.\<close>

definition sort_milestone ::
  "account_zp_state \<Rightarrow> zp_milestone list \<times> pending_zp_milestone list \<Rightarrow> zp_milestone_policy \<Rightarrow>
   (zp_milestone list \<times> pending_zp_milestone list) result" where
  "sort_milestone st acc m =
     (let current = (if mp_dimension m = SENT then zs_sentCount st else zs_receivedCount st) in
      if current \<ge> mp_threshold m then Inr (fst acc @ [mp_milestone m], snd acc)
      else and_then (progressPercent current (mp_threshold m)) (\<lambda>percent.
        Inr (fst acc, snd acc @ [\<lparr>pm_milestone = mp_milestone m, pm_dimension = mp_dimension m,
          pm_current = int_to_dec current, pm_target = int_to_dec (mp_threshold m), pm_progressPercent = percent\<rparr>])))"

fun sort_milestones ::
  "account_zp_state \<Rightarrow> zp_milestone list \<times> pending_zp_milestone list \<Rightarrow> zp_milestone_policy list \<Rightarrow>
   (zp_milestone list \<times> pending_zp_milestone list) result" where
  "sort_milestones st acc [] = Inr acc"
| "sort_milestones st acc (m # ms) = and_then (sort_milestone st acc m) (\<lambda>acc'. sort_milestones st acc' ms)"

definition projectZpProgress :: "account_zp_state \<Rightarrow> public_zp_progress result" where
  "projectZpProgress st =
     (if zs_policyVersion st \<noteq> ZP_POLICY_VERSION then throw ''ZP state policy version is unsupported.''
      else and_then (assertNonnegative (zs_totalPoints st) ''ZP total points'') (\<lambda>_.
        and_then (assertNonnegative (zs_sentCount st) ''ZP sent count'') (\<lambda>_.
        and_then (assertNonnegative (zs_receivedCount st) ''ZP received count'') (\<lambda>_.
        and_then (sort_milestones st ([], []) MILESTONE_POLICY) (\<lambda>(unlocked, pending).
          Inr \<lparr>zp_totalPoints = int_to_dec (zs_totalPoints st), zp_sentCount = int_to_dec (zs_sentCount st),
            zp_receivedCount = int_to_dec (zs_receivedCount st), zp_policyVersion = zs_policyVersion st,
            zp_unlockedMilestones = unlocked, zp_pendingMilestones = pending\<rparr>)))))"

end
