(* ===== verification/GrowthStore.thy ===== *)
theory GrowthStore
  imports Growth JsonText
begin

text \<open>
  \<open>src/storage/postgres/postgresGrowthEventRepository.ts\<close> and \<open>postgresZpStateRepository.ts\<close>: the
  repositories of growth events and of the points of an account. The tables \<open>growth_events\<close> and
  \<open>account_zp_state\<close> are lists of rows, and each statement of the source is the list operation its SQL
  says, under the constraints of the tables it names (the unique natural key, the reference to
  \<open>accounts\<close>, the range of \<open>bigint\<close>). Column conversions are written out: a \<open>uuid\<close> is kept in lower case,
  a \<open>timestamptz\<close> as milliseconds, a \<open>jsonb\<close> value as \<open>jsonb_value\<close>. An identity column takes its next
  value for every attempted insert, also one that then conflicts.
\<close>

section \<open>Tables\<close>

record growth_row =
  gr_eventId :: int
  gr_eventType :: string
  gr_actorAccountId :: string
  gr_sourceDomain :: string
  gr_sourceId :: string
  gr_sourceEventId :: string
  gr_occurredAt :: int
  gr_synthetic :: bool
  gr_schemaVersion :: int
  gr_context :: json
  gr_recordedAt :: int

record growth_db =
  gd_accounts :: "string list"
  gd_events :: "growth_row list"
  gd_nextEventId :: int
  gd_states :: "(string, account_zp_state) js_map"
  gd_clockReads :: nat

definition batch_limit :: "rat \<Rightarrow> js_number \<Rightarrow> nat option" where
  "batch_limit hi n = (case n of
     Finite q \<Rightarrow> if \<not> is_integer n \<or> q < 1 \<or> q > hi then None else Some (nat (fst (quotient_of q)))
   | _ \<Rightarrow> None)"

section \<open>Growth events\<close>

definition persisted_context :: "json \<Rightarrow> json_object result" where
  "persisted_context v = (case json_wire v of JObject es \<Rightarrow> Inr es
     | _ \<Rightarrow> throw ''Persisted growth event context must be an object.'')"

definition mapGrowthEvent :: "runtime_env \<Rightarrow> growth_row \<Rightarrow> growth_event result" where
  "mapGrowthEvent env r = and_then (persisted_context (gr_context r)) (\<lambda>context.
     Inr \<lparr>ge_eventId = gr_eventId r, ge_eventType = gr_eventType r, ge_actorAccountId = gr_actorAccountId r,
       ge_sourceDomain = gr_sourceDomain r, ge_sourceId = gr_sourceId r, ge_sourceEventId = gr_sourceEventId r,
       ge_occurredAt = date_iso env (gr_occurredAt r), ge_synthetic = gr_synthetic r,
       ge_schemaVersion = gr_schemaVersion r, ge_context = context, ge_recordedAt = date_iso env (gr_recordedAt r)\<rparr>)"

definition iso_time :: "runtime_env \<Rightarrow> string \<Rightarrow> string option" where
  "iso_time env t = map_option (date_iso env) (date_parse env t)"

definition sameImmutableFact :: "runtime_env \<Rightarrow> growth_event \<Rightarrow> create_growth_event_input \<Rightarrow> json \<Rightarrow> bool" where
  "sameImmutableFact env e i context =
     (ge_eventType e = cg_eventType i \<and> ge_actorAccountId e = js_lower (cg_actorAccountId i) \<and>
      ge_sourceDomain e = cg_sourceDomain i \<and> ge_sourceId e = cg_sourceId i \<and>
      ge_sourceEventId e = cg_sourceEventId i \<and> Some (ge_occurredAt e) = iso_time env (cg_occurredAt i) \<and>
      ge_synthetic e = cg_synthetic i \<and> ge_schemaVersion e = cg_schemaVersion i \<and>
      stableJson env (JObject (ge_context e)) = stableJson env context)"

definition fact_key :: "growth_row \<Rightarrow> string \<times> string \<times> string \<times> string \<times> string" where
  "fact_key r = (gr_sourceDomain r, gr_sourceId r, gr_sourceEventId r, gr_eventType r, gr_actorAccountId r)"

definition input_key :: "create_growth_event_input \<Rightarrow> string \<times> string \<times> string \<times> string \<times> string" where
  "input_key i = (cg_sourceDomain i, cg_sourceId i, cg_sourceEventId i, cg_eventType i, js_lower (cg_actorAccountId i))"

definition growth_row_of :: "runtime_env \<Rightarrow> create_growth_event_input \<Rightarrow> json \<Rightarrow> int \<Rightarrow> int \<Rightarrow> growth_row" where
  "growth_row_of env i context eventId now =
     \<lparr>gr_eventId = eventId, gr_eventType = cg_eventType i, gr_actorAccountId = js_lower (cg_actorAccountId i),
      gr_sourceDomain = cg_sourceDomain i, gr_sourceId = cg_sourceId i, gr_sourceEventId = cg_sourceEventId i,
      gr_occurredAt = coalesce (date_parse env (cg_occurredAt i)) 0, gr_synthetic = cg_synthetic i,
      gr_schemaVersion = cg_schemaVersion i, gr_context = jsonb_value (json_wire context), gr_recordedAt = now\<rparr>"

definition fact_row :: "create_growth_event_input \<Rightarrow> growth_db \<Rightarrow> growth_row option" where
  "fact_row i db = find (\<lambda>r. fact_key r = input_key i) (gd_events db)"

text \<open>\<open>INSERT ... ON CONFLICT DO NOTHING RETURNING *\<close>; \<open>now\<close> is the default of \<open>recorded_at\<close>.\<close>

definition insert_growth_event ::
  "runtime_env \<Rightarrow> create_growth_event_input \<Rightarrow> json \<Rightarrow> int \<Rightarrow> growth_db \<Rightarrow> (growth_db, growth_row option) outcome" where
  "insert_growth_event env i context now db =
     (let db1 = db\<lparr>gd_nextEventId := gd_nextEventId db + 1\<rparr> in
      if fact_row i db \<noteq> None then (Inr None, db1)
      else if js_lower (cg_actorAccountId i) \<notin> set (gd_accounts db)
      then (throw ''insert or update on table \"growth_events\" violates foreign key constraint'', db1)
      else let row = growth_row_of env i context (gd_nextEventId db) now in
        (Inr (Some row), db1\<lparr>gd_events := gd_events db @ [row]\<rparr>))"

definition input_context :: "create_growth_event_input \<Rightarrow> json" where
  "input_context i = (case cg_context i of None \<Rightarrow> JObject [] | Some JUndefined \<Rightarrow> JObject [] | Some v \<Rightarrow> v)"

definition growth_append ::
  "runtime_env \<Rightarrow> int \<Rightarrow> create_growth_event_input \<Rightarrow> growth_db \<Rightarrow> (growth_db, growth_event \<times> bool) outcome" where
  "growth_append env now i db =
     when_ok (validateGrowthEventInput env i) db (\<lambda>_.
       let context = input_context i in
       then_do (insert_growth_event env i context now db) (\<lambda>inserted db1.
         case inserted of
           Some row \<Rightarrow> (and_then (mapGrowthEvent env row) (\<lambda>e. Inr (e, True)), db1)
         | None \<Rightarrow>
             (case fact_row i db1 of
                None \<Rightarrow> throw ''Growth event idempotency resolution failed.''
              | Some row \<Rightarrow> and_then (mapGrowthEvent env row) (\<lambda>e.
                  if \<not> sameImmutableFact env e i context then throw ''Growth event idempotency conflict.''
                  else Inr (e, False)), db1)))"

definition latest_first :: "growth_row \<Rightarrow> growth_row \<Rightarrow> int" where
  "latest_first a b = or_compare (gr_occurredAt b - gr_occurredAt a) (gr_eventId b - gr_eventId a)"

definition listByActor ::
  "runtime_env \<Rightarrow> string \<Rightarrow> js_number \<Rightarrow> growth_db \<Rightarrow> growth_event list result" where
  "listByActor env actorAccountId limit db =
     and_then (validateUuid actorAccountId ''Growth actor account ID'') (\<lambda>_.
       case batch_limit 100 limit of
         None \<Rightarrow> throw ''Growth event list limit must be between 1 and 100.''
       | Some n \<Rightarrow> map_result (mapGrowthEvent env) (take n (js_sort latest_first
           (filter (\<lambda>r. gr_actorAccountId r = js_lower actorAccountId) (gd_events db)))))"

section \<open>Points of an account\<close>

text \<open>The second repository has its own copies of the row conversions.\<close>

definition zp_cloneJsonObject :: "json \<Rightarrow> json_object result" where
  "zp_cloneJsonObject v = (case json_wire v of JObject es \<Rightarrow> Inr es
     | _ \<Rightarrow> throw ''Persisted growth event context must be an object.'')"

definition zp_mapGrowthEvent :: "runtime_env \<Rightarrow> growth_row \<Rightarrow> growth_event result" where
  "zp_mapGrowthEvent env r = and_then (zp_cloneJsonObject (gr_context r)) (\<lambda>context.
     Inr \<lparr>ge_eventId = gr_eventId r, ge_eventType = gr_eventType r, ge_actorAccountId = gr_actorAccountId r,
       ge_sourceDomain = gr_sourceDomain r, ge_sourceId = gr_sourceId r, ge_sourceEventId = gr_sourceEventId r,
       ge_occurredAt = date_iso env (gr_occurredAt r), ge_synthetic = gr_synthetic r,
       ge_schemaVersion = gr_schemaVersion r, ge_context = context, ge_recordedAt = date_iso env (gr_recordedAt r)\<rparr>)"

definition stored_time :: "runtime_env \<Rightarrow> string \<Rightarrow> string" where
  "stored_time env t = coalesce (iso_time env t) t"

definition find_zp_state :: "string \<Rightarrow> growth_db \<Rightarrow> account_zp_state option result" where
  "find_zp_state accountId db = and_then (validateUuid accountId ''ZP account ID'') (\<lambda>_.
     Inr (js_get (gd_states db) (js_lower accountId)))"

text \<open>Event ids beyond the cursor of the account, 0 when it has no state yet.\<close>

definition cursor :: "growth_db \<Rightarrow> string \<Rightarrow> int" where
  "cursor db a = (case js_get (gd_states db) a of None \<Rightarrow> 0 | Some st \<Rightarrow> zs_lastGrowthEventId st)"

definition first_occurrences :: "'a list \<Rightarrow> 'a list" where
  "first_occurrences xs = rev (remdups (rev xs))"

text \<open>
  Grouped by account and ordered by the smallest pending event id: ids are unique, so this is the
  order in which the accounts first occur among the pending events in the order of their ids.
\<close>

definition listPendingAccounts :: "js_number \<Rightarrow> growth_db \<Rightarrow> string list result" where
  "listPendingAccounts limit db = (case batch_limit 500 limit of
     None \<Rightarrow> throw ''ZP pending account limit must be between 1 and 500.''
   | Some n \<Rightarrow> Inr (take n (first_occurrences (map gr_actorAccountId (sort_key gr_eventId
       (filter (\<lambda>r. cursor db (gr_actorAccountId r) < gr_eventId r) (gd_events db)))))))"

definition zero_zp_row :: "string \<Rightarrow> string \<Rightarrow> account_zp_state" where
  "zero_zp_row a now = \<lparr>zs_accountId = a, zs_policyVersion = ZP_POLICY_VERSION, zs_totalPoints = 0,
     zs_sentCount = 0, zs_receivedCount = 0, zs_lastGrowthEventId = 0, zs_updatedAt = now\<rparr>"

definition read_growth_clock :: "runtime_env \<Rightarrow> growth_db \<Rightarrow> string \<times> growth_db" where
  "read_growth_clock env db = (clock env (gd_clockReads db), db\<lparr>gd_clockReads := Suc (gd_clockReads db)\<rparr>)"

text \<open>\<open>INSERT ... ON CONFLICT (account_id) DO NOTHING\<close>\<close>

definition ensure_zp_row :: "string \<Rightarrow> string \<Rightarrow> growth_db \<Rightarrow> growth_db result" where
  "ensure_zp_row a now db =
     (if js_has (gd_states db) a then Inr db
      else if a \<notin> set (gd_accounts db)
      then throw ''insert or update on table \"account_zp_state\" violates foreign key constraint''
      else Inr (db\<lparr>gd_states := js_set (gd_states db) a (zero_zp_row a now)\<rparr>))"

text \<open>One round of the loop over the events, on the points and the two counters.\<close>

definition project_event :: "int \<times> int \<times> int \<Rightarrow> growth_event \<Rightarrow> int \<times> int \<times> int" where
  "project_event acc e = (case acc of (points, sent, received) \<Rightarrow>
     let decision = evaluateZpEvent e in
     if \<not> zd_eligible decision then (points, sent, received)
     else (points + zd_points decision,
           if ge_eventType e = ''PAYMENT_SETTLED_SENT'' then sent + 1 else sent,
           if ge_eventType e = ''PAYMENT_SETTLED_RECEIVED'' then received + 1 else received))"

definition fits_bigint :: "int \<Rightarrow> bool" where
  "fits_bigint v = (v < 2 ^ 63)"

text \<open>\<open>UPDATE ... WHERE account_id=$1 AND policy_version=$7 RETURNING *\<close>\<close>

definition update_zp_row ::
  "runtime_env \<Rightarrow> string \<Rightarrow> int \<times> int \<times> int \<Rightarrow> int \<Rightarrow> string \<Rightarrow> growth_db \<Rightarrow> growth_db result" where
  "update_zp_row env a acc lastId now db = (case acc of (points, sent, received) \<Rightarrow>
     if \<not> fits_bigint points then throw (''value \"'' @ int_to_dec points @ ''\" is out of range for type bigint'')
     else if \<not> fits_bigint sent then throw (''value \"'' @ int_to_dec sent @ ''\" is out of range for type bigint'')
     else if \<not> fits_bigint received then throw (''value \"'' @ int_to_dec received @ ''\" is out of range for type bigint'')
     else case js_get (gd_states db) a of
       None \<Rightarrow> throw ''ZP state projection update failed.''
     | Some st \<Rightarrow> if zs_policyVersion st \<noteq> ZP_POLICY_VERSION then throw ''ZP state projection update failed.''
         else Inr (db\<lparr>gd_states := js_set (gd_states db) a (st\<lparr>zs_totalPoints := points, zs_sentCount := sent,
           zs_receivedCount := received, zs_lastGrowthEventId := lastId, zs_updatedAt := stored_time env now\<rparr>)\<rparr>))"

definition pending_rows :: "growth_db \<Rightarrow> string \<Rightarrow> int \<Rightarrow> growth_row list" where
  "pending_rows db a after = sort_key gr_eventId
     (filter (\<lambda>r. gr_actorAccountId r = a \<and> after < gr_eventId r) (gd_events db))"

definition projection_result ::
  "string \<Rightarrow> nat \<Rightarrow> int \<Rightarrow> int \<Rightarrow> int \<times> int \<times> int \<Rightarrow> zp_projection_result" where
  "projection_result accountId n prior lastId acc = (case acc of (points, sent, received) \<Rightarrow>
     \<lparr>zr_accountId = accountId, zr_processedEvents = n, zr_priorLastGrowthEventId = prior,
      zr_lastGrowthEventId = lastId, zr_totalPoints = points, zr_sentCount = sent, zr_receivedCount = received\<rparr>)"

text \<open>The body of the transaction: what it returns and the database it would commit.\<close>

definition project_body ::
  "runtime_env \<Rightarrow> string \<Rightarrow> nat \<Rightarrow> string \<Rightarrow> growth_db \<Rightarrow> (growth_db, zp_projection_result) outcome" where
  "project_body env accountId n now db =
     (let a = js_lower accountId in
      when_ok (ensure_zp_row a (stored_time env now) db) db (\<lambda>db1.
        case js_get (gd_states db1) a of
          None \<Rightarrow> (throw ''ZP state initialization failed.'', db1)
        | Some prior \<Rightarrow>
            if zs_policyVersion prior \<noteq> ZP_POLICY_VERSION
            then (throw ''ZP state policy version is unsupported.'', db1)
            else when_ok (map_result (zp_mapGrowthEvent env)
                (take n (pending_rows db1 a (zs_lastGrowthEventId prior)))) db1 (\<lambda>events.
              let acc = (zs_totalPoints prior, zs_sentCount prior, zs_receivedCount prior) in
              if events = []
              then (Inr (projection_result accountId 0 (zs_lastGrowthEventId prior) (zs_lastGrowthEventId prior) acc), db1)
              else let acc' = foldl project_event acc events; lastId = ge_eventId (last events);
                       (now2, db2) = read_growth_clock env db1 in
                when_ok (update_zp_row env a acc' lastId now2 db2) db2 (\<lambda>db3.
                  (Inr (projection_result accountId (length events) (zs_lastGrowthEventId prior) lastId acc'), db3)))))"

text \<open>A throw rolls the tables back; the readings of the clock stay.\<close>

definition zp_transaction :: "growth_db \<Rightarrow> (growth_db, 'a) outcome \<Rightarrow> (growth_db, 'a) outcome" where
  "zp_transaction before o' = (case o' of
     (Inr x, db) \<Rightarrow> (Inr x, db)
   | (Inl e, db) \<Rightarrow> (Inl e, before\<lparr>gd_clockReads := gd_clockReads db\<rparr>))"

definition projectAccount ::
  "runtime_env \<Rightarrow> string \<Rightarrow> js_number \<Rightarrow> growth_db \<Rightarrow> (growth_db, zp_projection_result) outcome" where
  "projectAccount env accountId limit db =
     when_ok (validateUuid accountId ''ZP account ID'') db (\<lambda>_.
       case batch_limit 500 limit of
         None \<Rightarrow> (throw ''ZP projection limit must be between 1 and 500.'', db)
       | Some n \<Rightarrow> let (now, db1) = read_growth_clock env db in
           zp_transaction db (project_body env accountId n now db1))"

end
