(* ===== verification/GrowthProperties.thy ===== *)
theory GrowthProperties
  imports GrowthStore "HOL-Library.Multiset"
begin

text \<open>
  The points of an account against the events that earned them. \<open>growth_step\<close> is what can happen to the
  tables: an append, a projection of an account, or the late commit of an insert that took its id
  before others that were committed first. As long as no insert commits behind the cursor of its
  account (\<open>in_order\<close>), every stored state counts exactly the events up to its cursor.
\<close>

section \<open>Counting events\<close>

definition event_points :: "growth_event \<Rightarrow> int" where
  "event_points e = zd_points (evaluateZpEvent e)"

definition event_sent :: "growth_event \<Rightarrow> int" where
  "event_sent e = (if zd_eligible (evaluateZpEvent e) \<and> ge_eventType e = ''PAYMENT_SETTLED_SENT'' then 1 else 0)"

definition event_received :: "growth_event \<Rightarrow> int" where
  "event_received e = (if zd_eligible (evaluateZpEvent e) \<and> ge_eventType e = ''PAYMENT_SETTLED_RECEIVED'' then 1 else 0)"

lemma totalZp_sum: "totalZp es = sum_list (map event_points es)"
proof -
  have "foldl (\<lambda>total e. total + zd_points (evaluateZpEvent e)) t es = t + sum_list (map event_points es)" for t
    by (induction es arbitrary: t) (simp_all add: event_points_def)
  then show ?thesis by (simp add: totalZp_def)
qed

lemma count_events:
  "foldl count_event c es = (fst c + sum_list (map event_sent es), snd c + sum_list (map event_received es))"
  by (induction es arbitrary: c) (auto simp: count_event_def event_sent_def event_received_def)

lemma project_events:
  "foldl project_event (t, s, r) es =
   (t + sum_list (map event_points es), s + sum_list (map event_sent es), r + sum_list (map event_received es))"
  by (induction es arbitrary: t s r)
    (auto simp: project_event_def event_points_def event_sent_def event_received_def evaluateZpEvent_def Let_def)

lemma event_bounds:
  "0 \<le> event_points e" "event_points e \<le> 10" "0 \<le> event_sent e" "0 \<le> event_received e"
  "event_sent e \<le> event_points e" "event_received e \<le> event_points e"
  by (auto simp: event_points_def event_sent_def event_received_def evaluateZpEvent_def EVENT_POINTS_def)

lemma points_of_counts: "event_points e = 10 * event_sent e + 5 * event_received e"
  by (auto simp: event_points_def event_sent_def event_received_def evaluateZpEvent_def EVENT_POINTS_def
      isEligibleEventType_def)

lemma sums_of_counts:
  "sum_list (map event_points es) = 10 * sum_list (map event_sent es) + 5 * sum_list (map event_received es)"
  by (induction es) (simp_all add: points_of_counts)

lemma sums_nonneg: "0 \<le> sum_list (map event_sent es)" "0 \<le> sum_list (map event_received es)"
  "0 \<le> sum_list (map event_points es)"
  by (auto intro!: sum_list_nonneg simp: event_bounds)

lemma points_bounded: "sum_list (map event_points es) \<le> 10 * int (length es)"
proof (induction es)
  case (Cons e es)
  then show ?case using event_bounds(2) [of e] by simp
qed simp

section \<open>Milestones\<close>

lemma percent_below: "0 < t \<Longrightarrow> c < t \<Longrightarrow> 0 \<le> c \<Longrightarrow> \<exists>p. progressPercent c t = Inr p \<and> 0 \<le> p \<and> p < 100"
proof (cases "c \<le> 0")
  case False
  assume "0 < t" "c < t" "0 \<le> c"
  have "(c * 100) div t < 100"
  proof (rule ccontr)
    assume "\<not> (c * 100) div t < 100"
    then have "100 * t \<le> (c * 100) div t * t" using \<open>0 < t\<close> by (intro mult_right_mono) simp_all
    also have "\<dots> \<le> c * 100" using \<open>0 < t\<close> by (simp add: minus_mod_eq_div_mult [symmetric])
    finally show False using \<open>c < t\<close> by simp
  qed
  moreover have "0 \<le> (c * 100) div t" using \<open>0 \<le> c\<close> \<open>0 < t\<close> by (simp add: pos_imp_zdiv_nonneg_iff)
  ultimately show ?thesis using False \<open>0 < t\<close> \<open>c < t\<close> by (simp add: progressPercent_def)
qed (simp add: progressPercent_def)

lemma sort_milestones_result:
  assumes "0 \<le> zs_sentCount st" "0 \<le> zs_receivedCount st" "\<forall>m\<in>set ms. 0 < mp_threshold m"
  shows "\<exists>ps. sort_milestones st (us, qs) ms = Inr (us @ map mp_milestone
      (filter (\<lambda>m. mp_threshold m \<le> (if mp_dimension m = SENT then zs_sentCount st else zs_receivedCount st)) ms), qs @ ps) \<and>
    map pm_milestone ps = map mp_milestone
      (filter (\<lambda>m. \<not> mp_threshold m \<le> (if mp_dimension m = SENT then zs_sentCount st else zs_receivedCount st)) ms) \<and>
    (\<forall>p\<in>set ps. 0 \<le> pm_progressPercent p \<and> pm_progressPercent p < 100)"
  using assms
proof (induction ms arbitrary: us qs)
  case (Cons m ms)
  let ?c = "if mp_dimension m = SENT then zs_sentCount st else zs_receivedCount st"
  show ?case
  proof (cases "mp_threshold m \<le> ?c")
    case True
    then have step: "sort_milestone st (us, qs) m = Inr (us @ [mp_milestone m], qs)"
      by (simp add: sort_milestone_def Let_def)
    from Cons.IH [of "us @ [mp_milestone m]" qs] Cons.prems True step show ?thesis by simp
  next
    case False
    moreover have "0 < mp_threshold m" "0 \<le> ?c" using Cons.prems by simp_all
    ultimately obtain p where p: "progressPercent ?c (mp_threshold m) = Inr p" "0 \<le> p" "p < 100"
      using percent_below [of "mp_threshold m" ?c] by fastforce
    let ?q = "\<lparr>pm_milestone = mp_milestone m, pm_dimension = mp_dimension m, pm_current = int_to_dec ?c,
      pm_target = int_to_dec (mp_threshold m), pm_progressPercent = p\<rparr>"
    have step: "sort_milestone st (us, qs) m = Inr (us, qs @ [?q])"
      using False p(1) by (simp add: sort_milestone_def Let_def del: if_weak_cong)
    obtain ps where ps: "sort_milestones st (us, qs @ [?q]) ms = Inr (us @ map mp_milestone
        (filter (\<lambda>m. mp_threshold m \<le> (if mp_dimension m = SENT then zs_sentCount st else zs_receivedCount st)) ms), (qs @ [?q]) @ ps)"
      "map pm_milestone ps = map mp_milestone
        (filter (\<lambda>m. \<not> mp_threshold m \<le> (if mp_dimension m = SENT then zs_sentCount st else zs_receivedCount st)) ms)"
      "\<forall>p\<in>set ps. 0 \<le> pm_progressPercent p \<and> pm_progressPercent p < 100"
      using Cons.IH [of us "qs @ [?q]"] Cons.prems by auto
    show ?thesis
      by (rule exI [of _ "?q # ps"]) (use step ps p False in simp)
  qed
qed simp

text \<open>Every milestone of the policy is named once, so the pending ones are those that are not unlocked.\<close>

lemma unlocked_or_pending:
  "map mp_milestone (filter (\<lambda>m. \<not> P m) MILESTONE_POLICY) =
   filter (\<lambda>m. m \<notin> set (map mp_milestone (filter P MILESTONE_POLICY))) (map mp_milestone MILESTONE_POLICY)"
proof -
  have "distinct (map mp_milestone MILESTONE_POLICY)" by (simp add: MILESTONE_POLICY_def)
  then have "mp_milestone m \<in> mp_milestone ` {x \<in> set MILESTONE_POLICY. P x} \<longleftrightarrow> P m" if "m \<in> set MILESTONE_POLICY" for m
    using that by (auto simp: distinct_map dest: inj_onD)
  then show ?thesis by (auto simp: filter_map o_def intro!: filter_cong [THEN arg_cong])
qed

section \<open>Histories\<close>

definition initial_growth_db :: "string list \<Rightarrow> growth_db" where
  "initial_growth_db accounts = \<lparr>gd_accounts = accounts, gd_events = [], gd_nextEventId = 1, gd_states = [],
     gd_clockReads = 0\<rparr>"

text \<open>
  A late commit adds a row whose id was taken earlier: an id below the next one that no row has. The
  flag of a step tells whether the row lies behind the cursor of its account.
\<close>

definition late_row :: "growth_db \<Rightarrow> growth_row \<Rightarrow> bool" where
  "late_row db r \<longleftrightarrow> 1 \<le> gr_eventId r \<and> gr_eventId r < gd_nextEventId db \<and> gr_eventId r \<notin> gr_eventId ` set (gd_events db) \<and>
     fact_key r \<notin> fact_key ` set (gd_events db) \<and> gr_actorAccountId r \<in> set (gd_accounts db) \<and>
     (\<exists>es. gr_context r = JObject es)"

inductive growth_step :: "runtime_env \<Rightarrow> growth_db \<Rightarrow> growth_db \<Rightarrow> bool" for env where
  step_append: "growth_append env now i db = (r, db') \<Longrightarrow> growth_step env db db'"
| step_project: "projectAccount env a limit db = (r, db') \<Longrightarrow> growth_step env db db'"
| step_late: "late_row db row \<Longrightarrow> growth_step env db (db\<lparr>gd_events := gd_events db @ [row]\<rparr>)"

text \<open>No row has come to lie behind the cursor: every new row is beyond the cursor of its account.\<close>

definition in_order :: "growth_db \<Rightarrow> growth_db \<Rightarrow> bool" where
  "in_order db db' \<longleftrightarrow> (\<forall>r \<in> set (gd_events db'). r \<in> set (gd_events db) \<or> cursor db (gr_actorAccountId r) < gr_eventId r)"

inductive growth_history :: "runtime_env \<Rightarrow> growth_db \<Rightarrow> growth_db \<Rightarrow> bool" for env where
  growth_start: "growth_history env db db"
| growth_next: "growth_history env db db1 \<Longrightarrow> growth_step env db1 db2 \<Longrightarrow> in_order db1 db2 \<Longrightarrow> growth_history env db db2"

definition reachable_growth :: "runtime_env \<Rightarrow> growth_db \<Rightarrow> bool" where
  "reachable_growth env db \<longleftrightarrow> (\<exists>accounts. growth_history env (initial_growth_db accounts) db)"

text \<open>The event a row reads as, and the events of an account up to an id.\<close>

definition event_of :: "runtime_env \<Rightarrow> growth_row \<Rightarrow> growth_event" where
  "event_of env r = (case zp_mapGrowthEvent env r of Inr e \<Rightarrow> e | Inl x \<Rightarrow> undefined)"

definition rows_upto :: "growth_db \<Rightarrow> string \<Rightarrow> int \<Rightarrow> growth_row list" where
  "rows_upto db a n = filter (\<lambda>r. gr_actorAccountId r = a \<and> gr_eventId r \<le> n) (gd_events db)"

definition events_upto :: "runtime_env \<Rightarrow> growth_db \<Rightarrow> string \<Rightarrow> int \<Rightarrow> growth_event list" where
  "events_upto env db a n = map (event_of env) (rows_upto db a n)"

definition counts :: "account_zp_state \<Rightarrow> growth_event list \<Rightarrow> bool" where
  "counts st es \<longleftrightarrow> zs_totalPoints st = totalZp es \<and> zs_sentCount st = sum_list (map event_sent es) \<and>
     zs_receivedCount st = sum_list (map event_received es)"

definition state_ok :: "runtime_env \<Rightarrow> growth_db \<Rightarrow> string \<Rightarrow> account_zp_state \<Rightarrow> bool" where
  "state_ok env db a st \<longleftrightarrow> zs_accountId st = a \<and> zs_policyVersion st = ZP_POLICY_VERSION \<and>
     0 \<le> zs_lastGrowthEventId st \<and> zs_lastGrowthEventId st < gd_nextEventId db \<and>
     counts st (events_upto env db a (zs_lastGrowthEventId st))"

definition growth_ok :: "runtime_env \<Rightarrow> growth_db \<Rightarrow> bool" where
  "growth_ok env db \<longleftrightarrow> 1 \<le> gd_nextEventId db \<and> distinct (map gr_eventId (gd_events db)) \<and>
     distinct (map fact_key (gd_events db)) \<and>
     (\<forall>r \<in> set (gd_events db). 1 \<le> gr_eventId r \<and> gr_eventId r < gd_nextEventId db \<and> (\<exists>es. gr_context r = JObject es)) \<and>
     (\<forall>a st. js_get (gd_states db) a = Some st \<longrightarrow> state_ok env db a st)"

lemma growth_okD:
  assumes "growth_ok env db"
  shows "1 \<le> gd_nextEventId db" "distinct (map gr_eventId (gd_events db))" "distinct (map fact_key (gd_events db))"
    "r \<in> set (gd_events db) \<Longrightarrow> 1 \<le> gr_eventId r \<and> gr_eventId r < gd_nextEventId db \<and> (\<exists>es. gr_context r = JObject es)"
    "js_get (gd_states db) a = Some st \<Longrightarrow> state_ok env db a st"
  using assms unfolding growth_ok_def by blast+

lemma zp_map_object: "gr_context r = JObject es \<Longrightarrow> zp_mapGrowthEvent env r = Inr (event_of env r)"
  by (simp add: event_of_def zp_mapGrowthEvent_def zp_cloneJsonObject_def)

lemma event_of_id: "gr_context r = JObject es \<Longrightarrow> ge_eventId (event_of env r) = gr_eventId r"
  by (simp add: event_of_def zp_mapGrowthEvent_def zp_cloneJsonObject_def)

lemma maps_agree: "mapGrowthEvent env r = zp_mapGrowthEvent env r"
  by (simp add: mapGrowthEvent_def zp_mapGrowthEvent_def persisted_context_def zp_cloneJsonObject_def)

lemma map_rows: "(\<And>r. r \<in> set rs \<Longrightarrow> \<exists>es. gr_context r = JObject es) \<Longrightarrow>
    map_result (zp_mapGrowthEvent env) rs = Inr (map (event_of env) rs)"
proof (induction rs)
  case (Cons r rs)
  then have "zp_mapGrowthEvent env r = Inr (event_of env r)" using zp_map_object by force
  with Cons show ?case by simp
qed simp

section \<open>Appends and late commits\<close>

lemma add_row_ok:
  assumes ok: "growth_ok env db" and row: "1 \<le> gr_eventId r" "gr_eventId r < n" "gr_eventId r \<notin> gr_eventId ` set (gd_events db)"
    "fact_key r \<notin> fact_key ` set (gd_events db)" "\<exists>es. gr_context r = JObject es"
    and n: "gd_nextEventId db \<le> n" and ahead: "cursor db (gr_actorAccountId r) < gr_eventId r"
  shows "growth_ok env (db\<lparr>gd_nextEventId := n, gd_events := gd_events db @ [r]\<rparr>)"
proof -
  let ?db = "db\<lparr>gd_nextEventId := n, gd_events := gd_events db @ [r]\<rparr>"
  have "state_ok env ?db a st" if st: "js_get (gd_states ?db) a = Some st" for a st
  proof -
    have s: "state_ok env db a st" using growth_okD(5) [OF ok] st by simp
    have "rows_upto ?db a (zs_lastGrowthEventId st) = rows_upto db a (zs_lastGrowthEventId st)"
      using ahead st by (auto simp: rows_upto_def cursor_def)
    with s n show ?thesis by (auto simp: state_ok_def events_upto_def)
  qed
  moreover have "1 \<le> n" using growth_okD(1) [OF ok] n by simp
  moreover have "1 \<le> gr_eventId x \<and> gr_eventId x < n \<and> (\<exists>es. gr_context x = JObject es)" if "x \<in> set (gd_events ?db)" for x
    using that growth_okD(4) [OF ok, of x] row n by auto
  ultimately show ?thesis
    using growth_okD(2,3) [OF ok] row(3,4) unfolding growth_ok_def by auto
qed

lemma skip_id_ok: "growth_ok env db \<Longrightarrow> growth_ok env (db\<lparr>gd_nextEventId := gd_nextEventId db + 1\<rparr>)"
  by (fastforce simp: growth_ok_def state_ok_def events_upto_def rows_upto_def)

lemma cursor_below: "growth_ok env db \<Longrightarrow> cursor db a < gd_nextEventId db"
  by (fastforce simp: growth_ok_def state_ok_def cursor_def split: option.splits)

lemma wire_object: "\<exists>es. jsonb_value (json_wire (JObject fs)) = JObject es"
  by simp

lemma input_context_object: "validateGrowthEventInput env i = Inr u \<Longrightarrow> \<exists>fs. input_context i = JObject fs"
  by (auto simp: validateGrowthEventInput_def input_context_def and_then_Inr split: option.splits json.splits if_splits)

lemma fact_row_None: "fact_row i db = None \<longleftrightarrow> input_key i \<notin> fact_key ` set (gd_events db)"
  unfolding fact_row_def find_None_iff image_iff by metis

lemma row_of_key: "fact_key (growth_row_of env i c n now) = input_key i"
  by (simp add: fact_key_def growth_row_of_def input_key_def)

text \<open>What an append does to the tables.\<close>

lemma growth_append_outcome:
  assumes "growth_append env now i db = (r, db')"
  obtains (nothing) "db' = db"
    | (skipped) "db' = db\<lparr>gd_nextEventId := gd_nextEventId db + 1\<rparr>"
    | (added) row where "db' = db\<lparr>gd_nextEventId := gd_nextEventId db + 1, gd_events := gd_events db @ [row]\<rparr>"
        "gr_eventId row = gd_nextEventId db" "fact_key row = input_key i" "fact_row i db = None"
        "\<exists>es. gr_context row = JObject es" "gr_actorAccountId row \<in> set (gd_accounts db)"
proof (cases "validateGrowthEventInput env i")
  case (Inl e)
  with assms have "db' = db" by (auto simp: growth_append_def)
  then show thesis by (rule nothing)
next
  case valid: (Inr u)
  obtain fs where fs: "input_context i = JObject fs" using input_context_object [OF valid] by blast
  show thesis
  proof (cases "fact_row i db")
    case (Some row)
    then have "fact_row i (db\<lparr>gd_nextEventId := gd_nextEventId db + 1\<rparr>) = Some row" by (simp add: fact_row_def)
    with assms valid Some have "db' = db\<lparr>gd_nextEventId := gd_nextEventId db + 1\<rparr>"
      by (simp add: growth_append_def insert_growth_event_def Let_def)
    then show thesis by (rule skipped)
  next
    case None
    show thesis
    proof (cases "js_lower (cg_actorAccountId i) \<in> set (gd_accounts db)")
      case False
      with assms valid None have "db' = db\<lparr>gd_nextEventId := gd_nextEventId db + 1\<rparr>"
        by (simp add: growth_append_def insert_growth_event_def Let_def)
      then show thesis by (rule skipped)
    next
      case True
      let ?row = "growth_row_of env i (input_context i) (gd_nextEventId db) now"
      have "db' = db\<lparr>gd_nextEventId := gd_nextEventId db + 1, gd_events := gd_events db @ [?row]\<rparr>"
        using assms valid None True by (simp add: growth_append_def insert_growth_event_def Let_def)
      moreover have "gr_eventId ?row = gd_nextEventId db" "gr_actorAccountId ?row \<in> set (gd_accounts db)"
        "\<exists>es. gr_context ?row = JObject es"
        using True fs by (simp_all add: growth_row_of_def)
      ultimately show thesis using added row_of_key None by blast
    qed
  qed
qed

lemma append_ok:
  assumes ok: "growth_ok env db" and run: "growth_append env now i db = (r, db')"
  shows "growth_ok env db'"
  using run
proof (cases rule: growth_append_outcome)
  case nothing
  with ok show ?thesis by simp
next
  case skipped
  with skip_id_ok [OF ok] show ?thesis by simp
next
  case (added row)
  have "gr_eventId row \<notin> gr_eventId ` set (gd_events db)"
    using growth_okD(4) [OF ok] added(2) by fastforce
  moreover have "fact_key row \<notin> fact_key ` set (gd_events db)" using added(3,4) fact_row_None by simp
  ultimately show ?thesis
    using add_row_ok [OF ok, of row "gd_nextEventId db + 1"] added growth_okD(1) [OF ok] cursor_below [OF ok] by simp
qed

section \<open>Projections\<close>

lemma batch_limit_Some: "batch_limit hi n = Some k \<Longrightarrow> 1 \<le> k"
proof -
  assume "batch_limit hi n = Some k"
  then obtain q where q: "n = Finite q" "is_integer n" "\<not> q < 1" "k = nat (fst (quotient_of q))"
    by (auto simp: batch_limit_def split: js_number.splits if_splits)
  obtain z d where zd: "quotient_of q = (z, d)" by (cases "quotient_of q")
  with q(1,2) have "d = 1" by (simp add: is_integer_def)
  with quotient_of_div [OF zd] have "q = of_int z" by simp
  with q(3) have "1 \<le> z" by simp
  with q(4) zd show ?thesis by simp
qed

lemma sorted_prefix_filter:
  assumes "sorted (map f (xs @ ys))" and "distinct (map f (xs @ ys))" and "xs \<noteq> []"
  shows "filter (\<lambda>x. f x \<le> (f (last xs) :: int)) (xs @ ys) = xs"
    and "filter (\<lambda>x. \<not> f x \<le> f (last xs)) (xs @ ys) = ys"
proof -
  have low: "f x \<le> f (last xs)" if "x \<in> set xs" for x
    using assms(1,3) that by (cases xs rule: rev_cases) (auto simp: sorted_append)
  have high: "\<not> f y \<le> f (last xs)" if "y \<in> set ys" for y
  proof -
    have l: "last xs \<in> set xs" using assms(3) by simp
    then have "f (last xs) \<le> f y" using assms(1) that by (auto simp: sorted_append)
    moreover have "f (last xs) \<noteq> f y" using assms(2) that l by (auto simp: image_iff)
    ultimately show ?thesis by simp
  qed
  show "filter (\<lambda>x. f x \<le> f (last xs)) (xs @ ys) = xs" using low high by simp
  show "filter (\<lambda>x. \<not> f x \<le> f (last xs)) (xs @ ys) = ys"
    using low high by (simp add: filter_True)
qed

lemma pending_sorted:
  "distinct (map gr_eventId (gd_events db)) \<Longrightarrow>
   sorted (map gr_eventId (pending_rows db a n)) \<and> distinct (map gr_eventId (pending_rows db a n))"
  by (simp add: pending_rows_def distinct_map inj_on_def)

lemma set_pending: "set (pending_rows db a n) = {r \<in> set (gd_events db). gr_actorAccountId r = a \<and> n < gr_eventId r}"
  by (auto simp: pending_rows_def)

lemma mset_filter_or:
  "(\<And>x. \<not> (P x \<and> Q x)) \<Longrightarrow> mset (filter (\<lambda>x. P x \<or> Q x) xs) = mset (filter P xs) + mset (filter Q xs)"
  by (induction xs) auto

text \<open>A batch adds exactly its rows to those up to the cursor.\<close>

lemma batch_rows:
  assumes d: "distinct (map gr_eventId (gd_events db))" and B: "B = take k (pending_rows db a n)" "B \<noteq> []"
  shows "mset (rows_upto db a (gr_eventId (last B))) = mset (rows_upto db a n) + mset B"
    and "pending_rows db a (gr_eventId (last B)) = drop k (pending_rows db a n)"
    and "n < gr_eventId (last B)"
proof -
  let ?P = "pending_rows db a n" and ?m = "gr_eventId (last B)"
  have P: "?P = B @ drop k ?P" using B(1) by simp
  have s: "sorted (map gr_eventId (B @ drop k ?P))" "distinct (map gr_eventId (B @ drop k ?P))"
    using pending_sorted [OF d, of a n] P by simp_all
  have f: "filter (\<lambda>r. gr_eventId r \<le> ?m) ?P = B"
    using sorted_prefix_filter(1) [OF s B(2)] P by simp
  have l: "last B \<in> set ?P" using B by (metis last_in_set in_set_takeD)
  then show less: "n < ?m" by (simp add: set_pending)
  let ?low = "\<lambda>r. gr_actorAccountId r = a \<and> gr_eventId r \<le> n"
  let ?new = "\<lambda>r. gr_actorAccountId r = a \<and> n < gr_eventId r \<and> gr_eventId r \<le> ?m"
  have "rows_upto db a ?m = filter (\<lambda>r. ?low r \<or> ?new r) (gd_events db)"
    unfolding rows_upto_def using less by (intro filter_cong) auto
  moreover have "mset (filter (\<lambda>r. ?low r \<or> ?new r) (gd_events db)) = mset (filter ?low (gd_events db)) + mset (filter ?new (gd_events db))"
    by (rule mset_filter_or) auto
  moreover have "mset B = mset (filter ?new (gd_events db))"
  proof -
    have "mset B = mset (filter (\<lambda>r. gr_eventId r \<le> ?m) ?P)" by (simp only: f)
    also have "\<dots> = mset (filter (\<lambda>r. gr_eventId r \<le> ?m) (filter (\<lambda>r. gr_actorAccountId r = a \<and> n < gr_eventId r) (gd_events db)))"
      unfolding pending_rows_def mset_filter by simp
    finally show ?thesis by (simp only: filter_filter conj_ac)
  qed
  ultimately show "mset (rows_upto db a ?m) = mset (rows_upto db a n) + mset B"
    by (simp add: rows_upto_def)
  have "filter (\<lambda>r. \<not> gr_eventId r \<le> ?m) ?P = drop k ?P"
    using sorted_prefix_filter(2) [OF s B(2)] P by simp
  moreover have "pending_rows db a ?m = filter (\<lambda>r. \<not> gr_eventId r \<le> ?m) ?P"
  proof -
    have "filter (\<lambda>r. \<not> gr_eventId r \<le> ?m) ?P =
        sort_key gr_eventId (filter (\<lambda>r. \<not> gr_eventId r \<le> ?m) (filter (\<lambda>r. gr_actorAccountId r = a \<and> n < gr_eventId r) (gd_events db)))"
      unfolding pending_rows_def by (rule List.filter_sort)
    also have "filter (\<lambda>r. \<not> gr_eventId r \<le> ?m) (filter (\<lambda>r. gr_actorAccountId r = a \<and> n < gr_eventId r) (gd_events db)) =
        filter (\<lambda>r. gr_actorAccountId r = a \<and> ?m < gr_eventId r) (gd_events db)"
      using less by (auto intro: filter_cong)
    finally show ?thesis by (simp add: pending_rows_def)
  qed
  ultimately show "pending_rows db a ?m = drop k ?P" by simp
qed

text \<open>The state a projection starts from: the stored one, or zero.\<close>

definition prior_state :: "growth_db \<Rightarrow> string \<Rightarrow> account_zp_state \<Rightarrow> bool" where
  "prior_state db a st \<longleftrightarrow> js_get (gd_states db) a = Some st \<or> js_get (gd_states db) a = None \<and> (\<exists>t. st = zero_zp_row a t)"

lemma prior_cursor: "prior_state db a st \<Longrightarrow> zs_lastGrowthEventId st = cursor db a"
  by (auto simp: prior_state_def cursor_def zero_zp_row_def)

lemma no_rows_before: "growth_ok env db \<Longrightarrow> rows_upto db a 0 = []"
  by (fastforce simp: growth_ok_def rows_upto_def filter_empty_conv)

lemma prior_ok: "growth_ok env db \<Longrightarrow> prior_state db a st \<Longrightarrow> state_ok env db a st"
  using growth_okD(1,5) [of env db] no_rows_before [of env db a]
  by (auto simp: prior_state_def zero_zp_row_def state_ok_def counts_def events_upto_def totalZp_def)

lemma ensure_row:
  assumes "ensure_zp_row a t db = Inr db1"
  obtains st where "js_get (gd_states db1) a = Some st" "prior_state db a st" "\<forall>b. b \<noteq> a \<longrightarrow> js_get (gd_states db1) b = js_get (gd_states db) b"
    "gd_events db1 = gd_events db" "gd_accounts db1 = gd_accounts db" "gd_nextEventId db1 = gd_nextEventId db"
proof (cases "js_get (gd_states db) a")
  case (Some st)
  with assms that show thesis by (simp add: ensure_zp_row_def js_has_def prior_state_def)
next
  case None
  then have "prior_state db a (zero_zp_row a t)" unfolding prior_state_def by blast
  with None assms that [of "zero_zp_row a t"] show thesis
    by (auto simp: ensure_zp_row_def js_has_def split: if_splits)
qed

text \<open>Same tables but for the state of one account.\<close>

definition state_changed :: "growth_db \<Rightarrow> string \<Rightarrow> account_zp_state \<Rightarrow> growth_db \<Rightarrow> bool" where
  "state_changed db a st db' \<longleftrightarrow> js_get (gd_states db') a = Some st \<and>
     (\<forall>b. b \<noteq> a \<longrightarrow> js_get (gd_states db') b = js_get (gd_states db) b) \<and>
     gd_events db' = gd_events db \<and> gd_accounts db' = gd_accounts db \<and> gd_nextEventId db' = gd_nextEventId db"

text \<open>What the transaction does when it commits.\<close>

definition advanced :: "runtime_env \<Rightarrow> growth_row list \<Rightarrow> account_zp_state \<Rightarrow> account_zp_state \<Rightarrow> bool" where
  "advanced env B prior st \<longleftrightarrow> zs_accountId st = zs_accountId prior \<and> zs_policyVersion st = zs_policyVersion prior \<and>
     zs_lastGrowthEventId st = gr_eventId (last B) \<and>
     zs_totalPoints st = zs_totalPoints prior + sum_list (map event_points (map (event_of env) B)) \<and>
     zs_sentCount st = zs_sentCount prior + sum_list (map event_sent (map (event_of env) B)) \<and>
     zs_receivedCount st = zs_receivedCount prior + sum_list (map event_received (map (event_of env) B))"

lemma update_zp_row_Inr:
  assumes "update_zp_row env a (p, s, r) n now db = Inr db'"
  shows "\<exists>st. js_get (gd_states db) a = Some st \<and> db' = db\<lparr>gd_states := js_set (gd_states db) a (st\<lparr>zs_totalPoints := p,
    zs_sentCount := s, zs_receivedCount := r, zs_lastGrowthEventId := n, zs_updatedAt := stored_time env now\<rparr>)\<rparr>"
  using assms unfolding update_zp_row_def prod.case
  by (simp split: if_splits option.splits)

lemma project_body_commits:
  assumes ok: "growth_ok env db" and run: "project_body env accountId n now db = (Inr res, db')" and a: "a = js_lower accountId"
  obtains prior st where "prior_state db a prior" "state_changed db a st db'"
    "res = projection_result accountId (length (take n (pending_rows db a (cursor db a)))) (cursor db a) (zs_lastGrowthEventId st)
      (zs_totalPoints st, zs_sentCount st, zs_receivedCount st)"
    "if take n (pending_rows db a (cursor db a)) = [] then st = prior
     else advanced env (take n (pending_rows db a (cursor db a))) prior st"
proof -
  let ?B = "take n (pending_rows db a (cursor db a))"
  obtain db1 where e: "ensure_zp_row a (stored_time env now) db = Inr db1"
    using run unfolding project_body_def Let_def a by (auto simp: when_ok_Inr)
  obtain prior where p: "js_get (gd_states db1) a = Some prior" "prior_state db a prior"
    "\<forall>b. b \<noteq> a \<longrightarrow> js_get (gd_states db1) b = js_get (gd_states db) b"
    "gd_events db1 = gd_events db" "gd_accounts db1 = gd_accounts db" "gd_nextEventId db1 = gd_nextEventId db"
    using e by (rule ensure_row)
  have ver: "zs_policyVersion prior = ZP_POLICY_VERSION" using prior_ok [OF ok p(2)] by (simp add: state_ok_def)
  have rows: "take n (pending_rows db1 a (zs_lastGrowthEventId prior)) = ?B"
    using p(4) prior_cursor [OF p(2)] by (simp add: pending_rows_def)
  have objects: "\<exists>es. gr_context r = JObject es" if "r \<in> set ?B" for r
    using growth_okD(4) [OF ok] in_set_takeD [OF that] by (simp add: set_pending)
  have m: "map_result (zp_mapGrowthEvent env) ?B = Inr (map (event_of env) ?B)" by (rule map_rows) (rule objects)
  let ?acc = "(zs_totalPoints prior, zs_sentCount prior, zs_receivedCount prior)"
  show thesis
  proof (cases "?B = []")
    case True
    then have "(Inr res, db') = (Inr (projection_result accountId 0 (zs_lastGrowthEventId prior) (zs_lastGrowthEventId prior) ?acc), db1)"
      using run e p(1) ver rows m unfolding project_body_def Let_def a [symmetric] by simp
    then have r: "res = projection_result accountId 0 (zs_lastGrowthEventId prior) (zs_lastGrowthEventId prior) ?acc" "db' = db1"
      by simp_all
    have "res = projection_result accountId (length ?B) (cursor db a) (zs_lastGrowthEventId prior) ?acc"
      unfolding True using r(1) prior_cursor [OF p(2)] by simp
    moreover have "state_changed db a prior db'" using p r(2) by (simp add: state_changed_def)
    ultimately show thesis using that [of prior prior] p(2) unfolding True by simp
  next
    case False
    let ?es = "map (event_of env) ?B" and ?db2 = "snd (read_growth_clock env db1)"
    have last: "ge_eventId (last ?es) = gr_eventId (last ?B)"
      using False objects [of "last ?B"] event_of_id by (force simp: last_map)
    obtain db3 where u: "update_zp_row env a (foldl project_event ?acc ?es) (gr_eventId (last ?B)) (clock env (gd_clockReads db1)) ?db2 = Inr db3"
      and r: "(Inr res, db') = (Inr (projection_result accountId (length ?es) (zs_lastGrowthEventId prior) (gr_eventId (last ?B))
        (foldl project_event ?acc ?es)), db3)"
      using run e p(1) ver rows m False last unfolding project_body_def Let_def a [symmetric]
      by (auto simp: when_ok_Inr read_growth_clock_def)
    obtain st where st: "js_get (gd_states ?db2) a = Some st"
      "db3 = ?db2\<lparr>gd_states := js_set (gd_states ?db2) a (st\<lparr>zs_totalPoints := zs_totalPoints prior + sum_list (map event_points ?es),
         zs_sentCount := zs_sentCount prior + sum_list (map event_sent ?es),
         zs_receivedCount := zs_receivedCount prior + sum_list (map event_received ?es),
         zs_lastGrowthEventId := gr_eventId (last ?B), zs_updatedAt := stored_time env (clock env (gd_clockReads db1))\<rparr>)\<rparr>"
      using update_zp_row_Inr [OF u [unfolded project_events]] by blast
    have "st = prior" using st(1) p(1) by (simp add: read_growth_clock_def)
    let ?st = "st\<lparr>zs_totalPoints := zs_totalPoints prior + sum_list (map event_points ?es),
         zs_sentCount := zs_sentCount prior + sum_list (map event_sent ?es),
         zs_receivedCount := zs_receivedCount prior + sum_list (map event_received ?es),
         zs_lastGrowthEventId := gr_eventId (last ?B), zs_updatedAt := stored_time env (clock env (gd_clockReads db1))\<rparr>"
    have "state_changed db a ?st db3"
      unfolding state_changed_def st(2) using p(3-6) by (simp add: read_growth_clock_def)
    moreover have "advanced env ?B prior ?st" using \<open>st = prior\<close> by (simp add: advanced_def)
    moreover have "res = projection_result accountId (length ?B) (cursor db a) (zs_lastGrowthEventId ?st)
        (zs_totalPoints ?st, zs_sentCount ?st, zs_receivedCount ?st)" "db' = db3"
      using r prior_cursor [OF p(2)] by (simp_all add: project_events)
    ultimately show thesis using that [of prior ?st] p(2) False by simp
  qed
qed

lemma clock_reads_ok [simp]: "growth_ok env (db\<lparr>gd_clockReads := k\<rparr>) = growth_ok env db"
  by (simp add: growth_ok_def state_ok_def events_upto_def rows_upto_def)

lemma growth_clock_same [simp]: "pending_rows (db\<lparr>gd_clockReads := k\<rparr>) = pending_rows db"
  "cursor (db\<lparr>gd_clockReads := k\<rparr>) = cursor db" "prior_state (db\<lparr>gd_clockReads := k\<rparr>) = prior_state db"
  "state_changed (db\<lparr>gd_clockReads := k\<rparr>) = state_changed db"
  by (simp_all add: pending_rows_def cursor_def prior_state_def state_changed_def fun_eq_iff)

lemma project_cases:
  assumes run: "projectAccount env accountId limit db = (r, db')"
  obtains (failed) e k where "r = Inl e" "db' = db\<lparr>gd_clockReads := k\<rparr>"
    | (commits) res n now where "r = Inr res" "batch_limit 500 limit = Some n" "is_uuid accountId"
        "project_body env accountId n now (db\<lparr>gd_clockReads := Suc (gd_clockReads db)\<rparr>) = (Inr res, db')"
proof (cases "is_uuid accountId")
  case False
  then have "r = Inl (Err PlainError ''ZP account ID must be a canonical UUID.'')" "db' = db\<lparr>gd_clockReads := gd_clockReads db\<rparr>"
    using run by (auto simp: projectAccount_def validateUuid_def)
  then show thesis by (rule failed)
next
  case uuid: True
  show thesis
  proof (cases "batch_limit 500 limit")
    case None
    then have "r = Inl (Err PlainError ''ZP projection limit must be between 1 and 500.'')"
      "db' = db\<lparr>gd_clockReads := gd_clockReads db\<rparr>"
      using run uuid by (auto simp: projectAccount_def validateUuid_def)
    then show thesis by (rule failed)
  next
    case (Some n)
    let ?db1 = "db\<lparr>gd_clockReads := Suc (gd_clockReads db)\<rparr>" and ?now = "clock env (gd_clockReads db)"
    have t: "(r, db') = zp_transaction db (project_body env accountId n ?now ?db1)"
      using run uuid Some by (simp add: projectAccount_def validateUuid_def read_growth_clock_def)
    obtain q db2 where b: "project_body env accountId n ?now ?db1 = (q, db2)" by fastforce
    show thesis
    proof (cases q)
      case (Inl e)
      with t b have "r = Inl e" "db' = db\<lparr>gd_clockReads := gd_clockReads db2\<rparr>" by (simp_all add: zp_transaction_def)
      then show thesis by (rule failed)
    next
      case (Inr res)
      with t b have "r = Inr res" "db' = db2" by (simp_all add: zp_transaction_def)
      with b Inr Some uuid commits show thesis by blast
    qed
  qed
qed

lemma sum_of_parts:
  fixes f :: "'a \<Rightarrow> int"
  assumes "mset xs = mset ys + mset zs"
  shows "sum_list (map f xs) = sum_list (map f ys) + sum_list (map f zs)"
  using assms by (simp add: sum_mset_sum_list [symmetric])

text \<open>Advancing over a batch keeps the state counting its events.\<close>

lemma advanced_ok:
  assumes ok: "growth_ok env db" and p: "prior_state db a prior" and B: "B = take n (pending_rows db a (cursor db a))" "B \<noteq> []"
    and adv: "advanced env B prior st"
  shows "state_ok env db a st"
proof -
  have s: "state_ok env db a prior" using prior_ok [OF ok p] .
  have rows: "mset (rows_upto db a (gr_eventId (last B))) = mset (rows_upto db a (cursor db a)) + mset B"
    "cursor db a < gr_eventId (last B)"
    using batch_rows [OF growth_okD(2) [OF ok] B] by simp_all
  have "last B \<in> set (gd_events db)"
    using B set_pending [of db a "cursor db a"] by (metis (no_types, lifting) in_set_takeD last_in_set mem_Collect_eq)
  then have "gr_eventId (last B) < gd_nextEventId db" using growth_okD(4) [OF ok] by blast
  moreover have "counts st (events_upto env db a (gr_eventId (last B)))"
    using s adv sum_of_parts [OF rows(1), of "\<lambda>r. event_points (event_of env r)"]
      sum_of_parts [OF rows(1), of "\<lambda>r. event_sent (event_of env r)"]
      sum_of_parts [OF rows(1), of "\<lambda>r. event_received (event_of env r)"] prior_cursor [OF p]
    by (simp add: counts_def advanced_def state_ok_def events_upto_def totalZp_sum comp_def)
  ultimately show ?thesis using s adv rows(2) prior_cursor [OF p] by (auto simp: state_ok_def advanced_def)
qed

lemma state_ok_same: "gd_events db' = gd_events db \<Longrightarrow> gd_nextEventId db' = gd_nextEventId db \<Longrightarrow>
    state_ok env db' a st = state_ok env db a st"
  by (simp add: state_ok_def events_upto_def rows_upto_def)

lemma state_changed_ok:
  assumes "growth_ok env db" and "state_changed db a st db'" and "state_ok env db a st"
  shows "growth_ok env db'"
proof -
  have same: "gd_events db' = gd_events db" "gd_nextEventId db' = gd_nextEventId db"
    using assms(2) by (simp_all add: state_changed_def)
  have "state_ok env db' b t" if "js_get (gd_states db') b = Some t" for b t
    using that assms growth_okD(5) [OF assms(1), of b t] state_ok_same [OF same]
    by (cases "b = a") (auto simp: state_changed_def)
  with growth_okD(1-4) [OF assms(1)] same show ?thesis unfolding growth_ok_def by simp
qed

text \<open>The effect of a projection that returns.\<close>

lemma project_effect:
  assumes ok: "growth_ok env db" and run: "projectAccount env accountId limit db = (Inr res, db')"
  obtains n prior st where "batch_limit 500 limit = Some n" "prior_state db (js_lower accountId) prior"
    "state_changed db (js_lower accountId) st db'" "state_ok env db (js_lower accountId) st"
    "zr_processedEvents res = length (take n (pending_rows db (js_lower accountId) (cursor db (js_lower accountId))))"
    "pending_rows db' (js_lower accountId) (cursor db' (js_lower accountId)) =
      drop n (pending_rows db (js_lower accountId) (cursor db (js_lower accountId)))"
  using run
proof (cases rule: project_cases)
  case (commits res' n now)
  let ?a = "js_lower accountId" and ?db1 = "db\<lparr>gd_clockReads := Suc (gd_clockReads db)\<rparr>"
  let ?B = "take n (pending_rows db ?a (cursor db ?a))"
  have ok1: "growth_ok env ?db1" using ok by simp
  obtain prior st where e: "prior_state db ?a prior" "state_changed db ?a st db'"
    "res' = projection_result accountId (length ?B) (cursor db ?a) (zs_lastGrowthEventId st)
      (zs_totalPoints st, zs_sentCount st, zs_receivedCount st)"
    "if ?B = [] then st = prior else advanced env ?B prior st"
    using project_body_commits [OF ok1 commits(4) refl] unfolding growth_clock_same by metis
  have s: "state_ok env db ?a st"
    using e(4) prior_ok [OF ok e(1)] advanced_ok [OF ok e(1) refl] by (cases "?B = []") auto
  have cur: "cursor db' ?a = zs_lastGrowthEventId st" "gd_events db' = gd_events db"
    using e(2) by (simp_all add: state_changed_def cursor_def)
  have "pending_rows db ?a (zs_lastGrowthEventId st) = drop n (pending_rows db ?a (cursor db ?a))"
  proof (cases "?B = []")
    case True
    then have "st = prior" using e(4) by simp
    moreover have "1 \<le> n" using batch_limit_Some [OF commits(2)] .
    ultimately show ?thesis using True prior_cursor [OF e(1)] by auto
  next
    case False
    then have "zs_lastGrowthEventId st = gr_eventId (last ?B)" using e(4) by (simp add: advanced_def)
    with batch_rows(2) [OF growth_okD(2) [OF ok] refl False] show ?thesis by simp
  qed
  then have "pending_rows db' ?a (cursor db' ?a) = drop n (pending_rows db ?a (cursor db ?a))"
    using cur by (simp add: pending_rows_def)
  moreover have "zr_processedEvents res = length ?B" using e(3) commits(1) by (simp add: projection_result_def)
  ultimately show thesis using that commits(2) e(1,2) s by blast
qed simp

lemma project_ok:
  assumes ok: "growth_ok env db" and run: "projectAccount env accountId limit db = (r, db')"
  shows "growth_ok env db'"
proof (cases r)
  case (Inl e)
  with run have "\<exists>k. db' = db\<lparr>gd_clockReads := k\<rparr>" by (cases rule: project_cases) auto
  with ok show ?thesis by auto
next
  case (Inr res)
  with run have "projectAccount env accountId limit db = (Inr res, db')" by simp
  then show ?thesis by (rule project_effect [OF ok]) (rule state_changed_ok [OF ok])
qed

lemma step_ok:
  assumes "growth_step env db db'" and "growth_ok env db" and "in_order db db'"
  shows "growth_ok env db'"
  using assms(1)
proof (cases rule: growth_step.cases)
  case (step_append now i r)
  with append_ok [OF assms(2)] show ?thesis by blast
next
  case (step_project a limit r)
  with project_ok [OF assms(2)] show ?thesis by blast
next
  case (step_late row)
  then have "row \<notin> set (gd_events db)" by (auto simp: late_row_def)
  with step_late assms(3) have "cursor db (gr_actorAccountId row) < gr_eventId row" by (auto simp: in_order_def)
  with add_row_ok [OF assms(2), of row "gd_nextEventId db"] step_late show ?thesis by (simp add: late_row_def)
qed

lemma initial_growth_ok: "growth_ok env (initial_growth_db accounts)"
  by (simp add: growth_ok_def initial_growth_db_def)

lemma growth_history_ok: "growth_history env db db' \<Longrightarrow> growth_ok env db \<Longrightarrow> growth_ok env db'"
  by (induction rule: growth_history.induct) (blast intro: step_ok)+

lemma reachable_growth_ok: "reachable_growth env db \<Longrightarrow> growth_ok env db"
  unfolding reachable_growth_def using growth_history_ok initial_growth_ok by blast

section \<open>Catching up\<close>

lemma rows_upto_length: "length (events_upto env db a n) \<le> length (gd_events db)"
  by (simp add: events_upto_def rows_upto_def)

lemma counts_fit: "t = 10 * s + 5 * r \<Longrightarrow> 0 \<le> s \<Longrightarrow> 0 \<le> r \<Longrightarrow> t < 2 ^ 63 \<Longrightarrow> fits_bigint t \<and> fits_bigint s \<and> fits_bigint r"
  by (simp add: fits_bigint_def)

lemma ensure_known: "a \<in> set (gd_accounts db) \<Longrightarrow> \<exists>db1. ensure_zp_row a t db = Inr db1"
  by (simp add: ensure_zp_row_def)

text \<open>With fewer than \<open>2^63 / 10\<close> events nothing overflows and the projection of a known account returns.\<close>

lemma project_succeeds:
  assumes ok: "growth_ok env db" and id: "is_uuid accountId" "batch_limit 500 limit = Some n"
    and known: "js_lower accountId \<in> set (gd_accounts db)" and small: "10 * int (length (gd_events db)) < 2 ^ 63"
  shows "\<exists>res db'. projectAccount env accountId limit db = (Inr res, db')"
proof -
  let ?a = "js_lower accountId" and ?db1 = "db\<lparr>gd_clockReads := Suc (gd_clockReads db)\<rparr>" and ?now = "clock env (gd_clockReads db)"
  let ?B = "take n (pending_rows db ?a (cursor db ?a))" and ?es = "map (event_of env) (take n (pending_rows db ?a (cursor db ?a)))"
  obtain db1 where e: "ensure_zp_row ?a (stored_time env ?now) ?db1 = Inr db1"
    using ensure_known [of ?a ?db1] known by auto
  obtain prior where p: "js_get (gd_states db1) ?a = Some prior" "prior_state ?db1 ?a prior" "gd_events db1 = gd_events ?db1"
    using e by (rule ensure_row) blast
  have s: "state_ok env db ?a prior" using prior_ok [OF ok] p(2) by simp
  have cur: "zs_lastGrowthEventId prior = cursor db ?a" using prior_cursor [OF p(2)] by simp
  have "\<exists>fs. gr_context r = JObject fs" if "r \<in> set ?B" for r
    using growth_okD(4) [OF ok] in_set_takeD [OF that] by (simp add: set_pending)
  then have m: "map_result (zp_mapGrowthEvent env) ?B = Inr ?es" by (rule map_rows)
  have rows: "take n (pending_rows db1 ?a (zs_lastGrowthEventId prior)) = ?B"
    using p(3) cur by (simp add: pending_rows_def)
  let ?old = "events_upto env db ?a (zs_lastGrowthEventId prior)"
  let ?t = "zs_totalPoints prior + sum_list (map event_points ?es)" and ?s = "zs_sentCount prior + sum_list (map event_sent ?es)"
    and ?r = "zs_receivedCount prior + sum_list (map event_received ?es)"
  have t: "?B \<noteq> [] \<longrightarrow> ?t = sum_list (map event_points (events_upto env db ?a (gr_eventId (last ?B))))"
    using sum_of_parts [OF batch_rows(1) [OF growth_okD(2) [OF ok] refl], of n ?a "cursor db ?a" "\<lambda>r. event_points (event_of env r)"] s cur
    by (simp add: state_ok_def counts_def totalZp_sum events_upto_def comp_def)
  have c: "zs_totalPoints prior = sum_list (map event_points ?old)" "zs_sentCount prior = sum_list (map event_sent ?old)"
    "zs_receivedCount prior = sum_list (map event_received ?old)"
    using s by (simp_all add: state_ok_def counts_def totalZp_sum)
  have eq: "?t = 10 * ?s + 5 * ?r" unfolding c sums_of_counts by simp
  have nn: "0 \<le> ?s" "0 \<le> ?r"
    unfolding c using sums_nonneg [of ?old] sums_nonneg [of ?es] by linarith+
  have fits: "fits_bigint ?t \<and> fits_bigint ?s \<and> fits_bigint ?r" if ne: "?B \<noteq> []"
  proof -
    have "?t < 2 ^ 63"
      using t ne points_bounded [of "events_upto env db ?a (gr_eventId (last ?B))"]
        rows_upto_length [of env db ?a "gr_eventId (last ?B)"] small by linarith
    from counts_fit [OF eq nn this] show ?thesis .
  qed
  have ver: "zs_policyVersion prior = ZP_POLICY_VERSION" using s by (simp add: state_ok_def)
  have "\<exists>res db'. project_body env accountId n ?now ?db1 = (Inr res, db')"
  proof (cases "?B = []")
    case True
    from e p(1) ver show ?thesis by (simp add: project_body_def Let_def rows True del: take_eq_Nil take_eq_Nil2)
  next
    case False
    from e p(1) ver fits [OF False] show ?thesis
      by (simp add: project_body_def Let_def rows m False project_events read_growth_clock_def update_zp_row_def
          del: take_eq_Nil take_eq_Nil2)
  qed
  with id show ?thesis
    by (auto simp: projectAccount_def validateUuid_def read_growth_clock_def zp_transaction_def)
qed

fun project_times :: "runtime_env \<Rightarrow> string \<Rightarrow> js_number \<Rightarrow> nat \<Rightarrow> growth_db \<Rightarrow> growth_db" where
  "project_times env accountId limit 0 db = db"
| "project_times env accountId limit (Suc k) db =
     project_times env accountId limit k (snd (projectAccount env accountId limit db))"

lemma project_times_pending:
  assumes "growth_ok env db" "is_uuid accountId" "batch_limit 500 limit = Some n" "js_lower accountId \<in> set (gd_accounts db)"
    "10 * int (length (gd_events db)) < 2 ^ 63"
  shows "growth_ok env (project_times env accountId limit k db) \<and>
    gd_events (project_times env accountId limit k db) = gd_events db \<and>
    pending_rows (project_times env accountId limit k db) (js_lower accountId)
      (cursor (project_times env accountId limit k db) (js_lower accountId)) =
      drop (k * n) (pending_rows db (js_lower accountId) (cursor db (js_lower accountId))) \<and>
    (k \<noteq> 0 \<longrightarrow> js_has (gd_states (project_times env accountId limit k db)) (js_lower accountId))"
  using assms(1,4,5)
proof (induction k arbitrary: db)
  case (Suc k)
  let ?a = "js_lower accountId"
  obtain res db1 where run: "projectAccount env accountId limit db = (Inr res, db1)"
    using project_succeeds [OF Suc.prems(1) assms(2,3) Suc.prems(2,3)] by blast
  obtain n' prior st where e: "batch_limit 500 limit = Some n'" "state_changed db ?a st db1"
    "pending_rows db1 ?a (cursor db1 ?a) = drop n' (pending_rows db ?a (cursor db ?a))"
    using run by (rule project_effect [OF Suc.prems(1)])
  have "n' = n" using e(1) assms(3) by simp
  have ok1: "growth_ok env db1" using project_ok [OF Suc.prems(1) run] .
  have same: "gd_events db1 = gd_events db" "gd_accounts db1 = gd_accounts db" "js_has (gd_states db1) ?a"
    using e(2) by (simp_all add: state_changed_def js_has_iff)
  from Suc.IH [OF ok1] same Suc.prems(2,3) e(3) \<open>n' = n\<close> run show ?case
    by (cases k) (simp_all add: algebra_simps)
qed simp

section \<open>Properties\<close>

text \<open>C20: the points are exact: in every reachable state, while no insert commits behind the cursor of its account,
  the stored state of an account counts exactly that account's events up to its cursor: its points are
  \<open>totalZp\<close> of those events, ten for each sent and five for each received payment that is not synthetic.\<close>
theorem zp_counts_events:
  assumes "reachable_growth env db" and "js_get (gd_states db) a = Some st"
  shows "zs_accountId st = a \<and> zs_totalPoints st = totalZp (events_upto env db a (zs_lastGrowthEventId st)) \<and>
    zs_totalPoints st = 10 * zs_sentCount st + 5 * zs_receivedCount st \<and> 0 \<le> zs_sentCount st \<and> 0 \<le> zs_receivedCount st"
  using growth_okD(5) [OF reachable_growth_ok [OF assms(1)] assms(2)] sums_of_counts sums_nonneg
  by (simp add: state_ok_def counts_def totalZp_sum)

text \<open>C33: projecting catches up, as long as no insert has committed behind the cursor of its account
  (\<open>reachable_growth\<close>): for a known account, with fewer than \<open>2^63 / 10\<close> events in the table, \<open>k\<close> projections with limit
  \<open>n\<close> and nothing in between leave no event of the account pending once \<open>k * n\<close> reaches the number of pending events;
  the events are as they were, and the state then holds the points of all of the account's events.\<close>
theorem projection_catches_up:
  assumes "reachable_growth env db" and "is_uuid accountId" and "batch_limit 500 limit = Some n"
    and "js_lower accountId \<in> set (gd_accounts db)" and "10 * int (length (gd_events db)) < 2 ^ 63" and "0 < k"
    and "length (pending_rows db (js_lower accountId) (cursor db (js_lower accountId))) \<le> k * n"
  shows "\<exists>st. js_get (gd_states (project_times env accountId limit k db)) (js_lower accountId) = Some st \<and>
    pending_rows (project_times env accountId limit k db) (js_lower accountId) (zs_lastGrowthEventId st) = [] \<and>
    gd_events (project_times env accountId limit k db) = gd_events db \<and>
    zs_totalPoints st = totalZp (map (event_of env)
      (filter (\<lambda>r. gr_actorAccountId r = js_lower accountId) (gd_events db)))"
proof -
  let ?a = "js_lower accountId" and ?db = "project_times env accountId limit k db"
  have p: "growth_ok env ?db" "gd_events ?db = gd_events db" "pending_rows ?db ?a (cursor ?db ?a) = []" "js_has (gd_states ?db) ?a"
    using project_times_pending [OF reachable_growth_ok [OF assms(1)] assms(2-5), of k] assms(6,7) by auto
  obtain st where st: "js_get (gd_states ?db) ?a = Some st" using p(4) by (auto simp: js_has_iff)
  have "rows_upto ?db ?a (zs_lastGrowthEventId st) = filter (\<lambda>r. gr_actorAccountId r = ?a) (gd_events ?db)"
    unfolding rows_upto_def
  proof (rule filter_cong [OF refl])
    fix r assume r: "r \<in> set (gd_events ?db)"
    have "r \<notin> set (pending_rows ?db ?a (cursor ?db ?a))" using p(3) by simp
    with r st show "(gr_actorAccountId r = ?a \<and> gr_eventId r \<le> zs_lastGrowthEventId st) = (gr_actorAccountId r = ?a)"
      by (auto simp: set_pending cursor_def)
  qed
  moreover have "pending_rows ?db ?a (zs_lastGrowthEventId st) = []" using p(3) st by (simp add: cursor_def)
  ultimately show ?thesis using growth_okD(5) [OF p(1) st] st p(2)
    by (simp add: state_ok_def counts_def events_upto_def)
qed

text \<open>A late commit loses points: when the insert of an event commits after a projection has moved the cursor of
  its account past its id (ids are taken before the commit), no later projection sees the event: it is not pending, and the
  stored points stay below those of the account's events.\<close>
theorem late_commit_loses_points:
  assumes "reachable_growth env db" and "js_get (gd_states db) a = Some st" and "late_row db row"
    and "gr_actorAccountId row = a" and "gr_eventId row \<le> zs_lastGrowthEventId st" and "0 < event_points (event_of env row)"
  shows "growth_step env db (db\<lparr>gd_events := gd_events db @ [row]\<rparr>) \<and>
    row \<notin> set (pending_rows (db\<lparr>gd_events := gd_events db @ [row]\<rparr>) a (cursor (db\<lparr>gd_events := gd_events db @ [row]\<rparr>) a)) \<and>
    zs_totalPoints st < totalZp (events_upto env (db\<lparr>gd_events := gd_events db @ [row]\<rparr>) a (zs_lastGrowthEventId st))"
proof -
  have "counts st (events_upto env db a (zs_lastGrowthEventId st))"
    using growth_okD(5) [OF reachable_growth_ok [OF assms(1)] assms(2)] by (simp add: state_ok_def)
  with assms(4-6) have "zs_totalPoints st < totalZp (events_upto env (db\<lparr>gd_events := gd_events db @ [row]\<rparr>) a (zs_lastGrowthEventId st))"
    by (simp add: counts_def totalZp_sum events_upto_def rows_upto_def)
  with growth_step.step_late [OF assms(3)] assms(2,5) show ?thesis
    by (simp add: set_pending cursor_def)
qed

text \<open>C34: the progress shown agrees with the policy: for a reachable state of an account, \<open>projectZpProgress\<close> returns, the
  milestones it shows as unlocked are those \<open>deriveZpMilestones\<close> derives from the counted events, in the same
  order; all the other milestones of the policy, and no more, are shown as pending, in the order of the policy, each
  between 0 and below 100 percent.\<close>
theorem progress_matches_events:
  assumes "reachable_growth env db" and "js_get (gd_states db) a = Some st"
  shows "\<exists>p. projectZpProgress st = Inr p \<and>
    zp_unlockedMilestones p = deriveZpMilestones (events_upto env db a (zs_lastGrowthEventId st)) \<and>
    map pm_milestone (zp_pendingMilestones p) =
      filter (\<lambda>m. m \<notin> set (zp_unlockedMilestones p)) (map mp_milestone MILESTONE_POLICY) \<and>
    (\<forall>m\<in>set (zp_pendingMilestones p). 0 \<le> pm_progressPercent m \<and> pm_progressPercent m < 100)"
proof -
  let ?es = "events_upto env db a (zs_lastGrowthEventId st)"
  have s: "zs_policyVersion st = ZP_POLICY_VERSION" "counts st ?es"
    using growth_okD(5) [OF reachable_growth_ok [OF assms(1)] assms(2)] by (simp_all add: state_ok_def)
  have nn: "0 \<le> zs_sentCount st" "0 \<le> zs_receivedCount st" "0 \<le> zs_totalPoints st"
    using s(2) sums_nonneg by (simp_all add: counts_def totalZp_sum)
  have pos: "\<forall>m\<in>set MILESTONE_POLICY. 0 < mp_threshold m" by (simp add: MILESTONE_POLICY_def)
  obtain us ps where ps: "sort_milestones st ([], []) MILESTONE_POLICY = Inr (us, ps)"
    "us = map mp_milestone (filter (\<lambda>m. mp_threshold m \<le> (if mp_dimension m = SENT then zs_sentCount st else zs_receivedCount st)) MILESTONE_POLICY)"
    "\<forall>p\<in>set ps. 0 \<le> pm_progressPercent p \<and> pm_progressPercent p < 100"
    "map pm_milestone ps = map mp_milestone (filter (\<lambda>m. \<not> mp_threshold m \<le> (if mp_dimension m = SENT then zs_sentCount st else zs_receivedCount st)) MILESTONE_POLICY)"
    using sort_milestones_result [OF nn(1,2) pos, of "[]" "[]"] by auto
  have "map pm_milestone ps = filter (\<lambda>m. m \<notin> set us) (map mp_milestone MILESTONE_POLICY)"
    unfolding ps(2,4) by (rule unlocked_or_pending)
  moreover have "us = deriveZpMilestones ?es"
    using s(2) unfolding ps(2) MILESTONE_POLICY_def deriveZpMilestones_def count_events counts_def by simp
  moreover have "projectZpProgress st = Inr \<lparr>zp_totalPoints = int_to_dec (zs_totalPoints st),
      zp_sentCount = int_to_dec (zs_sentCount st), zp_receivedCount = int_to_dec (zs_receivedCount st),
      zp_policyVersion = zs_policyVersion st, zp_unlockedMilestones = us, zp_pendingMilestones = ps\<rparr>"
    using s(1) nn ps(1) by (simp add: projectZpProgress_def assertNonnegative_def)
  ultimately show ?thesis using ps(3) by simp
qed

lemma step_keeps_rows: "growth_step env db db' \<Longrightarrow> set (gd_events db) \<subseteq> set (gd_events db')"
proof (induction rule: growth_step.induct)
  case (step_append now i db r db')
  then show ?case by (cases rule: growth_append_outcome) auto
next
  case (step_project a limit db r db')
  then show ?case
  proof (cases rule: project_cases)
    case (commits res n now)
    then show ?thesis
      by (auto simp: project_body_def update_zp_row_def read_growth_clock_def Let_def ensure_zp_row_def
          when_ok_Inr split: if_splits option.splits prod.splits)
  qed simp
qed auto

lemma history_keeps_rows: "growth_history env db db' \<Longrightarrow> set (gd_events db) \<subseteq> set (gd_events db')"
  by (induction rule: growth_history.induct) (use step_keeps_rows in blast)+

lemma row_reads_back:
  assumes "validateGrowthEventInput env i = Inr u" and "keys_ordered env (input_context i)"
  obtains e where "mapGrowthEvent env (growth_row_of env i (input_context i) n now) = Inr e"
    "sameImmutableFact env e i (input_context i)"
proof -
  let ?row = "growth_row_of env i (input_context i) n now"
  obtain fs where fs: "input_context i = JObject fs" using input_context_object [OF assms(1)] by blast
  then obtain es where es: "json_wire (gr_context ?row) = JObject es" by (simp add: growth_row_of_def)
  then have st: "stableJson env (JObject es) = stableJson env (input_context i)"
    using stable_column [OF assms(2)] by (simp add: growth_row_of_def)
  obtain e where e: "mapGrowthEvent env ?row = Inr e" "ge_context e = es"
    using es by (simp add: mapGrowthEvent_def persisted_context_def)
  obtain t where "date_parse env (cg_occurredAt i) = Some t"
    using assms(1) by (auto simp: validateGrowthEventInput_def and_then_Inr valid_time_def split: if_splits)
  with e es st have "sameImmutableFact env e i (input_context i)"
    by (auto simp: sameImmutableFact_def mapGrowthEvent_def persisted_context_def growth_row_of_def iso_time_def)
  with e(1) that show thesis by blast
qed

text \<open>Appending is idempotent: after an append created an event, and whatever ran since, appending the same fact
  again creates nothing and answers with the same event. The keys of the context must be linearly
  ordered by \<open>localeCompare\<close>, which is how the stored context is compared with the given one.\<close>
theorem append_is_idempotent:
  assumes "reachable_growth env db" and "growth_append env now i db = (Inr (e, True), db1)"
    and "growth_history env db1 db2" and "keys_ordered env (input_context i)"
  shows "growth_append env now' i db2 = (Inr (e, False), db2\<lparr>gd_nextEventId := gd_nextEventId db2 + 1\<rparr>)"
proof -
  let ?row = "growth_row_of env i (input_context i) (gd_nextEventId db) now"
  obtain u where valid: "validateGrowthEventInput env i = Inr u"
    using assms(2) by (auto simp: growth_append_def when_ok_Inr)
  have made: "gd_events db1 = gd_events db @ [?row]" "mapGrowthEvent env ?row = Inr e"
    using assms(2) valid
    by (auto simp: growth_append_def insert_growth_event_def Let_def and_then_Inr split: option.splits if_splits)
  obtain e' where "mapGrowthEvent env ?row = Inr e'" "sameImmutableFact env e' i (input_context i)"
    using row_reads_back [OF valid assms(4)] by metis
  with made(2) have same: "sameImmutableFact env e i (input_context i)" by simp
  have ok2: "growth_ok env db2"
    using growth_history_ok [OF assms(3)] append_ok [OF reachable_growth_ok [OF assms(1)] assms(2)] by blast
  have mem: "?row \<in> set (gd_events db2)" using history_keeps_rows [OF assms(3)] made(1) by auto
  have "fact_row i db2 = Some ?row"
  proof -
    obtain r where r: "fact_row i db2 = Some r"
      using imageI [OF mem, of fact_key] fact_row_None [of i db2] unfolding row_of_key by blast
    then have "r \<in> set (gd_events db2)" "fact_key r = input_key i"
      by (auto simp: fact_row_def find_Some_iff)
    with mem growth_okD(3) [OF ok2] row_of_key have "r = ?row" by (simp add: distinct_map inj_on_def)
    with r show ?thesis by simp
  qed
  moreover have "fact_row i (db2\<lparr>gd_nextEventId := m\<rparr>) = fact_row i db2" for m by (simp add: fact_row_def)
  ultimately show ?thesis
    using valid made(2) same by (simp add: growth_append_def insert_growth_event_def Let_def)
qed

section \<open>A sample history\<close>

lemma append_in_order: "growth_ok env db \<Longrightarrow> growth_append env now i db = (r, db') \<Longrightarrow> in_order db db'"
  by (erule growth_append_outcome) (use cursor_below in \<open>auto simp: in_order_def\<close>)

lemma project_in_order: "growth_ok env db \<Longrightarrow> projectAccount env a limit db = (r, db') \<Longrightarrow> in_order db db'"
proof (cases r)
  case (Inl e)
  assume "projectAccount env a limit db = (r, db')"
  then show ?thesis using Inl by (cases rule: project_cases) (auto simp: in_order_def)
next
  case (Inr res)
  assume ok: "growth_ok env db" and "projectAccount env a limit db = (r, db')"
  then have "projectAccount env a limit db = (Inr res, db')" using Inr by simp
  then show ?thesis by (rule project_effect [OF ok]) (simp add: in_order_def state_changed_def)
qed

lemma reachable_growth_next:
  assumes "reachable_growth env db" and "growth_step env db db'" and "in_order db db'"
  shows "reachable_growth env db'"
  using assms growth_next unfolding reachable_growth_def by blast

lemma reachable_append: "reachable_growth env db \<Longrightarrow> reachable_growth env (snd (growth_append env now i db))"
  using reachable_growth_next append_in_order reachable_growth_ok step_append by (metis prod.collapse)

lemma reachable_project: "reachable_growth env db \<Longrightarrow> reachable_growth env (snd (projectAccount env a limit db))"
  using reachable_growth_next project_in_order reachable_growth_ok step_project by (metis prod.collapse)

definition growth_uuid :: string where
  "growth_uuid = ''aaaaaaaa-aaaa-4aaa-8aaa-aaaaaaaaaaaa''"

definition sample_fact :: "string \<Rightarrow> create_growth_event_input" where
  "sample_fact rid = \<lparr>cg_eventType = ''PAYMENT_SETTLED_SENT'', cg_actorAccountId = growth_uuid,
     cg_sourceDomain = ''PAYMENT'', cg_sourceId = ''pay'', cg_sourceEventId = rid, cg_occurredAt = ''t'',
     cg_synthetic = False, cg_schemaVersion = 1, cg_context = Some (JObject [(''rail'', JString ''solana'')])\<rparr>"

text \<open>Two facts, with an attempt between them that takes an id and conflicts.\<close>

definition sample_first :: growth_db where
  "sample_first = snd (growth_append sample_env 5 (sample_fact ''r1'') (initial_growth_db [growth_uuid]))"

definition sample_appended :: growth_db where
  "sample_appended = snd (growth_append sample_env 7 (sample_fact ''r2'')
     (snd (growth_append sample_env 6 (sample_fact ''r1'') sample_first)))"

definition sample_projected :: growth_db where
  "sample_projected = snd (projectAccount sample_env growth_uuid (Finite 100) sample_appended)"

lemma sample_first_reachable: "reachable_growth sample_env (initial_growth_db [growth_uuid])"
  unfolding reachable_growth_def using growth_start by blast

lemma sample_appended_reachable: "reachable_growth sample_env sample_appended"
  unfolding sample_appended_def sample_first_def
  by (intro reachable_append sample_first_reachable)

lemma sample_projected_reachable: "reachable_growth sample_env sample_projected"
  unfolding sample_projected_def by (intro reachable_project sample_appended_reachable)

lemma sample_projected_state:
  obtains st where "js_get (gd_states sample_projected) growth_uuid = Some st" "zs_totalPoints st = 20"
    "zs_lastGrowthEventId st = 3"
proof -
  have "(case js_get (gd_states sample_projected) growth_uuid of
      Some st \<Rightarrow> zs_totalPoints st = 20 \<and> zs_lastGrowthEventId st = 3 | None \<Rightarrow> False)" by code_simp
  with that show thesis by (auto split: option.splits)
qed

theorem zp_counts_events_witness:
  "\<exists>st. js_get (gd_states sample_projected) growth_uuid = Some st \<and> 20 = 10 * zs_sentCount st + 5 * zs_receivedCount st"
proof -
  obtain st where st: "js_get (gd_states sample_projected) growth_uuid = Some st" "zs_totalPoints st = 20"
    by (rule sample_projected_state)
  with zp_counts_events [OF sample_projected_reachable st(1)] show ?thesis by auto
qed

theorem projection_catches_up_witness:
  "\<exists>st. js_get (gd_states (project_times sample_env growth_uuid (Finite 1) 2 sample_appended)) (js_lower growth_uuid) = Some st \<and>
    pending_rows (project_times sample_env growth_uuid (Finite 1) 2 sample_appended) (js_lower growth_uuid) (zs_lastGrowthEventId st) = [] \<and>
    gd_events (project_times sample_env growth_uuid (Finite 1) 2 sample_appended) = gd_events sample_appended \<and>
    zs_totalPoints st = totalZp (map (event_of sample_env)
      (filter (\<lambda>r. gr_actorAccountId r = js_lower growth_uuid) (gd_events sample_appended)))"
proof (rule projection_catches_up [OF sample_appended_reachable])
  show "is_uuid growth_uuid" "batch_limit 500 (Finite 1) = Some 1"
    "js_lower growth_uuid \<in> set (gd_accounts sample_appended)"
    "10 * int (length (gd_events sample_appended)) < 2 ^ 63"
    "length (pending_rows sample_appended (js_lower growth_uuid) (cursor sample_appended (js_lower growth_uuid))) \<le> 2 * 1"
    by code_simp+
qed simp

definition sample_late :: growth_row where
  "sample_late = \<lparr>gr_eventId = 2, gr_eventType = ''PAYMENT_SETTLED_SENT'', gr_actorAccountId = growth_uuid,
     gr_sourceDomain = ''PAYMENT'', gr_sourceId = ''pay'', gr_sourceEventId = ''r9'', gr_occurredAt = 1,
     gr_synthetic = False, gr_schemaVersion = 1, gr_context = JObject [], gr_recordedAt = 1\<rparr>"

theorem late_commit_loses_points_witness:
  "sample_late \<notin> set (pending_rows (sample_projected\<lparr>gd_events := gd_events sample_projected @ [sample_late]\<rparr>) growth_uuid
     (cursor (sample_projected\<lparr>gd_events := gd_events sample_projected @ [sample_late]\<rparr>) growth_uuid))"
proof -
  obtain st where st: "js_get (gd_states sample_projected) growth_uuid = Some st" "zs_lastGrowthEventId st = 3"
    by (rule sample_projected_state)
  have "1 \<le> gr_eventId sample_late \<and> gr_eventId sample_late < gd_nextEventId sample_projected \<and>
      gr_eventId sample_late \<notin> set (map gr_eventId (gd_events sample_projected)) \<and>
      fact_key sample_late \<notin> set (map fact_key (gd_events sample_projected)) \<and>
      gr_actorAccountId sample_late \<in> set (gd_accounts sample_projected)" by code_simp
  then have "late_row sample_projected sample_late"
    unfolding late_row_def by (simp add: sample_late_def)
  moreover have "0 < event_points (event_of sample_env sample_late)" by code_simp
  moreover have "gr_actorAccountId sample_late = growth_uuid" "gr_eventId sample_late = 2" by (simp_all add: sample_late_def)
  ultimately show ?thesis
    using late_commit_loses_points [OF sample_projected_reachable st(1)] st(2) by simp
qed

theorem progress_matches_events_witness:
  "\<exists>st p. js_get (gd_states sample_projected) growth_uuid = Some st \<and> projectZpProgress st = Inr p \<and>
    zp_unlockedMilestones p = deriveZpMilestones (events_upto sample_env sample_projected growth_uuid 3) \<and>
    zp_pendingMilestones p \<noteq> []"
proof -
  obtain st where st: "js_get (gd_states sample_projected) growth_uuid = Some st" "zs_lastGrowthEventId st = 3"
    by (rule sample_projected_state)
  have "filter (\<lambda>m. m \<notin> set (deriveZpMilestones (events_upto sample_env sample_projected growth_uuid 3))) (map mp_milestone MILESTONE_POLICY) \<noteq> []"
    by code_simp
  with st progress_matches_events [OF sample_projected_reachable st(1)] show ?thesis by auto
qed

theorem append_is_idempotent_witness:
  "\<exists>e. growth_append sample_env 5 (sample_fact ''r1'') (initial_growth_db [growth_uuid]) = (Inr (e, True), sample_first) \<and>
    growth_append sample_env 9 (sample_fact ''r1'') sample_first =
      (Inr (e, False), sample_first\<lparr>gd_nextEventId := gd_nextEventId sample_first + 1\<rparr>)"
proof -
  have "(case fst (growth_append sample_env 5 (sample_fact ''r1'') (initial_growth_db [growth_uuid])) of
      Inr (e, b) \<Rightarrow> b | Inl x \<Rightarrow> False)" by code_simp
  then obtain e where e: "growth_append sample_env 5 (sample_fact ''r1'') (initial_growth_db [growth_uuid]) = (Inr (e, True), sample_first)"
    unfolding sample_first_def
    by (cases "growth_append sample_env 5 (sample_fact ''r1'') (initial_growth_db [growth_uuid])") (auto split: sum.splits)
  have "keys_ordered sample_env (input_context (sample_fact ''r1''))"
    by (simp add: sample_fact_def input_context_def linear_on_def sample_env_def)
  from append_is_idempotent [OF sample_first_reachable e growth_start this] e show ?thesis by blast
qed

end
