(* ===== verification/WorkerLoop.thy ===== *)
theory WorkerLoop
  imports JsonValues
begin

text \<open>
  \<open>src/executions/adaptiveWorkerLoop.ts\<close>: the polling loop behind every background worker. Its state is
  its fields and what it has handed to the runtime: the timers that are scheduled and the runs of
  the iteration in flight. The runtime's events are the steps: a scheduled timer fires, a run in
  flight finishes with an outcome. Handles of timers are numbered in the order they are made.
\<close>

section \<open>The loop\<close>

datatype iteration_outcome = Work | Idle | Failure

definition WORKER_POLL_DELAYS_MS :: "rat list" where
  "WORKER_POLL_DELAYS_MS = [100, 250, 500, 1000, 2000]"

definition RECONCILIATION_POLL_DELAYS_MS :: "rat list" where
  "RECONCILIATION_POLL_DELAYS_MS = [1000, 2000, 5000, 10000, 30000]"

record worker_loop =
  wl_delays :: "rat list"
  wl_timer :: "nat option"
  wl_stopped :: bool
  wl_delayIndex :: nat
  wl_active :: "nat option"
  wl_timers :: "(nat \<times> rat) list"
  wl_runs :: "nat list"
  wl_nextHandle :: nat

definition new_loop :: "rat list \<Rightarrow> worker_loop result" where
  "new_loop delays =
     (if length delays = 0 \<or> list_ex (\<lambda>v. \<not> is_integer (Finite v) \<or> v < 1) delays
      then throw ''Worker polling delays are invalid.''
      else Inr \<lparr>wl_delays = delays, wl_timer = None, wl_stopped = True, wl_delayIndex = 0, wl_active = None,
        wl_timers = [], wl_runs = [], wl_nextHandle = 0\<rparr>)"

definition scheduleNext :: "rat \<Rightarrow> worker_loop \<Rightarrow> worker_loop" where
  "scheduleNext delay l = (if wl_stopped l then l else
     l\<lparr>wl_timer := Some (wl_nextHandle l), wl_timers := wl_timers l @ [(wl_nextHandle l, delay)],
       wl_nextHandle := Suc (wl_nextHandle l)\<rparr>)"

definition loop_start :: "worker_loop \<Rightarrow> worker_loop" where
  "loop_start l = (if \<not> wl_stopped l then l
     else scheduleNext (wl_delays l ! 0) (l\<lparr>wl_stopped := False, wl_delayIndex := 0\<rparr>))"

definition loop_stop :: "worker_loop \<Rightarrow> worker_loop" where
  "loop_stop l = l\<lparr>wl_stopped := True,
     wl_timers := (case wl_timer l of None \<Rightarrow> wl_timers l | Some h \<Rightarrow> filter (\<lambda>t. fst t \<noteq> h) (wl_timers l)),
     wl_timer := None\<rparr>"

text \<open>The callback of a timer: \<open>run\<close> up to the call of the iteration.\<close>

definition timer_fires :: "nat \<Rightarrow> worker_loop \<Rightarrow> worker_loop" where
  "timer_fires h l = l\<lparr>wl_timers := filter (\<lambda>t. fst t \<noteq> h) (wl_timers l), wl_timer := None,
     wl_runs := wl_runs l @ [h], wl_active := Some h\<rparr>"

text \<open>\<open>run\<close> from the outcome of the iteration on, and the clearing of \<open>active\<close> once it is done.\<close>

definition run_finishes :: "nat \<Rightarrow> iteration_outcome \<Rightarrow> worker_loop \<Rightarrow> worker_loop" where
  "run_finishes h outcome l =
     (let l1 = l\<lparr>wl_runs := filter (\<lambda>r. r \<noteq> h) (wl_runs l)\<rparr>;
          l2 = (if wl_stopped l1 then l1
                else let i = (if outcome = Work then 0 else min (wl_delayIndex l1 + 1) (length (wl_delays l1) - 1))
                  in scheduleNext (wl_delays l1 ! i) (l1\<lparr>wl_delayIndex := i\<rparr>))
      in if wl_active l2 = Some h then l2\<lparr>wl_active := None\<rparr> else l2)"

section \<open>Steps\<close>

datatype loop_event = Start | Stop | Fires nat | Finishes nat iteration_outcome

fun loop_enabled :: "loop_event \<Rightarrow> worker_loop \<Rightarrow> bool" where
  "loop_enabled (Fires h) l = (h \<in> fst ` set (wl_timers l))"
| "loop_enabled (Finishes h outcome) l = (h \<in> set (wl_runs l))"
| "loop_enabled e l = True"

fun loop_apply :: "loop_event \<Rightarrow> worker_loop \<Rightarrow> worker_loop" where
  "loop_apply Start l = loop_start l"
| "loop_apply Stop l = loop_stop l"
| "loop_apply (Fires h) l = timer_fires h l"
| "loop_apply (Finishes h outcome) l = run_finishes h outcome l"

inductive loop_reachable :: "rat list \<Rightarrow> loop_event list \<Rightarrow> worker_loop \<Rightarrow> bool" for delays where
  loop_new: "new_loop delays = Inr l \<Longrightarrow> loop_reachable delays [] l"
| loop_next: "loop_reachable delays es l \<Longrightarrow> loop_enabled e l \<Longrightarrow> loop_reachable delays (es @ [e]) (loop_apply e l)"

inductive_cases loop_reachable_snoc: "loop_reachable delays (es @ [e]) l"
inductive_simps loop_reachable_Nil: "loop_reachable delays [] l"

text \<open>A start while a run is in flight, somewhere in the events.\<close>

inductive quiet_reachable :: "rat list \<Rightarrow> worker_loop \<Rightarrow> bool" for delays where
  quiet_new: "new_loop delays = Inr l \<Longrightarrow> quiet_reachable delays l"
| quiet_next: "quiet_reachable delays l \<Longrightarrow> loop_enabled e l \<Longrightarrow>
    \<not> (e = Start \<and> wl_stopped l \<and> wl_runs l \<noteq> []) \<Longrightarrow> quiet_reachable delays (loop_apply e l)"

definition loop_ok :: "rat list \<Rightarrow> worker_loop \<Rightarrow> bool" where
  "loop_ok delays l \<longleftrightarrow> wl_delays l = delays \<and> delays \<noteq> [] \<and> wl_delayIndex l < length delays \<and>
     snd ` set (wl_timers l) \<subseteq> set delays"

definition single_flight :: "worker_loop \<Rightarrow> bool" where
  "single_flight l \<longleftrightarrow>
     (case wl_timers l of
        [] \<Rightarrow> wl_timer l = None \<and> length (wl_runs l) \<le> 1 \<and> (wl_runs l = [] \<longrightarrow> wl_stopped l)
      | [(h, d)] \<Rightarrow> wl_timer l = Some h \<and> \<not> wl_stopped l \<and> wl_runs l = []
      | _ \<Rightarrow> False)"

lemma schedule_ok: "loop_ok ds l \<Longrightarrow> d \<in> set ds \<Longrightarrow> loop_ok ds (scheduleNext d l)"
  by (auto simp: loop_ok_def scheduleNext_def)

lemma loop_ok_apply: "loop_ok ds l \<Longrightarrow> loop_ok ds (loop_apply e l)"
proof (cases e)
  case Start
  assume ok: "loop_ok ds l"
  then have "loop_ok ds (l\<lparr>wl_stopped := False, wl_delayIndex := 0\<rparr>)" by (simp add: loop_ok_def)
  moreover have "wl_delays l ! 0 \<in> set ds" using ok by (simp add: loop_ok_def)
  ultimately show ?thesis using ok Start by (simp add: loop_start_def schedule_ok)
next
  case (Finishes h outcome)
  assume ok: "loop_ok ds l"
  let ?l1 = "l\<lparr>wl_runs := filter (\<lambda>r. r \<noteq> h) (wl_runs l)\<rparr>"
  let ?i = "if outcome = Work then 0 else min (wl_delayIndex ?l1 + 1) (length (wl_delays ?l1) - 1)"
  have i: "?i < length ds" using ok by (auto simp: loop_ok_def)
  then have "loop_ok ds (?l1\<lparr>wl_delayIndex := ?i\<rparr>)" using ok by (simp add: loop_ok_def)
  moreover have "wl_delays l ! ?i \<in> set ds" using ok i by (simp add: loop_ok_def)
  moreover have "loop_ok ds (x\<lparr>wl_active := None\<rparr>) = loop_ok ds x" for x by (simp add: loop_ok_def)
  moreover have "loop_ok ds ?l1" using ok by (simp add: loop_ok_def)
  ultimately show ?thesis using Finishes by (simp add: run_finishes_def Let_def schedule_ok)
qed (auto simp: loop_ok_def loop_stop_def timer_fires_def split: option.splits)

lemma new_loop_ok: "new_loop ds = Inr l \<Longrightarrow> loop_ok ds l \<and> single_flight l"
  by (auto simp: new_loop_def loop_ok_def single_flight_def split: if_splits)

lemma single_flight_cases:
  assumes "single_flight l"
  obtains (none) "wl_timers l = []" "wl_timer l = None" "length (wl_runs l) \<le> 1" "wl_runs l = [] \<longrightarrow> wl_stopped l"
    | (one) h d where "wl_timers l = [(h, d)]" "wl_timer l = Some h" "\<not> wl_stopped l" "wl_runs l = []"
  using assms that by (auto simp: single_flight_def split: list.splits)

lemma single_flight_apply:
  assumes "single_flight l" and "loop_enabled e l" and "\<not> (e = Start \<and> wl_stopped l \<and> wl_runs l \<noteq> [])"
  shows "single_flight (loop_apply e l)"
  using assms(1)
proof (cases rule: single_flight_cases)
  case none
  show ?thesis
  proof (cases e)
    case Start
    with none assms(3) show ?thesis
      by (cases "wl_stopped l") (auto simp: loop_start_def scheduleNext_def single_flight_def)
  next
    case (Finishes h outcome)
    with assms(2) none have "wl_runs l = [h]" by (cases "wl_runs l") auto
    with none Finishes show ?thesis
      by (auto simp: run_finishes_def scheduleNext_def single_flight_def Let_def)
  qed (use none assms(2) in \<open>auto simp: loop_stop_def single_flight_def\<close>)
next
  case (one h d)
  show ?thesis
    by (cases e) (use one assms(2) in \<open>auto simp: loop_start_def loop_stop_def timer_fires_def single_flight_def\<close>)
qed

lemma quiet_ok: "quiet_reachable delays l \<Longrightarrow> loop_ok delays l \<and> single_flight l"
proof (induction rule: quiet_reachable.induct)
  case (quiet_new l)
  then show ?case by (rule new_loop_ok)
next
  case (quiet_next l e)
  then show ?case using loop_ok_apply single_flight_apply by blast
qed

lemma reachable_loop_ok: "loop_reachable delays es l \<Longrightarrow> loop_ok delays l"
  by (induction rule: loop_reachable.induct) (auto dest: new_loop_ok loop_ok_apply)

section \<open>Properties\<close>

text \<open>The loop is single flight: as long as it is not restarted while a run is in flight, there is at most one
  scheduled timer or run at any time, never both, every delay is one of the configured ones, and stopping leaves no
  timer behind.\<close>
theorem loop_single_flight:
  assumes "quiet_reachable delays l"
  shows "length (wl_timers l) + length (wl_runs l) \<le> 1 \<and> snd ` set (wl_timers l) \<subseteq> set delays \<and>
    wl_timers (loop_stop l) = []"
proof -
  have ok: "loop_ok delays l" "single_flight l" using quiet_ok [OF assms] by simp_all
  from ok(2) have "length (wl_timers l) + length (wl_runs l) \<le> 1 \<and> wl_timers (loop_stop l) = []"
    by (cases rule: single_flight_cases) (auto simp: loop_stop_def)
  with ok(1) show ?thesis by (simp add: loop_ok_def)
qed

text \<open>A restart during a run doubles the loop: stopping a loop whose run is in flight and starting it again schedules a
  timer, and the old run, finding the loop not stopped, schedules another: two timers are then pending, only one of them is
  the one \<open>stop\<close> would cancel, and the other fires into a loop that was stopped.\<close>
theorem restart_doubles_loop:
  assumes "loop_reachable delays es l" and "wl_timers l = []" and "wl_runs l = [h]" and "\<not> wl_stopped l"
  shows "\<exists>l'. loop_reachable delays (es @ [Stop, Start, Finishes h outcome]) l' \<and> length (wl_timers l') = 2 \<and>
    length (wl_timers (loop_stop l')) = 1 \<and> wl_stopped (loop_stop l')"
proof -
  have ok: "loop_ok delays l" using reachable_loop_ok [OF assms(1)] .
  let ?l1 = "loop_apply Stop l" and ?l2 = "loop_apply Start (loop_apply Stop l)"
  let ?l3 = "loop_apply (Finishes h outcome) ?l2"
  have "loop_reachable delays (es @ [Stop]) ?l1" using assms(1) by (rule loop_next) simp
  then have start: "loop_reachable delays ((es @ [Stop]) @ [Start]) ?l2" by (rule loop_next) simp
  have run: "wl_runs ?l2 = [h]" using assms(3) by (simp add: loop_start_def loop_stop_def scheduleNext_def)
  have r: "loop_reachable delays (((es @ [Stop]) @ [Start]) @ [Finishes h outcome]) ?l3"
    using start by (rule loop_next) (simp only: run loop_enabled.simps list.set insertI1)
  have two: "wl_timers ?l2 = [(wl_nextHandle l, wl_delays l ! 0)]" "\<not> wl_stopped ?l2" "wl_nextHandle ?l2 = Suc (wl_nextHandle l)"
    using assms(2,4) by (simp_all add: loop_start_def loop_stop_def scheduleNext_def split: option.splits)
  then obtain d where "wl_timers ?l3 = [(wl_nextHandle l, wl_delays l ! 0), (Suc (wl_nextHandle l), d)]"
    "wl_timer ?l3 = Some (Suc (wl_nextHandle l))"
    by (simp add: run_finishes_def scheduleNext_def Let_def)
  then have "length (wl_timers ?l3) = 2" "length (wl_timers (loop_stop ?l3)) = 1" "wl_stopped (loop_stop ?l3)"
    by (simp_all add: loop_stop_def)
  with r show ?thesis by auto
qed

definition sample_loop :: worker_loop where
  "sample_loop = \<lparr>wl_delays = WORKER_POLL_DELAYS_MS, wl_timer = None, wl_stopped = True, wl_delayIndex = 0,
     wl_active = None, wl_timers = [], wl_runs = [], wl_nextHandle = 0\<rparr>"

lemma sample_loop_new: "new_loop WORKER_POLL_DELAYS_MS = Inr sample_loop"
  by (simp add: new_loop_def WORKER_POLL_DELAYS_MS_def sample_loop_def is_integer_def)

theorem loop_single_flight_witness: "wl_timers (loop_stop (loop_apply Start sample_loop)) = []"
proof -
  have "quiet_reachable WORKER_POLL_DELAYS_MS (loop_apply Start sample_loop)"
    by (rule quiet_next [OF quiet_new [OF sample_loop_new]]) (simp_all add: sample_loop_def)
  from loop_single_flight [OF this] show ?thesis by blast
qed

theorem restart_doubles_loop_witness:
  "\<exists>l'. loop_reachable WORKER_POLL_DELAYS_MS [Start, Fires 0, Stop, Start, Finishes 0 Idle] l' \<and> length (wl_timers l') = 2"
proof -
  let ?l = "loop_apply (Fires 0) (loop_apply Start sample_loop)"
  have "loop_reachable WORKER_POLL_DELAYS_MS ([] @ [Start]) (loop_apply Start sample_loop)"
    by (rule loop_next [OF loop_new [OF sample_loop_new]]) simp
  then have "loop_reachable WORKER_POLL_DELAYS_MS (([] @ [Start]) @ [Fires 0]) ?l"
    by (rule loop_next) (simp add: sample_loop_def loop_start_def scheduleNext_def)
  from restart_doubles_loop [OF this, of 0 Idle] show ?thesis
    by (auto simp: sample_loop_def loop_start_def scheduleNext_def timer_fires_def)
qed

end
