(* ===== verification/GrowthWorker.thy ===== *)
theory GrowthWorker
  imports GrowthProperties WorkerLoop IdentityStoreProperties
begin

text \<open>
  \<open>src/growth/paymentSettlementGrowthProjector.ts\<close>, \<open>growthZpProjectionWorker.ts\<close> and
  \<open>zpProgressService.ts\<close>: settled payments become growth events, growth events become points, and a
  user reads the progress. The projector's query joins tables other components write: they are
  lists of rows here, and the query is the comprehension its SQL says.
\<close>

section \<open>Settled payments\<close>

record receipt_row =
  rx_receiptId :: string
  rx_paymentIntentId :: string
  rx_executionId :: string
  rx_actorSubject :: string
  rx_asset :: string
  rx_amountUnits :: int
  rx_amountDecimals :: int
  rx_rail :: string
  rx_settledAt :: int

record execution_row =
  xr_executionId :: string
  xr_paymentIntentId :: string
  xr_status :: string

record payment_row =
  pr_id :: string
  pr_recipientAccountId :: "string option"
  pr_recipientSyntheticId :: "string option"

record account_row =
  ar_accountId :: string
  ar_actorSubject :: string

record settlement_tables =
  st_receipts :: "receipt_row list"
  st_executions :: "execution_row list"
  st_payments :: "payment_row list"
  st_accounts :: "account_row list"
  st_syntheticTestActors :: "string list"

text \<open>A row of the projector's query.\<close>

record settlement_row =
  sw_receipt :: receipt_row
  sw_senderAccountId :: string
  sw_recipientAccountId :: "string option"
  sw_recipientSyntheticId :: "string option"
  sw_senderIsSynthetic :: bool
  sw_recipientIsSynthetic :: bool

definition settlement_rows :: "settlement_tables \<Rightarrow> settlement_row list" where
  "settlement_rows t =
     [\<lparr>sw_receipt = r, sw_senderAccountId = ar_accountId a, sw_recipientAccountId = pr_recipientAccountId p,
       sw_recipientSyntheticId = pr_recipientSyntheticId p,
       sw_senderIsSynthetic = (ar_accountId a \<in> set (st_syntheticTestActors t)),
       sw_recipientIsSynthetic = (case pr_recipientAccountId p of None \<Rightarrow> False
         | Some x \<Rightarrow> x \<in> set (st_syntheticTestActors t))\<rparr>.
       r \<leftarrow> st_receipts t,
       e \<leftarrow> st_executions t, xr_executionId e = rx_executionId r \<and> xr_paymentIntentId e = rx_paymentIntentId r \<and>
         xr_status e = ''SETTLED'',
       p \<leftarrow> st_payments t, pr_id p = rx_paymentIntentId r,
       a \<leftarrow> st_accounts t, ar_actorSubject a = rx_actorSubject r]"

definition settlement_key :: "settlement_row \<Rightarrow> string \<Rightarrow> string \<Rightarrow> string \<times> string \<times> string \<times> string \<times> string" where
  "settlement_key row ty actor = (''PAYMENT'', rx_paymentIntentId (sw_receipt row), rx_receiptId (sw_receipt row), ty, js_lower actor)"

definition has_fact :: "growth_db \<Rightarrow> settlement_row \<Rightarrow> string \<Rightarrow> string \<Rightarrow> bool" where
  "has_fact db row ty actor = list_ex (\<lambda>g. fact_key g = settlement_key row ty actor) (gd_events db)"

definition unprojected :: "growth_db \<Rightarrow> settlement_row \<Rightarrow> bool" where
  "unprojected db row = (\<not> has_fact db row ''PAYMENT_SETTLED_SENT'' (sw_senderAccountId row) \<or>
     (case sw_recipientAccountId row of None \<Rightarrow> False
      | Some r \<Rightarrow> \<not> has_fact db row ''PAYMENT_SETTLED_RECEIVED'' r))"

definition by_settlement :: "settlement_row \<Rightarrow> settlement_row \<Rightarrow> int" where
  "by_settlement a b = or_compare (rx_settledAt (sw_receipt a) - rx_settledAt (sw_receipt b))
     (byte_order (rx_receiptId (sw_receipt a)) (rx_receiptId (sw_receipt b)))"

definition pending_settlements :: "settlement_tables \<Rightarrow> growth_db \<Rightarrow> settlement_row list" where
  "pending_settlements t db = js_sort by_settlement (filter (unprojected db) (settlement_rows t))"

record settlement_projection =
  sj_paymentIntentId :: string
  sj_receiptId :: string
  sj_senderCreated :: bool
  sj_recipientCreated :: bool
  sj_synthetic :: bool

definition settlement_context :: "settlement_row \<Rightarrow> json" where
  "settlement_context row = (let r = sw_receipt row in JObject
     [(''receiptId'', JString (rx_receiptId r)), (''executionId'', JString (rx_executionId r)),
      (''asset'', JString (rx_asset r)), (''amountRaw'', JString (int_to_dec (rx_amountUnits r))),
      (''amountDecimals'', JNumber (Finite (of_int (rx_amountDecimals r)))), (''rail'', JString (rx_rail r))])"

definition settlement_input :: "runtime_env \<Rightarrow> settlement_row \<Rightarrow> string \<Rightarrow> string \<Rightarrow> create_growth_event_input" where
  "settlement_input env row ty actor =
     \<lparr>cg_eventType = ty, cg_actorAccountId = actor, cg_sourceDomain = ''PAYMENT'',
      cg_sourceId = rx_paymentIntentId (sw_receipt row), cg_sourceEventId = rx_receiptId (sw_receipt row),
      cg_occurredAt = date_iso env (rx_settledAt (sw_receipt row)),
      cg_synthetic = (sw_senderIsSynthetic row \<or> sw_recipientSyntheticId row \<noteq> None \<or> sw_recipientIsSynthetic row),
      cg_schemaVersion = 1, cg_context = Some (settlement_context row)\<rparr>"

definition projectRow ::
  "runtime_env \<Rightarrow> int \<Rightarrow> settlement_row \<Rightarrow> growth_db \<Rightarrow> (growth_db, settlement_projection) outcome" where
  "projectRow env now row db =
     then_do (growth_append env now (settlement_input env row ''PAYMENT_SETTLED_SENT'' (sw_senderAccountId row)) db)
       (\<lambda>(sent, senderCreated) db1.
       then_do (if truthy (sw_recipientAccountId row)
           then then_do (growth_append env now (settlement_input env row ''PAYMENT_SETTLED_RECEIVED''
               (the (sw_recipientAccountId row))) db1) (\<lambda>(received, created) db2. (Inr created, db2))
           else (Inr False, db1)) (\<lambda>recipientCreated db2.
         (Inr \<lparr>sj_paymentIntentId = rx_paymentIntentId (sw_receipt row), sj_receiptId = rx_receiptId (sw_receipt row),
            sj_senderCreated = senderCreated, sj_recipientCreated = recipientCreated,
            sj_synthetic = (sw_senderIsSynthetic row \<or> sw_recipientSyntheticId row \<noteq> None \<or> sw_recipientIsSynthetic row)\<rparr>, db2)))"

text \<open>The loop over the rows: a throw stops it, what was appended stays.\<close>

fun project_rows ::
  "runtime_env \<Rightarrow> int \<Rightarrow> settlement_row list \<Rightarrow> growth_db \<Rightarrow> (growth_db, settlement_projection list) outcome" where
  "project_rows env now [] db = (Inr [], db)"
| "project_rows env now (row # rows) db =
     then_do (projectRow env now row db) (\<lambda>x db1.
       then_do (project_rows env now rows db1) (\<lambda>xs db2. (Inr (x # xs), db2)))"

definition projectPayment ::
  "runtime_env \<Rightarrow> int \<Rightarrow> settlement_tables \<Rightarrow> string \<Rightarrow> growth_db \<Rightarrow> (growth_db, settlement_projection option) outcome" where
  "projectPayment env now t paymentIntentId db =
     (case filter (\<lambda>r. rx_paymentIntentId (sw_receipt r) = paymentIntentId) (settlement_rows t) of
        [] \<Rightarrow> (Inr None, db)
      | row # rest \<Rightarrow> then_do (projectRow env now row db) (\<lambda>x db1. (Inr (Some x), db1)))"

definition projectPending ::
  "runtime_env \<Rightarrow> int \<Rightarrow> settlement_tables \<Rightarrow> js_number \<Rightarrow> growth_db \<Rightarrow>
   (growth_db, settlement_projection list) outcome" where
  "projectPending env now t limit db = (case batch_limit 500 limit of
     None \<Rightarrow> (throw ''Growth projection limit must be between 1 and 500.'', db)
   | Some n \<Rightarrow> project_rows env now (take n (pending_settlements t db)) db)"

section \<open>The worker\<close>

definition GROWTH_PROJECTION_BATCH_LIMIT :: js_number where
  "GROWTH_PROJECTION_BATCH_LIMIT = Finite 100"

definition ZP_ACCOUNT_BATCH_LIMIT :: js_number where
  "ZP_ACCOUNT_BATCH_LIMIT = Finite 100"

definition ZP_EVENT_BATCH_LIMIT :: js_number where
  "ZP_EVENT_BATCH_LIMIT = Finite 100"

record projection_outcome =
  po_growthEnabled :: bool
  po_growthProjectedReceipts :: nat
  po_growthFailed :: bool
  po_zpEnabled :: bool
  po_zpDiscoveredAccounts :: nat
  po_zpProjectedAccounts :: nat
  po_zpProcessedEvents :: nat
  po_zpFailedAccounts :: nat
  po_zpDiscoveryFailed :: bool
  po_durationMs :: rat

text \<open>The counters of the loop over the accounts: projected, processed events, failed.\<close>

fun project_accounts :: "runtime_env \<Rightarrow> string list \<Rightarrow> nat \<times> nat \<times> nat \<Rightarrow> growth_db \<Rightarrow> (nat \<times> nat \<times> nat) \<times> growth_db" where
  "project_accounts env [] acc db = (acc, db)"
| "project_accounts env (a # as) (projected, processed, failures) db =
     (case projectAccount env a ZP_EVENT_BATCH_LIMIT db of
        (Inr res, db1) \<Rightarrow> project_accounts env as (projected + 1, processed + zr_processedEvents res, failures) db1
      | (Inl e, db1) \<Rightarrow> project_accounts env as (projected, processed, failures + 1) db1)"

text \<open>\<open>Math.max(0, Math.round(elapsed * 100) / 100)\<close>\<close>

definition duration_ms :: "rat \<Rightarrow> rat" where
  "duration_ms elapsed = max 0 (of_int \<lfloor>elapsed * 100 + 1 / 2\<rfloor> / 100)"

definition runOnce ::
  "runtime_env \<Rightarrow> int \<Rightarrow> rat \<Rightarrow> settlement_tables \<Rightarrow> bool \<Rightarrow> bool \<Rightarrow> growth_db \<Rightarrow> projection_outcome \<times> growth_db" where
  "runOnce env now elapsed t growthEnabled zpEnabled db =
     (let (receipts, growthFailed, db1) =
            (if growthEnabled
             then (case projectPending env now t GROWTH_PROJECTION_BATCH_LIMIT db of
                     (Inr xs, d) \<Rightarrow> (length xs, False, d) | (Inl e, d) \<Rightarrow> (0, True, d))
             else (0, False, db));
          (accounts, discoveryFailed) =
            (if zpEnabled
             then (case listPendingAccounts ZP_ACCOUNT_BATCH_LIMIT db1 of Inr as \<Rightarrow> (as, False) | Inl e \<Rightarrow> ([], True))
             else ([], False));
          ((projected, processed, failures), db2) = project_accounts env accounts (0, 0, 0) db1
      in (\<lparr>po_growthEnabled = growthEnabled, po_growthProjectedReceipts = receipts, po_growthFailed = growthFailed,
           po_zpEnabled = zpEnabled, po_zpDiscoveredAccounts = length accounts, po_zpProjectedAccounts = projected,
           po_zpProcessedEvents = processed, po_zpFailedAccounts = failures, po_zpDiscoveryFailed = discoveryFailed,
           po_durationMs = duration_ms elapsed\<rparr>, db2))"

text \<open>What the iteration of the worker's loop answers.\<close>

definition worker_iteration :: "projection_outcome \<Rightarrow> iteration_outcome" where
  "worker_iteration o' =
     (if po_growthFailed o' \<or> po_zpDiscoveryFailed o' \<or> po_zpFailedAccounts o' > 0 then Failure
      else if po_growthProjectedReceipts o' > 0 \<or> po_zpDiscoveredAccounts o' > 0 \<or> po_zpProcessedEvents o' > 0
      then Work else Idle)"

definition new_growth_worker :: "bool \<Rightarrow> bool \<Rightarrow> (bool \<times> worker_loop) result" where
  "new_growth_worker growthEnabled zpEnabled =
     and_then (new_loop RECONCILIATION_POLL_DELAYS_MS) (\<lambda>l. Inr (growthEnabled \<or> zpEnabled, l))"

definition growth_worker_start :: "bool \<times> worker_loop \<Rightarrow> bool \<times> worker_loop" where
  "growth_worker_start w = (if fst w then (fst w, loop_start (snd w)) else w)"

definition growth_worker_stop :: "bool \<times> worker_loop \<Rightarrow> bool \<times> worker_loop" where
  "growth_worker_stop w = (fst w, loop_stop (snd w))"

section \<open>The progress of a user\<close>

definition zeroState :: "string \<Rightarrow> account_zp_state" where
  "zeroState accountId = \<lparr>zs_accountId = accountId, zs_policyVersion = ZP_POLICY_VERSION, zs_totalPoints = 0,
     zs_sentCount = 0, zs_receivedCount = 0, zs_lastGrowthEventId = 0, zs_updatedAt = ''1970-01-01T00:00:00.000Z''\<rparr>"

definition getCurrent ::
  "runtime_env \<Rightarrow> string \<Rightarrow> string \<Rightarrow> external_principal \<Rightarrow> growth_db \<Rightarrow> identity_store \<Rightarrow>
   (identity_store, public_zp_progress) outcome" where
  "getCurrent env newAccountId newIdentityId who db s =
     then_do (resolvePrincipal env newAccountId newIdentityId who s) (\<lambda>(account, created) s1.
       (and_then (find_zp_state (ac_accountId account) db) (\<lambda>st.
          projectZpProgress (coalesce st (zeroState (ac_accountId account)))), s1))"

section \<open>Draining the settlements\<close>

lemma append_has_fact:
  assumes "growth_append env now i db = (Inr x, db1)"
  shows "input_key i \<in> fact_key ` set (gd_events db1)"
proof -
  obtain u where v: "validateGrowthEventInput env i = Inr u" using assms by (auto simp: growth_append_def when_ok_Inr)
  show ?thesis
  proof (cases "fact_row i db")
    case (Some r)
    then have "fact_row i (db\<lparr>gd_nextEventId := gd_nextEventId db + 1\<rparr>) = Some r" by (simp add: fact_row_def)
    with assms v Some have "gd_events db1 = gd_events db" by (auto simp: growth_append_def insert_growth_event_def Let_def)
    moreover have "input_key i \<in> fact_key ` set (gd_events db)" using Some fact_row_None [of i db] by fastforce
    ultimately show ?thesis by simp
  next
    case None
    with assms v have "gd_events db1 = gd_events db @ [growth_row_of env i (input_context i) (gd_nextEventId db) now]"
      by (auto simp: growth_append_def insert_growth_event_def Let_def split: if_splits)
    then show ?thesis by (simp add: row_of_key)
  qed
qed

lemma append_keeps_rows: "growth_append env now i db = (r, db1) \<Longrightarrow> set (gd_events db) \<subseteq> set (gd_events db1)"
  using step_keeps_rows step_append by blast

lemma settlement_input_key: "input_key (settlement_input env row ty actor) = settlement_key row ty actor"
  by (simp add: input_key_def settlement_input_def settlement_key_def)

lemma has_fact_iff: "has_fact db row ty actor \<longleftrightarrow> settlement_key row ty actor \<in> fact_key ` set (gd_events db)"
  by (auto simp: has_fact_def list_ex_iff image_iff eq_commute)

lemma projectRow_effect:
  assumes run: "projectRow env now row db = (Inr x, db')" and id: "sw_recipientAccountId row \<noteq> Some ''''"
  shows "\<not> unprojected db' row \<and> set (gd_events db) \<subseteq> set (gd_events db')"
proof -
  obtain p db1 where a: "growth_append env now (settlement_input env row ''PAYMENT_SETTLED_SENT'' (sw_senderAccountId row)) db = (Inr p, db1)"
    and rest: "(\<exists>q. truthy (sw_recipientAccountId row) \<and> growth_append env now (settlement_input env row ''PAYMENT_SETTLED_RECEIVED''
        (the (sw_recipientAccountId row))) db1 = (Inr q, db')) \<or> \<not> truthy (sw_recipientAccountId row) \<and> db' = db1"
    using run unfolding projectRow_def by (fastforce simp: then_do_Inr split: if_splits)
  have sent: "has_fact db1 row ''PAYMENT_SETTLED_SENT'' (sw_senderAccountId row)"
    using append_has_fact [OF a] by (simp add: has_fact_iff settlement_input_key)
  have sub: "set (gd_events db) \<subseteq> set (gd_events db1)" using append_keeps_rows [OF a] .
  from rest show ?thesis
  proof
    assume "\<exists>q. truthy (sw_recipientAccountId row) \<and> growth_append env now (settlement_input env row ''PAYMENT_SETTLED_RECEIVED''
        (the (sw_recipientAccountId row))) db1 = (Inr q, db')"
    then obtain q rid where q: "sw_recipientAccountId row = Some rid"
      "growth_append env now (settlement_input env row ''PAYMENT_SETTLED_RECEIVED'' rid) db1 = (Inr q, db')"
      by (auto simp: truthy_iff)
    have "has_fact db' row ''PAYMENT_SETTLED_RECEIVED'' rid"
      using append_has_fact [OF q(2)] by (simp add: has_fact_iff settlement_input_key)
    moreover have "set (gd_events db1) \<subseteq> set (gd_events db')" using append_keeps_rows [OF q(2)] .
    ultimately show ?thesis using sent sub q(1) by (auto simp: unprojected_def has_fact_iff)
  next
    assume "\<not> truthy (sw_recipientAccountId row) \<and> db' = db1"
    with sent sub id show ?thesis by (auto simp: unprojected_def truthy_iff split: option.splits)
  qed
qed

lemma projected_stays: "\<not> unprojected db row \<Longrightarrow> set (gd_events db) \<subseteq> set (gd_events db') \<Longrightarrow> \<not> unprojected db' row"
  by (auto simp: unprojected_def has_fact_iff split: option.splits)

lemma project_rows_effect:
  assumes "project_rows env now rows db = (Inr xs, db')" and "\<forall>r\<in>set rows. sw_recipientAccountId r \<noteq> Some ''''"
  shows "length xs = length rows \<and> (\<forall>r\<in>set rows. \<not> unprojected db' r) \<and> set (gd_events db) \<subseteq> set (gd_events db')"
  using assms
proof (induction rows arbitrary: db xs)
  case (Cons row rows)
  obtain x db1 ys where a: "projectRow env now row db = (Inr x, db1)" "project_rows env now rows db1 = (Inr ys, db')" "xs = x # ys"
    using Cons.prems(1) by (auto simp: then_do_Inr)
  have row: "\<not> unprojected db1 row" "set (gd_events db) \<subseteq> set (gd_events db1)"
    using projectRow_effect [OF a(1)] Cons.prems(2) by simp_all
  have rest: "length ys = length rows" "\<forall>r\<in>set rows. \<not> unprojected db' r" "set (gd_events db1) \<subseteq> set (gd_events db')"
    using Cons.IH [OF a(2)] Cons.prems(2) by simp_all
  with projected_stays [OF row(1) rest(3)] row(2) a(3) show ?case by auto
qed simp

text \<open>Settlements are projected completely: when \<open>projectPending\<close> returns it has handled the first \<open>n\<close> pending
  settlements, none of them is pending any more, and no settlement became pending; so with at most \<open>n\<close> pending
  nothing is left, and the next run does nothing. Account ids are not empty (they are \<open>uuid\<close> columns).\<close>
theorem settlements_drain:
  assumes "projectPending env now t limit db = (Inr xs, db')" and "batch_limit 500 limit = Some n"
    and "\<forall>r\<in>set (settlement_rows t). sw_recipientAccountId r \<noteq> Some ''''"
  shows "length xs = min n (length (pending_settlements t db)) \<and>
    set (pending_settlements t db') \<subseteq> set (drop n (pending_settlements t db)) \<and>
    (length (pending_settlements t db) \<le> n \<longrightarrow> projectPending env now t limit db' = (Inr [], db'))"
proof -
  have rows: "project_rows env now (take n (pending_settlements t db)) db = (Inr xs, db')"
    using assms(1,2) by (simp add: projectPending_def)
  have "\<forall>r\<in>set (take n (pending_settlements t db)). sw_recipientAccountId r \<noteq> Some ''''"
    using assms(3) by (auto simp: pending_settlements_def dest!: in_set_takeD)
  then have e: "length xs = length (take n (pending_settlements t db))"
    "\<forall>r\<in>set (take n (pending_settlements t db)). \<not> unprojected db' r" "set (gd_events db) \<subseteq> set (gd_events db')"
    using project_rows_effect [OF rows] by blast+
  have sub: "set (pending_settlements t db') \<subseteq> set (drop n (pending_settlements t db))"
  proof
    fix r assume "r \<in> set (pending_settlements t db')"
    then have r: "r \<in> set (settlement_rows t)" "unprojected db' r" by (simp_all add: pending_settlements_def)
    then have "r \<in> set (pending_settlements t db)"
      using projected_stays [OF _ e(3), of r] by (auto simp: pending_settlements_def)
    then have "r \<in> set (take n (pending_settlements t db)) \<or> r \<in> set (drop n (pending_settlements t db))"
      by (metis Un_iff append_take_drop_id set_append)
    with e(2) r(2) show "r \<in> set (drop n (pending_settlements t db))" by blast
  qed
  moreover have "projectPending env now t limit db' = (Inr [], db')" if "length (pending_settlements t db) \<le> n"
    using sub that assms(2) by (simp add: projectPending_def)
  ultimately show ?thesis using e(1) by simp
qed

section \<open>The coordinator\<close>

lemma project_accounts_counts:
  "project_accounts env as (p, q, f) db = ((p', q', f'), db') \<Longrightarrow> p' + f' = p + f + length as"
proof (induction as arbitrary: p q f db)
  case (Cons a as)
  obtain r db1 where r: "projectAccount env a ZP_EVENT_BATCH_LIMIT db = (r, db1)" by fastforce
  with Cons show ?case by (cases r) fastforce+
qed simp

lemma reachable_rows:
  "reachable_growth env db \<Longrightarrow> reachable_growth env (snd (project_rows env now rows db))"
proof (induction rows arbitrary: db)
  case (Cons row rows)
  have row: "reachable_growth env (snd (projectRow env now row db))"
  proof -
    obtain r1 d1 where a: "growth_append env now (settlement_input env row ''PAYMENT_SETTLED_SENT'' (sw_senderAccountId row)) db = (r1, d1)"
      by fastforce
    then have d1: "reachable_growth env d1" using reachable_append [OF Cons.prems] by (metis snd_conv)
    obtain r2 d2 where b: "growth_append env now (settlement_input env row ''PAYMENT_SETTLED_RECEIVED'' (the (sw_recipientAccountId row))) d1 = (r2, d2)"
      by fastforce
    then have "reachable_growth env d2" using reachable_append [OF d1] by (metis snd_conv)
    with a b d1 show ?thesis by (cases r1; cases r2) (auto simp: projectRow_def split: prod.splits)
  qed
  obtain r d where p: "projectRow env now row db = (r, d)" by fastforce
  with row have d: "reachable_growth env d" by simp
  obtain r2 d2 where q: "project_rows env now rows d = (r2, d2)" by fastforce
  with Cons.IH [OF d] have "reachable_growth env d2" by simp
  with p q d show ?case by (cases r; cases r2) auto
qed simp

lemma reachable_accounts:
  "reachable_growth env db \<Longrightarrow> reachable_growth env (snd (project_accounts env as acc db))"
proof (induction as arbitrary: acc db)
  case (Cons a as)
  obtain p q f where acc: "acc = (p, q, f)" by (cases acc)
  obtain r db1 where r: "projectAccount env a ZP_EVENT_BATCH_LIMIT db = (r, db1)" by fastforce
  then have "reachable_growth env db1" using reachable_project [OF Cons.prems] by (metis snd_conv)
  with Cons.IH r acc show ?case by (cases r) auto
qed simp

text \<open>The worker accounts for every account it found: each is projected or counted as failed, one account's failure or a
  failed growth projection does not stop the others, an iteration is idle only when nothing was found or projected, and
  the tables stay reachable, so the points stay exact.\<close>
theorem iteration_accounts_for_all:
  assumes "reachable_growth env db" and "runOnce env now elapsed t growthEnabled zpEnabled db = (o', db')"
  shows "po_zpProjectedAccounts o' + po_zpFailedAccounts o' = po_zpDiscoveredAccounts o' \<and> reachable_growth env db' \<and>
    (worker_iteration o' = Failure \<longleftrightarrow> po_growthFailed o' \<or> po_zpFailedAccounts o' > 0)"
proof -
  let ?g = "if growthEnabled then (case projectPending env now t GROWTH_PROJECTION_BATCH_LIMIT db of
      (Inr xs, d) \<Rightarrow> (length xs, False, d) | (Inl e, d) \<Rightarrow> (0, True, d)) else (0, False, db)"
  have lim: "batch_limit 500 GROWTH_PROJECTION_BATCH_LIMIT = Some 100" "batch_limit 500 ZP_ACCOUNT_BATCH_LIMIT = Some 100"
    by code_simp+
  obtain n failed db1 where g: "?g = (n, failed, db1)" by (cases ?g)
  have r1: "reachable_growth env db1"
    using g assms(1) reachable_rows [OF assms(1), of now "take 100 (pending_settlements t db)"]
    by (auto simp: projectPending_def lim split: if_splits prod.splits sum.splits)
  obtain as where as: "(if zpEnabled then (case listPendingAccounts ZP_ACCOUNT_BATCH_LIMIT db1 of Inr as \<Rightarrow> (as, False) | Inl e \<Rightarrow> ([], True))
      else ([], False)) = (as, False)"
    by (cases zpEnabled) (simp_all add: listPendingAccounts_def lim)
  obtain p q f db2 where pa: "project_accounts env as (0, 0, 0) db1 = ((p, q, f), db2)"
    by (cases "project_accounts env as (0, 0, 0) db1") auto
  have o': "o' = \<lparr>po_growthEnabled = growthEnabled, po_growthProjectedReceipts = n, po_growthFailed = failed,
      po_zpEnabled = zpEnabled, po_zpDiscoveredAccounts = length as, po_zpProjectedAccounts = p,
      po_zpProcessedEvents = q, po_zpFailedAccounts = f, po_zpDiscoveryFailed = False, po_durationMs = duration_ms elapsed\<rparr>"
    "db' = db2"
    using assms(2) unfolding runOnce_def g Let_def prod.case as pa by simp_all
  have "p + f = length as" using project_accounts_counts [OF pa] by simp
  moreover have "reachable_growth env db2" using reachable_accounts [OF r1, of as "(0, 0, 0)"] pa by simp
  ultimately show ?thesis unfolding o' by (auto simp: worker_iteration_def)
qed

section \<open>A sample settlement\<close>

definition growth_uuid2 :: string where
  "growth_uuid2 = ''bbbbbbbb-bbbb-4bbb-8bbb-bbbbbbbbbbbb''"

definition sample_settlements :: settlement_tables where
  "sample_settlements = \<lparr>st_receipts = [\<lparr>rx_receiptId = ''r1'', rx_paymentIntentId = ''p1'', rx_executionId = ''e1'',
       rx_actorSubject = ''alice'', rx_asset = ''USDC'', rx_amountUnits = 5, rx_amountDecimals = 6, rx_rail = ''mock'',
       rx_settledAt = 7\<rparr>],
     st_executions = [\<lparr>xr_executionId = ''e1'', xr_paymentIntentId = ''p1'', xr_status = ''SETTLED''\<rparr>],
     st_payments = [\<lparr>pr_id = ''p1'', pr_recipientAccountId = Some growth_uuid2, pr_recipientSyntheticId = None\<rparr>],
     st_accounts = [\<lparr>ar_accountId = growth_uuid, ar_actorSubject = ''alice''\<rparr>],
     st_syntheticTestActors = []\<rparr>"

definition sample_growth_start :: growth_db where
  "sample_growth_start = initial_growth_db [growth_uuid, growth_uuid2]"

theorem settlements_drain_witness:
  "\<exists>x db'. projectPending sample_env 9 sample_settlements (Finite 100) sample_growth_start = (Inr [x], db') \<and>
     projectPending sample_env 9 sample_settlements (Finite 100) db' = (Inr [], db')"
proof -
  have "(case fst (projectPending sample_env 9 sample_settlements (Finite 100) sample_growth_start) of
      Inr xs \<Rightarrow> length xs = 1 | Inl e \<Rightarrow> False)" by code_simp
  then obtain xs db' where p: "projectPending sample_env 9 sample_settlements (Finite 100) sample_growth_start = (Inr xs, db')" "length xs = 1"
    by (cases "projectPending sample_env 9 sample_settlements (Finite 100) sample_growth_start") (auto split: sum.splits)
  have n: "batch_limit 500 (Finite 100) = Some 100" "length (pending_settlements sample_settlements sample_growth_start) \<le> 100"
    by code_simp+
  have "list_all (\<lambda>r. sw_recipientAccountId r \<noteq> Some '''') (settlement_rows sample_settlements)" by code_simp
  then have "\<forall>r\<in>set (settlement_rows sample_settlements). sw_recipientAccountId r \<noteq> Some ''''" by (simp add: list_all_iff)
  with settlements_drain [OF p(1) n(1)] n(2)
  have "projectPending sample_env 9 sample_settlements (Finite 100) db' = (Inr [], db')" by blast
  moreover obtain x where "xs = [x]" using p(2) by (cases xs) auto
  ultimately show ?thesis using p(1) by blast
qed

theorem iteration_accounts_for_all_witness:
  "\<exists>o' db'. runOnce sample_env 9 1 sample_settlements True True sample_growth_start = (o', db') \<and>
     po_zpProjectedAccounts o' + po_zpFailedAccounts o' = po_zpDiscoveredAccounts o'"
proof -
  obtain o' db' where r: "runOnce sample_env 9 1 sample_settlements True True sample_growth_start = (o', db')" by fastforce
  have "reachable_growth sample_env sample_growth_start"
    unfolding reachable_growth_def sample_growth_start_def using growth_start by blast
  from iteration_accounts_for_all [OF this r] r show ?thesis by blast
qed

end
