(* ===== verification/DevnetState.thy ===== *)
theory DevnetState
  imports Prelude
begin

text \<open>
  \<open>src/devnet/devnetExecutionState.ts\<close> and
  \<open>src/storage/memory/inMemoryDevnetExecutionStateRepository.ts\<close>: the durable state of executions on the
  Solana devnet. A preparation is one signed transaction; committing it is the single authorization to
  submit it, and from then on only observations move it. Signed bytes are stored encrypted: byte strings
  are lists of numbers. A number is rational: the code checks which are integers.
\<close>

section \<open>Types\<close>

datatype devnet_state =
    PREPARED_NOT_CONTACTED
  | SUBMISSION_COMMITTED_RECONCILE_ONLY
  | ACCEPTED_PENDING
  | UNKNOWN_RECONCILIATION_REQUIRED
  | D_SETTLED
  | D_FAILED
  | ABANDONED_PRE_CONTACT

definition DEVNET_LIFECYCLE_STATES :: "devnet_state list" where
  "DEVNET_LIFECYCLE_STATES = [PREPARED_NOT_CONTACTED, SUBMISSION_COMMITTED_RECONCILE_ONLY, ACCEPTED_PENDING,
     UNKNOWN_RECONCILIATION_REQUIRED, D_SETTLED, D_FAILED, ABANDONED_PRE_CONTACT]"

record encrypted_transaction =
  en_algorithm :: string
  en_keyVersion :: string
  en_initializationVector :: "nat list"
  en_authenticationTag :: "nat list"
  en_ciphertext :: "nat list"

text \<open>The members of a prepared transaction (\<open>zephyon-protocol\<close>) the repository looks at.\<close>

record prepared_artifact =
  pa_cluster :: string
  pa_signature :: string
  pa_signedTransactionDigest :: string
  pa_sourceTokenAccount :: string
  pa_mint :: string
  pa_destination :: string
  pa_rawAmount :: string
  pa_decimals :: rat
  pa_recentBlockhash :: string
  pa_lastValidBlockHeight :: string
  pa_signerKeyId :: string
  pa_signerKeyVersion :: string
  pa_signerPublicKey :: string
  pa_policyHash :: string
  pa_submissionProviderId :: string
  pa_reconciliationProviderId :: string

record preparation_input =
  dp_preparationId :: string
  dp_executionId :: string
  dp_paymentIntentId :: string
  dp_actorSubject :: string
  dp_generation :: rat
  dp_encrypted :: encrypted_transaction
  dp_artifact :: prepared_artifact
  dp_preparedAt :: string

record preparation =
  pr_preparationId :: string
  pr_executionId :: string
  pr_paymentIntentId :: string
  pr_actorSubject :: string
  pr_generation :: rat
  pr_state :: devnet_state
  pr_encrypted :: encrypted_transaction
  pr_artifact :: prepared_artifact
  pr_preparedAt :: string
  pr_abandonedAt :: "string option"
  pr_committedAt :: "string option"

record commitment =
  cm_commitmentId :: string
  cm_executionId :: string
  cm_preparationId :: string
  cm_signature :: string
  cm_signedTransactionDigest :: string
  cm_committedAt :: string

datatype reconciliation_outcome = RO_MISSING | RO_PENDING | RO_SETTLED | RO_FAILED | RO_UNKNOWN

record persistence_fence =
  pf_leaseOwner :: string
  pf_leaseClaimedAt :: string

record reconciliation_input =
  ri_executionId :: string
  ri_actorSubject :: string
  ri_preparationId :: string
  ri_observationId :: string
  ri_providerId :: string
  ri_signature :: string
  ri_outcome :: reconciliation_outcome
  ri_observedAt :: string
  ri_slot :: "string option"
  ri_confirmationStatus :: "string option"
  ri_errorCode :: "string option"
  ri_recoveryFence :: persistence_fence

record reconciliation_observation =
  ro_observationId :: string
  ro_executionId :: string
  ro_preparationId :: string
  ro_sequence :: nat
  ro_providerId :: string
  ro_signature :: string
  ro_outcome :: reconciliation_outcome
  ro_observedAt :: string
  ro_slot :: "string option"
  ro_confirmationStatus :: "string option"
  ro_errorCode :: "string option"

datatype submission_outcome = SO_ACCEPTED | SO_SETTLED | SO_REJECTED | SO_UNKNOWN | SO_VALIDATION_FAILED

datatype contact_certainty = NOT_STARTED | MAY_HAVE_OCCURRED | CONTACT_ACCEPTED

record submission_observation =
  sb_observationId :: string
  sb_executionId :: string
  sb_preparationId :: string
  sb_commitmentId :: string
  sb_providerId :: string
  sb_signature :: string
  sb_outcome :: submission_outcome
  sb_contactCertainty :: contact_certainty
  sb_observedAt :: string
  sb_providerErrorCode :: "string option"
  sb_slot :: "string option"
  sb_confirmationStatus :: "string option"

record commit_submission_input =
  dc_executionId :: string
  dc_actorSubject :: string
  dc_preparationId :: string
  dc_commitmentId :: string
  dc_committedAt :: string

record replace_preparation_input =
  dr_priorPreparationId :: string
  dr_replacement :: preparation_input
  dr_abandonedAt :: string

section \<open>Checks\<close>

definition decimal_text :: "string \<Rightarrow> bool" where
  "decimal_text s = (s = ''0'' \<or> s \<noteq> '''' \<and> hd s \<noteq> CHR ''0'' \<and> list_all is_digit s)"

definition positive_decimal_text :: "string \<Rightarrow> bool" where
  "positive_decimal_text s = (s \<noteq> '''' \<and> hd s \<noteq> CHR ''0'' \<and> list_all is_digit s)"

text \<open>\<open>/^[A-Za-z0-9_.:-]{1,n}$/\<close> and \<open>/^[A-Za-z0-9_-]{1,n}$/\<close>\<close>

definition code_text :: "nat \<Rightarrow> string \<Rightarrow> bool" where
  "code_text n s = (1 \<le> length s \<and> length s \<le> n \<and> list_all (\<lambda>c. is_alnum c \<or> c \<in> set ''_.:-'') s)"

definition word_text :: "nat \<Rightarrow> string \<Rightarrow> bool" where
  "word_text n s = (1 \<le> length s \<and> length s \<le> n \<and> list_all (\<lambda>c. is_alnum c \<or> c \<in> set ''_-'') s)"

definition integral :: "rat \<Rightarrow> bool" where
  "integral q = (snd (quotient_of q) = 1)"

definition assertProviderIdentities :: "string \<Rightarrow> string \<Rightarrow> unit result" where
  "assertProviderIdentities submission reconciliation =
     (if submission = '''' \<or> js_trim submission \<noteq> submission
      then throw ''submission provider ID must be a non-empty trimmed string.''
      else if reconciliation = '''' \<or> js_trim reconciliation \<noteq> reconciliation
      then throw ''reconciliation provider ID must be a non-empty trimmed string.''
      else if submission = reconciliation then throw ''Submission and reconciliation providers must be distinct.''
      else Inr ())"

definition assertPreparedArtifact :: "preparation_input \<Rightarrow> unit result" where
  "assertPreparedArtifact i = (let v = dp_artifact i; e = dp_encrypted i in
     and_then (assertProviderIdentities (pa_submissionProviderId v) (pa_reconciliationProviderId v)) (\<lambda>_.
     if pa_cluster v \<noteq> ''solana-devnet'' \<or> dp_generation i < 1 \<or> \<not> integral (dp_generation i)
     then throw ''Invalid Devnet preparation identity.''
     else if pa_signature v = '''' \<or> \<not> is_sha256_hex (pa_signedTransactionDigest v) \<or> pa_sourceTokenAccount v = '''' \<or>
       pa_mint v = '''' \<or> pa_destination v = '''' \<or> \<not> positive_decimal_text (pa_rawAmount v)
     then throw ''Incomplete Devnet prepared artifact.''
     else if \<not> integral (pa_decimals v) \<or> pa_decimals v < 0 \<or> pa_decimals v > 255 \<or>
       \<not> decimal_text (pa_lastValidBlockHeight v)
     then throw ''Invalid Devnet amount or blockhash metadata.''
     else if pa_recentBlockhash v = '''' \<or> pa_signerKeyId v = '''' \<or> pa_signerKeyVersion v = '''' \<or>
       pa_signerPublicKey v = '''' \<or> \<not> is_sha256_hex (pa_policyHash v)
     then throw ''Incomplete Devnet signer or policy metadata.''
     else if en_algorithm e \<noteq> ''aes-256-gcm'' \<or> en_keyVersion e = '''' \<or> js_trim (en_keyVersion e) \<noteq> en_keyVersion e \<or>
       length (en_initializationVector e) \<noteq> 12 \<or> length (en_authenticationTag e) \<noteq> 16 \<or> en_ciphertext e = []
     then throw ''Invalid encrypted signed transaction envelope.''
     else Inr ()))"

fun reconciliationLifecycle :: "devnet_state \<Rightarrow> reconciliation_outcome \<Rightarrow> devnet_state result" where
  "reconciliationLifecycle current outcome =
     (if current \<in> set [PREPARED_NOT_CONTACTED, ABANDONED_PRE_CONTACT]
      then throw ''Reconciliation requires a durable submission commitment.''
      else if current \<in> set [D_SETTLED, D_FAILED]
      then throw ''Terminal Devnet settlement truth cannot be changed by a later observation.''
      else if outcome = RO_SETTLED then Inr D_SETTLED
      else if outcome = RO_FAILED then Inr D_FAILED
      else if outcome = RO_PENDING then Inr ACCEPTED_PENDING
      else Inr UNKNOWN_RECONCILIATION_REQUIRED)"

fun submissionLifecycle :: "devnet_state \<Rightarrow> submission_outcome \<Rightarrow> devnet_state result" where
  "submissionLifecycle current outcome =
     (if current = PREPARED_NOT_CONTACTED \<or> current = ABANDONED_PRE_CONTACT
      then throw ''Submission evidence requires the durable reconciliation-only commitment.''
      else if current = D_SETTLED \<or> current = D_FAILED
      then throw ''Terminal Devnet settlement truth cannot be changed by submission evidence.''
      else if outcome = SO_SETTLED then Inr D_SETTLED
      else if outcome = SO_REJECTED then Inr D_FAILED
      else if outcome = SO_ACCEPTED then Inr ACCEPTED_PENDING
      else Inr (if current = ACCEPTED_PENDING then current else UNKNOWN_RECONCILIATION_REQUIRED))"

text \<open>A condition on a text that may be absent.\<close>

definition absent_or :: "(string \<Rightarrow> bool) \<Rightarrow> string option \<Rightarrow> bool" where
  "absent_or P v = (case v of None \<Rightarrow> True | Some s \<Rightarrow> P s)"

definition assertReconciliationEvidence :: "runtime_env \<Rightarrow> reconciliation_input \<Rightarrow> unit result" where
  "assertReconciliationEvidence env i = (let terminal = (ri_outcome i = RO_SETTLED \<or> ri_outcome i = RO_FAILED); f = ri_recoveryFence i in
     if ri_providerId i = '''' \<or> js_trim (ri_providerId i) \<noteq> ri_providerId i \<or> length (ri_providerId i) > 128
     then throw ''Reconciliation provider ID is invalid.''
     else if ri_signature i = '''' \<or> js_trim (ri_signature i) \<noteq> ri_signature i \<or> length (ri_signature i) > 256
     then throw ''Reconciliation signature evidence is invalid.''
     else if \<not> valid_time env (ri_observedAt i) then throw ''Reconciliation observation time is invalid.''
     else if \<not> absent_or decimal_text (ri_slot i) then throw ''Reconciliation slot is invalid.''
     else if \<not> absent_or (word_text 32) (ri_confirmationStatus i) then throw ''Reconciliation confirmation status is invalid.''
     else if ri_outcome i = RO_FAILED \<and> ri_errorCode i = None \<or>
       ri_errorCode i \<noteq> None \<and> ri_outcome i \<noteq> RO_FAILED \<and> ri_outcome i \<noteq> RO_UNKNOWN \<or>
       \<not> absent_or (code_text 64) (ri_errorCode i)
     then throw ''Reconciliation failure evidence is invalid.''
     else if ri_outcome i = RO_FAILED \<and> ri_errorCode i \<noteq> Some ''PROVIDER_REPORTED_FAILURE''
     then throw ''Reconciliation terminal failure code is not authoritative chain evidence.''
     else if terminal \<and> (ri_confirmationStatus i \<noteq> Some ''finalized'' \<or> ri_slot i = None)
     then throw ''Terminal reconciliation requires finalized exact-signature evidence.''
     else if \<not> terminal \<and> ri_confirmationStatus i = Some ''finalized''
     then throw ''Finalized reconciliation evidence must be represented as terminal truth.''
     else if pf_leaseOwner f = '''' \<or> js_trim (pf_leaseOwner f) \<noteq> pf_leaseOwner f \<or> length (pf_leaseOwner f) > 128 \<or>
       \<not> valid_time env (pf_leaseClaimedAt f)
     then throw ''Reconciliation persistence requires fenced recovery lease authority.''
     else Inr ())"

record submission_input = submission_observation +
  si_actorSubject :: string

definition assertSubmissionEvidence :: "'a submission_observation_scheme \<Rightarrow> unit result" where
  "assertSubmissionEvidence i =
     (if sb_providerId i = '''' \<or> js_trim (sb_providerId i) \<noteq> sb_providerId i \<or> length (sb_providerId i) > 128 \<or>
       sb_signature i = '''' \<or> js_trim (sb_signature i) \<noteq> sb_signature i
      then throw ''Submission provider evidence identity is invalid.''
      else if \<not> absent_or (code_text 64) (sb_providerErrorCode i) then throw ''Submission provider error code is invalid.''
      else if \<not> absent_or decimal_text (sb_slot i) then throw ''Submission slot is invalid.''
      else if \<not> absent_or (word_text 32) (sb_confirmationStatus i) then throw ''Submission confirmation status is invalid.''
      else if (sb_outcome i = SO_VALIDATION_FAILED) \<noteq> (sb_contactCertainty i = NOT_STARTED) \<or>
        (sb_outcome i = SO_ACCEPTED \<or> sb_outcome i = SO_SETTLED) \<noteq> (sb_contactCertainty i = CONTACT_ACCEPTED)
      then throw ''Submission outcome contact certainty is contradictory.''
      else Inr ())"

section \<open>The repository\<close>

record devnet_store =
  ds_preparations :: "(string, preparation) js_map"
  ds_commitments :: "(string, commitment) js_map"
  ds_observations :: "(string, reconciliation_observation list) js_map"
  ds_submissionObservations :: "(string, submission_observation list) js_map"

definition empty_devnet_store :: devnet_store where
  "empty_devnet_store = \<lparr>ds_preparations = [], ds_commitments = [], ds_observations = [], ds_submissionObservations = []\<rparr>"

definition active_preparation :: "devnet_store \<Rightarrow> string \<Rightarrow> preparation option" where
  "active_preparation s executionId =
     find (\<lambda>v. pr_executionId v = executionId \<and> pr_state v \<noteq> ABANDONED_PRE_CONTACT) (js_values (ds_preparations s))"

fun assert_unique :: "preparation_input \<Rightarrow> preparation list \<Rightarrow> unit result" where
  "assert_unique i [] = Inr ()"
| "assert_unique i (v # vs) =
     (if pr_preparationId v = dp_preparationId i then throw ''Preparation ID already exists.''
      else if pa_signature (pr_artifact v) = pa_signature (dp_artifact i)
      then throw ''Devnet transaction signature already exists.''
      else if pa_signedTransactionDigest (pr_artifact v) = pa_signedTransactionDigest (dp_artifact i)
      then throw ''Devnet signed-byte digest already exists.''
      else assert_unique i vs)"

definition assertUnique :: "preparation_input \<Rightarrow> devnet_store \<Rightarrow> unit result" where
  "assertUnique i s = assert_unique i (js_values (ds_preparations s))"

definition fresh_preparation :: "preparation_input \<Rightarrow> preparation" where
  "fresh_preparation i = \<lparr>pr_preparationId = dp_preparationId i, pr_executionId = dp_executionId i,
     pr_paymentIntentId = dp_paymentIntentId i, pr_actorSubject = dp_actorSubject i, pr_generation = dp_generation i,
     pr_state = PREPARED_NOT_CONTACTED, pr_encrypted = dp_encrypted i, pr_artifact = dp_artifact i,
     pr_preparedAt = dp_preparedAt i, pr_abandonedAt = None, pr_committedAt = None\<rparr>"

definition set_preparation :: "preparation \<Rightarrow> devnet_store \<Rightarrow> devnet_store" where
  "set_preparation p s = s\<lparr>ds_preparations := js_set (ds_preparations s) (pr_preparationId p) p\<rparr>"

definition persistPreparation :: "preparation_input \<Rightarrow> devnet_store \<Rightarrow> (devnet_store, preparation) outcome" where
  "persistPreparation i s =
     when_ok (assertPreparedArtifact i) s (\<lambda>_.
     when_ok (assertUnique i s) s (\<lambda>_.
       if active_preparation s (dp_executionId i) \<noteq> None
       then (throw ''Execution already has an active Devnet preparation.'', s)
       else (Inr (fresh_preparation i), set_preparation (fresh_preparation i) s)))"

definition replaceExpiredPreparation ::
  "replace_preparation_input \<Rightarrow> devnet_store \<Rightarrow> (devnet_store, preparation) outcome" where
  "replaceExpiredPreparation i s = (let r = dr_replacement i in
     when_ok (assertPreparedArtifact r) s (\<lambda>_.
       case js_get (ds_preparations s) (dr_priorPreparationId i) of
         None \<Rightarrow> (throw ''Prior preparation was not found for this owner.'', s)
       | Some prior \<Rightarrow>
           if pr_executionId prior \<noteq> dp_executionId r \<or> pr_actorSubject prior \<noteq> dp_actorSubject r
           then (throw ''Prior preparation was not found for this owner.'', s)
           else if pr_state prior \<noteq> PREPARED_NOT_CONTACTED \<or> js_has (ds_commitments s) (pr_executionId prior)
           then (throw ''Committed Devnet preparation is reconciliation-only and cannot be replaced.'', s)
           else if dp_generation r \<noteq> pr_generation prior + 1
           then (throw ''Replacement preparation generation must increment exactly once.'', s)
           else when_ok (assertUnique r s) s (\<lambda>_.
             (Inr (fresh_preparation r),
              set_preparation (fresh_preparation r)
                (set_preparation (prior\<lparr>pr_state := ABANDONED_PRE_CONTACT, pr_abandonedAt := Some (dr_abandonedAt i)\<rparr>) s)))))"

definition commitSubmission ::
  "commit_submission_input \<Rightarrow> devnet_store \<Rightarrow> (devnet_store, preparation \<times> commitment \<times> bool) outcome" where
  "commitSubmission i s = (case js_get (ds_commitments s) (dc_executionId i) of
     Some existing \<Rightarrow>
       if cm_preparationId existing \<noteq> dc_preparationId i \<or> cm_commitmentId existing \<noteq> dc_commitmentId i
       then (throw ''Devnet submission commitment conflict.'', s)
       else (case js_get (ds_preparations s) (cm_preparationId existing) of
           None \<Rightarrow> (throw ''Cannot read properties of undefined (reading 'encryptedSignedTransaction')'', s)
         | Some p \<Rightarrow> (Inr (p, existing, False), s))
   | None \<Rightarrow> (case js_get (ds_preparations s) (dc_preparationId i) of
       None \<Rightarrow> (throw ''Prepared artifact was not found for this owner.'', s)
     | Some p \<Rightarrow>
         if pr_executionId p \<noteq> dc_executionId i \<or> pr_actorSubject p \<noteq> dc_actorSubject i
         then (throw ''Prepared artifact was not found for this owner.'', s)
         else if pr_state p \<noteq> PREPARED_NOT_CONTACTED
         then (throw ''Only a never-contacted preparation may be committed.'', s)
         else let c = \<lparr>cm_commitmentId = dc_commitmentId i, cm_executionId = dc_executionId i,
                  cm_preparationId = dc_preparationId i, cm_signature = pa_signature (pr_artifact p),
                  cm_signedTransactionDigest = pa_signedTransactionDigest (pr_artifact p),
                  cm_committedAt = dc_committedAt i\<rparr>;
                committed = p\<lparr>pr_state := SUBMISSION_COMMITTED_RECONCILE_ONLY, pr_committedAt := Some (dc_committedAt i)\<rparr> in
           (Inr (committed, c, True),
            s\<lparr>ds_commitments := js_set (ds_commitments s) (dc_executionId i) c,
              ds_preparations := js_set (ds_preparations s) (dc_preparationId i) committed\<rparr>)))"

definition findPreparation :: "devnet_store \<Rightarrow> string \<Rightarrow> string \<Rightarrow> preparation option" where
  "findPreparation s executionId actor = (case active_preparation s executionId of
     None \<Rightarrow> None | Some v \<Rightarrow> if pr_actorSubject v = actor then Some v else None)"

definition findCommitment :: "devnet_store \<Rightarrow> string \<Rightarrow> string \<Rightarrow> commitment option" where
  "findCommitment s executionId actor = (case findPreparation s executionId actor of
     None \<Rightarrow> None | Some p \<Rightarrow> js_get (ds_commitments s) executionId)"

definition same_reconciliation :: "reconciliation_observation \<Rightarrow> reconciliation_input \<Rightarrow> bool" where
  "same_reconciliation prior next = (ro_providerId prior = ri_providerId next \<and> ro_signature prior = ri_signature next \<and>
     ro_outcome prior = ri_outcome next \<and> ro_slot prior = ri_slot next \<and>
     ro_confirmationStatus prior = ri_confirmationStatus next \<and> ro_errorCode prior = ri_errorCode next)"

definition reconciliations_of :: "devnet_store \<Rightarrow> string \<Rightarrow> reconciliation_observation list" where
  "reconciliations_of s k = coalesce (js_get (ds_observations s) k) []"

definition submissions_of :: "devnet_store \<Rightarrow> string \<Rightarrow> submission_observation list" where
  "submissions_of s k = coalesce (js_get (ds_submissionObservations s) k) []"

definition next_reconciliation :: "reconciliation_input \<Rightarrow> nat \<Rightarrow> reconciliation_observation" where
  "next_reconciliation i n = \<lparr>ro_observationId = ri_observationId i, ro_executionId = ri_executionId i,
     ro_preparationId = ri_preparationId i, ro_sequence = n, ro_providerId = ri_providerId i,
     ro_signature = ri_signature i, ro_outcome = ri_outcome i, ro_observedAt = ri_observedAt i, ro_slot = ri_slot i,
     ro_confirmationStatus = ri_confirmationStatus i, ro_errorCode = ri_errorCode i\<rparr>"

definition recordReconciliationObservation ::
  "runtime_env \<Rightarrow> reconciliation_input \<Rightarrow> devnet_store \<Rightarrow> (devnet_store, preparation \<times> reconciliation_observation) outcome" where
  "recordReconciliationObservation env i s =
     when_ok (assertReconciliationEvidence env i) s (\<lambda>_.
       case js_get (ds_preparations s) (ri_preparationId i) of
         None \<Rightarrow> (throw ''Prepared artifact was not found for this owner.'', s)
       | Some p \<Rightarrow>
           if pr_executionId p \<noteq> ri_executionId i \<or> pr_actorSubject p \<noteq> ri_actorSubject i
           then (throw ''Prepared artifact was not found for this owner.'', s)
           else if ri_providerId i \<noteq> pa_reconciliationProviderId (pr_artifact p)
           then (throw ''Reconciliation provider does not match immutable preparation policy.'', s)
           else (case js_get (ds_commitments s) (ri_executionId i) of
             None \<Rightarrow> (throw ''Reconciliation signature does not match the immutable commitment.'', s)
           | Some c \<Rightarrow>
               if ri_signature i \<noteq> pa_signature (pr_artifact p) \<or> ri_signature i \<noteq> cm_signature c
               then (throw ''Reconciliation signature does not match the immutable commitment.'', s)
               else let list = reconciliations_of s (ri_executionId i) in
                 if list \<noteq> [] \<and> (pr_state p \<in> set [D_SETTLED, D_FAILED] \<or> same_reconciliation (last list) i)
                 then (Inr (p, last list), s)
                 else when_ok (reconciliationLifecycle (pr_state p) (ri_outcome i)) s (\<lambda>st.
                   if list_ex (\<lambda>v. ro_observationId v = ri_observationId i) list
                   then (throw ''Reconciliation observation ID already exists.'', s)
                   else let observation = next_reconciliation i (length list + 1); updated = p\<lparr>pr_state := st\<rparr> in
                     (Inr (updated, observation),
                      set_preparation updated (s\<lparr>ds_observations := js_set (ds_observations s) (ri_executionId i)
                        (list @ [observation])\<rparr>)))))"

definition listReconciliationObservations :: "devnet_store \<Rightarrow> string \<Rightarrow> string \<Rightarrow> reconciliation_observation list" where
  "listReconciliationObservations s executionId actor =
     (if findPreparation s executionId actor \<noteq> None then reconciliations_of s executionId else [])"

definition recordSubmissionObservation ::
  "submission_input \<Rightarrow> devnet_store \<Rightarrow> (devnet_store, preparation \<times> submission_observation) outcome" where
  "recordSubmissionObservation i s =
     when_ok (assertSubmissionEvidence i) s (\<lambda>_.
       case (js_get (ds_preparations s) (sb_preparationId i), js_get (ds_commitments s) (sb_executionId i)) of
         (Some p, Some c) \<Rightarrow>
           if pr_executionId p \<noteq> sb_executionId i \<or> pr_actorSubject p \<noteq> si_actorSubject i \<or> cm_commitmentId c \<noteq> sb_commitmentId i
           then (throw ''Committed preparation was not found for this owner.'', s)
           else if sb_providerId i \<noteq> pa_submissionProviderId (pr_artifact p) \<or> sb_signature i \<noteq> cm_signature c
           then (throw ''Submission evidence does not match immutable commitment policy.'', s)
           else when_ok (submissionLifecycle (pr_state p) (sb_outcome i)) s (\<lambda>st.
             let list = submissions_of s (sb_executionId i) in
             if list_ex (\<lambda>v. sb_observationId v = sb_observationId i) list
             then (throw ''Submission observation ID already exists.'', s)
             else let observation = submission_observation.truncate i; updated = p\<lparr>pr_state := st\<rparr> in
               (Inr (updated, observation),
                set_preparation updated (s\<lparr>ds_submissionObservations := js_set (ds_submissionObservations s) (sb_executionId i)
                  (list @ [observation])\<rparr>)))
       | _ \<Rightarrow> (throw ''Committed preparation was not found for this owner.'', s))"

definition listSubmissionObservations :: "devnet_store \<Rightarrow> string \<Rightarrow> string \<Rightarrow> submission_observation list" where
  "listSubmissionObservations s executionId actor =
     (if findPreparation s executionId actor \<noteq> None then submissions_of s executionId else [])"

definition listPreparationEligible :: "devnet_store \<Rightarrow> preparation list" where
  "listPreparationEligible s = filter (\<lambda>v. pr_state v = PREPARED_NOT_CONTACTED) (js_values (ds_preparations s))"

definition listReconciliationEligible :: "devnet_store \<Rightarrow> preparation list" where
  "listReconciliationEligible s = filter (\<lambda>v. pr_state v \<in> set [SUBMISSION_COMMITTED_RECONCILE_ONLY, ACCEPTED_PENDING,
     UNKNOWN_RECONCILIATION_REQUIRED]) (js_values (ds_preparations s))"

end
