(* ===== verification/DevnetStateProperties.thy ===== *)
theory DevnetStateProperties
  imports DevnetState Versioned
begin

text \<open>
  What every operation of the devnet repository may do to its state, as an abstract specification of
  five changes; that the operations refine it; and what follows for every state that can be reached.
\<close>

section \<open>The abstract specification\<close>

definition contacted :: "preparation \<Rightarrow> bool" where
  "contacted p \<longleftrightarrow> pr_state p \<noteq> PREPARED_NOT_CONTACTED \<and> pr_state p \<noteq> ABANDONED_PRE_CONTACT"

definition terminal_preparation :: "preparation \<Rightarrow> bool" where
  "terminal_preparation p \<longleftrightarrow> pr_state p = D_SETTLED \<or> pr_state p = D_FAILED"

definition abandoned :: "preparation \<Rightarrow> bool" where
  "abandoned p \<longleftrightarrow> pr_state p = ABANDONED_PRE_CONTACT"

definition signature_of :: "preparation \<Rightarrow> string" where
  "signature_of p = pa_signature (pr_artifact p)"

definition digest_of :: "preparation \<Rightarrow> string" where
  "digest_of p = pa_signedTransactionDigest (pr_artifact p)"

abbreviation prepared :: "devnet_store \<Rightarrow> string \<Rightarrow> preparation option" where
  "prepared s k \<equiv> js_get (ds_preparations s) k"

abbreviation committed_for :: "devnet_store \<Rightarrow> string \<Rightarrow> commitment option" where
  "committed_for s k \<equiv> js_get (ds_commitments s) k"

text \<open>A preparation that may be added: its id, signature and digest are new, and it was never contacted.\<close>

definition new_to :: "devnet_store \<Rightarrow> preparation \<Rightarrow> bool" where
  "new_to s p \<longleftrightarrow> pr_state p = PREPARED_NOT_CONTACTED \<and> prepared s (pr_preparationId p) = None \<and>
     (\<forall>k q. prepared s k = Some q \<longrightarrow> signature_of q \<noteq> signature_of p \<and> digest_of q \<noteq> digest_of p)"

text \<open>Evidence from the chain itself: finalized, with its slot.\<close>

definition finalized_evidence :: "reconciliation_observation \<Rightarrow> bool" where
  "finalized_evidence r \<longleftrightarrow> ro_confirmationStatus r = Some ''finalized'' \<and> ro_slot r \<noteq> None"

inductive devnet_change :: "devnet_store \<Rightarrow> devnet_store \<Rightarrow> bool" where
  unchanged: "devnet_change s s"
| prepare: "new_to s p \<Longrightarrow> (\<forall>k q. prepared s k = Some q \<longrightarrow> pr_executionId q = pr_executionId p \<longrightarrow> abandoned q) \<Longrightarrow>
    devnet_change s (set_preparation p s)"
| replace: "prepared s (pr_preparationId old) = Some old \<Longrightarrow> pr_state old = PREPARED_NOT_CONTACTED \<Longrightarrow>
    committed_for s (pr_executionId old) = None \<Longrightarrow> new_to s p \<Longrightarrow> pr_executionId p = pr_executionId old \<Longrightarrow>
    pr_generation p = pr_generation old + 1 \<Longrightarrow>
    devnet_change s (set_preparation p (set_preparation (old\<lparr>pr_state := ABANDONED_PRE_CONTACT, pr_abandonedAt := Some t\<rparr>) s))"
| commit: "prepared s (pr_preparationId p) = Some p \<Longrightarrow> pr_state p = PREPARED_NOT_CONTACTED \<Longrightarrow>
    committed_for s (pr_executionId p) = None \<Longrightarrow> cm_executionId c = pr_executionId p \<Longrightarrow>
    cm_preparationId c = pr_preparationId p \<Longrightarrow> cm_signature c = signature_of p \<Longrightarrow>
    cm_signedTransactionDigest c = digest_of p \<Longrightarrow>
    devnet_change s (set_preparation (p\<lparr>pr_state := SUBMISSION_COMMITTED_RECONCILE_ONLY, pr_committedAt := Some t\<rparr>)
      (s\<lparr>ds_commitments := js_set (ds_commitments s) (pr_executionId p) c\<rparr>))"
| observe: "prepared s (pr_preparationId p) = Some p \<Longrightarrow> contacted p \<Longrightarrow> \<not> terminal_preparation p \<Longrightarrow>
    contacted (p\<lparr>pr_state := st\<rparr>) \<Longrightarrow> (st = D_SETTLED \<longleftrightarrow> sb_outcome x = SO_SETTLED) \<Longrightarrow>
    (st = D_FAILED \<longleftrightarrow> sb_outcome x = SO_REJECTED) \<Longrightarrow> (sb_outcome x = SO_SETTLED \<longrightarrow> sb_contactCertainty x = CONTACT_ACCEPTED) \<Longrightarrow>
    devnet_change s (set_preparation (p\<lparr>pr_state := st\<rparr>) (s\<lparr>ds_submissionObservations :=
      js_set (ds_submissionObservations s) (pr_executionId p) (submissions_of s (pr_executionId p) @ [x])\<rparr>))"
| reconcile: "prepared s (pr_preparationId p) = Some p \<Longrightarrow> contacted p \<Longrightarrow> \<not> terminal_preparation p \<Longrightarrow>
    contacted (p\<lparr>pr_state := st\<rparr>) \<Longrightarrow> ro_executionId r = pr_executionId p \<Longrightarrow> ro_signature r = signature_of p \<Longrightarrow>
    ro_sequence r = length (reconciliations_of s (pr_executionId p)) + 1 \<Longrightarrow>
    (st = D_SETTLED \<longleftrightarrow> ro_outcome r = RO_SETTLED) \<Longrightarrow> (st = D_FAILED \<longleftrightarrow> ro_outcome r = RO_FAILED) \<Longrightarrow>
    (terminal_preparation (p\<lparr>pr_state := st\<rparr>) \<longrightarrow> finalized_evidence r) \<Longrightarrow>
    devnet_change s (set_preparation (p\<lparr>pr_state := st\<rparr>) (s\<lparr>ds_observations :=
      js_set (ds_observations s) (pr_executionId p) (reconciliations_of s (pr_executionId p) @ [r])\<rparr>))"

inductive_cases devnet_changeE: "devnet_change s t"

section \<open>Well-formed repositories\<close>

definition preparations_ok :: "devnet_store \<Rightarrow> bool" where
  "preparations_ok s \<longleftrightarrow> js_keys_distinct (ds_preparations s) \<and>
     (\<forall>k p. prepared s k = Some p \<longrightarrow> pr_preparationId p = k) \<and>
     (\<forall>j k p q. prepared s j = Some p \<longrightarrow> prepared s k = Some q \<longrightarrow> j \<noteq> k \<longrightarrow>
        signature_of p \<noteq> signature_of q \<and> digest_of p \<noteq> digest_of q)"

definition lineage_ok :: "devnet_store \<Rightarrow> bool" where
  "lineage_ok s \<longleftrightarrow>
     (\<forall>j k p q. prepared s j = Some p \<longrightarrow> prepared s k = Some q \<longrightarrow> j \<noteq> k \<longrightarrow> pr_executionId p = pr_executionId q \<longrightarrow>
        abandoned p \<or> abandoned q) \<and>
     (\<forall>k p. prepared s k = Some p \<longrightarrow>
        (\<exists>j q. prepared s j = Some q \<and> pr_executionId q = pr_executionId p \<and> \<not> abandoned q \<and>
           (j \<noteq> k \<longrightarrow> pr_generation p < pr_generation q)))"

definition commitments_ok :: "devnet_store \<Rightarrow> bool" where
  "commitments_ok s \<longleftrightarrow>
     (\<forall>k c. committed_for s k = Some c \<longrightarrow> cm_executionId c = k \<and>
        (\<exists>p. prepared s (cm_preparationId c) = Some p \<and> pr_executionId p = k \<and> contacted p \<and>
           cm_signature c = signature_of p \<and> cm_signedTransactionDigest c = digest_of p)) \<and>
     (\<forall>k p. prepared s k = Some p \<longrightarrow> contacted p \<longrightarrow> committed_for s (pr_executionId p) \<noteq> None)"

definition observations_ok :: "devnet_store \<Rightarrow> bool" where
  "observations_ok s \<longleftrightarrow> (\<forall>k. map ro_sequence (reconciliations_of s k) = [1..<Suc (length (reconciliations_of s k))] \<and>
     (\<forall>r\<in>set (reconciliations_of s k). ro_executionId r = k \<and>
        (\<exists>c. committed_for s k = Some c \<and> ro_signature r = cm_signature c)))"

text \<open>What shows that the execution of a preparation settled, or failed.\<close>

definition settled_evidence :: "devnet_store \<Rightarrow> string \<Rightarrow> bool" where
  "settled_evidence s k \<longleftrightarrow> (\<exists>r\<in>set (reconciliations_of s k). ro_outcome r = RO_SETTLED \<and> finalized_evidence r) \<or>
     (\<exists>x\<in>set (submissions_of s k). sb_outcome x = SO_SETTLED \<and> sb_contactCertainty x = CONTACT_ACCEPTED)"

definition failed_evidence :: "devnet_store \<Rightarrow> string \<Rightarrow> bool" where
  "failed_evidence s k \<longleftrightarrow> (\<exists>r\<in>set (reconciliations_of s k). ro_outcome r = RO_FAILED \<and> finalized_evidence r) \<or>
     (\<exists>x\<in>set (submissions_of s k). sb_outcome x = SO_REJECTED)"

definition evidence_ok :: "devnet_store \<Rightarrow> bool" where
  "evidence_ok s \<longleftrightarrow> (\<forall>k p. prepared s k = Some p \<longrightarrow>
     (pr_state p = D_SETTLED \<longrightarrow> settled_evidence s (pr_executionId p)) \<and>
     (pr_state p = D_FAILED \<longrightarrow> failed_evidence s (pr_executionId p)))"

definition devnet_ok :: "devnet_store \<Rightarrow> bool" where
  "devnet_ok s \<longleftrightarrow> preparations_ok s \<and> lineage_ok s \<and> commitments_ok s \<and> observations_ok s \<and> evidence_ok s"

lemmas devnet_ok_defs = devnet_ok_def preparations_ok_def lineage_ok_def commitments_ok_def observations_ok_def
  evidence_ok_def

lemma devnet_ok_empty: "devnet_ok empty_devnet_store"
  by (simp add: devnet_ok_defs empty_devnet_store_def reconciliations_of_def)

lemma set_preparation_parts [simp]:
  "prepared (set_preparation p s) k = (if k = pr_preparationId p then Some p else prepared s k)"
  "ds_commitments (set_preparation p s) = ds_commitments s"
  "reconciliations_of (set_preparation p s) k = reconciliations_of s k"
  "reconciliations_of (s\<lparr>ds_commitments := cs\<rparr>) k = reconciliations_of s k"
  "reconciliations_of (s\<lparr>ds_submissionObservations := os\<rparr>) k = reconciliations_of s k"
  by (simp_all add: set_preparation_def reconciliations_of_def)

lemma set_preparation_keys [simp]:
  "js_keys_distinct (ds_preparations s) \<Longrightarrow> js_keys_distinct (ds_preparations (set_preparation p s))"
  by (simp add: set_preparation_def)

lemma state_update_parts [simp]:
  "signature_of (p\<lparr>pr_state := st\<rparr>) = signature_of p" "digest_of (p\<lparr>pr_state := st\<rparr>) = digest_of p"
  "signature_of (p\<lparr>pr_abandonedAt := a\<rparr>) = signature_of p" "digest_of (p\<lparr>pr_abandonedAt := a\<rparr>) = digest_of p"
  "signature_of (p\<lparr>pr_committedAt := a\<rparr>) = signature_of p" "digest_of (p\<lparr>pr_committedAt := a\<rparr>) = digest_of p"
  by (simp_all add: signature_of_def digest_of_def)

lemma contacted_states [simp]:
  "contacted (p\<lparr>pr_state := SUBMISSION_COMMITTED_RECONCILE_ONLY, pr_committedAt := t\<rparr>)"
  "\<not> abandoned (p\<lparr>pr_state := SUBMISSION_COMMITTED_RECONCILE_ONLY, pr_committedAt := t\<rparr>)"
  "abandoned (p\<lparr>pr_state := ABANDONED_PRE_CONTACT, pr_abandonedAt := t\<rparr>)"
  by (simp_all add: contacted_def abandoned_def)

lemma contacted_not_abandoned: "contacted p \<Longrightarrow> \<not> abandoned p"
  by (simp add: contacted_def abandoned_def)

section \<open>The changes keep the repository well-formed\<close>

text \<open>Every change adds a new preparation or moves a known one, or both.\<close>

definition moves :: "devnet_store \<Rightarrow> preparation \<Rightarrow> bool" where
  "moves s p \<longleftrightarrow> (\<exists>old. prepared s (pr_preparationId p) = Some old \<and> signature_of p = signature_of old \<and>
     digest_of p = digest_of old \<and> pr_executionId p = pr_executionId old \<and> pr_generation p = pr_generation old)"

lemma movesI: "prepared s (pr_preparationId old) = Some old \<Longrightarrow> pr_preparationId p = pr_preparationId old \<Longrightarrow>
    signature_of p = signature_of old \<Longrightarrow> digest_of p = digest_of old \<Longrightarrow> pr_executionId p = pr_executionId old \<Longrightarrow>
    pr_generation p = pr_generation old \<Longrightarrow> moves s p"
  by (auto simp: moves_def)

lemma new_after_move: "moves s old \<Longrightarrow> new_to s p \<Longrightarrow> new_to (set_preparation old s) p"
proof -
  assume m: "moves s old" and n: "new_to s p"
  from m obtain o' where o': "prepared s (pr_preparationId old) = Some o'" "signature_of old = signature_of o'"
    "digest_of old = digest_of o'" by (auto simp: moves_def)
  with n have "signature_of old \<noteq> signature_of p" "digest_of old \<noteq> digest_of p" unfolding new_to_def by metis+
  with n o'(1) show ?thesis unfolding new_to_def by auto
qed

lemma add_preparation_ok:
  assumes "preparations_ok s" and "new_to s p"
  shows "preparations_ok (set_preparation p s)"
  using assms unfolding preparations_ok_def new_to_def by (simp split: if_split) metis

lemma move_preparation_ok:
  assumes "preparations_ok s" and "moves s p"
  shows "preparations_ok (set_preparation p s)"
  using assms unfolding preparations_ok_def moves_def by (simp split: if_split) metis

lemma preparations_ok_cong [simp]:
  "preparations_ok (s\<lparr>ds_commitments := c\<rparr>) = preparations_ok s"
  "preparations_ok (s\<lparr>ds_observations := x\<rparr>) = preparations_ok s"
  "preparations_ok (s\<lparr>ds_submissionObservations := y\<rparr>) = preparations_ok s"
  by (simp_all add: preparations_ok_def)

lemma moves_cong [simp]:
  "moves (s\<lparr>ds_commitments := c\<rparr>) p = moves s p"
  "moves (s\<lparr>ds_observations := x\<rparr>) p = moves s p"
  "moves (s\<lparr>ds_submissionObservations := y\<rparr>) p = moves s p"
  by (simp_all add: moves_def)

lemma change_preparations_ok:
  assumes "preparations_ok s" and "devnet_change s t"
  shows "preparations_ok t"
  using assms(2)
proof (cases rule: devnet_change.cases)
  case (replace old p u)
  have "moves s (old\<lparr>pr_state := ABANDONED_PRE_CONTACT, pr_abandonedAt := Some u\<rparr>)"
    by (rule movesI [OF replace(2)]) simp_all
  with replace assms(1) show ?thesis by (simp add: add_preparation_ok move_preparation_ok new_after_move)
next
  case (commit p c u)
  show ?thesis unfolding commit(1)
    by (rule move_preparation_ok) (use assms(1) commit in \<open>auto intro: movesI [OF commit(2)]\<close>)
next
  case (observe p st x)
  show ?thesis unfolding observe(1)
    by (rule move_preparation_ok) (use assms(1) in \<open>auto intro: movesI [OF observe(2)]\<close>)
next
  case (reconcile p st r)
  show ?thesis unfolding reconcile(1)
    by (rule move_preparation_ok) (use assms(1) in \<open>auto intro: movesI [OF reconcile(2)]\<close>)
qed (use assms(1) in \<open>simp_all add: add_preparation_ok\<close>)

text \<open>Moving a preparation without abandoning it keeps the lineage.\<close>

lemma move_lineage:
  assumes "lineage_ok s" and "prepared s (pr_preparationId p) = Some old" and "pr_executionId p = pr_executionId old"
    and "pr_generation p = pr_generation old" and "abandoned p \<longleftrightarrow> abandoned old"
  shows "lineage_ok (set_preparation p s)"
  unfolding lineage_ok_def
proof (intro conjI allI impI)
  fix j k a b assume ab: "prepared (set_preparation p s) j = Some a" "prepared (set_preparation p s) k = Some b"
    "j \<noteq> k" "pr_executionId a = pr_executionId b"
  have before: "\<exists>x'. prepared s i = Some x' \<and> pr_executionId x' = pr_executionId x \<and> (abandoned x' \<longleftrightarrow> abandoned x)"
    if "prepared (set_preparation p s) i = Some x" for i x
    using that assms(2,3,5) by (auto split: if_splits)
  from before [OF ab(1)] before [OF ab(2)] ab(3,4) assms(1) show "abandoned a \<or> abandoned b"
    unfolding lineage_ok_def by metis
next
  fix k a assume a: "prepared (set_preparation p s) k = Some a"
  define a' where "a' = (if k = pr_preparationId p then old else a)"
  have a': "prepared s k = Some a'" "pr_executionId a' = pr_executionId a" "pr_generation a' = pr_generation a"
    using a assms(2-4) by (auto simp: a'_def split: if_splits)
  from assms(1) a'(1) obtain j q where q: "prepared s j = Some q" "pr_executionId q = pr_executionId a'" "\<not> abandoned q"
    "j \<noteq> k \<longrightarrow> pr_generation a' < pr_generation q" unfolding lineage_ok_def by blast
  define q' where "q' = (if j = pr_preparationId p then p else q)"
  have "prepared (set_preparation p s) j = Some q'" "pr_executionId q' = pr_executionId q" "\<not> abandoned q'"
    "pr_generation q' = pr_generation q"
    using q assms(2-5) by (auto simp: q'_def)
  with q a' show "\<exists>j q. prepared (set_preparation p s) j = Some q \<and> pr_executionId q = pr_executionId a \<and> \<not> abandoned q \<and>
      (j \<noteq> k \<longrightarrow> pr_generation a < pr_generation q)" by metis
qed

lemma lineage_cong [simp]:
  "lineage_ok (s\<lparr>ds_commitments := c\<rparr>) = lineage_ok s"
  "lineage_ok (s\<lparr>ds_observations := x\<rparr>) = lineage_ok s"
  "lineage_ok (s\<lparr>ds_submissionObservations := y\<rparr>) = lineage_ok s"
  by (simp_all add: lineage_ok_def)

lemma first_lineage:
  assumes "lineage_ok s" and "new_to s p"
    and "\<forall>k q. prepared s k = Some q \<longrightarrow> pr_executionId q = pr_executionId p \<longrightarrow> abandoned q"
  shows "lineage_ok (set_preparation p s)"
proof -
  have none: "pr_executionId q \<noteq> pr_executionId p" if "prepared s k = Some q" for k q
    using assms(1,3) that unfolding lineage_ok_def by metis
  have act: "\<not> abandoned p" using assms(2) by (simp add: new_to_def abandoned_def)
  show ?thesis unfolding lineage_ok_def
  proof (intro conjI allI impI)
    fix j k a b assume ab: "prepared (set_preparation p s) j = Some a" "prepared (set_preparation p s) k = Some b"
      "j \<noteq> k" "pr_executionId a = pr_executionId b"
    then have "prepared s j = Some a" "prepared s k = Some b" using none by (auto split: if_splits)
    with ab(3,4) assms(1) show "abandoned a \<or> abandoned b" unfolding lineage_ok_def by blast
  next
    fix k a assume a: "prepared (set_preparation p s) k = Some a"
    show "\<exists>j q. prepared (set_preparation p s) j = Some q \<and> pr_executionId q = pr_executionId a \<and> \<not> abandoned q \<and>
      (j \<noteq> k \<longrightarrow> pr_generation a < pr_generation q)"
    proof (cases "k = pr_preparationId p")
      case True
      with a act show ?thesis by auto
    next
      case False
      with a have a: "prepared s k = Some a" by simp
      with assms(1) obtain j q where q: "prepared s j = Some q" "pr_executionId q = pr_executionId a" "\<not> abandoned q"
        "j \<noteq> k \<longrightarrow> pr_generation a < pr_generation q" unfolding lineage_ok_def by blast
      moreover have "j \<noteq> pr_preparationId p" using q(1) assms(2) by (auto simp: new_to_def)
      ultimately show ?thesis by auto
    qed
  qed
qed

lemma replace_lineage:
  assumes lin: "lineage_ok s" and old: "prepared s (pr_preparationId old) = Some old" "pr_state old = PREPARED_NOT_CONTACTED"
    and p: "new_to s p" "pr_executionId p = pr_executionId old" "pr_generation p = pr_generation old + 1"
  shows "lineage_ok (set_preparation p (set_preparation (old\<lparr>pr_state := ABANDONED_PRE_CONTACT, pr_abandonedAt := u\<rparr>) s))"
    (is "lineage_ok ?t")
proof -
  let ?o = "old\<lparr>pr_state := ABANDONED_PRE_CONTACT, pr_abandonedAt := u\<rparr>"
  have ne: "pr_preparationId p \<noteq> pr_preparationId old" using old p(1) by (auto simp: new_to_def)
  have act: "\<not> abandoned p" "\<not> abandoned old" using p(1) old(2) by (simp_all add: new_to_def abandoned_def)
  have others: "abandoned q" if "prepared s k = Some q" "k \<noteq> pr_preparationId old" "pr_executionId q = pr_executionId old" for k q
    using lin old(1) act(2) that unfolding lineage_ok_def by metis
  show ?thesis unfolding lineage_ok_def
  proof (intro conjI allI impI)
    fix j k a b assume ab: "prepared ?t j = Some a" "prepared ?t k = Some b" "j \<noteq> k" "pr_executionId a = pr_executionId b"
    have known: "abandoned x \<or> i = pr_preparationId p \<or> prepared s i = Some x \<and> i \<noteq> pr_preparationId old"
      if "prepared ?t i = Some x" for i x
      using that by (auto split: if_splits)
    have same: "abandoned x" if "prepared ?t (pr_preparationId p) = Some y" "prepared s i = Some x"
      "i \<noteq> pr_preparationId old" "pr_executionId x = pr_executionId y" for i x y
      using that others p(2) by auto
    show "abandoned a \<or> abandoned b"
      using known [OF ab(1)] known [OF ab(2)] same ab lin unfolding lineage_ok_def by metis
  next
    fix k a assume a: "prepared ?t k = Some a"
    show "\<exists>j q. prepared ?t j = Some q \<and> pr_executionId q = pr_executionId a \<and> \<not> abandoned q \<and>
      (j \<noteq> k \<longrightarrow> pr_generation a < pr_generation q)"
    proof (cases "pr_executionId a = pr_executionId old")
      case True
      have "pr_generation a < pr_generation p" if "k \<noteq> pr_preparationId p"
      proof (cases "k = pr_preparationId old")
        case True
        then show ?thesis using a ne p(3) by auto
      next
        case False
        with a that have ak: "prepared s k = Some a" by simp
        then obtain j q where q: "prepared s j = Some q" "pr_executionId q = pr_executionId a" "\<not> abandoned q"
          "j \<noteq> k \<longrightarrow> pr_generation a < pr_generation q" using lin unfolding lineage_ok_def by blast
        then have "j = pr_preparationId old" using others True by metis
        with q False old(1) have "pr_generation a < pr_generation old" by auto
        with p(3) show ?thesis by simp
      qed
      with act True p(2) show ?thesis by (intro exI [of _ "pr_preparationId p"]) auto
    next
      case False
      with a p(2) have ak: "prepared s k = Some a" by (auto split: if_splits)
      then obtain j q where q: "prepared s j = Some q" "pr_executionId q = pr_executionId a" "\<not> abandoned q"
        "j \<noteq> k \<longrightarrow> pr_generation a < pr_generation q" using lin unfolding lineage_ok_def by blast
      have "j \<noteq> pr_preparationId p" "j \<noteq> pr_preparationId old" using q p(1) old(1) False by (auto simp: new_to_def)
      with q show ?thesis by auto
    qed
  qed
qed

lemma change_lineage_ok:
  assumes "lineage_ok s" and "devnet_change s t"
  shows "lineage_ok t"
  using assms(2)
proof (cases rule: devnet_change.cases)
  case (prepare p)
  then show ?thesis using first_lineage assms(1) by blast
next
  case (replace old p u)
  show ?thesis unfolding replace(1) using assms(1) replace(2,3,5-7) by (rule replace_lineage)
next
  case (commit p c u)
  show ?thesis unfolding commit(1)
    by (rule move_lineage [where old = p]) (use assms(1) commit in \<open>simp_all add: abandoned_def\<close>)
next
  case (observe p st x)
  show ?thesis unfolding observe(1)
    by (rule move_lineage [where old = p]) (use assms(1) observe in \<open>simp_all add: contacted_not_abandoned\<close>)
next
  case (reconcile p st r)
  show ?thesis unfolding reconcile(1)
    by (rule move_lineage [where old = p]) (use assms(1) reconcile in \<open>simp_all add: contacted_not_abandoned\<close>)
qed (use assms(1) in simp)

text \<open>A change that leaves the commitments alone keeps them right when it moves no contacted preparation back.\<close>

lemma commitments_kept:
  assumes "commitments_ok s" and "ds_commitments t = ds_commitments s"
    and "\<And>k p. prepared s k = Some p \<Longrightarrow> contacted p \<Longrightarrow> \<exists>q. prepared t k = Some q \<and> contacted q \<and>
      pr_executionId q = pr_executionId p \<and> signature_of q = signature_of p \<and> digest_of q = digest_of p"
    and "\<And>k q. prepared t k = Some q \<Longrightarrow> contacted q \<Longrightarrow> \<exists>p. prepared s k = Some p \<and> contacted p \<and>
      pr_executionId q = pr_executionId p"
  shows "commitments_ok t"
  unfolding commitments_ok_def
proof (intro conjI allI impI)
  fix k c assume "committed_for t k = Some c"
  with assms(1,2) obtain p where "cm_executionId c = k" "prepared s (cm_preparationId c) = Some p" "pr_executionId p = k"
    "contacted p" "cm_signature c = signature_of p" "cm_signedTransactionDigest c = digest_of p"
    unfolding commitments_ok_def by auto
  then show "cm_executionId c = k" and "\<exists>p. prepared t (cm_preparationId c) = Some p \<and> pr_executionId p = k \<and> contacted p \<and>
      cm_signature c = signature_of p \<and> cm_signedTransactionDigest c = digest_of p"
    using assms(3) by metis+
next
  fix k p assume "prepared t k = Some p" "contacted p"
  with assms(1,2,4) show "committed_for t (pr_executionId p) \<noteq> None" unfolding commitments_ok_def by metis
qed

lemma commit_commitments:
  assumes "commitments_ok s" and p: "prepared s (pr_preparationId p) = Some p" "pr_state p = PREPARED_NOT_CONTACTED"
    and c: "committed_for s (pr_executionId p) = None" "cm_executionId c = pr_executionId p"
      "cm_preparationId c = pr_preparationId p" "cm_signature c = signature_of p" "cm_signedTransactionDigest c = digest_of p"
  shows "commitments_ok (set_preparation (p\<lparr>pr_state := SUBMISSION_COMMITTED_RECONCILE_ONLY, pr_committedAt := u\<rparr>)
    (s\<lparr>ds_commitments := js_set (ds_commitments s) (pr_executionId p) c\<rparr>))" (is "commitments_ok ?t")
  unfolding commitments_ok_def
proof (intro conjI allI impI)
  fix k d assume d: "committed_for ?t k = Some d"
  have nc: "\<not> contacted p" using p(2) by (simp add: contacted_def)
  show "cm_executionId d = k" using d assms(1) c(2) unfolding commitments_ok_def by (auto split: if_splits)
  show "\<exists>p. prepared ?t (cm_preparationId d) = Some p \<and> pr_executionId p = k \<and> contacted p \<and>
      cm_signature d = signature_of p \<and> cm_signedTransactionDigest d = digest_of p"
  proof (cases "k = pr_executionId p")
    case True
    with d c show ?thesis by auto
  next
    case False
    with d have "committed_for s k = Some d" by simp
    with assms(1) obtain q where q: "prepared s (cm_preparationId d) = Some q" "pr_executionId q = k" "contacted q"
      "cm_signature d = signature_of q" "cm_signedTransactionDigest d = digest_of q" unfolding commitments_ok_def by metis
    with nc p(1) have "cm_preparationId d \<noteq> pr_preparationId p" by auto
    with q show ?thesis by auto
  qed
next
  fix k q assume "prepared ?t k = Some q" "contacted q"
  then show "committed_for ?t (pr_executionId q) \<noteq> None"
    using assms(1) unfolding commitments_ok_def by (auto split: if_splits)
qed

lemma change_commitments_ok:
  assumes "commitments_ok s" and "devnet_change s t"
  shows "commitments_ok t"
  using assms(2)
proof (cases rule: devnet_change.cases)
  case (prepare p)
  show ?thesis using assms(1)
    by (rule commitments_kept) (use prepare in \<open>auto simp: new_to_def contacted_def split: if_splits\<close>)
next
  case (replace old p u)
  have "pr_preparationId p \<noteq> pr_preparationId old" using replace by (auto simp: new_to_def)
  show ?thesis using assms(1)
    by (rule commitments_kept) (use replace in \<open>auto simp: new_to_def contacted_def split: if_splits\<close>)
next
  case (commit p c u)
  show ?thesis unfolding commit(1) using assms(1) commit(2-8) by (rule commit_commitments)
next
  case (observe p st x)
  show ?thesis using assms(1) by (rule commitments_kept) (use observe in \<open>auto split: if_splits\<close>)
next
  case (reconcile p st r)
  show ?thesis using assms(1) by (rule commitments_kept) (use reconcile in \<open>auto split: if_splits\<close>)
qed (use assms(1) in simp)

lemma committed_never_changes:
  assumes "devnet_change s t" and "committed_for s k = Some c"
  shows "committed_for t k = Some c"
  using assms(1) by (cases rule: devnet_change.cases) (use assms(2) in auto)

text \<open>The commitment of a contacted preparation is a commitment to it.\<close>

lemma commitment_of_contacted:
  assumes "lineage_ok s" and "commitments_ok s" and "prepared s k = Some p" and "contacted p"
  obtains c where "committed_for s (pr_executionId p) = Some c" and "cm_preparationId c = k"
    and "cm_signature c = signature_of p" and "cm_signedTransactionDigest c = digest_of p"
proof -
  from assms(2-4) obtain c where c: "committed_for s (pr_executionId p) = Some c" unfolding commitments_ok_def by blast
  with assms(2) obtain q where q: "prepared s (cm_preparationId c) = Some q" "pr_executionId q = pr_executionId p"
    "contacted q" "cm_signature c = signature_of q" "cm_signedTransactionDigest c = digest_of q"
    unfolding commitments_ok_def by metis
  have "cm_preparationId c = k"
    using assms(1,3,4) q(1-3) contacted_not_abandoned unfolding lineage_ok_def by metis
  with that [OF c] q assms(3) show thesis by auto
qed

lemma change_observations_ok:
  assumes "observations_ok s" and "lineage_ok s" and "commitments_ok s" and "devnet_change s t"
  shows "observations_ok t"
proof (cases "\<forall>k. reconciliations_of t k = reconciliations_of s k")
  case True
  then show ?thesis
    using assms(1) committed_never_changes [OF assms(4)] unfolding observations_ok_def by metis
next
  case False
  with assms(4) obtain p st r where r: "prepared s (pr_preparationId p) = Some p" "contacted p"
    "ro_executionId r = pr_executionId p" "ro_signature r = signature_of p"
    "ro_sequence r = length (reconciliations_of s (pr_executionId p)) + 1"
    "t = set_preparation (p\<lparr>pr_state := st\<rparr>) (s\<lparr>ds_observations :=
      js_set (ds_observations s) (pr_executionId p) (reconciliations_of s (pr_executionId p) @ [r])\<rparr>)"
    by (cases rule: devnet_change.cases) auto
  obtain c where c: "committed_for s (pr_executionId p) = Some c" "cm_signature c = signature_of p"
    using commitment_of_contacted [OF assms(2,3) r(1,2)] by metis
  have same: "reconciliations_of t k = (if k = pr_executionId p then reconciliations_of s k @ [r] else reconciliations_of s k)"
    "committed_for t k = committed_for s k" for k
    by (simp_all add: r(6) reconciliations_of_def set_preparation_def)
  show ?thesis unfolding observations_ok_def
  proof (intro allI)
    fix k
    have "map ro_sequence (reconciliations_of s k) = [1..<Suc (length (reconciliations_of s k))]"
      "\<forall>r\<in>set (reconciliations_of s k). ro_executionId r = k \<and> (\<exists>c. committed_for s k = Some c \<and> ro_signature r = cm_signature c)"
      using assms(1) unfolding observations_ok_def by blast+
    then show "map ro_sequence (reconciliations_of t k) = [1..<Suc (length (reconciliations_of t k))] \<and>
      (\<forall>r\<in>set (reconciliations_of t k). ro_executionId r = k \<and> (\<exists>c. committed_for t k = Some c \<and> ro_signature r = cm_signature c))"
      using c r(3-5) by (auto simp: same)
  qed
qed

text \<open>Evidence is never taken back, and a preparation becomes terminal only with it.\<close>

lemma change_keeps_evidence:
  assumes "devnet_change s t"
  shows "settled_evidence s k \<Longrightarrow> settled_evidence t k" and "failed_evidence s k \<Longrightarrow> failed_evidence t k"
proof -
  have "set (reconciliations_of s k) \<subseteq> set (reconciliations_of t k) \<and> set (submissions_of s k) \<subseteq> set (submissions_of t k)"
    using assms by (cases rule: devnet_change.cases) (auto simp: reconciliations_of_def submissions_of_def set_preparation_def)
  then show "settled_evidence s k \<Longrightarrow> settled_evidence t k" and "failed_evidence s k \<Longrightarrow> failed_evidence t k"
    unfolding settled_evidence_def failed_evidence_def by blast+
qed

lemma change_evidence_ok:
  assumes "evidence_ok s" and "devnet_change s t"
  shows "evidence_ok t"
  unfolding evidence_ok_def
proof (intro allI impI)
  fix k q assume q: "prepared t k = Some q"
  show "(pr_state q = D_SETTLED \<longrightarrow> settled_evidence t (pr_executionId q)) \<and>
    (pr_state q = D_FAILED \<longrightarrow> failed_evidence t (pr_executionId q))"
  proof (cases "prepared s k = Some q")
    case True
    then show ?thesis using assms(1) change_keeps_evidence [OF assms(2)] unfolding evidence_ok_def by blast
  next
    case False
    from assms(2) show ?thesis
    proof (cases rule: devnet_change.cases)
      case (observe p st x)
      with q False have "q = p\<lparr>pr_state := st\<rparr>" by (simp split: if_splits)
      with observe show ?thesis by (auto simp: settled_evidence_def failed_evidence_def submissions_of_def set_preparation_def)
    next
      case (reconcile p st r)
      with q False have "q = p\<lparr>pr_state := st\<rparr>" by (simp split: if_splits)
      with reconcile show ?thesis
        by (auto simp: settled_evidence_def failed_evidence_def reconciliations_of_def set_preparation_def terminal_preparation_def)
    qed (use q False in \<open>auto simp: new_to_def split: if_splits\<close>)
  qed
qed

lemma change_devnet_ok: "devnet_ok s \<Longrightarrow> devnet_change s t \<Longrightarrow> devnet_ok t"
  unfolding devnet_ok_def
  using change_preparations_ok change_lineage_ok change_commitments_ok change_observations_ok change_evidence_ok by metis

interpretation dm: guarded_machine devnet_ok devnet_change
  by unfold_locales (rule change_devnet_ok)

section \<open>The operations refine the specification\<close>

lemma assert_unique_Inr:
  "assert_unique i vs = Inr () \<longleftrightarrow> (\<forall>v\<in>set vs. pr_preparationId v \<noteq> dp_preparationId i \<and>
     signature_of v \<noteq> pa_signature (dp_artifact i) \<and> digest_of v \<noteq> pa_signedTransactionDigest (dp_artifact i))"
  by (induction vs) (auto simp: signature_of_def digest_of_def)

lemma values_prepared:
  "js_keys_distinct (ds_preparations s) \<Longrightarrow> v \<in> set (js_values (ds_preparations s)) \<longleftrightarrow> (\<exists>k. prepared s k = Some v)"
  using js_values_in js_values_get by metis

lemma fresh_preparation_simps [simp]:
  "pr_preparationId (fresh_preparation i) = dp_preparationId i" "pr_executionId (fresh_preparation i) = dp_executionId i"
  "pr_actorSubject (fresh_preparation i) = dp_actorSubject i" "pr_generation (fresh_preparation i) = dp_generation i"
  "pr_state (fresh_preparation i) = PREPARED_NOT_CONTACTED" "pr_artifact (fresh_preparation i) = dp_artifact i"
  by (simp_all add: fresh_preparation_def)

lemma unique_is_new:
  assumes "preparations_ok s" and "assertUnique i s = Inr ()"
  shows "new_to s (fresh_preparation i)"
proof -
  have u: "pr_preparationId v \<noteq> dp_preparationId i \<and> signature_of v \<noteq> pa_signature (dp_artifact i) \<and>
      digest_of v \<noteq> pa_signedTransactionDigest (dp_artifact i)" if "prepared s k = Some v" for k v
    using assms(2) js_values_get [OF that] by (simp add: assertUnique_def assert_unique_Inr)
  have "prepared s (dp_preparationId i) = None"
  proof (rule ccontr)
    assume "prepared s (dp_preparationId i) \<noteq> None"
    then obtain v where v: "prepared s (dp_preparationId i) = Some v" by blast
    then have "pr_preparationId v = dp_preparationId i" using assms(1) unfolding preparations_ok_def by blast
    with u [OF v] show False by simp
  qed
  with u show ?thesis by (auto simp: new_to_def signature_of_def digest_of_def)
qed

lemma active_preparation_None:
  assumes "js_keys_distinct (ds_preparations s)"
  shows "active_preparation s e = None \<longleftrightarrow> (\<forall>k q. prepared s k = Some q \<longrightarrow> pr_executionId q = e \<longrightarrow> abandoned q)"
  using values_prepared [OF assms] by (auto simp: active_preparation_def find_None_iff abandoned_def)

lemma active_preparation_Some:
  assumes "js_keys_distinct (ds_preparations s)" and "active_preparation s e = Some p"
  shows "\<exists>k. prepared s k = Some p" "pr_executionId p = e" "\<not> abandoned p"
proof -
  from assms(2) have "p \<in> set (js_values (ds_preparations s)) \<and> pr_executionId p = e \<and> \<not> abandoned p"
    by (auto simp: active_preparation_def find_Some_iff abandoned_def)
  with values_prepared [OF assms(1)] show "\<exists>k. prepared s k = Some p" "pr_executionId p = e" "\<not> abandoned p" by auto
qed

text \<open>The preparation of an execution that is not abandoned is the one that is found.\<close>

lemma active_unique:
  assumes "devnet_ok s" and "prepared s k = Some p" and "\<not> abandoned p"
  shows "active_preparation s (pr_executionId p) = Some p"
proof -
  have d: "js_keys_distinct (ds_preparations s)" using assms(1) by (simp add: devnet_ok_def preparations_ok_def)
  from assms(2,3) active_preparation_None [OF d] obtain q where q: "active_preparation s (pr_executionId p) = Some q"
    by (metis not_None_eq)
  from active_preparation_Some [OF d q] obtain j where "prepared s j = Some q" "pr_executionId q = pr_executionId p" "\<not> abandoned q"
    by blast
  with assms have "p = q" unfolding devnet_ok_def lineage_ok_def by (metis option.inject)
  with q show ?thesis by simp
qed

lemma find_preparation_Some:
  assumes "devnet_ok s" and "findPreparation s e a = Some p"
  shows "prepared s (pr_preparationId p) = Some p" and "pr_executionId p = e"
proof -
  have k: "js_keys_distinct (ds_preparations s)" using assms(1) by (simp add: devnet_ok_def preparations_ok_def)
  from assms(2) have "active_preparation s e = Some p" by (auto simp: findPreparation_def split: option.splits if_splits)
  from active_preparation_Some [OF k this] assms(1) show "prepared s (pr_preparationId p) = Some p" "pr_executionId p = e"
    by (auto simp: devnet_ok_def preparations_ok_def)
qed

text \<open>An outcome refines the specification: a change, and none when it throws.\<close>

definition refines :: "devnet_store \<Rightarrow> (devnet_store, 'a) outcome \<Rightarrow> bool" where
  "refines s o' \<longleftrightarrow> devnet_change s (snd o') \<and> (\<not> succeeds (fst o') \<longrightarrow> snd o' = s)"

lemma refines_throw [simp]: "refines s (Inl e, s)" and refines_same [simp]: "refines s (r, s)"
  by (simp_all add: refines_def devnet_change.unchanged)

lemma refines_Inr [simp]: "refines s (Inr x, t) \<longleftrightarrow> devnet_change s t"
  by (simp add: refines_def)

lemma refines_when_ok: "(\<And>x. r = Inr x \<Longrightarrow> refines s (f x)) \<Longrightarrow> refines s (when_ok r s f)"
  by (cases r) simp_all

lemma persist_refines:
  assumes "devnet_ok s"
  shows "refines s (persistPreparation i s)"
proof -
  have k: "preparations_ok s" "js_keys_distinct (ds_preparations s)" using assms by (simp_all add: devnet_ok_def preparations_ok_def)
  show ?thesis unfolding persistPreparation_def using unique_is_new [OF k(1)] active_preparation_None [OF k(2)]
    by (auto intro!: refines_when_ok devnet_change.prepare)
qed

lemma replace_refines:
  assumes "devnet_ok s"
  shows "refines s (replaceExpiredPreparation i s)"
proof -
  let ?r = "dr_replacement i"
  have k: "preparations_ok s" using assms by (simp add: devnet_ok_def)
  have "devnet_change s (set_preparation (fresh_preparation ?r)
      (set_preparation (old\<lparr>pr_state := ABANDONED_PRE_CONTACT, pr_abandonedAt := Some (dr_abandonedAt i)\<rparr>) s))"
    if "prepared s (dr_priorPreparationId i) = Some old" "pr_executionId old = dp_executionId ?r"
      "pr_state old = PREPARED_NOT_CONTACTED" "\<not> js_has (ds_commitments s) (pr_executionId old)"
      "dp_generation ?r = pr_generation old + 1" "assertUnique ?r s = Inr ()" for old
  proof (rule devnet_change.replace)
    show "prepared s (pr_preparationId old) = Some old" using that(1) k by (simp add: preparations_ok_def)
    show "committed_for s (pr_executionId old) = None" using that(4) by (simp add: js_has_def)
  qed (use that unique_is_new [OF k] in simp_all)
  then show ?thesis
    unfolding replaceExpiredPreparation_def Let_def by (auto intro!: refines_when_ok split: option.split)
qed

lemma commit_refines:
  assumes "devnet_ok s"
  shows "refines s (commitSubmission i s)"
proof -
  have "devnet_change s (s\<lparr>ds_commitments := js_set (ds_commitments s) (pr_executionId p) c,
      ds_preparations := js_set (ds_preparations s) (dc_preparationId i)
        (p\<lparr>pr_state := SUBMISSION_COMMITTED_RECONCILE_ONLY, pr_committedAt := Some t\<rparr>)\<rparr>)"
    if p: "prepared s (dc_preparationId i) = Some p" "pr_state p = PREPARED_NOT_CONTACTED"
      "committed_for s (pr_executionId p) = None" and c: "cm_executionId c = pr_executionId p"
      "cm_preparationId c = dc_preparationId i" "cm_signature c = pa_signature (pr_artifact p)"
      "cm_signedTransactionDigest c = pa_signedTransactionDigest (pr_artifact p)" for p c t
  proof -
    have k: "pr_preparationId p = dc_preparationId i" using assms p(1) by (simp add: devnet_ok_def preparations_ok_def)
    show ?thesis using devnet_change.commit [of s p c t] that k
      by (simp add: set_preparation_def signature_of_def digest_of_def)
  qed
  then show ?thesis unfolding commitSubmission_def Let_def by (force split: option.split)
qed

text \<open>Which states the two kinds of evidence move, and to which.\<close>

lemma submissionLifecycle_Inr:
  "submissionLifecycle (pr_state p) outcome = Inr st \<Longrightarrow>
     contacted p \<and> \<not> terminal_preparation p \<and> contacted (p\<lparr>pr_state := st\<rparr>) \<and>
     (st = D_SETTLED \<longleftrightarrow> outcome = SO_SETTLED) \<and> (st = D_FAILED \<longleftrightarrow> outcome = SO_REJECTED)"
  by (auto simp: contacted_def terminal_preparation_def split: if_splits)

lemma reconciliationLifecycle_Inr:
  "reconciliationLifecycle (pr_state p) outcome = Inr st \<Longrightarrow>
     contacted p \<and> \<not> terminal_preparation p \<and> contacted (p\<lparr>pr_state := st\<rparr>) \<and>
     (st = D_SETTLED \<longleftrightarrow> outcome = RO_SETTLED) \<and> (st = D_FAILED \<longleftrightarrow> outcome = RO_FAILED)"
  by (auto simp: contacted_def terminal_preparation_def split: if_splits)

declare submissionLifecycle.simps [simp del] reconciliationLifecycle.simps [simp del]

lemma assertSubmissionEvidence_Inr:
  "assertSubmissionEvidence i = Inr u \<Longrightarrow> sb_outcome i = SO_SETTLED \<longrightarrow> sb_contactCertainty i = CONTACT_ACCEPTED"
  by (auto simp: assertSubmissionEvidence_def split: if_splits)

lemma assertReconciliationEvidence_Inr:
  "assertReconciliationEvidence env i = Inr u \<Longrightarrow> ri_outcome i = RO_SETTLED \<or> ri_outcome i = RO_FAILED \<Longrightarrow>
     ri_confirmationStatus i = Some ''finalized'' \<and> ri_slot i \<noteq> None"
  by (auto simp: assertReconciliationEvidence_def Let_def split: if_splits)

lemma truncate_simps [simp]:
  "sb_outcome (submission_observation.truncate i) = sb_outcome i"
  "sb_contactCertainty (submission_observation.truncate i) = sb_contactCertainty i"
  by (simp_all add: submission_observation.truncate_def)

lemma submission_refines:
  assumes "devnet_ok s"
  shows "refines s (recordSubmissionObservation i s)"
proof -
  have "devnet_change s (set_preparation (p\<lparr>pr_state := st\<rparr>) (s\<lparr>ds_submissionObservations :=
      js_set (ds_submissionObservations s) (sb_executionId i) (submissions_of s (sb_executionId i) @ [submission_observation.truncate i])\<rparr>))"
    if "assertSubmissionEvidence i = Inr ()" "prepared s (sb_preparationId i) = Some p"
      "submissionLifecycle (pr_state p) (sb_outcome i) = Inr st" "pr_executionId p = sb_executionId i" for p st
  proof -
    have "prepared s (pr_preparationId p) = Some p" using assms that(2) by (simp add: devnet_ok_def preparations_ok_def)
    with submissionLifecycle_Inr [OF that(3)] assertSubmissionEvidence_Inr [OF that(1)] show ?thesis
      unfolding that(4) [symmetric] by (intro devnet_change.observe) simp_all
  qed
  then show ?thesis unfolding recordSubmissionObservation_def Let_def
    by (auto intro!: refines_when_ok split: option.split)
qed

lemma reconciliation_refines:
  assumes "devnet_ok s"
  shows "refines s (recordReconciliationObservation env i s)"
proof -
  have "devnet_change s (set_preparation (p\<lparr>pr_state := st\<rparr>) (s\<lparr>ds_observations := js_set (ds_observations s) (pr_executionId p)
      (reconciliations_of s (pr_executionId p) @ [next_reconciliation i (length (reconciliations_of s (pr_executionId p)) + 1)])\<rparr>))"
    if "assertReconciliationEvidence env i = Inr ()" "prepared s (ri_preparationId i) = Some p" "pr_executionId p = ri_executionId i"
      "ri_signature i = pa_signature (pr_artifact p)" "reconciliationLifecycle (pr_state p) (ri_outcome i) = Inr st" for p st
  proof -
    have "prepared s (pr_preparationId p) = Some p" using assms that(2) by (simp add: devnet_ok_def preparations_ok_def)
    with reconciliationLifecycle_Inr [OF that(5)] assertReconciliationEvidence_Inr [OF that(1)] that(3,4) show ?thesis
      by (intro devnet_change.reconcile)
        (auto simp: next_reconciliation_def signature_of_def finalized_evidence_def terminal_preparation_def)
  qed
  then show ?thesis unfolding recordReconciliationObservation_def Let_def
    by (auto intro!: refines_when_ok split: option.split)
qed

section \<open>Runs of the repository\<close>

datatype devnet_request =
    Persist preparation_input
  | ReplaceExpired replace_preparation_input
  | Commit commit_submission_input
  | ObserveSubmission submission_input
  | ObserveReconciliation reconciliation_input

fun handle_devnet :: "runtime_env \<Rightarrow> devnet_request \<Rightarrow> devnet_store \<Rightarrow> devnet_store" where
  "handle_devnet env (Persist i) s = snd (persistPreparation i s)"
| "handle_devnet env (ReplaceExpired i) s = snd (replaceExpiredPreparation i s)"
| "handle_devnet env (Commit i) s = snd (commitSubmission i s)"
| "handle_devnet env (ObserveSubmission i) s = snd (recordSubmissionObservation i s)"
| "handle_devnet env (ObserveReconciliation i) s = snd (recordReconciliationObservation env i s)"

definition after_requests :: "runtime_env \<Rightarrow> devnet_request list \<Rightarrow> devnet_store \<Rightarrow> devnet_store" where
  "after_requests env qs s = fold (handle_devnet env) qs s"

lemma after_requests_simps [simp]:
  "after_requests env [] s = s" "after_requests env (q # qs) s = after_requests env qs (handle_devnet env q s)"
  by (simp_all add: after_requests_def)

lemma handle_changes: "devnet_ok s \<Longrightarrow> devnet_change s (handle_devnet env q s)"
  using persist_refines replace_refines commit_refines submission_refines reconciliation_refines
  by (cases q) (auto simp: refines_def)

lemma requests_change:
  "devnet_ok s \<Longrightarrow> devnet_change\<^sup>*\<^sup>* s (after_requests env qs s)"
proof (induction qs arbitrary: s)
  case (Cons q qs)
  then have "devnet_change s (handle_devnet env q s)" by (rule_tac handle_changes)
  with Cons change_devnet_ok show ?case by (metis after_requests_simps(2) converse_rtranclp_into_rtranclp)
qed simp

definition devnet_after :: "runtime_env \<Rightarrow> devnet_request list \<Rightarrow> devnet_store" where
  "devnet_after env qs = after_requests env qs empty_devnet_store"

lemma devnet_after_ok: "devnet_ok (devnet_after env qs)"
  unfolding devnet_after_def using dm.run_ok requests_change devnet_ok_empty by metis

text \<open>What changes carry over: a commitment with the transaction it is to, and terminal truth.\<close>

definition same_transaction :: "preparation \<Rightarrow> preparation \<Rightarrow> bool" where
  "same_transaction p q \<longleftrightarrow> pr_executionId q = pr_executionId p \<and> pr_artifact q = pr_artifact p \<and> pr_encrypted q = pr_encrypted p"

definition committed_to :: "devnet_store \<Rightarrow> commitment \<Rightarrow> preparation \<Rightarrow> bool" where
  "committed_to s c p \<longleftrightarrow> committed_for s (cm_executionId c) = Some c \<and>
     (\<exists>q. prepared s (cm_preparationId c) = Some q \<and> same_transaction p q)"

lemma set_carries_transaction:
  assumes "prepared s k = Some p" and "prepared s (pr_preparationId q) = Some old" and "same_transaction old q"
  shows "\<exists>q'. prepared (set_preparation q s) k = Some q' \<and> same_transaction p q'"
proof (cases "k = pr_preparationId q")
  case True
  with assms show ?thesis by simp
next
  case False
  with assms(1) show ?thesis by (simp add: same_transaction_def)
qed

lemma change_carries_transaction:
  assumes "devnet_change s t" and "prepared s k = Some p"
  shows "\<exists>q. prepared t k = Some q \<and> same_transaction p q"
  using assms(1)
proof (cases rule: devnet_change.cases)
  case unchanged
  with assms(2) show ?thesis by (auto simp: same_transaction_def)
next
  case (prepare q)
  then have "k \<noteq> pr_preparationId q" using assms(2) by (auto simp: new_to_def)
  with prepare assms(2) show ?thesis by (simp add: same_transaction_def)
next
  case (replace old q u)
  then have "k \<noteq> pr_preparationId q" using assms(2) by (auto simp: new_to_def)
  moreover have "\<exists>q'. prepared (set_preparation (old\<lparr>pr_state := ABANDONED_PRE_CONTACT, pr_abandonedAt := Some u\<rparr>) s) k = Some q' \<and>
      same_transaction p q'"
    using assms(2) by (rule set_carries_transaction [where old = old]) (use replace in \<open>simp_all add: same_transaction_def\<close>)
  ultimately show ?thesis unfolding replace(1) by simp
next
  case (commit q c u)
  show ?thesis unfolding commit(1)
    by (rule set_carries_transaction [where old = q]) (use assms(2) commit in \<open>simp_all add: same_transaction_def\<close>)
next
  case (observe q st x)
  show ?thesis unfolding observe(1)
    by (rule set_carries_transaction [where old = q]) (use assms(2) observe in \<open>simp_all add: same_transaction_def\<close>)
next
  case (reconcile q st r)
  show ?thesis unfolding reconcile(1)
    by (rule set_carries_transaction [where old = q]) (use assms(2) reconcile in \<open>simp_all add: same_transaction_def\<close>)
qed

lemma change_carries_commitment:
  assumes "devnet_change s t" and "committed_to s c p"
  shows "committed_to t c p"
proof -
  from assms(2) obtain q where q: "prepared s (cm_preparationId c) = Some q" "same_transaction p q"
    unfolding committed_to_def by blast
  from change_carries_transaction [OF assms(1) q(1)] obtain q' where "prepared t (cm_preparationId c) = Some q'"
    "same_transaction q q'" by blast
  then show ?thesis using q(2) assms(2) committed_never_changes [OF assms(1)]
    by (simp add: committed_to_def same_transaction_def)
qed

lemma requests_carry_commitment:
  assumes "devnet_ok s" and "committed_to s c p"
  shows "committed_to (after_requests env qs s) c p"
  using requests_change [OF assms(1)] assms by (rule dm.run_carries) (rule change_carries_commitment)

lemma terminal_never_changes:
  assumes "devnet_change s t" and "prepared s k = Some p" and "terminal_preparation p"
  shows "prepared t k = Some p"
proof -
  have other: "q = p" if "prepared s (pr_preparationId q) = Some q" "k = pr_preparationId q" for q
    using that assms(2) by simp
  have known: "k \<noteq> pr_preparationId q" if "new_to s q" for q using that assms(2) by (auto simp: new_to_def)
  from assms(1) show ?thesis
  proof (cases rule: devnet_change.cases)
    case (prepare q)
    with known assms(2) show ?thesis by simp
  next
    case (replace old q u)
    with known other [of old] assms(2,3) have "k \<noteq> pr_preparationId q" "k \<noteq> pr_preparationId old"
      by (auto simp: terminal_preparation_def)
    with replace(1) assms(2) show ?thesis by simp
  next
    case (commit q c u)
    with other [of q] assms(3) have "k \<noteq> pr_preparationId q" by (auto simp: terminal_preparation_def)
    with commit(1) assms(2) show ?thesis by simp
  next
    case (observe q st x)
    with other [of q] assms(3) have "k \<noteq> pr_preparationId q" by auto
    with observe(1) assms(2) show ?thesis by simp
  next
    case (reconcile q st r)
    with other [of q] assms(3) have "k \<noteq> pr_preparationId q" by auto
    with reconcile(1) assms(2) show ?thesis by simp
  qed (use assms(2) in simp)
qed

lemma commitSubmission_authorizes:
  assumes "devnet_ok s" and "commitSubmission i s = (Inr (p, c, True), t)"
  shows "committed_to t c p" and "cm_executionId c = dc_executionId i" and "cm_preparationId c = dc_preparationId i"
    and "cm_signature c = signature_of p" and "cm_signedTransactionDigest c = digest_of p"
  using assms(2)
  by (auto simp: commitSubmission_def committed_to_def same_transaction_def Let_def signature_of_def digest_of_def
      split: option.splits if_splits)

lemma commitSubmission_denies:
  assumes "committed_for s (dc_executionId i) \<noteq> None"
  shows "commitSubmission i s \<noteq> (Inr (p, c, True), t)"
  using assms by (auto simp: commitSubmission_def split: option.splits if_splits)

section \<open>A concrete preparation\<close>

definition sample_encrypted :: encrypted_transaction where
  "sample_encrypted = \<lparr>en_algorithm = ''aes-256-gcm'', en_keyVersion = ''k1'', en_initializationVector = replicate 12 7,
     en_authenticationTag = replicate 16 9, en_ciphertext = [1, 2, 3]\<rparr>"

definition sample_artifact :: prepared_artifact where
  "sample_artifact = \<lparr>pa_cluster = ''solana-devnet'', pa_signature = ''sig-1'',
     pa_signedTransactionDigest = replicate 64 CHR ''a'', pa_sourceTokenAccount = ''source'', pa_mint = ''mint'',
     pa_destination = ''dest'', pa_rawAmount = ''1500000'', pa_decimals = 6, pa_recentBlockhash = ''hash'',
     pa_lastValidBlockHeight = ''100'', pa_signerKeyId = ''key'', pa_signerKeyVersion = ''1'', pa_signerPublicKey = ''pub'',
     pa_policyHash = replicate 64 CHR ''b'', pa_submissionProviderId = ''submit'', pa_reconciliationProviderId = ''observe''\<rparr>"

definition sample_preparation :: preparation_input where
  "sample_preparation = \<lparr>dp_preparationId = ''prep-1'', dp_executionId = ''exec'', dp_paymentIntentId = ''intent'',
     dp_actorSubject = ''alice'', dp_generation = 1, dp_encrypted = sample_encrypted, dp_artifact = sample_artifact,
     dp_preparedAt = ''t0''\<rparr>"

definition sample_commit :: commit_submission_input where
  "sample_commit = \<lparr>dc_executionId = ''exec'', dc_actorSubject = ''alice'', dc_preparationId = ''prep-1'',
     dc_commitmentId = ''commit-1'', dc_committedAt = ''t1''\<rparr>"

definition sample_reconciliation :: reconciliation_input where
  "sample_reconciliation = \<lparr>ri_executionId = ''exec'', ri_actorSubject = ''alice'', ri_preparationId = ''prep-1'',
     ri_observationId = ''o1'', ri_providerId = ''observe'', ri_signature = ''sig-1'', ri_outcome = RO_SETTLED,
     ri_observedAt = ''t2'', ri_slot = Some ''42'', ri_confirmationStatus = Some ''finalized'', ri_errorCode = None,
     ri_recoveryFence = \<lparr>pf_leaseOwner = ''worker'', pf_leaseClaimedAt = ''t2''\<rparr>\<rparr>"

definition sample_submission :: submission_input where
  "sample_submission = \<lparr>sb_observationId = ''s1'', sb_executionId = ''exec'', sb_preparationId = ''prep-1'',
     sb_commitmentId = ''commit-1'', sb_providerId = ''submit'', sb_signature = ''sig-1'', sb_outcome = SO_ACCEPTED,
     sb_contactCertainty = CONTACT_ACCEPTED, sb_observedAt = ''t1'', sb_providerErrorCode = None, sb_slot = Some ''42'',
     sb_confirmationStatus = Some ''confirmed'', si_actorSubject = ''alice''\<rparr>"

lemma sample_prepared: "succeeds (fst (persistPreparation sample_preparation empty_devnet_store))"
  by code_simp

lemma sample_committed:
  "case commitSubmission sample_commit (devnet_after sample_env [Persist sample_preparation]) of
     (Inr (p, c, authorized), t) \<Rightarrow> authorized | _ \<Rightarrow> False"
  by code_simp

lemma sample_settled:
  "map_option pr_state (prepared (devnet_after sample_env [Persist sample_preparation, Commit sample_commit,
     ObserveSubmission sample_submission, ObserveReconciliation sample_reconciliation]) ''prep-1'') = Some D_SETTLED"
  by code_simp

section \<open>Properties\<close>

lemma submission_authorized_once_parts:
  assumes "commitSubmission i (devnet_after env qs) = (Inr (p, c, True), t)"
  shows "committed_for (after_requests env rs t) (dc_executionId i) = Some c"
    and "\<exists>q. prepared (after_requests env rs t) (dc_preparationId i) = Some q \<and> same_transaction p q \<and>
      signature_of q = cm_signature c \<and> digest_of q = cm_signedTransactionDigest c"
    and "dc_executionId j = dc_executionId i \<Longrightarrow> commitSubmission j (after_requests env rs t) \<noteq> (Inr (p', c', True), t')"
    and "prepared (after_requests env rs t) k = Some q \<Longrightarrow> pr_executionId q = dc_executionId i \<Longrightarrow> k \<noteq> dc_preparationId i \<Longrightarrow>
      abandoned q"
proof -
  let ?u = "after_requests env rs t"
  have ok: "devnet_ok (devnet_after env qs)" by (rule devnet_after_ok)
  note auth = commitSubmission_authorizes [OF ok assms]
  have "devnet_ok t" using commit_refines [OF ok, of i] change_devnet_ok [OF ok] assms by (simp add: refines_def)
  then have u: "devnet_ok ?u" "committed_to ?u c p"
    using dm.run_ok requests_change requests_carry_commitment auth(1) by blast+
  from u(2) show com: "committed_for ?u (dc_executionId i) = Some c" unfolding committed_to_def auth(2) by simp
  from u(2) obtain q where q: "prepared ?u (dc_preparationId i) = Some q" "same_transaction p q"
    unfolding committed_to_def auth(3) by blast
  with auth(4,5) show "\<exists>q. prepared ?u (dc_preparationId i) = Some q \<and> same_transaction p q \<and>
      signature_of q = cm_signature c \<and> digest_of q = cm_signedTransactionDigest c"
    by (auto simp: same_transaction_def signature_of_def digest_of_def)
  show "dc_executionId j = dc_executionId i \<Longrightarrow> commitSubmission j ?u \<noteq> (Inr (p', c', True), t')"
    using com commitSubmission_denies by simp
  have "contacted q" "pr_executionId q = dc_executionId i"
    using u(1) com q(1) auth(3) unfolding devnet_ok_def commitments_ok_def by fastforce+
  then show "prepared ?u k = Some q' \<Longrightarrow> pr_executionId q' = dc_executionId i \<Longrightarrow> k \<noteq> dc_preparationId i \<Longrightarrow> abandoned q'" for k q'
    using u(1) q(1) contacted_not_abandoned unfolding devnet_ok_def lineage_ok_def by metis
qed

text \<open>A devnet execution has one signed transaction. Once a commit has been answered with the
  authorization to submit, no commit of that execution is answered so again, whatever requests come between;
  the commitment and the signed bytes it is to never change; and every other preparation of the execution is
  abandoned.\<close>

theorem submission_authorized_once:
  assumes "commitSubmission i (devnet_after env qs) = (Inr (p, c, True), t)"
  shows "committed_for (after_requests env rs t) (dc_executionId i) = Some c \<and>
    (\<exists>q. prepared (after_requests env rs t) (dc_preparationId i) = Some q \<and> same_transaction p q \<and>
      signature_of q = cm_signature c \<and> digest_of q = cm_signedTransactionDigest c) \<and>
    (\<forall>j p' c' t'. dc_executionId j = dc_executionId i \<longrightarrow>
      commitSubmission j (after_requests env rs t) \<noteq> (Inr (p', c', True), t')) \<and>
    (\<forall>k q. prepared (after_requests env rs t) k = Some q \<longrightarrow> pr_executionId q = dc_executionId i \<longrightarrow>
      k \<noteq> dc_preparationId i \<longrightarrow> abandoned q)"
  using submission_authorized_once_parts [OF assms] by blast

theorem submission_authorized_once_witness:
  "\<exists>p c t. commitSubmission sample_commit (devnet_after sample_env [Persist sample_preparation]) = (Inr (p, c, True), t) \<and>
     commitSubmission sample_commit (after_requests sample_env [Commit sample_commit] t) \<noteq> (Inr (p, c, True), t)"
proof -
  from sample_committed obtain p c t where
    a: "commitSubmission sample_commit (devnet_after sample_env [Persist sample_preparation]) = (Inr (p, c, True), t)"
    by (auto split: prod.splits sum.splits)
  from submission_authorized_once [OF a, of "[Commit sample_commit]"] a show ?thesis by blast
qed

lemma devnet_truth_is_final_parts:
  assumes "prepared (devnet_after env qs) k = Some p" and "terminal_preparation p"
  shows "prepared (devnet_after env (qs @ rs)) k = Some p"
    and "if pr_state p = D_SETTLED then settled_evidence (devnet_after env qs) (pr_executionId p)
      else failed_evidence (devnet_after env qs) (pr_executionId p)"
proof -
  have "devnet_change\<^sup>*\<^sup>* (devnet_after env qs) (devnet_after env (qs @ rs))"
    using requests_change [OF devnet_after_ok, of env qs env rs] by (simp add: devnet_after_def after_requests_def)
  then show "prepared (devnet_after env (qs @ rs)) k = Some p"
    using devnet_after_ok assms(1) by (rule dm.run_carries) (use assms(2) terminal_never_changes in blast)
  show "if pr_state p = D_SETTLED then settled_evidence (devnet_after env qs) (pr_executionId p)
      else failed_evidence (devnet_after env qs) (pr_executionId p)"
    using devnet_after_ok [of env qs] assms by (auto simp: devnet_ok_def evidence_ok_def terminal_preparation_def)
qed

text \<open>C18: the truth of a devnet execution is final and evidenced. A preparation that is settled or failed stays
  exactly as it is under every further request, and the repository holds evidence for it: a finalized observation of
  the chain with its slot, or the submission provider's own answer.\<close>

theorem devnet_truth_is_final:
  assumes "prepared (devnet_after env qs) k = Some p" and "terminal_preparation p"
  shows "prepared (devnet_after env (qs @ rs)) k = Some p \<and>
    (if pr_state p = D_SETTLED then settled_evidence (devnet_after env qs) (pr_executionId p)
     else failed_evidence (devnet_after env qs) (pr_executionId p))"
  using devnet_truth_is_final_parts [OF assms] by blast

theorem devnet_truth_is_final_witness:
  "\<exists>p. pr_state p = D_SETTLED \<and> prepared (devnet_after sample_env ([Persist sample_preparation, Commit sample_commit,
     ObserveSubmission sample_submission, ObserveReconciliation sample_reconciliation] @
     [ObserveSubmission (sample_submission\<lparr>sb_outcome := SO_REJECTED\<rparr>)])) ''prep-1'' = Some p"
proof -
  from sample_settled obtain p where a: "prepared (devnet_after sample_env [Persist sample_preparation, Commit sample_commit,
     ObserveSubmission sample_submission, ObserveReconciliation sample_reconciliation]) ''prep-1'' = Some p"
    and "pr_state p = D_SETTLED" by blast
  with devnet_truth_is_final [OF a] show ?thesis unfolding terminal_preparation_def by blast
qed

lemma devnet_repository_refines_parts:
  "refines (devnet_after env qs) (persistPreparation i (devnet_after env qs))"
  "refines (devnet_after env qs) (replaceExpiredPreparation r (devnet_after env qs))"
  "refines (devnet_after env qs) (commitSubmission c (devnet_after env qs))"
  "refines (devnet_after env qs) (recordSubmissionObservation x (devnet_after env qs))"
  "refines (devnet_after env qs) (recordReconciliationObservation env y (devnet_after env qs))"
  by (intro persist_refines replace_refines commit_refines submission_refines reconciliation_refines devnet_after_ok)+

text \<open>C36: the devnet repository implements its specification: whatever requests came before, each of its five
  operations makes one of the changes the specification allows (add a first preparation, replace one that was never
  contacted, commit one, move a contacted one on evidence) or none, and none when it throws.\<close>

theorem devnet_repository_refines:
  "refines (devnet_after env qs) (persistPreparation i (devnet_after env qs)) \<and>
   refines (devnet_after env qs) (replaceExpiredPreparation r (devnet_after env qs)) \<and>
   refines (devnet_after env qs) (commitSubmission c (devnet_after env qs)) \<and>
   refines (devnet_after env qs) (recordSubmissionObservation x (devnet_after env qs)) \<and>
   refines (devnet_after env qs) (recordReconciliationObservation env y (devnet_after env qs))"
  using devnet_repository_refines_parts by blast

end
