(* ===== verification/DevnetReconciliation.thy ===== *)
theory DevnetReconciliation
  imports DevnetStateProperties
begin

text \<open>
  \<open>src/devnet/devnetReconciliationService.ts\<close>: asking the observing provider what became of a committed
  transaction, and recording the answer. Other clients of the repository act between the service's calls:
  \<open>others k\<close> is what they did to the state before its \<open>k\<close>-th call. The provider's answer, the answers to the
  renewals of the lease, the clock and the new id are the fields of a context.
\<close>

section \<open>The provider's answer\<close>

datatype chain_status = CS_MISSING | CS_PENDING | CS_SETTLED | CS_FAILED

text \<open>A member that is absent, or is not a text, is \<open>None\<close>.\<close>

record signature_observation =
  so_signature :: string
  so_historySearched :: bool
  so_providerId :: string
  so_contextSlot :: string
  so_status :: chain_status
  so_observedAt :: string
  so_slot :: "string option"
  so_confirmationStatus :: "string option"
  so_errorCode :: "string option"

record provider_error =
  px_providerErrorCode :: "string option"
  px_code :: "string option"

text \<open>\<open>/^[A-Z0-9_.:-]{1,64}$/\<close> and \<open>/^[A-Z0-9_]{1,48}$/\<close>\<close>

definition upper_text :: "string \<Rightarrow> nat \<Rightarrow> string \<Rightarrow> bool" where
  "upper_text extra n s = (1 \<le> length s \<and> length s \<le> n \<and>
     list_all (\<lambda>c. c \<in> set ''ABCDEFGHIJKLMNOPQRSTUVWXYZ0123456789'' \<or> c \<in> set extra) s)"

definition reconciliationErrorCode :: "provider_error \<Rightarrow> string" where
  "reconciliationErrorCode e = (case px_providerErrorCode e of
     Some v \<Rightarrow> if upper_text ''_.:-'' 64 v then v
       else (case px_code e of Some c \<Rightarrow> if upper_text ''_'' 48 c then ''RPC_'' @ c else ''RPC_UNKNOWN'' | None \<Rightarrow> ''RPC_UNKNOWN'')
   | None \<Rightarrow> (case px_code e of Some c \<Rightarrow> if upper_text ''_'' 48 c then ''RPC_'' @ c else ''RPC_UNKNOWN'' | None \<Rightarrow> ''RPC_UNKNOWN''))"

definition validSignatureIdentity :: "signature_observation \<Rightarrow> string \<Rightarrow> string \<Rightarrow> bool" where
  "validSignatureIdentity v signature providerId = (so_signature v = signature \<and> so_historySearched v \<and> so_providerId v = providerId)"

definition validSignatureSemantics :: "runtime_env \<Rightarrow> signature_observation \<Rightarrow> bool" where
  "validSignatureSemantics env v =
     (if \<not> decimal_text (so_contextSlot v) \<or> \<not> valid_time env (so_observedAt v) then False
      else if so_status v = CS_MISSING then True
      else (case so_slot v of
        None \<Rightarrow> False
      | Some slot \<Rightarrow>
          if \<not> decimal_text slot \<or> dec_to_nat slot > dec_to_nat (so_contextSlot v) then False
          else if so_status v = CS_PENDING
          then so_confirmationStatus v = Some ''processed'' \<or> so_confirmationStatus v = Some ''confirmed''
          else if so_status v = CS_SETTLED then so_confirmationStatus v = Some ''finalized''
          else so_status v = CS_FAILED \<and> so_confirmationStatus v = Some ''finalized'' \<and>
            so_errorCode v = Some ''PROVIDER_REPORTED_FAILURE''))"

section \<open>The service\<close>

record reconciliation_context =
  rx_providerId :: string
  rx_observe :: "string \<Rightarrow> provider_error + signature_observation"
  rx_renew :: "nat \<Rightarrow> bool"
  rx_fence :: persistence_fence
  rx_clock :: string
  rx_newId :: string

definition new_reconciliation_service :: "string \<Rightarrow> string \<Rightarrow> string \<Rightarrow> string \<Rightarrow> unit result" where
  "new_reconciliation_service network role providerId expectedProviderId =
     (if network \<noteq> ''devnet'' \<or> role \<noteq> ''reconciliation'' \<or> providerId \<noteq> expectedProviderId
      then throw ''Configured reconciliation provider does not match authoritative Devnet policy.'' else Inr ())"

record reconciliation_report =
  rr_attempted :: bool
  rr_persisted :: bool
  rr_preparation :: preparation
  rr_observation :: reconciliation_observation

definition renewLease :: "reconciliation_context \<Rightarrow> nat \<Rightarrow> unit result" where
  "renewLease x n = (if rx_renew x n then Inr () else throw ''Devnet recovery lease authority was lost.'')"

text \<open>A text member kept only when it is not empty.\<close>

definition nonempty :: "string option \<Rightarrow> string option" where
  "nonempty v = (if v = Some '''' then None else v)"

definition upper_status :: "chain_status \<Rightarrow> reconciliation_outcome" where
  "upper_status st = (case st of CS_MISSING \<Rightarrow> RO_MISSING | CS_PENDING \<Rightarrow> RO_PENDING | CS_SETTLED \<Rightarrow> RO_SETTLED | CS_FAILED \<Rightarrow> RO_FAILED)"

definition observationInput :: "reconciliation_context \<Rightarrow> signature_observation \<Rightarrow> string \<Rightarrow> string \<Rightarrow> string \<Rightarrow> reconciliation_input" where
  "observationInput x v executionId actorSubject preparationId = \<lparr>ri_executionId = executionId, ri_actorSubject = actorSubject,
     ri_preparationId = preparationId, ri_observationId = rx_newId x, ri_providerId = rx_providerId x,
     ri_signature = so_signature v, ri_outcome = upper_status (so_status v), ri_observedAt = so_observedAt v,
     ri_slot = nonempty (so_slot v), ri_confirmationStatus = nonempty (so_confirmationStatus v),
     ri_errorCode = (if so_status v = CS_FAILED then so_errorCode v else None), ri_recoveryFence = rx_fence x\<rparr>"

definition unknown_input :: "reconciliation_context \<Rightarrow> preparation \<Rightarrow> string \<Rightarrow> string \<Rightarrow> string \<Rightarrow> string \<Rightarrow> reconciliation_input" where
  "unknown_input x preparation executionId actorSubject signature errorCode = \<lparr>ri_executionId = executionId,
     ri_actorSubject = actorSubject, ri_preparationId = pr_preparationId preparation, ri_observationId = rx_newId x,
     ri_providerId = rx_providerId x, ri_signature = signature, ri_outcome = RO_UNKNOWN, ri_observedAt = rx_clock x,
     ri_slot = None, ri_confirmationStatus = None, ri_errorCode = Some errorCode, ri_recoveryFence = rx_fence x\<rparr>"

text \<open>What is recorded for the provider's answer.\<close>

definition reconciliation_verdict ::
  "runtime_env \<Rightarrow> reconciliation_context \<Rightarrow> preparation \<Rightarrow> string \<Rightarrow> string \<Rightarrow> commitment \<Rightarrow> reconciliation_input" where
  "reconciliation_verdict env x p executionId actor c = (let unknown = unknown_input x p executionId actor (cm_signature c) in
     case rx_observe x (cm_signature c) of
       Inl e \<Rightarrow> unknown (reconciliationErrorCode e)
     | Inr v \<Rightarrow>
         if \<not> validSignatureIdentity v (cm_signature c) (rx_providerId x) then unknown ''RPC_PROVIDER_MISMATCH''
         else if \<not> validSignatureSemantics env v then unknown ''RPC_INVALID_RESPONSE''
         else if so_status v = CS_MISSING then unknown ''SIGNATURE_STATUS_MISSING''
         else observationInput x v executionId actor (pr_preparationId p))"

definition persist_reconciliation ::
  "runtime_env \<Rightarrow> reconciliation_context \<Rightarrow> (nat \<Rightarrow> devnet_store \<Rightarrow> devnet_store) \<Rightarrow> preparation \<Rightarrow> reconciliation_input \<Rightarrow>
   devnet_store \<Rightarrow> (devnet_store, reconciliation_report) outcome" where
  "persist_reconciliation env x others p i s =
     when_ok (renewLease x 1) s (\<lambda>_. let s3 = others 3 s; observations = listReconciliationObservations s3 (ri_executionId i) (ri_actorSubject i) in
       if observations \<noteq> [] \<and> same_reconciliation (last observations) i
       then (Inr \<lparr>rr_attempted = True, rr_persisted = False, rr_preparation = p, rr_observation = last observations\<rparr>, s3)
       else then_do (recordReconciliationObservation env i (others 4 s3)) (\<lambda>r s5.
         (Inr \<lparr>rr_attempted = True, rr_persisted = True, rr_preparation = fst r, rr_observation = snd r\<rparr>, s5)))"

definition reconcile ::
  "runtime_env \<Rightarrow> reconciliation_context \<Rightarrow> (nat \<Rightarrow> devnet_store \<Rightarrow> devnet_store) \<Rightarrow> string \<Rightarrow> string \<Rightarrow> devnet_store \<Rightarrow>
   (devnet_store, reconciliation_report) outcome" where
  "reconcile env x others executionId actor s0 = (let s1 = others 1 s0 in
     case (findPreparation s0 executionId actor, findCommitment s1 executionId actor) of
       (Some p, Some c) \<Rightarrow>
         if cm_preparationId c \<noteq> pr_preparationId p
         then (throw ''Committed Devnet preparation was not found for this owner.'', s1)
         else if pa_reconciliationProviderId (pr_artifact p) \<noteq> rx_providerId x \<or> pa_submissionProviderId (pr_artifact p) = rx_providerId x
         then (throw ''Persisted reconciliation provider identity changed or is not separated from submission.'', s1)
         else if pr_state p = D_SETTLED \<or> pr_state p = D_FAILED
         then let s2 = others 2 s1; observations = listReconciliationObservations s2 executionId actor in
           if observations = [] then (throw ''Terminal Devnet reconciliation evidence is missing.'', s2)
           else (Inr \<lparr>rr_attempted = False, rr_persisted = False, rr_preparation = p, rr_observation = last observations\<rparr>, s2)
         else when_ok (renewLease x 0) s1 (\<lambda>_.
           persist_reconciliation env x others p (reconciliation_verdict env x p executionId actor c) (others 2 s1))
     | _ \<Rightarrow> (throw ''Committed Devnet preparation was not found for this owner.'', s1))"

section \<open>What reconciliation may do\<close>

text \<open>The others are clients of the repository as well: what they do is a run of its changes.\<close>

definition proper_others :: "(nat \<Rightarrow> devnet_store \<Rightarrow> devnet_store) \<Rightarrow> bool" where
  "proper_others others \<longleftrightarrow> (\<forall>k s. devnet_ok s \<longrightarrow> devnet_change\<^sup>*\<^sup>* s (others k s))"

lemma proper_others_ok: "proper_others others \<Longrightarrow> devnet_ok s \<Longrightarrow> devnet_ok (others k s)"
  unfolding proper_others_def using dm.run_ok by blast

lemma nobody_else [simp]: "proper_others (\<lambda>_ s. s)"
  by (simp add: proper_others_def)

text \<open>The answer that makes an observation terminal.\<close>

definition finalized_answer :: "reconciliation_context \<Rightarrow> commitment \<Rightarrow> chain_status \<Rightarrow> bool" where
  "finalized_answer x c st \<longleftrightarrow> (\<exists>v slot. rx_observe x (cm_signature c) = Inr v \<and> so_signature v = cm_signature c \<and>
     so_historySearched v \<and> so_providerId v = rx_providerId x \<and> so_status v = st \<and>
     so_confirmationStatus v = Some ''finalized'' \<and> so_slot v = Some slot \<and> dec_to_nat slot \<le> dec_to_nat (so_contextSlot v))"

lemma verdict_terminal:
  "ri_outcome (reconciliation_verdict env x p e a c) = RO_SETTLED \<Longrightarrow> finalized_answer x c CS_SETTLED"
  "ri_outcome (reconciliation_verdict env x p e a c) = RO_FAILED \<Longrightarrow> finalized_answer x c CS_FAILED"
  by (auto simp: reconciliation_verdict_def finalized_answer_def Let_def unknown_input_def observationInput_def upper_status_def
      validSignatureIdentity_def validSignatureSemantics_def split: sum.splits if_splits chain_status.splits option.splits)

lemma verdict_fields [simp]:
  "ri_executionId (reconciliation_verdict env x p e a c) = e" "ri_actorSubject (reconciliation_verdict env x p e a c) = a"
  "ri_preparationId (reconciliation_verdict env x p e a c) = pr_preparationId p"
  "ri_providerId (reconciliation_verdict env x p e a c) = rx_providerId x"
  by (auto simp: reconciliation_verdict_def Let_def unknown_input_def observationInput_def split: sum.split)

text \<open>The states a reconciliation can leave: one the others left, or the record made on it.\<close>

lemma reconcile_states:
  assumes "reconcile env x others e a s = (out, t)"
  obtains (others) "t \<in> {others 1 s, others 2 (others 1 s), others 3 (others 2 (others 1 s))}"
  | (recorded) p c where "t = snd (recordReconciliationObservation env (reconciliation_verdict env x p e a c)
        (others 4 (others 3 (others 2 (others 1 s)))))"
      and "findPreparation s e a = Some p" and "findCommitment (others 1 s) e a = Some c"
      and "cm_preparationId c = pr_preparationId p" and "pa_submissionProviderId (pr_artifact p) \<noteq> rx_providerId x"
      and "rx_renew x 0" and "rx_renew x 1"
proof -
  have persist: "t = others 3 u \<or> t = u \<or> rx_renew x 1 \<and> t = snd (recordReconciliationObservation env i (others 4 (others 3 u)))"
    if "persist_reconciliation env x others p i u = (out, t)" for p i u
    using that by (cases "recordReconciliationObservation env i (others 4 (others 3 u))"; cases "fst (recordReconciliationObservation env i (others 4 (others 3 u)))")
      (auto simp: persist_reconciliation_def renewLease_def Let_def then_do_def split: if_splits)
  show thesis
  proof (cases "findPreparation s e a")
    case None
    with assms that(1) show thesis by (simp add: reconcile_def Let_def)
  next
    case p: (Some p)
    show thesis
    proof (cases "findCommitment (others 1 s) e a")
      case None
      with assms that(1) p show thesis by (simp add: reconcile_def Let_def)
    next
      case (Some c)
      with assms p consider "t = others 1 s" | "t = others 2 (others 1 s)"
        | "persist_reconciliation env x others p (reconciliation_verdict env x p e a c) (others 2 (others 1 s)) = (out, t)"
          "cm_preparationId c = pr_preparationId p" "pa_submissionProviderId (pr_artifact p) \<noteq> rx_providerId x" "rx_renew x 0"
        by (auto simp: reconcile_def Let_def renewLease_def split: if_splits)
      then show thesis
      proof cases
        case 3
        from persist [OF 3(1)] 3(2-4) p Some that show thesis by blast
      qed (use that(1) in auto)
    qed
  qed
qed

lemma find_commitment_Some: "findCommitment s e a = Some c \<Longrightarrow> committed_for s e = Some c"
  by (auto simp: findCommitment_def split: option.splits)

text \<open>A record makes a preparation terminal only as the input says.\<close>

lemma record_makes_terminal:
  assumes "t = snd (recordReconciliationObservation env i u)" and ok: "devnet_ok u"
    and "prepared u k = Some p" and "\<not> terminal_preparation p" and "prepared t k = Some q" and "terminal_preparation q"
  shows "k = ri_preparationId i" and "pr_executionId p = ri_executionId i"
    and "ri_providerId i = pa_reconciliationProviderId (pr_artifact p)"
    and "ri_outcome i = (if pr_state q = D_SETTLED then RO_SETTLED else RO_FAILED)"
proof -
  have ne: "t \<noteq> u" using assms(3-6) by auto
  define l where "l = reconciliations_of u (ri_executionId i)"
  from ne assms(1) obtain o' st where o': "prepared u (ri_preparationId i) = Some o'" "pr_executionId o' = ri_executionId i"
    "ri_providerId i = pa_reconciliationProviderId (pr_artifact o')" "reconciliationLifecycle (pr_state o') (ri_outcome i) = Inr st"
    "t = set_preparation (o'\<lparr>pr_state := st\<rparr>) (u\<lparr>ds_observations := js_set (ds_observations u) (ri_executionId i)
       (l @ [next_reconciliation i (length l + 1)])\<rparr>)"
    unfolding l_def
    by (auto simp: recordReconciliationObservation_def Let_def when_ok_def simp del: list.set
        split: option.splits sum.splits if_splits)
  from assms(3-6) o'(5) have q: "k = pr_preparationId o'" "q = o'\<lparr>pr_state := st\<rparr>" by (auto split: if_splits)
  note st = reconciliationLifecycle_Inr [OF o'(4)]
  have id: "pr_preparationId o' = ri_preparationId i" using ok o'(1) by (simp add: devnet_ok_def preparations_ok_def)
  with q(1) show k: "k = ri_preparationId i" by simp
  with o'(1) assms(3) have "o' = p" by simp
  with o'(2,3) show "pr_executionId p = ri_executionId i" "ri_providerId i = pa_reconciliationProviderId (pr_artifact p)" by simp_all
  from st q(2) assms(6) show "ri_outcome i = (if pr_state q = D_SETTLED then RO_SETTLED else RO_FAILED)"
    by (auto simp: terminal_preparation_def)
qed

lemma changes_carry_commitment:
  "devnet_change\<^sup>*\<^sup>* s t \<Longrightarrow> committed_for s e = Some c \<Longrightarrow> committed_for t e = Some c"
  by (induction rule: rtranclp_induct) (auto dest: committed_never_changes)

lemma changes_carry_terminal:
  "devnet_change\<^sup>*\<^sup>* s t \<Longrightarrow> prepared s k = Some p \<Longrightarrow> terminal_preparation p \<Longrightarrow> prepared t k = Some p"
  by (induction rule: rtranclp_induct) (auto dest: terminal_never_changes)

section \<open>Properties\<close>

text \<open>C8: reconciliation never invents the truth of a payment. Whatever the repository's other clients do between
  its calls, a preparation that a reconciliation makes settled or failed is the one committed for that execution, the
  lease was renewed before the provider was asked and again before the answer was recorded, and the observing provider
  of the preparation's own policy answered for exactly the committed signature, with its history searched, a finalized
  confirmation and a slot not after the context's.\<close>

theorem reconciliation_needs_finality:
  assumes "proper_others others" and "reconcile env x others e a (devnet_after env qs) = (out, t)"
    and "prepared (others 4 (others 3 (others 2 (others 1 (devnet_after env qs))))) k = Some p" and "\<not> terminal_preparation p"
    and "prepared t k = Some q" and "terminal_preparation q"
  shows "\<exists>c. committed_for t e = Some c \<and> pr_executionId q = e \<and> cm_preparationId c = k \<and>
      finalized_answer x c (if pr_state q = D_SETTLED then CS_SETTLED else CS_FAILED) \<and>
      rx_providerId x = pa_reconciliationProviderId (pr_artifact p) \<and> rx_renew x 0 \<and> rx_renew x 1"
proof -
  define s where "s = devnet_after env qs"
  let ?u = "others 4 (others 3 (others 2 (others 1 s)))"
  have ok: "devnet_ok s" unfolding s_def by (rule devnet_after_ok)
  have steps: "devnet_change\<^sup>*\<^sup>* (others 3 (others 2 (others 1 s))) ?u" "devnet_change\<^sup>*\<^sup>* (others 2 (others 1 s)) ?u"
    "devnet_change\<^sup>*\<^sup>* (others 1 s) ?u" and u: "devnet_ok ?u"
    using assms(1) ok proper_others_ok [OF assms(1)] unfolding proper_others_def by (meson rtranclp_trans)+
  from assms(2)[folded s_def] show ?thesis
  proof (cases rule: reconcile_states)
    case others
    with steps changes_carry_terminal assms(3-6)[folded s_def] have "p = q" by fastforce
    with assms(4,6) show ?thesis by simp
  next
    case (recorded p' c)
    note terminal = record_makes_terminal [OF recorded(1) u assms(3-6)[folded s_def], simplified]
    have t: "devnet_change ?u t"
      using reconciliation_refines [OF u, of env "reconciliation_verdict env x p' e a c"] recorded(1) by (simp add: refines_def)
    from find_commitment_Some [OF recorded(3)] have c: "committed_for t e = Some c"
      using changes_carry_commitment [OF steps(3)] committed_never_changes [OF t] by blast
    have q: "pr_executionId q = pr_executionId p"
      using change_carries_transaction [OF t] assms(3,5)[folded s_def] by (fastforce simp: same_transaction_def)
    from terminal(4) have "finalized_answer x c (if pr_state q = D_SETTLED then CS_SETTLED else CS_FAILED)"
      using verdict_terminal by (simp split: if_splits)
    with c q terminal recorded(4,6,7) show ?thesis by auto
  qed
qed

definition sample_observation :: signature_observation where
  "sample_observation = \<lparr>so_signature = ''sig-1'', so_historySearched = True, so_providerId = ''observe'', so_contextSlot = ''50'',
     so_status = CS_SETTLED, so_observedAt = ''t2'', so_slot = Some ''42'', so_confirmationStatus = Some ''finalized'', so_errorCode = None\<rparr>"

definition sample_context :: reconciliation_context where
  "sample_context = \<lparr>rx_providerId = ''observe'', rx_observe = (\<lambda>_. Inr sample_observation), rx_renew = (\<lambda>_. True),
     rx_fence = \<lparr>pf_leaseOwner = ''worker'', pf_leaseClaimedAt = ''t2''\<rparr>, rx_clock = ''t2'', rx_newId = ''o1''\<rparr>"

definition sample_committed_store :: devnet_store where
  "sample_committed_store = devnet_after sample_env [Persist sample_preparation, Commit sample_commit]"

definition sample_reconciled :: "(devnet_store, reconciliation_report) outcome" where
  "sample_reconciled = reconcile sample_env sample_context (\<lambda>_ s. s) ''exec'' ''alice'' sample_committed_store"

lemma sample_reconciled_truth:
  "map_option pr_state (prepared sample_committed_store ''prep-1'') = Some SUBMISSION_COMMITTED_RECONCILE_ONLY"
  "map_option pr_state (prepared (snd sample_reconciled) ''prep-1'') = Some D_SETTLED"
  by code_simp+

theorem reconciliation_needs_finality_witness:
  "\<exists>c. committed_for (snd sample_reconciled) ''exec'' = Some c \<and> finalized_answer sample_context c CS_SETTLED"
proof -
  obtain p q where p: "prepared sample_committed_store ''prep-1'' = Some p" "pr_state p = SUBMISSION_COMMITTED_RECONCILE_ONLY"
    and q: "prepared (snd sample_reconciled) ''prep-1'' = Some q" "pr_state q = D_SETTLED"
    using sample_reconciled_truth by auto
  have r: "reconcile sample_env sample_context (\<lambda>_ s. s) ''exec'' ''alice'' sample_committed_store =
      (fst sample_reconciled, snd sample_reconciled)" by (simp add: sample_reconciled_def)
  from reconciliation_needs_finality [OF nobody_else r[unfolded sample_committed_store_def], of "''prep-1''" p q] p q
  show ?thesis by (auto simp: sample_committed_store_def terminal_preparation_def)
qed

text \<open>Whatever the provider answers or throws, what the service makes of it passes the repository's checks.\<close>

definition context_ok :: "runtime_env \<Rightarrow> reconciliation_context \<Rightarrow> bool" where
  "context_ok env x \<longleftrightarrow> rx_providerId x \<noteq> '''' \<and> js_trim (rx_providerId x) = rx_providerId x \<and> length (rx_providerId x) \<le> 128 \<and>
     pf_leaseOwner (rx_fence x) \<noteq> '''' \<and> js_trim (pf_leaseOwner (rx_fence x)) = pf_leaseOwner (rx_fence x) \<and>
     length (pf_leaseOwner (rx_fence x)) \<le> 128 \<and> valid_time env (pf_leaseClaimedAt (rx_fence x)) \<and> valid_time env (rx_clock x) \<and>
     rx_renew x 0 \<and> rx_renew x 1"

definition signature_ok :: "string \<Rightarrow> bool" where
  "signature_ok g \<longleftrightarrow> g \<noteq> '''' \<and> js_trim g = g \<and> length g \<le> 256"

lemma upper_is_code: "upper_text e n s \<Longrightarrow> set e \<subseteq> set ''_.:-'' \<Longrightarrow> n \<le> m \<Longrightarrow> code_text m s"
proof -
  assume u: "upper_text e n s" "set e \<subseteq> set ''_.:-''" "n \<le> m"
  have alnum: "list_all is_alnum ''ABCDEFGHIJKLMNOPQRSTUVWXYZ0123456789''" by (simp add: is_alnum_def)
  have "is_alnum c \<or> c \<in> set ''_.:-''" if "c \<in> set s" for c
    using u(1,2) that alnum by (fastforce simp only: upper_text_def list_all_iff)
  with u(1,3) show ?thesis by (simp add: upper_text_def code_text_def list_all_iff)
qed

lemma error_code_is_code: "code_text 64 (reconciliationErrorCode e)"
proof -
  have u: "code_text 64 ''RPC_UNKNOWN''" by (simp add: code_text_def is_alnum_def)
  have c: "code_text 64 (''RPC_'' @ c)" if "upper_text ''_'' 48 c" for c
  proof -
    have "code_text 48 c" using upper_is_code [OF that] by simp
    moreover have "list_all (\<lambda>c. is_alnum c \<or> c \<in> set ''_.:-'') ''RPC_''" by (simp add: is_alnum_def)
    ultimately show ?thesis by (simp add: code_text_def)
  qed
  have "code_text 64 v" if "upper_text ''_.:-'' 64 v" for v using upper_is_code [OF that] by simp
  with u c show ?thesis by (auto simp: reconciliationErrorCode_def split: option.split)
qed

lemma decimal_nonempty: "decimal_text s \<Longrightarrow> s \<noteq> ''''"
  by (auto simp: decimal_text_def)

lemma constant_codes:
  "code_text 64 ''RPC_PROVIDER_MISMATCH''" "code_text 64 ''RPC_INVALID_RESPONSE''" "code_text 64 ''SIGNATURE_STATUS_MISSING''"
  "code_text 64 ''PROVIDER_REPORTED_FAILURE''" "word_text 32 ''processed''" "word_text 32 ''confirmed''" "word_text 32 ''finalized''"
  by (simp_all add: code_text_def word_text_def is_alnum_def)

lemma unknown_admissible:
  assumes "context_ok env x" and "signature_ok g" and "code_text 64 code"
  shows "assertReconciliationEvidence env (unknown_input x p e a g code) = Inr ()"
  using assms by (simp add: assertReconciliationEvidence_def unknown_input_def context_ok_def signature_ok_def absent_or_def)

lemma observed_admissible:
  assumes "context_ok env x" and "signature_ok (so_signature v)" and "validSignatureSemantics env v" and "so_status v \<noteq> CS_MISSING"
  shows "assertReconciliationEvidence env (observationInput x v e a k) = Inr ()"
proof -
  from assms(3,4) obtain slot where slot: "so_slot v = Some slot" "decimal_text slot" "valid_time env (so_observedAt v)"
    and st: "so_status v = CS_PENDING \<and> so_confirmationStatus v \<in> {Some ''processed'', Some ''confirmed''} \<or>
      so_status v = CS_SETTLED \<and> so_confirmationStatus v = Some ''finalized'' \<or>
      so_status v = CS_FAILED \<and> so_confirmationStatus v = Some ''finalized'' \<and> so_errorCode v = Some ''PROVIDER_REPORTED_FAILURE''"
    by (auto simp: validSignatureSemantics_def split: if_splits option.splits)
  have "nonempty (so_slot v) = Some slot" "slot \<noteq> ''''" using slot decimal_nonempty by (auto simp: nonempty_def)
  with assms(1,2) slot st constant_codes show ?thesis
    by (elim disjE conjE) (auto simp: assertReconciliationEvidence_def observationInput_def context_ok_def signature_ok_def
      absent_or_def nonempty_def upper_status_def)
qed

lemma verdict_admissible:
  assumes "context_ok env x" and "signature_ok (cm_signature c)"
  shows "assertReconciliationEvidence env (reconciliation_verdict env x p e a c) = Inr ()"
  using assms
  by (auto simp: reconciliation_verdict_def Let_def validSignatureIdentity_def constant_codes error_code_is_code
      intro!: unknown_admissible observed_admissible split: sum.split)

text \<open>C23: a reconciliation that holds its lease comes to a recorded conclusion, whatever the provider answers
  or throws. The preparation is committed and not yet terminal, and its policy names this provider and another one for
  the submission; the fields of the context are well-formed and both renewals of the lease succeed (\<open>context_ok\<close>); the
  stored signature is one the evidence may carry (\<open>signature_ok\<close>, which a preparation is not checked for); the
  observation id is fresh; and no other client acts in between. Then nothing is thrown: the last observation of the
  execution is the verdict on the provider's answer (an unusable answer is an \<open>UNKNOWN\<close> observation that says why).\<close>

theorem reconciliation_concludes:
  assumes "findPreparation (devnet_after env qs) e a = Some p" and "contacted p" and "\<not> terminal_preparation p"
    and "pa_reconciliationProviderId (pr_artifact p) = rx_providerId x" and "pa_submissionProviderId (pr_artifact p) \<noteq> rx_providerId x"
    and "context_ok env x" and "signature_ok (signature_of p)"
    and "list_all (\<lambda>v. ro_observationId v \<noteq> rx_newId x) (reconciliations_of (devnet_after env qs) e)"
  shows "\<exists>c report t. committed_for (devnet_after env qs) e = Some c \<and>
      reconcile env x (\<lambda>_ s. s) e a (devnet_after env qs) = (Inr report, t) \<and> rr_attempted report \<and>
      reconciliations_of t e \<noteq> [] \<and> last (reconciliations_of t e) = rr_observation report \<and>
      same_reconciliation (rr_observation report) (reconciliation_verdict env x p e a c)"
proof -
  define s where "s = devnet_after env qs"
  have ok: "devnet_ok s" unfolding s_def by (rule devnet_after_ok)
  note find = find_preparation_Some [OF ok assms(1)[folded s_def]]
  obtain c where c: "committed_for s e = Some c" "cm_preparationId c = pr_preparationId p" "cm_signature c = signature_of p"
    using commitment_of_contacted [OF _ _ find(1) assms(2)] ok find(2) unfolding devnet_ok_def by metis
  let ?i = "reconciliation_verdict env x p e a c"
  let ?l = "reconciliations_of s e"
  have fc: "findCommitment s e a = Some c" and li: "listReconciliationObservations s e a = ?l"
    using assms(1)[folded s_def] c(1) by (simp_all add: findCommitment_def listReconciliationObservations_def)
  have sig: "ri_signature ?i = cm_signature c"
    by (auto simp: reconciliation_verdict_def Let_def unknown_input_def observationInput_def validSignatureIdentity_def split: sum.split)
  have fresh: "ri_observationId ?i = rx_newId x"
    by (auto simp: reconciliation_verdict_def Let_def unknown_input_def observationInput_def split: sum.split)
  have run: "reconcile env x (\<lambda>_ s. s) e a s = persist_reconciliation env x (\<lambda>_ s. s) p ?i s"
    using assms(1,3-6)[folded s_def] fc c(2)
    by (simp add: reconcile_def terminal_preparation_def renewLease_def context_ok_def)
  show ?thesis
  proof (cases "?l \<noteq> [] \<and> same_reconciliation (last ?l) ?i")
    case True
    with run li c(1) assms(6) show ?thesis unfolding s_def [symmetric]
      by (auto simp: persist_reconciliation_def renewLease_def context_ok_def)
  next
    case False
    obtain st where st: "reconciliationLifecycle (pr_state p) (ri_outcome ?i) = Inr st"
      using assms(2,3) by (cases "reconciliationLifecycle (pr_state p) (ri_outcome ?i)")
        (auto simp: reconciliationLifecycle.simps contacted_def terminal_preparation_def split: if_splits)
    have actor: "pr_actorSubject p = a"
      using assms(1) by (auto simp: findPreparation_def split: option.splits if_splits)
    let ?o = "next_reconciliation ?i (length ?l + 1)"
    let ?t = "set_preparation (p\<lparr>pr_state := st\<rparr>) (s\<lparr>ds_observations := js_set (ds_observations s) e (?l @ [?o])\<rparr>)"
    have "recordReconciliationObservation env ?i s = (Inr (p\<lparr>pr_state := st\<rparr>, ?o), ?t)"
      using verdict_admissible [OF assms(6), of c p e a] assms(3,4,7,8)[folded s_def] find actor c sig fresh st False
      by (auto simp: recordReconciliationObservation_def Let_def terminal_preparation_def signature_of_def list_ex_iff list_all_iff)
    moreover have "reconciliations_of ?t e = ?l @ [?o]" by (simp add: reconciliations_of_def set_preparation_def)
    moreover have "same_reconciliation ?o ?i" by (simp add: same_reconciliation_def next_reconciliation_def)
    ultimately show ?thesis using run li c(1) assms(6) False unfolding s_def [symmetric]
      by (auto simp: persist_reconciliation_def renewLease_def context_ok_def Let_def)
  qed
qed

text \<open>A provider that is down, asked under the same conditions.\<close>

definition sample_outage :: reconciliation_context where
  "sample_outage = sample_context\<lparr>rx_observe := (\<lambda>_. Inl \<lparr>px_providerErrorCode = None, px_code = Some ''TIMEOUT''\<rparr>)\<rparr>"

lemma sample_outage_premises:
  "map_option (\<lambda>p. (pr_state p, pa_reconciliationProviderId (pr_artifact p), pa_submissionProviderId (pr_artifact p), signature_of p))
     (findPreparation sample_committed_store ''exec'' ''alice'') =
   Some (SUBMISSION_COMMITTED_RECONCILE_ONLY, ''observe'', ''submit'', ''sig-1'')"
  "reconciliations_of sample_committed_store ''exec'' = []" "context_ok sample_env sample_outage" "signature_ok ''sig-1''"
  by code_simp+

theorem reconciliation_concludes_witness:
  "\<exists>report t. reconcile sample_env sample_outage (\<lambda>_ s. s) ''exec'' ''alice'' sample_committed_store = (Inr report, t) \<and>
     ro_errorCode (rr_observation report) = Some ''RPC_TIMEOUT''"
proof -
  obtain p where p: "findPreparation sample_committed_store ''exec'' ''alice'' = Some p"
    "pr_state p = SUBMISSION_COMMITTED_RECONCILE_ONLY" "pa_reconciliationProviderId (pr_artifact p) = ''observe''"
    "pa_submissionProviderId (pr_artifact p) = ''submit''" "signature_of p = ''sig-1''"
    using sample_outage_premises(1) by auto
  have code: "ri_errorCode (reconciliation_verdict sample_env sample_outage p ''exec'' ''alice'' c) = Some ''RPC_TIMEOUT''" for c
    by (simp add: reconciliation_verdict_def sample_outage_def sample_context_def unknown_input_def reconciliationErrorCode_def upper_text_def)
  have "rx_providerId sample_outage = ''observe''" by (simp add: sample_outage_def sample_context_def)
  with reconciliation_concludes [of sample_env "[Persist sample_preparation, Commit sample_commit]" "''exec''" "''alice''" p sample_outage]
    p sample_outage_premises(2-4)
  show ?thesis unfolding sample_committed_store_def [symmetric]
    by (auto simp: contacted_def terminal_preparation_def same_reconciliation_def code)
qed

end
