(* ===== verification/DevnetOrchestration.thy ===== *)
theory DevnetOrchestration
  imports DevnetStateProperties
begin

text \<open>
  \<open>src/devnet/preparedTransactionCipher.ts\<close> and \<open>src/devnet/devnetOrchestrationService.ts\<close>: preparing a
  transaction, replacing one that expired before it was contacted, and submitting a committed one. The
  authenticated encryption, the protocol package and the two providers are not part of the repository: they
  are the fields of \<open>devnet_ports\<close>. A call of the transport that submits is written down with the
  execution it is for and the signed bytes it carries.
\<close>

section \<open>The cipher\<close>

record encryption_context =
  ec_executionId :: string
  ec_preparationId :: string
  ec_keyVersion :: string

text \<open>AES-256-GCM (\<open>node:crypto\<close>): ciphertext and tag for a key, a nonce, associated data and a text, and back.\<close>

record aead =
  seal :: "nat list \<Rightarrow> nat list \<Rightarrow> string \<Rightarrow> string \<Rightarrow> nat list \<times> nat list"
  unseal :: "nat list \<Rightarrow> nat list \<Rightarrow> string \<Rightarrow> nat list \<Rightarrow> nat list \<Rightarrow> string option"

record transaction_cipher =
  tc_key :: "nat list"
  tc_keyVersion :: string

definition new_cipher :: "nat list \<Rightarrow> string \<Rightarrow> transaction_cipher result" where
  "new_cipher key keyVersion =
     (if length key \<noteq> 32 then throw ''AES-256-GCM requires an externally supplied 32-byte key.''
      else if keyVersion = '''' \<or> js_trim keyVersion \<noteq> keyVersion
      then throw ''Encryption key version must be a non-empty trimmed string.''
      else Inr \<lparr>tc_key = key, tc_keyVersion = keyVersion\<rparr>)"

definition aad :: "encryption_context \<Rightarrow> string" where
  "aad v = ''zephipay-devnet-preparation-v1'' @ nul @ ec_executionId v @ nul @ ec_preparationId v @ nul @ ec_keyVersion v"

definition assertContext :: "transaction_cipher \<Rightarrow> encryption_context \<Rightarrow> unit result" where
  "assertContext k v = (if ec_executionId v = '''' \<or> ec_preparationId v = '''' \<or> ec_keyVersion v \<noteq> tc_keyVersion k
     then throw ''Prepared transaction encryption context mismatch.'' else Inr ())"

definition encrypt :: "aead \<Rightarrow> transaction_cipher \<Rightarrow> nat list \<Rightarrow> string \<Rightarrow> encryption_context \<Rightarrow> encrypted_transaction result" where
  "encrypt a k iv signedTransactionBase64 context = and_then (assertContext k context) (\<lambda>_.
     if length iv \<noteq> 12 then throw ''AES-GCM initialization vector must be 12 bytes.''
     else let (ciphertext, tag) = seal a (tc_key k) iv (aad context) signedTransactionBase64 in
       Inr \<lparr>en_algorithm = ''aes-256-gcm'', en_keyVersion = tc_keyVersion k, en_initializationVector = iv,
         en_authenticationTag = tag, en_ciphertext = ciphertext\<rparr>)"

definition decrypt :: "aead \<Rightarrow> transaction_cipher \<Rightarrow> encrypted_transaction \<Rightarrow> encryption_context \<Rightarrow> string result" where
  "decrypt a k v context = and_then (assertContext k context) (\<lambda>_.
     if en_algorithm v \<noteq> ''aes-256-gcm'' \<or> en_keyVersion v \<noteq> tc_keyVersion k
     then throw ''Prepared transaction encryption key version mismatch.''
     else (case unseal a (tc_key k) (en_initializationVector v) (aad context) (en_authenticationTag v) (en_ciphertext v) of
       None \<Rightarrow> throw ''Unsupported state or unable to authenticate data'' | Some s \<Rightarrow> Inr s))"

section \<open>The service\<close>

record rail_command =
  rc_executionId :: string
  rc_paymentIntentId :: string
  rc_rail :: string
  rc_destinationType :: string
  rc_destinationNetwork :: string
  rc_asset :: string
  rc_decimals :: rat

record preparation_identity =
  id_preparationId :: string
  id_executionId :: string
  id_paymentIntentId :: string
  id_actorSubject :: string
  id_generation :: rat

datatype blockhash_disposition = SAFE_TO_PREPARE_FRESH | RECONCILIATION_REQUIRED | BLOCKHASH_VALID

text \<open>What the submitting transport answers: it throws, it accepted, or it saw the transaction settle.\<close>

datatype transport_answer =
    TransportThrew
  | TransportAccepted string
  | TransportSettled string "string option" "string option"

record devnet_ports =
  po_aead :: aead
  po_cipher :: transaction_cipher
  po_nonce :: "nat list"
  po_asset :: string
  po_decimals :: rat
  po_prepare :: "rail_command \<Rightarrow> (prepared_artifact \<times> string) result"
  po_height :: "string result"
  po_classify :: "devnet_state \<Rightarrow> string \<Rightarrow> string \<Rightarrow> blockhash_disposition"
  po_digest :: "string \<Rightarrow> string"
  po_authorize :: "string \<Rightarrow> string \<Rightarrow> prepared_artifact \<times> string \<Rightarrow> commitment \<Rightarrow> unit result"
  po_transport :: "string \<Rightarrow> string \<Rightarrow> transport_answer"
  po_submissionProviderId :: string
  po_submissionEnabled :: bool
  po_clock :: "nat \<Rightarrow> string"
  po_newId :: "nat \<Rightarrow> string"

record provider_identity =
  vi_network :: string
  vi_role :: string
  vi_providerId :: string

definition new_orchestration :: "provider_identity \<Rightarrow> provider_identity \<Rightarrow> string \<Rightarrow> string \<Rightarrow> unit result" where
  "new_orchestration reconciliation submission policySubmission policyReconciliation =
     (if vi_network reconciliation \<noteq> ''devnet'' \<or> vi_role reconciliation \<noteq> ''reconciliation'' \<or>
       vi_providerId reconciliation \<noteq> policyReconciliation
      then throw ''Configured reconciliation provider does not match authoritative Devnet policy.''
      else if vi_network submission \<noteq> ''devnet'' \<or> vi_role submission \<noteq> ''submission'' \<or>
       vi_providerId submission \<noteq> policySubmission
      then throw ''Configured submission provider does not match authoritative Devnet policy.''
      else if policySubmission = policyReconciliation
      then throw ''Submission and reconciliation providers must be independent.'' else Inr ())"

definition assertIdentity :: "devnet_ports \<Rightarrow> preparation_identity \<Rightarrow> rail_command \<Rightarrow> unit result" where
  "assertIdentity po i c =
     (if id_executionId i \<noteq> rc_executionId c \<or> id_paymentIntentId i \<noteq> rc_paymentIntentId c \<or> rc_rail c \<noteq> ''solana'' \<or>
       rc_destinationType c \<noteq> ''wallet'' \<or> rc_destinationNetwork c \<noteq> ''solana-devnet'' \<or> rc_asset c \<noteq> po_asset po \<or>
       rc_decimals c \<noteq> po_decimals po
      then throw ''Runtime command does not match server-authoritative Devnet execution identity or policy.'' else Inr ())"

definition persistence :: "devnet_ports \<Rightarrow> nat \<Rightarrow> preparation_identity \<Rightarrow> prepared_artifact \<times> string \<Rightarrow> preparation_input result" where
  "persistence po n i v = and_then (encrypt (po_aead po) (po_cipher po) (po_nonce po) (snd v)
       \<lparr>ec_executionId = id_executionId i, ec_preparationId = id_preparationId i, ec_keyVersion = tc_keyVersion (po_cipher po)\<rparr>) (\<lambda>e.
     Inr \<lparr>dp_preparationId = id_preparationId i, dp_executionId = id_executionId i, dp_paymentIntentId = id_paymentIntentId i,
       dp_actorSubject = id_actorSubject i, dp_generation = id_generation i, dp_encrypted = e, dp_artifact = fst v,
       dp_preparedAt = po_clock po n\<rparr>)"

definition reconstruct :: "devnet_ports \<Rightarrow> preparation \<Rightarrow> (prepared_artifact \<times> string) result" where
  "reconstruct po p = and_then (decrypt (po_aead po) (po_cipher po) (pr_encrypted p)
       \<lparr>ec_executionId = pr_executionId p, ec_preparationId = pr_preparationId p, ec_keyVersion = en_keyVersion (pr_encrypted p)\<rparr>) (\<lambda>b.
     if po_digest po b \<noteq> pa_signedTransactionDigest (pr_artifact p)
     then throw ''Persisted signed transaction digest does not match authenticated bytes.''
     else Inr (pr_artifact p, b))"

definition prepare_devnet ::
  "devnet_ports \<Rightarrow> preparation_identity \<Rightarrow> rail_command \<Rightarrow> devnet_store \<Rightarrow> (devnet_store, preparation) outcome" where
  "prepare_devnet po i c s =
     when_ok (assertIdentity po i c) s (\<lambda>_.
     when_ok (po_prepare po c) s (\<lambda>v.
     when_ok (persistence po 0 i v) s (\<lambda>d. persistPreparation d s)))"

definition loadRuntimePreparation :: "devnet_ports \<Rightarrow> string \<Rightarrow> string \<Rightarrow> devnet_store \<Rightarrow> (prepared_artifact \<times> string) option result" where
  "loadRuntimePreparation po executionId actor s = (case findPreparation s executionId actor of
     None \<Rightarrow> Inr None | Some p \<Rightarrow> and_then (reconstruct po p) (\<lambda>v. Inr (Some v)))"

text \<open>Between finding the prior preparation and replacing it, other clients act: \<open>others\<close>.\<close>

definition refreshExpiredPreContact ::
  "devnet_ports \<Rightarrow> (devnet_store \<Rightarrow> devnet_store) \<Rightarrow> string \<Rightarrow> string \<Rightarrow> string \<Rightarrow> rail_command \<Rightarrow> devnet_store \<Rightarrow>
   (devnet_store, preparation) outcome" where
  "refreshExpiredPreContact po others executionId actor nextPreparationId c s = (case findPreparation s executionId actor of
     None \<Rightarrow> (throw ''Devnet preparation was not found for this owner.'', s)
   | Some prior \<Rightarrow>
       if pr_state prior = ABANDONED_PRE_CONTACT then (throw ''Abandoned Devnet preparation cannot be replaced again.'', s)
       else if pr_state prior \<noteq> PREPARED_NOT_CONTACTED
       then (throw ''Committed Devnet preparation is reconciliation-only and cannot be replaced.'', s)
       else when_ok (po_height po) s (\<lambda>height.
         let disposition = po_classify po (pr_state prior) (pa_lastValidBlockHeight (pr_artifact prior)) height;
           i = \<lparr>id_preparationId = nextPreparationId, id_executionId = executionId, id_paymentIntentId = pr_paymentIntentId prior,
             id_actorSubject = actor, id_generation = pr_generation prior + 1\<rparr> in
         if disposition \<noteq> SAFE_TO_PREPARE_FRESH
         then (if disposition = RECONCILIATION_REQUIRED
           then (throw ''Committed Devnet preparation is reconciliation-only and cannot be replaced.'', s)
           else (throw ''Devnet preparation blockhash remains valid.'', s))
         else when_ok (assertIdentity po i c) s (\<lambda>_.
           when_ok (po_prepare po c) (others s) (\<lambda>v.
           when_ok (persistence po 0 i v) (others s) (\<lambda>d.
             replaceExpiredPreparation \<lparr>dr_priorPreparationId = pr_preparationId prior, dr_replacement = d,
               dr_abandonedAt = po_clock po 1\<rparr> (others s))))))"

section \<open>Submitting\<close>

record submit_request =
  su_executionId :: string
  su_actorSubject :: string
  su_commitmentId :: string
  su_providerIdempotencyKey :: string

datatype submit_reason = SUBMISSION_DISABLED | RECONCILIATION_ONLY | VALIDATION_FAILED

datatype submit_reply =
    NotAttempted submit_reason preparation "submission_observation option"
  | Attempted preparation submission_observation

text \<open>The four calls of a submission: find the preparation, commit it, submit, record what came of it.\<close>

datatype submit_phase =
    Idle
  | Found preparation
  | Authorized preparation commitment
  | Invalid preparation commitment
  | Answered preparation commitment transport_answer
  | Finished "submit_reply result"

definition submit_find :: "devnet_ports \<Rightarrow> submit_request \<Rightarrow> devnet_store \<Rightarrow> submit_phase" where
  "submit_find po i s = (case findPreparation s (su_executionId i) (su_actorSubject i) of
     None \<Rightarrow> Finished (throw ''Devnet preparation was not found for this owner.'')
   | Some p \<Rightarrow>
       if \<not> po_submissionEnabled po then Finished (Inr (NotAttempted SUBMISSION_DISABLED p None))
       else if pr_state p \<noteq> PREPARED_NOT_CONTACTED then Finished (Inr (NotAttempted RECONCILIATION_ONLY p None))
       else Found p)"

definition submit_commit :: "devnet_ports \<Rightarrow> submit_request \<Rightarrow> preparation \<Rightarrow> devnet_store \<Rightarrow> submit_phase \<times> devnet_store" where
  "submit_commit po i p s =
     (case commitSubmission \<lparr>dc_executionId = su_executionId i, dc_actorSubject = su_actorSubject i,
       dc_preparationId = pr_preparationId p, dc_commitmentId = su_commitmentId i, dc_committedAt = po_clock po 0\<rparr> s of
       (Inl e, t) \<Rightarrow> (Finished (Inl e), t)
     | (Inr (q, c, authorized), t) \<Rightarrow>
         if \<not> authorized then (Finished (Inr (NotAttempted RECONCILIATION_ONLY q None)), t)
         else if \<not> succeeds (reconstruct po q) then (Invalid q c, t)
         else (Authorized q c, t))"

text \<open>The call of the transport, with the signed bytes it carries.\<close>

definition submit_call :: "devnet_ports \<Rightarrow> submit_request \<Rightarrow> preparation \<Rightarrow> commitment \<Rightarrow> submit_phase \<times> (string \<times> string) list" where
  "submit_call po i q c = (case reconstruct po q of
     Inl e \<Rightarrow> (Finished (Inl e), [])
   | Inr v \<Rightarrow> (case po_authorize po (su_executionId i) (su_providerIdempotencyKey i) v c of
       Inl e \<Rightarrow> (Finished (Inl e), [])
     | Inr _ \<Rightarrow> (Answered q c (po_transport po (su_executionId i) (snd v)), [(su_executionId i, snd v)])))"

definition submission_evidence ::
  "devnet_ports \<Rightarrow> submit_request \<Rightarrow> preparation \<Rightarrow> commitment \<Rightarrow> nat \<Rightarrow> submission_outcome \<Rightarrow> contact_certainty \<Rightarrow> string \<Rightarrow>
   string option \<Rightarrow> string option \<Rightarrow> string option \<Rightarrow> submission_input" where
  "submission_evidence po i p c n outcome certainty observedAt code slot status = \<lparr>sb_observationId = po_newId po n,
     sb_executionId = su_executionId i, sb_preparationId = pr_preparationId p, sb_commitmentId = cm_commitmentId c,
     sb_providerId = po_submissionProviderId po, sb_signature = cm_signature c, sb_outcome = outcome,
     sb_contactCertainty = certainty, sb_observedAt = observedAt, sb_providerErrorCode = code, sb_slot = slot,
     sb_confirmationStatus = status, si_actorSubject = su_actorSubject i\<rparr>"

definition record_invalid :: "devnet_ports \<Rightarrow> submit_request \<Rightarrow> preparation \<Rightarrow> commitment \<Rightarrow> devnet_store \<Rightarrow> submit_phase \<times> devnet_store" where
  "record_invalid po i p c s =
     (case recordSubmissionObservation (submission_evidence po i p c 0 SO_VALIDATION_FAILED NOT_STARTED (po_clock po 1)
       (Some ''PERSISTED_ARTIFACT_INVALID'') None None) s of
       (Inl e, t) \<Rightarrow> (Finished (Inl e), t)
     | (Inr (q, x), t) \<Rightarrow> (Finished (Inr (NotAttempted VALIDATION_FAILED q (Some x))), t))"

text \<open>The answer of the transport as evidence, when it answered.\<close>

definition answer_evidence :: "devnet_ports \<Rightarrow> submit_request \<Rightarrow> preparation \<Rightarrow> commitment \<Rightarrow> transport_answer \<Rightarrow> submission_input option" where
  "answer_evidence po i p c answer = (case answer of
     TransportThrew \<Rightarrow> None
   | TransportAccepted at' \<Rightarrow> Some (submission_evidence po i p c 0 SO_ACCEPTED CONTACT_ACCEPTED at' None None None)
   | TransportSettled at' slot status \<Rightarrow> Some (submission_evidence po i p c 0 SO_SETTLED CONTACT_ACCEPTED at' None slot status))"

definition lost_evidence :: "devnet_ports \<Rightarrow> submit_request \<Rightarrow> preparation \<Rightarrow> commitment \<Rightarrow> nat \<Rightarrow> submission_input" where
  "lost_evidence po i p c n = submission_evidence po i p c n SO_UNKNOWN MAY_HAVE_OCCURRED (po_clock po 1)
     (Some ''SUBMISSION_RESPONSE_UNAVAILABLE'') None None"

definition recorded :: "(devnet_store, preparation \<times> submission_observation) outcome \<Rightarrow> submit_phase \<times> devnet_store" where
  "recorded o' = (case o' of (Inl e, t) \<Rightarrow> (Finished (Inl e), t) | (Inr (q, x), t) \<Rightarrow> (Finished (Inr (Attempted q x)), t))"

text \<open>When recording the answer throws, the handler records that the answer was lost.\<close>

definition record_answer ::
  "devnet_ports \<Rightarrow> submit_request \<Rightarrow> preparation \<Rightarrow> commitment \<Rightarrow> transport_answer \<Rightarrow> devnet_store \<Rightarrow> submit_phase \<times> devnet_store" where
  "record_answer po i p c answer s = (case answer_evidence po i p c answer of
     None \<Rightarrow> recorded (recordSubmissionObservation (lost_evidence po i p c 0) s)
   | Some x \<Rightarrow> (let o' = recordSubmissionObservation x s in
       if succeeds (fst o') then recorded o'
       else recorded (recordSubmissionObservation (lost_evidence po i p c 1) (snd o'))))"

definition submitPrepared ::
  "devnet_ports \<Rightarrow> (nat \<Rightarrow> devnet_store \<Rightarrow> devnet_store) \<Rightarrow> submit_request \<Rightarrow> devnet_store \<Rightarrow> submit_phase \<times> devnet_store \<times> (string \<times> string) list" where
  "submitPrepared po others i s = (case submit_find po i s of
     Found p \<Rightarrow> (case submit_commit po i p (others 0 s) of
         (Invalid q c, t) \<Rightarrow> (case record_invalid po i q c (others 1 t) of (f, u) \<Rightarrow> (f, u, []))
       | (Authorized q c, t) \<Rightarrow> (case submit_call po i q c of
             (Answered q' c' answer, calls) \<Rightarrow> (case record_answer po i q' c' answer (others 1 t) of (f, u) \<Rightarrow> (f, u, calls))
           | (f, calls) \<Rightarrow> (f, t, calls))
       | (f, t) \<Rightarrow> (f, t, []))
   | f \<Rightarrow> (f, s, []))"

end
