(* ===== verification/DevnetSubmission.thy ===== *)
theory DevnetSubmission
  imports DevnetOrchestration
begin

text \<open>
  Many submissions at once over one repository: any number of requests to submit, any of them for the same
  execution, each at its own point of \<open>submitPrepared\<close>, while other clients prepare, replace, reconcile. What
  the repository's commitment gives them: no execution is submitted twice.
\<close>

section \<open>Submissions running together\<close>

record submit_system =
  sy_store :: devnet_store
  sy_phase :: "nat \<Rightarrow> submit_phase"
  sy_calls :: "(string \<times> string) list"

definition at_phase :: "submit_system \<Rightarrow> nat \<Rightarrow> submit_phase \<Rightarrow> submit_system" where
  "at_phase y n f = y\<lparr>sy_phase := (sy_phase y)(n := f)\<rparr>"

inductive submit_step :: "devnet_ports \<Rightarrow> (nat \<Rightarrow> submit_request) \<Rightarrow> submit_system \<Rightarrow> submit_system \<Rightarrow> bool"
  for po :: devnet_ports and req :: "nat \<Rightarrow> submit_request" where
  other_client: "devnet_change (sy_store y) t \<Longrightarrow> submit_step po req y (y\<lparr>sy_store := t\<rparr>)"
| finding: "sy_phase y n = Idle \<Longrightarrow> submit_step po req y (at_phase y n (submit_find po (req n) (sy_store y)))"
| committing: "sy_phase y n = Found p \<Longrightarrow> submit_commit po (req n) p (sy_store y) = (f, t) \<Longrightarrow>
    submit_step po req y (at_phase (y\<lparr>sy_store := t\<rparr>) n f)"
| refusing: "sy_phase y n = Invalid q c \<Longrightarrow> record_invalid po (req n) q c (sy_store y) = (f, t) \<Longrightarrow>
    submit_step po req y (at_phase (y\<lparr>sy_store := t\<rparr>) n f)"
| calling: "sy_phase y n = Authorized q c \<Longrightarrow> submit_call po (req n) q c = (f, calls) \<Longrightarrow>
    submit_step po req y (at_phase (y\<lparr>sy_calls := sy_calls y @ calls\<rparr>) n f)"
| recording: "sy_phase y n = Answered q c answer \<Longrightarrow> record_answer po (req n) q c answer (sy_store y) = (f, t) \<Longrightarrow>
    submit_step po req y (at_phase (y\<lparr>sy_store := t\<rparr>) n f)"

definition fresh_system :: "devnet_store \<Rightarrow> submit_system" where
  "fresh_system s = \<lparr>sy_store = s, sy_phase = (\<lambda>_. Idle), sy_calls = []\<rparr>"

text \<open>The right to submit: held by an authorized submission, spent by a call.\<close>

definition holds_right :: "(nat \<Rightarrow> submit_request) \<Rightarrow> submit_system \<Rightarrow> nat \<Rightarrow> string \<Rightarrow> bool" where
  "holds_right req y n e \<longleftrightarrow> su_executionId (req n) = e \<and> (\<exists>q c. sy_phase y n = Authorized q c)"

definition system_ok :: "devnet_ports \<Rightarrow> (nat \<Rightarrow> submit_request) \<Rightarrow> submit_system \<Rightarrow> bool" where
  "system_ok po req y \<longleftrightarrow> devnet_ok (sy_store y) \<and> distinct (map fst (sy_calls y)) \<and>
     (\<forall>n q c. sy_phase y n = Authorized q c \<longrightarrow> committed_for (sy_store y) (su_executionId (req n)) = Some c \<and>
        cm_signedTransactionDigest c = digest_of q \<and> su_executionId (req n) \<notin> fst ` set (sy_calls y)) \<and>
     (\<forall>m n e. holds_right req y m e \<longrightarrow> holds_right req y n e \<longrightarrow> m = n) \<and>
     (\<forall>(e, b) \<in> set (sy_calls y). \<exists>c. committed_for (sy_store y) e = Some c \<and> po_digest po b = cm_signedTransactionDigest c)"

lemma at_phase_simps [simp]:
  "sy_store (at_phase y n f) = sy_store y" "sy_calls (at_phase y n f) = sy_calls y"
  "sy_phase (at_phase y n f) m = (if m = n then f else sy_phase y m)"
  by (simp_all add: at_phase_def)

lemma system_ok_fresh: "devnet_ok s \<Longrightarrow> system_ok po req (fresh_system s)"
  by (simp add: system_ok_def fresh_system_def holds_right_def)

text \<open>A step that neither calls nor grants a right keeps the system right.\<close>

lemma quiet_step_ok:
  assumes "system_ok po req y" and "devnet_change (sy_store y) (sy_store z)" and "sy_calls z = sy_calls y"
    and "\<And>n q c. sy_phase z n = Authorized q c \<Longrightarrow> sy_phase y n = Authorized q c"
  shows "system_ok po req z"
proof -
  have keep: "committed_for (sy_store y) e = Some c \<Longrightarrow> committed_for (sy_store z) e = Some c" for e c
    using committed_never_changes [OF assms(2)] by blast
  have right: "holds_right req z n e \<Longrightarrow> holds_right req y n e" for n e
    using assms(4) unfolding holds_right_def by blast
  show ?thesis unfolding system_ok_def
  proof (intro conjI allI impI)
    show "devnet_ok (sy_store z)" using assms(1) change_devnet_ok [OF _ assms(2)] by (simp add: system_ok_def)
    show "distinct (map fst (sy_calls z))" using assms(1,3) by (simp add: system_ok_def)
    show "m = n" if "holds_right req z m e" "holds_right req z n e" for m n e
      using assms(1) right [OF that(1)] right [OF that(2)] unfolding system_ok_def by blast
    show "committed_for (sy_store z) (su_executionId (req n)) = Some c"
      "cm_signedTransactionDigest c = digest_of q" "su_executionId (req n) \<notin> fst ` set (sy_calls z)"
      if "sy_phase z n = Authorized q c" for n q c
    proof -
      have "committed_for (sy_store y) (su_executionId (req n)) = Some c \<and> cm_signedTransactionDigest c = digest_of q \<and>
          su_executionId (req n) \<notin> fst ` set (sy_calls y)"
        using assms(1) assms(4) [OF that] unfolding system_ok_def by blast
      with keep show "committed_for (sy_store z) (su_executionId (req n)) = Some c"
        "cm_signedTransactionDigest c = digest_of q" "su_executionId (req n) \<notin> fst ` set (sy_calls z)"
        unfolding assms(3) by blast+
    qed
    show "\<forall>(e, b) \<in> set (sy_calls z). \<exists>c. committed_for (sy_store z) e = Some c \<and> po_digest po b = cm_signedTransactionDigest c"
      using assms(1,3) keep unfolding system_ok_def by fastforce
  qed
qed

lemma submit_commit_cases:
  assumes "devnet_ok s" and "submit_commit po i p s = (f, t)"
  obtains (quiet) "devnet_change s t" and "\<And>q c. f \<noteq> Authorized q c"
  | (granted) q c where "f = Authorized q c" and "devnet_change s t" and "committed_for s (su_executionId i) = None"
      and "committed_for t (su_executionId i) = Some c" and "cm_signedTransactionDigest c = digest_of q"
proof -
  let ?i = "\<lparr>dc_executionId = su_executionId i, dc_actorSubject = su_actorSubject i, dc_preparationId = pr_preparationId p,
    dc_commitmentId = su_commitmentId i, dc_committedAt = po_clock po 0\<rparr>"
  obtain r u where ru: "commitSubmission ?i s = (r, u)" by fastforce
  have change: "devnet_change s u" using commit_refines [OF assms(1), of ?i] ru by (simp add: refines_def)
  show thesis
  proof (cases r)
    case (Inl e)
    with assms(2) ru have f: "f = Finished (Inl e)" "t = u" by (auto simp: submit_commit_def)
    show thesis by (rule quiet) (use f change in simp_all)
  next
    case (Inr x)
    obtain q c b where x: "x = (q, c, b)" by (cases x) auto
    show thesis
    proof (cases "b \<and> succeeds (reconstruct po q)")
      case True
      with Inr x ru have a: "commitSubmission ?i s = (Inr (q, c, True), u)" by simp
      have none: "committed_for s (su_executionId i) = None"
        using commitSubmission_denies [of s ?i q c u] a by (cases "committed_for s (su_executionId i)") auto
      from commitSubmission_authorizes [OF assms(1) a] none
      have "committed_for s (su_executionId i) = None" "committed_for u (su_executionId i) = Some c"
        "cm_signedTransactionDigest c = digest_of q" by (auto simp: committed_to_def)
      moreover have "f = Authorized q c" "t = u" using True assms(2) Inr x ru by (auto simp: submit_commit_def)
      ultimately show thesis using none change by (intro granted) auto
    next
      case False
      with assms(2) Inr x ru have "t = u" "\<forall>q c. f \<noteq> Authorized q c"
        by (auto simp: submit_commit_def split: if_splits)
      with change show thesis by (intro quiet) auto
    qed
  qed
qed

lemma submit_call_cases:
  assumes "submit_call po i q c = (f, calls)"
  obtains (none) "calls = []" and "\<And>q c. f \<noteq> Authorized q c"
  | (one) b where "calls = [(su_executionId i, b)]" and "po_digest po b = digest_of q" and "\<And>q c. f \<noteq> Authorized q c"
proof -
  have digest: "po_digest po (snd v) = digest_of q" if "reconstruct po q = Inr v" for v
    using that by (auto simp: reconstruct_def and_then_Inr digest_of_def split: if_splits)
  from assms that digest show thesis
    by (cases "reconstruct po q") (auto simp: submit_call_def split: sum.splits)
qed

lemma recorded_quiet:
  assumes "refines s o'" and "recorded o' = (f, t)"
  shows "devnet_change s t" and "f \<noteq> Authorized q c"
  using assms by (auto simp: recorded_def refines_def split: prod.splits sum.splits)

lemma record_invalid_quiet:
  assumes "devnet_ok s" and "record_invalid po i p d s = (f, t)"
  shows "devnet_change s t" and "f \<noteq> Authorized q c"
proof -
  let ?x = "submission_evidence po i p d 0 SO_VALIDATION_FAILED NOT_STARTED (po_clock po 1) (Some ''PERSISTED_ARTIFACT_INVALID'') None None"
  obtain r u where "recordSubmissionObservation ?x s = (r, u)" by fastforce
  with assms(2) submission_refines [OF assms(1), of ?x] show "devnet_change s t" "f \<noteq> Authorized q c"
    by (auto simp: record_invalid_def refines_def split: prod.splits sum.splits)
qed

lemma record_answer_quiet:
  assumes "devnet_ok s" and "record_answer po i p d answer s = (f, t)"
  shows "devnet_change s t" and "f \<noteq> Authorized q c"
proof -
  have lost: "devnet_change s t \<and> f \<noteq> Authorized q c"
    if "recorded (recordSubmissionObservation (lost_evidence po i p d n) s) = (f, t)" for n
    using recorded_quiet [OF submission_refines [OF assms(1)] that] by blast
  have "devnet_change s t \<and> f \<noteq> Authorized q c"
  proof (cases "answer_evidence po i p d answer")
    case None
    with assms(2) lost show ?thesis by (simp add: record_answer_def)
  next
    case (Some x)
    show ?thesis
    proof (cases "succeeds (fst (recordSubmissionObservation x s))")
      case True
      with Some assms(2) have "recorded (recordSubmissionObservation x s) = (f, t)" by (simp add: record_answer_def Let_def)
      with recorded_quiet [OF submission_refines [OF assms(1)]] show ?thesis by blast
    next
      case False
      then have "snd (recordSubmissionObservation x s) = s" using submission_refines [OF assms(1), of x] by (simp add: refines_def)
      with False Some assms(2) lost show ?thesis by (simp add: record_answer_def Let_def)
    qed
  qed
  then show "devnet_change s t" "f \<noteq> Authorized q c" by blast+
qed

lemma submit_find_quiet: "submit_find po i s \<noteq> Authorized q c"
  by (simp add: submit_find_def split: option.split)

text \<open>A granted right is the first of its execution.\<close>

lemma grant_ok:
  assumes "system_ok po req y" and "devnet_change (sy_store y) t" and "committed_for (sy_store y) (su_executionId (req n)) = None"
    and "committed_for t (su_executionId (req n)) = Some c" and "cm_signedTransactionDigest c = digest_of q"
  shows "system_ok po req (at_phase (y\<lparr>sy_store := t\<rparr>) n (Authorized q c))"
proof -
  let ?z = "at_phase (y\<lparr>sy_store := t\<rparr>) n (Authorized q c)"
  have keep: "committed_for (sy_store y) e = Some d \<Longrightarrow> committed_for t e = Some d" for e d
    using committed_never_changes [OF assms(2)] by blast
  have nobody: "\<not> holds_right req y m (su_executionId (req n))" for m
    using assms(1,3) unfolding system_ok_def holds_right_def by fastforce
  have nocall: "su_executionId (req n) \<notin> fst ` set (sy_calls y)"
    using assms(1,3) unfolding system_ok_def by fastforce
  have right: "m = n \<and> e = su_executionId (req n) \<or> m \<noteq> n \<and> holds_right req y m e" if "holds_right req ?z m e" for m e
    using that unfolding holds_right_def by (cases "m = n") auto
  show ?thesis unfolding system_ok_def
  proof (intro conjI allI impI)
    show "devnet_ok (sy_store ?z)" using assms(1) change_devnet_ok [OF _ assms(2)] by (simp add: system_ok_def)
    show "distinct (map fst (sy_calls ?z))" using assms(1) by (simp add: system_ok_def)
    show "m = k" if "holds_right req ?z m e" "holds_right req ?z k e" for m k e
      using right [OF that(1)] right [OF that(2)] nobody assms(1) unfolding system_ok_def by blast
    show "committed_for (sy_store ?z) (su_executionId (req m)) = Some d"
      "cm_signedTransactionDigest d = digest_of r" "su_executionId (req m) \<notin> fst ` set (sy_calls ?z)"
      if "sy_phase ?z m = Authorized r d" for m r d
      using that assms(1,4,5) nocall keep unfolding system_ok_def by (auto split: if_splits)
    show "\<forall>(e, b) \<in> set (sy_calls ?z). \<exists>d. committed_for (sy_store ?z) e = Some d \<and> po_digest po b = cm_signedTransactionDigest d"
      using assms(1) keep unfolding system_ok_def by fastforce
  qed
qed

text \<open>A call spends it.\<close>

lemma call_ok:
  assumes ok: "system_ok po req y" and q: "sy_phase y n = Authorized q c" and b: "po_digest po b = digest_of q"
    and f: "\<And>r d. f \<noteq> Authorized r d"
  shows "system_ok po req (at_phase (y\<lparr>sy_calls := sy_calls y @ [(su_executionId (req n), b)]\<rparr>) n f)"
proof -
  let ?z = "at_phase (y\<lparr>sy_calls := sy_calls y @ [(su_executionId (req n), b)]\<rparr>) n f"
  have c: "committed_for (sy_store y) (su_executionId (req n)) = Some c" "cm_signedTransactionDigest c = digest_of q"
    "su_executionId (req n) \<notin> fst ` set (sy_calls y)"
    using ok q unfolding system_ok_def by blast+
  have right: "m \<noteq> n \<and> holds_right req y m e" if "holds_right req ?z m e" for m e
    using that f unfolding holds_right_def by (auto split: if_splits)
  have other: "su_executionId (req m) \<noteq> su_executionId (req n)" if "sy_phase y m = Authorized r d" "m \<noteq> n" for m r d
    using ok q that unfolding system_ok_def holds_right_def by metis
  show ?thesis unfolding system_ok_def
  proof (intro conjI allI impI)
    show "devnet_ok (sy_store ?z)" using ok by (simp add: system_ok_def)
    show "distinct (map fst (sy_calls ?z))" using ok c(3) by (auto simp: system_ok_def)
    show "m = k" if "holds_right req ?z m e" "holds_right req ?z k e" for m k e
      using right [OF that(1)] right [OF that(2)] ok unfolding system_ok_def by blast
    show "committed_for (sy_store ?z) (su_executionId (req m)) = Some d"
      "cm_signedTransactionDigest d = digest_of r" "su_executionId (req m) \<notin> fst ` set (sy_calls ?z)"
      if "sy_phase ?z m = Authorized r d" for m r d
    proof -
      from that f have m: "sy_phase y m = Authorized r d" "m \<noteq> n" by (auto split: if_splits)
      with ok other [OF m] show "committed_for (sy_store ?z) (su_executionId (req m)) = Some d"
        "cm_signedTransactionDigest d = digest_of r" "su_executionId (req m) \<notin> fst ` set (sy_calls ?z)"
        unfolding system_ok_def by auto
    qed
    show "\<forall>(e, b) \<in> set (sy_calls ?z). \<exists>d. committed_for (sy_store ?z) e = Some d \<and> po_digest po b = cm_signedTransactionDigest d"
      using ok c b unfolding system_ok_def by auto
  qed
qed

lemma submit_step_ok: "system_ok po req y \<Longrightarrow> submit_step po req y z \<Longrightarrow> system_ok po req z"
proof -
  assume ok: "system_ok po req y" and st: "submit_step po req y z"
  have dv: "devnet_ok (sy_store y)" using ok by (simp add: system_ok_def)
  from st show ?thesis
  proof (cases rule: submit_step.cases)
    case (other_client t)
    with ok show ?thesis by (auto intro: quiet_step_ok)
  next
    case (finding n)
    show ?thesis using ok
      by (rule quiet_step_ok) (use finding submit_find_quiet in \<open>auto simp: devnet_change.unchanged split: if_splits\<close>)
  next
    case (committing n p f t)
    from dv committing(3) show ?thesis
    proof (cases rule: submit_commit_cases)
      case quiet
      show ?thesis using ok by (rule quiet_step_ok) (use committing quiet in \<open>auto split: if_splits\<close>)
    next
      case (granted q c)
      show ?thesis unfolding committing(1) granted(1) by (rule grant_ok [OF ok granted(2-5)])
    qed
  next
    case (refusing n q c f t)
    note quiet = record_invalid_quiet [OF dv refusing(3)]
    show ?thesis using ok by (rule quiet_step_ok) (use refusing(1) quiet in \<open>auto split: if_splits\<close>)
  next
    case (calling n q c f calls)
    from calling(3) show ?thesis
    proof (cases rule: submit_call_cases)
      case none
      show ?thesis using ok
        by (rule quiet_step_ok) (use calling none in \<open>auto simp: devnet_change.unchanged split: if_splits\<close>)
    next
      case (one b)
      show ?thesis unfolding calling(1) one(1) by (rule call_ok [OF ok calling(2) one(2,3)])
    qed
  next
    case (recording n q c answer f t)
    note quiet = record_answer_quiet [OF dv recording(3)]
    show ?thesis using ok by (rule quiet_step_ok) (use recording(1) quiet in \<open>auto split: if_splits\<close>)
  qed
qed

interpretation sm: guarded_machine "system_ok po req" "submit_step po req" for po req
  by unfold_locales (rule submit_step_ok)

section \<open>Properties\<close>

lemma at_most_one_submission_parts:
  assumes "(submit_step po req)\<^sup>*\<^sup>* (fresh_system (devnet_after env qs)) y"
  shows "distinct (map fst (sy_calls y))"
    and "(e, b) \<in> set (sy_calls y) \<Longrightarrow>
      \<exists>c. committed_for (sy_store y) e = Some c \<and> po_digest po b = cm_signedTransactionDigest c"
proof -
  have "system_ok po req y" using assms system_ok_fresh devnet_after_ok by (blast intro: sm.run_ok)
  then show "distinct (map fst (sy_calls y))" "(e, b) \<in> set (sy_calls y) \<Longrightarrow>
      \<exists>c. committed_for (sy_store y) e = Some c \<and> po_digest po b = cm_signedTransactionDigest c"
    unfolding system_ok_def by blast+
qed

text \<open>C3: money is never sent twice. However many requests to submit run at once, in whatever order their calls and
  those of the repository's other clients fall, at most one call of the submitting transport is ever made for one
  execution; and the bytes that call carries are those whose digest the execution's commitment names.\<close>

theorem at_most_one_submission:
  assumes "(submit_step po req)\<^sup>*\<^sup>* (fresh_system (devnet_after env qs)) y"
  shows "distinct (map fst (sy_calls y)) \<and>
    (\<forall>(e, b) \<in> set (sy_calls y). \<exists>c. committed_for (sy_store y) e = Some c \<and> po_digest po b = cm_signedTransactionDigest c)"
  using at_most_one_submission_parts [OF assms] by auto

text \<open>One request that runs through, beside one for the same execution that found the preparation before it.\<close>

definition sample_aead :: aead where
  "sample_aead = \<lparr>seal = (\<lambda>k iv ad t. (map of_char t, replicate 16 (length ad))),
     unseal = (\<lambda>k iv ad tag b. if tag = replicate 16 (length ad) then Some (map char_of b) else None)\<rparr>"

definition sample_ports :: devnet_ports where
  "sample_ports = \<lparr>po_aead = sample_aead, po_cipher = \<lparr>tc_key = replicate 32 0, tc_keyVersion = ''k1''\<rparr>, po_nonce = replicate 12 7,
     po_asset = ''USDC'', po_decimals = 6, po_prepare = (\<lambda>c. Inr (sample_artifact, ''bytes'')), po_height = Inr ''90'',
     po_classify = (\<lambda>st last now. BLOCKHASH_VALID), po_digest = (\<lambda>b. replicate 64 CHR ''a''), po_authorize = (\<lambda>e k v c. Inr ()),
     po_transport = (\<lambda>e b. TransportThrew), po_submissionProviderId = ''submit'', po_submissionEnabled = True,
     po_clock = (\<lambda>n. ''t1''), po_newId = (\<lambda>n. ''s1'')\<rparr>"

definition sample_identity :: preparation_identity where
  "sample_identity = \<lparr>id_preparationId = ''prep-1'', id_executionId = ''exec'', id_paymentIntentId = ''intent'',
     id_actorSubject = ''alice'', id_generation = 1\<rparr>"

definition sample_command :: rail_command where
  "sample_command = \<lparr>rc_executionId = ''exec'', rc_paymentIntentId = ''intent'', rc_rail = ''solana'', rc_destinationType = ''wallet'',
     rc_destinationNetwork = ''solana-devnet'', rc_asset = ''USDC'', rc_decimals = 6\<rparr>"

definition sample_submit :: submit_request where
  "sample_submit = \<lparr>su_executionId = ''exec'', su_actorSubject = ''alice'', su_commitmentId = ''commit-1'',
     su_providerIdempotencyKey = ''key''\<rparr>"

definition sample_input :: preparation_input where
  "sample_input = sample_preparation\<lparr>dp_encrypted := \<lparr>en_algorithm = ''aes-256-gcm'', en_keyVersion = ''k1'',
     en_initializationVector = replicate 12 7, en_authenticationTag = replicate 16 45, en_ciphertext = map of_char ''bytes''\<rparr>\<rparr>"

definition sample_prepared_store :: devnet_store where
  "sample_prepared_store = devnet_after sample_env [Persist sample_input]"

lemma sample_submitted:
  "snd (snd (submitPrepared sample_ports (\<lambda>_ s. s) sample_submit sample_prepared_store)) = [(''exec'', ''bytes'')]"
  "map_option pr_state (prepared (fst (snd (submitPrepared sample_ports (\<lambda>_ s. s) sample_submit sample_prepared_store))) ''prep-1'') =
     Some UNKNOWN_RECONCILIATION_REQUIRED"
  by code_simp+

lemma sample_steps:
  "case submit_find sample_ports sample_submit sample_prepared_store of
     Found p \<Rightarrow> (case submit_commit sample_ports sample_submit p sample_prepared_store of
         (Authorized q c, t) \<Rightarrow> snd (submit_call sample_ports sample_submit q c) = [(''exec'', ''bytes'')]
       | _ \<Rightarrow> False)
   | _ \<Rightarrow> False"
  by code_simp

theorem at_most_one_submission_witness:
  "\<exists>y c. (submit_step sample_ports (\<lambda>_. sample_submit))\<^sup>*\<^sup>* (fresh_system sample_prepared_store) y \<and>
     sy_calls y = [(''exec'', ''bytes'')] \<and> committed_for (sy_store y) ''exec'' = Some c \<and>
     cm_signedTransactionDigest c = replicate 64 CHR ''a''"
proof -
  let ?req = "\<lambda>_. sample_submit" and ?s = sample_prepared_store
  let ?step = "submit_step sample_ports ?req"
  from sample_steps obtain p q c t where p: "submit_find sample_ports sample_submit ?s = Found p"
    and q: "submit_commit sample_ports sample_submit p ?s = (Authorized q c, t)"
    and calls: "snd (submit_call sample_ports sample_submit q c) = [(''exec'', ''bytes'')]"
    by (auto split: submit_phase.splits prod.splits)
  obtain f where f: "submit_call sample_ports sample_submit q c = (f, [(''exec'', ''bytes'')])"
    using calls by (cases "submit_call sample_ports sample_submit q c") auto
  define y1 where "y1 = at_phase (fresh_system ?s) 1 (Found p)"
  define y2 where "y2 = at_phase y1 0 (Found p)"
  define y3 where "y3 = at_phase (y2\<lparr>sy_store := t\<rparr>) 0 (Authorized q c)"
  define y4 where "y4 = at_phase (y3\<lparr>sy_calls := sy_calls y3 @ [(''exec'', ''bytes'')]\<rparr>) 0 f"
  have store: "sy_store y1 = ?s" "sy_store y2 = ?s" and calls3: "sy_calls y3 = []"
    by (simp_all add: y1_def y2_def y3_def fresh_system_def)
  have "?step (fresh_system ?s) y1"
    using submit_step.finding [of "fresh_system ?s" 1 sample_ports ?req] p by (simp add: y1_def fresh_system_def)
  moreover have "?step y1 y2"
    using submit_step.finding [of y1 0 sample_ports ?req] p store by (simp add: y2_def y1_def fresh_system_def)
  moreover have "?step y2 y3"
    using submit_step.committing [of y2 0 p sample_ports ?req] q store by (simp add: y3_def y2_def)
  moreover have "?step y3 y4"
    using submit_step.calling [of y3 0 q c sample_ports ?req] f by (simp add: y4_def y3_def)
  ultimately have run: "?step\<^sup>*\<^sup>* (fresh_system ?s) y4" by simp
  have last: "sy_calls y4 = [(''exec'', ''bytes'')]" by (simp add: y4_def calls3)
  from at_most_one_submission [OF run[unfolded sample_prepared_store_def]] last
  obtain c where "committed_for (sy_store y4) ''exec'' = Some c" "po_digest sample_ports ''bytes'' = cm_signedTransactionDigest c"
    by (auto simp: sample_prepared_store_def)
  with run last show ?thesis by (auto simp: sample_ports_def)
qed

section \<open>What one submission leaves\<close>

lemma find_preparation_fields:
  "findPreparation s e a = Some p \<Longrightarrow> pr_actorSubject p = a"
  by (auto simp: findPreparation_def split: option.splits if_splits)

lemma uncontacted_uncommitted:
  assumes "devnet_ok s" and "prepared s k = Some p" and "pr_state p = PREPARED_NOT_CONTACTED"
  shows "committed_for s (pr_executionId p) = None"
proof (rule ccontr)
  assume "committed_for s (pr_executionId p) \<noteq> None"
  then obtain c where "committed_for s (pr_executionId p) = Some c" by blast
  with assms(1) obtain j q where q: "prepared s j = Some q" "pr_executionId q = pr_executionId p" "contacted q"
    unfolding devnet_ok_def commitments_ok_def by metis
  have "q \<noteq> p" using q(3) assms(3) by (auto simp: contacted_def)
  with q assms(1,2) have "j \<noteq> k" by auto
  with q assms show False unfolding devnet_ok_def lineage_ok_def by (metis abandoned_def contacted_not_abandoned devnet_state.distinct(11))
qed

text \<open>Evidence the repository accepts for a committed preparation that is not terminal.\<close>

lemma submission_recorded:
  assumes "prepared s (sb_preparationId x) = Some p" and "committed_for s (sb_executionId x) = Some c"
    and "pr_executionId p = sb_executionId x" and "pr_actorSubject p = si_actorSubject x" and "cm_commitmentId c = sb_commitmentId x"
    and "sb_providerId x = pa_submissionProviderId (pr_artifact p)" and "sb_signature x = cm_signature c"
    and "assertSubmissionEvidence x = Inr ()" and "submissionLifecycle (pr_state p) (sb_outcome x) = Inr st"
    and "\<not> list_ex (\<lambda>v. sb_observationId v = sb_observationId x) (submissions_of s (sb_executionId x))"
  shows "recordSubmissionObservation x s = (Inr (p\<lparr>pr_state := st\<rparr>, submission_observation.truncate x),
    set_preparation (p\<lparr>pr_state := st\<rparr>) (s\<lparr>ds_submissionObservations := js_set (ds_submissionObservations s) (sb_executionId x)
      (submissions_of s (sb_executionId x) @ [submission_observation.truncate x])\<rparr>))"
  using assms by (simp add: recordSubmissionObservation_def Let_def)

definition provider_text_ok :: "string \<Rightarrow> bool" where
  "provider_text_ok v \<longleftrightarrow> v \<noteq> '''' \<and> js_trim v = v"

lemma lost_code: "code_text 64 ''SUBMISSION_RESPONSE_UNAVAILABLE''"
  by (simp add: code_text_def is_alnum_def)

lemma evidence_admissible:
  assumes "provider_text_ok (po_submissionProviderId po)" "length (po_submissionProviderId po) \<le> 128" "provider_text_ok (cm_signature c)"
  shows "assertSubmissionEvidence (lost_evidence po i p c n) = Inr ()"
    and "answer_evidence po i p c answer = Some x \<Longrightarrow>
      assertSubmissionEvidence x = Inr () \<longleftrightarrow> absent_or decimal_text (sb_slot x) \<and> absent_or (word_text 32) (sb_confirmationStatus x)"
  using assms lost_code
  by (auto simp: assertSubmissionEvidence_def lost_evidence_def answer_evidence_def submission_evidence_def provider_text_ok_def
      absent_or_def split: transport_answer.splits)

text \<open>The state a transport's answer leads to.\<close>

definition state_after_answer :: "transport_answer \<Rightarrow> devnet_state" where
  "state_after_answer answer = (case answer of
     TransportThrew \<Rightarrow> UNKNOWN_RECONCILIATION_REQUIRED
   | TransportAccepted at' \<Rightarrow> ACCEPTED_PENDING
   | TransportSettled at' slot status \<Rightarrow>
       if absent_or decimal_text slot \<and> absent_or (word_text 32) status then D_SETTLED else UNKNOWN_RECONCILIATION_REQUIRED)"

lemma evidence_fields [simp]:
  "sb_executionId (submission_evidence po i p c n out cer t code slot st) = su_executionId i"
  "sb_preparationId (submission_evidence po i p c n out cer t code slot st) = pr_preparationId p"
  "sb_commitmentId (submission_evidence po i p c n out cer t code slot st) = cm_commitmentId c"
  "sb_providerId (submission_evidence po i p c n out cer t code slot st) = po_submissionProviderId po"
  "sb_signature (submission_evidence po i p c n out cer t code slot st) = cm_signature c"
  "sb_outcome (submission_evidence po i p c n out cer t code slot st) = out"
  "sb_observationId (submission_evidence po i p c n out cer t code slot st) = po_newId po n"
  "si_actorSubject (submission_evidence po i p c n out cer t code slot st) = su_actorSubject i"
  by (simp_all add: submission_evidence_def)

lemma record_answer_state:
  assumes p: "prepared s (pr_preparationId p) = Some p" "pr_state p = SUBMISSION_COMMITTED_RECONCILE_ONLY"
    "pr_executionId p = su_executionId i" "pr_actorSubject p = su_actorSubject i"
    and c: "committed_for s (su_executionId i) = Some c"
    and po: "po_submissionProviderId po = pa_submissionProviderId (pr_artifact p)" "provider_text_ok (po_submissionProviderId po)"
      "length (po_submissionProviderId po) \<le> 128" "provider_text_ok (cm_signature c)"
    and new: "list_all (\<lambda>v. sb_observationId v \<noteq> po_newId po 0 \<and> sb_observationId v \<noteq> po_newId po 1) (submissions_of s (su_executionId i))"
  shows "\<exists>x t. record_answer po i p c answer s = (Finished (Inr (Attempted (p\<lparr>pr_state := state_after_answer answer\<rparr>) x)), t) \<and>
      prepared t (pr_preparationId p) = Some (p\<lparr>pr_state := state_after_answer answer\<rparr>)"
proof -
  note admissible = evidence_admissible [OF po(2-4), of i p]
  have fresh: "\<not> list_ex (\<lambda>v. sb_observationId v = po_newId po n) (submissions_of s (su_executionId i))" if "n = 0 \<or> n = 1" for n
    using new that by (auto simp: list_ex_iff list_all_iff)
  have lost: "\<exists>x t. recorded (recordSubmissionObservation (lost_evidence po i p c n) s) =
      (Finished (Inr (Attempted (p\<lparr>pr_state := UNKNOWN_RECONCILIATION_REQUIRED\<rparr>) x)), t) \<and>
      prepared t (pr_preparationId p) = Some (p\<lparr>pr_state := UNKNOWN_RECONCILIATION_REQUIRED\<rparr>)" if "n = 0 \<or> n = 1" for n
    using submission_recorded [of s "lost_evidence po i p c n" p c UNKNOWN_RECONCILIATION_REQUIRED] p c po(1) admissible(1) fresh [OF that]
    by (simp add: recorded_def lost_evidence_def submissionLifecycle.simps)
  show ?thesis
  proof (cases "answer_evidence po i p c answer")
    case None
    then have "answer = TransportThrew" by (simp add: answer_evidence_def split: transport_answer.splits)
    with None lost [of 0] show ?thesis by (simp add: record_answer_def state_after_answer_def)
  next
    case (Some x)
    show ?thesis
    proof (cases "assertSubmissionEvidence x = Inr ()")
      case True
      from Some have fields: "sb_executionId x = su_executionId i" "sb_preparationId x = pr_preparationId p"
        "sb_commitmentId x = cm_commitmentId c" "sb_providerId x = po_submissionProviderId po" "sb_signature x = cm_signature c"
        "sb_observationId x = po_newId po 0" "si_actorSubject x = su_actorSubject i"
        by (auto simp: answer_evidence_def split: transport_answer.splits)
      have "submissionLifecycle (pr_state p) (sb_outcome x) = Inr (state_after_answer answer)"
        using Some True admissible(2) [OF Some] p(2)
        by (auto simp: answer_evidence_def state_after_answer_def submissionLifecycle.simps submission_evidence_def split: transport_answer.splits)
      with submission_recorded [of s x p c "state_after_answer answer"] fields p c po(1) True fresh [of 0] Some show ?thesis
        by (simp add: record_answer_def recorded_def)
    next
      case False
      then have "state_after_answer answer = UNKNOWN_RECONCILIATION_REQUIRED" using Some admissible(2) [OF Some]
        by (auto simp: answer_evidence_def state_after_answer_def submission_evidence_def absent_or_def split: transport_answer.splits)
      moreover have "\<exists>e. recordSubmissionObservation x s = (Inl e, s)" using False
        by (cases "assertSubmissionEvidence x") (simp_all add: recordSubmissionObservation_def)
      ultimately show ?thesis using Some lost [of 1] by (auto simp: record_answer_def Let_def)
    qed
  qed
qed

lemma reconstruct_state [simp]:
  "reconstruct po (p\<lparr>pr_state := st, pr_committedAt := t\<rparr>) = reconstruct po p"
  by (simp add: reconstruct_def cong: if_cong)

text \<open>What a submission leaves. When the preparation of an execution was never contacted and its bytes can be
  read back, the transport is called exactly once, with those bytes, after the commitment was made; and then the
  transport's answer alone decides the state: accepted is pending, settled with a well-formed slot and status is settled,
  and an answer that is lost or cannot be recorded is unknown and to be reconciled. A submission never marks a payment
  as failed, and never leaves it as if it had not been contacted.\<close>

theorem submission_follows_answer:
  assumes "findPreparation (devnet_after env qs) (su_executionId i) (su_actorSubject i) = Some p"
    and "pr_state p = PREPARED_NOT_CONTACTED" and "po_submissionEnabled po"
    and "reconstruct po p = Inr (artifact, bytes)" and "\<And>c. po_authorize po (su_executionId i) (su_providerIdempotencyKey i) (artifact, bytes) c = Inr ()"
    and "po_submissionProviderId po = pa_submissionProviderId (pr_artifact p)" and "provider_text_ok (po_submissionProviderId po)"
    and "length (po_submissionProviderId po) \<le> 128" and "provider_text_ok (signature_of p)"
    and "list_all (\<lambda>v. sb_observationId v \<noteq> po_newId po 0 \<and> sb_observationId v \<noteq> po_newId po 1)
      (submissions_of (devnet_after env qs) (su_executionId i))"
  shows "\<exists>q x t. submitPrepared po (\<lambda>_ s. s) i (devnet_after env qs) =
      (Finished (Inr (Attempted q x)), t, [(su_executionId i, bytes)]) \<and>
      prepared t (pr_preparationId p) = Some q \<and> pr_artifact q = pr_artifact p \<and>
      pr_state q = state_after_answer (po_transport po (su_executionId i) bytes)"
proof -
  define s where "s = devnet_after env qs"
  have ok: "devnet_ok s" unfolding s_def by (rule devnet_after_ok)
  note find = find_preparation_Some [OF ok assms(1)[folded s_def]] find_preparation_fields [OF assms(1)]
  have none: "committed_for s (su_executionId i) = None"
    using uncontacted_uncommitted [OF ok find(1) assms(2)] find(2) by simp
  let ?q = "p\<lparr>pr_state := SUBMISSION_COMMITTED_RECONCILE_ONLY, pr_committedAt := Some (po_clock po 0)\<rparr>"
  let ?c = "\<lparr>cm_commitmentId = su_commitmentId i, cm_executionId = su_executionId i, cm_preparationId = pr_preparationId p,
    cm_signature = signature_of p, cm_signedTransactionDigest = digest_of p, cm_committedAt = po_clock po 0\<rparr>"
  let ?t = "s\<lparr>ds_commitments := js_set (ds_commitments s) (su_executionId i) ?c,
    ds_preparations := js_set (ds_preparations s) (pr_preparationId p) ?q\<rparr>"
  let ?answer = "po_transport po (su_executionId i) bytes"
  have "submit_find po i s = Found p" using assms(1-3)[folded s_def] by (simp add: submit_find_def)
  moreover have "submit_commit po i p s = (Authorized ?q ?c, ?t)"
    using none find assms(2,4)
    by (simp add: submit_commit_def commitSubmission_def Let_def signature_of_def digest_of_def)
  moreover have "submit_call po i ?q ?c = (Answered ?q ?c ?answer, [(su_executionId i, bytes)])"
    using assms(4,5) by (simp add: submit_call_def)
  moreover have "\<exists>x u. record_answer po i ?q ?c ?answer ?t = (Finished (Inr (Attempted (?q\<lparr>pr_state := state_after_answer ?answer\<rparr>) x)), u) \<and>
      prepared u (pr_preparationId ?q) = Some (?q\<lparr>pr_state := state_after_answer ?answer\<rparr>)"
  proof (rule record_answer_state)
    have "submissions_of ?t (su_executionId i) = submissions_of s (su_executionId i)" by (simp add: submissions_of_def)
    with assms(10)[folded s_def] show "list_all (\<lambda>v. sb_observationId v \<noteq> po_newId po 0 \<and> sb_observationId v \<noteq> po_newId po 1)
      (submissions_of ?t (su_executionId i))" by simp
  qed (use find assms(6-9) in simp_all)
  ultimately show ?thesis unfolding s_def [symmetric] by (auto simp: submitPrepared_def)
qed

lemma sample_submit_premises:
  "map_option (\<lambda>p. (pr_state p, reconstruct sample_ports p, pa_submissionProviderId (pr_artifact p), signature_of p))
     (findPreparation sample_prepared_store ''exec'' ''alice'') =
   Some (PREPARED_NOT_CONTACTED, Inr (sample_artifact, ''bytes''), ''submit'', ''sig-1'')"
  "submissions_of sample_prepared_store ''exec'' = []" "provider_text_ok ''submit''" "provider_text_ok ''sig-1''"
  by code_simp+

theorem submission_follows_answer_witness:
  "\<exists>q x t. submitPrepared sample_ports (\<lambda>_ s. s) sample_submit sample_prepared_store =
     (Finished (Inr (Attempted q x)), t, [(''exec'', ''bytes'')]) \<and> pr_state q = UNKNOWN_RECONCILIATION_REQUIRED"
proof -
  obtain p where p: "findPreparation sample_prepared_store ''exec'' ''alice'' = Some p" "pr_state p = PREPARED_NOT_CONTACTED"
    "reconstruct sample_ports p = Inr (sample_artifact, ''bytes'')" "pa_submissionProviderId (pr_artifact p) = ''submit''"
    "signature_of p = ''sig-1''"
    using sample_submit_premises(1) by auto
  have ports: "po_submissionEnabled sample_ports" "po_submissionProviderId sample_ports = ''submit''"
    "po_authorize sample_ports e k v c = Inr ()" "po_transport sample_ports e b = TransportThrew" for e k v c b
    by (simp_all add: sample_ports_def)
  have i: "su_executionId sample_submit = ''exec''" "su_actorSubject sample_submit = ''alice''" by (simp_all add: sample_submit_def)
  from submission_follows_answer [of sample_env "[Persist sample_input]" sample_submit p sample_ports sample_artifact "''bytes''"]
    p ports i sample_submit_premises(2-4)
  show ?thesis unfolding sample_prepared_store_def [symmetric] by (auto simp: state_after_answer_def)
qed

section \<open>Signed bytes at rest\<close>

text \<open>AES-GCM opens what it sealed under the same key, nonce and associated data; its tag has 16 bytes.\<close>

definition opens_what_it_seals :: "aead \<Rightarrow> bool" where
  "opens_what_it_seals a \<longleftrightarrow> (\<forall>k iv ad t. unseal a k iv ad (snd (seal a k iv ad t)) (fst (seal a k iv ad t)) = Some t)"

lemma decrypt_encrypt:
  assumes "opens_what_it_seals a" and "encrypt a k iv t ctx = Inr e"
  shows "decrypt a k e ctx = Inr t" and "en_keyVersion e = tc_keyVersion k"
proof -
  obtain ct tag where st: "seal a (tc_key k) iv (aad ctx) t = (ct, tag)" by fastforce
  with assms(1) have opened: "unseal a (tc_key k) iv (aad ctx) tag ct = Some t"
    unfolding opens_what_it_seals_def by (metis fst_conv snd_conv)
  from assms(2) st have e: "assertContext k ctx = Inr ()" "e = \<lparr>en_algorithm = ''aes-256-gcm'', en_keyVersion = tc_keyVersion k,
      en_initializationVector = iv, en_authenticationTag = tag, en_ciphertext = ct\<rparr>"
    by (auto simp: encrypt_def and_then_Inr split: if_splits)
  with opened show "decrypt a k e ctx = Inr t" "en_keyVersion e = tc_keyVersion k" by (simp_all add: decrypt_def)
qed

text \<open>C35: a prepared transaction is stored encrypted and comes back as it was: whatever \<open>prepare\<close> stored for an
  execution, loading it for its owner gives the artifact the preparer made with exactly its signed bytes.\<close>

theorem prepared_transaction_round_trip:
  assumes "opens_what_it_seals (po_aead po)" and "po_prepare po c = Inr (artifact, bytes)"
    and "po_digest po bytes = pa_signedTransactionDigest artifact"
    and "prepare_devnet po i c (devnet_after env qs) = (Inr p, t)"
  shows "loadRuntimePreparation po (id_executionId i) (id_actorSubject i) t = Inr (Some (artifact, bytes))"
proof -
  define s where "s = devnet_after env qs"
  from assms(2,4)[folded s_def] obtain d where d: "persistence po 0 i (artifact, bytes) = Inr d"
    and pers: "persistPreparation d s = (Inr p, t)"
    by (auto simp: prepare_devnet_def when_ok_Inr)
  from d obtain e where e: "encrypt (po_aead po) (po_cipher po) (po_nonce po) bytes
      \<lparr>ec_executionId = id_executionId i, ec_preparationId = id_preparationId i, ec_keyVersion = tc_keyVersion (po_cipher po)\<rparr> = Inr e"
    and dd: "dp_encrypted d = e" "dp_artifact d = artifact" "dp_executionId d = id_executionId i"
      "dp_preparationId d = id_preparationId i" "dp_actorSubject d = id_actorSubject i"
    by (auto simp: persistence_def and_then_Inr)
  from pers have t: "t = set_preparation (fresh_preparation d) s"
    and p: "p = fresh_preparation d"
    by (auto simp: persistPreparation_def when_ok_Inr split: if_splits)
  have "devnet_ok t" using persist_refines [OF devnet_after_ok] change_devnet_ok [OF devnet_after_ok] pers
    unfolding s_def refines_def by (metis snd_conv)
  then have "active_preparation t (dp_executionId d) = Some p"
    using active_unique [of t "dp_preparationId d" p] t p by (simp add: abandoned_def)
  then have found: "findPreparation t (id_executionId i) (id_actorSubject i) = Some p"
    using dd p by (simp add: findPreparation_def)
  have "reconstruct po p = Inr (artifact, bytes)"
    using decrypt_encrypt [OF assms(1) e] dd assms(3) p by (simp add: reconstruct_def fresh_preparation_def)
  with found show ?thesis by (simp add: loadRuntimePreparation_def)
qed

lemma sample_aead_opens: "opens_what_it_seals sample_aead"
  by (simp add: opens_what_it_seals_def sample_aead_def o_def)

theorem prepared_transaction_round_trip_witness:
  "\<exists>p t. prepare_devnet sample_ports sample_identity sample_command empty_devnet_store = (Inr p, t) \<and>
     loadRuntimePreparation sample_ports ''exec'' ''alice'' t = Inr (Some (sample_artifact, ''bytes''))"
proof -
  have "succeeds (fst (prepare_devnet sample_ports sample_identity sample_command empty_devnet_store))" by code_simp
  then obtain p t where pt: "prepare_devnet sample_ports sample_identity sample_command empty_devnet_store = (Inr p, t)"
    by (cases "prepare_devnet sample_ports sample_identity sample_command empty_devnet_store") (auto simp: succeeds_iff)
  have ports: "po_aead sample_ports = sample_aead" "po_prepare sample_ports sample_command = Inr (sample_artifact, ''bytes'')"
    "po_digest sample_ports ''bytes'' = pa_signedTransactionDigest sample_artifact"
    by (simp_all add: sample_ports_def sample_artifact_def)
  have "prepare_devnet sample_ports sample_identity sample_command (devnet_after sample_env []) = (Inr p, t)"
    using pt by (simp add: devnet_after_def)
  from prepared_transaction_round_trip [OF _ ports(2,3) this] pt ports(1) sample_aead_opens show ?thesis
    by (simp add: sample_identity_def)
qed

end
