(* ===== verification/RequestValidation.thy ===== *)
theory RequestValidation
  imports PaymentIntentValidation
begin

text \<open>
  \<open>src/validation/paymentRequest.ts\<close>: the validation of the body of the first payment route; and
  \<open>src/adapters/solana/solanaTransactionError.ts\<close>: which JSON values are serialized transaction errors of
  Solana. The configured limit is an argument; so is the number JavaScript reads in a text.
\<close>

section \<open>The payment request\<close>

datatype validated_payment_request = ValidatedPaymentRequest string string string

datatype validation_result = Valid validated_payment_request | Rejected string

definition ALLOWED_FIELDS :: "string list" where
  "ALLOWED_FIELDS = [''recipient'', ''amount'', ''purpose'']"

definition normalizeAmount :: "runtime_env \<Rightarrow> json \<Rightarrow> string option" where
  "normalizeAmount env value = (case value of
     JString s \<Rightarrow> Some (js_trim s) | JNumber (Finite q) \<Rightarrow> Some (number_text env q) | _ \<Rightarrow> None)"

definition validatePaymentRequest :: "runtime_env \<Rightarrow> (string \<Rightarrow> js_number) \<Rightarrow> rat \<Rightarrow> json \<Rightarrow> validation_result" where
  "validatePaymentRequest env to_number paymentMaxUsdc body = (case body of
     JObject r \<Rightarrow>
       (let unknownFields = filter (\<lambda>f. f \<notin> set ALLOWED_FIELDS) (map fst r) in
        if unknownFields \<noteq> [] then Rejected (''Unsupported request field: '' @ hd unknownFields @ ''.'')
        else case member r ''recipient'' of
          JString rawRecipient \<Rightarrow>
            (let recipient = js_trim rawRecipient in
             case public_key_base58 env recipient of
               None \<Rightarrow> Rejected ''Recipient must be a valid Solana wallet address.''
             | Some base58 \<Rightarrow>
                 if base58 \<noteq> recipient then Rejected ''Recipient must be a canonical Solana wallet address.''
                 else case normalizeAmount env (member r ''amount'') of
                   None \<Rightarrow> Rejected ''Amount must be a positive USDC value with no more than 6 decimal places.''
                 | Some amount \<Rightarrow>
                     if amount = '''' \<or> \<not> AMOUNT_PATTERN amount
                     then Rejected ''Amount must be a positive USDC value with no more than 6 decimal places.''
                     else case to_number amount of
                       Finite n \<Rightarrow>
                         if n \<le> 0 then Rejected ''Amount must be greater than zero.''
                         else if n > paymentMaxUsdc
                         then Rejected (''Amount exceeds the current '' @ number_text env paymentMaxUsdc @ '' USDC payment limit.'')
                         else (case member r ''purpose'' of
                           JString rawPurpose \<Rightarrow>
                             (let purpose = js_trim rawPurpose; purposeBytes = utf8_length purpose in
                              if purposeBytes = 0 \<or> purposeBytes > 120
                              then Rejected ''Purpose must be between 1 and 120 UTF-8 bytes.''
                              else Valid (ValidatedPaymentRequest recipient amount purpose))
                         | _ \<Rightarrow> Rejected ''Purpose must be a string.'')
                     | _ \<Rightarrow> Rejected ''Amount must be greater than zero.'')
        | _ \<Rightarrow> Rejected ''Recipient must be a Solana wallet address.'')
   | _ \<Rightarrow> Rejected ''Request body must be a JSON object.'')"

section \<open>Transaction errors of Solana\<close>

definition TRANSACTION_ERROR_UNIT_VARIANTS :: "string list" where
  "TRANSACTION_ERROR_UNIT_VARIANTS = [
    ''AccountBorrowOutstanding'', ''AccountInUse'', ''AccountLoadedTwice'', ''AccountNotFound'',
    ''AddressLookupTableNotFound'', ''AlreadyProcessed'', ''BlockhashNotFound'', ''CallChainTooDeep'',
    ''ClusterMaintenance'', ''InsufficientFundsForFee'', ''InvalidAccountForFee'', ''InvalidAccountIndex'',
    ''InvalidAddressLookupTableData'', ''InvalidAddressLookupTableIndex'', ''InvalidAddressLookupTableOwner'',
    ''InvalidLoadedAccountsDataSizeLimit'', ''InvalidProgramForExecution'', ''InvalidRentPayingAccount'',
    ''InvalidWritableAccount'', ''MaxLoadedAccountsDataSizeExceeded'', ''MissingSignatureForFee'',
    ''ProgramAccountNotFound'', ''ResanitizationNeeded'', ''SanitizeFailure'', ''SignatureFailure'',
    ''TooManyAccountLocks'', ''UnbalancedTransaction'', ''UnsupportedVersion'',
    ''WouldExceedAccountDataBlockLimit'', ''WouldExceedAccountDataTotalLimit'',
    ''WouldExceedMaxAccountCostLimit'', ''WouldExceedMaxBlockCostLimit'', ''WouldExceedMaxVoteCostLimit'']"

definition INSTRUCTION_ERROR_UNIT_VARIANTS :: "string list" where
  "INSTRUCTION_ERROR_UNIT_VARIANTS = [
    ''AccountAlreadyInitialized'', ''AccountBorrowFailed'', ''AccountBorrowOutstanding'',
    ''AccountDataSizeChanged'', ''AccountDataTooSmall'', ''AccountNotExecutable'', ''AccountNotRentExempt'',
    ''ArithmeticOverflow'', ''BorshIoError'', ''BuiltinProgramsMustConsumeComputeUnits'', ''CallDepth'',
    ''ComputationalBudgetExceeded'', ''DuplicateAccountIndex'', ''DuplicateAccountOutOfSync'',
    ''ExecutableAccountNotRentExempt'', ''ExecutableDataModified'', ''ExecutableLamportChange'',
    ''ExecutableModified'', ''ExternalAccountDataModified'', ''ExternalAccountLamportSpend'',
    ''GenericError'', ''IllegalOwner'', ''Immutable'', ''IncorrectAuthority'', ''IncorrectProgramId'',
    ''InsufficientFunds'', ''InvalidAccountData'', ''InvalidAccountOwner'', ''InvalidArgument'',
    ''InvalidError'', ''InvalidInstructionData'', ''InvalidRealloc'', ''InvalidSeeds'',
    ''MaxAccountsDataAllocationsExceeded'', ''MaxAccountsExceeded'', ''MaxInstructionTraceLengthExceeded'',
    ''MaxSeedLengthExceeded'', ''MissingAccount'', ''MissingRequiredSignature'', ''ModifiedProgramId'',
    ''NotEnoughAccountKeys'', ''PrivilegeEscalation'', ''ProgramEnvironmentSetupFailure'',
    ''ProgramFailedToCompile'', ''ProgramFailedToComplete'', ''ReadonlyDataModified'',
    ''ReadonlyLamportChange'', ''ReentrancyNotAllowed'', ''RentEpochModified'', ''UnbalancedInstruction'',
    ''UninitializedAccount'', ''UnsupportedProgramId'', ''UnsupportedSysvar'']"

definition integerInRange :: "json \<Rightarrow> rat \<Rightarrow> bool" where
  "integerInRange value maximum = (case value of
     JNumber n \<Rightarrow> is_safe_integer n \<and> (case n of Finite q \<Rightarrow> 0 \<le> q \<and> q \<le> maximum | _ \<Rightarrow> False)
   | _ \<Rightarrow> False)"

definition index_value :: "json \<Rightarrow> bool" where
  "index_value value = integerInRange value 255"

definition exactKeys :: "json_object \<Rightarrow> string list \<Rightarrow> bool" where
  "exactKeys value expected = (length (map fst value) = length expected \<and> list_all (\<lambda>k. k \<in> set (map fst value)) expected)"

definition accountIndex :: "json \<Rightarrow> bool" where
  "accountIndex value = (case value of
     JObject r \<Rightarrow> exactKeys r [''account_index''] \<and> index_value (member r ''account_index'') | _ \<Rightarrow> False)"

definition instructionError :: "json \<Rightarrow> bool" where
  "instructionError value = (case value of
     JArray [i, detail] \<Rightarrow>
       index_value i \<and>
       (case detail of
          JString s \<Rightarrow> s \<in> set INSTRUCTION_ERROR_UNIT_VARIANTS
        | JObject r \<Rightarrow> exactKeys r [''Custom''] \<and> integerInRange (member r ''Custom'') 4294967295
        | _ \<Rightarrow> False)
   | _ \<Rightarrow> False)"

definition isSupportedSolanaTransactionError :: "json \<Rightarrow> bool" where
  "isSupportedSolanaTransactionError value = (case value of
     JString s \<Rightarrow> s \<in> set TRANSACTION_ERROR_UNIT_VARIANTS
   | JObject r \<Rightarrow>
       (case map fst r of
          [k] \<Rightarrow>
            if k = ''DuplicateInstruction'' then index_value (member r k)
            else if k = ''InstructionError'' then instructionError (member r k)
            else if k = ''InsufficientFundsForRent'' then accountIndex (member r k)
            else if k = ''ProgramExecutionTemporarilyRestricted'' then accountIndex (member r k)
            else False
        | _ \<Rightarrow> False)
   | _ \<Rightarrow> False)"

section \<open>The errors as a data type\<close>

text \<open>A transaction error of Solana: a unit variant, or a variant with an instruction or account index of a byte.\<close>

datatype instruction_detail = InstructionUnit string | CustomError nat

datatype transaction_error =
    ErrorUnit string
  | DuplicateInstruction nat
  | InstructionError nat instruction_detail
  | InsufficientFundsForRent nat
  | ProgramExecutionTemporarilyRestricted nat

fun detail_typed :: "instruction_detail \<Rightarrow> bool" where
  "detail_typed (InstructionUnit s) = (s \<in> set INSTRUCTION_ERROR_UNIT_VARIANTS)"
| "detail_typed (CustomError n) = (n < 2 ^ 32)"

fun error_typed :: "transaction_error \<Rightarrow> bool" where
  "error_typed (ErrorUnit s) = (s \<in> set TRANSACTION_ERROR_UNIT_VARIANTS)"
| "error_typed (DuplicateInstruction i) = (i < 2 ^ 8)"
| "error_typed (InstructionError i d) = (i < 2 ^ 8 \<and> detail_typed d)"
| "error_typed (InsufficientFundsForRent i) = (i < 2 ^ 8)"
| "error_typed (ProgramExecutionTemporarilyRestricted i) = (i < 2 ^ 8)"

definition nat_json :: "nat \<Rightarrow> json" where
  "nat_json n = JNumber (Finite (of_nat n))"

fun detail_json :: "instruction_detail \<Rightarrow> json" where
  "detail_json (InstructionUnit s) = JString s"
| "detail_json (CustomError n) = JObject [(''Custom'', nat_json n)]"

fun error_json :: "transaction_error \<Rightarrow> json" where
  "error_json (ErrorUnit s) = JString s"
| "error_json (DuplicateInstruction i) = JObject [(''DuplicateInstruction'', nat_json i)]"
| "error_json (InstructionError i d) = JObject [(''InstructionError'', JArray [nat_json i, detail_json d])]"
| "error_json (InsufficientFundsForRent i) = JObject [(''InsufficientFundsForRent'', JObject [(''account_index'', nat_json i)])]"
| "error_json (ProgramExecutionTemporarilyRestricted i) =
     JObject [(''ProgramExecutionTemporarilyRestricted'', JObject [(''account_index'', nat_json i)])]"

lemma integer_json:
  assumes "m \<le> 9007199254740991"
  shows "integerInRange v (of_nat m) \<longleftrightarrow> (\<exists>n \<le> m. v = nat_json n)"
proof
  assume "integerInRange v (of_nat m)"
  then obtain q where q: "v = JNumber (Finite q)" "snd (quotient_of q) = 1" "0 \<le> q" "q \<le> of_nat m"
    by (auto simp: integerInRange_def is_safe_integer_def is_integer_def split: json.splits js_number.splits)
  have "q = of_int (fst (quotient_of q))"
    using quotient_of_div [of q "fst (quotient_of q)" 1] q(2) by (cases "quotient_of q") simp
  then obtain i where i: "q = of_int i" by blast
  with q(3,4) have "0 \<le> i" "i \<le> int m" by simp_all
  with i q(1) show "\<exists>n \<le> m. v = nat_json n" by (intro exI [of _ "nat i"]) (auto simp: nat_json_def)
next
  assume "\<exists>n \<le> m. v = nat_json n"
  then obtain n where n: "n \<le> m" "v = JNumber (Finite (of_nat n))" by (auto simp: nat_json_def)
  have "quotient_of (of_nat n) = (int n, 1)" using quotient_of_int [of "int n"] by simp
  with n assms show "integerInRange v (of_nat m)"
    by (simp add: integerInRange_def is_safe_integer_def is_integer_def)
qed

lemma single_member: "exactKeys r [k] \<longleftrightarrow> (\<exists>v. r = [(k, v)])"
  by (cases r) (auto simp: exactKeys_def)

lemma index_json: "index_value v \<longleftrightarrow> (\<exists>n < 2 ^ 8. v = nat_json n)"
  using integer_json [of 255 v] by (auto simp: index_value_def less_Suc_eq_le [of _ 255, symmetric])

lemma custom_json: "integerInRange v 4294967295 \<longleftrightarrow> (\<exists>n < 2 ^ 32. v = nat_json n)"
  using integer_json [of 4294967295 v] by (auto simp: less_Suc_eq_le [of _ 4294967295, symmetric])

lemma account_json: "accountIndex v \<longleftrightarrow> (\<exists>n < 2 ^ 8. v = JObject [(''account_index'', nat_json n)])"
  by (auto simp: accountIndex_def single_member index_json member_def coalesce_def split: json.split)

lemma detail_json_typed:
  "(case v of JString s \<Rightarrow> s \<in> set INSTRUCTION_ERROR_UNIT_VARIANTS
    | JObject r \<Rightarrow> exactKeys r [''Custom''] \<and> integerInRange (member r ''Custom'') 4294967295 | _ \<Rightarrow> False) \<longleftrightarrow>
   (\<exists>d. detail_typed d \<and> v = detail_json d)"
proof
  assume l: "case v of JString s \<Rightarrow> s \<in> set INSTRUCTION_ERROR_UNIT_VARIANTS
    | JObject r \<Rightarrow> exactKeys r [''Custom''] \<and> integerInRange (member r ''Custom'') 4294967295 | _ \<Rightarrow> False"
  show "\<exists>d. detail_typed d \<and> v = detail_json d"
  proof (cases v)
    case (JString s)
    with l show ?thesis by (intro exI [of _ "InstructionUnit s"]) simp
  next
    case (JObject r)
    with l obtain n where "n < 2 ^ 32" "r = [(''Custom'', nat_json n)]"
      by (auto simp: single_member custom_json member_def coalesce_def)
    with JObject show ?thesis by (intro exI [of _ "CustomError n"]) simp
  qed (use l in simp_all)
next
  assume "\<exists>d. detail_typed d \<and> v = detail_json d"
  then obtain d where d: "detail_typed d" "v = detail_json d" by blast
  then show "case v of JString s \<Rightarrow> s \<in> set INSTRUCTION_ERROR_UNIT_VARIANTS
    | JObject r \<Rightarrow> exactKeys r [''Custom''] \<and> integerInRange (member r ''Custom'') 4294967295 | _ \<Rightarrow> False"
    by (cases d) (auto simp: single_member custom_json member_def coalesce_def)
qed

lemma instruction_json:
  "instructionError v \<longleftrightarrow> (\<exists>i < 2 ^ 8. \<exists>d. detail_typed d \<and> v = JArray [nat_json i, detail_json d])"
proof -
  have "instructionError v \<longleftrightarrow> (\<exists>a b. v = JArray [a, b] \<and> index_value a \<and> (\<exists>d. detail_typed d \<and> b = detail_json d))"
    unfolding instructionError_def detail_json_typed by (auto split: json.split list.split)
  then show ?thesis by (auto simp: index_json)
qed

text \<open>C38: which JSON values are transaction errors. The validator accepts a value exactly when it is the
  serialization of a transaction error of the closed type: a known unit variant, or a known variant with an
  instruction or account index below 256, an instruction error with a known detail or a 32-bit custom code. Everything
  else, extra members and unknown variants included, is refused.\<close>

theorem supported_errors_are_typed:
  "isSupportedSolanaTransactionError v \<longleftrightarrow> (\<exists>e. error_typed e \<and> v = error_json e)"
proof
  assume s: "isSupportedSolanaTransactionError v"
  show "\<exists>e. error_typed e \<and> v = error_json e"
  proof (cases v)
    case (JString t)
    with s show ?thesis by (intro exI [of _ "ErrorUnit t"]) (simp add: isSupportedSolanaTransactionError_def)
  next
    case (JObject r)
    with s obtain k where "map fst r = [k]"
      by (auto simp: isSupportedSolanaTransactionError_def split: list.splits)
    then obtain x where r: "r = [(k, x)]" by (cases r) auto
    with s JObject consider "k = ''DuplicateInstruction''" "index_value x" | "k = ''InstructionError''" "instructionError x"
      | "k = ''InsufficientFundsForRent''" "accountIndex x" | "k = ''ProgramExecutionTemporarilyRestricted''" "accountIndex x"
      by (auto simp: isSupportedSolanaTransactionError_def member_def coalesce_def split: if_splits)
    then show ?thesis
    proof cases
      case 1
      with JObject r show ?thesis unfolding index_json by (metis error_json.simps(2) error_typed.simps(2))
    next
      case 2
      with JObject r show ?thesis unfolding instruction_json by (metis error_json.simps(3) error_typed.simps(3))
    next
      case 3
      with JObject r show ?thesis unfolding account_json by (metis error_json.simps(4) error_typed.simps(4))
    next
      case 4
      with JObject r show ?thesis unfolding account_json by (metis error_json.simps(5) error_typed.simps(5))
    qed
  qed (use s in \<open>simp_all add: isSupportedSolanaTransactionError_def\<close>)
next
  assume "\<exists>e. error_typed e \<and> v = error_json e"
  then obtain e where "error_typed e" "v = error_json e" by blast
  then show "isSupportedSolanaTransactionError v"
    by (cases e) (auto simp: isSupportedSolanaTransactionError_def member_def coalesce_def index_json instruction_json account_json)
qed

section \<open>What a valid payment request is\<close>

lemma valid_payment_request:
  assumes "validatePaymentRequest env to_number limit body = Valid (ValidatedPaymentRequest recipient amount purpose)"
  shows "public_key_base58 env recipient = Some recipient" and "AMOUNT_PATTERN amount"
    and "\<exists>n. to_number amount = Finite n \<and> 0 < n \<and> n \<le> limit"
    and "js_trim purpose = purpose" and "1 \<le> utf8_length purpose" and "utf8_length purpose \<le> 120"
  using assms
  by (auto simp: validatePaymentRequest_def Let_def split: json.splits if_splits option.splits js_number.splits)

end
