(* ===== verification/Configuration.thy ===== *)
theory Configuration
  imports JsonValues
begin

text \<open>
  \<open>src/config/environment.ts\<close>: the configuration a process reads from its environment variables, or the error it
  stops with. What the runtime reads in a text is an argument: the number of \<open>Number\<close> and the URL of \<open>URL\<close>.
\<close>

record url_parts =
  url_protocol :: string
  url_hostname :: string
  url_pathname :: string

record config_runtime =
  to_number :: "string \<Rightarrow> js_number"
  parse_url :: "string \<Rightarrow> url_parts option"

type_synonym process_env = "string \<Rightarrow> string option"

section \<open>Parsing one variable\<close>

definition parseBoolean :: "string option \<Rightarrow> bool \<Rightarrow> bool result" where
  "parseBoolean value fallback = (case value of
     None \<Rightarrow> Inr fallback
   | Some v \<Rightarrow>
       let normalized = js_lower (js_trim v) in
       if normalized = ''true'' then Inr True
       else if normalized = ''false'' then Inr False
       else throw (''Expected boolean environment value, received: '' @ v))"

definition parsePositiveInteger :: "config_runtime \<Rightarrow> string option \<Rightarrow> rat \<Rightarrow> string \<Rightarrow> rat result" where
  "parsePositiveInteger rt value fallback name = (case value of
     None \<Rightarrow> Inr fallback
   | Some v \<Rightarrow>
       (case to_number rt v of
          Finite q \<Rightarrow>
            if \<not> is_safe_integer (Finite q) \<or> q \<le> 0 then throw (name @ '' must be a positive integer.'') else Inr q
        | _ \<Rightarrow> throw (name @ '' must be a positive integer.'')))"

definition parsePositiveDecimal :: "config_runtime \<Rightarrow> string option \<Rightarrow> rat \<Rightarrow> string \<Rightarrow> rat result" where
  "parsePositiveDecimal rt value fallback name = (case value of
     None \<Rightarrow> Inr fallback
   | Some v \<Rightarrow>
       (case to_number rt v of
          Finite q \<Rightarrow> if q \<le> 0 then throw (name @ '' must be a positive number.'') else Inr q
        | _ \<Rightarrow> throw (name @ '' must be a positive number.'')))"

text \<open>\<open>split(",")\<close>\<close>

fun split_commas :: "string \<Rightarrow> string list" where
  "split_commas [] = [[]]"
| "split_commas (c # cs) =
     (if c = CHR '','' then [] # split_commas cs
      else (case split_commas cs of [] \<Rightarrow> [[c]] | x # xs \<Rightarrow> (c # x) # xs))"

definition parseOrigins :: "string option \<Rightarrow> string list" where
  "parseOrigins value =
     (if \<not> truthy value then [''http://localhost:3000'', ''http://127.0.0.1:3000'']
      else filter (\<lambda>o'. o' \<noteq> '''') (map js_trim (split_commas (coalesce value ''''))))"

text \<open>\<open>value?.trim()\<close>, and \<open>value?.trim() || fallback\<close>\<close>

definition trimmed :: "string option \<Rightarrow> string option" where
  "trimmed v = map_option js_trim v"

definition trimmed_or :: "string option \<Rightarrow> string \<Rightarrow> string" where
  "trimmed_or v fallback = (if truthy (trimmed v) then coalesce (trimmed v) fallback else fallback)"

definition parseDatabaseUrl :: "config_runtime \<Rightarrow> bool \<Rightarrow> string option \<Rightarrow> string option result" where
  "parseDatabaseUrl rt enabled value = (let normalized = trimmed value in
     if \<not> enabled \<and> \<not> truthy normalized then Inr None
     else if \<not> truthy normalized then throw ''DATABASE_URL is required when POSTGRES_ENABLED=true.''
     else case parse_url rt (coalesce normalized '''') of
       None \<Rightarrow> throw ''DATABASE_URL must be a valid PostgreSQL URL.''
     | Some parsed \<Rightarrow>
         if url_protocol parsed \<noteq> ''postgres:'' \<and> url_protocol parsed \<noteq> ''postgresql:''
         then throw ''DATABASE_URL must use the postgres or postgresql protocol.''
         else if url_hostname parsed = '''' \<or> url_pathname parsed = '''' \<or> url_pathname parsed = ''/''
         then throw ''DATABASE_URL must include a host and database name.''
         else Inr normalized)"

section \<open>The process environment\<close>

record environment =
  nodeEnv :: string
  isProduction :: bool
  port :: rat
  paymentsEnabled :: bool
  syntheticBetaIdentitiesEnabled :: bool
  growthProjectionEnabled :: bool
  zpProjectionEnabled :: bool
  x402Enabled :: bool
  x402SvmAddress :: "string option"
  postgresEnabled :: bool
  databaseUrl :: "string option"
  authEnabled :: bool
  auth0Issuer :: "string option"
  auth0Audience :: "string option"
  auth0RequiredScope :: string
  auth0WriteAccountScope :: string
  auth0ReadPaymentsScope :: string
  auth0WritePaymentsScope :: string
  trustProxy :: bool
  corsAllowedOrigins :: "string list"
  jsonBodyLimit :: string
  paymentRateLimitPerMinute :: rat
  authenticatedReadRateLimitPerMinute :: rat
  paymentMaxUsdc :: rat

definition ends_with_slash :: "string \<Rightarrow> bool" where
  "ends_with_slash s = (s \<noteq> '''' \<and> last s = CHR ''/'')"

text \<open>The checks between the flags, in their order.\<close>

definition check_auth :: "bool \<Rightarrow> bool \<Rightarrow> string option \<Rightarrow> string option \<Rightarrow> unit result" where
  "check_auth auth postgres issuer audience =
     (if auth \<and> (\<not> truthy issuer \<or> \<not> truthy audience \<or> \<not> postgres)
      then throw ''AUTH0_ISSUER, AUTH0_AUDIENCE, and POSTGRES_ENABLED=true are required when AUTH_ENABLED=true.''
      else Inr ())"

definition check_synthetic :: "process_env \<Rightarrow> bool \<Rightarrow> bool \<Rightarrow> bool \<Rightarrow> unit result" where
  "check_synthetic penv synthetic auth postgres =
     (if \<not> synthetic then Inr ()
      else if \<not> auth \<or> \<not> postgres
      then throw ''SYNTHETIC_BETA_IDENTITIES_ENABLED requires authenticated PostgreSQL Mock-only execution with PAYMENTS_ENABLED=false.''
      else and_then (parseBoolean (penv ''PAYMENTS_ENABLED'') False) (\<lambda>payments.
        if payments
        then throw ''SYNTHETIC_BETA_IDENTITIES_ENABLED requires authenticated PostgreSQL Mock-only execution with PAYMENTS_ENABLED=false.''
        else Inr ()))"

definition check_issuer :: "config_runtime \<Rightarrow> string option \<Rightarrow> unit result" where
  "check_issuer rt issuer =
     (if \<not> truthy issuer then Inr ()
      else case parse_url rt (coalesce issuer '''') of
        None \<Rightarrow> throw ''Invalid URL''
      | Some u \<Rightarrow>
          if url_protocol u \<noteq> ''https:'' \<or> \<not> ends_with_slash (coalesce issuer '''')
          then throw ''AUTH0_ISSUER must be an HTTPS URL with a trailing slash.'' else Inr ())"

text \<open>\<open>if (condition) throw\<close>, and a text or nothing when it is empty.\<close>

definition refuse_if :: "bool \<Rightarrow> string \<Rightarrow> unit result" where
  "refuse_if b m = (if b then throw m else Inr ())"

definition nonempty_text :: "string option \<Rightarrow> string option" where
  "nonempty_text v = (if truthy v then v else None)"

definition load_environment :: "config_runtime \<Rightarrow> process_env \<Rightarrow> environment result" where
  "load_environment rt penv =
     (let node = trimmed_or (penv ''NODE_ENV'') ''development''; production = (node = ''production'');
          origins = parseOrigins (penv ''CORS_ALLOWED_ORIGINS'') in
      and_then (parseBoolean (penv ''POSTGRES_ENABLED'') False) (\<lambda>postgres.
      and_then (parseDatabaseUrl rt postgres (penv ''DATABASE_URL'')) (\<lambda>database.
      and_then (parseBoolean (penv ''AUTH_ENABLED'') False) (\<lambda>auth.
      and_then (parseBoolean (penv ''SYNTHETIC_BETA_IDENTITIES_ENABLED'') False) (\<lambda>synthetic.
      and_then (parseBoolean (penv ''GROWTH_PROJECTION_ENABLED'') False) (\<lambda>growth.
      and_then (parseBoolean (penv ''ZP_PROJECTION_ENABLED'') False) (\<lambda>zp.
      and_then (parseBoolean (penv ''X402_ENABLED'') False) (\<lambda>x402.
        let svm = nonempty_text (trimmed (penv ''SVM_ADDRESS''));
            issuer = trimmed (penv ''AUTH0_ISSUER''); audience = trimmed (penv ''AUTH0_AUDIENCE'') in
      and_then (check_auth auth postgres issuer audience) (\<lambda>_.
      and_then (check_synthetic penv synthetic auth postgres) (\<lambda>_.
      and_then (refuse_if ((growth \<or> zp) \<and> \<not> postgres) ''Growth/ZP projection requires POSTGRES_ENABLED=true.'') (\<lambda>_.
      and_then (refuse_if (x402 \<and> svm = None) ''SVM_ADDRESS is required when X402_ENABLED=true.'') (\<lambda>_.
      and_then (check_issuer rt issuer) (\<lambda>_.
      and_then (refuse_if (production \<and> \<not> truthy (penv ''CORS_ALLOWED_ORIGINS''))
        ''CORS_ALLOWED_ORIGINS is required when NODE_ENV=production.'') (\<lambda>_.
      and_then (parsePositiveInteger rt (penv ''PORT'') 3001 ''PORT'') (\<lambda>port'.
      and_then (parseBoolean (penv ''PAYMENTS_ENABLED'') False) (\<lambda>payments.
      and_then (parseBoolean (penv ''TRUST_PROXY'') production) (\<lambda>proxy.
      and_then (parsePositiveInteger rt (penv ''PAYMENT_RATE_LIMIT_PER_MINUTE'') 5 ''PAYMENT_RATE_LIMIT_PER_MINUTE'') (\<lambda>rate.
      and_then (parsePositiveInteger rt (penv ''AUTHENTICATED_READ_RATE_LIMIT_PER_MINUTE'') 120
        ''AUTHENTICATED_READ_RATE_LIMIT_PER_MINUTE'') (\<lambda>readRate.
      and_then (parsePositiveDecimal rt (penv ''PAYMENT_MAX_USDC'') 5 ''PAYMENT_MAX_USDC'') (\<lambda>maxUsdc.
        Inr \<lparr>nodeEnv = node, isProduction = production, port = port', paymentsEnabled = payments,
          syntheticBetaIdentitiesEnabled = synthetic, growthProjectionEnabled = growth, zpProjectionEnabled = zp,
          x402Enabled = x402, x402SvmAddress = svm, postgresEnabled = postgres, databaseUrl = database,
          authEnabled = auth, auth0Issuer = issuer, auth0Audience = audience,
          auth0RequiredScope = trimmed_or (penv ''AUTH0_REQUIRED_SCOPE'') ''read:account'',
          auth0WriteAccountScope = trimmed_or (penv ''AUTH0_WRITE_ACCOUNT_SCOPE'') ''write:account'',
          auth0ReadPaymentsScope = trimmed_or (penv ''AUTH0_READ_PAYMENTS_SCOPE'') ''read:payments'',
          auth0WritePaymentsScope = trimmed_or (penv ''AUTH0_WRITE_PAYMENTS_SCOPE'') ''write:payments'',
          trustProxy = proxy, corsAllowedOrigins = origins,
          jsonBodyLimit = trimmed_or (penv ''JSON_BODY_LIMIT'') ''16kb'', paymentRateLimitPerMinute = rate,
          authenticatedReadRateLimitPerMinute = readRate, paymentMaxUsdc = maxUsdc\<rparr>))))))))))))))))))))"

section \<open>What a configuration that loads guarantees\<close>

definition positive_integer :: "rat \<Rightarrow> bool" where
  "positive_integer q \<longleftrightarrow> 0 < q \<and> is_safe_integer (Finite q)"

definition authentication_ready :: "config_runtime \<Rightarrow> environment \<Rightarrow> bool" where
  "authentication_ready rt e \<longleftrightarrow> postgresEnabled e \<and> truthy (auth0Audience e) \<and>
     (\<exists>issuer u. auth0Issuer e = Some issuer \<and> parse_url rt issuer = Some u \<and> url_protocol u = ''https:'' \<and> ends_with_slash issuer)"

definition database_ready :: "config_runtime \<Rightarrow> environment \<Rightarrow> bool" where
  "database_ready rt e \<longleftrightarrow> (\<exists>url u. databaseUrl e = Some url \<and> parse_url rt url = Some u \<and>
     url_protocol u \<in> {''postgres:'', ''postgresql:''} \<and> url_hostname u \<noteq> '''' \<and> url_pathname u \<notin> {'''', ''/''})"

lemma parsePositiveInteger_Inr:
  "parsePositiveInteger rt v d n = Inr q \<Longrightarrow> positive_integer d \<Longrightarrow> positive_integer q"
  by (auto simp: parsePositiveInteger_def positive_integer_def split: option.splits js_number.splits if_splits)

lemma parsePositiveDecimal_Inr: "parsePositiveDecimal rt v d n = Inr q \<Longrightarrow> 0 < d \<Longrightarrow> 0 < q"
  by (auto simp: parsePositiveDecimal_def split: option.splits js_number.splits if_splits)

lemma parseDatabaseUrl_Inr:
  "parseDatabaseUrl rt True v = Inr d \<Longrightarrow> \<exists>url u. d = Some url \<and> parse_url rt url = Some u \<and>
     url_protocol u \<in> {''postgres:'', ''postgresql:''} \<and> url_hostname u \<noteq> '''' \<and> url_pathname u \<notin> {'''', ''/''}"
proof -
  assume a: "parseDatabaseUrl rt True v = Inr d"
  then obtain url where url: "trimmed v = Some url" by (auto simp: parseDatabaseUrl_def Let_def truthy_iff split: if_splits)
  with a have "\<exists>u. parse_url rt url = Some u \<and> url_protocol u \<in> {''postgres:'', ''postgresql:''} \<and> url_hostname u \<noteq> '''' \<and>
      url_pathname u \<notin> {'''', ''/''} \<and> d = trimmed v"
    by (auto simp: parseDatabaseUrl_def Let_def coalesce_def split: option.splits if_splits)
  with url show ?thesis by auto
qed

lemma check_issuer_Inr:
  "check_issuer rt i = Inr u \<Longrightarrow> truthy i \<Longrightarrow> \<exists>issuer u. i = Some issuer \<and> parse_url rt issuer = Some u \<and>
     url_protocol u = ''https:'' \<and> ends_with_slash issuer"
  by (auto simp: check_issuer_def truthy_iff coalesce_def split: option.splits if_splits)

lemma parseOrigins_clean: "o' \<in> set (parseOrigins v) \<Longrightarrow> o' \<noteq> '''' \<and> js_trim o' = o'"
proof -
  have "js_trim ''http://localhost:3000'' = ''http://localhost:3000'' \<and> js_trim ''http://127.0.0.1:3000'' = ''http://127.0.0.1:3000''"
    by code_simp
  then show "o' \<in> set (parseOrigins v) \<Longrightarrow> o' \<noteq> '''' \<and> js_trim o' = o'"
    by (auto simp: parseOrigins_def split: if_splits)
qed

lemma default_numbers: "positive_integer 3001" "positive_integer 5" "positive_integer 120"
  by code_simp+

text \<open>The steps of a load that succeeds.\<close>

lemma load_environment_steps:
  assumes "load_environment rt penv = Inr e"
  shows "parseDatabaseUrl rt (postgresEnabled e) (penv ''DATABASE_URL'') = Inr (databaseUrl e)"
    and "check_auth (authEnabled e) (postgresEnabled e) (auth0Issuer e) (auth0Audience e) = Inr ()"
    and "check_synthetic penv (syntheticBetaIdentitiesEnabled e) (authEnabled e) (postgresEnabled e) = Inr ()"
    and "check_issuer rt (auth0Issuer e) = Inr ()" and "parseBoolean (penv ''PAYMENTS_ENABLED'') False = Inr (paymentsEnabled e)"
    and "parsePositiveInteger rt (penv ''PORT'') 3001 ''PORT'' = Inr (port e)"
    and "parsePositiveInteger rt (penv ''PAYMENT_RATE_LIMIT_PER_MINUTE'') 5 ''PAYMENT_RATE_LIMIT_PER_MINUTE'' =
      Inr (paymentRateLimitPerMinute e)"
    and "parsePositiveInteger rt (penv ''AUTHENTICATED_READ_RATE_LIMIT_PER_MINUTE'') 120
      ''AUTHENTICATED_READ_RATE_LIMIT_PER_MINUTE'' = Inr (authenticatedReadRateLimitPerMinute e)"
    and "parsePositiveDecimal rt (penv ''PAYMENT_MAX_USDC'') 5 ''PAYMENT_MAX_USDC'' = Inr (paymentMaxUsdc e)"
    and "corsAllowedOrigins e = parseOrigins (penv ''CORS_ALLOWED_ORIGINS'')"
    and "growthProjectionEnabled e \<or> zpProjectionEnabled e \<Longrightarrow> postgresEnabled e"
    and "x402Enabled e \<Longrightarrow> x402SvmAddress e \<noteq> None"
    and "isProduction e \<Longrightarrow> truthy (penv ''CORS_ALLOWED_ORIGINS'')"
proof -
  have refuse: "refuse_if b m = Inr u \<longleftrightarrow> \<not> b" for b m u by (simp add: refuse_if_def)
  note run = assms [unfolded load_environment_def Let_def and_then_Inr refuse]
  from run show "parseDatabaseUrl rt (postgresEnabled e) (penv ''DATABASE_URL'') = Inr (databaseUrl e)" by force
  from run show "check_auth (authEnabled e) (postgresEnabled e) (auth0Issuer e) (auth0Audience e) = Inr ()" by force
  from run show "check_synthetic penv (syntheticBetaIdentitiesEnabled e) (authEnabled e) (postgresEnabled e) = Inr ()" by force
  from run show "check_issuer rt (auth0Issuer e) = Inr ()" by force
  from run show "parseBoolean (penv ''PAYMENTS_ENABLED'') False = Inr (paymentsEnabled e)" by force
  from run show "parsePositiveInteger rt (penv ''PORT'') 3001 ''PORT'' = Inr (port e)" by force
  from run show "parsePositiveInteger rt (penv ''PAYMENT_RATE_LIMIT_PER_MINUTE'') 5 ''PAYMENT_RATE_LIMIT_PER_MINUTE'' =
      Inr (paymentRateLimitPerMinute e)" by force
  from run show "parsePositiveInteger rt (penv ''AUTHENTICATED_READ_RATE_LIMIT_PER_MINUTE'') 120
      ''AUTHENTICATED_READ_RATE_LIMIT_PER_MINUTE'' = Inr (authenticatedReadRateLimitPerMinute e)" by force
  from run show "parsePositiveDecimal rt (penv ''PAYMENT_MAX_USDC'') 5 ''PAYMENT_MAX_USDC'' = Inr (paymentMaxUsdc e)" by force
  from run show "corsAllowedOrigins e = parseOrigins (penv ''CORS_ALLOWED_ORIGINS'')" by force
  from run show "growthProjectionEnabled e \<or> zpProjectionEnabled e \<Longrightarrow> postgresEnabled e" by force
  from run show "x402Enabled e \<Longrightarrow> x402SvmAddress e \<noteq> None" by force
  from run show "isProduction e \<Longrightarrow> truthy (penv ''CORS_ALLOWED_ORIGINS'')" by force
qed

lemma configuration_is_consistent_parts:
  assumes "load_environment rt penv = Inr e"
  shows "authEnabled e \<Longrightarrow> authentication_ready rt e" and "postgresEnabled e \<Longrightarrow> database_ready rt e"
    and "syntheticBetaIdentitiesEnabled e \<Longrightarrow> authEnabled e \<and> postgresEnabled e \<and> \<not> paymentsEnabled e"
    and "growthProjectionEnabled e \<or> zpProjectionEnabled e \<Longrightarrow> postgresEnabled e"
    and "x402Enabled e \<Longrightarrow> x402SvmAddress e \<noteq> None" and "isProduction e \<Longrightarrow> truthy (penv ''CORS_ALLOWED_ORIGINS'')"
    and "o' \<in> set (corsAllowedOrigins e) \<Longrightarrow> o' \<noteq> '''' \<and> js_trim o' = o'"
    and "positive_integer (port e)" and "positive_integer (paymentRateLimitPerMinute e)"
    and "positive_integer (authenticatedReadRateLimitPerMinute e)" and "0 < paymentMaxUsdc e"
proof -
  note steps = load_environment_steps [OF assms]
  show "positive_integer (port e)" "positive_integer (paymentRateLimitPerMinute e)"
    "positive_integer (authenticatedReadRateLimitPerMinute e)" "0 < paymentMaxUsdc e"
    using parsePositiveInteger_Inr [OF steps(6) default_numbers(1)] parsePositiveInteger_Inr [OF steps(7) default_numbers(2)]
      parsePositiveInteger_Inr [OF steps(8) default_numbers(3)] parsePositiveDecimal_Inr [OF steps(9)] by simp_all
  show "o' \<in> set (corsAllowedOrigins e) \<Longrightarrow> o' \<noteq> '''' \<and> js_trim o' = o'" using steps(10) parseOrigins_clean by simp
  show "postgresEnabled e \<Longrightarrow> database_ready rt e"
    using parseDatabaseUrl_Inr steps(1) by (simp add: database_ready_def)
  show "authEnabled e \<Longrightarrow> authentication_ready rt e"
    using steps(2) check_issuer_Inr [OF steps(4)] by (auto simp: authentication_ready_def check_auth_def split: if_splits)
  show "syntheticBetaIdentitiesEnabled e \<Longrightarrow> authEnabled e \<and> postgresEnabled e \<and> \<not> paymentsEnabled e"
    using steps(3,5) by (simp add: check_synthetic_def split: if_splits)
qed (use load_environment_steps(11-13) [OF assms] in blast)+

text \<open>C39: a process that starts has a consistent configuration. Whatever the environment variables, when the module
  loads: authentication comes with PostgreSQL, an audience and an HTTPS issuer ending in a slash; PostgreSQL with a
  usable URL; synthetic identities only with both and with payments off; projections only with PostgreSQL; x402 only
  with an address; production only with explicit origins; and the port, rate limits and payment limit are positive.\<close>

theorem configuration_is_consistent:
  assumes "load_environment rt penv = Inr e"
  shows "(authEnabled e \<longrightarrow> authentication_ready rt e) \<and> (postgresEnabled e \<longrightarrow> database_ready rt e) \<and>
    (syntheticBetaIdentitiesEnabled e \<longrightarrow> authEnabled e \<and> postgresEnabled e \<and> \<not> paymentsEnabled e) \<and>
    (growthProjectionEnabled e \<or> zpProjectionEnabled e \<longrightarrow> postgresEnabled e) \<and>
    (x402Enabled e \<longrightarrow> x402SvmAddress e \<noteq> None) \<and> (isProduction e \<longrightarrow> truthy (penv ''CORS_ALLOWED_ORIGINS'')) \<and>
    (\<forall>o'\<in>set (corsAllowedOrigins e). o' \<noteq> '''' \<and> js_trim o' = o') \<and>
    positive_integer (port e) \<and> positive_integer (paymentRateLimitPerMinute e) \<and>
    positive_integer (authenticatedReadRateLimitPerMinute e) \<and> 0 < paymentMaxUsdc e"
  using configuration_is_consistent_parts [OF assms] by blast

text \<open>A production process with authentication and synthetic identities.\<close>

definition sample_runtime :: config_runtime where
  "sample_runtime = \<lparr>to_number = (\<lambda>s. if list_all is_digit s then Finite (of_nat (dec_to_nat s)) else NaN),
     parse_url = (\<lambda>s. Some \<lparr>url_protocol = takeWhile (\<lambda>c. c \<noteq> CHR ''/'') s, url_hostname = ''host'', url_pathname = ''/db''\<rparr>)\<rparr>"

definition sample_variables :: process_env where
  "sample_variables = map_of [(''NODE_ENV'', '' production ''), (''CORS_ALLOWED_ORIGINS'', ''https://a.example, https://b.example''),
     (''POSTGRES_ENABLED'', ''TRUE''), (''DATABASE_URL'', ''postgres://host/db''), (''AUTH_ENABLED'', ''true''),
     (''AUTH0_ISSUER'', ''https://issuer/''), (''AUTH0_AUDIENCE'', ''api''), (''SYNTHETIC_BETA_IDENTITIES_ENABLED'', ''true''),
     (''PORT'', ''80'')]"

lemma sample_flags:
  "parseBoolean (sample_variables ''POSTGRES_ENABLED'') False = Inr True" "parseBoolean (sample_variables ''AUTH_ENABLED'') False = Inr True"
  "parseBoolean (sample_variables ''SYNTHETIC_BETA_IDENTITIES_ENABLED'') False = Inr True"
  "parseBoolean (sample_variables ''GROWTH_PROJECTION_ENABLED'') False = Inr False"
  "parseBoolean (sample_variables ''ZP_PROJECTION_ENABLED'') False = Inr False"
  "parseBoolean (sample_variables ''X402_ENABLED'') False = Inr False" "parseBoolean (sample_variables ''PAYMENTS_ENABLED'') False = Inr False"
  "parseBoolean (sample_variables ''TRUST_PROXY'') b = Inr b"
  by (simp_all add: parseBoolean_def sample_variables_def) code_simp+

lemma sample_numbers:
  "parsePositiveInteger sample_runtime (sample_variables ''PORT'') 3001 ''PORT'' = Inr 80"
  "parsePositiveInteger sample_runtime (sample_variables ''PAYMENT_RATE_LIMIT_PER_MINUTE'') 5 ''PAYMENT_RATE_LIMIT_PER_MINUTE'' = Inr 5"
  "parsePositiveInteger sample_runtime (sample_variables ''AUTHENTICATED_READ_RATE_LIMIT_PER_MINUTE'') 120
     ''AUTHENTICATED_READ_RATE_LIMIT_PER_MINUTE'' = Inr 120"
  "parsePositiveDecimal sample_runtime (sample_variables ''PAYMENT_MAX_USDC'') 5 ''PAYMENT_MAX_USDC'' = Inr 5"
  by code_simp+

lemma sample_texts:
  "trimmed_or (sample_variables ''NODE_ENV'') ''development'' = ''production''" "truthy (sample_variables ''CORS_ALLOWED_ORIGINS'')"
  "parseDatabaseUrl sample_runtime True (sample_variables ''DATABASE_URL'') = Inr (Some ''postgres://host/db'')"
  "check_auth True True (trimmed (sample_variables ''AUTH0_ISSUER'')) (trimmed (sample_variables ''AUTH0_AUDIENCE'')) = Inr ()"
  "check_issuer sample_runtime (trimmed (sample_variables ''AUTH0_ISSUER'')) = Inr ()"
  by code_simp+

lemma sample_loads:
  "\<exists>e. load_environment sample_runtime sample_variables = Inr e \<and> syntheticBetaIdentitiesEnabled e"
proof -
  have synthetic: "check_synthetic sample_variables True True True = Inr ()" by (simp add: check_synthetic_def sample_flags)
  have refuse: "refuse_if False m = Inr ()" for m by (simp add: refuse_if_def)
  show ?thesis
    unfolding load_environment_def Let_def sample_texts sample_flags and_then_simps sample_numbers synthetic
    by (simp only: refuse sample_texts sample_flags and_then_simps sample_numbers synthetic simp_thms) auto
qed

theorem configuration_is_consistent_witness:
  "\<exists>e. load_environment sample_runtime sample_variables = Inr e \<and> \<not> paymentsEnabled e \<and> authentication_ready sample_runtime e"
proof -
  from sample_loads obtain e where e: "load_environment sample_runtime sample_variables = Inr e"
    and s: "syntheticBetaIdentitiesEnabled e" by blast
  from configuration_is_consistent [OF e] e s show ?thesis by blast
qed

end
