(* ===== verification/EconomicIdentity.thy ===== *)
theory EconomicIdentity
  imports PaymentIntentValidation IdentityStore
begin

text \<open>
  \<open>src/economicIdentity/\<close>, \<open>src/storage/memory/inMemoryEconomicIdentityPersistence.ts\<close> and
  \<open>src/recipients/recipientDirectoryService.ts\<close>: the public identity of an account, the destinations it is
  paid at, and the directory that resolves a recipient to a destination. The parser of URLs, the synthetic
  identities and whether an account exists are arguments.
\<close>

section \<open>Types\<close>

datatype economic_account_type = PERSONAL | CREATOR | BUSINESS | AI_AGENT

datatype discoverability = PRIVATE | USERNAME_ONLY | PUBLIC

datatype identity_verification = UNVERIFIED | VERIFICATION_PENDING | VERIFIED | VERIFICATION_RESTRICTED

datatype payability = AVAILABLE | UNAVAILABLE | PAYABILITY_RESTRICTED

datatype public_identity_status = PUBLIC_ACTIVE | HIDDEN

datatype destination_status = DESTINATION_ACTIVE | INACTIVE | DESTINATION_RESTRICTED

datatype destination_ownership = OWNERSHIP_UNVERIFIED | OWNERSHIP_VERIFIED | OWNERSHIP_REJECTED

record economic_identity =
  eo_accountId :: string
  eo_accountType :: economic_account_type
  eo_username :: string
  eo_normalizedUsername :: string
  eo_displayName :: string
  eo_avatarUrl :: "string option"
  eo_publicIdentityStatus :: public_identity_status
  eo_discoverability :: discoverability
  eo_verificationState :: identity_verification
  eo_payabilityState :: payability
  eo_version :: int
  eo_createdAt :: string
  eo_updatedAt :: string

record payment_destination =
  pd_destinationId :: string
  pd_accountId :: string
  pd_address :: string
  pd_status :: destination_status
  pd_ownershipState :: destination_ownership
  pd_primary :: bool
  pd_version :: int
  pd_createdAt :: string
  pd_updatedAt :: string

record published_recipient =
  pu_accountId :: string
  pu_username :: string
  pu_displayName :: string
  pu_accountType :: economic_account_type
  pu_verificationState :: identity_verification
  pu_payabilityState :: payability
  pu_avatarUrl :: "string option"
  pu_identitySource :: "string option"

record upsert_identity_input =
  ue_accountId :: string
  ue_expectedVersion :: "int option"
  ue_accountType :: economic_account_type
  ue_username :: string
  ue_normalizedUsername :: string
  ue_displayName :: string
  ue_avatarUrl :: "string option"
  ue_discoverability :: discoverability
  ue_occurredAt :: "string option"

record upsert_destination_input =
  ud_destinationId :: string
  ud_accountId :: string
  ud_expectedVersion :: "int option"
  ud_address :: string
  ud_primary :: bool
  ud_occurredAt :: "string option"

record identity_state_input =
  is_accountId :: string
  is_expectedVersion :: int
  is_publicIdentityStatus :: public_identity_status
  is_verificationState :: identity_verification
  is_payabilityState :: payability
  is_occurredAt :: "string option"

record destination_state_input =
  de_destinationId :: string
  de_accountId :: string
  de_expectedVersion :: int
  de_status :: destination_status
  de_ownershipState :: destination_ownership
  de_occurredAt :: "string option"

section \<open>Validation\<close>

abbreviation economic_input_error :: "string \<Rightarrow> 'a result" where
  "economic_input_error m \<equiv> Inl (Err EconomicIdentityInputError m)"

text \<open>\<open>/^[a-z][a-z0-9_]{2,29}$/\<close>\<close>

definition USERNAME_PATTERN :: "string \<Rightarrow> bool" where
  "USERNAME_PATTERN s = (3 \<le> length s \<and> length s \<le> 30 \<and> hd s \<in> set ''abcdefghijklmnopqrstuvwxyz'' \<and>
     list_all (\<lambda>c. c \<in> set ''abcdefghijklmnopqrstuvwxyz0123456789_'') s)"

definition RESERVED :: "string list" where
  "RESERVED = [''admin'', ''administrator'', ''api'', ''auth'', ''billing'', ''help'', ''official'', ''payments'',
     ''recipient'', ''recipients'', ''root'', ''security'', ''support'', ''system'', ''zephi'', ''zephipay'', ''zephyon'']"

definition normalizeUsername :: "string \<Rightarrow> string" where
  "normalizeUsername value = js_lower (js_trim value)"

definition starts_with :: "string \<Rightarrow> string \<Rightarrow> bool" where
  "starts_with p s = (take (length p) s = p)"

definition validateUsername :: "runtime_env \<Rightarrow> json \<Rightarrow> (string \<times> string) result" where
  "validateUsername env value = (case value of
     JString v \<Rightarrow>
       let username = js_trim v; normalized = normalizeUsername username in
       if length username < 3 \<or> length username > 30 \<or> \<not> USERNAME_PATTERN normalized
       then economic_input_error ''Username must be 3 to 30 ASCII characters, begin with a letter, and contain only letters, numbers, or underscores.''
       else if normalized \<in> set RESERVED then economic_input_error ''Username is reserved.''
       else if is_uuid normalized \<or> starts_with ''zp_account_'' normalized \<or> starts_with ''zp:account:'' normalized
       then economic_input_error ''Username resembles an internal identifier.''
       else if public_key_base58 env username = Some username
       then economic_input_error ''Username resembles a wallet address.''
       else Inr (username, normalized)
   | _ \<Rightarrow> economic_input_error ''Username must be a string.'')"

text \<open>\<open>replace(/\s+/g, " ")\<close>\<close>

fun collapse_spaces :: "bool \<Rightarrow> string \<Rightarrow> string" where
  "collapse_spaces prev [] = []"
| "collapse_spaces prev (c # cs) =
     (if is_js_space c then (if prev then collapse_spaces True cs else CHR 0x20 # collapse_spaces True cs)
      else c # collapse_spaces False cs)"

definition is_control :: "char \<Rightarrow> bool" where
  "is_control c = (let n = (of_char c :: nat) in n < 32 \<or> 127 \<le> n \<and> n < 160)"

definition validateDisplayName :: "json \<Rightarrow> string result" where
  "validateDisplayName value = (case value of
     JString v \<Rightarrow>
       let displayName = collapse_spaces False (js_trim v) in
       if length displayName < 1 \<or> length displayName > 80
       then economic_input_error ''Display name must be between 1 and 80 characters.''
       else if list_ex is_control displayName
       then economic_input_error ''Display name contains unsupported control characters.''
       else Inr displayName
   | _ \<Rightarrow> economic_input_error ''Display name must be a string.'')"

text \<open>The protocol and the text of the URL the runtime reads in a text, if it reads one.\<close>

type_synonym url_reader = "string \<Rightarrow> (string \<times> string) option"

definition validateAvatarUrl :: "url_reader \<Rightarrow> json \<Rightarrow> string option result" where
  "validateAvatarUrl url value =
     (if value = JUndefined \<or> value = JNull \<or> value = JString '''' then Inr None
      else (case value of
        JString v \<Rightarrow>
          if length v > 2048 \<or> js_trim v \<noteq> v then economic_input_error ''Avatar URL is invalid.''
          else (case url v of
            None \<Rightarrow> economic_input_error ''Avatar URL is invalid.''
          | Some (protocol, text) \<Rightarrow>
              if protocol \<noteq> ''https:'' then economic_input_error ''Avatar URL must use HTTPS.'' else Inr (Some text))
      | _ \<Rightarrow> economic_input_error ''Avatar URL is invalid.''))"

definition validateDiscoverability :: "json \<Rightarrow> discoverability result" where
  "validateDiscoverability value =
     (if value = JString ''PRIVATE'' then Inr PRIVATE
      else if value = JString ''USERNAME_ONLY'' then Inr USERNAME_ONLY
      else if value = JString ''PUBLIC'' then Inr PUBLIC
      else economic_input_error ''Discoverability is invalid.'')"

definition validateSolanaAddress :: "runtime_env \<Rightarrow> json \<Rightarrow> string result" where
  "validateSolanaAddress env value = (case value of
     JString v \<Rightarrow>
       if js_trim v \<noteq> v \<or> public_key_base58 env v \<noteq> Some v
       then economic_input_error ''Destination must be a canonical Solana wallet address.'' else Inr v
   | _ \<Rightarrow> economic_input_error ''Destination must be a canonical Solana wallet address.'')"

definition parseVersion :: "json \<Rightarrow> bool \<Rightarrow> int option result" where
  "parseVersion value required =
     (if value = JUndefined \<and> \<not> required then Inr None
      else (case value of
        JString v \<Rightarrow>
          if VERSION_PATTERN v then Inr (Some (int (dec_to_nat v)))
          else economic_input_error ''Expected version must be a nonnegative decimal integer string.''
      | _ \<Rightarrow> economic_input_error ''Expected version must be a nonnegative decimal integer string.''))"

definition requireExactObject :: "json \<Rightarrow> string list \<Rightarrow> json_object result" where
  "requireExactObject value allowed = (case value of
     JObject r \<Rightarrow>
       (let unknown = find (\<lambda>k. k \<notin> set allowed) (map fst r) in
        if truthy unknown then economic_input_error (''Unsupported request field: '' @ coalesce unknown '''' @ ''.'')
        else Inr r)
   | _ \<Rightarrow> economic_input_error ''Request body must be a JSON object.'')"

definition option_json :: "string option \<Rightarrow> json" where
  "option_json v = (case v of None \<Rightarrow> JUndefined | Some s \<Rightarrow> JString s)"

definition validateEconomicIdentityPersistenceInput :: "runtime_env \<Rightarrow> url_reader \<Rightarrow> upsert_identity_input \<Rightarrow> unit result" where
  "validateEconomicIdentityPersistenceInput env url i =
     (if \<not> is_uuid (ue_accountId i) then economic_input_error ''Account ID must be a canonical UUID.''
      else and_then (validateUsername env (JString (ue_username i))) (\<lambda>u.
        if fst u \<noteq> ue_username i \<or> snd u \<noteq> ue_normalizedUsername i
        then economic_input_error ''Username fields must be canonical and consistent.''
        else and_then (validateDisplayName (JString (ue_displayName i))) (\<lambda>d.
          if d \<noteq> ue_displayName i then economic_input_error ''Display name must be canonical.''
          else and_then (validateAvatarUrl url (option_json (ue_avatarUrl i))) (\<lambda>_. Inr ()))))"

definition validateDestinationPersistenceInput :: "runtime_env \<Rightarrow> upsert_destination_input \<Rightarrow> unit result" where
  "validateDestinationPersistenceInput env i =
     (if \<not> is_uuid (ud_destinationId i) then economic_input_error ''Destination ID must be a canonical UUID.''
      else if \<not> is_uuid (ud_accountId i) then economic_input_error ''Account ID must be a canonical UUID.''
      else and_then (validateSolanaAddress env (JString (ud_address i))) (\<lambda>_. Inr ()))"

section \<open>The in-memory persistence\<close>

record economic_store =
  eb_identities :: "(string, economic_identity) js_map"
  eb_destinations :: "(string, payment_destination) js_map"
  eb_clockReads :: nat

definition empty_economic_store :: economic_store where
  "empty_economic_store = \<lparr>eb_identities = [], eb_destinations = [], eb_clockReads = 0\<rparr>"

definition identity_version_conflict :: "string \<Rightarrow> 'a result" where
  "identity_version_conflict accountId = Inl (Err EconomicIdentityVersionConflictError
     (''Economic identity for '' @ accountId @ '' was modified by another operation.''))"

definition username_conflict :: "'a result" where
  "username_conflict = Inl (Err UsernameConflictError ''Username is unavailable.'')"

definition destination_conflict :: "string \<Rightarrow> 'a result" where
  "destination_conflict m = Inl (Err PaymentDestinationConflictError m)"

definition economic_now :: "runtime_env \<Rightarrow> string option \<Rightarrow> economic_store \<Rightarrow> string \<times> economic_store" where
  "economic_now env v s = (case v of
     Some t \<Rightarrow> (t, s) | None \<Rightarrow> (clock env (eb_clockReads s), s\<lparr>eb_clockReads := Suc (eb_clockReads s)\<rparr>))"

definition require_account :: "(string \<Rightarrow> bool) option \<Rightarrow> string \<Rightarrow> unit result" where
  "require_account accountExists accountId = (case accountExists of
     None \<Rightarrow> Inr ()
   | Some f \<Rightarrow> if \<not> f accountId then throw (''Account '' @ accountId @ '' was not found.'') else Inr ())"

definition findEconomicIdentity :: "economic_store \<Rightarrow> string \<Rightarrow> economic_identity option" where
  "findEconomicIdentity s accountId = js_get (eb_identities s) accountId"

definition findEconomicIdentityByUsername :: "economic_store \<Rightarrow> string \<Rightarrow> economic_identity option" where
  "findEconomicIdentityByUsername s normalized =
     find (\<lambda>i. eo_normalizedUsername i = normalized) (js_values (eb_identities s))"

definition set_identity :: "string \<Rightarrow> economic_identity \<Rightarrow> economic_store \<Rightarrow> economic_store" where
  "set_identity k i s = s\<lparr>eb_identities := js_set (eb_identities s) k i\<rparr>"

definition upsertEconomicIdentity ::
  "runtime_env \<Rightarrow> url_reader \<Rightarrow> (string \<Rightarrow> bool) option \<Rightarrow> upsert_identity_input \<Rightarrow> economic_store \<Rightarrow>
   (economic_store, economic_identity \<times> bool) outcome" where
  "upsertEconomicIdentity env url accountExists i s =
     when_ok (validateEconomicIdentityPersistenceInput env url i) s (\<lambda>_.
     when_ok (require_account accountExists (ue_accountId i)) s (\<lambda>_.
       let current = js_get (eb_identities s) (ue_accountId i);
           collision = find (\<lambda>x. eo_normalizedUsername x = ue_normalizedUsername i \<and> eo_accountId x \<noteq> ue_accountId i)
             (js_values (eb_identities s)) in
       if collision \<noteq> None then (username_conflict, s)
       else let (now, s1) = economic_now env (ue_occurredAt i) s in
         (case current of
            None \<Rightarrow>
              if ue_expectedVersion i \<noteq> None then (identity_version_conflict (ue_accountId i), s1)
              else let identity = \<lparr>eo_accountId = ue_accountId i, eo_accountType = ue_accountType i, eo_username = ue_username i,
                  eo_normalizedUsername = ue_normalizedUsername i, eo_displayName = ue_displayName i,
                  eo_avatarUrl = ue_avatarUrl i, eo_publicIdentityStatus = PUBLIC_ACTIVE,
                  eo_discoverability = ue_discoverability i, eo_verificationState = UNVERIFIED,
                  eo_payabilityState = UNAVAILABLE, eo_version = 0, eo_createdAt = now, eo_updatedAt = now\<rparr> in
                (Inr (identity, True), set_identity (ue_accountId i) identity s1)
          | Some c \<Rightarrow>
              if ue_expectedVersion i \<noteq> Some (eo_version c) then (identity_version_conflict (ue_accountId i), s1)
              else let identity = c\<lparr>eo_username := ue_username i, eo_normalizedUsername := ue_normalizedUsername i,
                  eo_displayName := ue_displayName i, eo_avatarUrl := ue_avatarUrl i,
                  eo_discoverability := ue_discoverability i, eo_version := eo_version c + 1, eo_updatedAt := now\<rparr> in
                (Inr (identity, False), set_identity (ue_accountId i) identity s1))))"

definition updateEconomicIdentityState ::
  "runtime_env \<Rightarrow> identity_state_input \<Rightarrow> economic_store \<Rightarrow> (economic_store, economic_identity) outcome" where
  "updateEconomicIdentityState env i s = (case js_get (eb_identities s) (is_accountId i) of
     None \<Rightarrow> (identity_version_conflict (is_accountId i), s)
   | Some c \<Rightarrow>
       if eo_version c \<noteq> is_expectedVersion i then (identity_version_conflict (is_accountId i), s)
       else let (now, s1) = economic_now env (is_occurredAt i) s;
           identity = c\<lparr>eo_publicIdentityStatus := is_publicIdentityStatus i, eo_verificationState := is_verificationState i,
             eo_payabilityState := is_payabilityState i, eo_version := eo_version c + 1, eo_updatedAt := now\<rparr> in
         (Inr identity, set_identity (is_accountId i) identity s1))"

definition findPaymentDestination :: "economic_store \<Rightarrow> string \<Rightarrow> payment_destination option" where
  "findPaymentDestination s destinationId = js_get (eb_destinations s) destinationId"

definition primary_first :: "runtime_env \<Rightarrow> payment_destination \<Rightarrow> payment_destination \<Rightarrow> int" where
  "primary_first env a b = or_compare (of_bool (pd_primary b) - of_bool (pd_primary a))
     (locale_compare env (pd_createdAt a) (pd_createdAt b))"

definition listPaymentDestinations :: "runtime_env \<Rightarrow> economic_store \<Rightarrow> string \<Rightarrow> payment_destination list" where
  "listPaymentDestinations env s accountId =
     js_sort (primary_first env) (filter (\<lambda>d. pd_accountId d = accountId) (js_values (eb_destinations s)))"

definition demoted :: "string \<Rightarrow> string \<Rightarrow> string option \<Rightarrow> string \<times> payment_destination \<Rightarrow> string \<times> payment_destination" where
  "demoted accountId updatedAt except e =
     (if Some (fst e) \<noteq> except \<and> pd_accountId (snd e) = accountId \<and> pd_primary (snd e)
      then (fst e, (snd e)\<lparr>pd_primary := False, pd_version := pd_version (snd e) + 1, pd_updatedAt := updatedAt\<rparr>) else e)"

definition demotePrimary :: "string \<Rightarrow> string \<Rightarrow> string option \<Rightarrow> economic_store \<Rightarrow> economic_store" where
  "demotePrimary accountId updatedAt except s =
     s\<lparr>eb_destinations := map (demoted accountId updatedAt except) (eb_destinations s)\<rparr>"

definition upsertSolanaDestination ::
  "runtime_env \<Rightarrow> (string \<Rightarrow> bool) option \<Rightarrow> upsert_destination_input \<Rightarrow> economic_store \<Rightarrow>
   (economic_store, payment_destination \<times> bool) outcome" where
  "upsertSolanaDestination env accountExists i s =
     when_ok (require_account accountExists (ud_accountId i)) s (\<lambda>_.
     when_ok (validateDestinationPersistenceInput env i) s (\<lambda>_.
       let current = js_get (eb_destinations s) (ud_destinationId i);
           collision = find (\<lambda>d. pd_address d = ud_address i \<and> pd_destinationId d \<noteq> ud_destinationId i)
             (js_values (eb_destinations s)) in
       if collision \<noteq> None
       then (destination_conflict ''Payment destination conflicts with an existing destination.'', s)
       else let (now, s1) = economic_now env (ud_occurredAt i) s in
         (case current of
            None \<Rightarrow>
              if ud_expectedVersion i \<noteq> None then (destination_conflict ''Payment destination version is stale.'', s1)
              else let s2 = (if ud_primary i then demotePrimary (ud_accountId i) now None s1 else s1);
                  destination = \<lparr>pd_destinationId = ud_destinationId i, pd_accountId = ud_accountId i,
                    pd_address = ud_address i, pd_status = DESTINATION_ACTIVE, pd_ownershipState = OWNERSHIP_UNVERIFIED,
                    pd_primary = ud_primary i, pd_version = 0, pd_createdAt = now, pd_updatedAt = now\<rparr> in
                (Inr (destination, True), s2\<lparr>eb_destinations := js_set (eb_destinations s2) (ud_destinationId i) destination\<rparr>)
          | Some c \<Rightarrow>
              if pd_accountId c \<noteq> ud_accountId i \<or> pd_address c \<noteq> ud_address i
              then (destination_conflict ''Payment destination cannot be reassigned or changed.'', s1)
              else if ud_expectedVersion i \<noteq> Some (pd_version c)
              then (destination_conflict ''Payment destination version is stale.'', s1)
              else let s2 = (if ud_primary i then demotePrimary (ud_accountId i) now (Some (ud_destinationId i)) s1 else s1);
                  destination = c\<lparr>pd_primary := ud_primary i, pd_version := pd_version c + 1, pd_updatedAt := now\<rparr> in
                (Inr (destination, False), s2\<lparr>eb_destinations := js_set (eb_destinations s2) (ud_destinationId i) destination\<rparr>))))"

definition updatePaymentDestinationState ::
  "runtime_env \<Rightarrow> destination_state_input \<Rightarrow> economic_store \<Rightarrow> (economic_store, payment_destination) outcome" where
  "updatePaymentDestinationState env i s = (case js_get (eb_destinations s) (de_destinationId i) of
     None \<Rightarrow> (destination_conflict ''Payment destination version is stale or destination is unavailable.'', s)
   | Some c \<Rightarrow>
       if pd_accountId c \<noteq> de_accountId i \<or> pd_version c \<noteq> de_expectedVersion i
       then (destination_conflict ''Payment destination version is stale or destination is unavailable.'', s)
       else let (now, s1) = economic_now env (de_occurredAt i) s;
           destination = c\<lparr>pd_status := de_status i, pd_ownershipState := de_ownershipState i,
             pd_version := pd_version c + 1, pd_updatedAt := now\<rparr> in
         (Inr destination, s1\<lparr>eb_destinations := js_set (eb_destinations s1) (de_destinationId i) destination\<rparr>))"

end
