(* ===== verification/Recipients.thy ===== *)
theory Recipients
  imports EconomicIdentity PaymentIntentService
begin

text \<open>
  \<open>src/economicIdentity/economicIdentityService.ts\<close>, \<open>src/recipients/syntheticBetaIdentity.ts\<close> with its
  Postgres table, and \<open>src/recipients/recipientDirectoryService.ts\<close>: what an account publishes about itself,
  the synthetic recipients of the beta, and the directory that resolves a name or an account to a recipient and
  a recipient to the wallet it is paid at.

  A request reads and writes in separate calls of the persistence; \<open>others\<close> is what the economic operations of
  other requests do between the two.
\<close>

section \<open>World\<close>

record directory_world =
  dw_accounts :: identity_store
  dw_economic :: economic_store
  dw_synthetic :: "synthetic_identity list option"

definition on_directory_accounts ::
  "(identity_store \<Rightarrow> (identity_store, 'a) outcome) \<Rightarrow> directory_world \<Rightarrow> (directory_world, 'a) outcome" where
  "on_directory_accounts f w = (let (r, s) = f (dw_accounts w) in (r, w\<lparr>dw_accounts := s\<rparr>))"

definition on_economic ::
  "(economic_store \<Rightarrow> (economic_store, 'a) outcome) \<Rightarrow> directory_world \<Rightarrow> (directory_world, 'a) outcome" where
  "on_economic f w = (let (r, s) = f (dw_economic w) in (r, w\<lparr>dw_economic := s\<rparr>))"

section \<open>The texts of the enumerations\<close>

fun economic_account_type_text :: "economic_account_type \<Rightarrow> string" where
  "economic_account_type_text PERSONAL = ''PERSONAL''"
| "economic_account_type_text CREATOR = ''CREATOR''"
| "economic_account_type_text BUSINESS = ''BUSINESS''"
| "economic_account_type_text AI_AGENT = ''AI_AGENT''"

fun discoverability_text :: "discoverability \<Rightarrow> string" where
  "discoverability_text PRIVATE = ''PRIVATE''"
| "discoverability_text USERNAME_ONLY = ''USERNAME_ONLY''"
| "discoverability_text PUBLIC = ''PUBLIC''"

fun identity_verification_text :: "identity_verification \<Rightarrow> string" where
  "identity_verification_text UNVERIFIED = ''UNVERIFIED''"
| "identity_verification_text VERIFICATION_PENDING = ''PENDING''"
| "identity_verification_text VERIFIED = ''VERIFIED''"
| "identity_verification_text VERIFICATION_RESTRICTED = ''RESTRICTED''"

fun payability_text :: "payability \<Rightarrow> string" where
  "payability_text AVAILABLE = ''AVAILABLE''"
| "payability_text UNAVAILABLE = ''UNAVAILABLE''"
| "payability_text PAYABILITY_RESTRICTED = ''RESTRICTED''"

fun public_identity_status_text :: "public_identity_status \<Rightarrow> string" where
  "public_identity_status_text PUBLIC_ACTIVE = ''ACTIVE''"
| "public_identity_status_text HIDDEN = ''HIDDEN''"

fun destination_status_text :: "destination_status \<Rightarrow> string" where
  "destination_status_text DESTINATION_ACTIVE = ''ACTIVE''"
| "destination_status_text INACTIVE = ''INACTIVE''"
| "destination_status_text DESTINATION_RESTRICTED = ''RESTRICTED''"

fun destination_ownership_text :: "destination_ownership \<Rightarrow> string" where
  "destination_ownership_text OWNERSHIP_UNVERIFIED = ''UNVERIFIED''"
| "destination_ownership_text OWNERSHIP_VERIFIED = ''VERIFIED''"
| "destination_ownership_text OWNERSHIP_REJECTED = ''REJECTED''"

section \<open>The economic identity of the caller\<close>

definition economic_app_error :: "application_error_kind \<Rightarrow> string \<Rightarrow> 'a result" where
  "economic_app_error kind m = Inl (Err (EconomicIdentityApplicationError kind) m)"

definition resolveAccountId :: "runtime_env \<Rightarrow> caller \<Rightarrow> directory_world \<Rightarrow> (directory_world, string) outcome" where
  "resolveAccountId env c w =
     (let (r, w') = on_directory_accounts
          (resolvePrincipal env (cl_newAccountId c) (cl_newIdentityId c) (cl_principal c)) w in
      (case r of
         Inl e \<Rightarrow> if error_class_of e = AccountAccessDeniedError
                 then economic_app_error ACCESS_DENIED ''Account access is unavailable.'' else Inl e
       | Inr (a, xs) \<Rightarrow> Inr (ac_accountId a), w'))"

definition getCurrent ::
  "runtime_env \<Rightarrow> caller \<Rightarrow> directory_world \<Rightarrow>
   (directory_world, economic_identity option \<times> payment_destination list) outcome" where
  "getCurrent env c w = then_do (resolveAccountId env c w) (\<lambda>accountId w1.
     (Inr (findEconomicIdentity (dw_economic w1) accountId,
           listPaymentDestinations env (dw_economic w1) accountId), w1))"

text \<open>The member of an object, undefined when it has none.\<close>

definition body_member :: "json_object \<Rightarrow> string \<Rightarrow> json" where
  "body_member body k = coalesce (js_get body k) JUndefined"

definition economic_write_error :: "js_error \<Rightarrow> js_error" where
  "economic_write_error e = (case error_class_of e of
     UsernameConflictError \<Rightarrow> Err (EconomicIdentityApplicationError USERNAME_UNAVAILABLE) ''Username is unavailable.''
   | EconomicIdentityVersionConflictError \<Rightarrow>
       Err (EconomicIdentityApplicationError VERSION_CONFLICT) ''Economic identity version is stale.''
   | _ \<Rightarrow> e)"

definition catch_economic :: "(js_error \<Rightarrow> js_error) \<Rightarrow> ('w, 'a) outcome \<Rightarrow> ('w, 'a) outcome" where
  "catch_economic g o' = (case fst o' of Inl e \<Rightarrow> Inl (g e) | Inr x \<Rightarrow> Inr x, snd o')"

definition upsertCurrent ::
  "runtime_env \<Rightarrow> url_reader \<Rightarrow> (string \<Rightarrow> bool) option \<Rightarrow> (economic_store \<Rightarrow> economic_store) \<Rightarrow> caller \<Rightarrow> json \<Rightarrow>
   directory_world \<Rightarrow> (directory_world, economic_identity \<times> bool) outcome" where
  "upsertCurrent env url accountExists others c raw w = then_do (resolveAccountId env c w) (\<lambda>accountId w1.
     when_ok (requireExactObject raw [''expectedVersion'', ''username'', ''displayName'', ''avatarUrl'', ''discoverability'']) w1 (\<lambda>body.
     when_ok (validateUsername env (body_member body ''username'')) w1 (\<lambda>username.
     when_ok (parseVersion (body_member body ''expectedVersion'') False) w1 (\<lambda>expectedVersion.
       let current = findEconomicIdentity (dw_economic w1) accountId in
       if (current = None) \<noteq> (expectedVersion = None)
       then (economic_app_error VERSION_CONFLICT ''Economic identity version is stale.'', w1)
       else catch_economic economic_write_error (
         when_ok (validateDisplayName (body_member body ''displayName'')) w1 (\<lambda>displayName.
         when_ok (validateAvatarUrl url (body_member body ''avatarUrl'')) w1 (\<lambda>avatarUrl.
         when_ok (validateDiscoverability (body_member body ''discoverability'')) w1 (\<lambda>disc.
           on_economic (upsertEconomicIdentity env url accountExists
             \<lparr>ue_accountId = accountId, ue_expectedVersion = expectedVersion,
              ue_accountType = (case current of None \<Rightarrow> PERSONAL | Some i \<Rightarrow> eo_accountType i),
              ue_username = fst username, ue_normalizedUsername = snd username, ue_displayName = displayName,
              ue_avatarUrl = avatarUrl, ue_discoverability = disc, ue_occurredAt = None\<rparr>)
             (w1\<lparr>dw_economic := others (dw_economic w1)\<rparr>)))))))))"

definition destination_write_error :: "js_error \<Rightarrow> js_error" where
  "destination_write_error e = (if error_class_of e = PaymentDestinationConflictError
     then Err (EconomicIdentityApplicationError CONFLICT) (error_message e) else e)"

text \<open>\<open>upsertSolanaDestination\<close> of the service; \<open>newId\<close> is what \<open>randomUUID\<close> gives, if the body names no id.\<close>

definition upsertCurrentDestination ::
  "runtime_env \<Rightarrow> (string \<Rightarrow> bool) option \<Rightarrow> caller \<Rightarrow> string \<Rightarrow> json \<Rightarrow>
   directory_world \<Rightarrow> (directory_world, payment_destination \<times> bool) outcome" where
  "upsertCurrentDestination env accountExists c newId raw w = then_do (resolveAccountId env c w) (\<lambda>accountId w1.
     when_ok (requireExactObject raw [''destinationId'', ''expectedVersion'', ''address'', ''primary'']) w1 (\<lambda>body.
     when_ok (case body_member body ''destinationId'' of
          JUndefined \<Rightarrow> Inr newId
        | JString v \<Rightarrow> if is_uuid v then Inr (js_lower v) else economic_input_error ''Payment destination ID is invalid.''
        | _ \<Rightarrow> economic_input_error ''Payment destination ID is invalid.'') w1 (\<lambda>destinationId.
     when_ok (case body_member body ''primary'' of
          JBool b \<Rightarrow> Inr b | _ \<Rightarrow> economic_input_error ''Primary must be a boolean.'') w1 (\<lambda>is_primary.
     catch_economic destination_write_error (
       when_ok (parseVersion (body_member body ''expectedVersion'') False) w1 (\<lambda>expectedVersion.
       when_ok (validateSolanaAddress env (body_member body ''address'')) w1 (\<lambda>address.
         on_economic (upsertSolanaDestination env accountExists
           \<lparr>ud_destinationId = destinationId, ud_accountId = accountId, ud_expectedVersion = expectedVersion,
            ud_address = address, ud_primary = is_primary, ud_occurredAt = None\<rparr>) w1)))))))"

definition serializeDestination :: "payment_destination \<Rightarrow> json" where
  "serializeDestination d = JObject [(''id'', JString (pd_destinationId d)), (''type'', JString ''solana_wallet''),
     (''address'', JString (pd_address d)), (''status'', JString (js_lower (destination_status_text (pd_status d)))),
     (''ownershipState'', JString (js_lower (destination_ownership_text (pd_ownershipState d)))),
     (''primary'', JBool (pd_primary d)), (''version'', JString (int_to_dec (pd_version d))),
     (''createdAt'', JString (pd_createdAt d)), (''updatedAt'', JString (pd_updatedAt d))]"

definition avatar_member :: "string option \<Rightarrow> json_object" where
  "avatar_member v = (if truthy v then [(''avatarUrl'', JString (coalesce v ''''))] else [])"

definition serializeIdentity :: "economic_identity \<Rightarrow> json" where
  "serializeIdentity i = JObject ([(''accountId'', JString (eo_accountId i)),
     (''accountType'', JString (js_lower (economic_account_type_text (eo_accountType i)))),
     (''username'', JString (eo_username i)), (''displayName'', JString (eo_displayName i))] @
     avatar_member (eo_avatarUrl i) @
     [(''publicIdentityStatus'', JString (js_lower (public_identity_status_text (eo_publicIdentityStatus i)))),
     (''discoverability'', JString (js_lower (discoverability_text (eo_discoverability i)))),
     (''verificationState'', JString (js_lower (identity_verification_text (eo_verificationState i)))),
     (''payabilityState'', JString (js_lower (payability_text (eo_payabilityState i)))),
     (''version'', JString (int_to_dec (eo_version i))), (''createdAt'', JString (eo_createdAt i)),
     (''updatedAt'', JString (eo_updatedAt i))])"

definition serializeCurrentIdentity :: "economic_identity option \<times> payment_destination list \<Rightarrow> json" where
  "serializeCurrentIdentity r = JObject [(''identity'', case fst r of None \<Rightarrow> JNull | Some i \<Rightarrow> serializeIdentity i),
     (''destinations'', JArray (map serializeDestination (snd r)))]"

section \<open>Synthetic identities\<close>

text \<open>
  \<open>nfkc\<close> is \<open>normalize("NFKC")\<close>, which needs the tables of Unicode. Below code unit 256 the classes of the
  regular expressions are the controls and the soft hyphen, and the letters and numbers listed here.
\<close>

definition is_control_or_format :: "char \<Rightarrow> bool" where
  "is_control_or_format c = (is_control c \<or> (of_char c :: nat) = 173)"

definition is_letter_or_number :: "char \<Rightarrow> bool" where
  "is_letter_or_number c = (let n = (of_char c :: nat) in
     is_alnum c \<or> n \<in> {170, 178, 179, 181, 185, 186, 188, 189, 190} \<or> 192 \<le> n \<and> n \<noteq> 215 \<and> n \<noteq> 247)"

definition normalizeSyntheticBetaName :: "(string \<Rightarrow> string) \<Rightarrow> json \<Rightarrow> (string \<times> string) result" where
  "normalizeSyntheticBetaName nfkc value = (case value of
     JString v \<Rightarrow>
       let display = nfkc (js_trim v) in
       if display = '''' \<or> utf8_length display > 64 \<or> list_ex is_control_or_format display \<or>
          \<not> list_ex is_letter_or_number display
       then throw ''INVALID_SYNTHETIC_NAME'' else Inr (display, js_lower display)
   | _ \<Rightarrow> throw ''INVALID_SYNTHETIC_NAME'')"

definition slice_text :: "nat \<Rightarrow> nat \<Rightarrow> string \<Rightarrow> string" where
  "slice_text a b s = take (b - a) (drop a s)"

definition synthetic_uuid :: "string \<Rightarrow> string" where
  "synthetic_uuid hex = slice_text 0 8 hex @ ''-'' @ slice_text 8 12 hex @ ''-5'' @ slice_text 13 16 hex @ ''-a'' @
     slice_text 17 20 hex @ ''-'' @ slice_text 20 32 hex"

definition syntheticBetaIdentity :: "runtime_env \<Rightarrow> (string \<Rightarrow> string) \<Rightarrow> json \<Rightarrow> synthetic_identity result" where
  "syntheticBetaIdentity env nfkc value = and_then (normalizeSyntheticBetaName nfkc value) (\<lambda>(displayName, normalizedName).
     let hex = sha256_hex env (''zephipay:synthetic-beta:v1:'' @ normalizedName) in
     Inr \<lparr>sy_syntheticId = synthetic_uuid hex, sy_normalizedName = normalizedName, sy_displayName = displayName,
       sy_username = displayName\<rparr>)"

text \<open>
  The table \<open>synthetic_beta_identities\<close>: its primary key is the id, the normalized name is unique, and both names
  have 1 to 64 bytes. The insert answers with the row of the name, the one there or the new one.
\<close>

definition synthetic_findById :: "synthetic_identity list \<Rightarrow> string \<Rightarrow> synthetic_identity option" where
  "synthetic_findById rows i = find (\<lambda>r. sy_syntheticId r = i) rows"

definition synthetic_findByName :: "synthetic_identity list \<Rightarrow> string \<Rightarrow> synthetic_identity option" where
  "synthetic_findByName rows n = find (\<lambda>r. sy_normalizedName r = n) rows"

definition name_bytes_ok :: "string \<Rightarrow> bool" where
  "name_bytes_ok n = (1 \<le> utf8_length n \<and> utf8_length n \<le> 64)"

definition synthetic_claim ::
  "synthetic_identity \<Rightarrow> synthetic_identity list \<Rightarrow> (synthetic_identity list, synthetic_identity) outcome" where
  "synthetic_claim v rows =
     (if \<not> name_bytes_ok (sy_normalizedName v) \<or> \<not> name_bytes_ok (sy_displayName v)
      then (throw ''new row for relation synthetic_beta_identities violates check constraint'', rows)
      else (case synthetic_findByName rows (sy_normalizedName v) of
        Some r \<Rightarrow> (Inr r, rows)
      | None \<Rightarrow>
          if synthetic_findById rows (sy_syntheticId v) \<noteq> None
          then (throw ''duplicate key value violates unique constraint synthetic_beta_identities_pkey'', rows)
          else let r = v\<lparr>sy_username := sy_displayName v\<rparr> in (Inr r, rows @ [r])))"

section \<open>The recipient directory\<close>

definition directory_error :: "application_error_kind \<Rightarrow> string \<Rightarrow> 'a result" where
  "directory_error kind m = Inl (Err (RecipientDirectoryError kind) m)"

definition recipient_not_found :: "'a result" where
  "recipient_not_found = directory_error NOT_FOUND ''Recipient was not found.''"

definition toPublicRecipient :: "economic_identity \<Rightarrow> published_recipient" where
  "toPublicRecipient i = \<lparr>pu_accountId = eo_accountId i, pu_username = eo_username i, pu_displayName = eo_displayName i,
     pu_accountType = eo_accountType i, pu_verificationState = eo_verificationState i,
     pu_payabilityState = eo_payabilityState i, pu_avatarUrl = if_truthy (eo_avatarUrl i), pu_identitySource = None\<rparr>"

definition syntheticPublic :: "synthetic_identity \<Rightarrow> published_recipient" where
  "syntheticPublic v = \<lparr>pu_accountId = sy_syntheticId v, pu_username = sy_username v, pu_displayName = sy_displayName v,
     pu_accountType = PERSONAL, pu_verificationState = UNVERIFIED, pu_payabilityState = AVAILABLE,
     pu_avatarUrl = None, pu_identitySource = Some ''SYNTHETIC_BETA''\<rparr>"

definition isPubliclyResolvable :: "directory_world \<Rightarrow> economic_identity \<Rightarrow> bool" where
  "isPubliclyResolvable w i =
     (if eo_publicIdentityStatus i \<noteq> PUBLIC_ACTIVE \<or> eo_discoverability i = PRIVATE \<or>
         eo_payabilityState i \<noteq> AVAILABLE \<or> eo_verificationState i = VERIFICATION_RESTRICTED then False
      else (case findAccount (dw_accounts w) (eo_accountId i) of
        None \<Rightarrow> False | Some a \<Rightarrow> ac_status a = ACTIVE))"

definition published :: "string \<Rightarrow> directory_world \<Rightarrow> economic_identity \<Rightarrow> published_recipient list" where
  "published requester w i =
     (if eo_accountId i = requester \<or> \<not> isPubliclyResolvable w i then [] else [toPublicRecipient i])"

definition searchExactUsername ::
  "runtime_env \<Rightarrow> (string \<Rightarrow> string) \<Rightarrow> string \<Rightarrow> string \<Rightarrow> directory_world \<Rightarrow>
   (directory_world, published_recipient list) outcome" where
  "searchExactUsername env nfkc requester raw w = (case dw_synthetic w of
     None \<Rightarrow> when_ok (validateUsername env (JString raw)) w (\<lambda>u.
       case findEconomicIdentityByUsername (dw_economic w) (snd u) of
         None \<Rightarrow> (Inr [], w) | Some i \<Rightarrow> (Inr (published requester w i), w))
   | Some rows \<Rightarrow>
       (case (case validateUsername env (JString raw) of
           Inl e \<Rightarrow> None | Inr u \<Rightarrow> findEconomicIdentityByUsername (dw_economic w) (snd u)) of
         Some i \<Rightarrow> (Inr (published requester w i), w)
       | None \<Rightarrow> (case syntheticBetaIdentity env nfkc (JString raw) of
           Inl e \<Rightarrow> (directory_error INVALID ''A valid beta recipient name is required.'', w)
         | Inr candidate \<Rightarrow> (let (r, rows') = synthetic_claim candidate rows in
             (and_then r (\<lambda>v. Inr [syntheticPublic v]), w\<lparr>dw_synthetic := Some rows'\<rparr>)))))"

definition resolvePublicRecipient :: "string \<Rightarrow> string \<Rightarrow> directory_world \<Rightarrow> published_recipient result" where
  "resolvePublicRecipient requester accountId w =
     (if \<not> is_uuid accountId \<or> js_lower accountId = js_lower requester then recipient_not_found
      else (case findEconomicIdentity (dw_economic w) (js_lower accountId) of
        Some i \<Rightarrow> if isPubliclyResolvable w i then Inr (toPublicRecipient i) else recipient_not_found
      | None \<Rightarrow> (case Option.bind (dw_synthetic w) (\<lambda>rows. synthetic_findById rows (js_lower accountId)) of
          Some v \<Rightarrow> Inr (syntheticPublic v) | None \<Rightarrow> recipient_not_found)))"

definition resolveOwnPayableRecipient :: "string \<Rightarrow> directory_world \<Rightarrow> published_recipient result" where
  "resolveOwnPayableRecipient accountId w = (case findEconomicIdentity (dw_economic w) (js_lower accountId) of
     None \<Rightarrow> recipient_not_found
   | Some i \<Rightarrow> if \<not> isPubliclyResolvable w i then recipient_not_found else Inr (toPublicRecipient i))"

definition payable_destination :: "payment_destination \<Rightarrow> bool" where
  "payable_destination d = (pd_primary d \<and> pd_status d = DESTINATION_ACTIVE \<and> pd_ownershipState d \<noteq> OWNERSHIP_REJECTED)"

definition resolvePaymentDestination ::
  "runtime_env \<Rightarrow> string \<Rightarrow> string \<Rightarrow> directory_world \<Rightarrow> (published_recipient \<times> payment_destination) result" where
  "resolvePaymentDestination env requester accountId w = and_then (resolvePublicRecipient requester accountId w) (\<lambda>recipient.
     case find payable_destination (listPaymentDestinations env (dw_economic w) (pu_accountId recipient)) of
       None \<Rightarrow> recipient_not_found | Some d \<Rightarrow> Inr (recipient, d))"

definition serializePublicRecipient :: "published_recipient \<Rightarrow> json" where
  "serializePublicRecipient r = JObject ([(''accountId'', JString (pu_accountId r)), (''username'', JString (pu_username r)),
     (''displayName'', JString (pu_displayName r)),
     (''accountType'', JString (js_lower (economic_account_type_text (pu_accountType r)))),
     (''verificationState'', JString (js_lower (identity_verification_text (pu_verificationState r)))),
     (''payabilityState'', JString (js_lower (payability_text (pu_payabilityState r))))] @
     (if truthy (pu_identitySource r)
      then [(''identitySource'', JString (js_lower (coalesce (pu_identitySource r) '''')))] else []) @
     avatar_member (pu_avatarUrl r))"

definition parseExactSearchRequest :: "(string \<Rightarrow> string) \<Rightarrow> json \<Rightarrow> string result" where
  "parseExactSearchRequest nfkc value = (case value of
     JObject r \<Rightarrow>
       if length r \<noteq> 1 \<or> \<not> js_has r ''username''
       then directory_error INVALID ''A username-only search request is required.''
       else (case body_member r ''username'' of
         JString v \<Rightarrow> (case normalizeSyntheticBetaName nfkc (JString v) of
             Inl e \<Rightarrow> directory_error INVALID ''A valid recipient name is required.''
           | Inr (displayName, n) \<Rightarrow> Inr displayName)
       | _ \<Rightarrow> directory_error INVALID ''A valid username is required.'')
   | _ \<Rightarrow> directory_error INVALID ''A username-only search request is required.'')"

end
