(* ===== verification/EconomicIdentityProperties.thy ===== *)
theory EconomicIdentityProperties
  imports Recipients Versioned
begin

text \<open>
  What the economic identities keep: a user name belongs to one account, an address to one destination, and an
  account has at most one primary destination, whatever operations ran; a write prepared against a version that
  has moved on conflicts; and the directory publishes only what may be paid.
\<close>

section \<open>The operations of the persistence\<close>

datatype economic_operation =
    UpsertIdentity upsert_identity_input
  | UpdateIdentityState identity_state_input
  | UpsertDestination upsert_destination_input
  | UpdateDestinationState destination_state_input

record economic_setting =
  et_env :: runtime_env
  et_url :: url_reader
  et_accountExists :: "(string \<Rightarrow> bool) option"

fun run_economic :: "economic_setting \<Rightarrow> economic_operation \<Rightarrow> economic_store \<Rightarrow> js_error option \<times> economic_store" where
  "run_economic c (UpsertIdentity i) s = thrown (upsertEconomicIdentity (et_env c) (et_url c) (et_accountExists c) i s)"
| "run_economic c (UpdateIdentityState i) s = thrown (updateEconomicIdentityState (et_env c) i s)"
| "run_economic c (UpsertDestination i) s = thrown (upsertSolanaDestination (et_env c) (et_accountExists c) i s)"
| "run_economic c (UpdateDestinationState i) s = thrown (updatePaymentDestinationState (et_env c) i s)"

definition run_all_economic :: "economic_setting \<Rightarrow> economic_operation list \<Rightarrow> economic_store \<Rightarrow> economic_store" where
  "run_all_economic c ops s = foldl (\<lambda>t opn. snd (run_economic c opn t)) s ops"

definition economic_step :: "economic_setting \<Rightarrow> economic_store \<Rightarrow> economic_store \<Rightarrow> bool" where
  "economic_step c s t = (\<exists>opn. t = snd (run_economic c opn s))"

section \<open>The invariant\<close>

definition username_ok :: "economic_identity \<Rightarrow> bool" where
  "username_ok i = (eo_normalizedUsername i = normalizeUsername (eo_username i) \<and> USERNAME_PATTERN (eo_normalizedUsername i) \<and>
     eo_normalizedUsername i \<notin> set RESERVED \<and> \<not> starts_with ''zp_account_'' (eo_normalizedUsername i))"

definition identities_ok :: "(string, economic_identity) js_map \<Rightarrow> bool" where
  "identities_ok m \<longleftrightarrow> js_keys_distinct m \<and>
     (\<forall>k i. js_get m k = Some i \<longrightarrow> eo_accountId i = k \<and> username_ok i \<and> 0 \<le> eo_version i) \<and>
     (\<forall>k k' i j. js_get m k = Some i \<longrightarrow> js_get m k' = Some j \<longrightarrow>
        eo_normalizedUsername i = eo_normalizedUsername j \<longrightarrow> k = k')"

definition destinations_ok :: "(string, payment_destination) js_map \<Rightarrow> bool" where
  "destinations_ok m \<longleftrightarrow> js_keys_distinct m \<and>
     (\<forall>k d. js_get m k = Some d \<longrightarrow> pd_destinationId d = k \<and> 0 \<le> pd_version d) \<and>
     (\<forall>k k' d e. js_get m k = Some d \<longrightarrow> js_get m k' = Some e \<longrightarrow> pd_address d = pd_address e \<longrightarrow> k = k') \<and>
     (\<forall>k k' d e. js_get m k = Some d \<longrightarrow> js_get m k' = Some e \<longrightarrow> pd_accountId d = pd_accountId e \<longrightarrow>
        pd_primary d \<longrightarrow> pd_primary e \<longrightarrow> k = k')"

definition economic_ok :: "economic_store \<Rightarrow> bool" where
  "economic_ok s \<longleftrightarrow> identities_ok (eb_identities s) \<and> destinations_ok (eb_destinations s)"

lemma identities_okD:
  assumes "identities_ok m" and "js_get m k = Some i"
  shows "eo_accountId i = k" "username_ok i" "0 \<le> eo_version i"
    "js_get m k' = Some j \<Longrightarrow> eo_normalizedUsername j = eo_normalizedUsername i \<Longrightarrow> k' = k"
  using assms unfolding identities_ok_def by metis+

lemma destinations_okD:
  assumes "destinations_ok m" and "js_get m k = Some d"
  shows "pd_destinationId d = k" "0 \<le> pd_version d"
    "js_get m k' = Some e \<Longrightarrow> pd_address e = pd_address d \<Longrightarrow> k' = k"
    "js_get m k' = Some e \<Longrightarrow> pd_accountId e = pd_accountId d \<Longrightarrow> pd_primary e \<Longrightarrow> pd_primary d \<Longrightarrow> k' = k"
  using assms unfolding destinations_ok_def by metis+

lemma destinations_okI:
  assumes "js_keys_distinct m"
    and "\<And>k d. js_get m k = Some d \<Longrightarrow> pd_destinationId d = k \<and> 0 \<le> pd_version d"
    and "\<And>k k' d e. js_get m k = Some d \<Longrightarrow> js_get m k' = Some e \<Longrightarrow> pd_address d = pd_address e \<Longrightarrow> k = k'"
    and "\<And>k k' d e. js_get m k = Some d \<Longrightarrow> js_get m k' = Some e \<Longrightarrow> pd_accountId d = pd_accountId e \<Longrightarrow>
        pd_primary d \<Longrightarrow> pd_primary e \<Longrightarrow> k = k'"
  shows "destinations_ok m"
  using assms unfolding destinations_ok_def by blast

lemma economic_ok_empty [simp]: "economic_ok empty_economic_store"
  by (simp add: economic_ok_def identities_ok_def destinations_ok_def empty_economic_store_def)

lemma economic_now_maps [simp]:
  "eb_identities (snd (economic_now env v s)) = eb_identities s"
  "eb_destinations (snd (economic_now env v s)) = eb_destinations s"
  by (simp_all add: economic_now_def split: option.split)

lemma set_identity_maps [simp]:
  "eb_identities (set_identity k i s) = js_set (eb_identities s) k i"
  "eb_destinations (set_identity k i s) = eb_destinations s"
  by (simp_all add: set_identity_def)

text \<open>Demoting keeps every entry under its key.\<close>

definition demoted_value :: "string \<Rightarrow> string \<Rightarrow> string option \<Rightarrow> string \<Rightarrow> payment_destination \<Rightarrow> payment_destination" where
  "demoted_value a at_time except k d =
     (if Some k \<noteq> except \<and> pd_accountId d = a \<and> pd_primary d
      then d\<lparr>pd_primary := False, pd_version := pd_version d + 1, pd_updatedAt := at_time\<rparr> else d)"

lemma demoted_pair: "demoted a u ex (k, d) = (k, demoted_value a u ex k d)"
  by (simp add: demoted_def demoted_value_def)

lemma demotePrimary_get:
  "js_get (eb_destinations (demotePrimary a u ex s)) k = map_option (demoted_value a u ex k) (js_get (eb_destinations s) k)"
proof -
  have "map_of (map (demoted a u ex) m) k = map_option (demoted_value a u ex k) (map_of m k)" for m
    by (induction m) (auto simp: demoted_pair)
  then show ?thesis by (simp add: demotePrimary_def js_get_def)
qed

lemma demotePrimary_keys:
  "js_keys_distinct (eb_destinations (demotePrimary a u ex s)) = js_keys_distinct (eb_destinations s)"
proof -
  have "map fst (map (demoted a u ex) m) = map fst m" for m
    by (induction m) (auto simp: demoted_def)
  then show ?thesis unfolding demotePrimary_def js_keys_distinct_def by (simp del: map_map)
qed

lemma demotePrimary_identities [simp]: "eb_identities (demotePrimary a u ex s) = eb_identities s"
  by (simp add: demotePrimary_def)

lemma demoted_value_simps [simp]:
  "pd_destinationId (demoted_value a u ex k d) = pd_destinationId d"
  "pd_address (demoted_value a u ex k d) = pd_address d"
  "pd_accountId (demoted_value a u ex k d) = pd_accountId d"
  "pd_status (demoted_value a u ex k d) = pd_status d"
  "pd_version d \<le> pd_version (demoted_value a u ex k d)"
  by (simp_all add: demoted_value_def split: if_splits)

lemma demoted_value_was_primary: "pd_primary (demoted_value a u ex k d) \<Longrightarrow> pd_primary d"
  by (simp add: demoted_value_def split: if_splits)

lemma demoted_value_primary:
  "pd_primary (demoted_value a u ex k d) \<Longrightarrow> pd_accountId d = a \<Longrightarrow> Some k = ex"
  by (simp add: demoted_value_def split: if_splits)

lemma demoted_get:
  assumes "js_get (eb_destinations (demotePrimary a u ex s)) k = Some d"
  obtains d' where "js_get (eb_destinations s) k = Some d'" "d = demoted_value a u ex k d'"
  using assms unfolding demotePrimary_get by (cases "js_get (eb_destinations s) k") simp_all

lemma demotePrimary_ok:
  assumes "destinations_ok (eb_destinations s)"
  shows "destinations_ok (eb_destinations (demotePrimary a u ex s))"
proof (rule destinations_okI)
  show "js_keys_distinct (eb_destinations (demotePrimary a u ex s))"
    using assms by (simp add: demotePrimary_keys destinations_ok_def)
next
  fix k d assume "js_get (eb_destinations (demotePrimary a u ex s)) k = Some d"
  then obtain d' where d': "js_get (eb_destinations s) k = Some d'" "d = demoted_value a u ex k d'" by (rule demoted_get)
  show "pd_destinationId d = k \<and> 0 \<le> pd_version d"
    using destinations_okD(1,2) [OF assms d'(1)] unfolding d'(2) by (auto intro: order_trans)
next
  fix k k' d e
  assume k: "js_get (eb_destinations (demotePrimary a u ex s)) k = Some d"
    and k': "js_get (eb_destinations (demotePrimary a u ex s)) k' = Some e"
  from k obtain d' where d': "js_get (eb_destinations s) k = Some d'" "d = demoted_value a u ex k d'" by (rule demoted_get)
  from k' obtain e' where e': "js_get (eb_destinations s) k' = Some e'" "e = demoted_value a u ex k' e'" by (rule demoted_get)
  note same = destinations_okD [OF assms e'(1)]
  show "pd_address d = pd_address e \<Longrightarrow> k = k'"
    using same(3) [OF d'(1)] unfolding d'(2) e'(2) by simp
  assume "pd_accountId d = pd_accountId e" "pd_primary d" "pd_primary e"
  then show "k = k'"
    using same(4) [OF d'(1)] demoted_value_was_primary [of a u ex k d'] demoted_value_was_primary [of a u ex k' e']
    unfolding d'(2) e'(2) by simp
qed

section \<open>Every operation keeps it\<close>

lemma identities_ok_set:
  assumes ok: "identities_ok m" and new: "eo_accountId i = k" "username_ok i" "0 \<le> eo_version i"
    and fresh: "\<And>k' j. js_get m k' = Some j \<Longrightarrow> eo_normalizedUsername j = eo_normalizedUsername i \<Longrightarrow> k' = k"
  shows "identities_ok (js_set m k i)"
  unfolding identities_ok_def
proof (intro conjI allI impI)
  show "js_keys_distinct (js_set m k i)" using ok by (simp add: identities_ok_def)
next
  fix a x assume "js_get (js_set m k i) a = Some x"
  then show "eo_accountId x = a" "username_ok x" "0 \<le> eo_version x"
    using new identities_okD(1-3) [OF ok] by (auto split: if_splits)
next
  fix a b x y
  assume "js_get (js_set m k i) a = Some x" "js_get (js_set m k i) b = Some y"
    "eo_normalizedUsername x = eo_normalizedUsername y"
  then show "a = b"
    using fresh [of a x] fresh [of b y] identities_okD(4) [OF ok, of b y a x] by (auto split: if_splits)
qed

lemma destinations_ok_set:
  assumes ok: "destinations_ok m" and new: "pd_destinationId d = k" "0 \<le> pd_version d"
    and fresh: "\<And>k' e. js_get m k' = Some e \<Longrightarrow> pd_address e = pd_address d \<Longrightarrow> k' = k"
    and one: "\<And>k' e. js_get m k' = Some e \<Longrightarrow> pd_primary d \<Longrightarrow> pd_primary e \<Longrightarrow> pd_accountId e = pd_accountId d \<Longrightarrow> k' = k"
  shows "destinations_ok (js_set m k d)"
proof (rule destinations_okI)
  show "js_keys_distinct (js_set m k d)" using ok by (simp add: destinations_ok_def)
next
  fix a x assume "js_get (js_set m k d) a = Some x"
  then show "pd_destinationId x = a \<and> 0 \<le> pd_version x"
    using new destinations_okD(1,2) [OF ok] by (auto split: if_splits)
next
  fix a b x y
  assume ab: "js_get (js_set m k d) a = Some x" "js_get (js_set m k d) b = Some y"
  { assume same: "pd_address x = pd_address y"
    show "a = b"
    proof (cases "a = k"; cases "b = k")
      assume "a = k" "b \<noteq> k"
      then show ?thesis using ab same fresh [of b y] by simp
    next
      assume "a \<noteq> k" "b = k"
      then show ?thesis using ab same fresh [of a x] by simp
    next
      assume "a \<noteq> k" "b \<noteq> k"
      then show ?thesis using ab same destinations_okD(3) [OF ok, of b y a x] by simp
    qed simp }
  assume same: "pd_accountId x = pd_accountId y" "pd_primary x" "pd_primary y"
  show "a = b"
  proof (cases "a = k"; cases "b = k")
    assume "a = k" "b \<noteq> k"
    then show ?thesis using ab same one [of b y] by simp
  next
    assume "a \<noteq> k" "b = k"
    then show ?thesis using ab same one [of a x] by simp
  next
    assume "a \<noteq> k" "b \<noteq> k"
    then show ?thesis using ab same destinations_okD(4) [OF ok, of b y a x] by simp
  qed simp
qed

lemma no_username_collision:
  assumes "find (\<lambda>x. eo_normalizedUsername x = n \<and> eo_accountId x \<noteq> a) (js_values m) = None"
    and "identities_ok m" and "js_get m k = Some j" and "eo_normalizedUsername j = n"
  shows "k = a"
proof -
  have "j \<in> set (js_values m)" using js_values_get [OF assms(3)] .
  then have "eo_accountId j = a" using assms(1,4) unfolding find_None_iff by blast
  then show ?thesis using identities_okD(1) [OF assms(2,3)] by simp
qed

lemma no_address_collision:
  assumes "find (\<lambda>d. pd_address d = n \<and> pd_destinationId d \<noteq> a) (js_values m) = None"
    and "destinations_ok m" and "js_get m k = Some e" and "pd_address e = n"
  shows "k = a"
proof -
  have "e \<in> set (js_values m)" using js_values_get [OF assms(3)] .
  then have "pd_destinationId e = a" using assms(1,4) unfolding find_None_iff by blast
  then show ?thesis using destinations_okD(1) [OF assms(2,3)] by simp
qed

lemma validateUsername_Inr:
  assumes "validateUsername env (JString v) = Inr u"
  shows "snd u = normalizeUsername (fst u)" "USERNAME_PATTERN (snd u)" "snd u \<notin> set RESERVED"
    "\<not> starts_with ''zp_account_'' (snd u)" "u = (js_trim v, normalizeUsername v)"
proof -
  let ?n = "normalizeUsername (js_trim v)"
  have "u = (js_trim v, ?n) \<and> USERNAME_PATTERN ?n \<and> ?n \<notin> set RESERVED \<and> \<not> starts_with ''zp_account_'' ?n"
    using assms unfolding validateUsername_def Let_def json.case
    by (cases "USERNAME_PATTERN ?n"; cases "?n \<in> set RESERVED"; cases "starts_with ''zp_account_'' ?n") (auto simp only: if_True if_False simp_thms split: if_splits)
  then show "snd u = normalizeUsername (fst u)" "USERNAME_PATTERN (snd u)" "snd u \<notin> set RESERVED"
    "\<not> starts_with ''zp_account_'' (snd u)" "u = (js_trim v, normalizeUsername v)"
    by (simp_all add: normalizeUsername_def)
qed

lemma valid_input_username:
  assumes "validateEconomicIdentityPersistenceInput env url i = Inr u"
  shows "ue_normalizedUsername i = normalizeUsername (ue_username i)" "USERNAME_PATTERN (ue_normalizedUsername i)"
    "ue_normalizedUsername i \<notin> set RESERVED" "\<not> starts_with ''zp_account_'' (ue_normalizedUsername i)"
proof -
  have "\<exists>v. validateUsername env (JString (ue_username i)) = Inr v \<and> fst v = ue_username i \<and> snd v = ue_normalizedUsername i"
  proof (cases "validateUsername env (JString (ue_username i))")
    case (Inr v)
    then show ?thesis using assms unfolding validateEconomicIdentityPersistenceInput_def Inr and_then_simps
      by (cases "fst v = ue_username i"; cases "snd v = ue_normalizedUsername i") (auto split: if_splits)
  qed (use assms in \<open>auto simp: validateEconomicIdentityPersistenceInput_def split: if_splits\<close>)
  then obtain v where v: "validateUsername env (JString (ue_username i)) = Inr v" "fst v = ue_username i"
    "snd v = ue_normalizedUsername i" by blast
  from validateUsername_Inr(1-4) [OF v(1)] v(2,3)
  show "ue_normalizedUsername i = normalizeUsername (ue_username i)" "USERNAME_PATTERN (ue_normalizedUsername i)"
    "ue_normalizedUsername i \<notin> set RESERVED" "\<not> starts_with ''zp_account_'' (ue_normalizedUsername i)" by simp_all
qed


text \<open>The ways an operation ends.\<close>

lemma upsertEconomicIdentity_cases:
  assumes "upsertEconomicIdentity env url ex i s = (r, t)"
  obtains (failed) e where "r = Inl e" "eb_identities t = eb_identities s" "eb_destinations t = eb_destinations s"
  | (created) x where "r = Inr (x, True)" "js_get (eb_identities s) (ue_accountId i) = None" "ue_expectedVersion i = None"
      "validateEconomicIdentityPersistenceInput env url i = Inr ()"
      "find (\<lambda>x. eo_normalizedUsername x = ue_normalizedUsername i \<and> eo_accountId x \<noteq> ue_accountId i) (js_values (eb_identities s)) = None"
      "eo_accountId x = ue_accountId i" "eo_username x = ue_username i" "eo_normalizedUsername x = ue_normalizedUsername i"
      "eo_version x = 0" "eo_payabilityState x = UNAVAILABLE"
      "eb_identities t = js_set (eb_identities s) (ue_accountId i) x" "eb_destinations t = eb_destinations s"
  | (updated) c x where "r = Inr (x, False)" "js_get (eb_identities s) (ue_accountId i) = Some c"
      "ue_expectedVersion i = Some (eo_version c)"
      "validateEconomicIdentityPersistenceInput env url i = Inr ()"
      "find (\<lambda>x. eo_normalizedUsername x = ue_normalizedUsername i \<and> eo_accountId x \<noteq> ue_accountId i) (js_values (eb_identities s)) = None"
      "eo_accountId x = eo_accountId c" "eo_username x = ue_username i" "eo_normalizedUsername x = ue_normalizedUsername i"
      "eo_version x = eo_version c + 1" "eo_payabilityState x = eo_payabilityState c"
      "eb_identities t = js_set (eb_identities s) (ue_accountId i) x" "eb_destinations t = eb_destinations s"
proof (cases "validateEconomicIdentityPersistenceInput env url i")
  case (Inl e)
  with assms failed show ?thesis by (auto simp: upsertEconomicIdentity_def)
next
  case valid: (Inr u)
  show ?thesis
  proof (cases "require_account ex (ue_accountId i)")
    case (Inl e)
    with valid assms failed show ?thesis by (auto simp: upsertEconomicIdentity_def)
  next
    case acc: (Inr u')
    obtain now s1 where n: "economic_now env (ue_occurredAt i) s = (now, s1)" by fastforce
    have s1: "eb_identities s1 = eb_identities s" "eb_destinations s1 = eb_destinations s"
      using economic_now_maps [of env "ue_occurredAt i" s] n by simp_all
    show ?thesis
    proof (cases "find (\<lambda>x. eo_normalizedUsername x = ue_normalizedUsername i \<and> eo_accountId x \<noteq> ue_accountId i) (js_values (eb_identities s))")
      case (Some y)
      with valid acc assms failed show ?thesis
        by (auto simp: upsertEconomicIdentity_def username_conflict_def Let_def)
    next
      case fresh: None
      show ?thesis
      proof (cases "js_get (eb_identities s) (ue_accountId i)")
        case None
        show ?thesis
        proof (cases "ue_expectedVersion i")
          case none: None
          with None fresh valid acc n assms s1 show ?thesis
            by (auto simp: upsertEconomicIdentity_def Let_def intro: created)
        next
          case (Some v)
          with None fresh valid acc n assms s1 failed show ?thesis
            by (auto simp: upsertEconomicIdentity_def identity_version_conflict_def)
        qed
      next
        case (Some c)
        show ?thesis
        proof (cases "ue_expectedVersion i = Some (eo_version c)")
          case True
          with Some fresh valid acc n assms s1 show ?thesis
            by (auto simp: upsertEconomicIdentity_def Let_def intro: updated)
        next
          case False
          with Some fresh valid acc n assms s1 failed show ?thesis
            by (auto simp: upsertEconomicIdentity_def identity_version_conflict_def)
        qed
      qed
    qed
  qed
qed

lemma updateEconomicIdentityState_cases:
  assumes "updateEconomicIdentityState env i s = (r, t)"
  obtains (failed) e where "r = Inl e" "t = s"
  | (updated) c x where "r = Inr x" "js_get (eb_identities s) (is_accountId i) = Some c" "eo_version c = is_expectedVersion i"
      "eo_accountId x = eo_accountId c" "eo_username x = eo_username c" "eo_normalizedUsername x = eo_normalizedUsername c"
      "eo_version x = eo_version c + 1" "eb_identities t = js_set (eb_identities s) (is_accountId i) x"
      "eb_destinations t = eb_destinations s"
proof (cases "js_get (eb_identities s) (is_accountId i)")
  case None
  with assms failed show ?thesis by (auto simp: updateEconomicIdentityState_def identity_version_conflict_def)
next
  case (Some c)
  obtain now s1 where n: "economic_now env (is_occurredAt i) s = (now, s1)" by fastforce
  have s1: "eb_identities s1 = eb_identities s" "eb_destinations s1 = eb_destinations s"
    using economic_now_maps [of env "is_occurredAt i" s] n by simp_all
  show ?thesis
  proof (cases "eo_version c = is_expectedVersion i")
    case True
    with Some n assms s1 show ?thesis by (auto simp: updateEconomicIdentityState_def Let_def intro: updated)
  next
    case False
    with Some assms failed show ?thesis by (auto simp: updateEconomicIdentityState_def identity_version_conflict_def)
  qed
qed

lemma updatePaymentDestinationState_cases:
  assumes "updatePaymentDestinationState env i s = (r, t)"
  obtains (failed) e where "r = Inl e" "t = s"
  | (updated) c x where "r = Inr x" "js_get (eb_destinations s) (de_destinationId i) = Some c"
      "pd_accountId c = de_accountId i" "pd_version c = de_expectedVersion i"
      "pd_destinationId x = pd_destinationId c" "pd_accountId x = pd_accountId c" "pd_address x = pd_address c"
      "pd_primary x = pd_primary c" "pd_version x = pd_version c + 1"
      "eb_destinations t = js_set (eb_destinations s) (de_destinationId i) x" "eb_identities t = eb_identities s"
proof (cases "js_get (eb_destinations s) (de_destinationId i)")
  case None
  with assms failed show ?thesis by (auto simp: updatePaymentDestinationState_def destination_conflict_def)
next
  case (Some c)
  obtain now s1 where n: "economic_now env (de_occurredAt i) s = (now, s1)" by fastforce
  have s1: "eb_identities s1 = eb_identities s" "eb_destinations s1 = eb_destinations s"
    using economic_now_maps [of env "de_occurredAt i" s] n by simp_all
  show ?thesis
  proof (cases "pd_accountId c = de_accountId i \<and> pd_version c = de_expectedVersion i")
    case True
    with Some n assms s1 show ?thesis by (auto simp: updatePaymentDestinationState_def Let_def intro: updated)
  next
    case False
    with Some assms failed show ?thesis by (auto simp: updatePaymentDestinationState_def destination_conflict_def)
  qed
qed

definition before_write :: "bool \<Rightarrow> string \<Rightarrow> string \<Rightarrow> string option \<Rightarrow> economic_store \<Rightarrow> economic_store" where
  "before_write pri a u except s = (if pri then demotePrimary a u except s else s)"

lemma before_write_ok: "destinations_ok (eb_destinations s) \<Longrightarrow> destinations_ok (eb_destinations (before_write pri a u ex s))"
  by (simp add: before_write_def demotePrimary_ok)

lemma before_write_get:
  assumes "js_get (eb_destinations (before_write pri a u ex s)) k = Some d"
  obtains d' where "js_get (eb_destinations s) k = Some d'" "pd_address d = pd_address d'" "pd_accountId d = pd_accountId d'"
    "pd_version d' \<le> pd_version d" "pri \<Longrightarrow> pd_primary d \<Longrightarrow> pd_accountId d = a \<Longrightarrow> Some k = ex"
proof (cases pri)
  case True
  with assms have "js_get (eb_destinations (demotePrimary a u ex s)) k = Some d" by (simp add: before_write_def)
  then obtain d' where d': "js_get (eb_destinations s) k = Some d'" "d = demoted_value a u ex k d'" by (rule demoted_get)
  then show ?thesis using that [OF d'(1)] demoted_value_primary [of a u ex k d'] by simp
next
  case False
  with assms that show ?thesis by (simp add: before_write_def)
qed

lemma before_write_kept:
  assumes "js_get (eb_destinations s) k = Some d"
  shows "\<exists>d'. js_get (eb_destinations (before_write pri a u ex s)) k = Some d' \<and> pd_version d \<le> pd_version d'"
  using assms by (simp add: before_write_def demotePrimary_get)

lemma upsertSolanaDestination_cases:
  assumes "upsertSolanaDestination env ex i s = (r, t)"
  obtains (failed) e where "r = Inl e" "eb_identities t = eb_identities s" "eb_destinations t = eb_destinations s"
  | (written) u except x v where "r = Inr (x, v)"
      "find (\<lambda>d. pd_address d = ud_address i \<and> pd_destinationId d \<noteq> ud_destinationId i) (js_values (eb_destinations s)) = None"
      "pd_destinationId x = ud_destinationId i" "pd_accountId x = ud_accountId i" "pd_address x = ud_address i"
      "pd_primary x = ud_primary i" "except = None \<or> except = Some (ud_destinationId i)"
      "js_get (eb_destinations s) (ud_destinationId i) = None \<and> ud_expectedVersion i = None \<and> pd_version x = 0 \<or>
       (\<exists>c. js_get (eb_destinations s) (ud_destinationId i) = Some c \<and> ud_expectedVersion i = Some (pd_version c) \<and>
         pd_version x = pd_version c + 1)"
      "eb_destinations t = js_set (eb_destinations (before_write (ud_primary i) (ud_accountId i) u except s)) (ud_destinationId i) x"
      "eb_identities t = eb_identities s"
proof (cases "require_account ex (ud_accountId i)")
  case (Inl e)
  with assms failed show ?thesis by (auto simp: upsertSolanaDestination_def)
next
  case acc: (Inr u)
  show ?thesis
  proof (cases "validateDestinationPersistenceInput env i")
    case (Inl e)
    with acc assms failed show ?thesis by (auto simp: upsertSolanaDestination_def)
  next
    case valid: (Inr u')
    obtain now s1 where n: "economic_now env (ud_occurredAt i) s = (now, s1)" by fastforce
    have s1: "eb_identities s1 = eb_identities s" "eb_destinations s1 = eb_destinations s"
      using economic_now_maps [of env "ud_occurredAt i" s] n by simp_all
    then have bw: "eb_destinations (before_write p a m x s1) = eb_destinations (before_write p a m x s)"
      "eb_identities (before_write p a m x s1) = eb_identities s" for p a m x
      by (simp_all add: before_write_def demotePrimary_def)
    show ?thesis
    proof (cases "find (\<lambda>d. pd_address d = ud_address i \<and> pd_destinationId d \<noteq> ud_destinationId i) (js_values (eb_destinations s))")
      case (Some y)
      with valid acc assms failed show ?thesis
        by (auto simp: upsertSolanaDestination_def destination_conflict_def Let_def)
    next
      case fresh: None
      note op = assms [unfolded upsertSolanaDestination_def acc valid when_ok_simps Let_def fresh n prod.case before_write_def [symmetric]]
      show ?thesis
      proof (cases "js_get (eb_destinations s) (ud_destinationId i)")
        case None
        show ?thesis
        proof (cases "ud_expectedVersion i")
          case none: None
          show ?thesis using op None none fresh bw by (auto intro: written [where except = None and u = now])
        next
          case (Some v)
          with op None s1 failed show ?thesis by (auto simp: destination_conflict_def)
        qed
      next
        case (Some c)
        show ?thesis
        proof (cases "pd_accountId c = ud_accountId i \<and> pd_address c = ud_address i \<and> ud_expectedVersion i = Some (pd_version c)")
          case True
          have "pd_destinationId c = ud_destinationId i"
            using fresh True js_values_get [OF Some] unfolding find_None_iff by blast
          then show ?thesis using op Some True fresh bw
            by (auto intro: written [where except = "Some (ud_destinationId i)" and u = now])
        next
          case False
          with op Some s1 failed show ?thesis by (auto simp: destination_conflict_def split: if_splits)
        qed
      qed
    qed
  qed
qed

lemma upsertEconomicIdentity_ok:
  assumes ok: "economic_ok s" and run: "upsertEconomicIdentity env url ex i s = (r, t)"
  shows "economic_ok t"
  using run
proof (cases rule: upsertEconomicIdentity_cases)
  case failed
  with ok show ?thesis by (simp add: economic_ok_def)
next
  case (created x)
  have ids: "identities_ok (eb_identities s)" using ok by (simp add: economic_ok_def)
  have "identities_ok (js_set (eb_identities s) (ue_accountId i) x)"
  proof (rule identities_ok_set [OF ids created(6)])
    show "username_ok x" using valid_input_username [OF created(4)] created(7,8) by (simp add: username_ok_def)
    show "0 \<le> eo_version x" using created(9) by simp
    show "k' = ue_accountId i" if "js_get (eb_identities s) k' = Some j" "eo_normalizedUsername j = eo_normalizedUsername x" for k' j
      using no_username_collision [OF created(5) ids that(1)] that(2) created(8) by simp
  qed
  with ok created(11,12) show ?thesis by (simp add: economic_ok_def)
next
  case (updated c x)
  have ids: "identities_ok (eb_identities s)" using ok by (simp add: economic_ok_def)
  note old = identities_okD [OF ids updated(2)]
  have "identities_ok (js_set (eb_identities s) (ue_accountId i) x)"
  proof (rule identities_ok_set [OF ids])
    show "eo_accountId x = ue_accountId i" using updated(6) old(1) by simp
    show "username_ok x" using valid_input_username [OF updated(4)] updated(7,8) by (simp add: username_ok_def)
    show "0 \<le> eo_version x" using updated(9) old(3) by simp
    show "k' = ue_accountId i" if "js_get (eb_identities s) k' = Some j" "eo_normalizedUsername j = eo_normalizedUsername x" for k' j
      using no_username_collision [OF updated(5) ids that(1)] that(2) updated(8) by simp
  qed
  with ok updated(11,12) show ?thesis by (simp add: economic_ok_def)
qed

lemma updateEconomicIdentityState_ok:
  assumes ok: "economic_ok s" and run: "updateEconomicIdentityState env i s = (r, t)"
  shows "economic_ok t"
  using run
proof (cases rule: updateEconomicIdentityState_cases)
  case (updated c x)
  have ids: "identities_ok (eb_identities s)" using ok by (simp add: economic_ok_def)
  note old = identities_okD [OF ids updated(2)]
  have "identities_ok (js_set (eb_identities s) (is_accountId i) x)"
  proof (rule identities_ok_set [OF ids])
    show "eo_accountId x = is_accountId i" using updated(4) old(1) by simp
    show "username_ok x" using old(2) unfolding username_ok_def updated(5,6) .
    show "0 \<le> eo_version x" using updated(7) old(3) by simp
    show "k' = is_accountId i" if "js_get (eb_identities s) k' = Some j" "eo_normalizedUsername j = eo_normalizedUsername x" for k' j
      using old(4) [OF that(1)] that(2) updated(6) by simp
  qed
  with ok updated(8,9) show ?thesis by (simp add: economic_ok_def)
qed (use ok in simp)

lemma upsertSolanaDestination_ok:
  assumes ok: "economic_ok s" and run: "upsertSolanaDestination env ex i s = (r, t)"
  shows "economic_ok t"
  using run
proof (cases rule: upsertSolanaDestination_cases)
  case failed
  with ok show ?thesis by (simp add: economic_ok_def)
next
  case (written u except x v)
  have ds: "destinations_ok (eb_destinations s)" using ok by (simp add: economic_ok_def)
  let ?m = "eb_destinations (before_write (ud_primary i) (ud_accountId i) u except s)"
  have "destinations_ok (js_set ?m (ud_destinationId i) x)"
  proof (rule destinations_ok_set [OF before_write_ok [OF ds] written(3)])
    show "0 \<le> pd_version x" using written(8) destinations_okD(2) [OF ds] by force
  next
    fix k' e assume "js_get ?m k' = Some e"
    then obtain e' where e': "js_get (eb_destinations s) k' = Some e'" "pd_address e = pd_address e'"
      "ud_primary i \<Longrightarrow> pd_primary e \<Longrightarrow> pd_accountId e = ud_accountId i \<Longrightarrow> Some k' = except" by (rule before_write_get) blast
    show "pd_address e = pd_address x \<Longrightarrow> k' = ud_destinationId i"
      using no_address_collision [OF written(2) ds e'(1)] e'(2) written(5) by simp
    assume "pd_primary x" "pd_primary e" "pd_accountId e = pd_accountId x"
    then have "Some k' = except" using e'(3) written(4,6) by simp
    then show "k' = ud_destinationId i" using written(7) by auto
  qed
  with ok written(9,10) show ?thesis by (simp add: economic_ok_def)
qed

lemma updatePaymentDestinationState_ok:
  assumes ok: "economic_ok s" and run: "updatePaymentDestinationState env i s = (r, t)"
  shows "economic_ok t"
  using run
proof (cases rule: updatePaymentDestinationState_cases)
  case (updated c x)
  have ds: "destinations_ok (eb_destinations s)" using ok by (simp add: economic_ok_def)
  note old = destinations_okD [OF ds updated(2)]
  have "destinations_ok (js_set (eb_destinations s) (de_destinationId i) x)"
  proof (rule destinations_ok_set [OF ds])
    show "pd_destinationId x = de_destinationId i" using updated(5) old(1) by simp
    show "0 \<le> pd_version x" using updated(9) old(2) by simp
  next
    fix k' e assume e: "js_get (eb_destinations s) k' = Some e"
    show "pd_address e = pd_address x \<Longrightarrow> k' = de_destinationId i" using old(3) [OF e] updated(7) by simp
    show "pd_primary x \<Longrightarrow> pd_primary e \<Longrightarrow> pd_accountId e = pd_accountId x \<Longrightarrow> k' = de_destinationId i"
      using old(4) [OF e] updated(6,8) by simp
  qed
  with ok updated(10,11) show ?thesis by (simp add: economic_ok_def)
qed (use ok in simp)

lemma run_economic_ok: "economic_ok s \<Longrightarrow> economic_ok (snd (run_economic c opn s))"
  using upsertEconomicIdentity_ok [OF _ prod.collapse [symmetric]] updateEconomicIdentityState_ok [OF _ prod.collapse [symmetric]]
    upsertSolanaDestination_ok [OF _ prod.collapse [symmetric]] updatePaymentDestinationState_ok [OF _ prod.collapse [symmetric]]
  by (cases opn) (simp_all add: thrown_def)

section \<open>Versions\<close>

text \<open>An identity is named by its account, a destination by its id.\<close>

fun economic_version :: "economic_store \<Rightarrow> string + string \<Rightarrow> int option" where
  "economic_version s (Inl a) = map_option eo_version (js_get (eb_identities s) a)"
| "economic_version s (Inr d) = map_option pd_version (js_get (eb_destinations s) d)"

fun names_version :: "economic_operation \<Rightarrow> ((string + string) \<times> int) option" where
  "names_version (UpsertIdentity i) = map_option (Pair (Inl (ue_accountId i))) (ue_expectedVersion i)"
| "names_version (UpdateIdentityState i) = Some (Inl (is_accountId i), is_expectedVersion i)"
| "names_version (UpsertDestination i) = map_option (Pair (Inr (ud_destinationId i))) (ud_expectedVersion i)"
| "names_version (UpdateDestinationState i) = Some (Inr (de_destinationId i), de_expectedVersion i)"

definition named :: "economic_operation \<Rightarrow> (string + string) \<times> int" where
  "named opn = coalesce (names_version opn) (Inl '''', 0)"

definition economic_put :: "economic_setting \<Rightarrow> economic_operation \<Rightarrow> economic_store \<Rightarrow> economic_store option" where
  "economic_put c opn s = (if names_version opn = None then None
     else (case run_economic c opn s of (None, t) \<Rightarrow> Some t | (Some e, t) \<Rightarrow> None))"

lemma economic_put_Some:
  "economic_put c opn s = Some t \<longleftrightarrow> (\<exists>nv. names_version opn = Some nv) \<and> run_economic c opn s = (None, t)"
  by (auto simp: economic_put_def split: prod.splits option.splits)

lemma economic_version_kept:
  assumes "economic_version s k = Some v"
  shows "\<exists>v'. economic_version (snd (run_economic c opn s)) k = Some v' \<and> v \<le> v'"
proof (cases opn)
  case (UpsertIdentity i)
  obtain r t where rt: "upsertEconomicIdentity (et_env c) (et_url c) (et_accountExists c) i s = (r, t)" by fastforce
  from rt show ?thesis using assms UpsertIdentity
    by (cases rule: upsertEconomicIdentity_cases; cases k) (auto simp: thrown_def)
next
  case (UpdateIdentityState i)
  obtain r t where rt: "updateEconomicIdentityState (et_env c) i s = (r, t)" by fastforce
  from rt show ?thesis using assms UpdateIdentityState
    by (cases rule: updateEconomicIdentityState_cases; cases k) (auto simp: thrown_def)
next
  case (UpdateDestinationState i)
  obtain r t where rt: "updatePaymentDestinationState (et_env c) i s = (r, t)" by fastforce
  from rt show ?thesis using assms UpdateDestinationState
    by (cases rule: updatePaymentDestinationState_cases; cases k) (auto simp: thrown_def)
next
  case (UpsertDestination i)
  obtain r t where rt: "upsertSolanaDestination (et_env c) (et_accountExists c) i s = (r, t)" by fastforce
  then have t: "snd (run_economic c opn s) = t" using UpsertDestination by (simp add: thrown_def)
  from rt show ?thesis
  proof (cases rule: upsertSolanaDestination_cases)
    case failed
    with assms t show ?thesis by (cases k) auto
  next
    case (written u except x w)
    show ?thesis
    proof (cases k)
      case (Inl a)
      with assms t written(10) show ?thesis by auto
    next
      case (Inr d)
      with assms obtain e where e: "js_get (eb_destinations s) d = Some e" "v = pd_version e" by auto
      obtain e' where e': "js_get (eb_destinations (before_write (ud_primary i) (ud_accountId i) u except s)) d = Some e'"
        "pd_version e \<le> pd_version e'" using before_write_kept [OF e(1)] by blast
      show ?thesis
      proof (cases "d = ud_destinationId i")
        case True
        then have "pd_version x = pd_version e + 1" using written(8) e(1) by auto
        with Inr True t written(9) e(2) show ?thesis by simp
      next
        case False
        with Inr t written(9) e' e(2) show ?thesis by simp
      qed
    qed
  qed
qed

lemma economic_put_version:
  assumes ok: "economic_ok s" and put: "economic_put c opn s = Some t"
  shows "economic_version s (fst (named opn)) = Some (snd (named opn))"
    and "economic_version t (fst (named opn)) = Some (snd (named opn) + 1)"
proof -
  from put obtain nv where nv: "names_version opn = Some nv" and run: "run_economic c opn s = (None, t)"
    by (auto simp: economic_put_Some)
  have "economic_version s (fst (named opn)) = Some (snd (named opn)) \<and>
    economic_version t (fst (named opn)) = Some (snd (named opn) + 1)"
  proof (cases opn)
    case (UpsertIdentity i)
    obtain r where "upsertEconomicIdentity (et_env c) (et_url c) (et_accountExists c) i s = (Inr r, t)"
      using run UpsertIdentity thrown_none by fastforce
    then show ?thesis using nv UpsertIdentity
      by (cases rule: upsertEconomicIdentity_cases) (auto simp: named_def)
  next
    case (UpdateIdentityState i)
    obtain r where "updateEconomicIdentityState (et_env c) i s = (Inr r, t)"
      using run UpdateIdentityState thrown_none by fastforce
    then show ?thesis using UpdateIdentityState
      by (cases rule: updateEconomicIdentityState_cases) (auto simp: named_def)
  next
    case (UpsertDestination i)
    obtain r where "upsertSolanaDestination (et_env c) (et_accountExists c) i s = (Inr r, t)"
      using run UpsertDestination thrown_none by fastforce
    then show ?thesis using nv UpsertDestination
      by (cases rule: upsertSolanaDestination_cases) (auto simp: named_def)
  next
    case (UpdateDestinationState i)
    obtain r where "updatePaymentDestinationState (et_env c) i s = (Inr r, t)"
      using run UpdateDestinationState thrown_none by fastforce
    then show ?thesis using UpdateDestinationState
      by (cases rule: updatePaymentDestinationState_cases) (auto simp: named_def)
  qed
  then show "economic_version s (fst (named opn)) = Some (snd (named opn))"
    "economic_version t (fst (named opn)) = Some (snd (named opn) + 1)" by simp_all
qed

interpretation em: versioned_store economic_ok "economic_step c" economic_version "economic_put c" "\<lambda>opn. fst (named opn)"
    "\<lambda>opn. snd (named opn)" for c
proof
  fix s t k v opn
  show "economic_ok s \<Longrightarrow> economic_step c s t \<Longrightarrow> economic_ok t"
    using run_economic_ok by (auto simp: economic_step_def)
  show "economic_ok s \<Longrightarrow> economic_step c s t \<Longrightarrow> economic_version s k = Some v \<Longrightarrow>
      \<exists>v'. economic_version t k = Some v' \<and> v \<le> v'"
    using economic_version_kept by (auto simp: economic_step_def)
  show "economic_ok s \<Longrightarrow> economic_put c opn s = Some t \<Longrightarrow> economic_version s (fst (named opn)) = Some (snd (named opn))"
    by (rule economic_put_version)
  show "economic_ok s \<Longrightarrow> economic_put c opn s = Some t \<Longrightarrow> economic_version t (fst (named opn)) = Some (snd (named opn) + 1)"
    by (rule economic_put_version)
  show "economic_ok s \<Longrightarrow> economic_put c opn s = Some t \<Longrightarrow> economic_ok t"
    using run_economic_ok [of s c opn] by (auto simp: economic_put_Some)
qed

lemma run_all_economic_steps: "(economic_step c)\<^sup>*\<^sup>* s (run_all_economic c ops s)"
proof (induction ops rule: rev_induct)
  case (snoc opn ops)
  then show ?case by (auto simp: run_all_economic_def economic_step_def intro: rtranclp.rtrancl_into_rtrancl)
qed (simp add: run_all_economic_def)

lemma run_all_economic_ok: "economic_ok s \<Longrightarrow> economic_ok (run_all_economic c ops s)"
  using em.run_ok [OF run_all_economic_steps] .

end
