(* ===== verification/RecipientProperties.thy ===== *)
theory RecipientProperties
  imports EconomicIdentityProperties
begin

text \<open>
  The properties of economic identities and of the recipient directory: names, addresses and primary destinations
  are unique, stale writes conflict, and what the directory publishes or resolves may be paid.
\<close>

section \<open>Uniqueness\<close>

lemma distinct_values:
  assumes "js_keys_distinct m"
    and "\<And>k k' x y. js_get m k = Some x \<Longrightarrow> js_get m k' = Some y \<Longrightarrow> f x = f y \<Longrightarrow> k = k'"
  shows "distinct (map f (js_values m))"
proof -
  have d: "distinct (map fst m)" using assms(1) by (simp add: js_keys_distinct_def)
  have "inj_on (f \<circ> snd) (set m)"
  proof (rule inj_onI)
    fix p q assume p: "p \<in> set m" and q: "q \<in> set m" and eq: "(f \<circ> snd) p = (f \<circ> snd) q"
    have "map_of m (fst p) = Some (snd p)" "map_of m (fst q) = Some (snd q)"
      using p q d by (simp_all add: map_of_is_SomeI)
    with assms(2) eq have "fst p = fst q" by (simp add: js_get_def)
    with p q d show "p = q" by (metis eq_key_imp_eq_value prod.collapse)
  qed
  then show ?thesis using d by (simp add: js_values_def distinct_map)
qed

lemma single_value:
  assumes "js_keys_distinct m"
    and "\<And>k k' x y. js_get m k = Some x \<Longrightarrow> js_get m k' = Some y \<Longrightarrow> P x \<Longrightarrow> P y \<Longrightarrow> k = k'"
  shows "length (filter P (js_values m)) \<le> 1"
proof -
  let ?ks = "map fst (filter (P \<circ> snd) m)"
  have d: "distinct (map fst m)" using assms(1) by (simp add: js_keys_distinct_def)
  then have dk: "distinct ?ks" by (rule distinct_map_filter)
  have "k = k'" if "k \<in> set ?ks" "k' \<in> set ?ks" for k k'
  proof -
    from that obtain x y where "(k, x) \<in> set m" "P x" "(k', y) \<in> set m" "P y" by auto
    then show ?thesis using assms(2) [of k x k' y] d by (simp add: js_get_def map_of_is_SomeI)
  qed
  then have "card (set ?ks) \<le> 1" by (intro card_le_Suc0_iff_eq [THEN iffD2, THEN le_trans]) auto
  with dk have "length ?ks \<le> 1" using distinct_card by metis
  moreover have "length (filter P (js_values m)) = length ?ks" by (simp add: js_values_def filter_map comp_def)
  ultimately show ?thesis by simp
qed

lemma single_list: "length xs \<le> 1 \<Longrightarrow> x \<in> set xs \<Longrightarrow> xs = [x]"
  by (cases xs) auto

text \<open>C37: However economic operations follow each other, no two accounts have the same normalized user name, no two
  destinations the same address, and an account has at most one primary destination.\<close>

theorem public_names_are_unique:
  "distinct (map eo_normalizedUsername (js_values (eb_identities (run_all_economic c ops empty_economic_store)))) \<and>
   distinct (map pd_address (js_values (eb_destinations (run_all_economic c ops empty_economic_store)))) \<and>
   length (filter (\<lambda>d. pd_accountId d = a \<and> pd_primary d)
     (js_values (eb_destinations (run_all_economic c ops empty_economic_store)))) \<le> 1"
proof -
  let ?s = "run_all_economic c ops empty_economic_store"
  have "economic_ok ?s" by (rule run_all_economic_ok) simp
  then have i: "identities_ok (eb_identities ?s)" and d: "destinations_ok (eb_destinations ?s)"
    by (simp_all add: economic_ok_def)
  have "distinct (map eo_normalizedUsername (js_values (eb_identities ?s)))"
    by (rule distinct_values) (use i identities_okD(4) [OF i] in \<open>simp_all add: identities_ok_def\<close>)
  moreover have "distinct (map pd_address (js_values (eb_destinations ?s)))"
    by (rule distinct_values) (use d destinations_okD(3) [OF d] in \<open>simp_all add: destinations_ok_def\<close>)
  moreover have "length (filter (\<lambda>d. pd_accountId d = a \<and> pd_primary d) (js_values (eb_destinations ?s))) \<le> 1"
    by (rule single_value) (use d destinations_okD(4) [OF d] in \<open>simp_all add: destinations_ok_def\<close>)
  ultimately show ?thesis by blast
qed

section \<open>Names and the directory\<close>

text \<open>A public key has 32 bytes, and a base58 text of fewer than 32 characters has fewer bytes.\<close>

definition public_keys_long :: "runtime_env \<Rightarrow> bool" where
  "public_keys_long env \<longleftrightarrow> (\<forall>s t. public_key_base58 env s = Some t \<longrightarrow> 32 \<le> length s)"

lemma pattern_length: "USERNAME_PATTERN s \<Longrightarrow> 3 \<le> length s \<and> length s \<le> 30"
  by (simp add: USERNAME_PATTERN_def)

lemma pattern_no_uuid: "USERNAME_PATTERN s \<Longrightarrow> \<not> is_uuid s"
  using pattern_length is_uuid_length by fastforce

lemma pattern_no_subject: "USERNAME_PATTERN s \<Longrightarrow> \<not> starts_with ''zp:account:'' s"
proof
  assume p: "USERNAME_PATTERN s" and "starts_with ''zp:account:'' s"
  then have "take (length ''zp:account:'') s = ''zp:account:''" unfolding starts_with_def by blast
  then have "CHR '':'' \<in> set (take (length ''zp:account:'') s)" by simp
  then have c: "CHR '':'' \<in> set s" by (rule in_set_takeD)
  have "CHR '':'' \<in> set ''abcdefghijklmnopqrstuvwxyz0123456789_''"
    using p c unfolding USERNAME_PATTERN_def list_all_iff by blast
  then show False by simp
qed

lemma normalizeUsername_trim [simp]: "normalizeUsername (js_trim s) = normalizeUsername s"
  by (simp add: normalizeUsername_def)

lemma refused_name_unused:
  assumes refused: "validateUsername env (JString raw) = Inl e" and long: "public_keys_long env" and ok: "username_ok i"
  shows "eo_normalizedUsername i \<noteq> normalizeUsername raw"
proof
  assume eq: "eo_normalizedUsername i = normalizeUsername raw"
  then have n: "USERNAME_PATTERN (normalizeUsername raw)" "normalizeUsername raw \<notin> set RESERVED"
    "\<not> starts_with ''zp_account_'' (normalizeUsername raw)"
    using ok unfolding username_ok_def eq by blast+
  have "length (normalizeUsername raw) = length (js_trim raw)" by (simp add: normalizeUsername_def js_lower_def)
  then have len: "3 \<le> length (js_trim raw)" "length (js_trim raw) \<le> 30" using pattern_length [OF n(1)] by simp_all
  then have "public_key_base58 env (js_trim raw) \<noteq> Some (js_trim raw)" using long by (fastforce simp: public_keys_long_def)
  with n len pattern_no_uuid [OF n(1)] pattern_no_subject [OF n(1)] refused show False
    by (simp add: validateUsername_def Let_def)
qed

text \<open>A search for a name answers with the account of exactly that name, active, public and payable and not the
  one who asks, or with a synthetic recipient, and then no account has the name.\<close>

theorem search_publishes_only_payable:
  assumes "economic_ok (dw_economic w)" and "public_keys_long env"
    and "searchExactUsername env nfkc requester raw w = (Inr rs, w')" and "r \<in> set rs"
  shows "(\<exists>i a. findEconomicIdentity (dw_economic w) (eo_accountId i) = Some i \<and> r = toPublicRecipient i \<and>
       eo_normalizedUsername i = normalizeUsername raw \<and> eo_accountId i \<noteq> requester \<and>
       eo_publicIdentityStatus i = PUBLIC_ACTIVE \<and> eo_discoverability i \<noteq> PRIVATE \<and> eo_payabilityState i = AVAILABLE \<and>
       findAccount (dw_accounts w) (eo_accountId i) = Some a \<and> ac_status a = ACTIVE \<and> w' = w) \<or>
     (pu_identitySource r = Some ''SYNTHETIC_BETA'' \<and> dw_synthetic w \<noteq> None \<and>
       findEconomicIdentityByUsername (dw_economic w) (normalizeUsername raw) = None)"
proof -
  have ids: "identities_ok (eb_identities (dw_economic w))" using assms(1) by (simp add: economic_ok_def)
  have found: "(\<exists>i a. findEconomicIdentity (dw_economic w) (eo_accountId i) = Some i \<and> r = toPublicRecipient i \<and>
       eo_normalizedUsername i = normalizeUsername raw \<and> eo_accountId i \<noteq> requester \<and>
       eo_publicIdentityStatus i = PUBLIC_ACTIVE \<and> eo_discoverability i \<noteq> PRIVATE \<and> eo_payabilityState i = AVAILABLE \<and>
       findAccount (dw_accounts w) (eo_accountId i) = Some a \<and> ac_status a = ACTIVE \<and> w' = w)"
    if f: "findEconomicIdentityByUsername (dw_economic w) (normalizeUsername raw) = Some i"
      and rs: "rs = published requester w i" and w': "w' = w" for i
  proof -
    have r: "r = toPublicRecipient i" "eo_accountId i \<noteq> requester" "isPubliclyResolvable w i"
      using assms(4) unfolding rs by (auto simp: published_def split: if_splits)
    have "i \<in> set (js_values (eb_identities (dw_economic w)))" "eo_normalizedUsername i = normalizeUsername raw"
      using f by (auto simp: findEconomicIdentityByUsername_def find_Some_iff)
    moreover from this obtain k where k: "js_get (eb_identities (dw_economic w)) k = Some i"
      using js_values_in [of "eb_identities (dw_economic w)"] ids unfolding identities_ok_def by blast
    then have "findEconomicIdentity (dw_economic w) (eo_accountId i) = Some i"
      using identities_okD(1) [OF ids k] by (simp add: findEconomicIdentity_def)
    moreover obtain a where "findAccount (dw_accounts w) (eo_accountId i) = Some a" "ac_status a = ACTIVE"
      using r(3) by (auto simp: isPubliclyResolvable_def split: if_splits option.splits)
    ultimately show ?thesis using r w' by (auto simp: isPubliclyResolvable_def split: if_splits)
  qed
  show ?thesis
  proof (cases "validateUsername env (JString raw)")
    case (Inr u)
    then have u: "snd u = normalizeUsername raw" using validateUsername_Inr(5) by fastforce
    show ?thesis
    proof (cases "findEconomicIdentityByUsername (dw_economic w) (normalizeUsername raw)")
      case (Some i)
      with assms(3) Inr u have "rs = published requester w i" "w' = w"
        by (auto simp: searchExactUsername_def split: option.splits)
      with found Some show ?thesis by blast
    next
      case None
      with assms(3,4) Inr u show ?thesis
        by (auto simp: searchExactUsername_def directory_error_def and_then_Inr syntheticPublic_def
            split: option.splits sum.splits prod.splits)
    qed
  next
    case (Inl e)
    have "findEconomicIdentityByUsername (dw_economic w) (normalizeUsername raw) = None"
    proof -
      have "eo_normalizedUsername x \<noteq> normalizeUsername raw" if x: "x \<in> set (js_values (eb_identities (dw_economic w)))" for x
      proof -
        obtain k where "js_get (eb_identities (dw_economic w)) k = Some x"
          using js_values_in [OF _ x] ids unfolding identities_ok_def by blast
        then show ?thesis using refused_name_unused [OF Inl assms(2)] identities_okD(2) [OF ids] by blast
      qed
      then show ?thesis by (auto simp: findEconomicIdentityByUsername_def find_None_iff)
    qed
    with assms(3,4) Inl show ?thesis
      by (auto simp: searchExactUsername_def directory_error_def and_then_Inr syntheticPublic_def
          split: option.splits sum.splits prod.splits)
  qed
qed

text \<open>A directory with one account, its identity and its wallet.\<close>

definition sample_account_id :: string where
  "sample_account_id = ''00000000-0000-4000-8000-00000000000a''"

definition sample_directory_env :: runtime_env where
  "sample_directory_env = sample_env\<lparr>public_key_base58 := (\<lambda>s. if length s < 32 then None else Some s)\<rparr>"

definition sample_identity :: economic_identity where
  "sample_identity = \<lparr>eo_accountId = sample_account_id, eo_accountType = PERSONAL, eo_username = ''Nova'',
     eo_normalizedUsername = ''nova'', eo_displayName = ''Nova'', eo_avatarUrl = None, eo_publicIdentityStatus = PUBLIC_ACTIVE,
     eo_discoverability = PUBLIC, eo_verificationState = VERIFIED, eo_payabilityState = AVAILABLE, eo_version = 1,
     eo_createdAt = ''t'', eo_updatedAt = ''t''\<rparr>"

definition sample_destination :: payment_destination where
  "sample_destination = \<lparr>pd_destinationId = ''00000000-0000-4000-8000-00000000000b'', pd_accountId = sample_account_id,
     pd_address = replicate 40 CHR ''A'', pd_status = DESTINATION_ACTIVE, pd_ownershipState = OWNERSHIP_VERIFIED,
     pd_primary = True, pd_version = 0, pd_createdAt = ''t'', pd_updatedAt = ''t''\<rparr>"

definition sample_economic :: economic_store where
  "sample_economic = \<lparr>eb_identities = [(sample_account_id, sample_identity)],
     eb_destinations = [(pd_destinationId sample_destination, sample_destination)], eb_clockReads = 0\<rparr>"

definition sample_directory :: directory_world where
  "sample_directory = \<lparr>dw_accounts = empty_identity_store\<lparr>is_accounts := [(sample_account_id,
       \<lparr>ac_accountId = sample_account_id, ac_actorSubject = ''zp:account:a'', ac_status = ACTIVE, ac_version = 0,
        ac_createdAt = ''t'', ac_updatedAt = ''t''\<rparr>)]\<rparr>,
     dw_economic = sample_economic, dw_synthetic = None\<rparr>"

lemma sample_keys_long: "public_keys_long sample_directory_env"
  by (auto simp: public_keys_long_def sample_directory_env_def split: if_splits)

lemma sample_economic_ok: "economic_ok sample_economic"
proof -
  have "username_ok sample_identity" by code_simp
  then have "identities_ok [(sample_account_id, sample_identity)]"
    by (auto simp: identities_ok_def js_get_def js_keys_distinct_def sample_identity_def split: if_splits)
  moreover have "destinations_ok [(pd_destinationId sample_destination, sample_destination)]"
    by (auto simp: destinations_ok_def js_get_def js_keys_distinct_def sample_destination_def split: if_splits)
  ultimately show ?thesis by (simp add: economic_ok_def sample_economic_def)
qed

lemma sample_search:
  "searchExactUsername sample_directory_env id ''someone'' '' nova'' sample_directory = (Inr [toPublicRecipient sample_identity], sample_directory)"
  by code_simp

lemma search_publishes_only_payable_witness:
  "\<exists>i. findEconomicIdentity sample_economic (eo_accountId i) = Some i \<and> toPublicRecipient sample_identity = toPublicRecipient i \<and>
     eo_payabilityState i = AVAILABLE \<and> eo_accountId i \<noteq> ''someone''"
  using search_publishes_only_payable [OF _ sample_keys_long sample_search, of "toPublicRecipient sample_identity"] sample_economic_ok
  by (auto simp: sample_directory_def toPublicRecipient_def)

text \<open>C21: A payment to an account resolves to the one primary destination of that account, active and not rejected,
  never to the payer; the account is then active and payable, or it is a synthetic recipient.\<close>

theorem payment_goes_to_the_primary:
  assumes "economic_ok (dw_economic w)" and "resolvePaymentDestination env requester accountId w = Inr (r, d)"
  shows "findPaymentDestination (dw_economic w) (pd_destinationId d) = Some d \<and> pd_accountId d = pu_accountId r \<and>
     pd_primary d \<and> pd_status d = DESTINATION_ACTIVE \<and> pd_ownershipState d \<noteq> OWNERSHIP_REJECTED \<and>
     filter (\<lambda>e. pd_accountId e = pu_accountId r \<and> pd_primary e) (js_values (eb_destinations (dw_economic w))) = [d] \<and>
     js_lower accountId \<noteq> js_lower requester \<and>
     (pu_identitySource r = None \<longleftrightarrow> (\<exists>i a. findEconomicIdentity (dw_economic w) (js_lower accountId) = Some i \<and>
        r = toPublicRecipient i \<and> eo_payabilityState i = AVAILABLE \<and> eo_discoverability i \<noteq> PRIVATE \<and>
        findAccount (dw_accounts w) (pu_accountId r) = Some a \<and> ac_status a = ACTIVE))"
proof -
  let ?m = "eb_destinations (dw_economic w)"
  have ds: "destinations_ok ?m" using assms(1) by (simp add: economic_ok_def)
  from assms(2) have res: "resolvePublicRecipient requester accountId w = Inr r"
    and f: "find payable_destination (listPaymentDestinations env (dw_economic w) (pu_accountId r)) = Some d"
    by (auto simp: resolvePaymentDestination_def and_then_Inr recipient_not_found_def directory_error_def split: option.splits)
  have "d \<in> set (listPaymentDestinations env (dw_economic w) (pu_accountId r))" "payable_destination d"
    using f by (auto simp: find_Some_iff)
  then have d: "d \<in> set (js_values ?m)" "pd_accountId d = pu_accountId r" "payable_destination d"
    by (simp_all add: listPaymentDestinations_def)
  obtain k where k: "js_get ?m k = Some d" using js_values_in [OF _ d(1)] ds unfolding destinations_ok_def by blast
  have "length (filter (\<lambda>e. pd_accountId e = pu_accountId r \<and> pd_primary e) (js_values ?m)) \<le> 1"
    by (rule single_value) (use ds destinations_okD(4) [OF ds] in \<open>simp_all add: destinations_ok_def\<close>)
  moreover have "d \<in> set (filter (\<lambda>e. pd_accountId e = pu_accountId r \<and> pd_primary e) (js_values ?m))"
    using d by (simp add: payable_destination_def)
  ultimately have one: "filter (\<lambda>e. pd_accountId e = pu_accountId r \<and> pd_primary e) (js_values ?m) = [d]"
    by (rule single_list)
  have "findPaymentDestination (dw_economic w) (pd_destinationId d) = Some d"
    using k destinations_okD(1) [OF ds k] by (simp add: findPaymentDestination_def)
  moreover have "js_lower accountId \<noteq> js_lower requester"
    using res by (auto simp: resolvePublicRecipient_def recipient_not_found_def directory_error_def split: if_splits)
  moreover have "pu_identitySource r = None \<longleftrightarrow> (\<exists>i a. findEconomicIdentity (dw_economic w) (js_lower accountId) = Some i \<and>
        r = toPublicRecipient i \<and> eo_payabilityState i = AVAILABLE \<and> eo_discoverability i \<noteq> PRIVATE \<and>
        findAccount (dw_accounts w) (pu_accountId r) = Some a \<and> ac_status a = ACTIVE)"
    using res by (auto simp: resolvePublicRecipient_def recipient_not_found_def directory_error_def isPubliclyResolvable_def
        toPublicRecipient_def syntheticPublic_def split: if_splits option.splits)
  ultimately show ?thesis using d one by (simp add: payable_destination_def)
qed

lemma sample_resolve:
  "resolvePaymentDestination sample_directory_env ''someone'' sample_account_id sample_directory =
   Inr (toPublicRecipient sample_identity, sample_destination)"
  by code_simp

lemma payment_goes_to_the_primary_witness:
  "findPaymentDestination sample_economic (pd_destinationId sample_destination) = Some sample_destination \<and>
   filter (\<lambda>e. pd_accountId e = sample_account_id \<and> pd_primary e) (js_values (eb_destinations sample_economic)) = [sample_destination]"
  using payment_goes_to_the_primary [OF _ sample_resolve] sample_economic_ok
  by (simp add: sample_directory_def toPublicRecipient_def sample_identity_def)

section \<open>Stale writes\<close>

text \<open>Of the writes that name one version of an identity or a destination, one succeeds: once it has, the others
  are refused, whatever operations run between them.\<close>

theorem stale_economic_write_refused:
  assumes "economic_ok s" and "names_version first_write = Some (entry, v)" and "run_economic c first_write s = (None, t)"
    and "names_version second_write = Some (entry, v)"
  shows "fst (run_economic c second_write (run_all_economic c ops t)) \<noteq> None"
proof -
  have p: "economic_put c first_write s = Some t" using assms(2,3) by (simp add: economic_put_Some)
  have "economic_put c second_write (run_all_economic c ops t) = None"
    by (rule em.single_winner [OF assms(1) p run_all_economic_steps]) (simp_all add: named_def assms(2,4))
  then show ?thesis using assms(4) by (auto simp: economic_put_def split: prod.splits option.splits)
qed

definition sample_setting :: economic_setting where
  "sample_setting = \<lparr>et_env = sample_directory_env, et_url = (\<lambda>s. None), et_accountExists = None\<rparr>"

definition sample_restriction :: economic_operation where
  "sample_restriction = UpdateIdentityState \<lparr>is_accountId = sample_account_id, is_expectedVersion = 1,
     is_publicIdentityStatus = HIDDEN, is_verificationState = VERIFIED, is_payabilityState = PAYABILITY_RESTRICTED,
     is_occurredAt = None\<rparr>"

lemma stale_economic_write_refused_witness:
  "fst (run_economic sample_setting sample_restriction
     (run_all_economic sample_setting [] (snd (run_economic sample_setting sample_restriction sample_economic)))) \<noteq> None"
proof (rule stale_economic_write_refused [OF sample_economic_ok])
  show "names_version sample_restriction = Some (Inl sample_account_id, 1)" by code_simp
  show "names_version sample_restriction = Some (Inl sample_account_id, 1)" by code_simp
  have "fst (run_economic sample_setting sample_restriction sample_economic) = None" by code_simp
  then show "run_economic sample_setting sample_restriction sample_economic =
      (None, snd (run_economic sample_setting sample_restriction sample_economic))" by (simp add: prod_eq_iff)
qed

section \<open>Synthetic recipients\<close>

definition synthetic_rows_ok :: "synthetic_identity list \<Rightarrow> bool" where
  "synthetic_rows_ok rows = (distinct (map sy_syntheticId rows) \<and> distinct (map sy_normalizedName rows))"

lemma synthetic_claim_ok: "synthetic_rows_ok rows \<Longrightarrow> synthetic_rows_ok (snd (synthetic_claim v rows))"
  by (auto simp: synthetic_rows_ok_def synthetic_claim_def synthetic_findByName_def synthetic_findById_def Let_def
      find_None_iff image_iff split: option.splits)

lemma find_append: "find P (xs @ ys) = (case find P xs of None \<Rightarrow> find P ys | Some x \<Rightarrow> Some x)"
  by (induction xs) auto

lemma synthetic_claim_keeps:
  "synthetic_findByName rows n = Some r \<Longrightarrow> synthetic_findByName (snd (synthetic_claim v rows)) n = Some r"
  by (auto simp: synthetic_claim_def synthetic_findByName_def Let_def find_append split: option.splits)

lemma synthetic_claim_found:
  assumes "synthetic_claim v rows = (Inr r, rows')"
  shows "synthetic_findByName rows' (sy_normalizedName v) = Some r \<and> sy_normalizedName r = sy_normalizedName v"
proof (cases "find (\<lambda>r. sy_normalizedName r = sy_normalizedName v) rows")
  case None
  with assms show ?thesis
    by (auto simp: synthetic_claim_def synthetic_findByName_def Let_def find_append split: if_splits)
next
  case (Some x)
  then have "sy_normalizedName x = sy_normalizedName v" by (auto simp: find_Some_iff)
  with Some assms show ?thesis by (auto simp: synthetic_claim_def synthetic_findByName_def split: if_splits)
qed

end
