(* ===== verification/PaymentRequests.thy ===== *)
theory PaymentRequests
  imports Recipients Executions
begin

text \<open>
  \<open>src/paymentRequests/\<close> and \<open>src/storage/memory/inMemoryPaymentRequestRepository.ts\<close>: requests for a payment.
  The requester creates and may cancel one, the payer accepts or declines it; accepting creates the payment
  intent, and an accepted request becomes paid when the receipt of that intent is seen.

  A request of the service reads the repository in one call and writes it in a later one; \<open>others\<close> is what
  the operations of other requests do to the repository between the two.
\<close>

section \<open>Types\<close>

datatype payment_request_status = PENDING | ACCEPTED | DECLINED | REQUEST_CANCELLED | EXPIRED | PAID

fun payment_request_status_text :: "payment_request_status \<Rightarrow> string" where
  "payment_request_status_text PENDING = ''PENDING''"
| "payment_request_status_text ACCEPTED = ''ACCEPTED''"
| "payment_request_status_text DECLINED = ''DECLINED''"
| "payment_request_status_text REQUEST_CANCELLED = ''CANCELLED''"
| "payment_request_status_text EXPIRED = ''EXPIRED''"
| "payment_request_status_text PAID = ''PAID''"

record party_snapshot =
  py_accountId :: string
  py_username :: string
  py_displayName :: string
  py_accountType :: economic_account_type
  py_verificationState :: identity_verification
  py_capturedAt :: string

record payment_request =
  rq_requestId :: string
  rq_requesterAccountId :: string
  rq_requesterActorSubject :: string
  rq_payerAccountId :: string
  rq_requesterSnapshot :: party_snapshot
  rq_payerSnapshot :: party_snapshot
  rq_amountRaw :: int
  rq_purpose :: "string option"
  rq_status :: payment_request_status
  rq_version :: int
  rq_requestHash :: string
  rq_idempotencyKey :: string
  rq_createdAt :: string
  rq_updatedAt :: string
  rq_acceptedAt :: "string option"
  rq_declinedAt :: "string option"
  rq_cancelledAt :: "string option"
  rq_expiredAt :: "string option"
  rq_paidAt :: "string option"
  rq_linkedPaymentIntentId :: "string option"
  rq_linkedExecutionId :: "string option"
  rq_linkedReceiptId :: "string option"

record create_payment_request =
  cq_requestId :: string
  cq_requesterAccountId :: string
  cq_requesterActorSubject :: string
  cq_payerAccountId :: string
  cq_requesterSnapshot :: party_snapshot
  cq_payerSnapshot :: party_snapshot
  cq_amountRaw :: int
  cq_purpose :: "string option"
  cq_requestHash :: string
  cq_idempotencyKey :: string
  cq_occurredAt :: string

datatype payment_request_claim =
    REQUEST_CLAIMED payment_request
  | REQUEST_EXISTING payment_request
  | REQUEST_HASH_CONFLICT payment_request

datatype request_decision = TO_ACCEPTED | TO_DECLINED | TO_CANCELLED

record request_transition =
  qt_requestId :: string
  qt_expectedVersion :: int
  qt_actorAccountId :: string
  qt_toStatus :: request_decision
  qt_occurredAt :: string
  qt_linkedPaymentIntentId :: "string option"

record request_payment =
  qp_paymentIntentId :: string
  qp_executionId :: string
  qp_receiptId :: string
  qp_paidAt :: string

section \<open>The in-memory repository\<close>

record request_store =
  qs_requests :: "(string, payment_request) js_map"
  qs_keys :: "(string, string) js_map"

definition empty_request_store :: request_store where
  "empty_request_store = \<lparr>qs_requests = [], qs_keys = []\<rparr>"

definition request_key :: "string \<Rightarrow> string \<Rightarrow> string" where
  "request_key subject key = subject @ nul @ key"

definition findByIdempotencyKey :: "request_store \<Rightarrow> string \<Rightarrow> string \<Rightarrow> payment_request option" where
  "findByIdempotencyKey s subject key = (case js_get (qs_keys s) (request_key subject key) of
     None \<Rightarrow> None | Some i \<Rightarrow> if i = '''' then None else js_get (qs_requests s) i)"

definition new_request :: "create_payment_request \<Rightarrow> payment_request" where
  "new_request i = \<lparr>rq_requestId = cq_requestId i, rq_requesterAccountId = cq_requesterAccountId i,
     rq_requesterActorSubject = cq_requesterActorSubject i, rq_payerAccountId = cq_payerAccountId i,
     rq_requesterSnapshot = cq_requesterSnapshot i, rq_payerSnapshot = cq_payerSnapshot i, rq_amountRaw = cq_amountRaw i,
     rq_purpose = cq_purpose i, rq_status = PENDING, rq_version = 0, rq_requestHash = cq_requestHash i,
     rq_idempotencyKey = cq_idempotencyKey i, rq_createdAt = cq_occurredAt i, rq_updatedAt = cq_occurredAt i,
     rq_acceptedAt = None, rq_declinedAt = None, rq_cancelledAt = None, rq_expiredAt = None, rq_paidAt = None,
     rq_linkedPaymentIntentId = None, rq_linkedExecutionId = None, rq_linkedReceiptId = None\<rparr>"

definition claim_request :: "create_payment_request \<Rightarrow> request_store \<Rightarrow> payment_request_claim \<times> request_store" where
  "claim_request i s = (case findByIdempotencyKey s (cq_requesterActorSubject i) (cq_idempotencyKey i) of
     Some prior \<Rightarrow> (if rq_requestHash prior = cq_requestHash i then REQUEST_EXISTING prior else REQUEST_HASH_CONFLICT prior, s)
   | None \<Rightarrow> (REQUEST_CLAIMED (new_request i),
       \<lparr>qs_requests = js_set (qs_requests s) (cq_requestId i) (new_request i),
        qs_keys = js_set (qs_keys s) (request_key (cq_requesterActorSubject i) (cq_idempotencyKey i)) (cq_requestId i)\<rparr>))"

definition find_request :: "request_store \<Rightarrow> string \<Rightarrow> payment_request option" where
  "find_request s i = js_get (qs_requests s) i"

definition latest_request :: "runtime_env \<Rightarrow> payment_request \<Rightarrow> payment_request \<Rightarrow> int" where
  "latest_request env a b = or_compare (locale_compare env (rq_createdAt b) (rq_createdAt a))
     (locale_compare env (rq_requestId b) (rq_requestId a))"

definition visible_to :: "string \<Rightarrow> payment_request \<Rightarrow> bool" where
  "visible_to accountId r = (rq_requesterAccountId r = accountId \<or> rq_payerAccountId r = accountId)"

definition listVisible :: "runtime_env \<Rightarrow> request_store \<Rightarrow> string \<Rightarrow> nat \<Rightarrow> payment_request list" where
  "listVisible env s accountId limit =
     take limit (js_sort (latest_request env) (filter (visible_to accountId) (js_values (qs_requests s))))"

definition decided :: "request_transition \<Rightarrow> payment_request \<Rightarrow> payment_request" where
  "decided i r = (let u = r\<lparr>rq_version := rq_version r + 1, rq_updatedAt := qt_occurredAt i\<rparr> in
     case qt_toStatus i of
       TO_ACCEPTED \<Rightarrow> u\<lparr>rq_status := ACCEPTED, rq_acceptedAt := Some (qt_occurredAt i),
         rq_linkedPaymentIntentId := qt_linkedPaymentIntentId i\<rparr>
     | TO_DECLINED \<Rightarrow> u\<lparr>rq_status := DECLINED, rq_declinedAt := Some (qt_occurredAt i)\<rparr>
     | TO_CANCELLED \<Rightarrow> u\<lparr>rq_status := REQUEST_CANCELLED, rq_cancelledAt := Some (qt_occurredAt i)\<rparr>)"

definition transition_request :: "request_transition \<Rightarrow> request_store \<Rightarrow> (request_store, payment_request) outcome" where
  "transition_request i s = (case js_get (qs_requests s) (qt_requestId i) of
     None \<Rightarrow> (throw ''NOT_FOUND'', s)
   | Some current \<Rightarrow>
       if rq_version current \<noteq> qt_expectedVersion i then (Inl (Err PaymentRequestVersionConflictError ''''), s)
       else if rq_status current \<noteq> PENDING then (throw ''ILLEGAL_TRANSITION'', s)
       else if (if qt_toStatus i = TO_CANCELLED then rq_requesterAccountId current \<noteq> qt_actorAccountId i
                else rq_payerAccountId current \<noteq> qt_actorAccountId i) then (throw ''NOT_FOUND'', s)
       else if qt_toStatus i = TO_ACCEPTED \<and> \<not> truthy (qt_linkedPaymentIntentId i) then (throw ''LINK_REQUIRED'', s)
       else let updated = decided i current in
         (Inr updated, s\<lparr>qs_requests := js_set (qs_requests s) (rq_requestId updated) updated\<rparr>))"

definition paid :: "request_payment \<Rightarrow> payment_request \<Rightarrow> payment_request" where
  "paid i r = r\<lparr>rq_status := PAID, rq_version := rq_version r + 1, rq_paidAt := Some (qp_paidAt i), rq_updatedAt := qp_paidAt i,
     rq_linkedExecutionId := Some (qp_executionId i), rq_linkedReceiptId := Some (qp_receiptId i)\<rparr>"

definition markPaidByPaymentIntent ::
  "request_payment \<Rightarrow> request_store \<Rightarrow> (request_store, payment_request option) outcome" where
  "markPaidByPaymentIntent i s =
     (case find (\<lambda>r. rq_linkedPaymentIntentId r = Some (qp_paymentIntentId i)) (js_values (qs_requests s)) of
     None \<Rightarrow> (Inr None, s)
   | Some current \<Rightarrow>
       if rq_status current = PAID then (Inr (Some current), s)
       else if rq_status current \<noteq> ACCEPTED then (throw ''ILLEGAL_TRANSITION'', s)
       else let updated = paid i current in
         (Inr (Some updated), s\<lparr>qs_requests := js_set (qs_requests s) (rq_requestId updated) updated\<rparr>))"

section \<open>Validation\<close>

abbreviation request_input_error :: "string \<Rightarrow> 'a result" where
  "request_input_error m \<equiv> Inl (Err PaymentRequestInputError m)"

definition request_invalid :: "'a result" where
  "request_invalid = request_input_error ''A valid payment request is required.''"

definition parsePaymentRequestId :: "json \<Rightarrow> string result" where
  "parsePaymentRequestId value = (case value of
     JString v \<Rightarrow> if is_uuid v then Inr (js_lower v) else request_input_error ''A valid payment request ID is required.''
   | _ \<Rightarrow> request_input_error ''A valid payment request ID is required.'')"

definition request_purpose :: "json \<Rightarrow> string option result" where
  "request_purpose v = (case v of
     JUndefined \<Rightarrow> Inr None
   | JNull \<Rightarrow> Inr None
   | JString t \<Rightarrow> let p = js_trim t in
       if utf8_length p > 120 then request_input_error ''Purpose must not exceed 120 UTF-8 bytes.''
       else Inr (if p = '''' then None else Some p)
   | _ \<Rightarrow> request_invalid)"

definition only_keys :: "json_object \<Rightarrow> string list \<Rightarrow> bool" where
  "only_keys r allowed = list_all (\<lambda>k. k \<in> set allowed) (map fst r)"

record payment_request_body =
  pb_payerAccountId :: string
  pb_amount :: string
  pb_purpose :: "string option"

definition parsePaymentRequestCreate :: "json \<Rightarrow> payment_request_body result" where
  "parsePaymentRequestCreate value = (case value of
     JObject r \<Rightarrow>
       if \<not> only_keys r [''payerAccountId'', ''amount'', ''purpose''] then request_invalid
       else and_then (parsePaymentRequestId (member r ''payerAccountId'')) (\<lambda>payer.
         case parseUsdcAmount (member r ''amount'') of
           Inl e \<Rightarrow> request_invalid
         | Inr amount \<Rightarrow> and_then (request_purpose (member r ''purpose''))
             (\<lambda>p. Inr \<lparr>pb_payerAccountId = payer, pb_amount = amount, pb_purpose = p\<rparr>))
   | _ \<Rightarrow> request_invalid)"

text \<open>The expected version, and whether trust was acknowledged.\<close>

definition parsePaymentRequestTransition :: "json \<Rightarrow> bool \<Rightarrow> (int \<times> bool) result" where
  "parsePaymentRequestTransition value accept = (case value of
     JObject r \<Rightarrow>
       if \<not> only_keys r [''expectedVersion'', ''trustAcknowledgment''] then request_invalid
       else (case member r ''expectedVersion'' of
         JString v \<Rightarrow>
           if \<not> VERSION_PATTERN v then request_invalid
           else (case member r ''trustAcknowledgment'' of
             JUndefined \<Rightarrow> Inr (int (dec_to_nat v), False)
           | JObject t \<Rightarrow>
               if \<not> accept \<or> length t \<noteq> 1 \<or> member t ''acknowledged'' \<noteq> JBool True then request_invalid
               else Inr (int (dec_to_nat v), True)
           | _ \<Rightarrow> request_invalid)
       | _ \<Rightarrow> request_invalid)
   | _ \<Rightarrow> request_invalid)"

definition parseRequestIdempotencyKey :: "string option \<Rightarrow> string result" where
  "parseRequestIdempotencyKey value = (case parseIdempotencyKey value of
     Inl e \<Rightarrow> request_input_error ''Idempotency-Key must contain 16 to 128 visible ASCII characters.''
   | Inr k \<Rightarrow> Inr k)"

definition request_hash_text :: "string \<Rightarrow> string \<Rightarrow> int \<Rightarrow> string option \<Rightarrow> string" where
  "request_hash_text requester payer amountRaw purpose = json_object_text
     [(''schemaVersion'', ''1''), (''flow'', json_quote ''request''), (''requesterAccountId'', json_quote requester),
      (''payerAccountId'', json_quote payer), (''amountRaw'', json_quote (int_to_dec amountRaw)),
      (''purpose'', json_string_or_null purpose), (''asset'', json_quote ''USDC'')]"

definition paymentRequestHash :: "runtime_env \<Rightarrow> string \<Rightarrow> string \<Rightarrow> int \<Rightarrow> string option \<Rightarrow> string" where
  "paymentRequestHash env requester payer amountRaw purpose = sha256_hex env (request_hash_text requester payer amountRaw purpose)"

end
