(* ===== verification/PaymentRequestService.thy ===== *)
theory PaymentRequestService
  imports PaymentRequests
begin

text \<open>
  \<open>src/paymentRequests/paymentRequestService.ts\<close>: the requests a caller makes, sees, accepts, declines and cancels.
  The service calls the recipient directory, the payment intent service, the repository of payment requests and
  the receipts of executions; its world holds the state of each.
\<close>

section \<open>World\<close>

record request_world =
  qw_intents :: intent_world
  qw_economic :: economic_store
  qw_synthetic :: "synthetic_identity list option"
  qw_requests :: request_store
  qw_executions :: "execution_store option"
  qw_clockReads :: nat

record request_config =
  qc_intents :: intent_config
  qc_clock :: "nat \<Rightarrow> string"

definition directory_of :: "request_world \<Rightarrow> directory_world" where
  "directory_of w = \<lparr>dw_accounts = iw_accounts (qw_intents w), dw_economic = qw_economic w, dw_synthetic = qw_synthetic w\<rparr>"

definition on_intents :: "(intent_world \<Rightarrow> (intent_world, 'a) outcome) \<Rightarrow> request_world \<Rightarrow> (request_world, 'a) outcome" where
  "on_intents f w = (let (r, s) = f (qw_intents w) in (r, w\<lparr>qw_intents := s\<rparr>))"

definition on_requests :: "(request_store \<Rightarrow> (request_store, 'a) outcome) \<Rightarrow> request_world \<Rightarrow> (request_world, 'a) outcome" where
  "on_requests f w = (let (r, s) = f (qw_requests w) in (r, w\<lparr>qw_requests := s\<rparr>))"

definition request_now :: "request_config \<Rightarrow> request_world \<Rightarrow> string \<times> request_world" where
  "request_now cfg w = (qc_clock cfg (qw_clockReads w), w\<lparr>qw_clockReads := Suc (qw_clockReads w)\<rparr>)"

definition meanwhile :: "(request_store \<Rightarrow> request_store) \<Rightarrow> request_world \<Rightarrow> request_world" where
  "meanwhile others w = w\<lparr>qw_requests := others (qw_requests w)\<rparr>"

definition request_error :: "application_error_kind \<Rightarrow> string \<Rightarrow> 'a result" where
  "request_error kind m = Inl (Err (PaymentRequestApplicationError kind) m)"

definition request_not_found :: "'a result" where
  "request_not_found = request_error NOT_FOUND ''Payment request was not found.''"

definition request_conflict :: "'a result" where
  "request_conflict = request_error CONFLICT ''Payment request changed or cannot make that transition.''"

definition key_conflict :: "'a result" where
  "key_conflict = request_error CONFLICT ''Idempotency key was already used for a different payment request.''"

definition request_recipient_missing :: "'a result" where
  "request_recipient_missing = request_error NOT_FOUND ''Payment recipient was not found.''"

section \<open>What a party is shown\<close>

record public_request =
  pq_requestId :: string
  pq_role :: string
  pq_direction :: string
  pq_status :: string
  pq_version :: string
  pq_requestHash :: string
  pq_requester :: json
  pq_payer :: json
  pq_amountRaw :: string
  pq_amount :: string
  pq_asset :: string
  pq_purpose :: "string option"
  pq_createdAt :: string
  pq_updatedAt :: string
  pq_acceptedAt :: "string option"
  pq_declinedAt :: "string option"
  pq_cancelledAt :: "string option"
  pq_expiredAt :: "string option"
  pq_paidAt :: "string option"
  pq_linkedPaymentIntentId :: "string option"
  pq_linkedExecutionId :: "string option"
  pq_linkedReceiptId :: "string option"

definition snapshot_party :: "published_recipient \<Rightarrow> string \<Rightarrow> party_snapshot" where
  "snapshot_party v at_time = \<lparr>py_accountId = pu_accountId v, py_username = pu_username v, py_displayName = pu_displayName v,
     py_accountType = pu_accountType v, py_verificationState = pu_verificationState v, py_capturedAt = at_time\<rparr>"

definition serializeParty :: "party_snapshot \<Rightarrow> json" where
  "serializeParty s = JObject [(''accountId'', JString (py_accountId s)), (''username'', JString (py_username s)),
     (''displayName'', JString (py_displayName s)),
     (''accountType'', JString (js_lower (economic_account_type_text (py_accountType s)))),
     (''verificationState'', JString (js_lower (identity_verification_text (py_verificationState s)))),
     (''capturedAt'', JString (py_capturedAt s)), (''schemaVersion'', JNumber (Finite 1))]"

definition publicRequest :: "payment_request \<Rightarrow> string \<Rightarrow> public_request" where
  "publicRequest r viewer = \<lparr>pq_requestId = rq_requestId r,
     pq_role = (if rq_requesterAccountId r = viewer then ''requester'' else ''payer''),
     pq_direction = (if rq_requesterAccountId r = viewer then ''requested'' else ''request_received''),
     pq_status = js_lower (payment_request_status_text (rq_status r)), pq_version = int_to_dec (rq_version r),
     pq_requestHash = rq_requestHash r, pq_requester = serializeParty (rq_requesterSnapshot r),
     pq_payer = serializeParty (rq_payerSnapshot r), pq_amountRaw = int_to_dec (rq_amountRaw r),
     pq_amount = rawUsdcToDisplay (rq_amountRaw r), pq_asset = ''USDC'', pq_purpose = rq_purpose r,
     pq_createdAt = rq_createdAt r, pq_updatedAt = rq_updatedAt r, pq_acceptedAt = if_truthy (rq_acceptedAt r),
     pq_declinedAt = if_truthy (rq_declinedAt r), pq_cancelledAt = if_truthy (rq_cancelledAt r),
     pq_expiredAt = if_truthy (rq_expiredAt r), pq_paidAt = if_truthy (rq_paidAt r),
     pq_linkedPaymentIntentId = if_truthy (rq_linkedPaymentIntentId r),
     pq_linkedExecutionId = if_truthy (rq_linkedExecutionId r), pq_linkedReceiptId = if_truthy (rq_linkedReceiptId r)\<rparr>"

section \<open>Private steps\<close>

definition request_actor :: "runtime_env \<Rightarrow> caller \<Rightarrow> request_world \<Rightarrow> (request_world, actor) outcome" where
  "request_actor env c w =
     (let (r, w') = on_intents (on_accounts
          (resolvePrincipal env (cl_newAccountId c) (cl_newIdentityId c) (cl_principal c))) w in
      (case r of
         Inl e \<Rightarrow> if error_class_of e = AccountAccessDeniedError
                 then request_error ACCESS_DENIED ''Payment request access is unavailable.'' else Inl e
       | Inr (a, xs) \<Rightarrow> Inr \<lparr>actor_subject = ac_actorSubject a, actor_accountId = ac_accountId a\<rparr>, w'))"

definition request_access :: "runtime_env \<Rightarrow> request_config \<Rightarrow> string \<Rightarrow> request_world \<Rightarrow> (request_world, unit) outcome" where
  "request_access env cfg subject w =
     (let entry = findAllowlistEntry (iw_payments (qw_intents w)) subject; (now, w') = request_now cfg w in
      if \<not> hasActivePaymentAccess env (ic_allowlistRequired (qc_intents cfg)) entry now
      then (request_error ACCESS_DENIED ''Beta payment access is unavailable.'', w') else (Inr (), w'))"

datatype request_role = Payer | Requester

definition party :: "request_role \<Rightarrow> payment_request \<Rightarrow> string" where
  "party role r = (case role of Payer \<Rightarrow> rq_payerAccountId r | Requester \<Rightarrow> rq_requesterAccountId r)"

definition ownedPending :: "request_world \<Rightarrow> string \<Rightarrow> string \<Rightarrow> request_role \<Rightarrow> int \<Rightarrow> payment_request result" where
  "ownedPending w i accountId role version = (case find_request (qw_requests w) i of
     None \<Rightarrow> request_not_found
   | Some r \<Rightarrow>
       if party role r \<noteq> accountId then request_not_found
       else if rq_status r \<noteq> PENDING \<or> rq_version r \<noteq> version then request_conflict else Inr r)"

definition refresh :: "payment_request \<Rightarrow> request_world \<Rightarrow> (request_world, payment_request) outcome" where
  "refresh r w = (case (rq_linkedPaymentIntentId r, qw_executions w) of
     (Some intentId, Some executions) \<Rightarrow>
       if rq_status r \<noteq> ACCEPTED \<or> intentId = '''' then (Inr r, w)
       else (case findReceiptByPaymentIntent executions intentId of
         None \<Rightarrow> (Inr r, w)
       | Some receipt \<Rightarrow> then_do (on_requests (markPaidByPaymentIntent
             \<lparr>qp_paymentIntentId = intentId, qp_executionId = er_executionId receipt, qp_receiptId = er_receiptId receipt,
              qp_paidAt = er_settledAt receipt\<rparr>) w) (\<lambda>found w'. (Inr (coalesce found r), w')))
   | _ \<Rightarrow> (Inr r, w))"

section \<open>Operations\<close>

record new_request_body =
  nb_idempotencyKey :: string
  nb_payerAccountId :: string
  nb_amount :: string
  nb_purpose :: "string option"

definition claimed_request :: "string \<Rightarrow> payment_request_claim \<Rightarrow> (public_request \<times> bool) result" where
  "claimed_request viewer claim = (case claim of
     REQUEST_HASH_CONFLICT r \<Rightarrow> key_conflict
   | REQUEST_CLAIMED r \<Rightarrow> Inr (publicRequest r viewer, True)
   | REQUEST_EXISTING r \<Rightarrow> Inr (publicRequest r viewer, False))"

definition create_request ::
  "runtime_env \<Rightarrow> request_config \<Rightarrow> (request_store \<Rightarrow> request_store) \<Rightarrow> string \<Rightarrow> caller \<Rightarrow> new_request_body \<Rightarrow>
   request_world \<Rightarrow> (request_world, public_request \<times> bool) outcome" where
  "create_request env cfg others newId c i w =
     then_do (request_actor env c w) (\<lambda>a w1.
     then_do (request_access env cfg (actor_subject a) w1) (\<lambda>_ w2.
     when_ok (usdcAmountToRaw (nb_amount i)) w2 (\<lambda>amountRaw.
       let hash = paymentRequestHash env (actor_accountId a) (nb_payerAccountId i) amountRaw (nb_purpose i) in
       case findByIdempotencyKey (qw_requests w2) (actor_subject a) (nb_idempotencyKey i) of
         Some existing \<Rightarrow>
           if rq_requestHash existing \<noteq> hash then (key_conflict, w2)
           else (Inr (publicRequest existing (actor_accountId a), False), w2)
       | None \<Rightarrow>
           (case (resolvePublicRecipient (actor_accountId a) (nb_payerAccountId i) (directory_of w2),
                  resolveOwnPayableRecipient (actor_accountId a) (directory_of w2)) of
             (Inr payer, Inr requester) \<Rightarrow>
               if pu_identitySource payer = Some ''SYNTHETIC_BETA'' then (request_recipient_missing, w2)
               else let (now, w3) = request_now cfg (meanwhile others w2);
                   (claim, s) = claim_request \<lparr>cq_requestId = newId, cq_requesterAccountId = actor_accountId a,
                     cq_requesterActorSubject = actor_subject a, cq_payerAccountId = pu_accountId payer,
                     cq_requesterSnapshot = snapshot_party requester now, cq_payerSnapshot = snapshot_party payer now,
                     cq_amountRaw = amountRaw, cq_purpose = nb_purpose i, cq_requestHash = hash,
                     cq_idempotencyKey = nb_idempotencyKey i, cq_occurredAt = now\<rparr> (qw_requests w3) in
                 (claimed_request (actor_accountId a) claim, w3\<lparr>qw_requests := s\<rparr>)
           | _ \<Rightarrow> (request_recipient_missing, w2)))))"

definition find_visible :: "runtime_env \<Rightarrow> caller \<Rightarrow> string \<Rightarrow> request_world \<Rightarrow> (request_world, public_request) outcome" where
  "find_visible env c i w = then_do (request_actor env c w) (\<lambda>a w1.
     case find_request (qw_requests w1) i of
       None \<Rightarrow> (request_not_found, w1)
     | Some found \<Rightarrow> then_do (refresh found w1) (\<lambda>r w2.
         if \<not> visible_to (actor_accountId a) r then (request_not_found, w2)
         else (Inr (publicRequest r (actor_accountId a)), w2)))"

fun refresh_each :: "string \<Rightarrow> payment_request list \<Rightarrow> request_world \<Rightarrow> (request_world, public_request list) outcome" where
  "refresh_each viewer [] w = (Inr [], w)"
| "refresh_each viewer (r # rs) w = then_do (refresh r w) (\<lambda>r' w1.
     then_do (refresh_each viewer rs w1) (\<lambda>ps w2. (Inr (publicRequest r' viewer # ps), w2)))"

definition list_requests ::
  "runtime_env \<Rightarrow> caller \<Rightarrow> js_number \<Rightarrow> request_world \<Rightarrow> (request_world, public_request list) outcome" where
  "list_requests env c limit w = then_do (request_actor env c w) (\<lambda>a w1.
     case limit of
       Finite q \<Rightarrow>
         if \<not> is_safe_integer limit \<or> q < 1 \<or> q > 50
         then (request_error INVALID ''Payment request limit must be between 1 and 50.'', w1)
         else refresh_each (actor_accountId a)
           (listVisible env (qw_requests w1) (actor_accountId a) (nat \<lfloor>q\<rfloor>)) w1
     | _ \<Rightarrow> (request_error INVALID ''Payment request limit must be between 1 and 50.'', w1))"

definition intent_error :: "js_error \<Rightarrow> js_error" where
  "intent_error e = (case error_class_of e of
     PaymentIntentApplicationError kind \<Rightarrow> Err (PaymentRequestApplicationError kind) (error_message e) | _ \<Rightarrow> e)"

record accept_answer =
  aa_paymentRequest :: public_request
  aa_paymentIntent :: public_payment_intent
  aa_applied :: bool

text \<open>The write of an acceptance: what the repository holds after a lost race decides what is answered.\<close>

definition accept_write ::
  "string \<Rightarrow> int \<Rightarrow> string \<Rightarrow> string \<Rightarrow> public_payment_intent \<Rightarrow> request_world \<Rightarrow> (request_world, accept_answer) outcome" where
  "accept_write i version accountId occurredAt intent w =
     (let (r, w') = on_requests (transition_request
          \<lparr>qt_requestId = i, qt_expectedVersion = version, qt_actorAccountId = accountId, qt_toStatus = TO_ACCEPTED,
           qt_occurredAt = occurredAt, qt_linkedPaymentIntentId = Some (pp_id intent)\<rparr>) w in
      case r of
        Inr updated \<Rightarrow> (Inr \<lparr>aa_paymentRequest = publicRequest updated accountId, aa_paymentIntent = intent, aa_applied = True\<rparr>, w')
      | Inl e \<Rightarrow>
          if error_class_of e \<noteq> PaymentRequestVersionConflictError then (Inl e, w')
          else (case find_request (qw_requests w') i of
              Some concurrent \<Rightarrow>
                if rq_status concurrent = ACCEPTED \<and> rq_linkedPaymentIntentId concurrent = Some (pp_id intent)
                then (Inr \<lparr>aa_paymentRequest = publicRequest concurrent accountId, aa_paymentIntent = intent, aa_applied = False\<rparr>, w')
                else (request_conflict, w')
            | None \<Rightarrow> (request_conflict, w')))"

definition accept_request ::
  "runtime_env \<Rightarrow> request_config \<Rightarrow> (request_store \<Rightarrow> request_store) \<Rightarrow> string \<Rightarrow> caller \<Rightarrow> string \<Rightarrow> int \<Rightarrow> bool \<Rightarrow>
   request_world \<Rightarrow> (request_world, accept_answer) outcome" where
  "accept_request env cfg others newIntentId c i version trust w =
     then_do (request_actor env c w) (\<lambda>a w1.
     then_do (request_access env cfg (actor_subject a) w1) (\<lambda>_ w2.
     when_ok (ownedPending w2 i (actor_accountId a) Payer version) w2 (\<lambda>request.
     then_do (catch_economic intent_error (on_intents (create_intent env (qc_intents cfg) newIntentId c
         (''payment-request:'' @ rq_requestId request)
         (PaymentIdentityPaymentIntentRequest (rq_requesterAccountId request) (rawUsdcToDisplay (rq_amountRaw request))
            (rq_purpose request) trust)) w2)) (\<lambda>intent w3.
       let (now, w4) = request_now cfg (meanwhile others w3) in
       accept_write i version (actor_accountId a) now (fst intent) w4))))"

definition change_request ::
  "runtime_env \<Rightarrow> request_config \<Rightarrow> (request_store \<Rightarrow> request_store) \<Rightarrow> caller \<Rightarrow> string \<Rightarrow> int \<Rightarrow> request_role \<Rightarrow>
   request_decision \<Rightarrow> request_world \<Rightarrow> (request_world, public_request) outcome" where
  "change_request env cfg others c i version role decision w =
     then_do (request_actor env c w) (\<lambda>a w1.
     when_ok (ownedPending w1 i (actor_accountId a) role version) w1 (\<lambda>request.
       let (now, w2) = request_now cfg (meanwhile others w1);
           (r, w3) = on_requests (transition_request
             \<lparr>qt_requestId = i, qt_expectedVersion = version, qt_actorAccountId = actor_accountId a,
              qt_toStatus = decision, qt_occurredAt = now, qt_linkedPaymentIntentId = None\<rparr>) w2 in
       case r of
         Inr updated \<Rightarrow> (Inr (publicRequest updated (actor_accountId a)), w3)
       | Inl e \<Rightarrow> if error_class_of e = PaymentRequestVersionConflictError then (request_conflict, w3) else (Inl e, w3)))"

definition decline_request where
  "decline_request env cfg others c i version = change_request env cfg others c i version Payer TO_DECLINED"

definition cancel_request where
  "cancel_request env cfg others c i version = change_request env cfg others c i version Requester TO_CANCELLED"

end
