(* ===== verification/PaymentRequestProperties.thy ===== *)
theory PaymentRequestProperties
  imports PaymentRequestService EconomicIdentityProperties PaymentIntentServiceProperties
begin

text \<open>
  What the repository of payment requests keeps, and what the service makes of it: a request is decided at most
  once, by the party entitled to the decision, and is paid only after it was accepted and a receipt was seen.
\<close>

section \<open>The operations of the repository\<close>

datatype request_operation =
    ClaimRequest create_payment_request
  | DecideRequest request_transition
  | MarkPaid request_payment

fun run_request :: "request_operation \<Rightarrow> request_store \<Rightarrow> js_error option \<times> request_store" where
  "run_request (ClaimRequest i) s = (None, snd (claim_request i s))"
| "run_request (DecideRequest i) s = thrown (transition_request i s)"
| "run_request (MarkPaid i) s = thrown (markPaidByPaymentIntent i s)"

text \<open>The id of a claim comes from \<open>randomUUID\<close>: not empty, and not in use.\<close>

fun fresh_request :: "request_operation \<Rightarrow> request_store \<Rightarrow> bool" where
  "fresh_request (ClaimRequest i) s = (cq_requestId i \<noteq> '''' \<and> js_get (qs_requests s) (cq_requestId i) = None)"
| "fresh_request _ s = True"

definition request_step :: "request_store \<Rightarrow> request_store \<Rightarrow> bool" where
  "request_step s t = (\<exists>opn. fresh_request opn s \<and> t = snd (run_request opn s))"

section \<open>The invariant\<close>

text \<open>The fields a request has in each status; its version counts its decisions.\<close>

definition request_shape :: "payment_request \<Rightarrow> bool" where
  "request_shape r = (case rq_status r of
     PENDING \<Rightarrow> rq_version r = 0 \<and> rq_acceptedAt r = None \<and> rq_declinedAt r = None \<and> rq_cancelledAt r = None \<and>
       rq_paidAt r = None \<and> rq_linkedPaymentIntentId r = None \<and> rq_linkedReceiptId r = None
   | ACCEPTED \<Rightarrow> rq_version r = 1 \<and> rq_acceptedAt r \<noteq> None \<and> rq_declinedAt r = None \<and> rq_cancelledAt r = None \<and>
       rq_paidAt r = None \<and> truthy (rq_linkedPaymentIntentId r) \<and> rq_linkedReceiptId r = None
   | DECLINED \<Rightarrow> rq_version r = 1 \<and> rq_acceptedAt r = None \<and> rq_declinedAt r \<noteq> None \<and> rq_cancelledAt r = None \<and>
       rq_paidAt r = None \<and> rq_linkedPaymentIntentId r = None \<and> rq_linkedReceiptId r = None
   | REQUEST_CANCELLED \<Rightarrow> rq_version r = 1 \<and> rq_acceptedAt r = None \<and> rq_declinedAt r = None \<and> rq_cancelledAt r \<noteq> None \<and>
       rq_paidAt r = None \<and> rq_linkedPaymentIntentId r = None \<and> rq_linkedReceiptId r = None
   | EXPIRED \<Rightarrow> False
   | PAID \<Rightarrow> rq_version r = 2 \<and> rq_acceptedAt r \<noteq> None \<and> rq_declinedAt r = None \<and> rq_cancelledAt r = None \<and>
       rq_paidAt r \<noteq> None \<and> truthy (rq_linkedPaymentIntentId r) \<and> rq_linkedReceiptId r \<noteq> None)"

definition requests_ok :: "request_store \<Rightarrow> bool" where
  "requests_ok s \<longleftrightarrow> js_keys_distinct (qs_requests s) \<and>
     (\<forall>k r. js_get (qs_requests s) k = Some r \<longrightarrow> rq_requestId r = k \<and> request_shape r)"

lemma requests_okD:
  assumes "requests_ok s" and "js_get (qs_requests s) k = Some r"
  shows "rq_requestId r = k" "request_shape r"
  using assms by (simp_all add: requests_ok_def)

lemma requests_ok_set:
  assumes "requests_ok s" and "rq_requestId r = k" and "request_shape r"
  shows "requests_ok (s\<lparr>qs_requests := js_set (qs_requests s) k r\<rparr>)"
  using assms by (auto simp: requests_ok_def)

lemma requests_ok_empty [simp]: "requests_ok empty_request_store"
  by (simp add: requests_ok_def empty_request_store_def)

text \<open>The ways an operation ends.\<close>

lemma transition_request_cases:
  assumes "transition_request i s = (r, t)"
  obtains (failed) e where "r = Inl e" "t = s"
  | (decided) c where "js_get (qs_requests s) (qt_requestId i) = Some c" "rq_version c = qt_expectedVersion i"
      "rq_status c = PENDING"
      "if qt_toStatus i = TO_CANCELLED then rq_requesterAccountId c = qt_actorAccountId i
       else rq_payerAccountId c = qt_actorAccountId i"
      "qt_toStatus i = TO_ACCEPTED \<Longrightarrow> truthy (qt_linkedPaymentIntentId i)"
      "r = Inr (decided i c)" "t = s\<lparr>qs_requests := js_set (qs_requests s) (rq_requestId c) (decided i c)\<rparr>"
proof (cases "js_get (qs_requests s) (qt_requestId i)")
  case None
  with assms failed show ?thesis by (auto simp: transition_request_def)
next
  case (Some c)
  have idd: "rq_requestId (decided i c) = rq_requestId c"
    by (simp add: decided_def Let_def split: request_decision.split)
  have step: "transition_request i s =
      (if rq_version c \<noteq> qt_expectedVersion i then (Inl (Err PaymentRequestVersionConflictError ''''), s)
       else if rq_status c \<noteq> PENDING then (throw ''ILLEGAL_TRANSITION'', s)
       else if (if qt_toStatus i = TO_CANCELLED then rq_requesterAccountId c \<noteq> qt_actorAccountId i
                else rq_payerAccountId c \<noteq> qt_actorAccountId i) then (throw ''NOT_FOUND'', s)
       else if qt_toStatus i = TO_ACCEPTED \<and> \<not> truthy (qt_linkedPaymentIntentId i) then (throw ''LINK_REQUIRED'', s)
       else (Inr (decided i c), s\<lparr>qs_requests := js_set (qs_requests s) (rq_requestId c) (decided i c)\<rparr>))"
    using Some idd by (simp add: transition_request_def Let_def)
  show ?thesis
  proof (cases r)
    case (Inl e)
    with assms step have "t = s" by (auto split: if_splits)
    with Inl failed show ?thesis by blast
  next
    case (Inr x)
    with assms step have "rq_version c = qt_expectedVersion i" "rq_status c = PENDING"
      "if qt_toStatus i = TO_CANCELLED then rq_requesterAccountId c = qt_actorAccountId i
       else rq_payerAccountId c = qt_actorAccountId i"
      "qt_toStatus i = TO_ACCEPTED \<Longrightarrow> truthy (qt_linkedPaymentIntentId i)" "r = Inr (decided i c)"
      "t = s\<lparr>qs_requests := js_set (qs_requests s) (rq_requestId c) (decided i c)\<rparr>"
      by (auto split: if_splits)
    with Some decided show ?thesis by blast
  qed
qed

lemma markPaid_cases:
  assumes "markPaidByPaymentIntent i s = (r, t)"
  obtains (kept) "t = s"
  | (paid) c where "c \<in> set (js_values (qs_requests s))" "rq_linkedPaymentIntentId c = Some (qp_paymentIntentId i)"
      "rq_status c = ACCEPTED" "r = Inr (Some (paid i c))"
      "t = s\<lparr>qs_requests := js_set (qs_requests s) (rq_requestId c) (paid i c)\<rparr>"
proof (cases "find (\<lambda>r. rq_linkedPaymentIntentId r = Some (qp_paymentIntentId i)) (js_values (qs_requests s))")
  case None
  with assms kept show ?thesis by (auto simp: markPaidByPaymentIntent_def)
next
  case (Some c)
  then have c: "c \<in> set (js_values (qs_requests s))" "rq_linkedPaymentIntentId c = Some (qp_paymentIntentId i)"
    by (auto simp: find_Some_iff)
  have idp: "rq_requestId (paid i c) = rq_requestId c" by (simp add: paid_def)
  show ?thesis
  proof (cases "rq_status c = ACCEPTED")
    case True
    with assms Some idp c paid show ?thesis by (auto simp: markPaidByPaymentIntent_def Let_def)
  next
    case False
    with assms Some have "t = s" by (auto simp: markPaidByPaymentIntent_def split: if_splits)
    then show ?thesis by (rule kept)
  qed
qed

lemma decided_shape:
  assumes "request_shape c" and "rq_status c = PENDING" and "qt_toStatus i = TO_ACCEPTED \<Longrightarrow> truthy (qt_linkedPaymentIntentId i)"
  shows "request_shape (decided i c)"
  using assms by (cases "qt_toStatus i") (simp_all add: request_shape_def decided_def Let_def)

lemma paid_shape: "request_shape c \<Longrightarrow> rq_status c = ACCEPTED \<Longrightarrow> request_shape (paid i c)"
  by (simp add: request_shape_def paid_def)

lemma decided_fields [simp]:
  "rq_requestId (decided i c) = rq_requestId c" "rq_version (decided i c) = rq_version c + 1"
  "rq_status (decided i c) \<noteq> PENDING" "rq_amountRaw (decided i c) = rq_amountRaw c"
  "rq_requesterAccountId (decided i c) = rq_requesterAccountId c" "rq_payerAccountId (decided i c) = rq_payerAccountId c"
  by (simp_all add: decided_def Let_def split: request_decision.split)

lemma run_request_ok:
  assumes ok: "requests_ok s" and fresh: "fresh_request opn s"
  shows "requests_ok (snd (run_request opn s))"
proof (cases opn)
  case (ClaimRequest i)
  have "request_shape (new_request i)" "rq_requestId (new_request i) = cq_requestId i"
    by (simp_all add: request_shape_def new_request_def)
  then show ?thesis using ok ClaimRequest by (auto simp: claim_request_def requests_ok_def split: option.split)
next
  case (DecideRequest i)
  obtain r t where rt: "transition_request i s = (r, t)" by fastforce
  from rt have "requests_ok t"
  proof (cases rule: transition_request_cases)
    case (decided c)
    note c = requests_okD [OF ok decided(1)]
    show ?thesis unfolding decided(7)
      by (rule requests_ok_set [OF ok]) (use decided_shape [OF c(2) decided(3,5)] in simp_all)
  qed (use ok in simp)
  then show ?thesis using DecideRequest rt by (simp add: thrown_def)
next
  case (MarkPaid i)
  obtain r t where rt: "markPaidByPaymentIntent i s = (r, t)" by fastforce
  from rt have "requests_ok t"
  proof (cases rule: markPaid_cases)
    case (paid c)
    obtain k where k: "js_get (qs_requests s) k = Some c"
      using js_values_in [OF _ paid(1)] ok unfolding requests_ok_def by blast
    show ?thesis unfolding paid(5)
      by (rule requests_ok_set [OF ok]) (use paid_shape [OF requests_okD(2) [OF ok k] paid(3)] in \<open>simp_all add: paid_def\<close>)
  qed (use ok in simp)
  then show ?thesis using MarkPaid rt by (simp add: thrown_def)
qed

section \<open>What a step may change of a request\<close>

text \<open>The terms of a request, and how its status may move.\<close>

definition same_terms :: "payment_request \<Rightarrow> payment_request \<Rightarrow> bool" where
  "same_terms r r' = (rq_requestId r' = rq_requestId r \<and> rq_requesterAccountId r' = rq_requesterAccountId r \<and>
     rq_requesterActorSubject r' = rq_requesterActorSubject r \<and> rq_payerAccountId r' = rq_payerAccountId r \<and>
     rq_amountRaw r' = rq_amountRaw r \<and> rq_purpose r' = rq_purpose r \<and> rq_requestHash r' = rq_requestHash r \<and>
     rq_requesterSnapshot r' = rq_requesterSnapshot r \<and> rq_payerSnapshot r' = rq_payerSnapshot r)"

definition moves_on :: "payment_request \<Rightarrow> payment_request \<Rightarrow> bool" where
  "moves_on r r' = (same_terms r r' \<and> (r' = r \<or> rq_status r = PENDING \<or>
     rq_status r = ACCEPTED \<and> rq_status r' = PAID \<and> rq_linkedPaymentIntentId r' = rq_linkedPaymentIntentId r \<and>
     rq_acceptedAt r' = rq_acceptedAt r))"

lemma same_terms_refl [simp]: "same_terms r r"
  by (simp add: same_terms_def)

lemma moves_on_refl [simp]: "moves_on r r"
  by (simp add: moves_on_def)

lemma same_terms_decided: "same_terms r (decided i r)"
  by (simp add: same_terms_def decided_def Let_def split: request_decision.split)

lemma same_terms_paid: "same_terms r (paid i r)"
  by (simp add: same_terms_def paid_def)

lemma step_moves_on:
  assumes ok: "requests_ok s" and "request_step s t" and k: "js_get (qs_requests s) k = Some r"
  shows "\<exists>r'. js_get (qs_requests t) k = Some r' \<and> moves_on r r' \<and> rq_version r \<le> rq_version r'"
proof -
  from assms(2) obtain opn where fresh: "fresh_request opn s" and t: "t = snd (run_request opn s)"
    by (auto simp: request_step_def)
  show ?thesis
  proof (cases opn)
    case (ClaimRequest i)
    with fresh k t show ?thesis by (auto simp: claim_request_def split: option.split)
  next
    case (DecideRequest i)
    obtain x u where xu: "transition_request i s = (x, u)" by fastforce
    then have "t = u" using t DecideRequest by (simp add: thrown_def)
    from xu show ?thesis
    proof (cases rule: transition_request_cases)
      case (decided c)
      have "rq_requestId c = qt_requestId i" using requests_okD(1) [OF ok decided(1)] .
      then show ?thesis using decided k \<open>t = u\<close> same_terms_decided [of c i] by (cases "k = qt_requestId i") (auto simp: moves_on_def)
    qed (use k \<open>t = u\<close> in simp)
  next
    case (MarkPaid i)
    obtain x u where xu: "markPaidByPaymentIntent i s = (x, u)" by fastforce
    then have "t = u" using t MarkPaid by (simp add: thrown_def)
    from xu show ?thesis
    proof (cases rule: markPaid_cases)
      case (paid c)
      obtain k' where k': "js_get (qs_requests s) k' = Some c"
        using js_values_in [OF _ paid(1)] ok unfolding requests_ok_def by blast
      have idc: "rq_requestId c = k'" using requests_okD(1) [OF ok k'] .
      show ?thesis
      proof (cases "k = k'")
        case True
        then have "r = c" using k k' by simp
        then show ?thesis using True paid idc \<open>t = u\<close> same_terms_paid [of c i] by (auto simp: moves_on_def paid_def)
      next
        case False
        then show ?thesis using k paid idc \<open>t = u\<close> by auto
      qed
    qed (use k \<open>t = u\<close> in simp)
  qed
qed

section \<open>Versions\<close>

definition request_version :: "request_store \<Rightarrow> string \<Rightarrow> int option" where
  "request_version s k = map_option rq_version (js_get (qs_requests s) k)"

definition request_put :: "request_transition \<Rightarrow> request_store \<Rightarrow> request_store option" where
  "request_put i s = (case transition_request i s of (Inr r, t) \<Rightarrow> Some t | (Inl e, t) \<Rightarrow> None)"

lemma request_put_Some: "request_put i s = Some t \<longleftrightarrow> (\<exists>r. transition_request i s = (Inr r, t))"
  by (auto simp: request_put_def split: prod.splits sum.splits)

interpretation rm: versioned_store requests_ok request_step request_version request_put qt_requestId qt_expectedVersion
proof
  fix s t k v i
  show "requests_ok s \<Longrightarrow> request_step s t \<Longrightarrow> requests_ok t"
    using run_request_ok by (auto simp: request_step_def)
  show "requests_ok s \<Longrightarrow> request_step s t \<Longrightarrow> request_version s k = Some v \<Longrightarrow> \<exists>v'. request_version t k = Some v' \<and> v \<le> v'"
    using step_moves_on by (fastforce simp: request_version_def)
  assume ok: "requests_ok s" and "request_put i s = Some t"
  then obtain r where run: "transition_request i s = (Inr r, t)" by (auto simp: request_put_Some)
  then obtain c where c: "js_get (qs_requests s) (qt_requestId i) = Some c" "rq_version c = qt_expectedVersion i"
    "t = s\<lparr>qs_requests := js_set (qs_requests s) (rq_requestId c) (decided i c)\<rparr>"
    by (cases rule: transition_request_cases) auto
  show "request_version s (qt_requestId i) = Some (qt_expectedVersion i)" using c by (simp add: request_version_def)
  show "request_version t (qt_requestId i) = Some (qt_expectedVersion i + 1)"
    using c requests_okD(1) [OF ok c(1)] by (simp add: request_version_def)
  show "requests_ok t" using run_request_ok [OF ok, of "DecideRequest i"] run by (simp add: thrown_def)
qed

section \<open>Decisions\<close>

lemma moves_on_trans:
  assumes "moves_on a b" and "moves_on b c" and "rq_status a \<noteq> PENDING"
  shows "moves_on a c \<and> rq_status b \<noteq> PENDING"
  using assms by (auto simp: moves_on_def same_terms_def)

text \<open>C22: A request is decided once: after the payer accepted or declined it or the requester cancelled it,
  and whatever ran since, every further decision is refused; the terms of the request have not changed, and a
  declined or cancelled request has not changed at all.\<close>

theorem request_decided_once:
  assumes "requests_ok s" and "transition_request i s = (Inr r, t)" and "request_step\<^sup>*\<^sup>* t u"
    and "qt_requestId j = qt_requestId i"
  shows "(\<exists>e. transition_request j u = (Inl e, u)) \<and>
    (\<exists>r'. find_request u (qt_requestId i) = Some r' \<and> same_terms r r' \<and> (rq_status r \<noteq> ACCEPTED \<longrightarrow> r' = r))"
proof -
  from assms(2) obtain c where c: "js_get (qs_requests s) (qt_requestId i) = Some c" "r = decided i c"
    "t = s\<lparr>qs_requests := js_set (qs_requests s) (rq_requestId c) (decided i c)\<rparr>"
    by (cases rule: transition_request_cases) auto
  have "request_put i s = Some t" using assms(2) by (auto simp: request_put_Some)
  then have okt: "requests_ok t" using rm.put_keeps_ok [OF assms(1)] by blast
  have found: "js_get (qs_requests t) (qt_requestId i) = Some r"
    using c requests_okD(1) [OF assms(1) c(1)] by simp
  have np: "rq_status r \<noteq> PENDING" using c(2) by simp
  have "\<exists>r'. js_get (qs_requests u) (qt_requestId i) = Some r' \<and> moves_on r r' \<and> rq_status r' \<noteq> PENDING"
    using assms(3) okt
  proof (rule rm.run_carries)
    show "\<exists>r'. js_get (qs_requests t) (qt_requestId i) = Some r' \<and> moves_on r r' \<and> rq_status r' \<noteq> PENDING"
      using found np by auto
  next
    fix a b assume "requests_ok a" "request_step a b"
      and "\<exists>r'. js_get (qs_requests a) (qt_requestId i) = Some r' \<and> moves_on r r' \<and> rq_status r' \<noteq> PENDING"
    then obtain r' r'' where r': "moves_on r r'" "rq_status r' \<noteq> PENDING"
      and r'': "js_get (qs_requests b) (qt_requestId i) = Some r''" "moves_on r' r''"
      using step_moves_on by blast
    have "moves_on r r''" using moves_on_trans [OF r'(1) r''(2) np] by blast
    moreover have "rq_status r'' \<noteq> PENDING" using r''(2) r'(2) by (auto simp: moves_on_def)
    ultimately show "\<exists>r'. js_get (qs_requests b) (qt_requestId i) = Some r' \<and> moves_on r r' \<and> rq_status r' \<noteq> PENDING"
      using r''(1) by blast
  qed
  then obtain r' where r': "js_get (qs_requests u) (qt_requestId i) = Some r'" "moves_on r r'" "rq_status r' \<noteq> PENDING" by blast
  have refused: "\<exists>e. transition_request j u = (Inl e, u)"
  proof -
    obtain x v where x: "transition_request j u = (x, v)" by fastforce
    then show ?thesis
      by (cases rule: transition_request_cases) (use r' assms(4) x in auto)
  qed
  show ?thesis using refused r' np by (auto simp: find_request_def moves_on_def)
qed

section \<open>The intent of an accepted request\<close>

text \<open>What a payment says: its amount, its purpose and the identity it pays.\<close>

definition pays :: "payment_record \<Rightarrow> int \<Rightarrow> string option \<Rightarrow> string \<Rightarrow> bool" where
  "pays p amount purpose recipient = (p_amountRaw p = amount \<and> p_purpose p = purpose \<and> p_recipientType p = PAYMENT_IDENTITY \<and>
     (\<exists>sn. p_recipientSnapshot p = Some sn \<and> sn_accountId sn = recipient))"

definition shows_payment :: "public_payment_intent \<Rightarrow> int \<Rightarrow> string option \<Rightarrow> string \<Rightarrow> bool" where
  "shows_payment x amount purpose recipient = (pp_amountRaw x = int_to_dec amount \<and> pp_purpose x = purpose \<and>
     (\<exists>sn. pp_recipient x = PaymentIdentity sn \<and> sp_accountId sn = recipient))"

lemma pays_shown: "pays p a pu rid \<Longrightarrow> shows_payment (toPublicPaymentIntent p) a pu rid"
  by (auto simp: pays_def shows_payment_def toPublicPaymentIntent_def serializeSnapshot_def)

lemma pays_cloned: "clonePayment p = Inr q \<Longrightarrow> pays p a pu rid \<Longrightarrow> pays q a pu rid"
  by (auto simp: clonePayment_def and_then_Inr pays_def)

lemma match_pays:
  assumes "matchesFrozenPaymentIdentityRequest env p i = Inr True"
  shows "pays p (rp_amountRaw i) (rp_purpose i) (rp_recipientId i)"
  using assms by (auto simp: matchesFrozenPaymentIdentityRequest_def pays_def split: option.splits if_splits)

text \<open>The answers of a claim that are not conflicts.\<close>

definition claim_pays :: "idempotency_claim \<Rightarrow> int \<Rightarrow> string option \<Rightarrow> string \<Rightarrow> bool" where
  "claim_pays c a pu rid = (case c of CLAIMED p \<Rightarrow> pays p a pu rid | EXISTING p \<Rightarrow> pays p a pu rid | HASH_CONFLICT p \<Rightarrow> True)"

lemma claimed_pays_shown: "claimResult c = Inr (x, made) \<Longrightarrow> claim_pays c a pu rid \<Longrightarrow> shows_payment x a pu rid"
  by (cases c) (auto simp: claim_pays_def app_error_def pays_shown)

lemma claim_result_pays:
  shows "claim_result CLAIMED p = Inr c \<Longrightarrow> pays p a pu rid \<Longrightarrow> claim_pays c a pu rid"
    and "claim_result EXISTING p = Inr c \<Longrightarrow> pays p a pu rid \<Longrightarrow> claim_pays c a pu rid"
    and "claim_result HASH_CONFLICT p = Inr c \<Longrightarrow> claim_pays c a pu rid"
  using pays_cloned by (auto simp: claim_result_def and_then_Inr claim_pays_def)

lemma frozen_claim_pays:
  assumes "when_ok (matchesFrozenPaymentIdentityRequest env p i) s
      (\<lambda>same. (claim_result (if same then EXISTING else HASH_CONFLICT) p, s)) = (Inr c, s')"
  shows "claim_pays c (rp_amountRaw i) (rp_purpose i) (rp_recipientId i)"
proof -
  from assms obtain same where m: "matchesFrozenPaymentIdentityRequest env p i = Inr same"
    and c: "claim_result (if same then EXISTING else HASH_CONFLICT) p = Inr c" by (auto simp: when_ok_Inr)
  show ?thesis using m c match_pays claim_result_pays(2,3) by (cases same) auto
qed

lemma insert_payment_pays:
  assumes "insert_payment env p key d now s = (Inr c, s')" and "pays p a pu rid"
  shows "claim_pays c a pu rid"
proof -
  from assms(1) have "claim_result CLAIMED p = Inr c" by (auto simp: insert_payment_def then_do_Inr)
  then show ?thesis using assms(2) by (rule claim_result_pays(1))
qed

lemma claim_identity_pays:
  assumes "claimPaymentIdentityKey env resolver i s = (Inr c, s')"
  shows "claim_pays c (ci_amountRaw i) (ci_purpose i) (ci_recipientAccountId i)"
proof (cases "existing_id s (ci_actorSubject i) (ci_idempotencyKey i)")
  case (Some pid)
  with assms obtain p where "when_ok (matchesFrozenPaymentIdentityRequest env p (identity_replay i)) s
      (\<lambda>same. (claim_result (if same then EXISTING else HASH_CONFLICT) p, s)) = (Inr c, s')"
    by (auto simp: claimPaymentIdentityKey_def when_ok_Inr)
  from frozen_claim_pays [OF this] show ?thesis by (simp add: identity_replay_def)
next
  case None
  obtain now s1 where rc: "read_clock env s = (now, s1)" by fastforce
  from assms None obtain r trust hash d key where
    "insert_payment env (directory_payment i r trust hash now) key d now s1 = (Inr c, s')"
    by (auto simp: claimPaymentIdentityKey_def when_ok_Inr Let_def rc split: option.splits if_splits)
  then show ?thesis
    by (rule insert_payment_pays) (simp add: pays_def directory_payment_def directory_snapshot_def payment_record.defs lifecycle_evidence.defs no_evidence_def)
qed

lemma claim_synthetic_pays:
  assumes "claimSyntheticPaymentIdentityKey env i s = (Inr c, s')"
  shows "claim_pays c (cs_amountRaw i) (cs_purpose i) (cs_syntheticId i)"
proof (cases "existing_id s (cs_actorSubject i) (cs_idempotencyKey i)")
  case (Some pid)
  with assms obtain p where "when_ok (matchesFrozenPaymentIdentityRequest env p (synthetic_replay i)) s
      (\<lambda>same. (claim_result (if same then EXISTING else HASH_CONFLICT) p, s)) = (Inr c, s')"
    by (auto simp: claimSyntheticPaymentIdentityKey_def when_ok_Inr)
  from frozen_claim_pays [OF this] show ?thesis by (simp add: synthetic_replay_def)
next
  case None
  obtain now s1 where rc: "read_clock env s = (now, s1)" by fastforce
  from assms None obtain hash d key where
    "insert_payment env (synthetic_payment i hash now) key d now s1 = (Inr c, s')"
    by (auto simp: claimSyntheticPaymentIdentityKey_def when_ok_Inr Let_def rc)
  then show ?thesis
    by (rule insert_payment_pays) (simp add: pays_def synthetic_payment_def synthetic_snapshot_def payment_record.defs lifecycle_evidence.defs no_evidence_def)
qed

text \<open>The synthetic store answers with the identity that was asked for.\<close>

definition finds_by_id :: "intent_config \<Rightarrow> bool" where
  "finds_by_id cfg \<longleftrightarrow> (\<forall>f i sy. ic_findSynthetic cfg = Some f \<longrightarrow> f i = Inr (Some sy) \<longrightarrow> sy_syntheticId sy = i)"

lemma claim_either_pays:
  assumes "claim_identity env cfg newId a key rid trust amount pu w = (Inr c, w')" and "finds_by_id cfg"
  shows "claim_pays c amount pu rid"
proof -
  from assms(1) obtain synthetic where f: "(case ic_findSynthetic cfg of None \<Rightarrow> Inr None | Some findById \<Rightarrow> findById rid) = Inr synthetic"
    and run: "(let (now, w') = service_now cfg w in
       case synthetic of
         Some sy \<Rightarrow> on_payments (claimSyntheticPaymentIdentityKey env
           \<lparr>cs_id = newId, cs_actorSubject = actor_subject a, cs_senderAccountId = actor_accountId a,
            cs_idempotencyKey = key, cs_syntheticId = sy_syntheticId sy, cs_username = sy_username sy,
            cs_displayName = sy_displayName sy, cs_network = ''solana-devnet'', cs_rail = ''solana'',
            cs_asset = ''USDC'', cs_mintAddress = ic_mintAddress cfg, cs_amountRaw = amount,
            cs_purpose = pu, cs_capturedAt = now\<rparr>) w'
       | None \<Rightarrow> on_payments (claimPaymentIdentityKey env (ic_resolver cfg)
           \<lparr>ci_id = newId, ci_actorSubject = actor_subject a, ci_senderAccountId = actor_accountId a,
            ci_idempotencyKey = key, ci_recipientAccountId = rid, ci_trustAcknowledged = trust,
            ci_network = ''solana-devnet'', ci_rail = ''solana'', ci_asset = ''USDC'',
            ci_mintAddress = ic_mintAddress cfg, ci_amountRaw = amount, ci_purpose = pu,
            ci_capturedAt = now\<rparr>) w') = (Inr c, w')"
    unfolding claim_identity_def when_ok_Inr by blast
  show ?thesis
  proof (cases synthetic)
    case None
    with run show ?thesis
      by (auto simp: Let_def split: prod.splits dest!: on_payments_result claim_identity_pays)
  next
    case (Some sy)
    then have "sy_syntheticId sy = rid" using f assms(2) by (auto simp: finds_by_id_def split: option.splits)
    with Some run show ?thesis
      by (auto simp: Let_def split: prod.splits dest!: on_payments_result claim_synthetic_pays)
  qed
qed

lemma created_identity_shows:
  assumes "create_identity_intent env cfg newId a key rid trust amount pu w = (Inr (x, made), w')" and "finds_by_id cfg"
  shows "shows_payment x amount pu rid"
proof -
  from assms(1) obtain replay w1 where r: "on_payments (replayPaymentIdentityKey env
         \<lparr>rp_actorSubject = actor_subject a, rp_idempotencyKey = key, rp_recipientId = rid,
          rp_trustAcknowledged = trust, rp_network = ''solana-devnet'', rp_rail = ''solana'', rp_asset = ''USDC'',
          rp_mintAddress = ic_mintAddress cfg, rp_amountRaw = amount, rp_purpose = pu\<rparr>) w = (Inr replay, w1)"
    and run: "(case replay of
         Some c \<Rightarrow> (claimResult c, w1)
       | None \<Rightarrow> then_do (catch_claim (claim_identity env cfg newId a key rid trust amount pu w1))
           (\<lambda>c w2. (claimResult c, w2))) = (Inr (x, made), w')"
    unfolding create_identity_intent_def then_do_Inr by blast
  show ?thesis
  proof (cases replay)
    case (Some c)
    then have cr: "claimResult c = Inr (x, made)" using run by simp
    obtain p where "when_ok (matchesFrozenPaymentIdentityRequest env p
         \<lparr>rp_actorSubject = actor_subject a, rp_idempotencyKey = key, rp_recipientId = rid,
          rp_trustAcknowledged = trust, rp_network = ''solana-devnet'', rp_rail = ''solana'', rp_asset = ''USDC'',
          rp_mintAddress = ic_mintAddress cfg, rp_amountRaw = amount, rp_purpose = pu\<rparr>) (iw_payments w)
        (\<lambda>same. (claim_result (if same then EXISTING else HASH_CONFLICT) p, iw_payments w)) = (Inr c, iw_payments w)"
      using on_payments_result [OF r] Some
      by (auto simp: replayPaymentIdentityKey_def when_ok_Inr and_then_Inr split: option.splits)
    from claimed_pays_shown [OF cr frozen_claim_pays [OF this]] show ?thesis by simp
  next
    case None
    with run obtain c w2 where cl: "catch_claim (claim_identity env cfg newId a key rid trust amount pu w1) = (Inr c, w2)"
      and cr: "claimResult c = Inr (x, made)" by (auto simp: then_do_Inr)
    then obtain w3 where "claim_identity env cfg newId a key rid trust amount pu w1 = (Inr c, w3)"
      by (auto simp: catch_claim_def prod_eq_iff split: sum.splits)
    from claimed_pays_shown [OF cr claim_either_pays [OF this assms(2)]] show ?thesis .
  qed
qed

lemma created_intent_shows:
  assumes "create_intent env cfg newId c key (PaymentIdentityPaymentIntentRequest rid (rawUsdcToDisplay amount) pu trust) w =
      (Inr (x, made), w')"
    and "finds_by_id cfg" and "0 \<le> amount"
  shows "shows_payment x amount pu rid"
proof -
  have "usdcAmountToRaw (rawUsdcToDisplay amount) = Inr amount"
    using display_to_raw [of "nat amount"] assms(3) by simp
  with assms(1) obtain a w2 where
    "create_identity_intent env cfg newId a key rid trust amount pu w2 = (Inr (x, made), w')"
    by (auto simp: create_intent_def then_do_Inr when_ok_Inr intent_amount_def)
  then show ?thesis using assms(2) by (rule created_identity_shows)
qed

lemma on_requests_result:
  "on_requests f w = (r, w') \<Longrightarrow> f (qw_requests w) = (r, qw_requests w') \<and> w' = w\<lparr>qw_requests := qw_requests w'\<rparr>"
  by (auto simp: on_requests_def split: prod.splits)

lemma request_actor_requests: "request_actor env c w = (r, w') \<Longrightarrow> qw_requests w' = qw_requests w"
  by (auto simp: request_actor_def on_intents_def split: prod.splits)

lemma request_access_granted:
  assumes "request_access env cfg subject w = (Inr u, w')"
  shows "qw_requests w' = qw_requests w \<and> hasActivePaymentAccess env (ic_allowlistRequired (qc_intents cfg))
    (findAllowlistEntry (iw_payments (qw_intents w)) subject) (qc_clock cfg (qw_clockReads w))"
  using assms by (auto simp: request_access_def request_now_def request_error_def split: if_splits)

lemma ownedPending_Inr:
  "ownedPending w i a role v = Inr r \<longleftrightarrow>
     find_request (qw_requests w) i = Some r \<and> party role r = a \<and> rq_status r = PENDING \<and> rq_version r = v"
  by (auto simp: ownedPending_def request_not_found_def request_conflict_def request_error_def split: option.splits)

lemma accept_write_linked:
  assumes "accept_write i v a at_time intent w = (Inr ans, w')" and "requests_ok (qw_requests w)"
  shows "aa_paymentIntent ans = intent \<and> (\<exists>r. find_request (qw_requests w') i = Some r \<and> rq_status r = ACCEPTED \<and>
     rq_linkedPaymentIntentId r = Some (pp_id intent) \<and> aa_paymentRequest ans = publicRequest r a)"
proof -
  let ?t = "\<lparr>qt_requestId = i, qt_expectedVersion = v, qt_actorAccountId = a, qt_toStatus = TO_ACCEPTED,
           qt_occurredAt = at_time, qt_linkedPaymentIntentId = Some (pp_id intent)\<rparr>"
  obtain r u where ru: "on_requests (transition_request ?t) w = (r, u)" by fastforce
  note tr = on_requests_result [OF ru, THEN conjunct1]
  show ?thesis
  proof (cases r)
    case (Inr x)
    then have run: "transition_request ?t (qw_requests w) = (Inr x, qw_requests u)" using tr by simp
    then obtain c where c: "js_get (qs_requests (qw_requests w)) i = Some c" "x = decided ?t c"
      "qw_requests u = (qw_requests w)\<lparr>qs_requests := js_set (qs_requests (qw_requests w)) (rq_requestId c) (decided ?t c)\<rparr>"
      by (cases rule: transition_request_cases) auto
    have "rq_requestId c = i" using requests_okD(1) [OF assms(2) c(1)] .
    then have "find_request (qw_requests u) i = Some x" using c by (simp add: find_request_def)
    moreover have "rq_status x = ACCEPTED" "rq_linkedPaymentIntentId x = Some (pp_id intent)"
      using c(2) by (simp_all add: decided_def Let_def)
    moreover have "w' = u" "ans = \<lparr>aa_paymentRequest = publicRequest x a, aa_paymentIntent = intent, aa_applied = True\<rparr>"
      using assms(1) ru Inr by (auto simp: accept_write_def)
    ultimately show ?thesis by simp
  next
    case (Inl e)
    with assms(1) ru show ?thesis
      by (auto simp: accept_write_def request_conflict_def request_error_def split: if_splits option.splits)
  qed
qed

text \<open>C17: An answered acceptance came from the payer of the pending request, with access, and the request is then
  accepted and linked to a payment intent of exactly its amount and purpose that pays the requester. The changes
  other requests make in between are assumed to keep the repository well-formed, and the synthetic store to find
  by id.\<close>

theorem acceptance_pays_the_request:
  assumes "accept_request env cfg others newId c i version trust w = (Inr ans, w')"
    and "requests_ok (qw_requests w)" and "\<And>s. requests_ok s \<Longrightarrow> requests_ok (others s)"
    and "finds_by_id (qc_intents cfg)" and "\<And>r. find_request (qw_requests w) i = Some r \<Longrightarrow> 0 \<le> rq_amountRaw r"
  shows "\<exists>a w1 r. request_actor env c w = (Inr a, w1) \<and>
    hasActivePaymentAccess env (ic_allowlistRequired (qc_intents cfg))
      (findAllowlistEntry (iw_payments (qw_intents w1)) (actor_subject a)) (qc_clock cfg (qw_clockReads w1)) \<and>
    find_request (qw_requests w) i = Some r \<and> rq_payerAccountId r = actor_accountId a \<and> rq_status r = PENDING \<and>
    rq_version r = version \<and>
    shows_payment (aa_paymentIntent ans) (rq_amountRaw r) (rq_purpose r) (rq_requesterAccountId r) \<and>
    (\<exists>r'. find_request (qw_requests w') i = Some r' \<and> rq_status r' = ACCEPTED \<and>
       rq_linkedPaymentIntentId r' = Some (pp_id (aa_paymentIntent ans)))"
proof -
  from assms(1) obtain a w1 u w2 r intent w3 where
    act: "request_actor env c w = (Inr a, w1)"
    and acc: "request_access env cfg (actor_subject a) w1 = (Inr u, w2)"
    and own: "ownedPending w2 i (actor_accountId a) Payer version = Inr r"
    and cr: "catch_economic intent_error (on_intents (create_intent env (qc_intents cfg) newId c
         (''payment-request:'' @ rq_requestId r)
         (PaymentIdentityPaymentIntentRequest (rq_requesterAccountId r) (rawUsdcToDisplay (rq_amountRaw r))
            (rq_purpose r) trust)) w2) = (Inr intent, w3)"
    and fin: "(let (now, w4) = request_now cfg (meanwhile others w3) in
       accept_write i version (actor_accountId a) now (fst intent) w4) = (Inr ans, w')"
    unfolding accept_request_def then_do_Inr when_ok_Inr by blast
  have q2: "qw_requests w2 = qw_requests w"
    using request_actor_requests [OF act] request_access_granted [OF acc] by simp
  have own': "find_request (qw_requests w) i = Some r" "rq_payerAccountId r = actor_accountId a" "rq_status r = PENDING"
    "rq_version r = version" using own q2 by (simp_all add: ownedPending_Inr party_def)
  obtain x made where x: "intent = (x, made)" by fastforce
  from cr have ci: "on_intents (create_intent env (qc_intents cfg) newId c
         (''payment-request:'' @ rq_requestId r)
         (PaymentIdentityPaymentIntentRequest (rq_requesterAccountId r) (rawUsdcToDisplay (rq_amountRaw r))
            (rq_purpose r) trust)) w2 = (Inr intent, w3)"
    by (auto simp: catch_economic_def prod_eq_iff split: sum.splits)
  then obtain iw where "create_intent env (qc_intents cfg) newId c (''payment-request:'' @ rq_requestId r)
         (PaymentIdentityPaymentIntentRequest (rq_requesterAccountId r) (rawUsdcToDisplay (rq_amountRaw r))
            (rq_purpose r) trust) (qw_intents w2) = (Inr (x, made), iw)" "qw_requests w3 = qw_requests w2"
    using x by (auto simp: on_intents_def split: prod.splits)
  note made = this
  have sh: "shows_payment x (rq_amountRaw r) (rq_purpose r) (rq_requesterAccountId r)"
    by (rule created_intent_shows [OF made(1) assms(4,5)]) (rule own'(1))
  obtain now w4 where n: "request_now cfg (meanwhile others w3) = (now, w4)" by fastforce
  then have "qw_requests w4 = others (qw_requests w)" using made(2) q2 by (auto simp: request_now_def meanwhile_def)
  then have ok4: "requests_ok (qw_requests w4)" using assms(2,3) by simp
  have "accept_write i version (actor_accountId a) now x w4 = (Inr ans, w')" using fin n x by simp
  from accept_write_linked [OF this ok4] have "aa_paymentIntent ans = x"
    "\<exists>r'. find_request (qw_requests w') i = Some r' \<and> rq_status r' = ACCEPTED \<and> rq_linkedPaymentIntentId r' = Some (pp_id x)"
    by blast+
  with act acc own' sh show ?thesis using request_access_granted [OF acc] by blast
qed

section \<open>A sample request\<close>

definition sample_party :: party_snapshot where
  "sample_party = \<lparr>py_accountId = sample_uuid ''b'', py_username = ''Nova'', py_displayName = ''Nova'',
     py_accountType = PERSONAL, py_verificationState = VERIFIED, py_capturedAt = ''t''\<rparr>"

definition sample_new_request :: create_payment_request where
  "sample_new_request = \<lparr>cq_requestId = sample_uuid ''7'', cq_requesterAccountId = sample_uuid ''b'',
     cq_requesterActorSubject = ''zp:account:b'', cq_payerAccountId = sample_uuid ''a'', cq_requesterSnapshot = sample_party,
     cq_payerSnapshot = sample_party, cq_amountRaw = 5, cq_purpose = None, cq_requestHash = ''h'',
     cq_idempotencyKey = ''k'', cq_occurredAt = ''t''\<rparr>"

definition sample_requests :: request_store where
  "sample_requests = snd (claim_request sample_new_request empty_request_store)"

definition sample_decline :: request_transition where
  "sample_decline = \<lparr>qt_requestId = sample_uuid ''7'', qt_expectedVersion = 0, qt_actorAccountId = sample_uuid ''a'',
     qt_toStatus = TO_DECLINED, qt_occurredAt = ''u'', qt_linkedPaymentIntentId = None\<rparr>"

lemma sample_requests_ok: "requests_ok sample_requests"
proof -
  have "fresh_request (ClaimRequest sample_new_request) empty_request_store"
    by (simp add: sample_new_request_def sample_uuid_def empty_request_store_def)
  from run_request_ok [OF requests_ok_empty this] show ?thesis by (simp add: sample_requests_def)
qed

lemma request_decided_once_witness:
  "\<exists>r t. transition_request sample_decline sample_requests = (Inr r, t) \<and>
     find_request t (sample_uuid ''7'') = Some r \<and>
     (\<exists>e. transition_request (sample_decline\<lparr>qt_expectedVersion := 1, qt_toStatus := TO_ACCEPTED\<rparr>) t = (Inl e, t))"
proof -
  have "(case fst (transition_request sample_decline sample_requests) of Inr r \<Rightarrow> rq_status r \<noteq> ACCEPTED | _ \<Rightarrow> False)"
    by code_simp
  then obtain r t where t: "transition_request sample_decline sample_requests = (Inr r, t)" "rq_status r \<noteq> ACCEPTED"
    by (cases "transition_request sample_decline sample_requests") (auto split: sum.splits)
  from request_decided_once [OF sample_requests_ok t(1) rtranclp.rtrancl_refl,
      of "sample_decline\<lparr>qt_expectedVersion := 1, qt_toStatus := TO_ACCEPTED\<rparr>"] t
  show ?thesis by (auto simp: sample_decline_def)
qed

definition sample_request_world :: request_world where
  "sample_request_world = \<lparr>qw_intents = sample_world, qw_economic = empty_economic_store, qw_synthetic = None,
     qw_requests = sample_requests, qw_executions = None, qw_clockReads = 0\<rparr>"

definition sample_request_config :: request_config where
  "sample_request_config = \<lparr>qc_intents = sample_config\<lparr>ic_allowlistRequired := Some ''false'',
       ic_resolver := Some (\<lambda>i. Inr (Some \<lparr>ri_username = ''Nova'', ri_displayName = ''Nova'', ri_accountType = ''PERSONAL'',
         ri_verificationState = ''VERIFIED'', ri_payabilityState = ''AVAILABLE'', ri_destinationAddress = ''dest''\<rparr>))\<rparr>,
     qc_clock = (\<lambda>n. ''r'' @ nat_to_dec n)\<rparr>"

lemma sample_principal:
  obtains a xs where "resolvePrincipal sample_env (sample_uuid ''d'') (sample_uuid ''e'') (plain_principal ''https://issuer/'' ''user-1'')
      sample_provisioned = (Inr (a, xs), sample_provisioned)" "ac_accountId a = sample_uuid ''a''" "ac_actorSubject a = sample_subject"
proof -
  let ?r = "resolvePrincipal sample_env (sample_uuid ''d'') (sample_uuid ''e'') (plain_principal ''https://issuer/'' ''user-1'')
      sample_provisioned"
  have "(case fst ?r of Inr (a, xs) \<Rightarrow> ac_accountId a = sample_uuid ''a'' \<and> ac_actorSubject a = sample_subject | _ \<Rightarrow> False)"
    by code_simp
  moreover have "snd ?r = sample_provisioned" by code_simp
  ultimately show thesis using that by (cases ?r) (auto split: sum.splits)
qed

definition sample_request_actor :: actor where
  "sample_request_actor = \<lparr>actor_subject = sample_subject, actor_accountId = sample_uuid ''a''\<rparr>"

lemma sample_claimed:
  "case fst (create_identity_intent sample_env (qc_intents sample_request_config) (sample_uuid ''9'') sample_request_actor
     (''payment-request:'' @ sample_uuid ''7'') (sample_uuid ''b'') False 5 None (sample_world\<lparr>iw_clockReads := 1\<rparr>)) of
     Inr x \<Rightarrow> pp_id (fst x) \<noteq> '''' | _ \<Rightarrow> False"
  by code_simp

lemma sample_access_granted: "hasActivePaymentAccess env (Some ''false'') entry now"
proof -
  have "\<not> betaAllowlistRequired (Some ''false'')" by code_simp
  then show ?thesis by (simp add: hasActivePaymentAccess_def)
qed

lemma sample_created_intent:
  obtains x w' where "create_intent sample_env (qc_intents sample_request_config) (sample_uuid ''9'') sample_caller
    (''payment-request:'' @ sample_uuid ''7'') (PaymentIdentityPaymentIntentRequest (sample_uuid ''b'') (rawUsdcToDisplay 5) None False)
    sample_world = (Inr x, w')" "pp_id (fst x) \<noteq> ''''"
proof -
  obtain a xs where p: "resolvePrincipal sample_env (sample_uuid ''d'') (sample_uuid ''e'') (plain_principal ''https://issuer/'' ''user-1'')
      sample_provisioned = (Inr (a, xs), sample_provisioned)" "ac_accountId a = sample_uuid ''a''" "ac_actorSubject a = sample_subject"
    by (rule sample_principal)
  have "resolveActor sample_env sample_caller sample_world = (Inr sample_request_actor, sample_world)"
    using p by (simp add: resolveActor_def on_accounts_def sample_world_def sample_caller_def sample_request_actor_def)
  moreover have "requireActiveAllowlist sample_env (qc_intents sample_request_config) s sample_world =
      (Inr (), sample_world\<lparr>iw_clockReads := 1\<rparr>)" for s
    using sample_access_granted
    by (simp add: requireActiveAllowlist_def service_now_def sample_request_config_def sample_world_def)
  moreover have "usdcAmountToRaw (rawUsdcToDisplay 5) = Inr 5" using display_to_raw [of 5] by simp
  ultimately show thesis using sample_claimed that
    by (cases "create_identity_intent sample_env (qc_intents sample_request_config) (sample_uuid ''9'') sample_request_actor
       (''payment-request:'' @ sample_uuid ''7'') (sample_uuid ''b'') False 5 None (sample_world\<lparr>iw_clockReads := 1\<rparr>)")
      (auto simp: create_intent_def intent_amount_def split: sum.splits)
qed

lemma sample_pending:
  obtains r where "find_request sample_requests (sample_uuid ''7'') = Some r" "rq_payerAccountId r = sample_uuid ''a''"
    "rq_status r = PENDING" "rq_version r = 0" "rq_requestId r = sample_uuid ''7''" "rq_requesterAccountId r = sample_uuid ''b''"
    "rq_amountRaw r = 5" "rq_purpose r = None"
proof -
  have "find_request sample_requests (sample_uuid ''7'') = Some (new_request sample_new_request)"
    by (simp add: sample_requests_def claim_request_def findByIdempotencyKey_def empty_request_store_def find_request_def
        sample_new_request_def)
  then show thesis using that by (simp add: new_request_def sample_new_request_def)
qed

lemma sample_acceptance:
  obtains ans w' where "accept_request sample_env sample_request_config id (sample_uuid ''9'') sample_caller (sample_uuid ''7'') 0 False
     sample_request_world = (Inr ans, w')"
proof -
  obtain a xs where p: "resolvePrincipal sample_env (sample_uuid ''d'') (sample_uuid ''e'') (plain_principal ''https://issuer/'' ''user-1'')
      sample_provisioned = (Inr (a, xs), sample_provisioned)" "ac_accountId a = sample_uuid ''a''" "ac_actorSubject a = sample_subject"
    by (rule sample_principal)
  have act: "request_actor sample_env sample_caller sample_request_world = (Inr sample_request_actor, sample_request_world)"
    using p by (simp add: request_actor_def on_intents_def on_accounts_def sample_request_world_def sample_world_def
        sample_caller_def sample_request_actor_def)
  let ?w = "sample_request_world\<lparr>qw_clockReads := 1\<rparr>"
  have acc: "request_access sample_env sample_request_config s sample_request_world = (Inr (), ?w)" for s
    using sample_access_granted
    by (simp add: request_access_def request_now_def sample_request_config_def sample_request_world_def)
  obtain r where r: "find_request sample_requests (sample_uuid ''7'') = Some r" "rq_payerAccountId r = sample_uuid ''a''"
    "rq_status r = PENDING" "rq_version r = 0" "rq_requestId r = sample_uuid ''7''" "rq_requesterAccountId r = sample_uuid ''b''"
    "rq_amountRaw r = 5" "rq_purpose r = None" by (rule sample_pending)
  have own: "ownedPending ?w (sample_uuid ''7'') (sample_uuid ''a'') Payer 0 = Inr r"
    using r by (simp add: ownedPending_Inr party_def sample_request_world_def)
  obtain x iw where x: "create_intent sample_env (qc_intents sample_request_config) (sample_uuid ''9'') sample_caller
    (''payment-request:'' @ sample_uuid ''7'') (PaymentIdentityPaymentIntentRequest (sample_uuid ''b'') (rawUsdcToDisplay 5) None False)
    sample_world = (Inr x, iw)" "pp_id (fst x) \<noteq> ''''" by (rule sample_created_intent)
  have "\<exists>ans w'. accept_write (sample_uuid ''7'') 0 (sample_uuid ''a'') t (fst x) v = (Inr ans, w')"
    if "qw_requests v = sample_requests" for t v
    using r x(2) that by (simp add: accept_write_def on_requests_def transition_request_def find_request_def Let_def)
  note written = this
  have int: "qw_intents ?w = sample_world" by (simp add: sample_request_world_def)
  have "\<exists>ans w'. accept_request sample_env sample_request_config id (sample_uuid ''9'') sample_caller (sample_uuid ''7'') 0 False
     sample_request_world = (Inr ans, w')"
    unfolding accept_request_def act then_do_simps acc
    using own r x(1) int
    by (simp add: sample_request_actor_def on_intents_def catch_economic_def request_now_def meanwhile_def written
        sample_request_world_def)
  with that show thesis by blast
qed

lemma acceptance_pays_the_request_witness:
  "\<exists>ans w'. accept_request sample_env sample_request_config id (sample_uuid ''9'') sample_caller (sample_uuid ''7'') 0 False
     sample_request_world = (Inr ans, w') \<and> shows_payment (aa_paymentIntent ans) 5 None (sample_uuid ''b'')"
proof -
  obtain ans w' where a: "accept_request sample_env sample_request_config id (sample_uuid ''9'') sample_caller (sample_uuid ''7'') 0 False
     sample_request_world = (Inr ans, w')" by (rule sample_acceptance)
  have f: "finds_by_id (qc_intents sample_request_config)" by (simp add: finds_by_id_def sample_request_config_def sample_config_def)
  have q: "qw_requests sample_request_world = sample_requests" by (simp add: sample_request_world_def)
  obtain r where r: "find_request sample_requests (sample_uuid ''7'') = Some r" "rq_requesterAccountId r = sample_uuid ''b''"
    "rq_amountRaw r = 5" "rq_purpose r = None" by (rule sample_pending)
  from acceptance_pays_the_request [OF a _ _ f] q sample_requests_ok r a show ?thesis by force
qed

end
