(* ===== verification/PostgresTables.thy ===== *)
theory PostgresTables
  imports PaymentStore
begin

text \<open>
  The tables of \<open>src/migrations\<close> that \<open>src/storage/postgres/postgresPaymentPersistence.ts\<close> reads and writes,
  as the database holds them: one list per table, with the check constraints, the unique indexes, the
  foreign keys and the triggers of the migrations as functions that say why a statement is refused. A
  transaction runs on a copy of the tables and collects the deferred triggers its statements queue; COMMIT
  evaluates them on the rows it would publish, and any error leaves every row as it was. Only the identity
  sequence and the count of transactions go on, as they do in PostgreSQL.

  How PostgreSQL reads a uuid, a time stamp and a JSON document is not code of this repository: it is an
  argument of the model (record \<open>database\<close>); the only thing a property assumes of it is that a canonical
  uuid has 36 characters (\<open>proper_database\<close>). The row locks
  (\<open>FOR UPDATE\<close>, the advisory locks) are the reason why a transaction is one step here. The column
  \<open>execution_receipt_id\<close>, which only the Devnet completion writes, is NULL in these rows and left out.
\<close>

section \<open>Values\<close>

record database =
  db_now :: "nat \<Rightarrow> string"
    \<comment> \<open>\<open>now()\<close> of the nth transaction, as the driver reads it\<close>
  db_timestamp :: "string \<Rightarrow> string option"
    \<comment> \<open>a text written as timestamptz and read back as an ISO text\<close>
  db_compare :: "string \<Rightarrow> string \<Rightarrow> int"
    \<comment> \<open>the order of two time stamps\<close>
  db_uuid :: "string \<Rightarrow> string option"
  db_jsonb :: "json \<Rightarrow> json option"

definition sql_error :: "string \<Rightarrow> 'a result" where
  "sql_error m = Inl (Err PlainError m)"

text \<open>A text parameter: PostgreSQL has no NUL character.\<close>

definition sql_text :: "string \<Rightarrow> string result" where
  "sql_text s = (if CHR 0x00 \<in> set s then sql_error ''invalid byte sequence for encoding UTF8: 0x00'' else Inr s)"

definition sql_uuid :: "database \<Rightarrow> string \<Rightarrow> string result" where
  "sql_uuid db s = (case db_uuid db s of None \<Rightarrow> sql_error ''invalid input syntax for type uuid'' | Some u \<Rightarrow> Inr u)"

definition sql_timestamp :: "database \<Rightarrow> string \<Rightarrow> string result" where
  "sql_timestamp db s = (case db_timestamp db s of
     None \<Rightarrow> sql_error ''invalid input syntax for type timestamp with time zone'' | Some t \<Rightarrow> Inr t)"

definition sql_bigint :: "int \<Rightarrow> int result" where
  "sql_bigint n = (if n < - POSTGRES_BIGINT_MAX - 1 \<or> n > POSTGRES_BIGINT_MAX
     then sql_error ''value is out of range for type bigint'' else Inr n)"

definition sql_jsonb :: "database \<Rightarrow> json \<Rightarrow> json result" where
  "sql_jsonb db j = (case db_jsonb db j of None \<Rightarrow> sql_error ''invalid input syntax for type json'' | Some k \<Rightarrow> Inr k)"

definition sql_jsonb_object :: "database \<Rightarrow> json_object \<Rightarrow> json_object result" where
  "sql_jsonb_object db d = and_then (sql_jsonb db (JObject d)) (\<lambda>j.
     case j of JObject m \<Rightarrow> Inr m | _ \<Rightarrow> sql_error ''invalid input syntax for type json'')"

text \<open>A parameter that is \<open>value ?? null\<close>.\<close>

abbreviation sql_nullable :: "('a \<Rightarrow> 'b result) \<Rightarrow> 'a option \<Rightarrow> 'b option result" where
  "sql_nullable f v \<equiv> (case v of None \<Rightarrow> Inr None | Some x \<Rightarrow> and_then (f x) (\<lambda>y. Inr (Some y)))"

text \<open>\<open>decode($n,'hex')\<close> of a digest, read back in lower-case hex.\<close>

definition sql_digest :: "string \<Rightarrow> string result" where
  "sql_digest h = (if is_sha256_hex h then Inr h else sql_error ''invalid hexadecimal data'')"

text \<open>\<open>btrim(text)\<close> removes spaces only.\<close>

definition sql_btrim :: "string \<Rightarrow> string" where
  "sql_btrim s = rev (dropWhile (\<lambda>c. c = CHR '' '') (rev (dropWhile (\<lambda>c. c = CHR '' '') s)))"

section \<open>Tables\<close>

record account_row =
  ac_accountId :: string
  ac_actorSubject :: string
  ac_status :: string

record identity_row =
  ie_accountId :: string
  ie_username :: string
  ie_displayName :: string
  ie_accountType :: string
  ie_publicIdentityStatus :: string
  ie_discoverability :: string
  ie_verificationState :: string
  ie_payabilityState :: string

record destination_row =
  de_accountId :: string
  de_destinationType :: string
  de_destinationAddress :: string
  de_status :: string
  de_ownershipState :: string
  de_isPrimary :: bool

record payment_tables =
  pt_allowlist :: "(string, allowlist_entry) js_map"
  pt_accounts :: "account_row list"
  pt_identities :: "identity_row list"
  pt_destinations :: "destination_row list"
  pt_synthetic :: "string list"
  pt_prepared :: "string list"
    \<comment> \<open>the payments with a row in \<open>economic_payment_preparations\<close>\<close>
  pt_payments :: "(string, payment_record) js_map"
  pt_receipts :: "(string, payment_receipt) js_map"
    \<comment> \<open>by \<open>payment_id\<close>, which is unique\<close>
  pt_events :: "payment_event list"
  pt_eventSequence :: int
  pt_transactions :: nat

definition empty_tables :: payment_tables where
  "empty_tables = \<lparr>pt_allowlist = [], pt_accounts = [], pt_identities = [], pt_destinations = [], pt_synthetic = [],
     pt_prepared = [], pt_payments = [], pt_receipts = [], pt_events = [], pt_eventSequence = 1, pt_transactions = 0\<rparr>"

definition events_of :: "'a payment_tables_scheme \<Rightarrow> string \<Rightarrow> payment_event list" where
  "events_of t pid = filter (\<lambda>e. ev_paymentId e = pid) (pt_events t)"

section \<open>Check constraints\<close>

text \<open>The first violated constraint of a row, in the order of their names.\<close>

definition check_row :: "(string \<times> bool) list \<Rightarrow> unit result" where
  "check_row cs = (case find (\<lambda>c. \<not> snd c) cs of
     None \<Rightarrow> Inr () | Some c \<Rightarrow> sql_error (''new row violates check constraint '' @ fst c))"

fun terminal_proof_shape :: "payment_terminal_proof \<Rightarrow> bool" where
  "terminal_proof_shape (PRE_SUBMISSION_REJECTION code reason) = (sql_btrim code \<noteq> '''' \<and> sql_btrim reason \<noteq> '''')"
| "terminal_proof_shape (SOLANA_TRANSACTION_ERROR signature slot e) =
     (sql_btrim signature \<noteq> '''' \<and> (case slot of None \<Rightarrow> True | Some n \<Rightarrow> all_digits n))"
| "terminal_proof_shape (EXPIRED_UNSIGNED_TRANSACTION blockhash height signed attempted) =
     (sql_btrim blockhash \<noteq> '''' \<and> all_digits height \<and> \<not> signed \<and> \<not> attempted)"

definition recipient_identity_shape :: "payment_record \<Rightarrow> bool" where
  "recipient_identity_shape p = (case p_recipientType p of
     DIRECT_WALLET \<Rightarrow> p_recipientAccountId p = None \<and> p_recipientSyntheticId p = None \<and> p_recipientSnapshot p = None \<and>
       p_recipientSnapshotVersion p = None \<and> p_trustConfirmationOutcome p = None
   | PAYMENT_IDENTITY \<Rightarrow> (case (p_recipientSnapshot p, p_trustConfirmationOutcome p) of
       (Some sn, Some trust) \<Rightarrow> p_recipientSnapshotVersion p = Some 1 \<and> (trust = NOT_REQUIRED \<or> trust = ACKNOWLEDGED) \<and>
         sn_schemaVersion sn = 1 \<and> sn_trustOutcome sn = trust \<and>
         (case (p_recipientAccountId p, p_recipientSyntheticId p) of
            (Some a, None) \<Rightarrow> sn_identitySource sn = Some ''RECIPIENT_DIRECTORY'' \<and> sn_accountId sn = a
          | (None, Some y) \<Rightarrow> sn_identitySource sn = Some ''SYNTHETIC_BETA'' \<and> sn_accountId sn = y
          | _ \<Rightarrow> False)
     | _ \<Rightarrow> False))"

definition payment_checks :: "payment_record \<Rightarrow> unit result" where
  "payment_checks p = check_row
     [(''payments_amount_positive'', p_amountRaw p > 0),
      (''payments_completed_evidence'', p_status p \<noteq> COMPLETED \<or>
         completedAt p \<noteq> None \<and> solanaSignature p \<noteq> None \<and> confirmedSlot p \<noteq> None \<and> chainError p = None \<and> receiptPda p \<noteq> None),
      (''payments_confirmation_boundary'', p_status p = AWAITING_CONFIRMATION \<or> userConfirmedAt p \<noteq> None \<or> p_status p = FAILED),
      (''payments_devnet_only'', p_network p = ''solana-devnet''),
      (''payments_failed_evidence'', p_status p \<noteq> FAILED \<or>
         failedAt p \<noteq> None \<and> failureCode p \<noteq> None \<and> terminalProof p \<noteq> None),
      (''payments_idempotency_key_length'', 16 \<le> length (p_idempotencyKey p) \<and> length (p_idempotencyKey p) \<le> 128),
      (''payments_processing_started'', p_status p \<notin> {PROCESSING, UNKNOWN, COMPLETED} \<or> executionStartedAt p \<noteq> None),
      (''payments_purpose_length'', (case p_purpose p of None \<Rightarrow> True | Some s \<Rightarrow> 1 \<le> utf8_length s \<and> utf8_length s \<le> 120)),
      (''payments_recipient_identity_shape'', recipient_identity_shape p),
      (''payments_solana_only'', p_rail p = ''solana''),
      (''payments_terminal_exclusive'', completedAt p = None \<or> failedAt p = None),
      (''payments_terminal_proof_shape'', (case terminalProof p of None \<Rightarrow> True | Some t \<Rightarrow> terminal_proof_shape t)),
      (''payments_usdc_only'', p_asset p = ''USDC''),
      (''payments_version_nonnegative'', p_version p \<ge> 0)]"

definition receipt_checks :: "payment_receipt \<Rightarrow> unit result" where
  "receipt_checks r = check_row
     [(''payment_receipts_amount_raw_check'', rc_amountRaw r > 0),
      (''payment_receipts_network_check'', rc_network r = ''solana-devnet''),
      (''payment_receipts_slot_check'', rc_slot r \<ge> 0)]"

section \<open>Unique indexes and foreign keys\<close>

definition duplicate_key :: "string \<Rightarrow> 'a result" where
  "duplicate_key c = sql_error (''duplicate key value violates unique constraint '' @ c)"

definition foreign_key :: "string \<Rightarrow> 'a result" where
  "foreign_key c = sql_error (''insert or update violates foreign key constraint '' @ c)"

text \<open>Another row has this value, where NULL is never equal to anything.\<close>

definition taken_by_other :: "('r \<Rightarrow> string option) \<Rightarrow> (string, 'r) js_map \<Rightarrow> string \<Rightarrow> string option \<Rightarrow> bool" where
  "taken_by_other f rows k v = (v \<noteq> None \<and> (\<exists>r\<in>set rows. fst r \<noteq> k \<and> f (snd r) = v))"

definition payment_uniques :: "'a payment_tables_scheme \<Rightarrow> payment_record \<Rightarrow> unit result" where
  "payment_uniques t p =
     (if taken_by_other solanaSignature (pt_payments t) (p_id p) (solanaSignature p) then duplicate_key ''payments_signature_unique''
      else if taken_by_other receiptPda (pt_payments t) (p_id p) (receiptPda p) then duplicate_key ''payments_receipt_pda_unique''
      else Inr ())"

definition receipt_uniques :: "'a payment_tables_scheme \<Rightarrow> string \<Rightarrow> payment_receipt \<Rightarrow> unit result" where
  "receipt_uniques t pid r =
     (if list_ex (\<lambda>x. rc_id x = rc_id r) (js_values (pt_receipts t)) then duplicate_key ''payment_receipts_pkey''
      else if js_has (pt_receipts t) pid then duplicate_key ''payment_receipts_payment_id_key''
      else if list_ex (\<lambda>x. rc_receiptPda x = rc_receiptPda r) (js_values (pt_receipts t))
      then duplicate_key ''payment_receipts_receipt_pda_key''
      else if list_ex (\<lambda>x. rc_solanaSignature x = rc_solanaSignature r) (js_values (pt_receipts t))
      then duplicate_key ''payment_receipts_solana_signature_key''
      else if \<not> js_has (pt_payments t) pid then foreign_key ''payment_receipts_payment_id_fkey''
      else Inr ())"

text \<open>The event types that \<open>payment_events_authoritative_once\<close> admits once for a payment.\<close>

definition AUTHORITATIVE_EVENT_TYPES :: "payment_event_type list" where
  "AUTHORITATIVE_EVENT_TYPES = [SETTLEMENT_CONFIRMED, SETTLEMENT_FAILED, RECEIPT_VERIFIED]"

definition event_uniques :: "'a payment_tables_scheme \<Rightarrow> payment_event \<Rightarrow> unit result" where
  "event_uniques t e =
     (if list_ex (\<lambda>x. ev_paymentId x = ev_paymentId e \<and> ev_sequenceNumber x = ev_sequenceNumber e) (pt_events t)
      then duplicate_key ''payment_event_sequence_unique''
      else if ev_runtimeEventId e \<noteq> None \<and> list_ex (\<lambda>x. ev_runtimeEventId x = ev_runtimeEventId e) (pt_events t)
      then duplicate_key ''payment_events_runtime_event_unique''
      else if ev_eventType e \<in> set AUTHORITATIVE_EVENT_TYPES \<and>
        list_ex (\<lambda>x. ev_paymentId x = ev_paymentId e \<and> ev_eventType x = ev_eventType e) (pt_events t)
      then duplicate_key ''payment_events_authoritative_once''
      else if \<not> js_has (pt_payments t) (ev_paymentId e) then foreign_key ''payment_events_payment_id_fkey''
      else Inr ())"

section \<open>Triggers that run before an update of a payment\<close>

text \<open>The snapshot has the members of the payment that follow; the others are left blank.\<close>

definition economic_payment_snapshot :: "payment_record \<Rightarrow> payment_record" where
  "economic_payment_snapshot p = lifecycle_evidence.extend no_evidence
     (payment_record.fields (p_id p) (p_actorSubject p) '''' (p_requestHash p) AWAITING_CONFIRMATION (p_version p)
       (p_network p) (p_rail p) (p_asset p) (p_mintAddress p) (p_recipientAddress p) (p_amountRaw p) (p_purpose p)
       (p_recipientType p) (p_recipientAccountId p) None (p_recipientSnapshot p) None None '''' '''')"

definition economic_prepared_payment_guard :: "'a payment_tables_scheme \<Rightarrow> payment_record \<Rightarrow> payment_record \<Rightarrow> unit result" where
  "economic_prepared_payment_guard t old new =
     (if economic_payment_snapshot new \<noteq> economic_payment_snapshot old \<and> p_id old \<in> set (pt_prepared t)
      then sql_error ''prepared payment economics and version are immutable'' else Inr ())"

definition protect_payment_identity_linkage :: "payment_record \<Rightarrow> payment_record \<Rightarrow> unit result" where
  "protect_payment_identity_linkage old new =
     (if p_recipientType new \<noteq> p_recipientType old \<or> p_recipientAddress new \<noteq> p_recipientAddress old \<or>
         p_recipientAccountId new \<noteq> p_recipientAccountId old \<or> p_recipientSyntheticId new \<noteq> p_recipientSyntheticId old \<or>
         p_recipientSnapshot new \<noteq> p_recipientSnapshot old \<or> p_recipientSnapshotVersion new \<noteq> p_recipientSnapshotVersion old \<or>
         p_trustConfirmationOutcome new \<noteq> p_trustConfirmationOutcome old
      then sql_error ''payment recipient linkage is immutable'' else Inr ())"

abbreviation once_set :: "'v option \<Rightarrow> 'v option \<Rightarrow> bool" where
  "once_set old new \<equiv> old = None \<or> new = old"

definition protect_payment_settlement_evidence :: "payment_record \<Rightarrow> payment_record \<Rightarrow> unit result" where
  "protect_payment_settlement_evidence old new =
     (if (p_status old = COMPLETED \<or> p_status old = FAILED) \<and> new \<noteq> old
      then sql_error ''terminal payment records are immutable''
      else if \<not> once_set (solanaSignature old) (solanaSignature new)
      then sql_error ''solana_signature is immutable once observed''
      else if \<not> once_set (receiptPda old) (receiptPda new) then sql_error ''receipt_pda is immutable once observed''
      else if \<not> once_set (confirmedSlot old) (confirmedSlot new)
      then sql_error ''confirmed_slot is immutable once observed''
      else if \<not> once_set (submittedSlot old) (submittedSlot new)
      then sql_error ''submitted_slot is immutable once observed''
      else if \<not> once_set (recentBlockhash old) (recentBlockhash new)
      then sql_error ''recent_blockhash is immutable once observed''
      else Inr ())"

definition validate_payment_lifecycle_transition ::
  "'a payment_tables_scheme \<Rightarrow> payment_record \<Rightarrow> payment_record \<Rightarrow> unit result" where
  "validate_payment_lifecycle_transition t old new =
     (if p_status new = p_status old then
        (if lifecycle_evidence.truncate new \<noteq> lifecycle_evidence.truncate old then
           (if p_version new \<noteq> p_version old + 1
            then sql_error ''lifecycle evidence updates must increment version exactly once'' else Inr ())
         else if p_version new \<noteq> p_version old
         then sql_error ''version cannot change without a lifecycle or evidence mutation'' else Inr ())
      else if p_status new \<notin> set (LEGAL_TRANSITIONS (p_status old))
      then sql_error (''illegal payment lifecycle transition: '' @ status_text (p_status old) @ '' -> '' @ status_text (p_status new))
      else if p_version new \<noteq> p_version old + 1
      then sql_error ''payment status transitions must increment version exactly once''
      else if p_status new = FAILED \<and> p_status old = AWAITING_CONFIRMATION \<and>
        (case terminalProof new of None \<Rightarrow> False | Some p \<Rightarrow> \<not> is_pre_submission p)
      then sql_error ''AWAITING_CONFIRMATION may fail only with PRE_SUBMISSION_REJECTION proof''
      else if p_status new = FAILED \<and> (p_status old = PROCESSING \<or> p_status old = UNKNOWN) \<and>
        (case terminalProof new of None \<Rightarrow> False | Some p \<Rightarrow> is_pre_submission p)
      then sql_error (status_text (p_status old) @ '' cannot use PRE_SUBMISSION_REJECTION proof'')
      else if p_status new = COMPLETED \<and> \<not> js_has (pt_receipts t) (p_id new)
      then sql_error ''COMPLETED requires a verified receipt in the same transaction''
      else Inr ())"

section \<open>Triggers that run at COMMIT\<close>

datatype deferred_trigger =
    ReceiptInserted payment_receipt
  | EventInserted payment_event
  | PaymentUpdated payment_record payment_record

text \<open>\<open>a <> b\<close> holds of two values that are there and differ.\<close>

abbreviation differs :: "'v \<Rightarrow> 'v option \<Rightarrow> bool" where
  "differs a b \<equiv> (case b of None \<Rightarrow> False | Some x \<Rightarrow> a \<noteq> x)"

definition validate_receipt_matches_payment :: "payment_tables \<Rightarrow> payment_receipt \<Rightarrow> unit result" where
  "validate_receipt_matches_payment t r = (case js_get (pt_payments t) (rc_paymentId r) of
     None \<Rightarrow> sql_error ''query returned no rows''
   | Some p \<Rightarrow>
       if rc_network r \<noteq> p_network p \<or> rc_mintAddress r \<noteq> p_mintAddress p \<or> rc_recipientAddress r \<noteq> p_recipientAddress p \<or>
          rc_amountRaw r \<noteq> p_amountRaw p \<or> differs (rc_solanaSignature r) (solanaSignature p) \<or>
          differs (rc_receiptPda r) (receiptPda p)
       then sql_error ''receipt settlement evidence does not match payment'' else Inr ())"

definition validate_authoritative_payment_event :: "payment_tables \<Rightarrow> payment_event \<Rightarrow> unit result" where
  "validate_authoritative_payment_event t e =
     (if ev_eventType e \<notin> set AUTHORITATIVE_EVENT_TYPES then Inr ()
      else case js_get (pt_payments t) (ev_paymentId e) of
        None \<Rightarrow> sql_error ''query returned no rows''
      | Some p \<Rightarrow>
          if ev_eventType e = SETTLEMENT_CONFIRMED \<and> \<not> ((p_status p = PROCESSING \<or> p_status p = UNKNOWN) \<and>
             solanaSignature p \<noteq> None \<and> confirmedSlot p \<noteq> None \<and>
             ev_fromStatus e = Some (p_status p) \<and> ev_toStatus e = Some (p_status p))
          then sql_error ''SETTLEMENT_CONFIRMED requires matching confirmation evidence''
          else if ev_eventType e = SETTLEMENT_FAILED \<and> \<not> (p_status p = FAILED \<and> terminalProof p \<noteq> None \<and>
             ev_toStatus e = Some FAILED \<and> js_has (ev_details e) ''terminalProof'')
          then sql_error ''SETTLEMENT_FAILED requires persisted terminal proof''
          else if ev_eventType e = RECEIPT_VERIFIED \<and> \<not> (p_status p = COMPLETED \<and> ev_toStatus e = Some COMPLETED \<and>
             js_has (pt_receipts t) (ev_paymentId e))
          then sql_error ''RECEIPT_VERIFIED requires atomic payment completion and receipt''
          else Inr ())"

definition has_event :: "payment_tables \<Rightarrow> string \<Rightarrow> (payment_event \<Rightarrow> bool) \<Rightarrow> bool" where
  "has_event t pid P = list_ex P (events_of t pid)"

definition validate_payment_transition_artifacts :: "payment_tables \<Rightarrow> payment_record \<Rightarrow> payment_record \<Rightarrow> unit result" where
  "validate_payment_transition_artifacts t old new =
     (if p_status old = AWAITING_CONFIRMATION \<and> p_status new = PROCESSING \<and> \<not> has_event t (p_id new)
         (\<lambda>e. ev_eventType e = USER_CONFIRMED \<and> ev_fromStatus e = Some (p_status old) \<and> ev_toStatus e = Some (p_status new))
      then sql_error ''PROCESSING requires an atomic USER_CONFIRMED event''
      else if p_status old = PROCESSING \<and> p_status new = UNKNOWN \<and> \<not> has_event t (p_id new)
         (\<lambda>e. ev_eventType e = SETTLEMENT_UNKNOWN \<and> ev_fromStatus e = Some (p_status old) \<and> ev_toStatus e = Some (p_status new))
      then sql_error ''UNKNOWN requires an atomic SETTLEMENT_UNKNOWN event''
      else if p_status new = COMPLETED \<and> \<not> (js_has (pt_receipts t) (p_id new) \<and>
         has_event t (p_id new) (\<lambda>e. ev_eventType e = RECEIPT_VERIFIED))
      then sql_error ''COMPLETED requires an atomic receipt and authoritative completion event''
      else if p_status new = FAILED \<and> \<not> has_event t (p_id new) (\<lambda>e. ev_eventType e = SETTLEMENT_FAILED)
      then sql_error ''FAILED requires an atomic SETTLEMENT_FAILED event''
      else Inr ())"

fun run_deferred :: "payment_tables \<Rightarrow> deferred_trigger \<Rightarrow> unit result" where
  "run_deferred t (ReceiptInserted r) = validate_receipt_matches_payment t r"
| "run_deferred t (EventInserted e) = validate_authoritative_payment_event t e"
| "run_deferred t (PaymentUpdated old new) = validate_payment_transition_artifacts t old new"

section \<open>Transactions\<close>

record transaction = payment_tables +
  tx_now :: string
  tx_deferred :: "deferred_trigger list"

definition begin_transaction :: "database \<Rightarrow> payment_tables \<Rightarrow> transaction" where
  "begin_transaction db t = payment_tables.extend t (transaction.fields (db_now db (pt_transactions t)) [])"

text \<open>The rows of one state with the sequence another has reached.\<close>

definition after_transaction :: "payment_tables \<Rightarrow> 'a payment_tables_scheme \<Rightarrow> payment_tables" where
  "after_transaction t x = t\<lparr>pt_eventSequence := pt_eventSequence x, pt_transactions := Suc (pt_transactions x)\<rparr>"

definition transaction_of ::
  "database \<Rightarrow> (transaction \<Rightarrow> (transaction, 'a) outcome) \<Rightarrow> payment_tables \<Rightarrow> (payment_tables, 'a) outcome" where
  "transaction_of db operation t = (case then_do (Inr (), begin_transaction db t) (\<lambda>_. operation) of
     (Inl e, x) \<Rightarrow> (Inl e, after_transaction t x)
   | (Inr v, x) \<Rightarrow>
       (case map_result (run_deferred (payment_tables.truncate x)) (tx_deferred x) of
          Inl e \<Rightarrow> (Inl e, after_transaction t x)
        | Inr u \<Rightarrow> (Inr v, after_transaction (payment_tables.truncate x) x)))"

end
