(* ===== verification/PostgresPayments.thy ===== *)
theory PostgresPayments
  imports PostgresTables
begin

text \<open>
  \<open>src/storage/postgres/postgresPaymentPersistence.ts\<close>: the payment persistence on PostgreSQL. Every method
  is the sequence of its statements on the tables of \<open>PostgresTables\<close>; the inputs are the records the
  in-memory persistence takes. A row is kept as the driver reads it back: an identifier as its canonical
  uuid, a time as its ISO text, a document as PostgreSQL keeps it.
\<close>

section \<open>Reading rows\<close>

text \<open>\<open>mapPayment\<close>: the JSON value null in \<open>chain_error\<close> is read as an absent error.\<close>

definition mapPayment :: "payment_record \<Rightarrow> payment_record result" where
  "mapPayment row = clonePayment (if chainError row = Some JNull then row\<lparr>chainError := None\<rparr> else row)"

definition mapEvent :: "payment_event \<Rightarrow> payment_event result" where
  "mapEvent row = cloneEvent row"

definition mapReceipt :: "payment_receipt \<Rightarrow> payment_receipt result" where
  "mapReceipt row = cloneReceipt row"

definition payment_by_key :: "'a payment_tables_scheme \<Rightarrow> string \<Rightarrow> string \<Rightarrow> payment_record option" where
  "payment_by_key t actor key =
     find (\<lambda>p. p_actorSubject p = actor \<and> p_idempotencyKey p = key) (js_values (pt_payments t))"

definition lockPayment :: "database \<Rightarrow> string \<Rightarrow> 'a payment_tables_scheme \<Rightarrow> payment_record result" where
  "lockPayment db pid x = and_then (sql_uuid db pid) (\<lambda>k. case js_get (pt_payments x) k of
     None \<Rightarrow> throw (''Payment '' @ pid @ '' was not found.'')
   | Some row \<Rightarrow> mapPayment row)"

definition lock_version :: "database \<Rightarrow> string \<Rightarrow> int \<Rightarrow> 'a payment_tables_scheme \<Rightarrow> payment_record result" where
  "lock_version db pid expected x = and_then (lockPayment db pid x) (\<lambda>current.
     if p_version current \<noteq> expected then version_conflict pid else Inr current)"

section \<open>Parameters\<close>

text \<open>A terminal proof as it is stored and read back.\<close>

fun proof_parameter :: "database \<Rightarrow> payment_terminal_proof \<Rightarrow> payment_terminal_proof result" where
  "proof_parameter db (PRE_SUBMISSION_REJECTION code reason) =
     and_then (sql_text code) (\<lambda>c. and_then (sql_text reason) (\<lambda>r. Inr (PRE_SUBMISSION_REJECTION c r)))"
| "proof_parameter db (SOLANA_TRANSACTION_ERROR signature slot e) =
     and_then (sql_text signature) (\<lambda>sig. and_then (sql_nullable sql_text slot) (\<lambda>n.
       and_then (cloneJsonValue e) (\<lambda>j. and_then (sql_jsonb db j) (\<lambda>k. Inr (SOLANA_TRANSACTION_ERROR sig n k)))))"
| "proof_parameter db (EXPIRED_UNSIGNED_TRANSACTION blockhash height signed attempted) =
     and_then (sql_text blockhash) (\<lambda>b. and_then (sql_text height) (\<lambda>h.
       Inr (EXPIRED_UNSIGNED_TRANSACTION b h signed attempted)))"

definition text_evidence :: "lifecycle_evidence \<Rightarrow> unit result" where
  "text_evidence e = and_then (map_result sql_text (List.map_filter (\<lambda>v. v)
     [runtimeId e, runtimePaymentId e, runtimeTransactionId e, solanaSignature e, recentBlockhash e,
      confirmationStatus e, receiptPda e, failureCode e, failureReason e])) (\<lambda>_. Inr ())"

text \<open>The parameters of \<open>updatePayment\<close>.\<close>

definition evidence_parameters :: "database \<Rightarrow> lifecycle_evidence \<Rightarrow> lifecycle_evidence result" where
  "evidence_parameters db e =
     and_then (clone_option cloneJsonValue (chainError e)) (\<lambda>cloned.
     and_then (text_evidence e) (\<lambda>_.
     and_then (sql_nullable (sql_timestamp db) (userConfirmedAt e)) (\<lambda>confirmed.
     and_then (sql_nullable (sql_timestamp db) (executionStartedAt e)) (\<lambda>started.
     and_then (sql_nullable (sql_timestamp db) (submittedAt e)) (\<lambda>submitted.
     and_then (sql_nullable (sql_timestamp db) (lastCheckedAt e)) (\<lambda>checked.
     and_then (sql_nullable (sql_timestamp db) (completedAt e)) (\<lambda>completed.
     and_then (sql_nullable (sql_timestamp db) (failedAt e)) (\<lambda>failed.
     and_then (sql_nullable sql_bigint (submittedSlot e)) (\<lambda>submittedSlot'.
     and_then (sql_nullable sql_bigint (confirmedSlot e)) (\<lambda>confirmedSlot'.
     and_then (sql_nullable (sql_jsonb db) cloned) (\<lambda>chain.
     and_then (sql_nullable (proof_parameter db) (terminalProof e)) (\<lambda>pr.
       Inr (e\<lparr>userConfirmedAt := confirmed, executionStartedAt := started, submittedAt := submitted,
          lastCheckedAt := checked, completedAt := completed, failedAt := failed, submittedSlot := submittedSlot',
          confirmedSlot := confirmedSlot', chainError := chain, terminalProof := pr\<rparr>)))))))))))))"

text \<open>The row after \<open>SET column = COALESCE(parameter, column)\<close>.\<close>

definition coalesced :: "lifecycle_evidence \<Rightarrow> payment_status \<Rightarrow> string \<Rightarrow> payment_record \<Rightarrow> payment_record" where
  "coalesced e status now row = row\<lparr>p_status := status, p_version := p_version row + 1, p_updatedAt := now,
     runtimeId := defined (runtimeId e) (runtimeId row),
     runtimePaymentId := defined (runtimePaymentId e) (runtimePaymentId row),
     runtimeTransactionId := defined (runtimeTransactionId e) (runtimeTransactionId row),
     userConfirmedAt := defined (userConfirmedAt e) (userConfirmedAt row),
     executionStartedAt := defined (executionStartedAt e) (executionStartedAt row),
     submittedAt := defined (submittedAt e) (submittedAt row),
     lastCheckedAt := defined (lastCheckedAt e) (lastCheckedAt row),
     completedAt := defined (completedAt e) (completedAt row),
     failedAt := defined (failedAt e) (failedAt row),
     solanaSignature := defined (solanaSignature e) (solanaSignature row),
     recentBlockhash := defined (recentBlockhash e) (recentBlockhash row),
     submittedSlot := defined (submittedSlot e) (submittedSlot row),
     confirmedSlot := defined (confirmedSlot e) (confirmedSlot row),
     confirmationStatus := defined (confirmationStatus e) (confirmationStatus row),
     chainError := defined (chainError e) (chainError row),
     receiptPda := defined (receiptPda e) (receiptPda row),
     failureCode := defined (failureCode e) (failureCode row),
     failureReason := defined (failureReason e) (failureReason row),
     terminalProof := defined (terminalProof e) (terminalProof row)\<rparr>"

section \<open>Statements\<close>

text \<open>The triggers, checks and indexes an update of a payment passes, in their order.\<close>

definition update_admitted :: "transaction \<Rightarrow> payment_record \<Rightarrow> payment_record \<Rightarrow> unit result" where
  "update_admitted x old new =
     and_then (economic_prepared_payment_guard x old new) (\<lambda>_.
     and_then (protect_payment_identity_linkage old new) (\<lambda>_.
     and_then (protect_payment_settlement_evidence old new) (\<lambda>_.
     and_then (validate_payment_lifecycle_transition x old new) (\<lambda>_.
     and_then (payment_checks new) (\<lambda>_. payment_uniques x new)))))"

definition updatePayment ::
  "database \<Rightarrow> payment_record \<Rightarrow> payment_status \<Rightarrow> lifecycle_evidence \<Rightarrow> transaction \<Rightarrow>
   (transaction, payment_record) outcome" where
  "updatePayment db current status e x =
     when_ok (evidence_parameters db e) x (\<lambda>params.
     case js_get (pt_payments x) (p_id current) of
       None \<Rightarrow> (version_conflict (p_id current), x)
     | Some old \<Rightarrow>
         if p_version old \<noteq> p_version current then (version_conflict (p_id current), x)
         else let new = coalesced params status (tx_now x) old in
           when_ok (sql_bigint (p_version new)) x (\<lambda>_.
           when_ok (update_admitted x old new) x (\<lambda>_.
             (mapPayment new, x\<lparr>pt_payments := js_set (pt_payments x) (p_id current) new,
                tx_deferred := tx_deferred x @ [PaymentUpdated old new]\<rparr>))))"

definition next_sequence :: "payment_event list \<Rightarrow> nat" where
  "next_sequence rows = fold max (map ev_sequenceNumber rows) 0 + 1"

definition appendEvent :: "database \<Rightarrow> payment_event_input \<Rightarrow> transaction \<Rightarrow> (transaction, payment_event) outcome" where
  "appendEvent db i x =
     when_ok (sql_uuid db (ei_paymentId i)) x (\<lambda>pid.
     when_ok (sql_nullable sql_text (ei_runtimeEventId i)) x (\<lambda>runtimeEvent.
     when_ok (sql_nullable sql_text (ei_requestId i)) x (\<lambda>request.
     when_ok (sql_jsonb_object db (coalesce (ei_details i) [])) x (\<lambda>details.
     when_ok (sql_nullable (sql_timestamp db) (ei_occurredAt i)) x (\<lambda>occurredAt.
       let event = \<lparr>ev_id = pt_eventSequence x, ev_paymentId = pid,
             ev_sequenceNumber = next_sequence (events_of x pid), ev_eventType = ei_eventType i,
             ev_fromStatus = ei_fromStatus i, ev_toStatus = ei_toStatus i, ev_runtimeEventId = runtimeEvent,
             ev_requestId = request, ev_details = details, ev_occurredAt = coalesce occurredAt (tx_now x)\<rparr>;
           x1 = x\<lparr>pt_eventSequence := pt_eventSequence x + 1\<rparr> in
       when_ok (event_uniques x event) x1 (\<lambda>_.
         (mapEvent event, x1\<lparr>pt_events := pt_events x @ [event], tx_deferred := tx_deferred x @ [EventInserted event]\<rparr>)))))))"

definition snapshot_parameter :: "payment_identity_snapshot \<Rightarrow> payment_identity_snapshot result" where
  "snapshot_parameter sn = and_then (map_result sql_text
     ([sn_accountId sn, sn_username sn, sn_displayName sn, sn_accountType sn, sn_verificationState sn,
       sn_payabilityState sn, sn_capturedAt sn, sn_resolutionSource sn] @
      (case sn_identitySource sn of None \<Rightarrow> [] | Some v \<Rightarrow> [v]))) (\<lambda>_. Inr sn)"

definition payment_parameters :: "database \<Rightarrow> payment_record \<Rightarrow> payment_record result" where
  "payment_parameters db p =
     and_then (sql_uuid db (p_id p)) (\<lambda>pid.
     and_then (map_result sql_text ([p_actorSubject p, p_idempotencyKey p, p_network p, p_rail p, p_asset p,
        p_mintAddress p, p_recipientAddress p] @ (case p_purpose p of None \<Rightarrow> [] | Some v \<Rightarrow> [v]))) (\<lambda>_.
     and_then (sql_digest (p_requestHash p)) (\<lambda>_.
     and_then (sql_bigint (p_amountRaw p)) (\<lambda>_.
     and_then (sql_nullable (sql_uuid db) (p_recipientAccountId p)) (\<lambda>account.
     and_then (sql_nullable (sql_uuid db) (p_recipientSyntheticId p)) (\<lambda>synthetic.
     and_then (sql_nullable snapshot_parameter (p_recipientSnapshot p)) (\<lambda>_.
       Inr (p\<lparr>p_id := pid, p_recipientAccountId := account, p_recipientSyntheticId := synthetic\<rparr>))))))))"

definition payment_references :: "'a payment_tables_scheme \<Rightarrow> payment_record \<Rightarrow> unit result" where
  "payment_references t p =
     (if \<not> list_ex (\<lambda>a. ac_actorSubject a = p_actorSubject p) (pt_accounts t)
      then foreign_key ''payments_actor_subject_account_fkey''
      else if (case p_recipientAccountId p of None \<Rightarrow> False
        | Some k \<Rightarrow> \<not> list_ex (\<lambda>a. ac_accountId a = k) (pt_accounts t))
      then foreign_key ''payments_recipient_account_id_fkey''
      else if (case p_recipientSyntheticId p of None \<Rightarrow> False | Some k \<Rightarrow> k \<notin> set (pt_synthetic t))
      then foreign_key ''payments_recipient_synthetic_id_fkey''
      else Inr ())"

text \<open>\<open>INSERT INTO payments ... ON CONFLICT (actor_subject, idempotency_key) DO NOTHING RETURNING *\<close>.\<close>

definition insert_payment_row ::
  "database \<Rightarrow> payment_record \<Rightarrow> transaction \<Rightarrow> (transaction, payment_record option) outcome" where
  "insert_payment_row db p x =
     when_ok (payment_parameters db p) x (\<lambda>row.
     when_ok (payment_checks row) x (\<lambda>_.
       if payment_by_key x (p_actorSubject row) (p_idempotencyKey row) \<noteq> None then (Inr None, x)
       else if js_has (pt_payments x) (p_id row) then (duplicate_key ''payments_pkey'', x)
       else when_ok (payment_references x row) x (\<lambda>_.
         (Inr (Some row), x\<lparr>pt_payments := js_set (pt_payments x) (p_id row) row\<rparr>))))"

section \<open>Allowlist\<close>

definition pg_createAllowlistEntry ::
  "database \<Rightarrow> create_allowlist_entry_input \<Rightarrow> payment_tables \<Rightarrow> (payment_tables, allowlist_entry) outcome" where
  "pg_createAllowlistEntry db i = transaction_of db (\<lambda>x.
     when_ok (map_result sql_text (ca_actorSubject i # (case ca_note i of None \<Rightarrow> [] | Some v \<Rightarrow> [v]))) x (\<lambda>_.
     when_ok (sql_nullable (sql_timestamp db) (ca_expiresAt i)) x (\<lambda>expiresAt.
     let entry = \<lparr>al_actorSubject = ca_actorSubject i, al_enabled = coalesce (ca_enabled i) True, al_addedAt = tx_now x,
           al_expiresAt = expiresAt, al_revokedAt = None, al_note = ca_note i\<rparr> in
     when_ok (check_row
         [(''beta_allowlist_expiry_after_add'', (case expiresAt of None \<Rightarrow> True | Some e \<Rightarrow> db_compare db e (tx_now x) > 0)),
          (''beta_allowlist_subject_not_blank'', sql_btrim (ca_actorSubject i) \<noteq> '''' \<and>
             length (sql_btrim (ca_actorSubject i)) \<le> 255)]) x (\<lambda>_.
       if js_has (pt_allowlist x) (ca_actorSubject i) then (duplicate_key ''beta_allowlist_pkey'', x)
       else (Inr entry, x\<lparr>pt_allowlist := js_set (pt_allowlist x) (ca_actorSubject i) entry\<rparr>)))))"

definition pg_findAllowlistEntry :: "string \<Rightarrow> payment_tables \<Rightarrow> allowlist_entry option result" where
  "pg_findAllowlistEntry actor t = and_then (sql_text actor) (\<lambda>a. Inr (js_get (pt_allowlist t) a))"

section \<open>Claims\<close>

definition claim_of :: "(payment_record \<Rightarrow> idempotency_claim) \<Rightarrow> payment_record \<Rightarrow> idempotency_claim result" where
  "claim_of f row = and_then (mapPayment row) (\<lambda>p. Inr (f p))"

text \<open>What an existing payment answers a request that names its key.\<close>

definition existing_claim ::
  "(payment_record \<Rightarrow> bool result) \<Rightarrow> payment_record option \<Rightarrow> idempotency_claim result" where
  "existing_claim same row = (case row of
     None \<Rightarrow> throw ''Cannot read properties of undefined (reading 'id')''
   | Some r \<Rightarrow> and_then (mapPayment r) (\<lambda>p. and_then (same p) (\<lambda>b. Inr (if b then EXISTING p else HASH_CONFLICT p))))"

text \<open>The end of every claim: the insertion, and either the CREATED event or the payment in the way.\<close>

definition claim_row ::
  "database \<Rightarrow> payment_record \<Rightarrow> json_object option \<Rightarrow> (payment_record \<Rightarrow> bool result) \<Rightarrow> transaction \<Rightarrow>
   (transaction, idempotency_claim) outcome" where
  "claim_row db p details same x =
     then_do (insert_payment_row db p x) (\<lambda>inserted y. case inserted of
       Some row \<Rightarrow> then_do (appendEvent db
           \<lparr>ei_paymentId = p_id p, ei_eventType = CREATED, ei_fromStatus = None, ei_toStatus = Some AWAITING_CONFIRMATION,
            ei_runtimeEventId = None, ei_requestId = None, ei_details = details, ei_occurredAt = None\<rparr> y)
         (\<lambda>_ z. (claim_of CLAIMED row, z))
     | None \<Rightarrow> (existing_claim same (payment_by_key y (p_actorSubject p) (p_idempotencyKey p)), y))"

text \<open>The insertion names no recipient columns, so they take their defaults.\<close>

definition wallet_request :: "create_payment_input \<Rightarrow> create_payment_input" where
  "wallet_request i = i\<lparr>cp_recipientType := None, cp_recipientAccountId := None, cp_recipientSyntheticId := None,
     cp_recipientSnapshot := None, cp_recipientSnapshotVersion := None, cp_trustConfirmationOutcome := None\<rparr>"

definition pg_claimIdempotencyKey ::
  "database \<Rightarrow> create_payment_input \<Rightarrow> payment_tables \<Rightarrow> (payment_tables, idempotency_claim) outcome" where
  "pg_claimIdempotencyKey db i t =
     when_ok (validateRequestHash (cp_requestHash i)) t (\<lambda>_. transaction_of db (\<lambda>x.
       claim_row db (new_payment (wallet_request i) (tx_now x)) None
         (\<lambda>p. Inr (p_requestHash p = cp_requestHash i)) x) t)"

definition pg_replayPaymentIdentityKey ::
  "database \<Rightarrow> runtime_env \<Rightarrow> payment_identity_replay_request \<Rightarrow> payment_tables \<Rightarrow>
   (payment_tables, idempotency_claim option) outcome" where
  "pg_replayPaymentIdentityKey db env i = transaction_of db (\<lambda>x.
     when_ok (map_result sql_text [rp_actorSubject i, rp_idempotencyKey i]) x (\<lambda>_.
       case payment_by_key x (rp_actorSubject i) (rp_idempotencyKey i) of
         None \<Rightarrow> (Inr None, x)
       | Some row \<Rightarrow> (and_then (existing_claim (\<lambda>p. matchesFrozenPaymentIdentityRequest env p i) (Some row))
           (\<lambda>c. Inr (Some c)), x)))"

text \<open>The two queries that resolve a recipient of the directory.\<close>

definition accounts_active :: "payment_tables \<Rightarrow> string \<Rightarrow> string \<Rightarrow> bool" where
  "accounts_active t a b = (let rows = filter (\<lambda>r. ac_accountId r = a \<or> ac_accountId r = b) (pt_accounts t) in
     length rows = 2 \<and> list_all (\<lambda>r. ac_status r = ''ACTIVE'') rows)"

definition payable_rows :: "payment_tables \<Rightarrow> string \<Rightarrow> (identity_row \<times> destination_row) list" where
  "payable_rows t account = [(e, d). e \<leftarrow> pt_identities t, d \<leftarrow> pt_destinations t,
     de_accountId d = ie_accountId e \<and> ie_accountId e = account \<and> ie_publicIdentityStatus e = ''ACTIVE'' \<and>
     ie_discoverability e \<noteq> ''PRIVATE'' \<and> ie_payabilityState e = ''AVAILABLE'' \<and> ie_verificationState e \<noteq> ''RESTRICTED'' \<and>
     de_destinationType d = ''SOLANA_WALLET'' \<and> de_status d = ''ACTIVE'' \<and> de_isPrimary d \<and> de_ownershipState d \<noteq> ''REJECTED'']"

definition resolved_row :: "identity_row \<times> destination_row \<Rightarrow> resolved_identity" where
  "resolved_row r = \<lparr>ri_username = ie_username (fst r), ri_displayName = ie_displayName (fst r),
     ri_accountType = ie_accountType (fst r), ri_verificationState = ie_verificationState (fst r),
     ri_payabilityState = ie_payabilityState (fst r), ri_destinationAddress = de_destinationAddress (snd r)\<rparr>"

definition resolve_recipient ::
  "database \<Rightarrow> claim_payment_identity_input \<Rightarrow> payment_tables \<Rightarrow> (string \<times> resolved_identity) result" where
  "resolve_recipient db i t =
     (if ci_senderAccountId i = ci_recipientAccountId i then throw ''RECIPIENT_UNAVAILABLE''
      else and_then (sql_uuid db (ci_senderAccountId i)) (\<lambda>sender.
        and_then (sql_uuid db (ci_recipientAccountId i)) (\<lambda>recipient.
          if \<not> accounts_active t sender recipient then throw ''RECIPIENT_UNAVAILABLE''
          else case payable_rows t recipient of
            [] \<Rightarrow> throw ''RECIPIENT_UNAVAILABLE''
          | row # _ \<Rightarrow> Inr (ie_accountId (fst row), resolved_row row))))"

text \<open>The payment a resolved recipient gives: its snapshot names the account as its row does.\<close>

definition identity_request ::
  "claim_payment_identity_input \<Rightarrow> resolved_identity \<Rightarrow> payment_identity_snapshot \<Rightarrow> trust_confirmation_outcome \<Rightarrow>
   identity_payment_request" where
  "identity_request i r sn trust = \<lparr>cr_actorSubject = ci_actorSubject i, cr_network = ci_network i,
     cr_mintAddress = ci_mintAddress i, cr_recipientAddress = ri_destinationAddress r, cr_amountRaw = ci_amountRaw i,
     cr_purpose = ci_purpose i, ir_recipientAccountId = ci_recipientAccountId i, ir_recipientSnapshot = sn,
     ir_trustConfirmationOutcome = trust\<rparr>"

definition directory_details :: "string \<Rightarrow> trust_confirmation_outcome \<Rightarrow> json_object" where
  "directory_details account trust = [(''recipientType'', JString ''PAYMENT_IDENTITY''),
     (''recipientAccountId'', JString account), (''recipientSnapshotVersion'', JNumber (Finite 1)),
     (''trustConfirmationOutcome'', JString (trust_text trust))]"

definition pg_claimPaymentIdentityKey ::
  "database \<Rightarrow> runtime_env \<Rightarrow> claim_payment_identity_input \<Rightarrow> payment_tables \<Rightarrow>
   (payment_tables, idempotency_claim) outcome" where
  "pg_claimPaymentIdentityKey db env i = transaction_of db (\<lambda>x.
     let same = (\<lambda>p. matchesFrozenPaymentIdentityRequest env p (identity_replay i)) in
     when_ok (map_result sql_text [ci_actorSubject i, ci_idempotencyKey i]) x (\<lambda>_.
       case payment_by_key x (ci_actorSubject i) (ci_idempotencyKey i) of
         Some row \<Rightarrow> (existing_claim same (Some row), x)
       | None \<Rightarrow> when_ok (resolve_recipient db i (payment_tables.truncate x)) x (\<lambda>resolved.
           let r = snd resolved;
               trust = (if ri_verificationState r = ''VERIFIED'' then NOT_REQUIRED else ACKNOWLEDGED) in
           if ri_verificationState r \<noteq> ''VERIFIED'' \<and> \<not> ci_trustAcknowledged i
           then (throw ''TRUST_ACKNOWLEDGMENT_REQUIRED'', x)
           else let sn = directory_snapshot (i\<lparr>ci_recipientAccountId := fst resolved\<rparr>) r trust in
             when_ok (createPaymentIdentityRequestHash env (identity_request i r sn trust)) x (\<lambda>hash.
               claim_row db ((directory_payment i r trust hash (tx_now x))\<lparr>p_recipientSnapshot := Some sn\<rparr>)
                 (Some (directory_details (ci_recipientAccountId i) trust)) same x))))"

definition synthetic_request :: "claim_synthetic_input \<Rightarrow> identity_payment_request" where
  "synthetic_request i = \<lparr>cr_actorSubject = cs_actorSubject i, cr_network = cs_network i, cr_mintAddress = cs_mintAddress i,
     cr_recipientAddress = ''synthetic:'' @ cs_syntheticId i, cr_amountRaw = cs_amountRaw i, cr_purpose = cs_purpose i,
     ir_recipientAccountId = cs_syntheticId i, ir_recipientSnapshot = synthetic_snapshot i,
     ir_trustConfirmationOutcome = NOT_REQUIRED\<rparr>"

definition synthetic_details :: json_object where
  "synthetic_details = [(''recipientType'', JString ''PAYMENT_IDENTITY''), (''identitySource'', JString ''SYNTHETIC_BETA''),
     (''recipientSnapshotVersion'', JNumber (Finite 1)), (''trustConfirmationOutcome'', JString ''NOT_REQUIRED'')]"

definition pg_claimSyntheticPaymentIdentityKey ::
  "database \<Rightarrow> runtime_env \<Rightarrow> claim_synthetic_input \<Rightarrow> payment_tables \<Rightarrow>
   (payment_tables, idempotency_claim) outcome" where
  "pg_claimSyntheticPaymentIdentityKey db env i = transaction_of db (\<lambda>x.
     let same = (\<lambda>p. matchesFrozenPaymentIdentityRequest env p (synthetic_replay i)) in
     when_ok (map_result sql_text [cs_actorSubject i, cs_idempotencyKey i]) x (\<lambda>_.
       case payment_by_key x (cs_actorSubject i) (cs_idempotencyKey i) of
         Some row \<Rightarrow> (existing_claim same (Some row), x)
       | None \<Rightarrow> when_ok (sql_uuid db (cs_syntheticId i)) x (\<lambda>synthetic.
           if synthetic \<notin> set (pt_synthetic x) then (throw ''RECIPIENT_UNAVAILABLE'', x)
           else when_ok (createPaymentIdentityRequestHash env (synthetic_request i)) x (\<lambda>hash.
             claim_row db (synthetic_payment i hash (tx_now x)) (Some synthetic_details) same x))))"

section \<open>Queries\<close>

definition pg_findPayment :: "database \<Rightarrow> string \<Rightarrow> payment_tables \<Rightarrow> payment_record option result" where
  "pg_findPayment db pid t = and_then (sql_uuid db pid) (\<lambda>k. clone_option mapPayment (js_get (pt_payments t) k))"

definition descending :: "(string \<Rightarrow> string \<Rightarrow> int) \<Rightarrow> string \<Rightarrow> string \<Rightarrow> int" where
  "descending c a b = c b a"

text \<open>Canonical uuids in the order of their bytes.\<close>

fun uuid_order :: "string \<Rightarrow> string \<Rightarrow> int" where
  "uuid_order [] [] = 0"
| "uuid_order [] (d # ds) = -1"
| "uuid_order (c # cs) [] = 1"
| "uuid_order (c # cs) (d # ds) = or_compare (int (of_char c) - int (of_char d)) (uuid_order cs ds)"

definition pg_listPaymentsByActor ::
  "database \<Rightarrow> string \<Rightarrow> js_number \<Rightarrow> payment_tables \<Rightarrow> payment_record list result" where
  "pg_listPaymentsByActor db actor limit t =
     (if \<not> limit_within limit 100 then throw ''Activity limit is invalid.''
      else and_then (sql_text actor) (\<lambda>_. map_result mapPayment (take (limit_nat limit)
        (js_sort (\<lambda>a b. or_compare (descending (db_compare db) (p_createdAt a) (p_createdAt b))
            (descending uuid_order (p_id a) (p_id b)))
          (filter (\<lambda>p. p_actorSubject p = actor) (js_values (pt_payments t)))))))"

text \<open>The confirmed directory payments of an actor with the time of their confirmation.\<close>

definition confirmed_recipients :: "payment_tables \<Rightarrow> string \<Rightarrow> (payment_record \<times> string) list" where
  "confirmed_recipients t actor = [(p, ev_occurredAt e). p \<leftarrow> js_values (pt_payments t), e \<leftarrow> events_of t (p_id p),
     ev_eventType e = USER_CONFIRMED \<and> p_actorSubject p = actor \<and> p_recipientType p = PAYMENT_IDENTITY \<and>
     p_recipientSnapshotVersion p = Some 1 \<and> (case p_recipientSnapshot p of None \<Rightarrow> False
       | Some sn \<Rightarrow> coalesce (sn_identitySource sn) ''RECIPIENT_DIRECTORY'' = ''RECIPIENT_DIRECTORY'')]"

text \<open>The first row of each recipient: \<open>row_number() OVER (PARTITION BY ... ) = 1\<close>.\<close>

definition latest_of_each ::
  "(payment_record \<times> string \<Rightarrow> payment_record \<times> string \<Rightarrow> int) \<Rightarrow> (payment_record \<times> string) list \<Rightarrow> (payment_record \<times> string) list" where
  "latest_of_each c rows = map (\<lambda>a. hd (js_sort c (filter (\<lambda>r. p_recipientAccountId (fst r) = a) rows)))
     (remdups (map (\<lambda>r. p_recipientAccountId (fst r)) rows))"

definition pg_listRecentPaymentIdentities ::
  "database \<Rightarrow> string \<Rightarrow> js_number \<Rightarrow> payment_tables \<Rightarrow> payment_identity_snapshot list result" where
  "pg_listRecentPaymentIdentities db actor limit t =
     (if \<not> limit_within limit 10 then throw ''Recent limit is invalid.''
      else and_then (sql_text actor) (\<lambda>_. Inr (List.map_filter (\<lambda>r. p_recipientSnapshot (fst r)) (take (limit_nat limit)
        (js_sort (\<lambda>a b. or_compare (descending (db_compare db) (snd a) (snd b))
            (uuid_order (coalesce (p_recipientAccountId (fst a)) '''') (coalesce (p_recipientAccountId (fst b)) '''')))
          (latest_of_each (\<lambda>a b. or_compare (descending (db_compare db) (snd a) (snd b))
              (descending uuid_order (p_id (fst a)) (p_id (fst b))))
            (confirmed_recipients t actor)))))))"

definition checked_at :: "payment_record \<Rightarrow> string" where
  "checked_at p = coalesce (defined (lastCheckedAt p) (executionStartedAt p)) (p_createdAt p)"

definition pg_listPaymentsRequiringReconciliation ::
  "database \<Rightarrow> js_number \<Rightarrow> payment_tables \<Rightarrow> payment_record list result" where
  "pg_listPaymentsRequiringReconciliation db limit t =
     (if \<not> is_safe_integer limit \<or> (case limit of Finite q \<Rightarrow> q \<le> 0 | _ \<Rightarrow> True)
      then throw ''Limit must be positive.''
      else map_result mapPayment (take (limit_nat limit)
        (js_sort (\<lambda>a b. or_compare (db_compare db (checked_at a) (checked_at b)) (uuid_order (p_id a) (p_id b)))
          (filter (\<lambda>p. p_status p = PROCESSING \<or> p_status p = UNKNOWN) (js_values (pt_payments t))))))"

definition pg_listPaymentEvents :: "database \<Rightarrow> string \<Rightarrow> payment_tables \<Rightarrow> payment_event list result" where
  "pg_listPaymentEvents db pid t = and_then (sql_uuid db pid) (\<lambda>k. map_result mapEvent
     (js_sort (\<lambda>a b. int (ev_sequenceNumber a) - int (ev_sequenceNumber b)) (events_of t k)))"

definition pg_findReceiptByPaymentId :: "database \<Rightarrow> string \<Rightarrow> payment_tables \<Rightarrow> payment_receipt option result" where
  "pg_findReceiptByPaymentId db pid t = and_then (sql_uuid db pid) (\<lambda>k. clone_option mapReceipt (js_get (pt_receipts t) k))"

section \<open>Lifecycle operations\<close>

definition pg_transitionPayment ::
  "database \<Rightarrow> payment_transition_input \<Rightarrow> payment_tables \<Rightarrow> (payment_tables, payment_record) outcome" where
  "pg_transitionPayment db i = transaction_of db (\<lambda>x.
     when_ok (lock_version db (ti_paymentId i) (ti_expectedVersion i) x) x (\<lambda>current.
     when_ok (validatePaymentTransition (p_status current) (ti_toStatus i) (coalesce (ti_evidence i) no_evidence)) x (\<lambda>_.
     when_ok (normalizeTransitionEvidence (ti_toStatus i) (coalesce (ti_evidence i) no_evidence)) x (\<lambda>e.
     then_do (updatePayment db current (ti_toStatus i) e x) (\<lambda>updated y.
     when_ok (eventTypeForTransition (p_status current) (ti_toStatus i)) y (\<lambda>ty.
     when_ok (transition_details i) y (\<lambda>details.
       then_do (appendEvent db \<lparr>ei_paymentId = ti_paymentId i, ei_eventType = ty, ei_fromStatus = Some (p_status current),
           ei_toStatus = Some (ti_toStatus i), ei_runtimeEventId = None, ei_requestId = ti_requestId i,
           ei_details = Some details, ei_occurredAt = ti_occurredAt i\<rparr> y)
         (\<lambda>_ z. (Inr updated, z)))))))))"

definition pg_recordSignatureObservation ::
  "database \<Rightarrow> signature_observation_input \<Rightarrow> payment_tables \<Rightarrow> (payment_tables, payment_record) outcome" where
  "pg_recordSignatureObservation db i = transaction_of db (\<lambda>x.
     when_ok (lock_version db (so_paymentId i) (so_expectedVersion i) x) x (\<lambda>current.
       if p_status current \<noteq> PROCESSING \<and> p_status current \<noteq> UNKNOWN
       then (throw ''A signature may be observed only for PROCESSING or UNKNOWN payments.'', x)
       else if truthy (solanaSignature current) \<and> solanaSignature current \<noteq> Some (so_solanaSignature i)
       then (throw ''An observed Solana signature cannot be replaced.'', x)
       else then_do (updatePayment db current (p_status current)
           (no_evidence\<lparr>solanaSignature := Some (so_solanaSignature i), submittedAt := Some (so_submittedAt i),
              submittedSlot := so_submittedSlot i, recentBlockhash := so_recentBlockhash i\<rparr>) x) (\<lambda>updated y.
         when_ok (cloneJsonObject (coalesce (so_details i) [])) y (\<lambda>details.
         then_do (appendEvent db \<lparr>ei_paymentId = so_paymentId i, ei_eventType = SIGNATURE_OBSERVED, ei_fromStatus = None,
             ei_toStatus = None, ei_runtimeEventId = None, ei_requestId = so_requestId i,
             ei_details = Some details, ei_occurredAt = so_occurredAt i\<rparr> y)
           (\<lambda>_ z. (Inr updated, z))))))"

definition pg_recordSettlementCheck ::
  "database \<Rightarrow> settlement_check_input \<Rightarrow> payment_tables \<Rightarrow> (payment_tables, payment_record) outcome" where
  "pg_recordSettlementCheck db i = transaction_of db (\<lambda>x.
     when_ok (lock_version db (sc_paymentId i) (sc_expectedVersion i) x) x (\<lambda>current.
       if p_status current \<noteq> PROCESSING \<and> p_status current \<noteq> UNKNOWN
       then (throw ''Settlement checks apply only to PROCESSING or UNKNOWN payments.'', x)
       else updatePayment db current (p_status current) (no_evidence\<lparr>lastCheckedAt := Some (sc_lastCheckedAt i)\<rparr>) x))"

definition pg_recordSettlementConfirmation ::
  "database \<Rightarrow> settlement_confirmation_input \<Rightarrow> payment_tables \<Rightarrow> (payment_tables, payment_record) outcome" where
  "pg_recordSettlementConfirmation db i = transaction_of db (\<lambda>x.
     when_ok (lock_version db (sf_paymentId i) (sf_expectedVersion i) x) x (\<lambda>current.
       if p_status current \<noteq> PROCESSING \<and> p_status current \<noteq> UNKNOWN
       then (throw ''Settlement confirmation applies only to PROCESSING or UNKNOWN payments.'', x)
       else if sf_confirmedSlot i < 0 then (throw ''Confirmed slot cannot be negative.'', x)
       else if truthy (solanaSignature current) \<and> solanaSignature current \<noteq> Some (sf_solanaSignature i)
       then (throw ''Settlement signature does not match the observed signature.'', x)
       else then_do (updatePayment db current (p_status current)
           (no_evidence\<lparr>solanaSignature := Some (sf_solanaSignature i), confirmedSlot := Some (sf_confirmedSlot i),
              confirmationStatus := Some ''confirmed'', lastCheckedAt := Some (sf_confirmedAt i)\<rparr>) x) (\<lambda>updated y.
         when_ok (cloneJsonObject (js_set (js_set (coalesce (sf_details i) [])
              ''signature'' (JString (sf_solanaSignature i)))
              ''confirmedSlot'' (JString (int_to_dec (sf_confirmedSlot i))))) y (\<lambda>details.
         then_do (appendEvent db \<lparr>ei_paymentId = sf_paymentId i, ei_eventType = SETTLEMENT_CONFIRMED,
             ei_fromStatus = Some (p_status current), ei_toStatus = Some (p_status current), ei_runtimeEventId = None,
             ei_requestId = sf_requestId i, ei_details = Some details, ei_occurredAt = sf_occurredAt i\<rparr> y)
           (\<lambda>_ z. (Inr updated, z))))))"

definition pg_appendInformationalEvent ::
  "database \<Rightarrow> informational_event_input \<Rightarrow> payment_tables \<Rightarrow> (payment_tables, payment_event) outcome" where
  "pg_appendInformationalEvent db i = transaction_of db (\<lambda>x.
     if ie_eventType i \<in> set AUTHORITATIVE_EVENT_TYPES
     then (throw (event_type_text (ie_eventType i) @ '' is reserved for authoritative lifecycle persistence.''), x)
     else when_ok (lockPayment db (ie_paymentId i) x) x (\<lambda>_.
       when_ok (cloneJsonObject (coalesce (ie_details i) [])) x (\<lambda>details.
         appendEvent db \<lparr>ei_paymentId = ie_paymentId i, ei_eventType = ie_eventType i, ei_fromStatus = None,
           ei_toStatus = None, ei_runtimeEventId = ie_runtimeEventId i, ei_requestId = ie_requestId i,
           ei_details = Some details, ei_occurredAt = ie_occurredAt i\<rparr> x)))"

section \<open>Receipts\<close>

definition validateReceiptMatch :: "payment_record \<Rightarrow> payment_receipt \<Rightarrow> unit result" where
  "validateReceiptMatch p r =
     (if rc_paymentId r \<noteq> p_id p \<or> rc_network r \<noteq> p_network p \<or> rc_mintAddress r \<noteq> p_mintAddress p \<or>
         rc_recipientAddress r \<noteq> p_recipientAddress p \<or> rc_amountRaw r \<noteq> p_amountRaw p
      then throw ''Receipt settlement evidence does not match the payment.''
      else if truthy (solanaSignature p) \<and> solanaSignature p \<noteq> Some (rc_solanaSignature r)
      then throw ''Receipt signature does not match the observed payment signature.''
      else if truthy (receiptPda p) \<and> receiptPda p \<noteq> Some (rc_receiptPda r)
      then throw ''Receipt PDA does not match the observed payment receipt PDA.''
      else validateRequestHash (rc_onchainReference r))"

definition receipt_parameters :: "database \<Rightarrow> string \<Rightarrow> payment_receipt \<Rightarrow> payment_receipt result" where
  "receipt_parameters db pid r =
     and_then (cloneJsonObject (rc_rawReceipt r)) (\<lambda>cloned.
     and_then (sql_uuid db (rc_id r)) (\<lambda>rid.
     and_then (sql_uuid db pid) (\<lambda>k.
     and_then (map_result sql_text [rc_network r, rc_programId r, rc_receiptPda r, rc_solanaSignature r,
        rc_mintAddress r, rc_recipientAddress r]) (\<lambda>_.
     and_then (sql_bigint (rc_slot r)) (\<lambda>_.
     and_then (sql_bigint (rc_amountRaw r)) (\<lambda>_.
     and_then (sql_digest (rc_onchainReference r)) (\<lambda>_.
     and_then (sql_jsonb_object db cloned) (\<lambda>raw.
     and_then (sql_timestamp db (rc_verifiedAt r)) (\<lambda>verifiedAt.
     and_then (sql_timestamp db (coalesce (rc_createdAt r) (rc_verifiedAt r))) (\<lambda>createdAt.
       Inr (r\<lparr>rc_id := rid, rc_paymentId := k, rc_rawReceipt := raw, rc_verifiedAt := verifiedAt,
          rc_createdAt := Some createdAt\<rparr>)))))))))))"

definition insert_receipt ::
  "database \<Rightarrow> string \<Rightarrow> payment_receipt \<Rightarrow> transaction \<Rightarrow> (transaction, payment_receipt) outcome" where
  "insert_receipt db pid r x =
     when_ok (receipt_parameters db pid r) x (\<lambda>row.
     when_ok (receipt_checks row) x (\<lambda>_.
     when_ok (receipt_uniques x (rc_paymentId row) row) x (\<lambda>_.
       (Inr row, x\<lparr>pt_receipts := js_set (pt_receipts x) (rc_paymentId row) row,
          tx_deferred := tx_deferred x @ [ReceiptInserted row]\<rparr>))))"

definition pg_storeVerifiedReceipt ::
  "database \<Rightarrow> store_receipt_input \<Rightarrow> payment_tables \<Rightarrow> (payment_tables, payment_record \<times> payment_receipt) outcome" where
  "pg_storeVerifiedReceipt db i = transaction_of db (\<lambda>x.
     when_ok (lock_version db (sr_paymentId i) (sr_expectedVersion i) x) x (\<lambda>current.
     when_ok (validateReceiptMatch current (sr_receipt i)) x (\<lambda>_.
     when_ok (validateReceiptCompletionTransition (p_status current) (receipt_evidence (sr_receipt i))) x (\<lambda>_.
     then_do (insert_receipt db (sr_paymentId i) (sr_receipt i) x) (\<lambda>row y.
     then_do (updatePayment db current COMPLETED (receipt_evidence (sr_receipt i)) y) (\<lambda>payment z.
     when_ok (cloneJsonObject (coalesce (sr_details i) [])) z (\<lambda>details.
     then_do (appendEvent db \<lparr>ei_paymentId = sr_paymentId i, ei_eventType = RECEIPT_VERIFIED,
         ei_fromStatus = Some (p_status current), ei_toStatus = Some COMPLETED, ei_runtimeEventId = sr_runtimeEventId i,
         ei_requestId = sr_requestId i, ei_details = Some details, ei_occurredAt = sr_occurredAt i\<rparr> z)
       (\<lambda>_ w. (and_then (mapReceipt row) (\<lambda>receipt. Inr (payment, receipt)), w)))))))))"

end
