(* ===== verification/PostgresRefinement.thy ===== *)
theory PostgresRefinement
  imports PostgresPayments PaymentStoreProperties
begin

text \<open>
  The PostgreSQL persistence keeps the contract of \<open>PaymentStoreSpec\<close>. \<open>represents t s\<close> says that the
  contract state \<open>s\<close> is what the tables \<open>t\<close> hold: each row read as \<open>mapPayment\<close>, \<open>mapEvent\<close> and
  \<open>mapReceipt\<close> read it, and every owner of a signature or receipt address a row that has it. An operation
  that succeeds takes the contract state along permitted steps; one that throws changes no row.
\<close>

section \<open>What a statement did\<close>

lemmas sql_defs = sql_error_def sql_text_def sql_uuid_def sql_timestamp_def sql_bigint_def sql_jsonb_def sql_digest_def

lemma sql_uuid_Inr: "sql_uuid db s = Inr k \<longleftrightarrow> db_uuid db s = Some k"
  by (auto simp: sql_defs split: option.splits)

lemma sql_error_Inr [simp]: "sql_error m \<noteq> Inr x"
  by (simp add: sql_error_def)

lemma refusals_Inr [simp]: "duplicate_key c \<noteq> Inr x" "foreign_key c \<noteq> Inr x" "version_conflict c \<noteq> Inr x"
  by (simp_all add: duplicate_key_def foreign_key_def version_conflict_def)

lemma sql_text_Inr: "sql_text s = Inr t \<longleftrightarrow> no_nul s \<and> t = s"
  by (auto simp: sql_text_def no_nul_def)

lemma sql_texts_Inr: "map_result sql_text xs = Inr ys \<longleftrightarrow> list_all no_nul xs \<and> ys = xs"
  by (induction xs arbitrary: ys) (auto simp: and_then_Inr sql_text_Inr)

lemma sql_digest_Inr: "sql_digest h = Inr d \<longleftrightarrow> is_sha256_hex h \<and> d = h"
  by (auto simp: sql_digest_def)

lemma check_row_ok: "check_row cs = Inr u \<longleftrightarrow> list_all snd cs"
  by (induction cs) (auto simp: check_row_def)

lemma mapPayment_plain:
  assumes "mapPayment row = Inr p"
  shows "p = row\<lparr>chainError := chainError p, terminalProof := terminalProof p\<rparr>"
    and "\<forall>e. chainError p = Some e \<longrightarrow> json_ok e" and "\<forall>t. terminalProof p = Some t \<longrightarrow> proof_ok t"
  using assms by (auto simp: mapPayment_def clonePayment_def and_then_Inr clone_option_ok clone_proof_ok split: if_splits)

lemma mapPayment_fields:
  assumes "mapPayment row = Inr p"
  shows "p_id p = p_id row" "p_version p = p_version row" "p_status p = p_status row" "same_request p row"
    "solanaSignature p = solanaSignature row" "receiptPda p = receiptPda row" "confirmedSlot p = confirmedSlot row"
    "p_amountRaw p = p_amountRaw row" "p_idempotencyKey p = p_idempotencyKey row" "p_actorSubject p = p_actorSubject row"
  by (subst mapPayment_plain(1) [OF assms]; simp add: same_request_def)+

lemma mapPayment_ok:
  "mapPayment row = Inr p \<Longrightarrow> 0 < p_amountRaw row \<Longrightarrow> no_nul (p_idempotencyKey row) \<Longrightarrow> payment_ok p"
  using mapPayment_plain(2,3) [of row p] mapPayment_fields [of row p] by (simp add: payment_ok_def)

lemma mapEvent_fields:
  assumes "mapEvent row = Inr e"
  shows "e = row\<lparr>ev_details := ev_details e\<rparr>" "json_object_ok (ev_details e)"
  using assms clone_object_ok by (auto simp: mapEvent_def cloneEvent_def and_then_Inr simp del: json_ok.simps)

lemma mapReceipt_fields:
  assumes "mapReceipt row = Inr r"
  shows "r = row\<lparr>rc_rawReceipt := rc_rawReceipt r\<rparr>" "json_object_ok (rc_rawReceipt r)"
  using assms clone_object_ok by (auto simp: mapReceipt_def cloneReceipt_def and_then_Inr simp del: json_ok.simps)

lemma coalesced_fields [simp]:
  "p_id (coalesced e st now row) = p_id row" "p_version (coalesced e st now row) = p_version row + 1"
  "p_status (coalesced e st now row) = st" "same_request (coalesced e st now row) row"
  "solanaSignature (coalesced e st now row) = defined (solanaSignature e) (solanaSignature row)"
  "receiptPda (coalesced e st now row) = defined (receiptPda e) (receiptPda row)"
  "confirmedSlot (coalesced e st now row) = defined (confirmedSlot e) (confirmedSlot row)"
  by (simp_all add: coalesced_def same_request_def)

lemma bigint_kept: "sql_nullable sql_bigint v = Inr w \<Longrightarrow> w = v"
  by (cases v) (auto simp: and_then_Inr sql_bigint_def split: if_splits)

lemma evidence_parameters_kept:
  assumes "evidence_parameters db e = Inr params"
  shows "solanaSignature params = solanaSignature e" "receiptPda params = receiptPda e" "confirmedSlot params = confirmedSlot e"
  using assms unfolding evidence_parameters_def and_then_Inr by (auto dest: bigint_kept)

text \<open>The row an update leaves, and what let it through.\<close>

definition updated_row ::
  "transaction \<Rightarrow> payment_record \<Rightarrow> payment_status \<Rightarrow> lifecycle_evidence \<Rightarrow> payment_record \<Rightarrow> payment_record \<Rightarrow>
   payment_record \<Rightarrow> bool" where
  "updated_row x current status e old new upd \<longleftrightarrow>
     js_get (pt_payments x) (p_id current) = Some old \<and> p_version old = p_version current \<and>
     update_admitted x old new = Inr () \<and> mapPayment new = Inr upd \<and>
     p_id new = p_id old \<and> p_version new = p_version old + 1 \<and> p_status new = status \<and> same_request new old \<and>
     solanaSignature new = defined (solanaSignature e) (solanaSignature old) \<and>
     receiptPda new = defined (receiptPda e) (receiptPda old) \<and>
     confirmedSlot new = defined (confirmedSlot e) (confirmedSlot old)"

lemma updatePayment_Inr:
  assumes "updatePayment db current status e x = (Inr upd, y)"
  shows "\<exists>old new. updated_row x current status e old new upd \<and>
    y = x\<lparr>pt_payments := js_set (pt_payments x) (p_id current) new, tx_deferred := tx_deferred x @ [PaymentUpdated old new]\<rparr>"
proof -
  from assms obtain params where e: "evidence_parameters db e = Inr params"
    by (auto simp: updatePayment_def when_ok_Inr)
  with assms obtain old where old: "js_get (pt_payments x) (p_id current) = Some old" "p_version old = p_version current"
    by (auto simp: updatePayment_def split: option.splits if_splits)
  with assms e show ?thesis
    by (auto simp: updatePayment_def when_ok_Inr Let_def updated_row_def evidence_parameters_kept [OF e])
qed

text \<open>The event a statement appends.\<close>

definition appended_row ::
  "database \<Rightarrow> payment_event_input \<Rightarrow> transaction \<Rightarrow> payment_event \<Rightarrow> payment_event \<Rightarrow> string \<Rightarrow> bool" where
  "appended_row db i x row ev pid \<longleftrightarrow> sql_uuid db (ei_paymentId i) = Inr pid \<and> mapEvent row = Inr ev \<and>
     ev_id row = pt_eventSequence x \<and> ev_paymentId row = pid \<and>
     ev_sequenceNumber row = next_sequence (events_of x pid) \<and> ev_eventType row = ei_eventType i \<and>
     ev_fromStatus row = ei_fromStatus i \<and> ev_toStatus row = ei_toStatus i \<and> event_uniques x row = Inr ()"

lemma appendEvent_Inr:
  assumes "appendEvent db i x = (Inr ev, y)"
  shows "\<exists>row pid. appended_row db i x row ev pid \<and>
    y = x\<lparr>pt_eventSequence := pt_eventSequence x + 1, pt_events := pt_events x @ [row],
      tx_deferred := tx_deferred x @ [EventInserted row]\<rparr>"
proof -
  from assms obtain pid re rq details at' where p: "sql_uuid db (ei_paymentId i) = Inr pid"
    "sql_nullable sql_text (ei_runtimeEventId i) = Inr re" "sql_nullable sql_text (ei_requestId i) = Inr rq"
    "sql_jsonb_object db (coalesce (ei_details i) []) = Inr details"
    "sql_nullable (sql_timestamp db) (ei_occurredAt i) = Inr at'"
    unfolding appendEvent_def when_ok_Inr by blast
  define row where "row = \<lparr>ev_id = pt_eventSequence x, ev_paymentId = pid,
      ev_sequenceNumber = next_sequence (events_of x pid), ev_eventType = ei_eventType i, ev_fromStatus = ei_fromStatus i,
      ev_toStatus = ei_toStatus i, ev_runtimeEventId = re, ev_requestId = rq, ev_details = details,
      ev_occurredAt = coalesce at' (tx_now x)\<rparr>"
  from assms p have "appended_row db i x row ev pid \<and> y = x\<lparr>pt_eventSequence := pt_eventSequence x + 1,
      pt_events := pt_events x @ [row], tx_deferred := tx_deferred x @ [EventInserted row]\<rparr>"
    by (auto simp: appendEvent_def when_ok_Inr Let_def appended_row_def row_def)
  then show ?thesis by blast
qed

lemma insert_receipt_Inr:
  assumes "insert_receipt db pid r x = (Inr row, y)"
  shows "sql_uuid db pid = Inr (rc_paymentId row)" "rc_slot row \<ge> 0" "is_sha256_hex (rc_onchainReference row)"
    "\<not> js_has (pt_receipts x) (rc_paymentId row)"
    "rc_network row = rc_network r" "rc_mintAddress row = rc_mintAddress r" "rc_recipientAddress row = rc_recipientAddress r"
    "rc_amountRaw row = rc_amountRaw r" "rc_solanaSignature row = rc_solanaSignature r" "rc_slot row = rc_slot r"
    "rc_receiptPda row = rc_receiptPda r"
    "y = x\<lparr>pt_receipts := js_set (pt_receipts x) (rc_paymentId row) row, tx_deferred := tx_deferred x @ [ReceiptInserted row]\<rparr>"
  using assms by (auto simp: insert_receipt_def when_ok_Inr receipt_parameters_def and_then_Inr sql_digest_Inr
      receipt_checks_def check_row_ok receipt_uniques_def split: if_splits)


section \<open>What the tables represent\<close>

definition read_as :: "('r \<Rightarrow> 'v result) \<Rightarrow> 'r option \<Rightarrow> 'v option \<Rightarrow> bool" where
  "read_as f row v = (case row of None \<Rightarrow> v = None | Some r \<Rightarrow> \<exists>x. f r = Inr x \<and> v = Some x)"

lemma read_as_simps [simp]: "read_as f None v \<longleftrightarrow> v = None" "read_as f (Some r) v \<longleftrightarrow> (\<exists>x. f r = Inr x \<and> v = Some x)"
  by (simp_all add: read_as_def)

lemma read_as_set:
  "f r = Inr x \<Longrightarrow> read_as f (js_get m k) (js_get n k) \<Longrightarrow> read_as f (js_get (js_set m j r) k) (js_get (js_set n j x) k)"
  by simp

definition owners_hold ::
  "(payment_record \<Rightarrow> string option) \<Rightarrow> (string, payment_record) js_map \<Rightarrow> (string, string) js_map \<Rightarrow> bool" where
  "owners_hold f rows owners \<longleftrightarrow> (\<forall>x k. js_get owners x = Some k \<longrightarrow> (\<exists>row. js_get rows k = Some row \<and> f row = Some x))"

definition represents :: "'a payment_tables_scheme \<Rightarrow> payment_store \<Rightarrow> bool" where
  "represents t s \<longleftrightarrow> ps_allowlist s = pt_allowlist t \<and>
     (\<forall>k. read_as mapPayment (js_get (pt_payments t) k) (js_get (ps_payments s) k)) \<and>
     (\<forall>k. read_as mapReceipt (js_get (pt_receipts t) k) (js_get (ps_receipts s) k)) \<and>
     (\<forall>k. map_result mapEvent (events_of t k) = Inr (payment_events s k)) \<and>
     owners_hold solanaSignature (pt_payments t) (ps_signatures s) \<and>
     owners_hold receiptPda (pt_payments t) (ps_receiptPdas s) \<and>
     ps_nextEventId s \<le> pt_eventSequence t"

lemma representsD:
  assumes "represents t s"
  shows "ps_allowlist s = pt_allowlist t" "read_as mapPayment (js_get (pt_payments t) k) (js_get (ps_payments s) k)"
    "read_as mapReceipt (js_get (pt_receipts t) k) (js_get (ps_receipts s) k)"
    "map_result mapEvent (events_of t k) = Inr (payment_events s k)"
    "owners_hold solanaSignature (pt_payments t) (ps_signatures s)"
    "owners_hold receiptPda (pt_payments t) (ps_receiptPdas s)" "ps_nextEventId s \<le> pt_eventSequence t"
  using assms by (simp_all add: represents_def)

text \<open>Tables with the same rows represent the same state; the sequence may have gone on.\<close>

lemma represents_same_rows:
  assumes "represents t s" and "pt_allowlist u = pt_allowlist t" and "pt_payments u = pt_payments t"
    and "pt_receipts u = pt_receipts t" and "pt_events u = pt_events t" and "pt_eventSequence t \<le> pt_eventSequence u"
  shows "represents u s"
  using assms by (simp add: represents_def events_of_def)

lemma represents_empty: "represents empty_tables empty_store"
  by (simp add: represents_def empty_tables_def empty_store_def payment_events_def events_of_def owners_hold_def)

lemma represented_payment:
  assumes "represents t s" and "store_ok s" and "js_get (pt_payments t) k = Some row"
  shows "\<exists>p. mapPayment row = Inr p \<and> js_get (ps_payments s) k = Some p \<and> p_id row = k \<and> payment_ok p"
proof -
  from representsD(2) [OF assms(1), of k] assms(3) obtain p where
    p: "mapPayment row = Inr p" "js_get (ps_payments s) k = Some p" by auto
  with payments_keyedD [OF store_okD(1) [OF assms(2)] p(2)] mapPayment_fields [OF p(1)] show ?thesis by auto
qed

lemma unowned:
  assumes "owners_hold f rows owners" and "\<not> taken_by_other f rows k (Some x)"
  shows "\<not> owned_by_other owners x k"
proof
  assume "owned_by_other owners x k"
  then obtain o' where o': "js_get owners x = Some o'" "o' \<noteq> k" by (auto simp: owned_by_other_def split: option.splits)
  with assms(1) obtain row where "js_get rows o' = Some row" "f row = Some x" by (auto simp: owners_hold_def)
  then have "(o', row) \<in> set rows" by (auto simp: js_get_def dest: map_of_SomeD)
  with assms(2) o'(2) \<open>f row = Some x\<close> show False by (fastforce simp: taken_by_other_def)
qed

text \<open>A row that keeps the value it had keeps its ownership, and gains the one it is given.\<close>

lemma owners_hold_set:
  assumes "owners_hold f rows owners" and "js_get rows k = Some old" and "once_set (f old) (f new)"
  shows "owners_hold f (js_set rows k new) owners"
  using assms unfolding owners_hold_def by fastforce

lemma owners_hold_own:
  assumes "owners_hold f rows owners" and "js_get rows k = Some row" and "f row = Some x"
  shows "owners_hold f rows (js_set owners x k)"
  using assms by (simp add: owners_hold_def)

lemma owners_hold_fresh:
  "owners_hold f rows owners \<Longrightarrow> js_get rows k = None \<Longrightarrow> owners_hold f (js_set rows k new) owners"
  unfolding owners_hold_def by fastforce

text \<open>Sequence numbers: the next one counts the rows.\<close>

lemma represented_sequence:
  assumes rep: "represents t s" and ok: "store_ok s"
  shows "next_sequence (events_of t k) = length (payment_events s k) + 1"
proof -
  have evs: "list_all2 (\<lambda>r e. mapEvent r = Inr e) (events_of t k) (payment_events s k)"
    using representsD(4) [OF rep, of k] by (simp add: map_result_Inr)
  then have "map ev_sequenceNumber (events_of t k) = map ev_sequenceNumber (payment_events s k)"
  proof (induction rule: list_all2_induct)
    case (Cons r rs e es)
    then show ?case using mapEvent_fields(1) [of r e] by (metis list.simps(9) payment_event.select_convs(3)
          payment_event.surjective payment_event.update_convs(9))
  qed simp
  moreover have "map ev_sequenceNumber (payment_events s k) = [1..<Suc (length (payment_events s k))]"
  proof (cases "js_get (ps_payments s) k")
    case None
    then show ?thesis using trails_okD(2) [OF store_okD(5) [OF ok]] by simp
  next
    case (Some p)
    then show ?thesis using trails_okD(1) [OF store_okD(5) [OF ok]] by (simp add: trail_ok_def)
  qed
  moreover have "fold max [1..<Suc n] m = max n m" for n m :: nat
    by (induction n arbitrary: m) auto
  ultimately show ?thesis by (simp add: next_sequence_def)
qed


section \<open>A write of the tables is a write of the contract\<close>

definition receipt_rows ::
  "payment_receipt option \<Rightarrow> string \<Rightarrow> (string, payment_receipt) js_map \<Rightarrow> (string, payment_receipt) js_map \<Rightarrow> bool" where
  "receipt_rows rcpt k old new = (case rcpt of None \<Rightarrow> new = old
     | Some r \<Rightarrow> \<exists>row. mapReceipt row = Inr r \<and> new = js_set old k row)"

definition event_rows ::
  "payment_event option \<Rightarrow> string \<Rightarrow> 'a payment_tables_scheme \<Rightarrow> 'b payment_tables_scheme \<Rightarrow> bool" where
  "event_rows ev k x y = (case ev of None \<Rightarrow> pt_events y = pt_events x \<and> pt_eventSequence y = pt_eventSequence x
     | Some e \<Rightarrow> \<exists>row. mapEvent row = Inr e \<and> ev_paymentId row = k \<and> ev_id row = pt_eventSequence x \<and>
         ev_sequenceNumber row = next_sequence (events_of x k) \<and>
         pt_events y = pt_events x @ [row] \<and> pt_eventSequence y = pt_eventSequence x + 1)"

lemma map_result_snoc:
  "map_result f xs = Inr ys \<Longrightarrow> f x = Inr y \<Longrightarrow> map_result f (xs @ [x]) = Inr (ys @ [y])"
  by (simp add: map_result_Inr list_all2_appendI)

lemma event_rows_read:
  assumes rows: "event_rows ev k x y" and rep: "map_result mapEvent (events_of x j) = Inr (payment_events s j)"
    and t: "ps_events t = with_event s k ev"
  shows "map_result mapEvent (events_of y j) = Inr (payment_events t j)"
proof (cases ev)
  case None
  with rows rep payment_events_without [of t s k j] t show ?thesis by (simp add: event_rows_def events_of_def)
next
  case (Some e)
  with rows obtain row where "mapEvent row = Inr e" "ev_paymentId row = k" "pt_events y = pt_events x @ [row]"
    by (auto simp: event_rows_def)
  with rep payment_events_with [of t s k e j] t Some map_result_snoc [of mapEvent "events_of x j" "payment_events s j" row e]
  show ?thesis by (cases "j = k") (simp_all add: events_of_def)
qed

lemma represents_write:
  assumes rep: "represents x s" and ok: "store_ok s"
    and old: "js_get (pt_payments x) k = Some old" "mapPayment old = Inr cur" and new: "mapPayment new = Inr upd"
    and pay: "pt_payments y = js_set (pt_payments x) k new" and allow: "pt_allowlist y = pt_allowlist x"
    and once: "once_set (solanaSignature old) (solanaSignature new)" "once_set (receiptPda old) (receiptPda new)"
    and rc: "receipt_rows rcpt k (pt_receipts x) (pt_receipts y)" "\<forall>r. rcpt = Some r \<longrightarrow> receiptPda new = Some (rc_receiptPda r)"
    and ev: "event_rows ev k x y"
    and allowed: "write_allowed (s\<lparr>ps_nextEventId := pt_eventSequence x\<rparr>) cur upd (solanaSignature new) rcpt ev"
  shows "\<exists>s'. store_step\<^sup>*\<^sup>* s s' \<and> store_ok s' \<and> represents y s'"
proof -
  have id: "p_id cur = k" using represented_payment [OF rep ok old(1)] old(2) mapPayment_fields(1) [OF old(2)] by auto
  define s1 where "s1 = s\<lparr>ps_nextEventId := pt_eventSequence x\<rparr>"
  define t where "t = s1\<lparr>ps_payments := js_set (ps_payments s) k upd,
     ps_signatures := (case solanaSignature new of None \<Rightarrow> ps_signatures s | Some z \<Rightarrow> js_set (ps_signatures s) z k),
     ps_receipts := (case rcpt of None \<Rightarrow> ps_receipts s | Some r \<Rightarrow> js_set (ps_receipts s) k r),
     ps_receiptPdas := (case rcpt of None \<Rightarrow> ps_receiptPdas s | Some r \<Rightarrow> js_set (ps_receiptPdas s) (rc_receiptPda r) k),
     ps_events := with_event s k ev, ps_nextEventId := pt_eventSequence y\<rparr>"
  have s1: "same_data s s1" using representsD(7) [OF rep] by (simp add: same_data_def s1_def)
  have seq: "pt_eventSequence x + (if ev = None then 0 else 1) = pt_eventSequence y"
    using ev by (cases ev) (auto simp: event_rows_def)
  have "payment_write s1 cur upd (solanaSignature new) rcpt ev t"
    using seq by (simp add: payment_write_def id t_def s1_def with_event_def payment_events_def cong: option.case_cong split: option.splits)
  then have step: "store_step s1 t" using allowed step_write by (simp add: s1_def)
  have steps: "store_step\<^sup>*\<^sup>* s t" using step_idle [OF s1] step by (meson converse_rtranclp_into_rtranclp r_into_rtranclp)
  have okt: "store_ok t" using store_step_ok [OF step] same_data_ok [OF s1 ok] by blast
  have newk: "js_get (pt_payments y) k = Some new" by (simp add: pay)
  have sig: "owners_hold solanaSignature (pt_payments y) (ps_signatures t)"
    using owners_hold_set [OF representsD(5) [OF rep] old(1) once(1)] owners_hold_own [OF _ newk]
    by (auto simp: t_def pay split: option.splits)
  have pda: "owners_hold receiptPda (pt_payments y) (ps_receiptPdas t)"
    using owners_hold_set [OF representsD(6) [OF rep] old(1) once(2)] owners_hold_own [OF _ newk] rc(2)
    by (auto simp: t_def pay split: option.splits)
  have "represents y t"
    unfolding represents_def
  proof (intro conjI allI)
    show "read_as mapPayment (js_get (pt_payments y) j) (js_get (ps_payments t) j)" for j
      using read_as_set [OF new representsD(2) [OF rep]] by (simp add: pay t_def)
    show "read_as mapReceipt (js_get (pt_receipts y) j) (js_get (ps_receipts t) j)" for j
      using representsD(3) [OF rep, of j] rc(1) read_as_set by (auto simp: receipt_rows_def t_def split: option.splits)
    show "map_result mapEvent (events_of y j) = Inr (payment_events t j)" for j
      by (rule event_rows_read [OF ev representsD(4) [OF rep]]) (simp add: t_def)
  qed (use representsD(1) [OF rep] sig pda in \<open>simp_all add: t_def allow s1_def\<close>)
  with steps okt show ?thesis by blast
qed

text \<open>What a row passed to be updated.\<close>

lemma admitted:
  assumes "update_admitted x old new = Inr u"
  shows "payment_checks new = Inr ()" "protect_payment_settlement_evidence old new = Inr ()"
    "payment_uniques x new = Inr ()"
  using assms by (auto simp: update_admitted_def and_then_Inr)

lemma protected:
  assumes "protect_payment_settlement_evidence old new = Inr u"
  shows "once_set (solanaSignature old) (solanaSignature new)" "once_set (receiptPda old) (receiptPda new)"
    "once_set (confirmedSlot old) (confirmedSlot new)" "once_set (submittedSlot old) (submittedSlot new)"
    "once_set (recentBlockhash old) (recentBlockhash new)" "isTerminalPaymentStatus (p_status old) \<Longrightarrow> new = old"
  using assms by (auto simp: protect_payment_settlement_evidence_def isTerminalPaymentStatus_def split: if_splits)

lemma uniques:
  assumes "payment_uniques x new = Inr u"
  shows "\<not> taken_by_other solanaSignature (pt_payments x) (p_id new) (solanaSignature new)"
    "\<not> taken_by_other receiptPda (pt_payments x) (p_id new) (receiptPda new)"
  using assms by (auto simp: payment_uniques_def split: if_splits)

lemma lock_version_Inr:
  assumes "lock_version db pid v x = Inr cur"
  shows "\<exists>k row. sql_uuid db pid = Inr k \<and> js_get (pt_payments x) k = Some row \<and> mapPayment row = Inr cur \<and> p_version cur = v"
  using assms by (auto simp: lock_version_def lockPayment_def and_then_Inr split: option.splits if_splits)

definition event_fits :: "payment_event option \<Rightarrow> payment_status \<Rightarrow> payment_status \<Rightarrow> bool" where
  "event_fits ev a b = (case ev of None \<Rightarrow> b = a
     | Some e \<Rightarrow> confirms_user e \<and> ((ev_fromStatus e = Some a \<and> ev_toStatus e = Some b) \<or>
         (ev_fromStatus e = None \<and> ev_toStatus e = None \<and> b = a)))"

text \<open>Every operation that rewrites a payment: it locks it, updates it, and may insert a receipt and an event.\<close>

lemma write_simulated:
  fixes x :: "'a payment_tables_scheme"
  assumes rep: "represents x s" and ok: "store_ok s" and lock: "lock_version db pid v x = Inr cur"
    and upd: "updated_row x1 cur status e old new upd" and x1: "pt_payments x1 = pt_payments x"
    and step: "status = p_status cur \<or> lifecycle_step (p_status cur) status"
    and y: "pt_payments y = js_set (pt_payments x) (p_id cur) new" "pt_allowlist y = pt_allowlist x"
    and rc: "receipt_rows rcpt (p_id cur) (pt_receipts x) (pt_receipts y)" "status = COMPLETED \<longleftrightarrow> rcpt \<noteq> None"
    and matches: "\<forall>r. rcpt = Some r \<longrightarrow> receipt_matches upd r \<and> \<not> js_has (pt_receipts x) (p_id cur)"
    and ev: "event_rows ev (p_id cur) x y" "event_fits ev (p_status cur) status"
  shows "\<exists>s'. store_step\<^sup>*\<^sup>* s s' \<and> store_ok s' \<and> represents y s'"
proof -
  note u = upd [unfolded updated_row_def]
  have old: "js_get (pt_payments x) (p_id cur) = Some old" using u x1 by simp
  from represented_payment [OF rep ok old] obtain p where p: "mapPayment old = Inr p" "js_get (ps_payments s) (p_id cur) = Some p"
    "p_id old = p_id cur" "payment_ok p" by blast
  from lock_version_Inr [OF lock] obtain k row where row: "js_get (pt_payments x) k = Some row" "mapPayment row = Inr cur"
    by blast
  have "k = p_id cur" using represented_payment [OF rep ok row(1)] row(2) mapPayment_fields(1) [OF row(2)] by auto
  with row old have "row = old" by simp
  with row(2) p(1) have cur: "mapPayment old = Inr cur" and pc: "p = cur" by simp_all
  have adm: "update_admitted x1 old new = Inr ()" and new: "mapPayment new = Inr upd" using u by simp_all
  note guard = protected [OF admitted(2) [OF adm]]
  note uniq = uniques [OF admitted(3) [OF adm], unfolded x1]
  note fo = mapPayment_fields [OF cur] and fn = mapPayment_fields [OF new]
  have idn: "p_id new = p_id cur" using u p(3) by simp
  have nt: "\<not> isTerminalPaymentStatus (p_status cur)" using guard(6) u fo(3) by force
  have amount: "0 < p_amountRaw new" using admitted(1) [OF adm] by (simp add: payment_checks_def check_row_ok)
  have key: "no_nul (p_idempotencyKey new)"
    using p(4) pc u fo(9) by (simp add: payment_ok_def same_request_def)
  have okn: "payment_ok upd" using mapPayment_ok [OF new amount key] .
  have same: "same_request upd cur" using u fo(4) fn(4) by (simp add: same_request_def)
  have free: "\<not> owned_by_other (ps_signatures s) z (p_id cur)" if "solanaSignature new = Some z" for z
    using unowned [OF representsD(5) [OF rep]] uniq(1) that idn by simp
  have pda: "receiptPda new = Some (rc_receiptPda r)" if "rcpt = Some r" for r
    using matches that fn(6) by (simp add: receipt_matches_def)
  have pdafree: "\<not> owned_by_other (ps_receiptPdas s) (rc_receiptPda r) (p_id cur)" if "rcpt = Some r" for r
    using unowned [OF representsD(6) [OF rep]] uniq(2) pda [OF that] idn by simp
  have rnone: "js_get (ps_receipts s) (p_id cur) = None" if "rcpt = Some r" for r
    using matches that representsD(3) [OF rep, of "p_id cur"] by (auto simp: js_has_iff read_as_def split: option.splits)
  have next_ev: "next_event (s\<lparr>ps_nextEventId := pt_eventSequence x\<rparr>) (p_id cur) e'" if "ev = Some e'" for e'
  proof -
    from ev(1) that obtain r where r: "mapEvent r = Inr e'" "ev_paymentId r = p_id cur" "ev_id r = pt_eventSequence x"
      "ev_sequenceNumber r = next_sequence (events_of x (p_id cur))" by (auto simp: event_rows_def)
    from mapEvent_fields [OF r(1)] obtain d where "e' = r\<lparr>ev_details := d\<rparr>" "json_object_ok d" by metis
    with r represented_sequence [OF rep ok, of "p_id cur"] show ?thesis
      by (simp add: next_event_def payment_events_def del: json_ok.simps)
  qed
  have "write_allowed (s\<lparr>ps_nextEventId := pt_eventSequence x\<rparr>) cur upd (solanaSignature new) rcpt ev"
    unfolding write_allowed_def
  proof (intro conjI allI impI)
    show "p_version upd = p_version cur + 1" using u fn(2) fo(2) by simp
    show "p_status upd = p_status cur \<or> lifecycle_step (p_status cur) (p_status upd)" using step u fn(3) by auto
    show "(p_status upd = COMPLETED) = (rcpt \<noteq> None)" using rc(2) u fn(3) by simp
    show "solanaSignature new = Some (rc_solanaSignature r)" if "rcpt = Some r" for r
      using matches that fn(5) by (simp add: receipt_matches_def)
    show "case ev of None \<Rightarrow> p_status upd = p_status cur
        | Some e \<Rightarrow> next_event (s\<lparr>ps_nextEventId := pt_eventSequence x\<rparr>) (p_id cur) e \<and> confirms_user e \<and>
          ((ev_fromStatus e = Some (p_status cur) \<and> ev_toStatus e = Some (p_status upd)) \<or>
           (ev_fromStatus e = None \<and> ev_toStatus e = None \<and> p_status upd = p_status cur))"
      using ev(2) u fn(3) next_ev by (auto simp: event_fits_def split: option.splits)
    show "js_get (ps_payments (s\<lparr>ps_nextEventId := pt_eventSequence x\<rparr>)) (p_id cur) = Some cur" using p(2) pc by simp
  qed (use same okn nt free matches pdafree rnone fn(5) in auto)
  from represents_write [OF rep ok old cur new y(1,2) guard(1,2) rc(1) _ ev(1) this] pda show ?thesis by blast
qed


section \<open>The operations\<close>

lemma lock_key:
  assumes rep: "represents x s" and ok: "store_ok s" and lock: "lock_version db pid v x = Inr cur"
  shows "sql_uuid db pid = Inr (p_id cur)"
proof -
  from lock_version_Inr [OF lock] obtain k row where row: "sql_uuid db pid = Inr k" "js_get (pt_payments x) k = Some row"
    "mapPayment row = Inr cur" by blast
  with represented_payment [OF rep ok row(2)] mapPayment_fields(1) [OF row(3)] show ?thesis by auto
qed

definition event_input_fits :: "payment_event_input \<Rightarrow> payment_status \<Rightarrow> payment_status \<Rightarrow> bool" where
  "event_input_fits i a b \<longleftrightarrow> (ei_fromStatus i = Some a \<and> ei_toStatus i = Some b \<or> ei_fromStatus i = None \<and> ei_toStatus i = None \<and> b = a) \<and>
     (ei_fromStatus i = Some AWAITING_CONFIRMATION \<longrightarrow> ei_toStatus i = Some PROCESSING \<longrightarrow> ei_eventType i = USER_CONFIRMED)"

lemma appended_rows:
  assumes ap: "appended_row db i y row ev pid" and pid: "sql_uuid db (ei_paymentId i) = Inr k"
    and same: "pt_events y = pt_events x" "pt_eventSequence y = pt_eventSequence x"
    and z: "pt_events z = pt_events y @ [row]" "pt_eventSequence z = pt_eventSequence y + 1"
    and fits: "event_input_fits i a b"
  shows "event_rows (Some ev) k x z" "event_fits (Some ev) a b"
proof -
  have "mapEvent row = Inr ev" using ap by (simp add: appended_row_def)
  then obtain d where d: "ev = row\<lparr>ev_details := d\<rparr>" using mapEvent_fields(1) by metis
  show "event_rows (Some ev) k x z" using ap pid same z by (auto simp: event_rows_def appended_row_def events_of_def)
  show "event_fits (Some ev) a b"
    using ap fits d by (auto simp: event_fits_def event_input_fits_def appended_row_def confirms_user_def)
qed

lemma update_and_event:
  fixes x :: transaction
  assumes rep: "represents x s" and ok: "store_ok s" and lock: "lock_version db pid v x = Inr cur"
    and up: "updatePayment db cur st e x = (Inr upd, y)" and ap: "appendEvent db i y = (Inr ev, z)" and i: "ei_paymentId i = pid"
    and st: "st \<noteq> COMPLETED" "st = p_status cur \<or> lifecycle_step (p_status cur) st" and fits: "event_input_fits i (p_status cur) st"
  shows "\<exists>s'. store_step\<^sup>*\<^sup>* s s' \<and> store_ok s' \<and> represents z s'"
proof -
  from updatePayment_Inr [OF up] obtain old new where u: "updated_row x cur st e old new upd"
    and y: "y = x\<lparr>pt_payments := js_set (pt_payments x) (p_id cur) new, tx_deferred := tx_deferred x @ [PaymentUpdated old new]\<rparr>"
    by blast
  from appendEvent_Inr [OF ap] obtain row k where a: "appended_row db i y row ev k"
    and z: "z = y\<lparr>pt_eventSequence := pt_eventSequence y + 1, pt_events := pt_events y @ [row],
      tx_deferred := tx_deferred y @ [EventInserted row]\<rparr>" by blast
  note rows = appended_rows [OF a, of "p_id cur" x z "p_status cur" st]
  have rows': "event_rows (Some ev) (p_id cur) x z" "event_fits (Some ev) (p_status cur) st"
    using rows fits lock_key [OF rep ok lock] i y z by simp_all
  show ?thesis
    by (rule write_simulated [OF rep ok lock u refl st(2) _ _ _ _ _ rows', of None])
      (simp_all add: y z receipt_rows_def st(1))
qed

lemma update_alone:
  fixes x :: transaction
  assumes rep: "represents x s" and ok: "store_ok s" and lock: "lock_version db pid v x = Inr cur"
    and up: "updatePayment db cur (p_status cur) e x = (Inr upd, y)" and st: "p_status cur \<noteq> COMPLETED"
  shows "\<exists>s'. store_step\<^sup>*\<^sup>* s s' \<and> store_ok s' \<and> represents y s'"
proof -
  from updatePayment_Inr [OF up] obtain old new where u: "updated_row x cur (p_status cur) e old new upd"
    and y: "y = x\<lparr>pt_payments := js_set (pt_payments x) (p_id cur) new, tx_deferred := tx_deferred x @ [PaymentUpdated old new]\<rparr>"
    by blast
  show ?thesis
    by (rule write_simulated [OF rep ok lock u refl, where rcpt = None and ev = None])
      (simp_all add: y receipt_rows_def event_rows_def event_fits_def st)
qed

text \<open>What a transaction makes of a simulated body: its commit publishes it, its rollback changes no row.\<close>

definition grows :: "'a payment_tables_scheme \<Rightarrow> ('a payment_tables_scheme, 'v) outcome \<Rightarrow> bool" where
  "grows x o' \<longleftrightarrow> pt_eventSequence x \<le> pt_eventSequence (snd o')"

lemma grows_simps [simp]: "grows x (r, x)" "grows x (r, y) \<longleftrightarrow> pt_eventSequence x \<le> pt_eventSequence y"
  by (simp_all add: grows_def)

lemma grows_when [intro]: "(\<And>v. r = Inr v \<Longrightarrow> grows x (f v)) \<Longrightarrow> pt_eventSequence x \<le> pt_eventSequence y \<Longrightarrow> grows x (when_ok r y f)"
  by (cases r) simp_all

lemma grows_then [intro]:
  "grows x o' \<Longrightarrow> (\<And>v y. pt_eventSequence x \<le> pt_eventSequence y \<Longrightarrow> grows x (f v y)) \<Longrightarrow> grows x (then_do o' f)"
  by (cases o'; cases "fst o'") auto

lemma grows_trans: "grows y o' \<Longrightarrow> pt_eventSequence x \<le> pt_eventSequence y \<Longrightarrow> grows x o'"
  by (simp add: grows_def)

lemma update_grows: "pt_eventSequence x \<le> pt_eventSequence y \<Longrightarrow> grows x (updatePayment db cur st e y)"
  unfolding updatePayment_def Let_def by (rule grows_when) (auto split: option.split intro!: grows_when)

lemma append_grows: "pt_eventSequence x \<le> pt_eventSequence y \<Longrightarrow> grows x (appendEvent db i y)"
  unfolding appendEvent_def Let_def by (intro grows_when) auto

lemma insert_payment_grows: "pt_eventSequence x \<le> pt_eventSequence y \<Longrightarrow> grows x (insert_payment_row db p y)"
  unfolding insert_payment_row_def by (intro grows_when) auto

lemma insert_receipt_grows: "pt_eventSequence x \<le> pt_eventSequence y \<Longrightarrow> grows x (insert_receipt db pid r y)"
  unfolding insert_receipt_def by (intro grows_when) auto

lemmas statements_grow = update_grows append_grows insert_payment_grows insert_receipt_grows

definition same_rows :: "payment_tables \<Rightarrow> payment_tables \<Rightarrow> bool" where
  "same_rows t u \<longleftrightarrow> u = t\<lparr>pt_eventSequence := pt_eventSequence u, pt_transactions := pt_transactions u\<rparr>"

definition simulated :: "payment_tables \<Rightarrow> payment_store \<Rightarrow> (payment_tables, 'v) outcome \<Rightarrow> bool" where
  "simulated t s out \<longleftrightarrow> (case out of
     (Inl e, u) \<Rightarrow> same_rows t u \<and> represents u s
   | (Inr v, u) \<Rightarrow> \<exists>s'. store_step\<^sup>*\<^sup>* s s' \<and> store_ok s' \<and> represents u s')"

lemma begin_fields [simp]:
  "pt_allowlist (begin_transaction db t) = pt_allowlist t" "pt_payments (begin_transaction db t) = pt_payments t"
  "pt_receipts (begin_transaction db t) = pt_receipts t" "pt_events (begin_transaction db t) = pt_events t"
  "pt_eventSequence (begin_transaction db t) = pt_eventSequence t" "payment_tables.truncate (begin_transaction db t) = t"
  by (simp_all add: begin_transaction_def payment_tables.defs)

lemma truncate_fields [simp]:
  "pt_allowlist (payment_tables.truncate x) = pt_allowlist x" "pt_payments (payment_tables.truncate x) = pt_payments x"
  "pt_receipts (payment_tables.truncate x) = pt_receipts x" "pt_events (payment_tables.truncate x) = pt_events x"
  "pt_eventSequence (payment_tables.truncate x) = pt_eventSequence x"
  by (simp_all add: payment_tables.defs)

lemma transaction_simulated:
  assumes rep: "represents t s" and grows: "grows (begin_transaction db t) (body (begin_transaction db t))"
    and body: "\<And>v x. body (begin_transaction db t) = (Inr v, x) \<Longrightarrow> represents (begin_transaction db t) s \<Longrightarrow>
      \<exists>s'. store_step\<^sup>*\<^sup>* s s' \<and> store_ok s' \<and> represents x s'"
  shows "simulated t s (transaction_of db body t)"
proof -
  obtain r x where o': "body (begin_transaction db t) = (r, x)" by force
  have seq: "pt_eventSequence t \<le> pt_eventSequence x" using grows o' by (simp add: grows_def)
  have undone: "same_rows t (after_transaction t x) \<and> represents (after_transaction t x) s"
    using seq by (auto simp: same_rows_def after_transaction_def intro: represents_same_rows [OF rep])
  have start: "represents (begin_transaction db t) s" by (rule represents_same_rows [OF rep]) simp_all
  show ?thesis
  proof (cases r)
    case (Inl e)
    with undone o' show ?thesis by (simp add: simulated_def transaction_of_def)
  next
    case (Inr v)
    with body o' start obtain s' where s': "store_step\<^sup>*\<^sup>* s s'" "store_ok s'" "represents x s'" by blast
    have "represents (after_transaction (payment_tables.truncate x) x) s'"
      by (rule represents_same_rows [OF s'(3)]) (simp_all add: after_transaction_def)
    with s' undone o' Inr show ?thesis
      by (cases "map_result (run_deferred (payment_tables.truncate x)) (tx_deferred x)")
        (auto simp: simulated_def transaction_of_def)
  qed
qed


lemmas grow_rules = grows_when grows_then statements_grow

lemma transition_simulated:
  assumes rep: "represents t s" and ok: "store_ok s"
  shows "simulated t s (pg_transitionPayment db i t)"
  unfolding pg_transitionPayment_def
proof (rule transaction_simulated [OF rep], goal_cases)
  case 1
  show ?case by (intro grow_rules) (auto intro: grow_rules)
next
  case (2 v x)
  let ?b = "begin_transaction db t"
  from 2(1) obtain cur e upd y ty d ev where lock: "lock_version db (ti_paymentId i) (ti_expectedVersion i) ?b = Inr cur"
    and valid: "validatePaymentTransition (p_status cur) (ti_toStatus i) (coalesce (ti_evidence i) no_evidence) = Inr ()"
    and up: "updatePayment db cur (ti_toStatus i) e ?b = (Inr upd, y)"
    and ty: "eventTypeForTransition (p_status cur) (ti_toStatus i) = Inr ty"
    and ap: "appendEvent db \<lparr>ei_paymentId = ti_paymentId i, ei_eventType = ty, ei_fromStatus = Some (p_status cur),
           ei_toStatus = Some (ti_toStatus i), ei_runtimeEventId = None, ei_requestId = ti_requestId i,
           ei_details = Some d, ei_occurredAt = ti_occurredAt i\<rparr> y = (Inr ev, x)"
    by (auto simp: when_ok_Inr then_do_Inr)
  show ?case
  proof (rule update_and_event [OF 2(2) ok lock up ap])
    show "ti_toStatus i \<noteq> COMPLETED" using transition_not_completed [OF valid] .
    show "ti_toStatus i = p_status cur \<or> lifecycle_step (p_status cur) (ti_toStatus i)"
      using lifecycle_step.transition [OF valid] by blast
    show "event_input_fits \<lparr>ei_paymentId = ti_paymentId i, ei_eventType = ty, ei_fromStatus = Some (p_status cur),
           ei_toStatus = Some (ti_toStatus i), ei_runtimeEventId = None, ei_requestId = ti_requestId i,
           ei_details = Some d, ei_occurredAt = ti_occurredAt i\<rparr> (p_status cur) (ti_toStatus i)"
      using ty by (auto simp: event_input_fits_def eventTypeForTransition_def split: if_splits)
  qed simp
qed

lemma observation_simulated:
  assumes rep: "represents t s" and ok: "store_ok s"
  shows "simulated t s (pg_recordSignatureObservation db i t)"
  unfolding pg_recordSignatureObservation_def
proof (rule transaction_simulated [OF rep], goal_cases)
  case 1
  show ?case by (intro grows_when) (auto intro!: grow_rules)
next
  case (2 v x)
  let ?b = "begin_transaction db t"
  from 2(1) obtain cur e upd y d ev where lock: "lock_version db (so_paymentId i) (so_expectedVersion i) ?b = Inr cur"
    and st: "p_status cur = PROCESSING \<or> p_status cur = UNKNOWN"
    and up: "updatePayment db cur (p_status cur) e ?b = (Inr upd, y)"
    and ap: "appendEvent db \<lparr>ei_paymentId = so_paymentId i, ei_eventType = SIGNATURE_OBSERVED, ei_fromStatus = None,
             ei_toStatus = None, ei_runtimeEventId = None, ei_requestId = so_requestId i,
             ei_details = Some d, ei_occurredAt = so_occurredAt i\<rparr> y = (Inr ev, x)"
    by (auto simp: when_ok_Inr then_do_Inr split: if_splits)
  show ?case by (rule update_and_event [OF 2(2) ok lock up ap]) (use st in \<open>auto simp: event_input_fits_def\<close>)
qed

lemma check_simulated:
  assumes rep: "represents t s" and ok: "store_ok s"
  shows "simulated t s (pg_recordSettlementCheck db i t)"
  unfolding pg_recordSettlementCheck_def
proof (rule transaction_simulated [OF rep], goal_cases)
  case 1
  show ?case by (intro grows_when) (auto intro!: grow_rules)
next
  case (2 v x)
  let ?b = "begin_transaction db t"
  from 2(1) obtain cur e where lock: "lock_version db (sc_paymentId i) (sc_expectedVersion i) ?b = Inr cur"
    and st: "p_status cur = PROCESSING \<or> p_status cur = UNKNOWN"
    and up: "updatePayment db cur (p_status cur) e ?b = (Inr v, x)"
    by (auto simp: when_ok_Inr split: if_splits)
  show ?case by (rule update_alone [OF 2(2) ok lock up]) (use st in auto)
qed

lemma confirmation_simulated:
  assumes rep: "represents t s" and ok: "store_ok s"
  shows "simulated t s (pg_recordSettlementConfirmation db i t)"
  unfolding pg_recordSettlementConfirmation_def
proof (rule transaction_simulated [OF rep], goal_cases)
  case 1
  show ?case by (intro grows_when) (auto intro!: grow_rules)
next
  case (2 v x)
  let ?b = "begin_transaction db t"
  from 2(1) obtain cur e upd y d ev where lock: "lock_version db (sf_paymentId i) (sf_expectedVersion i) ?b = Inr cur"
    and st: "p_status cur = PROCESSING \<or> p_status cur = UNKNOWN"
    and up: "updatePayment db cur (p_status cur) e ?b = (Inr upd, y)"
    and ap: "appendEvent db \<lparr>ei_paymentId = sf_paymentId i, ei_eventType = SETTLEMENT_CONFIRMED,
             ei_fromStatus = Some (p_status cur), ei_toStatus = Some (p_status cur), ei_runtimeEventId = None,
             ei_requestId = sf_requestId i, ei_details = Some d, ei_occurredAt = sf_occurredAt i\<rparr> y = (Inr ev, x)"
    by (auto simp: when_ok_Inr then_do_Inr split: if_splits)
  show ?case by (rule update_and_event [OF 2(2) ok lock up ap]) (use st in \<open>auto simp: event_input_fits_def\<close>)
qed

lemma receipt_simulated:
  assumes rep: "represents t s" and ok: "store_ok s"
  shows "simulated t s (pg_storeVerifiedReceipt db i t)"
  unfolding pg_storeVerifiedReceipt_def
proof (rule transaction_simulated [OF rep], goal_cases)
  case 1
  show ?case by (intro grows_when grows_then statements_grow) (auto intro: grow_rules)
next
  case (2 v x)
  let ?b = "begin_transaction db t" and ?e = "receipt_evidence (sr_receipt i)"
  from 2(1) obtain cur row y upd z d ev receipt where
      lock: "lock_version db (sr_paymentId i) (sr_expectedVersion i) ?b = Inr cur"
    and match: "validateReceiptMatch cur (sr_receipt i) = Inr ()"
    and valid: "validateReceiptCompletionTransition (p_status cur) ?e = Inr ()"
    and ins: "insert_receipt db (sr_paymentId i) (sr_receipt i) ?b = (Inr row, y)"
    and up: "updatePayment db cur COMPLETED ?e y = (Inr upd, z)"
    and ap: "appendEvent db \<lparr>ei_paymentId = sr_paymentId i, ei_eventType = RECEIPT_VERIFIED,
         ei_fromStatus = Some (p_status cur), ei_toStatus = Some COMPLETED, ei_runtimeEventId = sr_runtimeEventId i,
         ei_requestId = sr_requestId i, ei_details = Some d, ei_occurredAt = sr_occurredAt i\<rparr> z = (Inr ev, x)" (is "appendEvent db ?ei _ = _")
    and read: "mapReceipt row = Inr receipt"
    by (auto simp: when_ok_Inr then_do_Inr and_then_Inr)
  note key = lock_key [OF 2(2) ok lock] and row = insert_receipt_Inr [OF ins]
  have k: "rc_paymentId row = p_id cur" using key row(1) by simp
  from updatePayment_Inr [OF up] obtain old new where u: "updated_row y cur COMPLETED ?e old new upd"
    and z: "z = y\<lparr>pt_payments := js_set (pt_payments y) (p_id cur) new, tx_deferred := tx_deferred y @ [PaymentUpdated old new]\<rparr>"
    by blast
  from appendEvent_Inr [OF ap] obtain erow ek where a: "appended_row db ?ei z erow ev ek"
    and x: "x = z\<lparr>pt_eventSequence := pt_eventSequence z + 1, pt_events := pt_events z @ [erow],
      tx_deferred := tx_deferred z @ [EventInserted erow]\<rparr>" by blast
  have rows: "event_rows (Some ev) (p_id cur) ?b x" "event_fits (Some ev) (p_status cur) COMPLETED"
    using appended_rows [OF a, of "p_id cur" ?b x "p_status cur" COMPLETED] key x z row(12) completion_from [OF valid]
    by (auto simp: event_input_fits_def)
  have new: "mapPayment new = Inr upd" "same_request new old" using u by (simp_all add: updated_row_def)
  from lock_version_Inr [OF lock] obtain orow where orow: "js_get (pt_payments ?b) (p_id cur) = Some orow" "mapPayment orow = Inr cur"
    using key by auto
  have "orow = old" using orow(1) u row(12) by (simp add: updated_row_def)
  then have same: "same_request upd cur"
    using new mapPayment_fields(4) [OF new(1)] mapPayment_fields(4) [OF orow(2)] by (simp add: same_request_def)
  from mapReceipt_fields [OF read] obtain raw where rr: "receipt = row\<lparr>rc_rawReceipt := raw\<rparr>" "json_object_ok raw" by metis
  have "receipt_matches upd receipt"
    using match same row rr k u mapPayment_fields [OF new(1)] key
    by (auto simp: receipt_matches_def validateReceiptMatch_def same_request_def updated_row_def receipt_evidence_def
        no_evidence_def simp del: json_ok.simps split: if_splits)
  moreover have "\<not> js_has (pt_receipts ?b) (p_id cur)" using row(4) k by simp
  ultimately show ?case
    by (intro write_simulated [OF 2(2) ok lock u _ _ _ _ _ _ _ rows, of "Some receipt"])
      (use row(12) lifecycle_step.completion [OF valid] read k in \<open>auto simp: x z receipt_rows_def\<close>)
qed

lemma information_simulated:
  assumes rep: "represents t s" and ok: "store_ok s"
  shows "simulated t s (pg_appendInformationalEvent db i t)"
  unfolding pg_appendInformationalEvent_def
proof (rule transaction_simulated [OF rep], goal_cases)
  case 1
  show ?case by (auto intro!: grow_rules)
next
  case (2 v x)
  let ?b = "begin_transaction db t"
  from 2(1) obtain cur d where lock: "lockPayment db (ie_paymentId i) ?b = Inr cur"
    and ap: "appendEvent db \<lparr>ei_paymentId = ie_paymentId i, ei_eventType = ie_eventType i, ei_fromStatus = None,
           ei_toStatus = None, ei_runtimeEventId = ie_runtimeEventId i, ei_requestId = ie_requestId i,
           ei_details = Some d, ei_occurredAt = ie_occurredAt i\<rparr> ?b = (Inr v, x)" (is "appendEvent db ?ei _ = _")
    by (auto simp: when_ok_Inr split: if_splits)
  from lock obtain k where k: "sql_uuid db (ie_paymentId i) = Inr k" "js_has (pt_payments ?b) k"
    by (auto simp: lockPayment_def and_then_Inr js_has_iff split: option.splits)
  from k(2) represented_payment [OF 2(2) ok, of k] obtain p where p: "js_get (ps_payments s) k = Some p" by (auto simp: js_has_iff)
  from appendEvent_Inr [OF ap] obtain row j where a: "appended_row db ?ei ?b row v j"
    and x: "x = ?b\<lparr>pt_eventSequence := pt_eventSequence ?b + 1, pt_events := pt_events ?b @ [row],
      tx_deferred := tx_deferred ?b @ [EventInserted row]\<rparr>" by blast
  have rows: "event_rows (Some v) k ?b x"
    using appended_rows(1) [OF a, of k ?b x AWAITING_CONFIRMATION AWAITING_CONFIRMATION] k(1) x by (simp add: event_input_fits_def)
  have "mapEvent row = Inr v" using a by (simp add: appended_row_def)
  from mapEvent_fields [OF this] obtain d' where v: "v = row\<lparr>ev_details := d'\<rparr>" "json_object_ok d'" by metis
  define s1 where "s1 = s\<lparr>ps_nextEventId := pt_eventSequence ?b\<rparr>"
  define u where "u = s1\<lparr>ps_events := with_event s k (Some v), ps_nextEventId := ps_nextEventId s1 + 1\<rparr>"
  have s1: "same_data s s1" using representsD(7) [OF 2(2)] by (simp add: same_data_def s1_def)
  have ne: "next_event s1 k v"
    using a k(1) v represented_sequence [OF 2(2) ok, of k]
    by (auto simp: next_event_def appended_row_def s1_def payment_events_def simp del: json_ok.simps)
  have "store_step s1 u"
  proof (rule step_annotate [of s1 k p v "ps_runtimeEventIds s1"])
    show "ev_fromStatus v = None" "ev_toStatus v = None" using a v by (simp_all add: appended_row_def)
    show "same_data (s1\<lparr>ps_events := with_event s1 k (Some v), ps_nextEventId := ps_nextEventId s1 + 1,
        ps_runtimeEventIds := ps_runtimeEventIds s1\<rparr>) u"
      by (simp add: same_data_def u_def s1_def with_event_def payment_events_def)
  qed (use p ne in \<open>simp_all add: s1_def\<close>)
  then have steps: "store_step\<^sup>*\<^sup>* s u" and "store_ok u"
    using step_idle [OF s1] store_step_ok same_data_ok [OF s1 ok]
    by (meson converse_rtranclp_into_rtranclp r_into_rtranclp, blast)
  moreover have "represents x u"
  proof -
    have "map_result mapEvent (events_of x j) = Inr (payment_events u j)" for j
      by (rule event_rows_read [OF rows representsD(4) [OF 2(2)]]) (simp add: u_def)
    with representsD(1-3,5-7) [OF 2(2)] show ?thesis by (simp add: represents_def u_def s1_def x)
  qed
  ultimately show ?case by blast
qed

section \<open>Claims\<close>

text \<open>A canonical uuid has 36 characters.\<close>

definition proper_database :: "database \<Rightarrow> bool" where
  "proper_database db \<longleftrightarrow> (\<forall>s u. db_uuid db s = Some u \<longrightarrow> length u = 36)"

definition newborn :: "payment_record \<Rightarrow> bool" where
  "newborn p \<longleftrightarrow> p_status p = AWAITING_CONFIRMATION \<and> p_version p = 0 \<and> chainError p = None \<and> terminalProof p = None \<and>
     solanaSignature p = None"

lemma insert_payment_row_Inr:
  assumes "insert_payment_row db p x = (Inr v, y)"
  shows "(v = None \<and> y = x) \<or> (\<exists>row. v = Some row \<and> sql_uuid db (p_id p) = Inr (p_id row) \<and>
    (newborn p \<longrightarrow> newborn row) \<and> no_nul (p_idempotencyKey row) \<and> 0 < p_amountRaw row \<and>
    payment_by_key x (p_actorSubject row) (p_idempotencyKey row) = None \<and> js_get (pt_payments x) (p_id row) = None \<and>
    y = x\<lparr>pt_payments := js_set (pt_payments x) (p_id row) row\<rparr>)"
proof -
  from assms obtain row where row: "payment_parameters db p = Inr row" "payment_checks row = Inr ()"
    and rest: "(if payment_by_key x (p_actorSubject row) (p_idempotencyKey row) \<noteq> None then (Inr None, x)
       else if js_has (pt_payments x) (p_id row) then (duplicate_key ''payments_pkey'', x)
       else when_ok (payment_references x row) x (\<lambda>_.
         (Inr (Some row), x\<lparr>pt_payments := js_set (pt_payments x) (p_id row) row\<rparr>))) = (Inr v, y)"
    by (auto simp: insert_payment_row_def when_ok_Inr)
  from row(1) obtain k a b where k: "sql_uuid db (p_id p) = Inr k" "no_nul (p_idempotencyKey p)"
    "row = p\<lparr>p_id := k, p_recipientAccountId := a, p_recipientSyntheticId := b\<rparr>"
    unfolding payment_parameters_def and_then_Inr by (auto simp: sql_texts_Inr simp del: map_result.simps)
  moreover have "0 < p_amountRaw row" using row(2) by (simp add: payment_checks_def check_row_ok)
  ultimately show ?thesis
    using rest by (auto simp: newborn_def when_ok_Inr js_has_def split: if_splits)
qed

lemma free_key:
  assumes rep: "represents x s" and ok: "store_ok s" and none: "payment_by_key x a k = None" and nul: "no_nul k"
  shows "js_get (ps_idempotency s) (index_key a k) = None"
proof (cases "js_get (ps_idempotency s) (index_key a k)")
  case (Some pid)
  then obtain p where p: "js_get (ps_payments s) pid = Some p" "index_key a k = index_key (p_actorSubject p) (p_idempotencyKey p)"
    using store_okD(2) [OF ok] Some unfolding index_ok_def by blast
  have "no_nul (p_idempotencyKey p)" using payments_keyedD(3) [OF store_okD(1) [OF ok] p(1)] by (simp add: payment_ok_def)
  with p(2) nul have eq: "p_actorSubject p = a" "p_idempotencyKey p = k" by (simp_all add: index_key_inj)
  from representsD(2) [OF rep, of pid] p(1) obtain row where row: "js_get (pt_payments x) pid = Some row" "mapPayment row = Inr p"
    by (auto simp: read_as_def split: option.splits)
  with eq mapPayment_fields(9,10) [OF row(2)] js_values_get [OF row(1)] none show ?thesis
    by (auto simp: payment_by_key_def find_None_iff)
qed

lemma claim_row_simulated:
  fixes x :: transaction
  assumes db: "proper_database db" and rep: "represents x s" and ok: "store_ok s" and born: "newborn p"
    and claim: "claim_row db p details same x = (Inr c, y)"
  shows "\<exists>s'. store_step\<^sup>*\<^sup>* s s' \<and> store_ok s' \<and> represents y s'"
proof -
  from claim obtain v z where ins: "insert_payment_row db p x = (Inr v, z)"
    and rest: "(case v of
       Some row \<Rightarrow> then_do (appendEvent db
           \<lparr>ei_paymentId = p_id p, ei_eventType = CREATED, ei_fromStatus = None, ei_toStatus = Some AWAITING_CONFIRMATION,
            ei_runtimeEventId = None, ei_requestId = None, ei_details = details, ei_occurredAt = None\<rparr> z)
         (\<lambda>_ z. (claim_of CLAIMED row, z))
     | None \<Rightarrow> (existing_claim same (payment_by_key z (p_actorSubject p) (p_idempotencyKey p)), z)) = (Inr c, y)"
    by (auto simp: claim_row_def then_do_Inr)
  show ?thesis
  proof (cases v)
    case None
    with insert_payment_row_Inr [OF ins] rest have "y = x" by auto
    with rep ok show ?thesis by blast
  next
    case (Some row)
    with insert_payment_row_Inr [OF ins] born have row: "sql_uuid db (p_id p) = Inr (p_id row)" "newborn row"
      "no_nul (p_idempotencyKey row)" "0 < p_amountRaw row"
      "payment_by_key x (p_actorSubject row) (p_idempotencyKey row) = None" "js_get (pt_payments x) (p_id row) = None"
      and z: "z = x\<lparr>pt_payments := js_set (pt_payments x) (p_id row) row\<rparr>" by auto
    let ?k = "p_id row"
    from rest Some obtain ev where ap: "appendEvent db
           \<lparr>ei_paymentId = p_id p, ei_eventType = CREATED, ei_fromStatus = None, ei_toStatus = Some AWAITING_CONFIRMATION,
            ei_runtimeEventId = None, ei_requestId = None, ei_details = details, ei_occurredAt = None\<rparr> z = (Inr ev, y)"
        (is "appendEvent db ?ei _ = _") by (auto simp: then_do_Inr)
    from appendEvent_Inr [OF ap] obtain erow j where a: "appended_row db ?ei z erow ev j"
      and y: "y = z\<lparr>pt_eventSequence := pt_eventSequence z + 1, pt_events := pt_events z @ [erow],
        tx_deferred := tx_deferred z @ [EventInserted erow]\<rparr>" by blast
    have rows: "event_rows (Some ev) ?k x y"
      using a row(1) y z by (auto simp: event_rows_def appended_row_def events_of_def)
    have "mapEvent erow = Inr ev" using a by (simp add: appended_row_def)
    from mapEvent_fields [OF this] obtain d where ev: "ev = erow\<lparr>ev_details := d\<rparr>" "json_object_ok d" by metis
    have read: "mapPayment row = Inr row"
      using row(2) by (simp add: mapPayment_def clonePayment_def newborn_def clone_option_def)
    have fresh: "js_get (ps_payments s) ?k = None" using representsD(2) [OF rep, of ?k] row(6) by simp
    have ne: "?k \<noteq> ''''" using row(1) db by (force simp: sql_uuid_Inr proper_database_def)
    define s1 where "s1 = s\<lparr>ps_nextEventId := pt_eventSequence x\<rparr>"
    define u where "u = s1\<lparr>ps_payments := js_set (ps_payments s) ?k row,
      ps_idempotency := js_set (ps_idempotency s) (index_key (p_actorSubject row) (p_idempotencyKey row)) ?k,
      ps_events := with_event s ?k (Some ev), ps_nextEventId := pt_eventSequence y\<rparr>"
    have s1: "same_data s s1" using representsD(7) [OF rep] by (simp add: same_data_def s1_def)
    have nev: "next_event s1 ?k ev"
      using a row(1) ev z represented_sequence [OF rep ok, of ?k]
      by (auto simp: next_event_def appended_row_def s1_def payment_events_def events_of_def simp del: json_ok.simps)
    have evf: "ev_eventType ev = CREATED" "ev_fromStatus ev = None" "ev_toStatus ev = Some AWAITING_CONFIRMATION"
      using a ev by (simp_all add: appended_row_def)
    have "payment_ok row" using mapPayment_ok [OF read row(4,3)] .
    then have "payment_insert s1 row ev u"
      using ne fresh free_key [OF rep ok row(5,3)] row(2) nev evf y z
      by (simp add: payment_insert_def s1_def u_def newborn_def with_event_def payment_events_def)
    then have step: "store_step s1 u" by (rule step_insert)
    then have steps: "store_step\<^sup>*\<^sup>* s u" using step_idle [OF s1] by (meson converse_rtranclp_into_rtranclp r_into_rtranclp)
    have oku: "store_ok u" using store_step_ok [OF step] same_data_ok [OF s1 ok] by blast
    have events: "map_result mapEvent (events_of y j) = Inr (payment_events u j)" for j
      by (rule event_rows_read [OF rows representsD(4) [OF rep]]) (simp add: u_def)
    have "read_as mapPayment (js_get (pt_payments y) j) (js_get (ps_payments u) j)" for j
      using read_as_set [OF read representsD(2) [OF rep]] by (simp add: y z u_def)
    moreover have "owners_hold f (pt_payments y) o'" if "owners_hold f (pt_payments x) o'" for f o'
      using owners_hold_fresh [OF that row(6)] by (simp add: y z)
    ultimately have "represents y u"
      using representsD(1,3,5,6) [OF rep] events by (simp add: represents_def u_def s1_def y z)
    with steps oku show ?thesis by blast
  qed
qed

lemma claim_row_grows: "pt_eventSequence x \<le> pt_eventSequence y \<Longrightarrow> grows x (claim_row db p details same y)"
  unfolding claim_row_def by (auto intro!: grow_rules split: option.split)

lemma newborn_payments:
  "newborn (new_payment i now)" "newborn ((directory_payment ci r trust h now)\<lparr>p_recipientSnapshot := Some sn\<rparr>)"
  "newborn (synthetic_payment cs h now)"
  by (simp_all add: newborn_def new_payment_def directory_payment_def synthetic_payment_def lifecycle_evidence.defs
      payment_record.defs no_evidence_def)

lemma simulated_stay: "represents t s \<Longrightarrow> simulated t s (Inl e, t)"
  by (simp add: simulated_def same_rows_def)

lemma claim_simulated:
  assumes "proper_database db" and rep: "represents t s" and "store_ok s"
  shows "simulated t s (pg_claimIdempotencyKey db i t)"
proof (cases "validateRequestHash (cp_requestHash i)")
  case (Inr u)
  have "simulated t s (transaction_of db (\<lambda>x. claim_row db (new_payment (wallet_request i) (tx_now x)) None
         (\<lambda>p. Inr (p_requestHash p = cp_requestHash i)) x) t)"
    using claim_row_simulated assms newborn_payments(1)
    by (intro transaction_simulated [OF rep] claim_row_grows) (blast, blast)
  with Inr show ?thesis by (simp add: pg_claimIdempotencyKey_def)
qed (simp add: pg_claimIdempotencyKey_def simulated_stay rep)

lemma directory_claim_simulated:
  assumes db: "proper_database db" and rep: "represents t s" and ok: "store_ok s"
  shows "simulated t s (pg_claimPaymentIdentityKey db env i t)"
  unfolding pg_claimPaymentIdentityKey_def Let_def
proof (rule transaction_simulated [OF rep], goal_cases)
  case 1
  show ?case by (auto intro!: grow_rules claim_row_grows split: option.split)
next
  case (2 v x)
  from 2(1) consider "x = begin_transaction db t"
    | r trust h sn d same where "claim_row db ((directory_payment i r trust h (tx_now (begin_transaction db t)))
        \<lparr>p_recipientSnapshot := Some sn\<rparr>) d same (begin_transaction db t) = (Inr v, x)"
    by (auto simp: when_ok_Inr split: option.splits if_splits)
  then show ?case
    using 2(2) ok claim_row_simulated [OF db 2(2) ok newborn_payments(2)] by cases blast+
qed

lemma synthetic_claim_simulated:
  assumes db: "proper_database db" and rep: "represents t s" and ok: "store_ok s"
  shows "simulated t s (pg_claimSyntheticPaymentIdentityKey db env i t)"
  unfolding pg_claimSyntheticPaymentIdentityKey_def Let_def
proof (rule transaction_simulated [OF rep], goal_cases)
  case 1
  show ?case by (auto intro!: grow_rules claim_row_grows split: option.split)
next
  case (2 v x)
  from 2(1) consider "x = begin_transaction db t"
    | h d same where "claim_row db (synthetic_payment i h (tx_now (begin_transaction db t))) d same (begin_transaction db t) = (Inr v, x)"
    by (auto simp: when_ok_Inr split: option.splits if_splits)
  then show ?case
    using 2(2) ok claim_row_simulated [OF db 2(2) ok newborn_payments(3)] by cases blast+
qed

lemma replay_simulated:
  assumes rep: "represents t s" and ok: "store_ok s"
  shows "simulated t s (pg_replayPaymentIdentityKey db env i t)"
  unfolding pg_replayPaymentIdentityKey_def
proof (rule transaction_simulated [OF rep], goal_cases)
  case 1
  show ?case by (auto intro!: grow_rules split: option.split)
next
  case (2 v x)
  then have "x = begin_transaction db t" by (auto simp: when_ok_Inr split: option.splits)
  with 2(2) ok show ?case by blast
qed

lemma allowlist_simulated:
  assumes rep: "represents t s" and ok: "store_ok s"
  shows "simulated t s (pg_createAllowlistEntry db i t)"
  unfolding pg_createAllowlistEntry_def Let_def
proof (rule transaction_simulated [OF rep], goal_cases)
  case 1
  show ?case by (auto intro!: grow_rules)
next
  case (2 v x)
  let ?b = "begin_transaction db t" and ?k = "ca_actorSubject i"
  from 2(1) obtain e where x: "x = ?b\<lparr>pt_allowlist := js_set (pt_allowlist ?b) ?k e\<rparr>" and none: "\<not> js_has (pt_allowlist ?b) ?k"
    by (auto simp: when_ok_Inr split: if_splits)
  define u where "u = s\<lparr>ps_allowlist := js_set (ps_allowlist s) ?k e\<rparr>"
  have "js_get (ps_allowlist s) ?k = None" using none representsD(1) [OF 2(2)] by (simp add: js_has_def)
  then have "store_step s u" using step_allow [OF _ same_data_refl, of s ?k e] by (simp add: u_def)
  moreover have "represents x u" using 2(2) by (simp add: represents_def u_def x payment_events_def events_of_def)
  ultimately show ?case using store_step_ok [of s u] ok by blast
qed

end
