(* ===== verification/PostgresProperties.thy ===== *)
theory PostgresProperties
  imports PostgresRefinement Versioned
begin

text \<open>
  Histories of the PostgreSQL persistence: its operations in any order, each one transaction, with the
  accounts, identities, destinations and preparations changing in between as other components write them.
  The properties are the refinement of the payment contract, what the triggers guarantee of a row over any
  history, and the single winner among writes that expect one version.
\<close>

section \<open>Operations and histories\<close>

datatype pg_operation =
    PgAllow create_allowlist_entry_input
  | PgClaim create_payment_input
  | PgReplay payment_identity_replay_request
  | PgClaimIdentity claim_payment_identity_input
  | PgClaimSynthetic claim_synthetic_input
  | PgTransition payment_transition_input
  | PgObserveSignature signature_observation_input
  | PgCheckSettlement settlement_check_input
  | PgConfirmSettlement settlement_confirmation_input
  | PgInform informational_event_input
  | PgStoreReceipt store_receipt_input

fun run_pg :: "database \<Rightarrow> runtime_env \<Rightarrow> pg_operation \<Rightarrow> payment_tables \<Rightarrow> js_error option \<times> payment_tables" where
  "run_pg db env (PgAllow i) t = thrown (pg_createAllowlistEntry db i t)"
| "run_pg db env (PgClaim i) t = thrown (pg_claimIdempotencyKey db i t)"
| "run_pg db env (PgReplay i) t = thrown (pg_replayPaymentIdentityKey db env i t)"
| "run_pg db env (PgClaimIdentity i) t = thrown (pg_claimPaymentIdentityKey db env i t)"
| "run_pg db env (PgClaimSynthetic i) t = thrown (pg_claimSyntheticPaymentIdentityKey db env i t)"
| "run_pg db env (PgTransition i) t = thrown (pg_transitionPayment db i t)"
| "run_pg db env (PgObserveSignature i) t = thrown (pg_recordSignatureObservation db i t)"
| "run_pg db env (PgCheckSettlement i) t = thrown (pg_recordSettlementCheck db i t)"
| "run_pg db env (PgConfirmSettlement i) t = thrown (pg_recordSettlementConfirmation db i t)"
| "run_pg db env (PgInform i) t = thrown (pg_appendInformationalEvent db i t)"
| "run_pg db env (PgStoreReceipt i) t = thrown (pg_storeVerifiedReceipt db i t)"

inductive pg_step :: "database \<Rightarrow> runtime_env \<Rightarrow> payment_tables \<Rightarrow> payment_tables \<Rightarrow> bool" for db env where
  pg_call: "run_pg db env opn t = (err, u) \<Longrightarrow> pg_step db env t u"
| pg_elsewhere: "pg_step db env t (t\<lparr>pt_accounts := accounts, pt_identities := identities, pt_destinations := destinations,
    pt_synthetic := synthetic, pt_prepared := prepared\<rparr>)"

inductive_cases pg_stepE: "pg_step db env t u"

text \<open>A simulated operation, whatever it returns or throws.\<close>

definition tables_simulated :: "payment_tables \<Rightarrow> payment_store \<Rightarrow> js_error option \<Rightarrow> payment_tables \<Rightarrow> bool" where
  "tables_simulated t s err u \<longleftrightarrow> (\<exists>s'. store_step\<^sup>*\<^sup>* s s' \<and> store_ok s' \<and> represents u s' \<and>
     (err \<noteq> None \<longrightarrow> s' = s \<and> same_rows t u))"

lemma simulated_thrown:
  assumes "simulated t s out" and "store_ok s" and "thrown out = (err, u)"
  shows "tables_simulated t s err u"
  using assms by (cases out; cases "fst out") (auto simp: simulated_def tables_simulated_def)

lemma operation_simulated:
  assumes db: "proper_database db" and rep: "represents t s" and ok: "store_ok s" and run: "run_pg db env opn t = (err, u)"
  shows "tables_simulated t s err u"
proof (cases opn)
  case (PgAllow i)
  with run allowlist_simulated [OF rep ok] simulated_thrown [OF _ ok] show ?thesis by (metis run_pg.simps(1))
next
  case (PgClaim i)
  with run claim_simulated [OF db rep ok] simulated_thrown [OF _ ok] show ?thesis by (metis run_pg.simps(2))
next
  case (PgReplay i)
  with run replay_simulated [OF rep ok] simulated_thrown [OF _ ok] show ?thesis by (metis run_pg.simps(3))
next
  case (PgClaimIdentity i)
  with run directory_claim_simulated [OF db rep ok] simulated_thrown [OF _ ok] show ?thesis by (metis run_pg.simps(4))
next
  case (PgClaimSynthetic i)
  with run synthetic_claim_simulated [OF db rep ok] simulated_thrown [OF _ ok] show ?thesis by (metis run_pg.simps(5))
next
  case (PgTransition i)
  with run transition_simulated [OF rep ok] simulated_thrown [OF _ ok] show ?thesis by (metis run_pg.simps(6))
next
  case (PgObserveSignature i)
  with run observation_simulated [OF rep ok] simulated_thrown [OF _ ok] show ?thesis by (metis run_pg.simps(7))
next
  case (PgCheckSettlement i)
  with run check_simulated [OF rep ok] simulated_thrown [OF _ ok] show ?thesis by (metis run_pg.simps(8))
next
  case (PgConfirmSettlement i)
  with run confirmation_simulated [OF rep ok] simulated_thrown [OF _ ok] show ?thesis by (metis run_pg.simps(9))
next
  case (PgInform i)
  with run information_simulated [OF rep ok] simulated_thrown [OF _ ok] show ?thesis by (metis run_pg.simps(10))
next
  case (PgStoreReceipt i)
  with run receipt_simulated [OF rep ok] simulated_thrown [OF _ ok] show ?thesis by (metis run_pg.simps(11))
qed

lemma step_simulated:
  assumes db: "proper_database db" and "represents t s" and "store_ok s" and "pg_step db env t u"
  shows "\<exists>s'. store_step\<^sup>*\<^sup>* s s' \<and> store_ok s' \<and> represents u s'"
  using assms(4)
proof (cases rule: pg_step.cases)
  case (pg_call opn err)
  from operation_simulated [OF assms(1-3) this] show ?thesis unfolding tables_simulated_def by blast
next
  case (pg_elsewhere accounts identities destinations synthetic prepared)
  then have "represents u s" using represents_same_rows [OF assms(2), of u] by simp
  with assms(3) show ?thesis by blast
qed

lemma history_simulated:
  assumes db: "proper_database db" and rep: "represents t s" and ok: "store_ok s" and "(pg_step db env)\<^sup>*\<^sup>* t u"
  shows "\<exists>s'. store_step\<^sup>*\<^sup>* s s' \<and> store_ok s' \<and> represents u s'"
  using assms(4)
proof (induction rule: rtranclp_induct)
  case base
  with rep ok show ?case by blast
next
  case (step v w)
  then obtain s' where s': "store_step\<^sup>*\<^sup>* s s'" "store_ok s'" "represents v s'" by blast
  from step_simulated [OF db s'(3,2) step(2)] s'(1) show ?case by (meson rtranclp_trans)
qed

lemma reached_represented:
  "proper_database db \<Longrightarrow> (pg_step db env)\<^sup>*\<^sup>* empty_tables t \<Longrightarrow>
   \<exists>s. store_step\<^sup>*\<^sup>* empty_store s \<and> store_ok s \<and> represents t s"
  using history_simulated [OF _ represents_empty store_ok_empty] by blast

section \<open>How a row evolves\<close>

text \<open>What holds of an outcome's state, kept by every statement of an operation.\<close>

definition carries :: "('s \<Rightarrow> bool) \<Rightarrow> ('s, 'v) outcome \<Rightarrow> bool" where
  "carries P o' \<longleftrightarrow> P (snd o')"

lemma carries_simps [simp]: "carries P (r, y) \<longleftrightarrow> P y"
  by (simp add: carries_def)

lemma carries_when: "(\<And>v. r = Inr v \<Longrightarrow> carries P (f v)) \<Longrightarrow> P y \<Longrightarrow> carries P (when_ok r y f)"
  by (cases r) simp_all

lemma carries_then: "carries P o' \<Longrightarrow> (\<And>v y. P y \<Longrightarrow> carries P (f v y)) \<Longrightarrow> carries P (then_do o' f)"
  by (cases o'; cases "fst o'") auto

text \<open>The tables of a state from which only the rows of payments matter.\<close>

definition row_later :: "payment_record \<Rightarrow> payment_record \<Rightarrow> bool" where
  "row_later row row' \<longleftrightarrow> same_request row' row \<and> p_version row \<le> p_version row' \<and>
     once_set (solanaSignature row) (solanaSignature row') \<and> once_set (receiptPda row) (receiptPda row') \<and>
     once_set (confirmedSlot row) (confirmedSlot row') \<and> once_set (submittedSlot row) (submittedSlot row') \<and>
     once_set (recentBlockhash row) (recentBlockhash row') \<and>
     (isTerminalPaymentStatus (p_status row) \<longrightarrow> row' = row)"

definition rows_later :: "(string, payment_record) js_map \<Rightarrow> 'a payment_tables_scheme \<Rightarrow> bool" where
  "rows_later rows y \<longleftrightarrow> (\<forall>k row. js_get rows k = Some row \<longrightarrow> (\<exists>row'. js_get (pt_payments y) k = Some row' \<and> row_later row row'))"

lemma row_later_refl [simp]: "row_later row row"
  by (simp add: row_later_def same_request_def)

lemma once_set_trans: "once_set a b \<Longrightarrow> once_set b c \<Longrightarrow> once_set a c"
  by auto

lemma same_request_trans: "same_request b a \<Longrightarrow> same_request c b \<Longrightarrow> same_request c a"
  by (simp add: same_request_def)

lemma row_later_trans:
  assumes "row_later a b" and "row_later b c"
  shows "row_later a c"
proof -
  note ab = assms(1) [unfolded row_later_def] and bc = assms(2) [unfolded row_later_def]
  have "same_request c a" using ab bc same_request_trans by blast
  moreover have "p_version a \<le> p_version c" using ab bc by linarith
  moreover have "isTerminalPaymentStatus (p_status a) \<longrightarrow> c = a" using ab bc by metis
  moreover have "once_set (solanaSignature a) (solanaSignature c)" "once_set (receiptPda a) (receiptPda c)"
    "once_set (confirmedSlot a) (confirmedSlot c)" "once_set (submittedSlot a) (submittedSlot c)"
    "once_set (recentBlockhash a) (recentBlockhash c)"
    using ab bc by (metis, metis, metis, metis, metis)
  ultimately show ?thesis by (simp only: row_later_def)
qed

lemma rows_later_refl [simp]: "rows_later (pt_payments y) y"
  by (auto simp: rows_later_def)

lemma rows_later_same: "rows_later rows y \<Longrightarrow> pt_payments z = pt_payments y \<Longrightarrow> rows_later rows z"
  by (simp add: rows_later_def)

lemma rows_later_trans: "rows_later rows y \<Longrightarrow> rows_later (pt_payments y) z \<Longrightarrow> rows_later rows z"
  unfolding rows_later_def by (meson row_later_trans)

lemma rows_later_update:
  fixes y :: transaction
  assumes "rows_later rows y" and "js_get (pt_payments y) k = Some old" and "row_later old new"
  shows "rows_later rows (y\<lparr>pt_payments := js_set (pt_payments y) k new, tx_deferred := d\<rparr>)"
  by (rule rows_later_trans [OF assms(1)]) (use assms(2,3) in \<open>auto simp: rows_later_def\<close>)

lemma rows_later_insert:
  fixes y :: transaction
  assumes "rows_later rows y" and "js_get (pt_payments y) k = None"
  shows "rows_later rows (y\<lparr>pt_payments := js_set (pt_payments y) k new\<rparr>)"
  by (rule rows_later_trans [OF assms(1)]) (use assms(2) in \<open>auto simp: rows_later_def\<close>)

lemma admitted_later:
  assumes "update_admitted x old new = Inr ()" and "same_request new old" and "p_version new = p_version old + 1"
  shows "row_later old new"
  using protected [OF admitted(2) [OF assms(1)]] assms(2,3) by (simp add: row_later_def)

lemma update_carries: "rows_later rows y \<Longrightarrow> carries (rows_later rows) (updatePayment db cur st e y)"
  unfolding updatePayment_def Let_def
  by (intro carries_when) (auto split: option.split intro!: carries_when rows_later_update admitted_later)

lemma append_carries: "rows_later rows y \<Longrightarrow> carries (rows_later rows) (appendEvent db i y)"
  unfolding appendEvent_def Let_def by (intro carries_when) (auto elim: rows_later_same)

lemma insert_receipt_carries: "rows_later rows y \<Longrightarrow> carries (rows_later rows) (insert_receipt db pid r y)"
  unfolding insert_receipt_def by (intro carries_when) (auto elim: rows_later_same)

lemma insert_payment_carries: "rows_later rows y \<Longrightarrow> carries (rows_later rows) (insert_payment_row db p y)"
  unfolding insert_payment_row_def
  by (intro carries_when) (auto intro!: carries_when rows_later_insert simp: js_has_def)

lemmas carry_rules = carries_when carries_then update_carries append_carries insert_receipt_carries insert_payment_carries

lemma claim_carries: "rows_later rows y \<Longrightarrow> carries (rows_later rows) (claim_row db p d same y)"
  unfolding claim_row_def by (auto intro!: carry_rules split: option.split)

lemma transaction_carries:
  assumes "carries (rows_later (pt_payments t)) (body (begin_transaction db t))"
  shows "carries (rows_later (pt_payments t)) (transaction_of db body t)"
proof -
  obtain r x where o': "body (begin_transaction db t) = (r, x)" by force
  have x: "rows_later (pt_payments t) x" using assms o' by simp
  have "rows_later (pt_payments t) (after_transaction t x)" by (simp add: after_transaction_def rows_later_def)
  moreover have "rows_later (pt_payments t) (after_transaction (payment_tables.truncate x) x)"
    using x by (simp add: after_transaction_def rows_later_def)
  ultimately show ?thesis using o' by (auto simp: transaction_of_def split: sum.split)
qed

lemma begin_later: "rows_later (pt_payments t) (begin_transaction db t)"
  using rows_later_refl [of "begin_transaction db t"] by simp

lemma thrown_carries: "carries P o' \<Longrightarrow> thrown o' = (err, u) \<Longrightarrow> P u"
  by (auto simp: thrown_def carries_def)

lemma operation_later:
  assumes run: "run_pg db env opn t = (err, u)"
  shows "rows_later (pt_payments t) u"
proof (cases opn)
  case (PgAllow i)
  have "carries (rows_later (pt_payments t)) (pg_createAllowlistEntry db i t)"
    unfolding pg_createAllowlistEntry_def Let_def
    by (rule transaction_carries) (auto intro!: carry_rules simp: rows_later_def)
  with run PgAllow thrown_carries show ?thesis by (metis run_pg.simps(1))
next
  case (PgClaim i)
  have "carries (rows_later (pt_payments t)) (pg_claimIdempotencyKey db i t)"
    unfolding pg_claimIdempotencyKey_def
    by (auto intro!: carries_when transaction_carries claim_carries begin_later)
  with run PgClaim thrown_carries show ?thesis by (metis run_pg.simps(2))
next
  case (PgReplay i)
  have "carries (rows_later (pt_payments t)) (pg_replayPaymentIdentityKey db env i t)"
    unfolding pg_replayPaymentIdentityKey_def
    by (rule transaction_carries) (use begin_later in \<open>auto intro!: carry_rules split: option.split\<close>)
  with run PgReplay thrown_carries show ?thesis by (metis run_pg.simps(3))
next
  case (PgClaimIdentity i)
  have "carries (rows_later (pt_payments t)) (pg_claimPaymentIdentityKey db env i t)"
    unfolding pg_claimPaymentIdentityKey_def Let_def
    by (rule transaction_carries) (use begin_later in \<open>auto intro!: carry_rules claim_carries split: option.split\<close>)
  with run PgClaimIdentity thrown_carries show ?thesis by (metis run_pg.simps(4))
next
  case (PgClaimSynthetic i)
  have "carries (rows_later (pt_payments t)) (pg_claimSyntheticPaymentIdentityKey db env i t)"
    unfolding pg_claimSyntheticPaymentIdentityKey_def Let_def
    by (rule transaction_carries) (use begin_later in \<open>auto intro!: carry_rules claim_carries split: option.split\<close>)
  with run PgClaimSynthetic thrown_carries show ?thesis by (metis run_pg.simps(5))
next
  case (PgTransition i)
  have "carries (rows_later (pt_payments t)) (pg_transitionPayment db i t)"
    unfolding pg_transitionPayment_def
    by (rule transaction_carries) (use begin_later in \<open>auto intro!: carry_rules\<close>)
  with run PgTransition thrown_carries show ?thesis by (metis run_pg.simps(6))
next
  case (PgObserveSignature i)
  have "carries (rows_later (pt_payments t)) (pg_recordSignatureObservation db i t)"
    unfolding pg_recordSignatureObservation_def
    by (rule transaction_carries) (use begin_later in \<open>auto intro!: carry_rules\<close>)
  with run PgObserveSignature thrown_carries show ?thesis by (metis run_pg.simps(7))
next
  case (PgCheckSettlement i)
  have "carries (rows_later (pt_payments t)) (pg_recordSettlementCheck db i t)"
    unfolding pg_recordSettlementCheck_def
    by (rule transaction_carries) (use begin_later in \<open>auto intro!: carry_rules\<close>)
  with run PgCheckSettlement thrown_carries show ?thesis by (metis run_pg.simps(8))
next
  case (PgConfirmSettlement i)
  have "carries (rows_later (pt_payments t)) (pg_recordSettlementConfirmation db i t)"
    unfolding pg_recordSettlementConfirmation_def
    by (rule transaction_carries) (use begin_later in \<open>auto intro!: carry_rules\<close>)
  with run PgConfirmSettlement thrown_carries show ?thesis by (metis run_pg.simps(9))
next
  case (PgInform i)
  have "carries (rows_later (pt_payments t)) (pg_appendInformationalEvent db i t)"
    unfolding pg_appendInformationalEvent_def
    by (rule transaction_carries) (use begin_later in \<open>auto intro!: carry_rules\<close>)
  with run PgInform thrown_carries show ?thesis by (metis run_pg.simps(10))
next
  case (PgStoreReceipt i)
  have "carries (rows_later (pt_payments t)) (pg_storeVerifiedReceipt db i t)"
    unfolding pg_storeVerifiedReceipt_def
    by (rule transaction_carries) (use begin_later in \<open>auto intro!: carry_rules\<close>)
  with run PgStoreReceipt thrown_carries show ?thesis by (metis run_pg.simps(11))
qed

lemma step_later:
  assumes "pg_step db env t u"
  shows "rows_later (pt_payments t) u"
  using assms
proof (cases rule: pg_step.cases)
  case (pg_call opn err)
  then show ?thesis by (rule operation_later)
next
  case (pg_elsewhere accounts identities destinations synthetic prepared)
  then show ?thesis using rows_later_same [OF rows_later_refl, of u t] by simp
qed

lemma history_later:
  assumes "(pg_step db env)\<^sup>*\<^sup>* t u"
  shows "rows_later (pt_payments t) u"
  using assms
proof (induction rule: rtranclp_induct)
  case (step v w)
  then show ?case using rows_later_trans step_later by blast
qed simp

section \<open>Writes that expect a version\<close>

fun pg_expected :: "pg_operation \<Rightarrow> (string \<times> int) option" where
  "pg_expected (PgTransition i) = Some (ti_paymentId i, ti_expectedVersion i)"
| "pg_expected (PgObserveSignature i) = Some (so_paymentId i, so_expectedVersion i)"
| "pg_expected (PgCheckSettlement i) = Some (sc_paymentId i, sc_expectedVersion i)"
| "pg_expected (PgConfirmSettlement i) = Some (sf_paymentId i, sf_expectedVersion i)"
| "pg_expected (PgStoreReceipt i) = Some (sr_paymentId i, sr_expectedVersion i)"
| "pg_expected _ = None"

definition pg_target :: "database \<Rightarrow> pg_operation \<Rightarrow> string" where
  "pg_target db opn = the (db_uuid db (fst (the (pg_expected opn))))"

definition pg_version :: "payment_tables \<Rightarrow> string \<Rightarrow> int option" where
  "pg_version t k = map_option p_version (js_get (pt_payments t) k)"

definition pg_put :: "database \<Rightarrow> runtime_env \<Rightarrow> pg_operation \<Rightarrow> payment_tables \<Rightarrow> payment_tables option" where
  "pg_put db env opn t = (case (pg_expected opn, run_pg db env opn t) of
     (Some pv, None, u) \<Rightarrow> Some u | _ \<Rightarrow> None)"

lemma pg_put_Some: "pg_put db env opn t = Some u \<longleftrightarrow> pg_expected opn \<noteq> None \<and> run_pg db env opn t = (None, u)"
  by (auto simp: pg_put_def split: option.splits prod.splits)

text \<open>The version a key has in the rows of a state.\<close>

abbreviation row_version :: "'a payment_tables_scheme \<Rightarrow> string \<Rightarrow> int option" where
  "row_version y k \<equiv> map_option p_version (js_get (pt_payments y) k)"

lemma transaction_none:
  assumes "thrown (transaction_of db body t) = (None, u)"
  shows "\<exists>v x. body (begin_transaction db t) = (Inr v, x) \<and> pt_payments u = pt_payments x"
proof -
  obtain r x where o': "body (begin_transaction db t) = (r, x)" by force
  with assms show ?thesis
    by (auto simp: transaction_of_def thrown_def after_transaction_def split: sum.splits)
qed

text \<open>An operation locks the version it expects, and the update it makes is of that row.\<close>

lemma update_version:
  assumes "updatePayment db cur st e x = (Inr upd, y)"
  shows "\<exists>k. k = p_id cur \<and> row_version x k = Some (p_version cur) \<and> row_version y k = Some (p_version cur + 1)"
  using updatePayment_Inr [OF assms] by (auto simp: updated_row_def)

lemma append_payments: "appendEvent db i x = (Inr ev, y) \<Longrightarrow> pt_payments y = pt_payments x"
  by (drule appendEvent_Inr) auto

text \<open>What a write that expects a version finds and leaves.\<close>

definition version_written :: "database \<Rightarrow> string \<Rightarrow> int \<Rightarrow> payment_tables \<Rightarrow> payment_tables \<Rightarrow> bool" where
  "version_written db pid v t u \<longleftrightarrow> (\<exists>cur. lock_version db pid v (begin_transaction db t) = Inr cur \<and>
     row_version u (p_id cur) = Some (v + 1))"

lemma version_writtenI:
  assumes "lock_version db pid v (begin_transaction db t) = Inr cur" and "updatePayment db cur st e x = (Inr upd, y)"
    and "pt_payments u = pt_payments y"
  shows "version_written db pid v t u"
  using assms update_version [OF assms(2)] lock_version_Inr [OF assms(1)] by (auto simp: version_written_def)

lemma pg_transitionPayment_version:
  assumes "thrown (pg_transitionPayment db i t) = (None, u)"
  shows "version_written db (ti_paymentId i) (ti_expectedVersion i) t u"
proof -
  from transaction_none [OF assms [unfolded pg_transitionPayment_def]]
  show ?thesis by (auto simp: when_ok_Inr then_do_Inr append_payments split: if_splits intro: version_writtenI)
qed

lemma pg_recordSignatureObservation_version:
  assumes "thrown (pg_recordSignatureObservation db i t) = (None, u)"
  shows "version_written db (so_paymentId i) (so_expectedVersion i) t u"
proof -
  from transaction_none [OF assms [unfolded pg_recordSignatureObservation_def]]
  show ?thesis by (auto simp: when_ok_Inr then_do_Inr append_payments split: if_splits intro: version_writtenI)
qed

lemma pg_recordSettlementCheck_version:
  assumes "thrown (pg_recordSettlementCheck db i t) = (None, u)"
  shows "version_written db (sc_paymentId i) (sc_expectedVersion i) t u"
proof -
  from transaction_none [OF assms [unfolded pg_recordSettlementCheck_def]]
  show ?thesis by (auto simp: when_ok_Inr then_do_Inr append_payments split: if_splits intro: version_writtenI)
qed

lemma pg_recordSettlementConfirmation_version:
  assumes "thrown (pg_recordSettlementConfirmation db i t) = (None, u)"
  shows "version_written db (sf_paymentId i) (sf_expectedVersion i) t u"
proof -
  from transaction_none [OF assms [unfolded pg_recordSettlementConfirmation_def]]
  show ?thesis by (auto simp: when_ok_Inr then_do_Inr append_payments split: if_splits intro: version_writtenI)
qed

lemma pg_storeVerifiedReceipt_version:
  assumes "thrown (pg_storeVerifiedReceipt db i t) = (None, u)"
  shows "version_written db (sr_paymentId i) (sr_expectedVersion i) t u"
proof -
  from transaction_none [OF assms [unfolded pg_storeVerifiedReceipt_def]]
  show ?thesis by (auto simp: when_ok_Inr then_do_Inr append_payments split: if_splits intro: version_writtenI)
qed

lemmas versions_written = pg_transitionPayment_version
  pg_recordSignatureObservation_version
  pg_recordSettlementCheck_version
  pg_recordSettlementConfirmation_version
  pg_storeVerifiedReceipt_version

lemma versioned_write:
  assumes "pg_expected opn = Some (pid, v)" and "run_pg db env opn t = (None, u)"
  shows "version_written db pid v t u"
  using assms versions_written by (cases opn) auto

definition pg_ok :: "database \<Rightarrow> payment_tables \<Rightarrow> bool" where
  "pg_ok db t \<longleftrightarrow> proper_database db \<and> (\<exists>s. store_ok s \<and> represents t s)"

lemma pg_ok_keyed: "pg_ok db t \<Longrightarrow> js_get (pt_payments t) k = Some row \<Longrightarrow> p_id row = k \<and> (\<exists>p. mapPayment row = Inr p)"
  using represented_payment unfolding pg_ok_def by blast

lemma pg_ok_lock:
  assumes "pg_ok db t" and "lock_version db pid v (begin_transaction db t) = Inr cur"
  shows "db_uuid db pid = Some (p_id cur)" "row_version t (p_id cur) = Some v"
proof -
  from lock_version_Inr [OF assms(2)] obtain k row where r: "sql_uuid db pid = Inr k" "js_get (pt_payments t) k = Some row"
    "mapPayment row = Inr cur" "p_version cur = v" by auto
  with pg_ok_keyed [OF assms(1) r(2)] mapPayment_fields(1,2) [OF r(3)]
  show "db_uuid db pid = Some (p_id cur)" "row_version t (p_id cur) = Some v" by (simp_all add: sql_uuid_Inr)
qed

lemma pg_ok_step: "pg_ok db t \<Longrightarrow> pg_step db env t u \<Longrightarrow> pg_ok db u"
  unfolding pg_ok_def using step_simulated by blast

lemma put_written:
  assumes "pg_ok db t" and "pg_put db env opn t = Some u"
  shows "pg_version t (pg_target db opn) = Some (snd (the (pg_expected opn)))"
    "pg_version u (pg_target db opn) = Some (snd (the (pg_expected opn)) + 1)"
proof -
  from assms(2) obtain pid v where e: "pg_expected opn = Some (pid, v)" and run: "run_pg db env opn t = (None, u)"
    by (auto simp: pg_put_Some)
  from versioned_write [OF e run] obtain cur where cur: "lock_version db pid v (begin_transaction db t) = Inr cur"
    "row_version u (p_id cur) = Some (v + 1)" by (auto simp: version_written_def)
  with pg_ok_lock [OF assms(1) cur(1)] e
  show "pg_version t (pg_target db opn) = Some (snd (the (pg_expected opn)))"
    "pg_version u (pg_target db opn) = Some (snd (the (pg_expected opn)) + 1)" by (auto simp: pg_target_def pg_version_def)
qed

interpretation qm: versioned_store "pg_ok db" "pg_step db env" pg_version "pg_put db env" "pg_target db"
  "\<lambda>opn. snd (the (pg_expected opn))" for db env
proof unfold_locales
  fix s t assume "pg_ok db s" "pg_step db env s t"
  then show "pg_ok db t" by (rule pg_ok_step)
next
  fix s t k v assume "pg_step db env s t" "pg_version s k = Some v"
  with step_later [of db env s t] show "\<exists>v'. pg_version t k = Some v' \<and> v \<le> v'"
    by (fastforce simp: pg_version_def rows_later_def row_later_def)
next
  fix opn s t assume ok: "pg_ok db s" and put: "pg_put db env opn s = Some t"
  show "pg_version s (pg_target db opn) = Some (snd (the (pg_expected opn)))"
    "pg_version t (pg_target db opn) = Some (snd (the (pg_expected opn)) + 1)" using put_written [OF ok put] by simp_all
  show "pg_ok db t" using pg_ok_step [OF ok] put pg_call [of db env opn s None t] by (auto simp: pg_put_Some)
qed

text \<open>A write that expects another version than its row has throws the conflict and changes no row.\<close>

lemma transaction_refused:
  assumes "body (begin_transaction db t) = (Inl e, begin_transaction db t)"
  shows "transaction_of db body t = (Inl e, t\<lparr>pt_transactions := Suc (pt_transactions t)\<rparr>)"
proof -
  have "pt_transactions (begin_transaction db t) = pt_transactions t"
    by (simp add: begin_transaction_def payment_tables.defs)
  with assms show ?thesis by (simp add: transaction_of_def after_transaction_def)
qed

lemma stale_lock:
  assumes ok: "pg_ok db t" and "db_uuid db pid = Some k" and "row_version t k = Some w" and "w \<noteq> v"
  shows "lock_version db pid v (begin_transaction db t) = version_conflict pid"
proof -
  from assms(3) obtain row where row: "js_get (pt_payments t) k = Some row" "p_version row = w" by auto
  from pg_ok_keyed [OF ok row(1)] obtain p where p: "mapPayment row = Inr p" by blast
  with row assms(2,4) mapPayment_fields(2) [OF p] show ?thesis
    by (simp add: lock_version_def lockPayment_def sql_uuid_def)
qed

lemma stale_write:
  assumes "pg_expected opn = Some (pid, v)" and lock: "lock_version db pid v (begin_transaction db t) = version_conflict pid"
  shows "run_pg db env opn t = (Some (Err PaymentVersionConflictError
    (''Payment '' @ pid @ '' was modified by another operation.'')), t\<lparr>pt_transactions := Suc (pt_transactions t)\<rparr>)"
  using assms
  by (cases opn) (auto simp: pg_transitionPayment_def pg_recordSignatureObservation_def pg_recordSettlementCheck_def
      pg_recordSettlementConfirmation_def pg_storeVerifiedReceipt_def version_conflict_def transaction_refused)

section \<open>A run of the persistence\<close>

text \<open>A payment of alice, from its claim to its verified receipt.\<close>

definition sample_database :: database where
  "sample_database = \<lparr>db_now = (\<lambda>n. ''t'' @ nat_to_dec n), db_timestamp = Some,
     db_compare = (\<lambda>a b. int (length a) - int (length b)),
     db_uuid = (\<lambda>s. Some (take 36 (s @ replicate 36 CHR ''0''))), db_jsonb = Some\<rparr>"

definition sample_uuid :: "string \<Rightarrow> string" where
  "sample_uuid s = take 36 (s @ replicate 36 CHR ''0'')"

definition sample_request :: create_payment_input where
  "sample_request = sample_create\<lparr>cp_idempotencyKey := replicate 16 CHR ''k'', cp_actorSubject := ''a'',
     cp_mintAddress := ''m'', cp_recipientAddress := ''b'', cp_amountRaw := 1, cp_purpose := None\<rparr>"

definition sample_tables :: payment_tables where
  "sample_tables = empty_tables\<lparr>pt_accounts := [\<lparr>ac_accountId = ''a'', ac_actorSubject = ''a'', ac_status = ''ACTIVE''\<rparr>]\<rparr>"

definition sample_claimed :: payment_tables where
  "sample_claimed = snd (run_pg sample_database sample_env (PgClaim sample_request) sample_tables)"

definition sample_confirmed :: payment_tables where
  "sample_confirmed = snd (run_pg sample_database sample_env (PgTransition sample_confirm) sample_claimed)"

definition sample_settle :: pg_operation where
  "sample_settle = PgStoreReceipt (sample_store_receipt\<lparr>sr_receipt := sample_receipt\<lparr>rc_paymentId := sample_uuid ''pay-1'',
     rc_mintAddress := ''m'', rc_recipientAddress := ''b'', rc_amountRaw := 1\<rparr>\<rparr>)"

definition sample_settled :: payment_tables where
  "sample_settled = snd (run_pg sample_database sample_env sample_settle sample_confirmed)"

lemma sample_database_proper: "proper_database sample_database"
  by (auto simp: proper_database_def sample_database_def)

lemma sample_tables_reached: "(pg_step sample_database sample_env)\<^sup>*\<^sup>* empty_tables sample_tables"
  using pg_elsewhere [of sample_database sample_env empty_tables] by (fastforce simp: sample_tables_def empty_tables_def)

lemma snd_step: "pg_step db env t (snd (run_pg db env opn t))"
  by (rule pg_call [where err = "fst (run_pg db env opn t)"]) simp

lemma sample_claimed_reached: "(pg_step sample_database sample_env)\<^sup>*\<^sup>* empty_tables sample_claimed"
  unfolding sample_claimed_def by (rule rtranclp.rtrancl_into_rtrancl [OF sample_tables_reached snd_step])

lemma sample_confirmed_reached: "(pg_step sample_database sample_env)\<^sup>*\<^sup>* empty_tables sample_confirmed"
  unfolding sample_confirmed_def by (rule rtranclp.rtrancl_into_rtrancl [OF sample_claimed_reached snd_step])


lemma sample_runs:
  "run_pg sample_database sample_env (PgTransition sample_confirm) sample_claimed = (None, sample_confirmed)"
  "run_pg sample_database sample_env sample_settle sample_confirmed = (None, sample_settled)"
proof -
  have "fst (run_pg sample_database sample_env (PgTransition sample_confirm) sample_claimed) = None"
    "fst (run_pg sample_database sample_env sample_settle sample_confirmed) = None" by code_simp+
  then show "run_pg sample_database sample_env (PgTransition sample_confirm) sample_claimed = (None, sample_confirmed)"
    "run_pg sample_database sample_env sample_settle sample_confirmed = (None, sample_settled)"
    unfolding sample_confirmed_def sample_settled_def by (metis prod.collapse)+
qed

lemma sample_rows:
  "map_option p_status (js_get (pt_payments sample_confirmed) (sample_uuid ''pay-1'')) = Some PROCESSING"
  "map_option p_status (js_get (pt_payments sample_settled) (sample_uuid ''pay-1'')) = Some COMPLETED"
  "map_option solanaSignature (js_get (pt_payments sample_settled) (sample_uuid ''pay-1'')) = Some (Some ''sig'')"
  by code_simp+

section \<open>Properties\<close>

text \<open>C9: the PostgreSQL persistence implements the payment contract. Whatever history led to the tables, they
  represent a state of the contract that its steps reach; and whatever operation runs next, what it publishes
  represents a state reached from there by the contract's steps, the same state with no row changed when the
  operation throws, at whatever statement or deferred trigger that was.\<close>

theorem postgres_refines_contract:
  assumes "proper_database db" and "(pg_step db env)\<^sup>*\<^sup>* empty_tables t" and "run_pg db env opn t = (err, u)"
  shows "\<exists>s s'. store_step\<^sup>*\<^sup>* empty_store s \<and> represents t s \<and> store_step\<^sup>*\<^sup>* s s' \<and> represents u s' \<and>
    (err \<noteq> None \<longrightarrow> s' = s \<and> same_rows t u)"
proof -
  from reached_represented [OF assms(1,2)] obtain s where s: "store_step\<^sup>*\<^sup>* empty_store s" "store_ok s" "represents t s" by blast
  from operation_simulated [OF assms(1) s(3,2) assms(3)] s show ?thesis by (auto simp: tables_simulated_def)
qed

theorem postgres_refines_contract_witness:
  "\<exists>s s'. store_step\<^sup>*\<^sup>* empty_store s \<and> represents sample_confirmed s \<and> store_step\<^sup>*\<^sup>* s s' \<and> represents sample_settled s'"
  using postgres_refines_contract [OF sample_database_proper sample_confirmed_reached sample_runs(2)] by blast

text \<open>C11: what has been recorded of a settlement is permanent. Over any history from any tables, a payment keeps the
  request it was made for; a signature, a receipt address, a confirmed or submitted slot and a blockhash never
  change once they are there; its version never goes back; and a completed or failed payment never changes at all.\<close>

theorem settlement_evidence_is_permanent:
  assumes "(pg_step db env)\<^sup>*\<^sup>* t u" and "js_get (pt_payments t) k = Some row"
  shows "\<exists>row'. js_get (pt_payments u) k = Some row' \<and> same_request row' row \<and> p_version row \<le> p_version row' \<and>
    (solanaSignature row = None \<or> solanaSignature row' = solanaSignature row) \<and>
    (receiptPda row = None \<or> receiptPda row' = receiptPda row) \<and>
    (confirmedSlot row = None \<or> confirmedSlot row' = confirmedSlot row) \<and>
    (submittedSlot row = None \<or> submittedSlot row' = submittedSlot row) \<and>
    (recentBlockhash row = None \<or> recentBlockhash row' = recentBlockhash row) \<and>
    (p_status row \<in> {COMPLETED, FAILED} \<longrightarrow> row' = row)"
  using history_later [OF assms(1)] assms(2) by (fastforce simp: rows_later_def row_later_def isTerminalPaymentStatus_def)

theorem settlement_evidence_is_permanent_witness:
  "\<exists>row row'. js_get (pt_payments sample_confirmed) (sample_uuid ''pay-1'') = Some row \<and>
     js_get (pt_payments sample_settled) (sample_uuid ''pay-1'') = Some row' \<and> same_request row' row"
proof -
  obtain row where row: "js_get (pt_payments sample_confirmed) (sample_uuid ''pay-1'') = Some row" using sample_rows(1) by auto
  have "(pg_step sample_database sample_env)\<^sup>*\<^sup>* sample_confirmed sample_settled"
    unfolding sample_settled_def by (rule r_into_rtranclp [where r = "pg_step sample_database sample_env"]) (rule snd_step)
  from settlement_evidence_is_permanent [OF this row] row show ?thesis by blast
qed

text \<open>C12: of the writes prepared against one version of a payment, the database admits one. Once a write that expects a
  version has succeeded, every other write that expects the same version of the same payment, in whatever spelling
  of its id and however much ran in between, throws the version conflict and leaves every row as it was.\<close>

theorem postgres_single_winner:
  assumes db: "proper_database db" and reach: "(pg_step db env)\<^sup>*\<^sup>* empty_tables t" and first: "run_pg db env first t = (None, u)"
    and later: "(pg_step db env)\<^sup>*\<^sup>* u w" and e1: "pg_expected first = Some (pid, v)"
    and e2: "pg_expected second = Some (pid', v)" and same: "db_uuid db pid' = db_uuid db pid"
  shows "run_pg db env second w = (Some (Err PaymentVersionConflictError
    (''Payment '' @ pid' @ '' was modified by another operation.'')), w\<lparr>pt_transactions := Suc (pt_transactions w)\<rparr>)"
proof -
  have ok: "pg_ok db t" using reached_represented [OF db reach] db by (auto simp: pg_ok_def)
  have put: "pg_put db env first t = Some u" using first e1 by (simp add: pg_put_Some)
  from qm.version_moved_on [OF ok put later] e1 obtain x where x: "row_version w (pg_target db first) = Some x" "v < x"
    by (auto simp: pg_version_def)
  from versioned_write [OF e1 first] obtain cur where cur: "lock_version db pid v (begin_transaction db t) = Inr cur"
    by (auto simp: version_written_def)
  have "db_uuid db pid' = Some (pg_target db first)"
    using pg_ok_lock(1) [OF ok cur] same e1 by (simp add: pg_target_def)
  moreover have "pg_ok db w" using qm.run_ok [OF later] pg_ok_step [OF ok pg_call [OF first]] by blast
  ultimately show ?thesis using stale_write [OF e2 stale_lock] x by blast
qed

theorem postgres_single_winner_witness:
  "fst (run_pg sample_database sample_env (PgTransition sample_confirm) sample_settled) = Some (Err PaymentVersionConflictError
     ''Payment pay-1 was modified by another operation.'')"
proof -
  have "(pg_step sample_database sample_env)\<^sup>*\<^sup>* sample_confirmed sample_settled"
    unfolding sample_settled_def by (rule r_into_rtranclp [where r = "pg_step sample_database sample_env"]) (rule snd_step)
  from postgres_single_winner [OF sample_database_proper sample_claimed_reached sample_runs(1) this, of "''pay-1''" 0
      "PgTransition sample_confirm" "''pay-1''"] show ?thesis by (simp add: sample_confirm_def)
qed



lemma claim_row_claimed:
  assumes "claim_row db p details same x = (Inr (CLAIMED q), y)"
  shows "p_recipientAddress q = p_recipientAddress p \<and> p_amountRaw q = p_amountRaw p \<and>
    sql_nullable (sql_uuid db) (p_recipientAccountId p) = Inr (p_recipientAccountId q)"
proof -
  from assms obtain row z where ins: "insert_payment_row db p x = (Inr (Some row), z)" and "mapPayment row = Inr q"
    by (auto simp: claim_row_def then_do_Inr claim_of_def existing_claim_def and_then_Inr split: option.splits if_splits)
  then have q: "same_request q row" using mapPayment_fields(4) by blast
  from ins have "payment_parameters db p = Inr row" by (auto simp: insert_payment_row_def when_ok_Inr split: if_splits)
  then have "p_recipientAddress row = p_recipientAddress p \<and> p_amountRaw row = p_amountRaw p \<and>
    sql_nullable (sql_uuid db) (p_recipientAccountId p) = Inr (p_recipientAccountId row)"
    unfolding payment_parameters_def and_then_Inr by auto
  with q show ?thesis by (simp add: same_request_def)
qed

lemma transaction_Inr:
  assumes "transaction_of db body t = (Inr v, u)"
  shows "\<exists>x. body (begin_transaction db t) = (Inr v, x)"
proof -
  obtain r x where o': "body (begin_transaction db t) = (r, x)" by force
  with assms show ?thesis by (auto simp: transaction_of_def split: sum.splits)
qed

lemma resolve_recipient_Inr:
  assumes "resolve_recipient db i t = Inr (account, r)"
  shows "\<exists>sender a e d. ci_senderAccountId i \<noteq> ci_recipientAccountId i \<and> db_uuid db (ci_senderAccountId i) = Some sender \<and>
    db_uuid db (ci_recipientAccountId i) = Some a \<and> accounts_active t sender a \<and> (e, d) \<in> set (payable_rows t a) \<and>
    account = ie_accountId e \<and> r = resolved_row (e, d)"
proof -
  from assms obtain sender a row rows where s: "ci_senderAccountId i \<noteq> ci_recipientAccountId i"
    "db_uuid db (ci_senderAccountId i) = Some sender" "db_uuid db (ci_recipientAccountId i) = Some a" "accounts_active t sender a"
    "payable_rows t a = row # rows" "account = ie_accountId (fst row)" "r = resolved_row row"
    by (auto simp: resolve_recipient_def and_then_Inr sql_uuid_Inr split: if_splits list.splits)
  then show ?thesis by (metis list.set_intros(1) prod.collapse)
qed

text \<open>The keys of the directory's tables: an account has one row, and by the partial unique index
  \<open>payment_destinations_primary_per_type_unique\<close> one primary destination of each type.\<close>

definition directory_keys :: "payment_tables \<Rightarrow> bool" where
  "directory_keys t \<longleftrightarrow> distinct (map ac_accountId (pt_accounts t)) \<and>
     distinct (map (\<lambda>d. (de_accountId d, de_destinationType d)) (filter de_isPrimary (pt_destinations t)))"

lemma active_accounts_differ:
  assumes "directory_keys t" and "accounts_active t a b"
  shows "a \<noteq> b"
proof
  assume "a = b"
  let ?rows = "filter (\<lambda>r. ac_accountId r = a) (pt_accounts t)"
  have "length ?rows = 2" using assms(2) \<open>a = b\<close> by (simp add: accounts_active_def Let_def)
  then obtain x y where "?rows = [x, y]" by (auto simp: numeral_2_eq_2 length_Suc_conv)
  moreover have "distinct (map ac_accountId ?rows)"
    using assms(1) by (simp add: directory_keys_def distinct_map_filter)
  moreover have "ac_accountId x = a" "ac_accountId y = a" if "?rows = [x, y]"
    using that [THEN arg_cong [of _ _ set]] by auto
  ultimately show False by simp
qed

lemma filter_by_key: "distinct (map k xs) \<Longrightarrow> d \<in> set xs \<Longrightarrow> filter (\<lambda>x. k x = k d) xs = [d]"
  by (induction xs) (auto simp: filter_empty_conv image_iff dest: sym)

lemma one_primary:
  assumes "directory_keys t" and "d \<in> set (pt_destinations t)" and "de_isPrimary d"
  shows "filter (\<lambda>x. de_accountId x = de_accountId d \<and> de_destinationType x = de_destinationType d \<and> de_isPrimary x)
    (pt_destinations t) = [d]"
proof -
  let ?k = "\<lambda>x. (de_accountId x, de_destinationType x)" and ?ps = "filter de_isPrimary (pt_destinations t)"
  have "filter (\<lambda>x. ?k x = ?k d) ?ps = [d]"
    using assms by (intro filter_by_key) (simp_all add: directory_keys_def)
  then show ?thesis by (simp add: conj_ac)
qed

text \<open>C13: a payment to a person goes to their wallet. When the database accepts a claim that pays an account of the
  directory, the payer and the recipient are two different accounts, both active, and the payment's address is the one
  primary Solana wallet of the recipient, active and not rejected; the recipient is public, payable and not restricted;
  and one that is not verified is paid only with the payer's acknowledgement. Assumed are the keys the migrations put on
  the accounts and the primary destinations.\<close>

theorem postgres_claim_pays_primary:
  assumes keys: "directory_keys t" and run: "pg_claimPaymentIdentityKey db env i t = (Inr (CLAIMED p), u)"
  shows "\<exists>sender a e d. sender \<noteq> a \<and> db_uuid db (ci_senderAccountId i) = Some sender \<and>
    db_uuid db (ci_recipientAccountId i) = Some a \<and> accounts_active t sender a \<and> p_recipientAccountId p = Some a \<and>
    e \<in> set (pt_identities t) \<and> ie_accountId e = a \<and> ie_publicIdentityStatus e = ''ACTIVE'' \<and> ie_discoverability e \<noteq> ''PRIVATE'' \<and>
    ie_payabilityState e = ''AVAILABLE'' \<and> ie_verificationState e \<noteq> ''RESTRICTED'' \<and>
    (ie_verificationState e = ''VERIFIED'' \<or> ci_trustAcknowledged i) \<and>
    filter (\<lambda>x. de_accountId x = a \<and> de_destinationType x = ''SOLANA_WALLET'' \<and> de_isPrimary x) (pt_destinations t) = [d] \<and>
    de_status d = ''ACTIVE'' \<and> de_ownershipState d \<noteq> ''REJECTED'' \<and> p_recipientAddress p = de_destinationAddress d \<and>
    p_amountRaw p = ci_amountRaw i"
proof -
  from transaction_Inr [OF run [unfolded pg_claimPaymentIdentityKey_def]] obtain account r trust h sn dt same x where
      res: "resolve_recipient db i t = Inr (account, r)"
    and trust: "ri_verificationState r = ''VERIFIED'' \<or> ci_trustAcknowledged i"
    and row: "claim_row db ((directory_payment i r trust h (tx_now (begin_transaction db t)))\<lparr>p_recipientSnapshot := Some sn\<rparr>)
      dt same (begin_transaction db t) = (Inr (CLAIMED p), x)"
    by (auto simp: when_ok_Inr Let_def existing_claim_def and_then_Inr split: option.splits if_splits)
  from resolve_recipient_Inr [OF res] obtain sender a e d where w: "ci_senderAccountId i \<noteq> ci_recipientAccountId i"
    "db_uuid db (ci_senderAccountId i) = Some sender" "db_uuid db (ci_recipientAccountId i) = Some a" "accounts_active t sender a"
    "(e, d) \<in> set (payable_rows t a)" "r = resolved_row (e, d)" by blast
  from w(5) have "e \<in> set (pt_identities t)" "ie_accountId e = a" "ie_publicIdentityStatus e = ''ACTIVE''"
    "ie_discoverability e \<noteq> ''PRIVATE''" "ie_payabilityState e = ''AVAILABLE''" "ie_verificationState e \<noteq> ''RESTRICTED''"
    "d \<in> set (pt_destinations t)" "de_accountId d = a" "de_destinationType d = ''SOLANA_WALLET''" "de_status d = ''ACTIVE''"
    "de_isPrimary d" "de_ownershipState d \<noteq> ''REJECTED''" by (auto simp: payable_rows_def split: if_splits)
  moreover have "p_recipientAddress p = de_destinationAddress d" "p_amountRaw p = ci_amountRaw i" "p_recipientAccountId p = Some a"
    using claim_row_claimed [OF row] w(3,6)
    by (auto simp: directory_payment_def lifecycle_evidence.defs payment_record.defs resolved_row_def and_then_Inr sql_uuid_Inr)
  moreover have "ie_verificationState e = ''VERIFIED'' \<or> ci_trustAcknowledged i" using trust w(6) by (simp add: resolved_row_def)
  moreover have "sender \<noteq> a" by (rule active_accounts_differ [OF keys w(4)])
  moreover have "filter (\<lambda>x. de_accountId x = a \<and> de_destinationType x = ''SOLANA_WALLET'' \<and> de_isPrimary x) (pt_destinations t) = [d]"
    if "d \<in> set (pt_destinations t)" "de_isPrimary d" "de_accountId d = a" "de_destinationType d = ''SOLANA_WALLET''"
    using one_primary [OF keys that(1,2)] that(3,4) by simp
  ultimately show ?thesis using w(2-4) by blast
qed

definition sample_directory :: payment_tables where
  "sample_directory = empty_tables\<lparr>
     pt_accounts := [\<lparr>ac_accountId = ''a'', ac_actorSubject = ''a'', ac_status = ''ACTIVE''\<rparr>,
       \<lparr>ac_accountId = ''b'', ac_actorSubject = ''b'', ac_status = ''ACTIVE''\<rparr>],
     pt_identities := [\<lparr>ie_accountId = ''b'', ie_username = ''bob'', ie_displayName = ''Bob'', ie_accountType = ''PERSONAL'',
       ie_publicIdentityStatus = ''ACTIVE'', ie_discoverability = ''PUBLIC'', ie_verificationState = ''UNVERIFIED'',
       ie_payabilityState = ''AVAILABLE''\<rparr>],
     pt_destinations := [\<lparr>de_accountId = ''b'', de_destinationType = ''SOLANA_WALLET'', de_destinationAddress = ''wallet'',
       de_status = ''ACTIVE'', de_ownershipState = ''UNVERIFIED'', de_isPrimary = True\<rparr>]\<rparr>"

definition sample_directory_claim :: "bool \<Rightarrow> (payment_tables, idempotency_claim) outcome" where
  "sample_directory_claim trusts = pg_claimPaymentIdentityKey (sample_database\<lparr>db_uuid := Some\<rparr>) sample_env
     \<lparr>ci_id = ''p'', ci_actorSubject = ''a'', ci_senderAccountId = ''a'', ci_idempotencyKey = replicate 16 CHR ''k'',
      ci_recipientAccountId = ''b'', ci_trustAcknowledged = trusts, ci_network = ''solana-devnet'', ci_rail = ''solana'',
      ci_asset = ''USDC'', ci_mintAddress = ''m'', ci_amountRaw = 1, ci_purpose = None, ci_capturedAt = ''t''\<rparr> sample_directory"

theorem postgres_claim_pays_primary_witness:
  "fst (sample_directory_claim False) = throw ''TRUST_ACKNOWLEDGMENT_REQUIRED'' \<and>
   (\<exists>p u. sample_directory_claim True = (Inr (CLAIMED p), u) \<and> p_recipientAddress p = ''wallet'')"
proof -
  have "case fst (sample_directory_claim True) of Inr (CLAIMED p) \<Rightarrow> True | _ \<Rightarrow> False" by code_simp
  then obtain p u where run: "sample_directory_claim True = (Inr (CLAIMED p), u)"
    by (cases "sample_directory_claim True") (auto split: sum.splits idempotency_claim.splits)
  have "directory_keys sample_directory" by (simp add: directory_keys_def sample_directory_def)
  from postgres_claim_pays_primary [OF this run [unfolded sample_directory_claim_def]]
  have "p_recipientAddress p = ''wallet''" by (auto simp: sample_directory_def empty_tables_def)
  moreover have "fst (sample_directory_claim False) = throw ''TRUST_ACKNOWLEDGMENT_REQUIRED''" by code_simp
  ultimately show ?thesis using run by blast
qed

end
