(* ===== verification/DevnetRecovery.thy ===== *)
theory DevnetRecovery
  imports DevnetState Executions PaymentLifecycle
begin

text \<open>
  Recovery of Devnet executions: \<open>src/devnet/devnetRecoveryRepository.ts\<close>, its in-memory implementation
  \<open>src/storage/memory/inMemoryDevnetRecoveryRepository.ts\<close> and \<open>src/devnet/devnetRecoveryWorker.ts\<close>. A worker
  leases one execution at a time for one kind of task. The lease names its owner and the time of its claim,
  and that pair is the fence with which it is renewed and released. Times are compared as the strings they are.
\<close>

section \<open>Types\<close>

datatype recovery_task = PREPARATION | RECONCILIATION

fun recovery_task_text :: "recovery_task \<Rightarrow> string" where
  "recovery_task_text PREPARATION = ''PREPARATION''"
| "recovery_task_text RECONCILIATION = ''RECONCILIATION''"

record recovery_lease =
  rl_taskKind :: recovery_task
  rl_leaseOwner :: string
  rl_claimedAt :: string
  rl_leaseExpiresAt :: string

record recovery_candidate =
  rd_executionId :: string
  rd_paymentIntentId :: string
  rd_actorSubject :: string
  rd_providerIdempotencyKey :: string
  rd_preparation :: "preparation option"
  rd_recoveryLease :: "recovery_lease option"

record recovery_record = recovery_candidate +
  rd_executionMode :: string
  rd_selectedRail :: string
  rd_settlementNetwork :: string
  rd_executionStatus :: execution_status

record recovery_backlog =
  bl_unresolvedCount :: nat
  bl_oldestCommittedAt :: "string option"
  bl_oldestUnresolvedAgeMs :: "js_number option"

definition DEVNET_RECONCILIATION_REVISIT_MS :: int where
  "DEVNET_RECONCILIATION_REVISIT_MS = 1000"

section \<open>The in-memory repository\<close>

record held_lease =
  hl_owner :: string
  hl_claimedAt :: string
  hl_expiresAt :: string

record recovery_repository =
  rv_records :: "recovery_record list"
  rv_leases :: "(string, held_lease) js_map"
  rv_nextReconciliationAt :: "(string, string) js_map"

definition empty_recovery :: recovery_repository where
  "empty_recovery = \<lparr>rv_records = [], rv_leases = [], rv_nextReconciliationAt = []\<rparr>"

definition recovery_key :: "string \<Rightarrow> recovery_task \<Rightarrow> string" where
  "recovery_key e k = e @ nul @ recovery_task_text k"

text \<open>\<open>a > b\<close> of two strings.\<close>

definition string_after :: "string \<Rightarrow> string \<Rightarrow> bool" where
  "string_after a b = (byte_order b a < 0)"

definition add_record :: "recovery_record \<Rightarrow> 'a recovery_repository_scheme \<Rightarrow> 'a recovery_repository_scheme" where
  "add_record r s = s\<lparr>rv_records := rv_records s @ [r]\<rparr>"

definition on_devnet :: "recovery_record \<Rightarrow> bool" where
  "on_devnet v = (rd_executionMode v = ''devnet_validation'' \<and> rd_selectedRail v = ''solana'' \<and>
     rd_settlementNetwork v = ''solana-devnet'' \<and> rd_executionStatus v \<notin> {SETTLED, X_FAILED, CANCELLED})"

definition eligible :: "recovery_record \<Rightarrow> recovery_task \<Rightarrow> string \<Rightarrow> bool result" where
  "eligible v kind currentBlockHeight =
     (if \<not> on_devnet v then Inr False
      else case (kind, rd_preparation v) of
        (PREPARATION, None) \<Rightarrow> Inr True
      | (PREPARATION, Some p) \<Rightarrow>
          if pr_state p \<noteq> PREPARED_NOT_CONTACTED then Inr False
          else and_then (BigInt_of_string currentBlockHeight) (\<lambda>h.
               and_then (BigInt_of_string (pa_lastValidBlockHeight (pr_artifact p))) (\<lambda>v. Inr (v < h)))
      | (RECONCILIATION, None) \<Rightarrow> Inr False
      | (RECONCILIATION, Some p) \<Rightarrow> Inr (pr_state p \<in>
          {SUBMISSION_COMMITTED_RECONCILE_ONLY, ACCEPTED_PENDING, UNKNOWN_RECONCILIATION_REQUIRED, D_SETTLED, D_FAILED}))"

definition next_at :: "'a recovery_repository_scheme \<Rightarrow> string \<Rightarrow> string" where
  "next_at s e = (case js_get (rv_nextReconciliationAt s) e of None \<Rightarrow> '''' | Some t \<Rightarrow> t)"

definition claimable ::
  "'a recovery_repository_scheme \<Rightarrow> recovery_task \<Rightarrow> string \<Rightarrow> string \<Rightarrow> string option \<Rightarrow> recovery_record \<Rightarrow> bool result" where
  "claimable s kind now currentBlockHeight executionId v =
     (if executionId \<noteq> None \<and> executionId \<noteq> Some (rd_executionId v) then Inr False
      else and_then (eligible v kind currentBlockHeight) (\<lambda>ok. Inr (ok \<and>
        (case js_get (rv_leases s) (recovery_key (rd_executionId v) kind) of
           Some lease \<Rightarrow> \<not> string_after (hl_expiresAt lease) now
         | None \<Rightarrow> kind \<noteq> RECONCILIATION \<or> executionId \<noteq> None \<or> \<not> string_after (next_at s (rd_executionId v)) now))))"

fun claimable_records ::
  "'a recovery_repository_scheme \<Rightarrow> recovery_task \<Rightarrow> string \<Rightarrow> string \<Rightarrow> string option \<Rightarrow> recovery_record list \<Rightarrow> recovery_record list result" where
  "claimable_records s kind now height executionId [] = Inr []"
| "claimable_records s kind now height executionId (v # vs) =
     and_then (claimable s kind now height executionId v) (\<lambda>ok.
     and_then (claimable_records s kind now height executionId vs) (\<lambda>rest. Inr (if ok then v # rest else rest)))"

definition claim_order :: "runtime_env \<Rightarrow> 'a recovery_repository_scheme \<Rightarrow> recovery_task \<Rightarrow> recovery_record \<Rightarrow> recovery_record \<Rightarrow> int" where
  "claim_order env s kind a b = or_compare
     (if kind = RECONCILIATION then locale_compare env (next_at s (rd_executionId a)) (next_at s (rd_executionId b)) else 0)
     (locale_compare env (rd_executionId a) (rd_executionId b))"

text \<open>\<open>new Date(Date.parse(now) + ms).toISOString()\<close>\<close>

definition later_time :: "runtime_env \<Rightarrow> string \<Rightarrow> int \<Rightarrow> string result" where
  "later_time env now ms = (case date_parse env now of None \<Rightarrow> throw ''Invalid time value'' | Some t \<Rightarrow> Inr (date_iso env (t + ms)))"

definition candidate_of :: "recovery_record \<Rightarrow> recovery_lease \<Rightarrow> recovery_candidate" where
  "candidate_of v lease = recovery_candidate.truncate v\<lparr>rd_recoveryLease := Some lease\<rparr>"

definition grant :: "recovery_task \<Rightarrow> string \<Rightarrow> string \<Rightarrow> string \<Rightarrow> recovery_record \<Rightarrow> 'a recovery_repository_scheme \<Rightarrow>
   ('a recovery_repository_scheme, recovery_candidate option) outcome" where
  "grant kind workerId now leaseExpiresAt v s =
     (Inr (Some (candidate_of v \<lparr>rl_taskKind = kind, rl_leaseOwner = workerId, rl_claimedAt = now, rl_leaseExpiresAt = leaseExpiresAt\<rparr>)),
      s\<lparr>rv_leases := js_set (rv_leases s) (recovery_key (rd_executionId v) kind)
          \<lparr>hl_owner = workerId, hl_claimedAt = now, hl_expiresAt = leaseExpiresAt\<rparr>\<rparr>)"

definition claim_recovery ::
  "runtime_env \<Rightarrow> recovery_task \<Rightarrow> string \<Rightarrow> string \<Rightarrow> string \<Rightarrow> string \<Rightarrow> string option \<Rightarrow> 'a recovery_repository_scheme \<Rightarrow>
   ('a recovery_repository_scheme, recovery_candidate option) outcome" where
  "claim_recovery env kind workerId now leaseExpiresAt height executionId s =
     when_ok (claimable_records s kind now height executionId (rv_records s)) s (\<lambda>vs.
       case js_sort (claim_order env s kind) vs of
         [] \<Rightarrow> (Inr None, s)
       | v # _ \<Rightarrow>
           if kind = RECONCILIATION
           then when_ok (later_time env now DEVNET_RECONCILIATION_REVISIT_MS) s (\<lambda>t.
                  grant kind workerId now leaseExpiresAt v
                    (s\<lparr>rv_nextReconciliationAt := js_set (rv_nextReconciliationAt s) (rd_executionId v) t\<rparr>))
           else grant kind workerId now leaseExpiresAt v s)"

text \<open>The pattern \<open>^(0|[1-9]\d*)$\<close>.\<close>

definition is_block_height :: "string \<Rightarrow> bool" where
  "is_block_height h = (h = ''0'' \<or> (h \<noteq> [] \<and> hd h \<noteq> CHR ''0'' \<and> list_all is_digit h))"

definition claimPreparation ::
  "runtime_env \<Rightarrow> string \<Rightarrow> string \<Rightarrow> string \<Rightarrow> string \<Rightarrow> 'a recovery_repository_scheme \<Rightarrow>
   ('a recovery_repository_scheme, recovery_candidate option) outcome" where
  "claimPreparation env workerId now leaseExpiresAt height s =
     (if \<not> is_block_height height then (throw ''Current Devnet block height is invalid.'', s)
      else claim_recovery env PREPARATION workerId now leaseExpiresAt height None s)"

definition claimReconciliation ::
  "runtime_env \<Rightarrow> string \<Rightarrow> string \<Rightarrow> string \<Rightarrow> 'a recovery_repository_scheme \<Rightarrow>
   ('a recovery_repository_scheme, recovery_candidate option) outcome" where
  "claimReconciliation env workerId now leaseExpiresAt = claim_recovery env RECONCILIATION workerId now leaseExpiresAt '''' None"

definition claimReconciliationExecution ::
  "runtime_env \<Rightarrow> string \<Rightarrow> string \<Rightarrow> string \<Rightarrow> string \<Rightarrow> 'a recovery_repository_scheme \<Rightarrow>
   ('a recovery_repository_scheme, recovery_candidate option) outcome" where
  "claimReconciliationExecution env executionId workerId now leaseExpiresAt =
     claim_recovery env RECONCILIATION workerId now leaseExpiresAt '''' (Some executionId)"

definition renew_lease ::
  "string \<Rightarrow> recovery_task \<Rightarrow> string \<Rightarrow> string \<Rightarrow> string \<Rightarrow> string \<Rightarrow> 'a recovery_repository_scheme \<Rightarrow>
   ('a recovery_repository_scheme, bool) outcome" where
  "renew_lease executionId kind workerId claimedAt now leaseExpiresAt s =
     (case js_get (rv_leases s) (recovery_key executionId kind) of
        None \<Rightarrow> (Inr False, s)
      | Some lease \<Rightarrow>
          if hl_owner lease \<noteq> workerId \<or> hl_claimedAt lease \<noteq> claimedAt \<or> \<not> string_after (hl_expiresAt lease) now \<or>
             \<not> string_after leaseExpiresAt now
          then (Inr False, s)
          else (Inr True, s\<lparr>rv_leases := js_set (rv_leases s) (recovery_key executionId kind) (lease\<lparr>hl_expiresAt := leaseExpiresAt\<rparr>)\<rparr>))"

definition release_lease ::
  "string \<Rightarrow> recovery_task \<Rightarrow> string \<Rightarrow> string \<Rightarrow> 'a recovery_repository_scheme \<Rightarrow> ('a recovery_repository_scheme, unit) outcome" where
  "release_lease executionId kind workerId claimedAt s =
     (Inr (), case js_get (rv_leases s) (recovery_key executionId kind) of
        None \<Rightarrow> s
      | Some lease \<Rightarrow>
          if hl_owner lease = workerId \<and> hl_claimedAt lease = claimedAt
          then s\<lparr>rv_leases := filter (\<lambda>x. fst x \<noteq> recovery_key executionId kind) (rv_leases s)\<rparr> else s)"

definition committed_at :: "recovery_record \<Rightarrow> string option" where
  "committed_at v = (case rd_preparation v of None \<Rightarrow> None | Some p \<Rightarrow> pr_committedAt p)"

definition age_ms :: "runtime_env \<Rightarrow> string \<Rightarrow> string \<Rightarrow> js_number" where
  "age_ms env now oldest = (case (date_parse env now, date_parse env oldest) of
     (Some x, Some y) \<Rightarrow> Finite (of_int (max 0 (x - y))) | _ \<Rightarrow> NaN)"

definition inspectUnresolvedBacklog :: "runtime_env \<Rightarrow> string \<Rightarrow> 'a recovery_repository_scheme \<Rightarrow> recovery_backlog" where
  "inspectUnresolvedBacklog env now s =
     (let committed = js_sort byte_order (map (\<lambda>v. coalesce (committed_at v) '''')
        (filter (\<lambda>v. on_devnet v \<and> truthy (committed_at v)) (rv_records s)))
      in case committed of
           [] \<Rightarrow> \<lparr>bl_unresolvedCount = 0, bl_oldestCommittedAt = None, bl_oldestUnresolvedAgeMs = None\<rparr>
         | oldest # _ \<Rightarrow> \<lparr>bl_unresolvedCount = length committed, bl_oldestCommittedAt = Some oldest,
             bl_oldestUnresolvedAgeMs = Some (age_ms env now oldest)\<rparr>)"

section \<open>The worker\<close>

text \<open>The repository as the worker sees it, and the handlers, observer and clock it is given.\<close>

datatype recovery_phase = PreparationPhase | ReconciliationPhase | IterationPhase
datatype recovery_result = Work | Idle | Failure
datatype backlog_state = BacklogEmpty | BacklogPresent | BacklogWarning | BacklogUnavailable

datatype recovery_event =
    IterationEvent recovery_result recovery_phase
  | HeartbeatEvent recovery_result backlog_state "nat option" "js_number option"

record 'w recovery_ports =
  rp_claimPreparation :: "string \<Rightarrow> string \<Rightarrow> string \<Rightarrow> string \<Rightarrow> 'w \<Rightarrow> ('w, recovery_candidate option) outcome"
  rp_claimReconciliation :: "string \<Rightarrow> string \<Rightarrow> string \<Rightarrow> 'w \<Rightarrow> ('w, recovery_candidate option) outcome"
  rp_renew :: "string \<Rightarrow> recovery_task \<Rightarrow> string \<Rightarrow> string \<Rightarrow> string \<Rightarrow> string \<Rightarrow> 'w \<Rightarrow> ('w, bool) outcome"
  rp_release :: "string \<Rightarrow> recovery_task \<Rightarrow> string \<Rightarrow> string \<Rightarrow> 'w \<Rightarrow> ('w, unit) outcome"
  rp_backlog :: "string \<Rightarrow> 'w \<Rightarrow> ('w, recovery_backlog) outcome"
  rp_currentBlockHeight :: "'w \<Rightarrow> ('w, string) outcome"
  rp_prepare :: "recovery_candidate \<Rightarrow> 'w \<Rightarrow> ('w, bool) outcome"
  rp_reconcile :: "recovery_candidate \<Rightarrow> persistence_fence \<Rightarrow> ('w \<Rightarrow> ('w, bool) outcome) \<Rightarrow> 'w \<Rightarrow> ('w, bool) outcome"
  rp_observe :: "recovery_event \<Rightarrow> 'w \<Rightarrow> 'w"
  rp_clock :: "'w \<Rightarrow> string \<times> 'w"
  rp_stopping :: "'w \<Rightarrow> bool"

record recovery_worker =
  wk_workerId :: string
  wk_preparationEnabled :: bool
  wk_reconciliationEnabled :: bool
  wk_leaseMs :: int

definition DEVNET_RECOVERY_BACKLOG_WARNING_MS :: int where
  "DEVNET_RECOVERY_BACKLOG_WARNING_MS = 5 * 60000"

definition new_recovery_worker :: "string \<Rightarrow> bool option \<Rightarrow> bool option \<Rightarrow> int option \<Rightarrow> recovery_worker result" where
  "new_recovery_worker workerId preparation reconciliation leaseMs =
     (if workerId = '''' \<or> js_trim workerId \<noteq> workerId then throw ''Devnet recovery worker ID is invalid.''
      else Inr \<lparr>wk_workerId = workerId, wk_preparationEnabled = (preparation = Some True),
        wk_reconciliationEnabled = (reconciliation = Some True), wk_leaseMs = coalesce leaseMs 30000\<rparr>)"

definition recovery_claim ::
  "'w recovery_ports \<Rightarrow> recovery_worker \<Rightarrow> recovery_task \<Rightarrow> string \<Rightarrow> string \<Rightarrow> 'w \<Rightarrow> ('w, recovery_candidate option) outcome" where
  "recovery_claim ports wk kind now expires w = (case kind of
     PREPARATION \<Rightarrow> then_do (rp_currentBlockHeight ports w) (\<lambda>h. rp_claimPreparation ports (wk_workerId wk) now expires h)
   | RECONCILIATION \<Rightarrow> rp_claimReconciliation ports (wk_workerId wk) now expires w)"

definition renew_claim ::
  "runtime_env \<Rightarrow> 'w recovery_ports \<Rightarrow> recovery_worker \<Rightarrow> recovery_task \<Rightarrow> string \<Rightarrow> string \<Rightarrow> 'w \<Rightarrow> ('w, bool) outcome" where
  "renew_claim env ports wk kind executionId claimedAt w = (let (renewalAt, w1) = rp_clock ports w in
     when_ok (later_time env renewalAt (wk_leaseMs wk)) w1 (\<lambda>until.
       rp_renew ports executionId kind (wk_workerId wk) claimedAt renewalAt until w1))"

text \<open>\<open>try { await body; return true; } finally { await cleanup; }\<close>\<close>

definition and_finally :: "('w, 'a) outcome \<Rightarrow> ('w \<Rightarrow> ('w, unit) outcome) \<Rightarrow> ('w, bool) outcome" where
  "and_finally body cleanup = (let (r, w) = body in
     then_do (cleanup w) (\<lambda>_ w'. (and_then r (\<lambda>_. Inr True), w')))"

definition lease_valid :: "recovery_worker \<Rightarrow> recovery_task \<Rightarrow> recovery_candidate \<Rightarrow> bool" where
  "lease_valid wk kind c = (case rd_recoveryLease c of None \<Rightarrow> False
     | Some l \<Rightarrow> rl_taskKind l = kind \<and> rl_leaseOwner l = wk_workerId wk)"

definition handle_candidate ::
  "runtime_env \<Rightarrow> 'w recovery_ports \<Rightarrow> recovery_worker \<Rightarrow> recovery_task \<Rightarrow> recovery_candidate \<Rightarrow> recovery_lease \<Rightarrow> 'w \<Rightarrow> ('w, bool) outcome" where
  "handle_candidate env ports wk kind c lease w = and_finally
     (case kind of
        PREPARATION \<Rightarrow> rp_prepare ports c w
      | RECONCILIATION \<Rightarrow> rp_reconcile ports c \<lparr>pf_leaseOwner = rl_leaseOwner lease, pf_leaseClaimedAt = rl_claimedAt lease\<rparr>
          (renew_claim env ports wk kind (rd_executionId c) (rl_claimedAt lease)) w)
     (rp_release ports (rd_executionId c) kind (wk_workerId wk) (rl_claimedAt lease))"

definition process_recovery :: "runtime_env \<Rightarrow> 'w recovery_ports \<Rightarrow> recovery_worker \<Rightarrow> recovery_task \<Rightarrow> 'w \<Rightarrow> ('w, bool) outcome" where
  "process_recovery env ports wk kind w = (let (now, w1) = rp_clock ports w in
     when_ok (later_time env now (wk_leaseMs wk)) w1 (\<lambda>expires.
     then_do (recovery_claim ports wk kind now expires w1) (\<lambda>candidate w2.
     case candidate of
       None \<Rightarrow> (Inr False, w2)
     | Some c \<Rightarrow>
         (case (rd_recoveryLease c, lease_valid wk kind c) of
            (Some lease, True) \<Rightarrow> handle_candidate env ports wk kind c lease w2
          | _ \<Rightarrow> (throw ''Devnet recovery claim did not return its lease fence.'', w2)))))"

definition backlog_state_of :: "recovery_backlog \<Rightarrow> backlog_state" where
  "backlog_state_of b =
     (if bl_unresolvedCount b = 0 then BacklogEmpty
      else case coalesce (bl_oldestUnresolvedAgeMs b) (Finite 0) of
        Finite age \<Rightarrow> if of_int DEVNET_RECOVERY_BACKLOG_WARNING_MS \<le> age then BacklogWarning else BacklogPresent
      | NaN \<Rightarrow> BacklogPresent
      | Infinity negative \<Rightarrow> if negative then BacklogPresent else BacklogWarning)"

definition heartbeat :: "'w recovery_ports \<Rightarrow> recovery_result \<Rightarrow> 'w \<Rightarrow> 'w" where
  "heartbeat ports outcome w = (let (now, w1) = rp_clock ports w in
     case rp_backlog ports now w1 of
       (Inl e, w2) \<Rightarrow> rp_observe ports (HeartbeatEvent outcome BacklogUnavailable None None) w2
     | (Inr b, w2) \<Rightarrow> rp_observe ports
         (HeartbeatEvent outcome (backlog_state_of b) (Some (bl_unresolvedCount b)) (bl_oldestUnresolvedAgeMs b)) w2)"

definition phase_enabled :: "recovery_worker \<Rightarrow> recovery_task \<Rightarrow> bool" where
  "phase_enabled wk kind = (case kind of PREPARATION \<Rightarrow> wk_preparationEnabled wk | RECONCILIATION \<Rightarrow> wk_reconciliationEnabled wk)"

definition phase_of :: "recovery_task \<Rightarrow> recovery_phase" where
  "phase_of kind = (case kind of PREPARATION \<Rightarrow> PreparationPhase | RECONCILIATION \<Rightarrow> ReconciliationPhase)"

text \<open>One turn of the loop over the kinds: whether anything was done, the errors so far, and the world.\<close>

definition recovery_turn ::
  "runtime_env \<Rightarrow> 'w recovery_ports \<Rightarrow> recovery_worker \<Rightarrow> recovery_task \<Rightarrow> bool \<times> js_error list \<times> 'w \<Rightarrow> bool \<times> js_error list \<times> 'w" where
  "recovery_turn env ports wk kind state = (case state of (worked, errors, w) \<Rightarrow>
     if \<not> phase_enabled wk kind \<or> rp_stopping ports w then state
     else case process_recovery env ports wk kind w of
       (Inr b, w') \<Rightarrow> (b \<or> worked, errors, w')
     | (Inl e, w') \<Rightarrow> (worked, errors @ [e], rp_observe ports (IterationEvent Failure (phase_of kind)) w'))"

definition iterate_recovery :: "runtime_env \<Rightarrow> 'w recovery_ports \<Rightarrow> recovery_worker \<Rightarrow> 'w \<Rightarrow> ('w, bool) outcome" where
  "iterate_recovery env ports wk w =
     (if rp_stopping ports w then (Inr False, w)
      else case recovery_turn env ports wk RECONCILIATION (recovery_turn env ports wk PREPARATION (False, [], w)) of
        (worked, errors, w1) \<Rightarrow>
          let outcome = if errors \<noteq> [] then Failure else if worked then Work else Idle;
            w2 = if errors = [] then rp_observe ports (IterationEvent outcome IterationPhase) w1 else w1;
            w3 = heartbeat ports outcome w2
          in (case errors of [] \<Rightarrow> (Inr worked, w3) | e # _ \<Rightarrow> (Inl e, w3)))"

end
