(* ===== verification/DevnetRecoveryProperties.thy ===== *)
theory DevnetRecoveryProperties
  imports DevnetRecovery
begin

text \<open>
  Recovery leases as a fence: the contract of a book of leases, that the in-memory repository of
  \<open>DevnetRecovery\<close> keeps it, and what the worker may rely on.
\<close>

section \<open>Books of leases\<close>

text \<open>The grants of a run of operations.\<close>

fun all_granted :: "('o \<Rightarrow> 's \<Rightarrow> 's) \<Rightarrow> ('o \<Rightarrow> 's \<Rightarrow> ('k \<times> 'c) option) \<Rightarrow> 'o list \<Rightarrow> 's \<Rightarrow> ('k \<times> 'c) list" where
  "all_granted act granted [] s = []"
| "all_granted act granted (p # ps) s =
     (case granted p s of None \<Rightarrow> [] | Some g \<Rightarrow> [g]) @ all_granted act granted ps (act p s)"

text \<open>
  A lease of a key is held under a claim \<open>'c\<close>. Operations that claim carry the claim they would hold under as
  their stamp; no other operation makes a lease held under that claim.
\<close>

locale lease_book =
  fixes act :: "'o \<Rightarrow> 's \<Rightarrow> 's"
    and granted :: "'o \<Rightarrow> 's \<Rightarrow> ('k \<times> 'c) option"
    and stamp :: "'o \<Rightarrow> 'c option"
    and held :: "'s \<Rightarrow> 'k \<Rightarrow> 'c option"
  assumes grant_holds: "granted p s = Some (k, c) \<Longrightarrow> held (act p s) k = Some c"
    and grant_stamped: "granted p s = Some (k, c) \<Longrightarrow> stamp p = Some c"
    and not_taken: "held (act p s) k = Some c \<Longrightarrow> stamp p \<noteq> Some c \<Longrightarrow> held s k = Some c"
begin

lemma held_throughout:
  assumes "held (fold act ps s) k = Some c" and "\<forall>p\<in>set ps. stamp p \<noteq> Some c"
  shows "held s k = Some c \<and> k \<notin> fst ` set (all_granted act granted ps s)"
  using assms
proof (induction ps arbitrary: s)
  case (Cons p ps)
  then have later: "held (act p s) k = Some c" "k \<notin> fst ` set (all_granted act granted ps (act p s))" by simp_all
  moreover have "\<forall>d. granted p s \<noteq> Some (k, d)"
  proof (intro allI)
    fix d show "granted p s \<noteq> Some (k, d)"
    proof
      assume "granted p s = Some (k, d)"
      with grant_holds grant_stamped later(1) Cons.prems(2) show False by fastforce
    qed
  qed
  moreover have "held s k = Some c" using not_taken [OF later(1)] Cons.prems(2) by simp
  ultimately show ?case using later(2) by (cases "granted p s") auto
qed simp

end

section \<open>The operations of the repository\<close>

datatype recovery_op =
    AddRecord recovery_record
  | ClaimPreparation string string string string
  | ClaimReconciliation string string string
  | ClaimExecution string string string string
  | RenewLease string recovery_task string string string string
  | ReleaseLease string recovery_task string string

definition lease_of :: "recovery_candidate option \<Rightarrow> ((string \<times> recovery_task) \<times> string \<times> string) option" where
  "lease_of c = (case c of None \<Rightarrow> None | Some v \<Rightarrow> (case rd_recoveryLease v of None \<Rightarrow> None
     | Some l \<Rightarrow> Some ((rd_executionId v, rl_taskKind l), rl_leaseOwner l, rl_claimedAt l)))"

definition lease_answered :: "recovery_candidate option result \<Rightarrow> ((string \<times> recovery_task) \<times> string \<times> string) option" where
  "lease_answered r = (case r of Inl e \<Rightarrow> None | Inr c \<Rightarrow> lease_of c)"

text \<open>What an operation answers with as a lease, and the repository it leaves.\<close>

fun recovery_call :: "runtime_env \<Rightarrow> recovery_op \<Rightarrow> 'a recovery_repository_scheme \<Rightarrow>
   ((string \<times> recovery_task) \<times> string \<times> string) option \<times> 'a recovery_repository_scheme" where
  "recovery_call env (AddRecord r) s = (None, add_record r s)"
| "recovery_call env (ClaimPreparation w now x h) s = 
     map_prod lease_answered id (claimPreparation env w now x h s)"
| "recovery_call env (ClaimReconciliation w now x) s = 
     map_prod lease_answered id (claimReconciliation env w now x s)"
| "recovery_call env (ClaimExecution e w now x) s = 
     map_prod lease_answered id (claimReconciliationExecution env e w now x s)"
| "recovery_call env (RenewLease e k w c now x) s = (None, snd (renew_lease e k w c now x s))"
| "recovery_call env (ReleaseLease e k w c) s = (None, snd (release_lease e k w c s))"

definition recovery_do :: "runtime_env \<Rightarrow> recovery_op \<Rightarrow> 'a recovery_repository_scheme \<Rightarrow> 'a recovery_repository_scheme" where
  "recovery_do env p s = snd (recovery_call env p s)"

definition recovery_grant :: "runtime_env \<Rightarrow> recovery_op \<Rightarrow> 'a recovery_repository_scheme \<Rightarrow>
   ((string \<times> recovery_task) \<times> string \<times> string) option" where
  "recovery_grant env p s = fst (recovery_call env p s)"

fun claim_stamp :: "recovery_op \<Rightarrow> (string \<times> string) option" where
  "claim_stamp (ClaimPreparation w now x h) = Some (w, now)"
| "claim_stamp (ClaimReconciliation w now x) = Some (w, now)"
| "claim_stamp (ClaimExecution e w now x) = Some (w, now)"
| "claim_stamp _ = None"

fun claim_expiry :: "recovery_op \<Rightarrow> string option" where
  "claim_expiry (ClaimPreparation w now x h) = Some x"
| "claim_expiry (ClaimReconciliation w now x) = Some x"
| "claim_expiry (ClaimExecution e w now x) = Some x"
| "claim_expiry _ = None"

definition held_claim :: "'a recovery_repository_scheme \<Rightarrow> string \<times> recovery_task \<Rightarrow> (string \<times> string) option" where
  "held_claim s key = map_option (\<lambda>l. (hl_owner l, hl_claimedAt l)) (js_get (rv_leases s) (recovery_key (fst key) (snd key)))"

section \<open>What a claim does\<close>

lemma recovery_key_inj [simp]: "recovery_key e k = recovery_key e' k' \<longleftrightarrow> e = e' \<and> k = k'"
  by (cases k; cases k') (auto simp: recovery_key_def nul_def dest: arg_cong [where f = rev])

lemma js_get_release [simp]:
  "js_get (filter (\<lambda>x. fst x \<noteq> a) m) b = (if a = b then None else js_get m b)"
  by (induction m) (auto simp: js_get_def)

lemma claimable_records_Inr:
  "claimable_records s kind now h e vs = Inr ws \<Longrightarrow> v \<in> set ws \<Longrightarrow> v \<in> set vs \<and> claimable s kind now h e v = Inr True"
  by (induction vs arbitrary: ws) (auto simp: and_then_Inr split: if_splits)

text \<open>A claim refuses, finds nothing, or leases one eligible record whose lease is absent or has run out.\<close>

lemma recovery_claim_cases:
  assumes "claim_recovery env kind w now x h e s = (r, t)"
  shows "(t = s \<and> lease_answered r = None) \<or>
    (\<exists>v\<in>set (rv_records s). claimable s kind now h e v = Inr True \<and>
      lease_answered r = Some ((rd_executionId v, kind), w, now) \<and>
      rv_leases t = js_set (rv_leases s) (recovery_key (rd_executionId v) kind)
        \<lparr>hl_owner = w, hl_claimedAt = now, hl_expiresAt = x\<rparr>)"
proof (cases "claimable_records s kind now h e (rv_records s)")
  case (Inr vs)
  show ?thesis
  proof (cases "js_sort (claim_order env s kind) vs")
    case (Cons v rest)
    then have "v \<in> set vs" using set_js_sort [of "claim_order env s kind" vs] by (metis list.set_intros(1))
    note v = claimable_records_Inr [OF Inr this]
    show ?thesis
    proof (cases "kind = RECONCILIATION \<and> date_parse env now = None")
      case False
      with assms Inr Cons have "lease_answered r = Some ((rd_executionId v, kind), w, now) \<and>
        rv_leases t = js_set (rv_leases s) (recovery_key (rd_executionId v) kind)
          \<lparr>hl_owner = w, hl_claimedAt = now, hl_expiresAt = x\<rparr>"
        by (auto simp: claim_recovery_def later_time_def grant_def candidate_of_def lease_answered_def lease_of_def
            recovery_candidate.defs split: if_splits option.splits)
      with v show ?thesis by blast
    qed (use assms Inr Cons in \<open>auto simp: claim_recovery_def later_time_def lease_answered_def\<close>)
  qed (use assms Inr in \<open>auto simp: claim_recovery_def lease_answered_def lease_of_def\<close>)
qed (use assms in \<open>auto simp: claim_recovery_def lease_answered_def\<close>)

lemma held_claim_set:
  "rv_leases t = js_set (rv_leases s) (recovery_key e k) l \<Longrightarrow>
   held_claim t key = (if key = (e, k) then Some (hl_owner l, hl_claimedAt l) else held_claim s key)"
  by (cases key) (auto simp: held_claim_def)

lemma held_claim_release:
  "held_claim (snd (release_lease e k w c s)) key = Some d \<Longrightarrow> held_claim s key = Some d \<and> (key, d) \<noteq> ((e, k), w, c)"
  by (cases key) (auto simp: held_claim_def release_lease_def split: option.splits if_splits)

lemma held_claim_renew [simp]: "held_claim (snd (renew_lease e k w c now x s)) key = held_claim s key"
  by (cases key) (auto simp: held_claim_def renew_lease_def split: option.splits)

lemma held_claim_add [simp]: "held_claim (add_record r s) key = held_claim s key"
  by (simp add: held_claim_def add_record_def)

text \<open>The three operations that claim, by the lease they answer with.\<close>

lemma claim_call_cases:
  assumes "claim_stamp p = Some (w, now)"
  shows "(recovery_do env p s = s \<and> recovery_grant env p s = None) \<or>
    (\<exists>v kind h e x. claimable s kind now h e v = Inr True \<and> claim_expiry p = Some x \<and>
      recovery_grant env p s = Some ((rd_executionId v, kind), w, now) \<and>
      rv_leases (recovery_do env p s) = js_set (rv_leases s) (recovery_key (rd_executionId v) kind)
        \<lparr>hl_owner = w, hl_claimedAt = now, hl_expiresAt = x\<rparr>)" (is ?claim)
proof -
  have claim: ?claim if "recovery_call env p s = map_prod lease_answered id (claim_recovery env kind w now x h e s)"
    and "claim_expiry p = Some x" for kind x h e
    using recovery_claim_cases [OF prod.collapse [symmetric], of env kind w now x h e s] that
    by (auto simp: recovery_do_def recovery_grant_def map_prod_def split_beta)
  have refused: ?claim if "recovery_call env p s = (None, s)"
    using that by (simp add: recovery_do_def recovery_grant_def)
  show ?thesis
  proof (cases p)
    case (ClaimPreparation a b x h)
    with assms claim [of PREPARATION x h None] refused show ?thesis
      by (cases "is_block_height h") (simp_all add: claimPreparation_def lease_answered_def)
  qed (use assms claim in \<open>simp_all add: claimReconciliation_def claimReconciliationExecution_def\<close>)
qed

lemma recovery_call_simps [simp]:
  "recovery_do env (AddRecord r) s = add_record r s" "recovery_grant env (AddRecord r) s = None"
  "recovery_do env (RenewLease e k w c now x) s = snd (renew_lease e k w c now x s)"
  "recovery_grant env (RenewLease e k w c now x) s = None"
  "recovery_do env (ReleaseLease e k w c) s = snd (release_lease e k w c s)"
  "recovery_grant env (ReleaseLease e k w c) s = None"
  by (simp_all add: recovery_do_def recovery_grant_def)

lemma granted_claim:
  assumes "recovery_grant env p s = Some (key, c)"
  obtains v kind h e x where "claim_stamp p = Some c" and "claim_expiry p = Some x" and "key = (rd_executionId v, kind)"
    and "claimable s kind (snd c) h e v = Inr True"
    and "rv_leases (recovery_do env p s) = js_set (rv_leases s) (recovery_key (rd_executionId v) kind)
        \<lparr>hl_owner = fst c, hl_claimedAt = snd c, hl_expiresAt = x\<rparr>"
proof (cases "claim_stamp p")
  case None
  with assms show thesis by (cases p) simp_all
next
  case (Some st)
  with claim_call_cases [of p "fst st" "snd st" env s] assms that show thesis by auto
qed

lemma held_claim_do:
  assumes "held_claim (recovery_do env p s) key = Some c" and "claim_stamp p \<noteq> Some c"
  shows "held_claim s key = Some c"
proof (cases "claim_stamp p")
  case None
  with assms(1) show ?thesis by (cases p) (auto dest: held_claim_release)
next
  case (Some st)
  with claim_call_cases [of p "fst st" "snd st" env s] assms show ?thesis
    by (auto simp: held_claim_set split: if_splits)
qed

interpretation rl: lease_book "recovery_do env" "recovery_grant env" claim_stamp held_claim for env
proof
  fix p :: recovery_op and s :: "'a recovery_repository_scheme" and k c
  show "held_claim (recovery_do env p s) k = Some c" if "recovery_grant env p s = Some (k, c)"
  proof (rule granted_claim [OF that])
    fix v :: recovery_record and kind x
    assume "k = (rd_executionId v, kind)" and leased: "rv_leases (recovery_do env p s) =
      js_set (rv_leases s) (recovery_key (rd_executionId v) kind) \<lparr>hl_owner = fst c, hl_claimedAt = snd c, hl_expiresAt = x\<rparr>"
    with held_claim_set [OF leased] show ?thesis by simp
  qed
  show "claim_stamp p = Some c" if "recovery_grant env p s = Some (k, c)"
    by (rule granted_claim [OF that])
  show "held_claim s k = Some c" if "held_claim (recovery_do env p s) k = Some c" "claim_stamp p \<noteq> Some c"
    using held_claim_do that by blast
qed

section \<open>Time\<close>

lemma byte_order_swap: "byte_order b a = - byte_order a b"
  by (induction a b rule: byte_order.induct) auto

lemma byte_order_less_Cons:
  "byte_order (a # as) (b # bs) < 0 \<longleftrightarrow> (of_char a :: int) < of_char b \<or> a = b \<and> byte_order as bs < 0"
  by simp

lemma byte_order_le_Cons:
  "byte_order (a # as) (b # bs) \<le> 0 \<longleftrightarrow> (of_char a :: int) < of_char b \<or> a = b \<and> byte_order as bs \<le> 0"
  using of_char_eq_iff [of a b, where 'a = int] by (cases "a = b") (simp_all add: order.order_iff_strict del: of_char_eq_iff)

lemma byte_order_trans: "byte_order a b < 0 \<Longrightarrow> byte_order b c \<le> 0 \<Longrightarrow> byte_order a c < 0"
proof (induction a b arbitrary: c rule: byte_order.induct)
  case (2 b bs)
  then show ?case by (cases c) auto
next
  case (4 a as b bs)
  show ?case
  proof (cases c)
    case (Cons d ds)
    from 4(2,3) consider "(of_char a :: int) < of_char d" | "a = b" "b = d" "byte_order as bs < 0" "byte_order bs ds \<le> 0"
      unfolding Cons byte_order_less_Cons byte_order_le_Cons by fastforce
    then show ?thesis unfolding Cons byte_order_less_Cons using 4(1) by cases blast+
  qed (use 4 in simp)
qed auto

lemma string_after_trans: "string_after x now \<Longrightarrow> \<not> string_after x y \<Longrightarrow> string_after y now"
  using byte_order_trans [of now x y] byte_order_swap [of x y] by (simp add: string_after_def)

section \<open>Leases that have not run out\<close>

text \<open>
  Operations within the term \<open>x\<close> of the lease of a key: claims whose clock is before it, releases and renewals of
  other leases, and renewals of this one that do not shorten it.
\<close>

fun within_term :: "string \<times> recovery_task \<Rightarrow> string \<times> string \<Rightarrow> string \<Rightarrow> recovery_op \<Rightarrow> bool" where
  "within_term key c x (AddRecord r) = True"
| "within_term key c x (ClaimPreparation w now y h) = string_after x now"
| "within_term key c x (ClaimReconciliation w now y) = string_after x now"
| "within_term key c x (ClaimExecution e w now y) = string_after x now"
| "within_term key c x (RenewLease e k w d now y) = (key = (e, k) \<and> c = (w, d) \<longrightarrow> \<not> string_after x y)"
| "within_term key c x (ReleaseLease e k w d) = ((key, c) \<noteq> ((e, k), w, d))"

definition leased_until :: "'a recovery_repository_scheme \<Rightarrow> string \<times> recovery_task \<Rightarrow> string \<times> string \<Rightarrow> string \<Rightarrow> bool" where
  "leased_until s key c x \<longleftrightarrow> (\<exists>l. js_get (rv_leases s) (recovery_key (fst key) (snd key)) = Some l \<and>
     (hl_owner l, hl_claimedAt l) = c \<and> \<not> string_after x (hl_expiresAt l))"

lemma leased_until_held: "leased_until s key c x \<Longrightarrow> held_claim s key = Some c"
  by (auto simp: leased_until_def held_claim_def)

lemma leased_until_set:
  assumes "rv_leases t = js_set (rv_leases s) (recovery_key e k) l"
  shows "leased_until t key c x \<longleftrightarrow>
    (if key = (e, k) then (hl_owner l, hl_claimedAt l) = c \<and> \<not> string_after x (hl_expiresAt l) else leased_until s key c x)"
  using assms by (cases key) (auto simp: leased_until_def)

lemma claim_stamp_term: "claim_stamp p = Some d \<Longrightarrow> within_term key c x p = string_after x (snd d)"
  by (cases p) auto

lemma not_claimable_within:
  assumes "leased_until s (rd_executionId v, kind) c x" and "string_after x now"
  shows "claimable s kind now h e v \<noteq> Inr True"
proof -
  from assms(1) obtain l where l: "js_get (rv_leases s) (recovery_key (rd_executionId v) kind) = Some l"
    "\<not> string_after x (hl_expiresAt l)" by (auto simp: leased_until_def)
  with string_after_trans [OF assms(2)] have "string_after (hl_expiresAt l) now" by blast
  with l(1) show ?thesis by (auto simp: claimable_def and_then_Inr)
qed

lemma within_term_step:
  assumes "leased_until s key c x" and "within_term key c x p"
  shows "leased_until (recovery_do env p s) key c x \<and> key \<notin> fst ` set_option (recovery_grant env p s)"
proof (cases "claim_stamp p")
  case None
  then show ?thesis
  proof (cases p)
    case (RenewLease e k w d now y)
    with assms show ?thesis
      by (cases key) (auto simp: leased_until_def renew_lease_def split: option.splits)
  next
    case (ReleaseLease e k w d)
    with assms show ?thesis
      by (cases key) (auto simp: leased_until_def release_lease_def split: option.splits)
  qed (use assms None in \<open>auto simp: leased_until_def add_record_def\<close>)
next
  case (Some st)
  with assms(2) have before: "string_after x (snd st)" using claim_stamp_term by blast
  have stamp: "claim_stamp p = Some (fst st, snd st)" using Some by simp
  from claim_call_cases [OF stamp, of env s] show ?thesis
  proof (elim disjE exE conjE)
    fix v kind h e y
    assume v: "claimable s kind (snd st) h e v = Inr True"
      and granted: "recovery_grant env p s = Some ((rd_executionId v, kind), fst st, snd st)"
      and leases: "rv_leases (recovery_do env p s) = js_set (rv_leases s) (recovery_key (rd_executionId v) kind)
        \<lparr>hl_owner = fst st, hl_claimedAt = snd st, hl_expiresAt = y\<rparr>"
    have "key \<noteq> (rd_executionId v, kind)" using not_claimable_within assms(1) before v by blast
    with assms(1) granted leased_until_set [OF leases] show ?thesis by simp
  qed (use assms(1) in simp_all)
qed

lemma within_term_run:
  assumes "leased_until s key c x" and "\<forall>p\<in>set ps. within_term key c x p"
  shows "leased_until (fold (recovery_do env) ps s) key c x \<and>
    key \<notin> fst ` set (all_granted (recovery_do env) (recovery_grant env) ps s)"
  using assms
proof (induction ps arbitrary: s)
  case (Cons p ps)
  with within_term_step [of s key c x p env] show ?case by (auto split: option.splits)
qed simp

section \<open>A sample run\<close>

definition sample_record :: "string \<Rightarrow> recovery_record" where
  "sample_record e = \<lparr>rd_executionId = e, rd_paymentIntentId = ''intent'', rd_actorSubject = ''actor'', rd_providerIdempotencyKey = ''key'',
     rd_preparation = None, rd_recoveryLease = None, rd_executionMode = ''devnet_validation'', rd_selectedRail = ''solana'',
     rd_settlementNetwork = ''solana-devnet'', rd_executionStatus = READY\<rparr>"

definition sample_recovery :: recovery_repository where
  "sample_recovery = add_record (sample_record ''e1'') empty_recovery"

definition sample_claim :: "string \<Rightarrow> string \<Rightarrow> string \<Rightarrow> recovery_op" where
  "sample_claim w now x = ClaimPreparation w now x ''5''"

section \<open>Properties\<close>

text \<open>C25: a lease excludes every other worker for its term. Once a claim has leased a task until some time, then
  whatever claims, renewals and releases run at clocks before that time, except the holder giving it back or
  shortening it, no worker, not even the holder itself, is granted the task again, and the claim still holds it.\<close>

theorem recovery_lease_exclusive:
  assumes "recovery_grant env p s = Some (key, c)" and "claim_expiry p = Some x" and "\<forall>q\<in>set ps. within_term key c x q"
  shows "key \<notin> fst ` set (all_granted (recovery_do env) (recovery_grant env) ps (recovery_do env p s)) \<and>
    held_claim (fold (recovery_do env) ps (recovery_do env p s)) key = Some c"
proof -
  have "byte_order x x = 0" using byte_order_swap [of x x] by simp
  then have "leased_until (recovery_do env p s) key c x"
    using assms(1,2) by - (erule granted_claim; simp add: leased_until_set string_after_def)
  with within_term_run assms(3) leased_until_held show ?thesis by blast
qed

theorem recovery_lease_exclusive_witness:
  "recovery_grant sample_env (sample_claim ''w1'' ''t1'' ''t5'') sample_recovery = Some ((''e1'', PREPARATION), ''w1'', ''t1'') \<and>
   (''e1'', PREPARATION) \<notin> fst ` set (all_granted (recovery_do sample_env) (recovery_grant sample_env)
     [sample_claim ''w2'' ''t3'' ''t8''] (recovery_do sample_env (sample_claim ''w1'' ''t1'' ''t5'') sample_recovery))"
proof -
  have granted: "recovery_grant sample_env (sample_claim ''w1'' ''t1'' ''t5'') sample_recovery = Some ((''e1'', PREPARATION), ''w1'', ''t1'')"
    by code_simp
  have within: "\<forall>q\<in>set [sample_claim ''w2'' ''t3'' ''t8'']. within_term (''e1'', PREPARATION) (''w1'', ''t1'') ''t5'' q" by code_simp
  from recovery_lease_exclusive [OF granted _ within] granted show ?thesis by (simp add: sample_claim_def)
qed

text \<open>C24: the fence of a lease can be trusted. When a worker renews the lease it claimed at some time, whatever ran since,
  then no other worker has been granted that task in between, however late the renewal and whatever the clocks of
  the others were; only a second claim of the same worker at the same time could be told apart no more.\<close>

theorem recovery_renewal_fences:
  assumes "fst (renew_lease e k w c now x (fold (recovery_do env) ps s)) = Inr True"
    and "\<forall>p\<in>set ps. claim_stamp p \<noteq> Some (w, c)"
  shows "held_claim s (e, k) = Some (w, c) \<and> (e, k) \<notin> fst ` set (all_granted (recovery_do env) (recovery_grant env) ps s)"
proof -
  from assms(1) have "held_claim (fold (recovery_do env) ps s) (e, k) = Some (w, c)"
    by (auto simp: renew_lease_def held_claim_def split: option.splits if_splits)
  then show ?thesis using rl.held_throughout assms(2) by blast
qed

theorem recovery_renewal_fences_witness:
  "fst (renew_lease ''e1'' PREPARATION ''w1'' ''t1'' ''t4'' ''t9'' (fold (recovery_do sample_env) [sample_claim ''w2'' ''t3'' ''t8'']
     (recovery_do sample_env (sample_claim ''w1'' ''t1'' ''t5'') sample_recovery))) = Inr True \<and>
   (''e1'', PREPARATION) \<notin> fst ` set (all_granted (recovery_do sample_env) (recovery_grant sample_env)
     [sample_claim ''w2'' ''t3'' ''t8''] (recovery_do sample_env (sample_claim ''w1'' ''t1'' ''t5'') sample_recovery))"
proof -
  have renewed: "fst (renew_lease ''e1'' PREPARATION ''w1'' ''t1'' ''t4'' ''t9'' (fold (recovery_do sample_env) [sample_claim ''w2'' ''t3'' ''t8'']
     (recovery_do sample_env (sample_claim ''w1'' ''t1'' ''t5'') sample_recovery))) = Inr True" by code_simp
  from recovery_renewal_fences [OF renewed] renewed show ?thesis by (simp add: sample_claim_def)
qed

section \<open>The worker over the repository\<close>

text \<open>The handlers, observer, clock and stop flag of a worker, and its ports when the repository is the in-memory one.\<close>

record 'w recovery_handlers =
  rh_currentBlockHeight :: "'w \<Rightarrow> ('w, string) outcome"
  rh_prepare :: "recovery_candidate \<Rightarrow> 'w \<Rightarrow> ('w, bool) outcome"
  rh_reconcile :: "recovery_candidate \<Rightarrow> persistence_fence \<Rightarrow> ('w \<Rightarrow> ('w, bool) outcome) \<Rightarrow> 'w \<Rightarrow> ('w, bool) outcome"
  rh_observe :: "recovery_event \<Rightarrow> 'w \<Rightarrow> 'w"
  rh_clock :: "'w \<Rightarrow> string \<times> 'w"
  rh_stopping :: "'w \<Rightarrow> bool"

definition memory_ports ::
  "runtime_env \<Rightarrow> 'a recovery_repository_scheme recovery_handlers \<Rightarrow> 'a recovery_repository_scheme recovery_ports" where
  "memory_ports env h = \<lparr>rp_claimPreparation = claimPreparation env, rp_claimReconciliation = claimReconciliation env,
     rp_renew = renew_lease, rp_release = release_lease, rp_backlog = (\<lambda>now s. (Inr (inspectUnresolvedBacklog env now s), s)),
     rp_currentBlockHeight = rh_currentBlockHeight h, rp_prepare = rh_prepare h, rp_reconcile = rh_reconcile h,
     rp_observe = rh_observe h, rp_clock = rh_clock h, rp_stopping = rh_stopping h\<rparr>"

text \<open>
  A step that makes no lease held under a claim of the worker; and handlers and a clock all of whose steps are such.
  The reconciliation handler is given the renewal of its lease and may call it.
\<close>

definition quiet :: "('w \<Rightarrow> string \<times> recovery_task \<Rightarrow> (string \<times> string) option) \<Rightarrow> recovery_worker \<Rightarrow> 'w \<Rightarrow> 'w \<Rightarrow> bool" where
  "quiet held wk w w' \<longleftrightarrow> (\<forall>key n. held w' key = Some (wk_workerId wk, n) \<longrightarrow> held w key = Some (wk_workerId wk, n))"

definition quiet_handlers ::
  "('w \<Rightarrow> string \<times> recovery_task \<Rightarrow> (string \<times> string) option) \<Rightarrow> recovery_worker \<Rightarrow> 'w recovery_ports \<Rightarrow> bool" where
  "quiet_handlers held wk ports \<longleftrightarrow> (\<forall>w. quiet held wk w (snd (rp_currentBlockHeight ports w)) \<and>
     quiet held wk w (snd (rp_clock ports w)) \<and> (\<forall>c. quiet held wk w (snd (rp_prepare ports c w))) \<and>
     (\<forall>c fence renew. (\<forall>v. quiet held wk v (snd (renew v))) \<longrightarrow> quiet held wk w (snd (rp_reconcile ports c fence renew w))))"

lemma quiet_refl [simp]: "quiet held wk w w"
  by (simp add: quiet_def)

lemma quietD: "quiet held wk w w' \<Longrightarrow> held w' key = Some (wk_workerId wk, n) \<Longrightarrow> held w key = Some (wk_workerId wk, n)"
  unfolding quiet_def by blast

text \<open>
  What a worker relies on in its repository: a release frees the lease it names and no claim of the worker is
  held that its own call did not answer with.
\<close>

locale leasing_worker =
  fixes ports :: "'w recovery_ports" and wk :: recovery_worker
    and held :: "'w \<Rightarrow> string \<times> recovery_task \<Rightarrow> (string \<times> string) option"
  assumes release_frees: "held (snd (rp_release ports e k (wk_workerId wk) c w)) key = Some d \<Longrightarrow>
      held w key = Some d \<and> (key, d) \<noteq> ((e, k), wk_workerId wk, c)"
    and release_returns: "\<exists>w'. rp_release ports e k (wk_workerId wk) c w = (Inr (), w')"
    and preparation_claimed: "rp_claimPreparation ports (wk_workerId wk) now x h w = (r, w') \<Longrightarrow>
      held w' key = Some (wk_workerId wk, n) \<Longrightarrow> held w key = Some (wk_workerId wk, n) \<or>
        (\<exists>c l. r = Inr (Some c) \<and> rd_recoveryLease c = Some l \<and> lease_valid wk PREPARATION c \<and> rl_claimedAt l = n \<and>
          key = (rd_executionId c, PREPARATION))"
    and reconciliation_claimed: "rp_claimReconciliation ports (wk_workerId wk) now x w = (r, w') \<Longrightarrow>
      held w' key = Some (wk_workerId wk, n) \<Longrightarrow> held w key = Some (wk_workerId wk, n) \<or>
        (\<exists>c l. r = Inr (Some c) \<and> rd_recoveryLease c = Some l \<and> lease_valid wk RECONCILIATION c \<and> rl_claimedAt l = n \<and>
          key = (rd_executionId c, RECONCILIATION))"
    and renewal_claims_nothing: "held (snd (rp_renew ports e k (wk_workerId wk) c now x w)) = held w"
begin

lemma renew_quiet:
  assumes "quiet_handlers held wk ports"
  shows "quiet held wk w (snd (renew_claim env ports wk k e c w))"
proof -
  obtain now w1 where clock: "rp_clock ports w = (now, w1)" by (cases "rp_clock ports w")
  with assms have q: "quiet held wk w w1" by (metis quiet_handlers_def snd_conv)
  show ?thesis
  proof (cases "later_time env now (wk_leaseMs wk)")
    case (Inl err)
    with clock q show ?thesis by (simp add: renew_claim_def)
  next
    case (Inr x)
    have "held (snd (rp_renew ports e k (wk_workerId wk) c now x w1)) = held w1" by (rule renewal_claims_nothing)
    with clock q Inr show ?thesis by (simp add: renew_claim_def quiet_def)
  qed
qed

lemma handled_quiet:
  assumes "quiet_handlers held wk ports" and "lease_valid wk kind c" and "rd_recoveryLease c = Some l"
    and "handle_candidate env ports wk kind c l w = (r, w')"
  shows "quiet held wk w w' \<and> held w' (rd_executionId c, kind) \<noteq> Some (wk_workerId wk, rl_claimedAt l)"
proof -
  let ?body = "case kind of PREPARATION \<Rightarrow> rp_prepare ports c w
    | RECONCILIATION \<Rightarrow> rp_reconcile ports c \<lparr>pf_leaseOwner = rl_leaseOwner l, pf_leaseClaimedAt = rl_claimedAt l\<rparr>
        (renew_claim env ports wk kind (rd_executionId c) (rl_claimedAt l)) w"
  have body: "quiet held wk w (snd ?body)"
    using assms(1) renew_quiet [OF assms(1)] by (cases kind) (simp_all add: quiet_handlers_def)
  have "w' = snd (rp_release ports (rd_executionId c) kind (wk_workerId wk) (rl_claimedAt l) (snd ?body))"
    using assms(4) release_returns [of "rd_executionId c" kind "rl_claimedAt l" "snd ?body"]
    by (auto simp: handle_candidate_def and_finally_def split_beta then_do_def)
  with body release_frees show ?thesis unfolding quiet_def by blast
qed

lemma claim_held:
  assumes "quiet_handlers held wk ports" and "recovery_claim ports wk kind now x w = (r, w')" and "held w' key = Some (wk_workerId wk, n)"
  shows "held w key = Some (wk_workerId wk, n) \<or> (\<exists>c l. r = Inr (Some c) \<and> rd_recoveryLease c = Some l \<and> lease_valid wk kind c \<and>
    rl_claimedAt l = n \<and> key = (rd_executionId c, kind))"
proof (cases kind)
  case PREPARATION
  obtain h w1 where h: "rp_currentBlockHeight ports w = (h, w1)" by (cases "rp_currentBlockHeight ports w")
  with assms(1) have q: "quiet held wk w w1" by (metis quiet_handlers_def snd_conv)
  show ?thesis
  proof (cases h)
    case (Inl e)
    with PREPARATION h assms(2,3) q show ?thesis by (auto simp: recovery_claim_def dest: quietD)
  next
    case (Inr height)
    with PREPARATION h assms(2) have "rp_claimPreparation ports (wk_workerId wk) now x height w1 = (r, w')"
      by (simp add: recovery_claim_def)
    from preparation_claimed [OF this assms(3)] q PREPARATION show ?thesis by (auto dest: quietD)
  qed
next
  case RECONCILIATION
  with assms(2) have "rp_claimReconciliation ports (wk_workerId wk) now x w = (r, w')" by (simp add: recovery_claim_def)
  from reconciliation_claimed [OF this assms(3)] RECONCILIATION show ?thesis by simp
qed

lemma process_gives_back:
  assumes "quiet_handlers held wk ports" and "rp_clock ports w = (now, w1)" and "process_recovery env ports wk kind w = (r, w')"
    and "held w' key = Some (wk_workerId wk, n)"
  shows "held w key = Some (wk_workerId wk, n)"
proof -
  have q: "quiet held wk w w1" using assms(1,2) by (metis quiet_handlers_def snd_conv)
  show ?thesis
  proof (cases "later_time env now (wk_leaseMs wk)")
    case (Inl e)
    with assms q show ?thesis by (auto simp: process_recovery_def dest: quietD)
  next
    case (Inr x)
    obtain cr w2 where claim: "recovery_claim ports wk kind now x w1 = (cr, w2)"
      by (cases "recovery_claim ports wk kind now x w1")
    note held = claim_held [OF assms(1) claim]
    show ?thesis
    proof (cases "\<exists>c l. cr = Inr (Some c) \<and> rd_recoveryLease c = Some l \<and> lease_valid wk kind c")
      case True
      then obtain c l where c: "cr = Inr (Some c)" "rd_recoveryLease c = Some l" "lease_valid wk kind c" by blast
      with assms(2,3) Inr claim have "handle_candidate env ports wk kind c l w2 = (r, w')"
        by (simp add: process_recovery_def)
      note handled_quiet [OF assms(1) c(3,2) this]
      with assms(4) have "held w2 key = Some (wk_workerId wk, n)" "(key, n) \<noteq> ((rd_executionId c, kind), rl_claimedAt l)"
        by (auto dest: quietD)
      with held [OF this(1)] c q show ?thesis by (auto dest: quietD)
    next
      case False
      with assms(2,3) Inr claim have "w' = w2"
        by (cases cr) (auto simp: process_recovery_def lease_valid_def split: option.splits bool.splits if_splits)
      with held [of key n] False assms(4) have "held w1 key = Some (wk_workerId wk, n)" by blast
      with quietD [OF q] show ?thesis by blast
    qed
  qed
qed

end

lemma claim_recovery_held:
  assumes "claim_recovery env kind (wk_workerId wk) now x h None w = (r, w')" and "held_claim w' key = Some (wk_workerId wk, n)"
  shows "held_claim w key = Some (wk_workerId wk, n) \<or> (\<exists>c l. r = Inr (Some c) \<and> rd_recoveryLease c = Some l \<and>
    lease_valid wk kind c \<and> rl_claimedAt l = n \<and> key = (rd_executionId c, kind))"
  using recovery_claim_cases [OF assms(1)]
proof (elim disjE conjE bexE)
  fix v
  assume answered: "lease_answered r = Some ((rd_executionId v, kind), wk_workerId wk, now)"
    and leases: "rv_leases w' = js_set (rv_leases w) (recovery_key (rd_executionId v) kind)
      \<lparr>hl_owner = wk_workerId wk, hl_claimedAt = now, hl_expiresAt = x\<rparr>"
  from answered obtain c l where c: "r = Inr (Some c)" "rd_recoveryLease c = Some l" "rd_executionId c = rd_executionId v"
    "rl_taskKind l = kind" "rl_leaseOwner l = wk_workerId wk" "rl_claimedAt l = now"
    by (auto simp: lease_answered_def lease_of_def split: sum.splits option.splits)
  then have "lease_valid wk kind c" by (simp add: lease_valid_def)
  with c assms(2) held_claim_set [OF leases, of key] show ?thesis by (cases "key = (rd_executionId v, kind)") auto
qed (use assms(2) in simp)

interpretation mw: leasing_worker "memory_ports env h" wk held_claim for env h wk
proof
  fix e k c d now x r n key height and w w' :: "'a recovery_repository_scheme"
  show "held_claim w key = Some d \<and> (key, d) \<noteq> ((e, k), wk_workerId wk, c)"
    if "held_claim (snd (rp_release (memory_ports env h) e k (wk_workerId wk) c w)) key = Some d"
    using held_claim_release that by (simp add: memory_ports_def)
  show "\<exists>w'. rp_release (memory_ports env h) e k (wk_workerId wk) c w = (Inr (), w')"
    by (simp add: memory_ports_def release_lease_def)
  show "held_claim (snd (rp_renew (memory_ports env h) e k (wk_workerId wk) c now x w)) = held_claim w"
    by (rule ext) (simp add: memory_ports_def)
  show "held_claim w key = Some (wk_workerId wk, n) \<or> (\<exists>c l. r = Inr (Some c) \<and> rd_recoveryLease c = Some l \<and>
      lease_valid wk PREPARATION c \<and> rl_claimedAt l = n \<and> key = (rd_executionId c, PREPARATION))"
    if claim: "rp_claimPreparation (memory_ports env h) (wk_workerId wk) now x height w = (r, w')"
      and held: "held_claim w' key = Some (wk_workerId wk, n)"
  proof (cases "is_block_height height")
    case True
    with claim have "claim_recovery env PREPARATION (wk_workerId wk) now x height None w = (r, w')"
      by (simp add: memory_ports_def claimPreparation_def)
    from claim_recovery_held [OF this held] show ?thesis .
  qed (use claim held in \<open>simp add: memory_ports_def claimPreparation_def\<close>)
  show "held_claim w key = Some (wk_workerId wk, n) \<or> (\<exists>c l. r = Inr (Some c) \<and> rd_recoveryLease c = Some l \<and>
      lease_valid wk RECONCILIATION c \<and> rl_claimedAt l = n \<and> key = (rd_executionId c, RECONCILIATION))"
    if "rp_claimReconciliation (memory_ports env h) (wk_workerId wk) now x w = (r, w')"
      and "held_claim w' key = Some (wk_workerId wk, n)"
    using claim_recovery_held that by (simp add: memory_ports_def claimReconciliation_def)
qed

definition sample_handlers :: "recovery_repository recovery_handlers" where
  "sample_handlers = \<lparr>rh_currentBlockHeight = (\<lambda>w. (Inr ''5'', w)), rh_prepare = (\<lambda>c w. (throw ''handler'', w)),
     rh_reconcile = (\<lambda>c f renew w. renew w), rh_observe = (\<lambda>e w. w), rh_clock = (\<lambda>w. (''t1'', w)), rh_stopping = (\<lambda>w. False)\<rparr>"

definition sample_worker :: recovery_worker where
  "sample_worker = \<lparr>wk_workerId = ''w1'', wk_preparationEnabled = True, wk_reconciliationEnabled = True, wk_leaseMs = 3\<rparr>"

text \<open>C40: a worker gives back every lease. Whatever the repository holds and whether the task succeeds, finds nothing or
  throws, a lease held under a claim of the worker when its task is over was already held under that claim before it
  began, as long as the handlers and the clock make no claims of the worker themselves.\<close>

theorem worker_returns_its_lease:
  assumes "quiet_handlers held_claim wk (memory_ports env h)"
    and "process_recovery env (memory_ports env h) wk kind w = (r, w')"
    and "held_claim w' key = Some (wk_workerId wk, n)"
  shows "held_claim w key = Some (wk_workerId wk, n)"
  using mw.process_gives_back [OF assms(1) prod.collapse [symmetric] assms(2,3)] .

theorem worker_returns_its_lease_witness:
  "\<exists>w'. process_recovery sample_env (memory_ports sample_env sample_handlers) sample_worker PREPARATION sample_recovery
       = (throw ''handler'', w') \<and> held_claim w' (''e1'', PREPARATION) \<noteq> Some (''w1'', ''t1'')"
proof -
  let ?run = "process_recovery sample_env (memory_ports sample_env sample_handlers) sample_worker PREPARATION sample_recovery"
  have quiet: "quiet_handlers held_claim sample_worker (memory_ports sample_env sample_handlers)"
    unfolding quiet_handlers_def memory_ports_def sample_handlers_def recovery_ports.simps recovery_handlers.simps prod.sel
    by (intro allI conjI impI quiet_refl) (erule allE)
  have before: "held_claim sample_recovery (''e1'', PREPARATION) = None"
    by (simp add: sample_recovery_def add_record_def empty_recovery_def held_claim_def)
  have threw: "fst ?run = throw ''handler''" by code_simp
  obtain r w' where run: "?run = (r, w')" by (cases ?run)
  have "held_claim w' (''e1'', PREPARATION) \<noteq> Some (''w1'', ''t1'')"
  proof
    assume "held_claim w' (''e1'', PREPARATION) = Some (''w1'', ''t1'')"
    then have "held_claim w' (''e1'', PREPARATION) = Some (wk_workerId sample_worker, ''t1'')"
      by (simp only: sample_worker_def recovery_worker.simps)
    from worker_returns_its_lease [OF quiet run this] before show False by simp
  qed
  with threw run show ?thesis by auto
qed

end
