(* ===== verification/Spec2Isabelle.thy ===== *)
theory Spec2Isabelle
  imports ExecutionServiceProperties GrowthWorker DevnetReconciliation DevnetSubmission RequestValidation Configuration
    RecipientProperties PaymentRequestProperties PostgresProperties DevnetRecoveryProperties
begin

text \<open>
  The backend of zephipay, a payment service on Solana, as HOL functions with the properties that make it correct.
  Paths are relative to the repository's root.

  THE PROGRAM AND ITS PARTS.  A verified principal (a token of an identity provider) is resolved to an account. The
  account publishes a user name and payment destinations. It creates a payment intent under an idempotency key, for a
  wallet or for another account, and confirms the intent by repeating its request hash and version. A confirmed intent
  becomes an execution; a worker leases executions, has the rail submit them, and reconciles what it cannot tell. On
  Devnet the transaction is prepared and kept encrypted, committed once, contacted once, and afterwards only reconciled
  against finalized answers of a second provider. Settled executions have receipts; receipts become growth events, and
  growth events become points. Every persistence is a contract with an in-memory implementation; the payment
  persistence is modelled on PostgreSQL too.

  STYLE OF THE MODEL.  A class is a record of its fields, a method is a function from the state it finds to what it
  answers or throws and the state it leaves (\<open>'a result\<close> is \<open>error + 'a\<close>, an error has a class and a message). A method
  that runs under \<open>exclusive\<close> or in a transaction is one step; a service that calls a persistence several times takes
  as an argument what other requests do between its calls. JavaScript's \<open>Map\<close> is an association list in insertion
  order (\<open>js_get\<close>, \<open>js_set\<close>), a bigint an \<open>int\<close>, a string a list of characters. Definitions are executable.

  THE THEORIES, in the order the program has them (each opens with the source it models):

  \<^item> Shared: \<open>Prelude\<close> (errors, maps, sorting, strings, times, \<open>runtime_env\<close>; locale \<open>keyed_store\<close>, interpreted on the
    maps), \<open>JsonValues\<close> and \<open>JsonText\<close> (\<open>src/storage/jsonValues.ts\<close>, JSON text), \<open>Versioned\<close> (locales
    \<open>guarded_machine\<close> and \<open>versioned_store\<close>).
  \<^item> Payments: \<open>PaymentTypes\<close>, \<open>PaymentLifecycle\<close>, \<open>RequestHash\<close>, \<open>PaymentIdentityReplay\<close>, \<open>PaymentIntentValidation\<close>
    (\<open>src/payments/\<close>), \<open>RequestValidation\<close> (\<open>src/validation/\<close>, Solana errors), \<open>Allowlist\<close>.
  \<^item> Payment persistence: \<open>PaymentStore\<close> (\<open>src/storage/memory/inMemoryPaymentPersistence.ts\<close>), its abstract
    specification \<open>store_step\<close> and invariant \<open>store_ok\<close> in \<open>PaymentStoreSpec\<close>, the refinement in
    \<open>PaymentStoreRefinement\<close>, what follows for all reachable states in \<open>PaymentStoreProperties\<close> and
    \<open>PaymentStoreQueries\<close> (interpretation \<open>pm\<close> of \<open>versioned_store\<close>).
  \<^item> The same contract on PostgreSQL: \<open>PostgresTables\<close> (tables, checks, indexes and triggers of \<open>src/migrations\<close>),
    \<open>PostgresPayments\<close> (\<open>src/storage/postgres/postgresPaymentPersistence.ts\<close>), \<open>PostgresRefinement\<close> (the tables
    represent a state of the contract and every operation moves along \<open>store_step\<close>), \<open>PostgresProperties\<close> (histories;
    interpretation \<open>qm\<close>).
  \<^item> Identity: \<open>IdentityTypes\<close>, \<open>IdentityStore\<close>, \<open>IdentityStoreProperties\<close> (\<open>src/identity/\<close> and its in-memory
    persistence, with account provisioning).
  \<^item> Intents: \<open>PaymentIntentService\<close> and its properties (\<open>src/services/paymentIntentService.ts\<close>).
  \<^item> Economic identity and recipients: \<open>EconomicIdentity\<close>, \<open>EconomicIdentityProperties\<close> (interpretation \<open>em\<close>),
    \<open>Recipients\<close>, \<open>RecipientProperties\<close> (\<open>src/economicIdentity/\<close>, \<open>src/recipients/\<close>).
  \<^item> Payment requests: \<open>PaymentRequests\<close>, \<open>PaymentRequestService\<close>, \<open>PaymentRequestProperties\<close>
    (\<open>src/paymentRequests/\<close>; interpretation \<open>rm\<close>).
  \<^item> Executions: \<open>Executions\<close>, \<open>ExecutionProperties\<close> (interpretation \<open>xm\<close>), \<open>ExecutionService\<close> (service and worker),
    \<open>ExecutionServiceProperties\<close> (interpretation \<open>pr\<close>), \<open>WorkerLoop\<close> (\<open>src/executions/\<close>).
  \<^item> Devnet: \<open>DevnetState\<close> and \<open>DevnetStateProperties\<close> (\<open>src/devnet/devnetExecutionState.ts\<close>, its repository and its
    specification \<open>devnet_change\<close>; interpretation \<open>dm\<close>), \<open>DevnetOrchestration\<close>, \<open>DevnetSubmission\<close> (any number of
    submissions at once, interpretation \<open>sm\<close>), \<open>DevnetReconciliation\<close>, \<open>DevnetRecovery\<close> and
    \<open>DevnetRecoveryProperties\<close> (recovery leases and worker; locales \<open>lease_book\<close> and \<open>leasing_worker\<close>, interpreted as
    \<open>rl\<close> and \<open>mw\<close>).
  \<^item> Growth: \<open>Growth\<close>, \<open>GrowthStore\<close>, \<open>GrowthWorker\<close>, \<open>GrowthProperties\<close> (\<open>src/growth/\<close> and its PostgreSQL
    repositories).
  \<^item> \<open>Configuration\<close> (\<open>src/config/environment.ts\<close>).

  WHAT THE LEMMAS SHOW.  Per persistence: a well-formedness invariant that every operation keeps, the outcome of every
  operation on every branch, and a step relation every operation refines; from these, by induction over runs, the
  properties of all reachable states: completion exactly with a verified receipt, one payment per settled signature,
  terminal states final, trails that replay the status, versions that fence stale writes, names and primary
  destinations that are unique, identities that keep their account. Per service: who may do what, on what stored
  evidence, and that it is done once (confirmation, execution, acceptance of a request, submission to the chain,
  recovery lease, points of a growth event), with other requests interleaved. The remaining groups are the round trips
  of prepared transactions and amounts, exact ranges of validators, and progress of reconciliation and projection.

  INTERFACES.  \<open>keyed_store\<close> states get-after-set; \<open>guarded_machine\<close> that steps keep an invariant; \<open>versioned_store\<close>
  that no step lowers a version and a conditional write needs the version it names, so of two writes against one version
  one wins; \<open>lease_book\<close> what a claim, a renewal and a release do to the claim under which a lease is held, so a renewed
  lease was granted to nobody since; \<open>leasing_worker\<close> what a worker may rely on when it processes a task. Each is
  interpreted on the model's own definitions, and properties rest on the interpretations.

  PARAMETERS.  What is not code of the repository is an argument: SHA-256, the reading of times and numbers by the
  runtime (\<open>runtime_env\<close>, \<open>config_runtime\<close>), clocks and new ids, what PostgreSQL reads in a uuid, a time and a document
  (\<open>database\<close>), AES-256-GCM (\<open>aead\<close>), the rail of zephyon-protocol (\<open>rail_runtime\<close>, \<open>devnet_ports\<close>), the
  providers of the chain, the handlers of the recovery worker. Assumptions on them are named: \<open>proper_database\<close> (a
  canonical uuid has 36 characters), \<open>opens_what_it_seals\<close> (decryption inverts encryption under the same key and
  context), \<open>directory_keys\<close> (the unique keys the migrations put on accounts and primary destinations),
  \<open>context_ok\<close> and \<open>signature_ok\<close> (a reconciliation gets well-formed fields and keeps its lease), \<open>interference_ok\<close>,
  \<open>proper_others\<close> (other clients use the repository's operations), \<open>quiet_handlers\<close> (a
  handler or callback obtains no lease for the worker itself). Each property with a hypothesis has a witness on a
  concrete instance.

  BOUNDS AND FUEL.  Characters are UTF-16 code units below 256. Integers are unbounded as bigints are; limits of
  \<open>bigint\<close> columns and of safe integers are checks of the code and written out. No operation needs fuel: loops are
  structural, and the polling loop is a step relation.

  NOT MODELLED.  The other PostgreSQL adapters (their contracts are modelled by the in-memory ones; the refinement is
  proved for payments), the economic authority \<open>src/economic\<close>, the HTTP routes and the server, token verification, the Solana
  RPC and SDK calls (\<open>src/adapters/solana\<close>, \<open>src/services/payservice.ts\<close>), observability and telemetry, health and
  lifecycle, the receipt verifier and registry, the operator scripts of Devnet, and the end-to-end harness. They are
  input and output, composition, or calls of libraries. Of the worker of executions the rail runtime is an argument; of
  the payment tables the column \<open>execution_receipt_id\<close>, never set by the payment adapter, is left out.
\<close>

end
